(* ===== verification/Prelude.thy ===== *)
theory Prelude
  imports Main "HOL-Library.Sublist" "HOL-Library.Char_ord" "HOL-Library.List_Lexorder"
begin

text \<open>
  Shared vocabulary of the development: relational tables and the three SQL statements the
  repositories issue on them, string helpers of the JavaScript standard library, and the
  collections of rewrite rules (\<open>table_simps\<close>, \<open>op_simps\<close>) the component proofs use.

  A table is the list of its rows. The SQL text in the repositories is part of the source and is
  translated statement by statement: \<open>UPDATE ... WHERE\<close> is \<open>update_where\<close>, \<open>DELETE\<close> is
  \<open>delete_where\<close>, a single-row \<open>SELECT\<close> is \<open>find_row\<close>, and \<open>rowCount\<close> is \<open>row_count\<close>.
  A comparison with a \<open>NULL\<close> column is not true, so it selects no row.
\<close>

named_theorems table_simps "rewriting of table statements"
named_theorems op_simps "unfolding of state operations"

subsection \<open>Time and option helpers\<close>

type_synonym time = int  \<comment> \<open>milliseconds since the epoch\<close>

text \<open>SQL comparison of a nullable timestamp: \<open>NULL <= t\<close> is not true.\<close>

definition sql_le :: "time option \<Rightarrow> time \<Rightarrow> bool" where
  "sql_le a t = (case a of None \<Rightarrow> False | Some x \<Rightarrow> x \<le> t)"

definition sql_less :: "time option \<Rightarrow> time \<Rightarrow> bool" where
  "sql_less a t = (case a of None \<Rightarrow> False | Some x \<Rightarrow> x < t)"

lemma sql_le_simps [simp]: "sql_le None t = False" "sql_le (Some x) t = (x \<le> t)"
  by (simp_all add: sql_le_def)

lemma sql_less_simps [simp]: "sql_less None t = False" "sql_less (Some x) t = (x < t)"
  by (simp_all add: sql_less_def)

text \<open>The nullish-coalescing operator \<open>a ?? b\<close> on a nullable value.\<close>

definition nullish :: "'a option \<Rightarrow> 'a \<Rightarrow> 'a" where
  "nullish a b = (case a of None \<Rightarrow> b | Some x \<Rightarrow> x)"

lemma nullish_simps [simp]: "nullish None b = b" "nullish (Some x) b = x"
  by (simp_all add: nullish_def)

subsection \<open>Tables\<close>

definition update_where :: "('r \<Rightarrow> bool) \<Rightarrow> ('r \<Rightarrow> 'r) \<Rightarrow> 'r list \<Rightarrow> 'r list" where
  "update_where P f t = map (\<lambda>r. if P r then f r else r) t"

definition delete_where :: "('r \<Rightarrow> bool) \<Rightarrow> 'r list \<Rightarrow> 'r list" where
  "delete_where P t = filter (\<lambda>r. \<not> P r) t"

definition find_row :: "('r \<Rightarrow> bool) \<Rightarrow> 'r list \<Rightarrow> 'r option" where
  "find_row P t = List.find P t"

definition row_count :: "('r \<Rightarrow> bool) \<Rightarrow> 'r list \<Rightarrow> nat" where
  "row_count P t = length (filter P t)"

definition row_exists :: "('r \<Rightarrow> bool) \<Rightarrow> 'r list \<Rightarrow> bool" where
  "row_exists P t = list_ex P t"

definition unique_on :: "('r \<Rightarrow> 'k) \<Rightarrow> 'r list \<Rightarrow> bool" where
  "unique_on key t = distinct (map key t)"

lemma update_where_simps [simp, table_simps]:
  "update_where P f [] = []"
  "update_where P f (r # t) = (if P r then f r else r) # update_where P f t"
  by (simp_all add: update_where_def)

lemma update_where_append [simp, table_simps]:
  "update_where P f (t @ u) = update_where P f t @ update_where P f u"
  by (simp add: update_where_def)

lemma delete_where_simps [simp, table_simps]:
  "delete_where P [] = []"
  "delete_where P (r # t) = (if P r then delete_where P t else r # delete_where P t)"
  by (simp_all add: delete_where_def)

lemma find_row_simps [simp, table_simps]:
  "find_row P [] = None"
  "find_row P (r # t) = (if P r then Some r else find_row P t)"
  by (simp_all add: find_row_def)

lemma row_count_simps [simp, table_simps]:
  "row_count P [] = 0"
  "row_count P (r # t) = (if P r then Suc (row_count P t) else row_count P t)"
  by (simp_all add: row_count_def)

lemma row_exists_simps [simp, table_simps]:
  "row_exists P [] = False"
  "row_exists P (r # t) = (P r \<or> row_exists P t)"
  by (simp_all add: row_exists_def)

lemma row_exists_iff: "row_exists P t \<longleftrightarrow> (\<exists>r \<in> set t. P r)"
  by (simp add: row_exists_def list_ex_iff)

lemma set_update_where: "set (update_where P f t) = (\<lambda>r. if P r then f r else r) ` set t"
  by (simp add: update_where_def)

lemma set_delete_where [simp]: "set (delete_where P t) = {r \<in> set t. \<not> P r}"
  by (simp add: delete_where_def)

lemma find_row_SomeD: "find_row P t = Some r \<Longrightarrow> r \<in> set t \<and> P r"
  by (induction t) (auto split: if_splits)

lemma find_row_None_iff: "find_row P t = None \<longleftrightarrow> (\<forall>r \<in> set t. \<not> P r)"
  by (induction t) auto

lemma find_row_NoneD: "find_row P t = None \<Longrightarrow> r \<in> set t \<Longrightarrow> \<not> P r"
  by (simp add: find_row_None_iff)

lemma row_count_pos_iff: "0 < row_count P t \<longleftrightarrow> (\<exists>r \<in> set t. P r)"
  by (induction t) auto

lemma row_count_zero_iff: "row_count P t = 0 \<longleftrightarrow> (\<forall>r \<in> set t. \<not> P r)"
  by (induction t) auto

lemma update_where_none: "\<forall>r \<in> set t. \<not> P r \<Longrightarrow> update_where P f t = t"
  by (induction t) auto

lemma map_key_update_where:
  assumes "\<And>r. key (f r) = key r"
  shows "map key (update_where P f t) = map key t"
  using assms by (induction t) auto

lemma unique_on_update_where:
  assumes "\<And>r. key (f r) = key r"
  shows "unique_on key (update_where P f t) = unique_on key t"
  using map_key_update_where [of key f P t] assms by (simp add: unique_on_def)

lemma unique_on_delete_where: "unique_on key t \<Longrightarrow> unique_on key (delete_where P t)"
  by (induction t) (auto simp: unique_on_def)

lemma unique_on_append_single:
  "unique_on key (t @ [r]) \<longleftrightarrow> unique_on key t \<and> key r \<notin> key ` set t"
  by (auto simp: unique_on_def)

lemma unique_on_same:
  "unique_on key t \<Longrightarrow> r \<in> set t \<Longrightarrow> r' \<in> set t \<Longrightarrow> key r = key r' \<Longrightarrow> r = r'"
  by (auto simp: unique_on_def distinct_map inj_on_def)

text \<open>
  Updating the one row with key \<open>i\<close> keeps a second unique column unique when the new value is
  not taken by another row.
\<close>

lemma unique_on_update_one:
  assumes "unique_on key t" and "unique_on k2 t"
    and "\<forall>r \<in> set t. key r = i \<longrightarrow> (\<forall>x \<in> set t. key x \<noteq> i \<longrightarrow> k2 x \<noteq> k2 (f r))"
  shows "unique_on k2 (update_where (\<lambda>x. key x = i) f t)"
  using assms
proof (induction t)
  case Nil
  then show ?case by simp
next
  case (Cons y t)
  then have IH: "unique_on k2 (update_where (\<lambda>x. key x = i) f t)"
    by (auto simp: unique_on_def)
  show ?case
  proof (cases "key y = i")
    case True
    then have "\<forall>x \<in> set t. key x \<noteq> i"
      using Cons.prems(1) by (auto simp: unique_on_def image_iff)
    then show ?thesis
      using Cons.prems True by (auto simp: unique_on_def update_where_none image_iff)
  next
    case False
    then have "k2 y \<notin> k2 ` set (update_where (\<lambda>x. key x = i) f t)"
      using Cons.prems(2,3) by (auto simp: unique_on_def set_update_where image_iff)
    with IH False show ?thesis by (simp add: unique_on_def)
  qed
qed

text \<open>On a table with unique keys, a statement that selects by key touches at most one row.\<close>

lemma row_count_unique_le:
  assumes "unique_on key t"
  shows "row_count (\<lambda>r. key r = k \<and> Q r) t \<le> 1"
  using assms
proof (induction t)
  case Nil
  then show ?case by simp
next
  case (Cons r t)
  have "row_count (\<lambda>r. key r = k \<and> Q r) t = 0" if "key r = k"
    using Cons.prems that by (auto simp: row_count_zero_iff unique_on_def image_iff)
  with Cons show ?case by (auto simp: unique_on_def)
qed

lemma row_count_unique_one:
  assumes "unique_on key t"
  shows "row_count (\<lambda>r. key r = k \<and> Q r) t = 1 \<longleftrightarrow> (\<exists>r \<in> set t. key r = k \<and> Q r)"
  using row_count_unique_le [OF assms, of k Q] row_count_pos_iff [of "\<lambda>r. key r = k \<and> Q r" t]
  by linarith

lemma find_row_by_key:
  assumes "unique_on key t" and "r \<in> set t"
  shows "find_row (\<lambda>x. key x = key r) t = Some r"
  using assms by (induction t) (auto simp: unique_on_def)

text \<open>Reading by key after an update that selects by key and keeps the key.\<close>

lemma find_row_update_same:
  assumes "\<And>r. key (f r) = key r"
  shows "find_row (\<lambda>r. key r = k) (update_where (\<lambda>r. key r = k \<and> Q r) f t) =
    map_option (\<lambda>r. if Q r then f r else r) (find_row (\<lambda>r. key r = k) t)"
  using assms by (induction t) auto

lemma find_row_update_same':
  assumes "\<And>r. key (f r) = key r"
  shows "find_row (\<lambda>r. key r = k) (update_where (\<lambda>r. key r = k) f t) =
    map_option f (find_row (\<lambda>r. key r = k) t)"
  using assms by (induction t) auto

lemma find_row_update_other:
  assumes "\<And>r. key (f r) = key r" and "k' \<noteq> k"
  shows "find_row (\<lambda>r. key r = k') (update_where (\<lambda>r. key r = k \<and> Q r) f t) =
    find_row (\<lambda>r. key r = k') t"
  using assms by (induction t) auto

lemma find_row_delete_same: "find_row P (delete_where P t) = None"
  by (induction t) auto

lemma find_row_delete_other:
  assumes "\<And>r. P r \<Longrightarrow> \<not> Q r"
  shows "find_row P (delete_where Q t) = find_row P t"
  using assms by (induction t) auto

lemma find_row_append [table_simps]:
  "find_row P (t @ u) = (case find_row P t of None \<Rightarrow> find_row P u | Some r \<Rightarrow> Some r)"
  by (induction t) auto

lemma find_row_update_where:
  assumes "\<And>r. Q (f r) = Q r"
  shows "find_row Q (update_where P f t) = map_option (\<lambda>r. if P r then f r else r) (find_row Q t)"
  using assms by (induction t) auto

lemma row_count_delete_other: "(\<And>r. P r \<Longrightarrow> \<not> Q r) \<Longrightarrow> row_count P (delete_where Q t) = row_count P t"
  by (induction t) auto

lemma row_count_update_other:
  "(\<And>r. r \<in> set t \<Longrightarrow> Q r \<Longrightarrow> \<not> P r \<and> \<not> P (f r)) \<Longrightarrow> row_count P (update_where Q f t) = row_count P t"
  by (induction t) auto

lemma row_count_none: "(\<And>r. r \<in> set t \<Longrightarrow> \<not> P r) \<Longrightarrow> row_count P t = 0"
  by (simp add: row_count_zero_iff)

lemma row_exists_append [simp, table_simps]:
  "row_exists P (t @ u) = (row_exists P t \<or> row_exists P u)"
  by (auto simp: row_exists_iff)

lemma row_exists_delete [simp, table_simps]:
  "row_exists P (delete_where Q t) = row_exists (\<lambda>r. P r \<and> \<not> Q r) t"
  by (auto simp: row_exists_iff)

lemma row_exists_map [simp, table_simps]: "row_exists P (map f t) = row_exists (\<lambda>r. P (f r)) t"
  by (simp add: row_exists_iff)

lemma row_exists_cong:
  "(\<And>r. r \<in> set t \<Longrightarrow> P r = Q r) \<Longrightarrow> row_exists P t = row_exists Q t"
  by (auto simp: row_exists_iff)

lemma row_count_append [simp, table_simps]:
  "row_count P (t @ u) = row_count P t + row_count P u"
  by (simp add: row_count_def)

subsection \<open>Strings\<close>

text \<open>
  Lower-casing as PostgreSQL's \<open>citext\<close> and JavaScript's \<open>toLowerCase\<close> do on the ASCII
  range: upper-case letters move to lower-case letters, everything else is kept.
\<close>

definition is_upper :: "char \<Rightarrow> bool" where
  "is_upper c = (65 \<le> (of_char c :: nat) \<and> (of_char c :: nat) \<le> 90)"

definition is_lower :: "char \<Rightarrow> bool" where
  "is_lower c = (97 \<le> (of_char c :: nat) \<and> (of_char c :: nat) \<le> 122)"

definition is_digit :: "char \<Rightarrow> bool" where
  "is_digit c = (48 \<le> (of_char c :: nat) \<and> (of_char c :: nat) \<le> 57)"

definition lower_char :: "char \<Rightarrow> char" where
  "lower_char c = (if is_upper c then char_of ((of_char c :: nat) + 32) else c)"

definition to_lower :: "string \<Rightarrow> string" where
  "to_lower s = map lower_char s"

definition upper_char :: "char \<Rightarrow> char" where
  "upper_char c = (if is_lower c then char_of ((of_char c :: nat) - 32) else c)"

definition to_upper :: "string \<Rightarrow> string" where
  "to_upper s = map upper_char s"

definition citext_eq :: "string \<Rightarrow> string \<Rightarrow> bool" where
  "citext_eq a b = (to_lower a = to_lower b)"

lemma lower_char_not_upper: "\<not> is_upper (lower_char c)"
  by (auto simp: lower_char_def is_upper_def)

lemma lower_char_idem [simp]: "lower_char (lower_char c) = lower_char c"
  using lower_char_not_upper [of c] by (simp add: lower_char_def [of "lower_char c"])

lemma to_lower_idem [simp]: "to_lower (to_lower s) = to_lower s"
  by (simp add: to_lower_def)

lemma to_lower_length [simp]: "length (to_lower s) = length s"
  by (simp add: to_lower_def)

lemma citext_eq_refl [simp]: "citext_eq a a"
  by (simp add: citext_eq_def)

lemma citext_eq_sym: "citext_eq a b = citext_eq b a"
  by (auto simp: citext_eq_def)

text \<open>Decimal notation of a number, as a template literal interpolates it.\<close>

fun show_nat :: "nat \<Rightarrow> string" where
  "show_nat n = (if n < 10 then [char_of (48 + n)] else show_nat (n div 10) @ [char_of (48 + n mod 10)])"

declare show_nat.simps [simp del]

definition show_int :: "int \<Rightarrow> string" where
  "show_int i = (if i < 0 then CHR ''-'' # show_nat (nat (- i)) else show_nat (nat i))"

text \<open>\<open>s.split(c)\<close> for a one-character separator; \<open>split_on c []\<close> is one empty part.\<close>

fun split_on :: "char \<Rightarrow> string \<Rightarrow> string list" where
  "split_on c [] = [[]]"
| "split_on c (x # xs) =
     (if x = c then [] # split_on c xs
      else (case split_on c xs of [] \<Rightarrow> [[x]] | p # ps \<Rightarrow> (x # p) # ps))"

lemma split_on_not_Nil [simp]: "split_on c s \<noteq> []"
  by (cases s) (auto split: list.splits)

lemma split_on_no_sep: "c \<notin> set s \<Longrightarrow> split_on c s = [s]"
  by (induction s) auto

lemma split_on_parts: "p \<in> set (split_on c s) \<Longrightarrow> c \<notin> set p"
  by (induction s arbitrary: p) (auto split: if_splits list.splits)

lemma split_on_append_sep: "c \<notin> set p \<Longrightarrow> split_on c (p @ c # s) = p # split_on c s"
  by (induction p) auto

text \<open>Joining the parts with the separator gives the string back.\<close>

fun join_with :: "char \<Rightarrow> string list \<Rightarrow> string" where
  "join_with c [] = []"
| "join_with c [p] = p"
| "join_with c (p # q # ps) = p @ c # join_with c (q # ps)"

lemma join_split: "join_with c (split_on c s) = s"
proof (induction s)
  case Nil
  then show ?case by simp
next
  case (Cons x xs)
  obtain p ps where "split_on c xs = p # ps"
    by (cases "split_on c xs") auto
  with Cons show ?case by (cases ps) auto
qed

text \<open>\<open>s.trim()\<close>: leading and trailing white space (space, tab, LF, VT, FF, CR,
  no-break space) removed.\<close>

definition is_space :: "char \<Rightarrow> bool" where
  "is_space c = ((of_char c :: nat) \<in> {9, 10, 11, 12, 13, 32, 160})"

definition trim :: "string \<Rightarrow> string" where
  "trim s = rev (dropWhile is_space (rev (dropWhile is_space s)))"

text \<open>The same tests on the bits of a character, for evaluation.\<close>

lemma is_upper_bits [code]:
  "is_upper (Char b0 b1 b2 b3 b4 b5 b6 b7) \<longleftrightarrow> \<not> b7 \<and> b6 \<and> \<not> b5 \<and>
     (b0 \<or> b1 \<or> b2 \<or> b3 \<or> b4) \<and> \<not> (b4 \<and> b3 \<and> (b2 \<or> b1 \<and> b0))"
  by (cases b0; cases b1; cases b2; cases b3; cases b4; cases b5; cases b6; cases b7)
    (simp_all add: is_upper_def)

lemma is_lower_bits [code]:
  "is_lower (Char b0 b1 b2 b3 b4 b5 b6 b7) \<longleftrightarrow> \<not> b7 \<and> b6 \<and> b5 \<and>
     (b0 \<or> b1 \<or> b2 \<or> b3 \<or> b4) \<and> \<not> (b4 \<and> b3 \<and> (b2 \<or> b1 \<and> b0))"
  by (cases b0; cases b1; cases b2; cases b3; cases b4; cases b5; cases b6; cases b7)
    (simp_all add: is_lower_def)

lemma is_digit_bits [code]:
  "is_digit (Char b0 b1 b2 b3 b4 b5 b6 b7) \<longleftrightarrow> \<not> b7 \<and> \<not> b6 \<and> b5 \<and> b4 \<and> (b3 \<longrightarrow> \<not> b2 \<and> \<not> b1)"
  by (cases b0; cases b1; cases b2; cases b3; cases b4; cases b5; cases b6; cases b7)
    (simp_all add: is_digit_def)

lemma lower_char_bits [code]:
  "lower_char (Char b0 b1 b2 b3 b4 b5 b6 b7) =
     Char b0 b1 b2 b3 b4 (b5 \<or> is_upper (Char b0 b1 b2 b3 b4 b5 b6 b7)) b6 b7"
  by (cases b0; cases b1; cases b2; cases b3; cases b4; cases b5; cases b6; cases b7)
    (simp_all add: lower_char_def is_upper_def char_of_def bit_0)

lemma is_space_bits [code]:
  "is_space (Char b0 b1 b2 b3 b4 b5 b6 b7) \<longleftrightarrow>
     \<not> b7 \<and> \<not> b6 \<and> \<not> b5 \<and> \<not> b4 \<and> b3 \<and> (if b2 then \<not> b1 else b1 \<or> b0) \<or>
     \<not> b6 \<and> b5 \<and> \<not> b4 \<and> \<not> b3 \<and> \<not> b2 \<and> \<not> b1 \<and> \<not> b0"
  by (cases b0; cases b1; cases b2; cases b3; cases b4; cases b5; cases b6; cases b7)
    (simp_all add: is_space_def)

subsection \<open>JavaScript sets\<close>

text \<open>A \<open>Set\<close> iterates in insertion order; adding a present value changes nothing.\<close>

definition js_set_add :: "'a list \<Rightarrow> 'a \<Rightarrow> 'a list" where
  "js_set_add s x = (if x \<in> set s then s else s @ [x])"

text \<open>\<open>[...new Set(xs)]\<close>.\<close>

definition js_set :: "'a list \<Rightarrow> 'a list" where
  "js_set xs = foldl js_set_add [] xs"

lemma set_js_set_add [simp]: "set (js_set_add s x) = insert x (set s)"
  by (auto simp: js_set_add_def)

lemma distinct_js_set_add [simp]: "distinct s \<Longrightarrow> distinct (js_set_add s x)"
  by (simp add: js_set_add_def)

lemma set_foldl_js_set_add [simp]: "set (foldl js_set_add s xs) = set s \<union> set xs"
  by (induction xs arbitrary: s) auto

lemma distinct_foldl_js_set_add [simp]: "distinct s \<Longrightarrow> distinct (foldl js_set_add s xs)"
  by (induction xs arbitrary: s) auto

lemma js_set_set [simp]: "set (js_set xs) = set xs"
  by (simp add: js_set_def)

lemma js_set_distinct [simp]: "distinct (js_set xs)"
  by (simp add: js_set_def)

lemma js_set_Nil [simp]: "js_set xs = [] \<longleftrightarrow> xs = []"
  by (metis js_set_set set_empty)

lemma js_set_empty [simp]: "js_set [] = []"
  by simp

end
