(* ===== verification/Database.thy ===== *)
theory Database
  imports Prelude "HOL-Library.AList"
begin

text \<open>
  The durable state and the transaction boundary.

  \<^item> The error values: every \<open>Error\<close> class the modelled services throw is a constructor of
    \<open>app_error\<close>; a plain \<open>new Error(msg)\<close> is \<open>JsError msg\<close>, the PostgreSQL error codes 23505
    and 23503 are \<open>UniqueViolation\<close> and \<open>ForeignKeyViolation\<close>, \<open>ctx.throw\<close> of a status is
    \<open>HttpError\<close>.
  \<^item> The rows of the tables the components share (packages/server/src/*/types.ts and
    packages/server/migrations) and the record \<open>db\<close> of all tables.
  \<^item> \<open>flow\<close>, the state one asynchronous request flow sees (packages/server/src/lib/database.ts):
    the database, the Redis cache and the pending after-commit effects of an open transaction.
  \<^item> Operations are functions \<open>'s \<Rightarrow> (app_error + 'a) \<times> 's\<close>, composed with \<open>andthen\<close>
    as \<open>await\<close> composes them: the first throw ends the composition and keeps the state reached.
\<close>

subsection \<open>Errors and operations\<close>

datatype app_error =
    JsError string
  | UniqueViolation
  | ForeignKeyViolation
  | UserNotFoundError string
  | UserValidationError string
  | UserEmailConflictError
  | InvitationConflictError
  | OrganizationNotFoundError string
  | OrganizationValidationError string
  | RoleNotFoundError string
  | RbacValidationError string
  | ClientNotFoundError string
  | ClientValidationError string
  | ClaimNotFoundError string
  | ClaimValidationError string
  | TwoFactorError string
  | ApplicationNotFoundError string
  | ApplicationValidationError string
  | PermissionNotFoundError string
  | RoleDelegationError
  | RoleApplicationBoundaryError
  | TwoFactorNotEnabledError string
  | TwoFactorAlreadyEnabledError string
  | TotpNotConfiguredError string
  | UnsupportedTotpConfigurationError
  | OtpExpiredError
  | OtpInvalidError
  | RecoveryCodeInvalidError
  | RecoveryCodesExhaustedError string
  | TwoFactorCryptoError string
  | SuperAdminProtectionError string
  | RecoveryJobProcessingError string bool
  | HttpError nat
  | HandledMutationRejection nat
  | InvalidGrant
  | BrandingAssetValidationError string
  | PortabilityError nat string

type_synonym ('s, 'a) op = "'s \<Rightarrow> (app_error + 'a) \<times> 's"

definition return_op :: "'a \<Rightarrow> ('s, 'a) op" where
  "return_op a s = (Inr a, s)"

definition throw_op :: "app_error \<Rightarrow> ('s, 'a) op" where
  "throw_op e s = (Inl e, s)"

definition andthen :: "('s, 'a) op \<Rightarrow> ('a \<Rightarrow> ('s, 'b) op) \<Rightarrow> ('s, 'b) op" where
  "andthen m f s = (case m s of (Inl e, s') \<Rightarrow> (Inl e, s') | (Inr a, s') \<Rightarrow> f a s')"

definition catch_op :: "('s, 'a) op \<Rightarrow> (app_error \<Rightarrow> ('s, 'a) op) \<Rightarrow> ('s, 'a) op" where
  "catch_op m h s = (case m s of (Inl e, s') \<Rightarrow> h e s' | (Inr a, s') \<Rightarrow> (Inr a, s'))"

definition unless_throw :: "bool \<Rightarrow> app_error \<Rightarrow> ('s, unit) op" where
  "unless_throw b e = (if b then return_op () else throw_op e)"

lemmas op_defs = return_op_def throw_op_def andthen_def catch_op_def unless_throw_def

lemma return_op_apply [simp, op_simps]: "return_op a s = (Inr a, s)"
  by (simp add: return_op_def)

lemma throw_op_apply [simp, op_simps]: "throw_op e s = (Inl e, s)"
  by (simp add: throw_op_def)

lemma andthen_Inl [op_simps]: "m s = (Inl e, s') \<Longrightarrow> andthen m f s = (Inl e, s')"
  by (simp add: andthen_def)

lemma andthen_Inr [op_simps]: "m s = (Inr a, s') \<Longrightarrow> andthen m f s = f a s'"
  by (simp add: andthen_def)

lemma andthen_return [simp]: "andthen m return_op = m"
  by (rule ext) (simp add: andthen_def split: prod.splits sum.splits)

lemma return_andthen [simp]: "andthen (return_op a) f = f a"
  by (rule ext) (simp add: andthen_def)

lemma throw_andthen [simp]: "andthen (throw_op e) f = throw_op e"
  by (rule ext) (simp add: andthen_def)

lemma andthen_assoc: "andthen (andthen m f) g = andthen m (\<lambda>a. andthen (f a) g)"
  by (rule ext) (simp add: andthen_def split: prod.splits sum.splits)

lemma andthen_eq_InrD:
  "andthen m f s = (Inr b, t) \<Longrightarrow> \<exists>a s'. m s = (Inr a, s') \<and> f a s' = (Inr b, t)"
  by (auto simp: andthen_def split: prod.splits sum.splits)

lemma andthen_InrE:
  assumes "andthen m f s = (Inr b, t)"
  obtains a s' where "m s = (Inr a, s')" and "f a s' = (Inr b, t)"
  using andthen_eq_InrD [OF assms] by blast

lemma unless_throw_simps [simp, op_simps]:
  "unless_throw True e = return_op ()"
  "unless_throw False e = throw_op e"
  by (simp_all add: unless_throw_def)

text \<open>An operation preserves a state predicate when it does so whether it returns or throws.\<close>

definition preserves :: "('s \<Rightarrow> bool) \<Rightarrow> ('s, 'a) op \<Rightarrow> bool" where
  "preserves I m \<longleftrightarrow> (\<forall>s. I s \<longrightarrow> I (snd (m s)))"

lemma preservesI: "(\<And>s. I s \<Longrightarrow> I (snd (m s))) \<Longrightarrow> preserves I m"
  by (simp add: preserves_def)

lemma preservesD: "preserves I m \<Longrightarrow> I s \<Longrightarrow> I (snd (m s))"
  by (simp add: preserves_def)

lemma preserves_return [simp, intro]: "preserves I (return_op a)"
  by (simp add: preserves_def)

lemma preserves_throw [simp, intro]: "preserves I (throw_op e)"
  by (simp add: preserves_def)

lemma preserves_unless [simp, intro]: "preserves I (unless_throw b e)"
  by (cases b) simp_all

lemma preserves_andthen [intro]:
  assumes "preserves I m" and "\<And>a. preserves I (f a)"
  shows "preserves I (andthen m f)"
proof (rule preservesI)
  fix s
  assume "I s"
  with assms(1) have *: "I (snd (m s))"
    by (rule preservesD)
  show "I (snd (andthen m f s))"
    using * preservesD [OF assms(2)]
    by (auto simp: andthen_def split: prod.splits sum.splits)
qed

lemma preserves_catch [intro]:
  assumes "preserves I m" and "\<And>e. preserves I (h e)"
  shows "preserves I (catch_op m h)"
proof (rule preservesI)
  fix s
  assume "I s"
  with assms(1) have *: "I (snd (m s))"
    by (rule preservesD)
  show "I (snd (catch_op m h s))"
    using * preservesD [OF assms(2)]
    by (auto simp: catch_op_def split: prod.splits sum.splits)
qed

lemma preserves_if [intro]:
  "preserves I m \<Longrightarrow> preserves I m' \<Longrightarrow> preserves I (if b then m else m')"
  by simp

subsection \<open>JSON values\<close>

text \<open>
  JSON documents. \<open>JNum\<close> is an integral number and \<open>JDec\<close> the text of any other number; an object
  keeps its property order.
\<close>

datatype json =
    JNull | JBool bool | JNum int | JDec string | JStr string | JArr "json list" | JObj "(string \<times> json) list"

text \<open>Property access \<open>o.k\<close>; \<open>None\<close> is \<open>undefined\<close>.\<close>

definition json_get :: "string \<Rightarrow> json \<Rightarrow> json option" where
  "json_get k j = (case j of JObj fs \<Rightarrow> map_of fs k | _ \<Rightarrow> None)"

subsection \<open>Row types\<close>

datatype user_status = Active | Inactive | Locked

text \<open>The nullable text columns of \<open>users\<close> (OIDC Standard Claims and address).\<close>

datatype profile_field =
    GivenName | FamilyName | MiddleName | Nickname | PreferredUsername
  | ProfileUrl | PictureUrl | WebsiteUrl | Gender | Birthdate | Zoneinfo | Locale | PhoneNumber
  | AddressStreet | AddressLocality | AddressRegion | AddressPostalCode | AddressCountry

record user_row =
  ur_id :: string
  ur_organization_id :: string
  ur_email :: string
  ur_email_verified :: bool
  ur_password_hash :: "string option"
  ur_password_changed_at :: "time option"
  ur_profile :: "profile_field \<Rightarrow> string option"
  ur_phone_number_verified :: bool
  ur_two_factor_enabled :: bool
  ur_two_factor_method :: "string option"
  ur_status :: user_status
  ur_locked_at :: "time option"
  ur_locked_reason :: "string option"
  ur_last_login_at :: "time option"
  ur_login_count :: nat
  ur_failed_login_count :: nat
  ur_last_failed_login_at :: "time option"
  ur_created_at :: time
  ur_updated_at :: time

datatype organization_status = OrgActive | OrgSuspended

datatype login_method = Password | MagicLink

datatype two_factor_policy = Optional | RequiredEmail | RequiredTotp | RequiredAny

record organization_row =
  og_id :: string
  og_name :: string
  og_slug :: string
  og_status :: organization_status
  og_is_super_admin :: bool
  og_branding_logo_url :: "string option"
  og_branding_favicon_url :: "string option"
  og_branding_primary_color :: "string option"
  og_branding_company_name :: "string option"
  og_branding_custom_css :: "string option"
  og_default_locale :: string
  og_two_factor_policy :: two_factor_policy
  og_default_login_methods :: "login_method list"
  og_created_at :: time
  og_updated_at :: time

datatype record_status = RecordActive | RecordInactive

record application_row =
  ap_id :: string
  ap_name :: string
  ap_slug :: string
  ap_description :: "string option"
  ap_status :: record_status
  ap_created_at :: time
  ap_updated_at :: time

record module_row =
  mo_id :: string
  mo_application_id :: string
  mo_name :: string
  mo_slug :: string
  mo_description :: "string option"
  mo_status :: record_status
  mo_created_at :: time
  mo_updated_at :: time

datatype client_status = ClientActive | ClientInactive

datatype client_type = Confidential | Public

datatype application_type = WebApp | NativeApp | SpaApp

record client_row =
  cl_id :: string
  cl_client_id :: string
  cl_organization_id :: string
  cl_application_id :: string
  cl_client_name :: string
  cl_client_type :: client_type
  cl_application_type :: application_type
  cl_redirect_uris :: "string list"
  cl_post_logout_redirect_uris :: "string list"
  cl_grant_types :: "string list"
  cl_response_types :: "string list"
  cl_scope :: string
  cl_token_endpoint_auth_method :: string
  cl_allowed_origins :: "string list"
  cl_require_pkce :: bool
  cl_require_consent :: bool
  cl_login_methods :: "login_method list option"
  cl_status :: client_status
  cl_created_at :: time
  cl_updated_at :: time

datatype secret_status = SecretActive | SecretRevoked

text \<open>A row of \<open>client_secrets\<close>; migration 013 adds the SHA-256 digest.\<close>

record client_secret_row =
  cs_id :: string
  cs_client_id :: string
  cs_secret_hash :: string
  cs_secret_sha256 :: "string option"
  cs_label :: "string option"
  cs_expires_at :: "time option"
  cs_status :: secret_status
  cs_last_used_at :: "time option"
  cs_created_at :: time

record role_row =
  ro_id :: string
  ro_application_id :: string
  ro_name :: string
  ro_slug :: string
  ro_description :: "string option"
  ro_created_at :: time
  ro_updated_at :: time

record permission_row =
  pm_id :: string
  pm_application_id :: string
  pm_module_id :: "string option"
  pm_name :: string
  pm_slug :: string
  pm_description :: "string option"
  pm_created_at :: time

record role_permission_row =
  rl_role_id :: string
  rl_permission_id :: string

record user_role_row =
  ul_user_id :: string
  ul_role_id :: string
  ul_assigned_by :: "string option"

datatype claim_type = ClaimString | ClaimNumber | ClaimBoolean | ClaimJson

record claim_definition_row =
  cd_id :: string
  cd_application_id :: string
  cd_claim_name :: string
  cd_claim_type :: claim_type
  cd_description :: "string option"
  cd_include_in_id_token :: bool
  cd_include_in_access_token :: bool
  cd_include_in_userinfo :: bool
  cd_created_at :: time
  cd_updated_at :: time

record claim_value_row =
  cv_id :: string
  cv_user_id :: string
  cv_claim_id :: string
  cv_value :: json

text \<open>
  One row type for the magic-link and the password-reset table; the organization, interaction and
  bound columns are the ones migration 023 adds to the magic-link table.
\<close>

record token_row =
  tk_id :: string
  tk_user_id :: string
  tk_token_hash :: string
  tk_expires_at :: time
  tk_used_at :: "time option"
  tk_created_at :: time
  tk_recovery_job_id :: "string option"
  tk_organization_id :: string
  tk_interaction_uid :: "string option"
  tk_authority_bound :: bool

text \<open>The \<open>details\<close> JSONB column of an invitation, with the fields the code writes and reads.\<close>

record role_pre_assignment =
  rp_application_id :: string
  rp_role_id :: string

record claim_pre_assignment =
  cp_application_id :: string
  cp_claim_definition_id :: string
  cp_value :: json

record invitation_details =
  dt_personal_message :: "string option"
  dt_roles :: "role_pre_assignment list option"
  dt_claims :: "claim_pre_assignment list option"
  dt_inviter_name :: "string option"

record invitation_row =
  iv_id :: string
  iv_user_id :: "string option"
  iv_token_hash :: string
  iv_expires_at :: time
  iv_used_at :: "time option"
  iv_created_at :: time
  iv_details :: "invitation_details option"
  iv_invited_by :: "string option"
  iv_organization_id :: string
  iv_email :: string
  iv_given_name :: "string option"
  iv_family_name :: "string option"
  iv_locale :: "string option"
  iv_application_id :: "string option"

datatype job_type = MagicLinkJob | PasswordResetJob

datatype job_status = JobAvailable | JobClaimed | JobCompleted | JobTerminalFailure

record protected_address =
  pa_ciphertext :: string
  pa_iv :: string
  pa_tag :: string
  pa_key_id :: string

record recovery_job_row =
  rj_id :: string
  rj_job_type :: job_type
  rj_organization_id :: string
  rj_address :: protected_address
  rj_interaction_uid :: "string option"
  rj_idempotency_digest :: string
  rj_status :: job_status
  rj_available_at :: time
  rj_claimed_at :: "time option"
  rj_claimed_by :: "string option"
  rj_attempt_count :: nat
  rj_last_failure_reason :: "string option"
  rj_completed_at :: "time option"
  rj_created_at :: time
  rj_updated_at :: time

text \<open>The tables of migration 012 (with the replay column of migration 028).\<close>

record totp_row =
  tt_id :: string
  tt_user_id :: string
  tt_encrypted_secret :: string
  tt_encryption_iv :: string
  tt_encryption_tag :: string
  tt_algorithm :: string
  tt_digits :: int
  tt_period :: int
  tt_verified :: bool
  tt_last_accepted_time_step :: "int option"
  tt_created_at :: time
  tt_updated_at :: time

record otp_code_row =
  oc_code_id :: string
  oc_user_id :: string
  oc_code_hash :: string
  oc_expires_at :: time
  oc_used_at :: "time option"
  oc_created_at :: time

record recovery_code_row =
  rk_id :: string
  rk_user_id :: string
  rk_code_hash :: string
  rk_used_at :: "time option"
  rk_created_at :: time

record two_factor_tables =
  tf_totp :: "totp_row list"
  tf_otp_codes :: "otp_code_row list"
  tf_recovery_codes :: "recovery_code_row list"

datatype two_factor_method = EmailMethod | TotpMethod

text \<open>\<open>TwoFactorStatus\<close> of packages/server/src/two-factor/types.ts.\<close>

record two_factor_status =
  ts_enabled :: bool
  ts_method :: "two_factor_method option"
  ts_totp_configured :: bool
  ts_recovery_codes_remaining :: nat

text \<open>\<open>oidc_payloads\<close>; the account and the client are \<open>payload->>'accountId'\<close> and \<open>payload->>'clientId'\<close>.\<close>

record payload_row =
  pl_id :: string
  pl_type :: string
  pl_account_id :: "string option"
  pl_client_id :: "string option"
  pl_grant_id :: "string option"
  pl_user_code :: "string option"
  pl_uid :: "string option"
  pl_payload :: "(string \<times> json) list"
  pl_expires_at :: "time option"
  pl_consumed_at :: "time option"

record session_row =
  se_session_id :: string
  se_public_id :: string
  se_user_id :: "string option"
  se_client_id :: "string option"
  se_organization_id :: "string option"
  se_grant_id :: "string option"
  se_ip_address :: "string option"
  se_user_agent :: "string option"
  se_created_at :: time
  se_expires_at :: time
  se_last_activity_at :: time
  se_revoked_at :: "time option"

subsection \<open>The application-side user\<close>

text \<open>
  A JavaScript value in a date position: a \<open>Date\<close> object, or the ISO string that
  \<open>JSON.stringify\<close> leaves for one (packages/server/src/users/cache.ts converts some of them back).
\<close>

datatype js_date = DateObj time | IsoString time

text \<open>\<open>User\<close> of packages/server/src/users/types.ts: no hash, only \<open>hasPassword\<close>.\<close>

record user =
  u_id :: string
  u_organization_id :: string
  u_email :: string
  u_email_verified :: bool
  u_has_password :: bool
  u_password_changed_at :: "js_date option"
  u_profile :: "profile_field \<Rightarrow> string option"
  u_phone_number_verified :: bool
  u_two_factor_enabled :: bool
  u_two_factor_method :: "string option"
  u_status :: user_status
  u_locked_at :: "js_date option"
  u_locked_reason :: "string option"
  u_last_login_at :: "js_date option"
  u_login_count :: nat
  u_failed_login_count :: nat
  u_last_failed_login_at :: "js_date option"
  u_created_at :: js_date
  u_updated_at :: js_date

text \<open>
  What Redis holds under a key. \<open>JsonUser\<close> and \<open>JsonOrganization\<close> are serialized entities,
  \<open>Counter\<close> an \<open>INCR\<close> counter, \<open>Members\<close> a set, \<open>Text\<close> any other string. An entry may carry an expiry time.
\<close>

datatype redis_value =
    JsonUser user | JsonOrganization organization_row | JsonApplication application_row
  | JsonRole role_row | JsonClient client_row | JsonClaims "claim_definition_row list"
  | JsonTwoFactor two_factor_status | JsonValue json | Counter int | Text string | Members "string list"

type_synonym redis = "(string \<times> redis_value \<times> time option) list"

datatype actor_type = ActorUser | ActorClient | ActorSystem

record audit_row =
  al_organization_id :: "string option"
  al_user_id :: "string option"
  al_actor_id :: "string option"
  al_actor_type :: actor_type
  al_actor_client_id :: "string option"
  al_actor_client_name :: "string option"
  al_event_type :: string
  al_event_category :: string
  al_description :: "string option"
  al_metadata :: json
  al_ip_address :: "string option"
  al_user_agent :: "string option"

datatype asset_type = LogoAsset | FaviconAsset

record branding_asset_row =
  ba_id :: string
  ba_organization_id :: string
  ba_asset_type :: asset_type
  ba_content_type :: string
  ba_file_size :: nat
  ba_data :: string
  ba_created_at :: time
  ba_updated_at :: time

record db =
  db_users :: "user_row list"
  db_organizations :: "organization_row list"
  db_applications :: "application_row list"
  db_modules :: "module_row list"
  db_clients :: "client_row list"
  db_client_secrets :: "client_secret_row list"
  db_roles :: "role_row list"
  db_permissions :: "permission_row list"
  db_role_permissions :: "role_permission_row list"
  db_user_roles :: "user_role_row list"
  db_claim_definitions :: "claim_definition_row list"
  db_claim_values :: "claim_value_row list"
  db_magic_link_tokens :: "token_row list"
  db_password_reset_tokens :: "token_row list"
  db_invitation_tokens :: "invitation_row list"
  db_recovery_jobs :: "recovery_job_row list"
  db_two_factor :: two_factor_tables
  db_oidc_payloads :: "payload_row list"
  db_admin_sessions :: "session_row list"
  db_branding_assets :: "branding_asset_row list"
  db_audit_log :: "audit_row list"

definition empty_db :: db where
  "empty_db = \<lparr>db_users = [], db_organizations = [], db_applications = [], db_modules = [],
     db_clients = [], db_client_secrets = [], db_roles = [], db_permissions = [],
     db_role_permissions = [], db_user_roles = [], db_claim_definitions = [], db_claim_values = [],
     db_magic_link_tokens = [], db_password_reset_tokens = [],
     db_invitation_tokens = [], db_recovery_jobs = [],
     db_two_factor = \<lparr>tf_totp = [], tf_otp_codes = [], tf_recovery_codes = []\<rparr>,
     db_oidc_payloads = [], db_admin_sessions = [], db_branding_assets = [], db_audit_log = []\<rparr>"

end
