(* ===== verification/Transaction.thy ===== *)
theory Transaction
  imports Database
begin

text \<open>
  The request transaction of packages/server/src/lib/database.ts and the Redis connection.

  \<open>store\<close> is what outlives a request: the database, the Redis keys and whether Redis answers.
  \<open>flow\<close> is one asynchronous request flow: the store it sees, and the pending after-commit effects
  when a transaction is open (\<open>AsyncLocalStorage\<close> holds \<open>afterCommit\<close> exactly then).
\<close>

record store =
  st_db :: db
  st_redis :: redis
  st_redis_up :: bool

type_synonym effect = "(store, unit) op"

record flow =
  fl_store :: store
  fl_tx :: "effect list option"

abbreviation outside_tx :: "flow \<Rightarrow> bool" where
  "outside_tx f \<equiv> fl_tx f = None"

abbreviation flow_db :: "flow \<Rightarrow> db" where
  "flow_db f \<equiv> st_db (fl_store f)"

abbreviation flow_redis :: "flow \<Rightarrow> redis" where
  "flow_redis f \<equiv> st_redis (fl_store f)"

text \<open>A flow with no open transaction.\<close>

definition idle_flow :: "store \<Rightarrow> flow" where
  "idle_flow st = \<lparr>fl_store = st, fl_tx = None\<rparr>"

subsection \<open>Queries\<close>

text \<open>\<open>getPool().query\<close>: a statement on the flow's database, in or out of a transaction.\<close>

definition on_db :: "(db, 'a) op \<Rightarrow> (store, 'a) op" where
  "on_db m st = (case m (st_db st) of (r, d) \<Rightarrow> (r, st\<lparr>st_db := d\<rparr>))"

definition on_store :: "(store, 'a) op \<Rightarrow> (flow, 'a) op" where
  "on_store m f = (case m (fl_store f) of (r, st) \<Rightarrow> (r, f\<lparr>fl_store := st\<rparr>))"

definition query :: "(db, 'a) op \<Rightarrow> (flow, 'a) op" where
  "query m = on_store (on_db m)"

definition select :: "(db \<Rightarrow> 'a) \<Rightarrow> (db, 'a) op" where
  "select q d = (Inr (q d), d)"

definition execute :: "(db \<Rightarrow> db) \<Rightarrow> (db, unit) op" where
  "execute u d = (Inr (), u d)"

text \<open>A statement with \<open>RETURNING\<close> or a row count.\<close>

definition returning :: "(db \<Rightarrow> 'a \<times> db) \<Rightarrow> (db, 'a) op" where
  "returning m d = (Inr (fst (m d)), snd (m d))"

lemma returning_apply [simp, op_simps]: "returning m d = (Inr (fst (m d)), snd (m d))"
  by (simp add: returning_def)

lemma select_apply [simp, op_simps]: "select q d = (Inr (q d), d)"
  by (simp add: select_def)

lemma execute_apply [simp, op_simps]: "execute u d = (Inr (), u d)"
  by (simp add: execute_def)

lemma on_db_apply [simp, op_simps]:
  "on_db m st = (fst (m (st_db st)), st\<lparr>st_db := snd (m (st_db st))\<rparr>)"
  by (simp add: on_db_def split: prod.splits)

lemma on_store_apply [simp, op_simps]:
  "on_store m f = (fst (m (fl_store f)), f\<lparr>fl_store := snd (m (fl_store f))\<rparr>)"
  by (simp add: on_store_def split: prod.splits)

text \<open>A flow with another database.\<close>

definition with_db :: "db \<Rightarrow> flow \<Rightarrow> flow" where
  "with_db d f = f\<lparr>fl_store := (fl_store f)\<lparr>st_db := d\<rparr>\<rparr>"

lemma with_db_simps [simp]:
  "flow_db (with_db d f) = d" "fl_tx (with_db d f) = fl_tx f"
  "flow_redis (with_db d f) = flow_redis f" "with_db d (with_db d' f) = with_db d f"
  "st_redis_up (fl_store (with_db d f)) = st_redis_up (fl_store f)"
  "with_db (flow_db f) f = f"
  by (simp_all add: with_db_def)

lemma query_apply [simp, op_simps]:
  "query m f = (fst (m (flow_db f)), with_db (snd (m (flow_db f))) f)"
  by (simp add: query_def with_db_def)

subsection \<open>After-commit effects and the transaction\<close>

text \<open>\<open>afterDatabaseCommit\<close>: queued inside a transaction, run at once outside.\<close>

definition after_database_commit :: "effect \<Rightarrow> (flow, unit) op" where
  "after_database_commit eff f =
     (case fl_tx f of
        None \<Rightarrow> on_store eff f
      | Some pending \<Rightarrow> (Inr (), f\<lparr>fl_tx := Some (pending @ [eff])\<rparr>))"

text \<open>The effects run in order after the commit; one that throws is logged and skipped.\<close>

definition run_effects :: "effect list \<Rightarrow> store \<Rightarrow> store" where
  "run_effects effs st = fold (\<lambda>eff s. snd (eff s)) effs st"

text \<open>
  \<open>runDatabaseTransaction\<close>: a nested call runs in the open transaction; otherwise \<open>BEGIN\<close>, the
  work, then \<open>COMMIT\<close> and the pending effects, or \<open>ROLLBACK\<close>, which restores the database (writes
  the work made to Redis directly are not undone).
\<close>

definition run_database_transaction :: "(flow, 'a) op \<Rightarrow> (flow, 'a) op" where
  "run_database_transaction work f =
     (case fl_tx f of
        Some _ \<Rightarrow> work f
      | None \<Rightarrow>
          (case work (f\<lparr>fl_tx := Some []\<rparr>) of
             (Inr a, f') \<Rightarrow>
               (Inr a, f'\<lparr>fl_tx := None,
                  fl_store := run_effects (nullish (fl_tx f') []) (fl_store f')\<rparr>)
           | (Inl e, f') \<Rightarrow>
               (Inl e, f'\<lparr>fl_tx := None, fl_store := (fl_store f')\<lparr>st_db := flow_db f\<rparr>\<rparr>)))"

text \<open>\<open>getDatabaseTransactionClient() !== null\<close>.\<close>

definition has_transaction_client :: "flow \<Rightarrow> bool" where
  "has_transaction_client f = (fl_tx f \<noteq> None)"

definition require_transaction :: "string \<Rightarrow> (flow, unit) op" where
  "require_transaction msg f = unless_throw (has_transaction_client f) (JsError msg) f"

text \<open>How one awaited step moves a flow: the rewriting the proofs of the services use.\<close>

lemma step_select: "andthen (query (select q)) g f = g (q (flow_db f)) f"
  by (simp add: andthen_def)

lemma step_execute: "andthen (query (execute u)) g f = g () (with_db (u (flow_db f)) f)"
  by (simp add: andthen_def)

lemma step_returning:
  "andthen (query (returning m)) g f = g (fst (m (flow_db f))) (with_db (snd (m (flow_db f))) f)"
  by (simp add: andthen_def)

lemma step_query:
  "andthen (query m) g f =
     (case m (flow_db f) of (Inl e, d) \<Rightarrow> (Inl e, with_db d f) | (Inr a, d) \<Rightarrow> g a (with_db d f))"
  by (simp add: andthen_def split: prod.splits sum.splits)

lemma step_unless: "andthen (unless_throw b e) g f = (if b then g () f else (Inl e, f))"
  by (simp add: andthen_def unless_throw_def)

lemma step_require:
  "andthen (require_transaction msg) g f =
     (if fl_tx f = None then (Inl (JsError msg), f) else g () f)"
  by (simp add: andthen_def require_transaction_def has_transaction_client_def unless_throw_def)

lemma step_after_commit:
  "fl_tx f = Some q \<Longrightarrow>
   andthen (after_database_commit eff) g f = g () (f\<lparr>fl_tx := Some (q @ [eff])\<rparr>)"
  by (simp add: andthen_def after_database_commit_def)

lemma after_commit_inside:
  "fl_tx f = Some q \<Longrightarrow> after_database_commit eff f = (Inr (), f\<lparr>fl_tx := Some (q @ [eff])\<rparr>)"
  by (simp add: after_database_commit_def)

lemma after_commit_outside:
  "fl_tx f = None \<Longrightarrow> after_database_commit eff f = on_store eff f"
  by (simp add: after_database_commit_def)

lemmas step_simps = step_select step_execute step_returning step_unless step_require
  step_after_commit after_commit_inside

lemma run_effects_simps [simp]:
  "run_effects [] st = st"
  "run_effects (eff # effs) st = run_effects effs (snd (eff st))"
  by (simp_all add: run_effects_def)

lemma run_effects_append:
  "run_effects (effs @ effs') st = run_effects effs' (run_effects effs st)"
  by (simp add: run_effects_def)

text \<open>
  The interface the services rely on: a boundary that runs work as one unit. The laws are what
  every administrative mutation needs (all or nothing, effects only after success); the lemmas
  proved from them hold of any such boundary.
\<close>

locale transaction_boundary =
  fixes run :: "('f, 'a) op \<Rightarrow> ('f, 'a) op"
    and enter :: "'f \<Rightarrow> 'f"
    and outside :: "'f \<Rightarrow> bool"
    and database :: "'f \<Rightarrow> 'd"
  assumes rollback: "\<And>w f e f'. outside f \<Longrightarrow> run w f = (Inl e, f') \<Longrightarrow> database f' = database f"
    and throws_iff: "\<And>w f e. outside f \<Longrightarrow>
      (\<exists>f'. run w f = (Inl e, f')) = (\<exists>f'. w (enter f) = (Inl e, f'))"
    and returns_iff: "\<And>w f a. outside f \<Longrightarrow>
      (\<exists>f'. run w f = (Inr a, f')) = (\<exists>f'. w (enter f) = (Inr a, f'))"
begin

lemma result_of_work: "outside f \<Longrightarrow> fst (run w f) = fst (w (enter f))"
proof (cases "fst (w (enter f))")
  case (Inl e)
  assume "outside f"
  then have "\<exists>f'. run w f = (Inl e, f')"
    using Inl throws_iff [of f w e] by (metis prod.collapse)
  with Inl show ?thesis by auto
next
  case (Inr a)
  assume "outside f"
  then have "\<exists>f'. run w f = (Inr a, f')"
    using Inr returns_iff [of f w a] by (metis prod.collapse)
  with Inr show ?thesis by auto
qed

lemma rejected_work_is_undone:
  assumes "outside f" and "fst (w (enter f)) = Inl e"
  shows "database (snd (run w f)) = database f"
  using assms rollback [of f w e "snd (run w f)"] result_of_work [of f w]
  by (metis prod.collapse)

end

interpretation tx: transaction_boundary run_database_transaction
  "\<lambda>f. f\<lparr>fl_tx := Some []\<rparr>" outside_tx flow_db
proof unfold_locales
  show "\<And>w f e f'. outside_tx f \<Longrightarrow> run_database_transaction w f = (Inl e, f') \<Longrightarrow>
      flow_db f' = flow_db f"
    by (auto simp: run_database_transaction_def split: prod.splits sum.splits)
next
  show "\<And>w f e. outside_tx f \<Longrightarrow>
      (\<exists>f'. run_database_transaction w f = (Inl e, f')) =
      (\<exists>f'. w (f\<lparr>fl_tx := Some []\<rparr>) = (Inl e, f'))"
    by (auto simp: run_database_transaction_def split: prod.splits sum.splits)
next
  show "\<And>w f a. outside_tx f \<Longrightarrow>
      (\<exists>f'. run_database_transaction w f = (Inr a, f')) =
      (\<exists>f'. w (f\<lparr>fl_tx := Some []\<rparr>) = (Inr a, f'))"
    by (auto simp: run_database_transaction_def split: prod.splits sum.splits)
qed

lemma run_database_transaction_Inl:
  assumes "outside_tx f" and "work (f\<lparr>fl_tx := Some []\<rparr>) = (Inl e, f')"
  shows "run_database_transaction work f =
    (Inl e, f'\<lparr>fl_tx := None, fl_store := (fl_store f')\<lparr>st_db := flow_db f\<rparr>\<rparr>)"
  using assms by (simp add: run_database_transaction_def)

lemma run_database_transaction_Inr:
  assumes "outside_tx f" and "work (f\<lparr>fl_tx := Some []\<rparr>) = (Inr a, f')"
  shows "run_database_transaction work f =
    (Inr a, f'\<lparr>fl_tx := None, fl_store := run_effects (nullish (fl_tx f') []) (fl_store f')\<rparr>)"
  using assms by (simp add: run_database_transaction_def)

lemma run_database_transaction_nested:
  "fl_tx f = Some q \<Longrightarrow> run_database_transaction work f = work f"
  by (simp add: run_database_transaction_def)

subsection \<open>Redis commands\<close>

text \<open>
  The Redis commands the source issues, with their documented effect on one key. An expired key
  reads as absent. \<open>redis_do\<close> throws when Redis does not answer.
\<close>

definition redis_live :: "time \<Rightarrow> redis \<Rightarrow> string \<Rightarrow> redis_value option" where
  "redis_live now r k =
     (case map_of r k of
        None \<Rightarrow> None
      | Some (v, None) \<Rightarrow> Some v
      | Some (v, Some t) \<Rightarrow> if now < t then Some v else None)"

definition redis_set_ex :: "time \<Rightarrow> string \<Rightarrow> redis_value \<Rightarrow> int \<Rightarrow> redis \<Rightarrow> redis" where
  "redis_set_ex now k v ttl_seconds r =
     AList.update k (v, Some (now + ttl_seconds * 1000)) r"

definition redis_del :: "string \<Rightarrow> redis \<Rightarrow> redis" where
  "redis_del k r = AList.delete k r"

definition redis_do :: "(redis \<Rightarrow> 'a \<times> redis) \<Rightarrow> (store, 'a) op" where
  "redis_do c st =
     (if st_redis_up st then (case c (st_redis st) of (a, r) \<Rightarrow> (Inr a, st\<lparr>st_redis := r\<rparr>))
      else (Inl (JsError ''Redis unavailable''), st))"

lemma redis_live_set_same [simp]:
  "redis_live now (redis_set_ex now0 k v ttl r) k =
     (if now < now0 + ttl * 1000 then Some v else None)"
  by (simp add: redis_live_def redis_set_ex_def update_conv)

lemma redis_live_set_other [simp]:
  "k' \<noteq> k \<Longrightarrow> redis_live now (redis_set_ex now0 k v ttl r) k' = redis_live now r k'"
  by (simp add: redis_live_def redis_set_ex_def update_conv)

lemma redis_live_del [simp]:
  "redis_live now (redis_del k r) k' = (if k' = k then None else redis_live now r k')"
  by (simp add: redis_live_def redis_del_def delete_conv)

lemma redis_do_db [simp]: "st_db (snd (redis_do c st)) = st_db st"
  by (simp add: redis_do_def split: prod.splits)

end
