(* ===== verification/UserRepository.thy ===== *)
theory UserRepository
  imports Transaction
begin

text \<open>
  packages/server/src/users/types.ts and packages/server/src/users/repository.ts: the mapping from
  rows to users, the insert, the dynamic partial update, the failed-login statements, and the
  locked deletion with its protection of the last super administrator.
  Each statement is a function on \<open>db\<close>; the \<open>BEFORE UPDATE\<close> trigger of migration 031, which
  advances \<open>updated_at\<close> strictly, is part of every \<open>UPDATE users\<close>.
\<close>

subsection \<open>Mapping rows\<close>

definition date_obj :: "time option \<Rightarrow> js_date option" where
  "date_obj t = map_option DateObj t"

definition map_row_to_user :: "user_row \<Rightarrow> user" where
  "map_row_to_user row = \<lparr>
     u_id = ur_id row,
     u_organization_id = ur_organization_id row,
     u_email = ur_email row,
     u_email_verified = ur_email_verified row,
     u_has_password = (ur_password_hash row \<noteq> None),
     u_password_changed_at = date_obj (ur_password_changed_at row),
     u_profile = ur_profile row,
     u_phone_number_verified = ur_phone_number_verified row,
     u_two_factor_enabled = ur_two_factor_enabled row,
     u_two_factor_method = ur_two_factor_method row,
     u_status = ur_status row,
     u_locked_at = date_obj (ur_locked_at row),
     u_locked_reason = ur_locked_reason row,
     u_last_login_at = date_obj (ur_last_login_at row),
     u_login_count = ur_login_count row,
     u_failed_login_count = ur_failed_login_count row,
     u_last_failed_login_at = date_obj (ur_last_failed_login_at row),
     u_created_at = DateObj (ur_created_at row),
     u_updated_at = DateObj (ur_updated_at row)\<rparr>"

lemma map_row_to_user_fields [simp]:
  "u_id (map_row_to_user r) = ur_id r"
  "u_organization_id (map_row_to_user r) = ur_organization_id r"
  "u_email (map_row_to_user r) = ur_email r"
  "u_email_verified (map_row_to_user r) = ur_email_verified r"
  "u_status (map_row_to_user r) = ur_status r"
  "u_locked_reason (map_row_to_user r) = ur_locked_reason r"
  "u_locked_at (map_row_to_user r) = date_obj (ur_locked_at r)"
  "u_failed_login_count (map_row_to_user r) = ur_failed_login_count r"
  "u_has_password (map_row_to_user r) = (ur_password_hash r \<noteq> None)"
  by (simp_all add: map_row_to_user_def)

subsection \<open>Insert\<close>

record insert_user_data =
  id_organization_id :: string
  id_email :: string
  id_password_hash :: "string option"
  id_email_verified :: "bool option"
  id_profile :: "profile_field \<Rightarrow> string option"
  id_phone_number_verified :: "bool option"

definition same_login :: "string \<Rightarrow> string \<Rightarrow> user_row \<Rightarrow> bool" where
  "same_login org email r = (ur_organization_id r = org \<and> citext_eq (ur_email r) email)"

definition inserted_user_row :: "time \<Rightarrow> string \<Rightarrow> insert_user_data \<Rightarrow> user_row" where
  "inserted_user_row now new_id data = \<lparr>
     ur_id = new_id,
     ur_organization_id = id_organization_id data,
     ur_email = id_email data,
     ur_email_verified = nullish (id_email_verified data) False,
     ur_password_hash = id_password_hash data,
     ur_password_changed_at = None,
     ur_profile = id_profile data,
     ur_phone_number_verified = nullish (id_phone_number_verified data) False,
     ur_two_factor_enabled = False,
     ur_two_factor_method = None,
     ur_status = Active,
     ur_locked_at = None,
     ur_locked_reason = None,
     ur_last_login_at = None,
     ur_login_count = 0,
     ur_failed_login_count = 0,
     ur_last_failed_login_at = None,
     ur_created_at = now,
     ur_updated_at = now\<rparr>"

text \<open>
  The primary key and the constraint \<open>UNIQUE (organization_id, email)\<close> on a \<open>citext\<close> column
  reject duplicates.
\<close>

definition insert_user_with_client ::
    "time \<Rightarrow> string \<Rightarrow> insert_user_data \<Rightarrow> (db, user) op" where
  "insert_user_with_client now new_id data d =
     (if row_exists (\<lambda>r. ur_id r = new_id) (db_users d) \<or>
         row_exists (same_login (id_organization_id data) (id_email data)) (db_users d)
      then (Inl UniqueViolation, d)
      else (let row = inserted_user_row now new_id data
            in (Inr (map_row_to_user row), d\<lparr>db_users := db_users d @ [row]\<rparr>)))"

subsection \<open>Find\<close>

definition find_user_by_id :: "string \<Rightarrow> db \<Rightarrow> user option" where
  "find_user_by_id i d = map_option map_row_to_user (find_row (\<lambda>r. ur_id r = i) (db_users d))"

definition find_user_by_email :: "string \<Rightarrow> string \<Rightarrow> db \<Rightarrow> user option" where
  "find_user_by_email org email d =
     map_option map_row_to_user (find_row (same_login org email) (db_users d))"

definition get_password_hash :: "string \<Rightarrow> db \<Rightarrow> string option" where
  "get_password_hash i d =
     (case find_row (\<lambda>r. ur_id r = i \<and> ur_status r = Active) (db_users d) of
        None \<Rightarrow> None
      | Some r \<Rightarrow> ur_password_hash r)"

subsection \<open>The update trigger and the dynamic update\<close>

definition touch_user :: "time \<Rightarrow> user_row \<Rightarrow> user_row" where
  "touch_user now r = r\<lparr>ur_updated_at := max now (ur_updated_at r + 1)\<rparr>"

definition update_users ::
    "time \<Rightarrow> (user_row \<Rightarrow> bool) \<Rightarrow> (user_row \<Rightarrow> user_row) \<Rightarrow> db \<Rightarrow> db" where
  "update_users now P f d =
     d\<lparr>db_users := update_where P (\<lambda>r. touch_user now (f r)) (db_users d)\<rparr>"

text \<open>
  \<open>UpdateUserData\<close>: \<open>None\<close> is an absent (\<open>undefined\<close>) property; for nullable columns
  \<open>Some None\<close> writes \<open>NULL\<close>.
\<close>

record update_user_data =
  ud_email :: "string option"
  ud_email_verified :: "bool option"
  ud_password_hash :: "string option option"
  ud_password_changed_at :: "time option option"
  ud_profile :: "profile_field \<Rightarrow> string option option"
  ud_phone_number_verified :: "bool option"
  ud_two_factor_enabled :: "bool option"
  ud_two_factor_method :: "string option option"
  ud_status :: "user_status option"
  ud_locked_at :: "time option option"
  ud_locked_reason :: "string option option"

definition no_update :: update_user_data where
  "no_update = \<lparr>ud_email = None, ud_email_verified = None, ud_password_hash = None,
     ud_password_changed_at = None, ud_profile = (\<lambda>_. None), ud_phone_number_verified = None,
     ud_two_factor_enabled = None, ud_two_factor_method = None, ud_status = None,
     ud_locked_at = None, ud_locked_reason = None\<rparr>"

definition all_profile_fields :: "profile_field list" where
  "all_profile_fields =
     [GivenName, FamilyName, MiddleName, Nickname, PreferredUsername, ProfileUrl, PictureUrl,
      WebsiteUrl, Gender, Birthdate, Zoneinfo, Locale, PhoneNumber, AddressStreet,
      AddressLocality, AddressRegion, AddressPostalCode, AddressCountry]"

lemma all_profile_fields_complete: "f \<in> set all_profile_fields"
  by (cases f) (simp_all add: all_profile_fields_def)

text \<open>\<open>setClauses.length === 0\<close>: no column of \<open>FIELD_TO_COLUMN\<close> is present.\<close>

definition no_set_clauses :: "update_user_data \<Rightarrow> bool" where
  "no_set_clauses u =
     (ud_email u = None \<and> ud_email_verified u = None \<and> ud_password_hash u = None \<and>
      ud_password_changed_at u = None \<and>
      list_all (\<lambda>f. ud_profile u f = None) all_profile_fields \<and>
      ud_phone_number_verified u = None \<and> ud_two_factor_enabled u = None \<and>
      ud_two_factor_method u = None \<and> ud_status u = None \<and> ud_locked_at u = None \<and>
      ud_locked_reason u = None)"

definition apply_set_clauses :: "update_user_data \<Rightarrow> user_row \<Rightarrow> user_row" where
  "apply_set_clauses u r = r\<lparr>
     ur_email := nullish (ud_email u) (ur_email r),
     ur_email_verified := nullish (ud_email_verified u) (ur_email_verified r),
     ur_password_hash := nullish (ud_password_hash u) (ur_password_hash r),
     ur_password_changed_at := nullish (ud_password_changed_at u) (ur_password_changed_at r),
     ur_profile := (\<lambda>f. nullish (ud_profile u f) (ur_profile r f)),
     ur_phone_number_verified := nullish (ud_phone_number_verified u) (ur_phone_number_verified r),
     ur_two_factor_enabled := nullish (ud_two_factor_enabled u) (ur_two_factor_enabled r),
     ur_two_factor_method := nullish (ud_two_factor_method u) (ur_two_factor_method r),
     ur_status := nullish (ud_status u) (ur_status r),
     ur_locked_at := nullish (ud_locked_at u) (ur_locked_at r),
     ur_locked_reason := nullish (ud_locked_reason u) (ur_locked_reason r)\<rparr>"

text \<open>
  The update of one row. The unique constraint is checked on the updated row against the others;
  the returned user is the row after the trigger.
\<close>

definition update_user_row ::
    "time \<Rightarrow> string \<Rightarrow> update_user_data \<Rightarrow> (db, user) op" where
  "update_user_row now i u d =
     (if no_set_clauses u then (Inl (JsError ''No fields to update''), d)
      else (case find_row (\<lambda>r. ur_id r = i) (db_users d) of
              None \<Rightarrow> (Inl (JsError ''User not found''), d)
            | Some r \<Rightarrow>
                (let r' = touch_user now (apply_set_clauses u r)
                 in if row_exists (\<lambda>x. ur_id x \<noteq> i \<and>
                          same_login (ur_organization_id r') (ur_email r') x) (db_users d)
                    then (Inl UniqueViolation, d)
                    else (Inr (map_row_to_user r'),
                      update_users now (\<lambda>x. ur_id x = i) (apply_set_clauses u) d))))"

lemma touch_user_fields [simp]:
  "ur_id (touch_user now r) = ur_id r"
  "ur_organization_id (touch_user now r) = ur_organization_id r"
  "ur_email (touch_user now r) = ur_email r"
  "ur_email_verified (touch_user now r) = ur_email_verified r"
  "ur_status (touch_user now r) = ur_status r"
  "ur_locked_at (touch_user now r) = ur_locked_at r"
  "ur_locked_reason (touch_user now r) = ur_locked_reason r"
  "ur_password_hash (touch_user now r) = ur_password_hash r"
  "ur_failed_login_count (touch_user now r) = ur_failed_login_count r"
  "ur_last_failed_login_at (touch_user now r) = ur_last_failed_login_at r"
  "ur_login_count (touch_user now r) = ur_login_count r"
  "ur_last_login_at (touch_user now r) = ur_last_login_at r"
  "ur_profile (touch_user now r) = ur_profile r"
  by (simp_all add: touch_user_def)

lemma touch_user_advances: "ur_updated_at r < ur_updated_at (touch_user now r)"
  by (simp add: touch_user_def max_def)

lemma apply_set_clauses_fields [simp]:
  "ur_id (apply_set_clauses u r) = ur_id r"
  "ur_organization_id (apply_set_clauses u r) = ur_organization_id r"
  "ur_email (apply_set_clauses u r) = nullish (ud_email u) (ur_email r)"
  "ur_status (apply_set_clauses u r) = nullish (ud_status u) (ur_status r)"
  "ur_locked_at (apply_set_clauses u r) = nullish (ud_locked_at u) (ur_locked_at r)"
  "ur_locked_reason (apply_set_clauses u r) = nullish (ud_locked_reason u) (ur_locked_reason r)"
  "ur_password_hash (apply_set_clauses u r) = nullish (ud_password_hash u) (ur_password_hash r)"
  "ur_failed_login_count (apply_set_clauses u r) = ur_failed_login_count r"
  "ur_updated_at (apply_set_clauses u r) = ur_updated_at r"
  by (simp_all add: apply_set_clauses_def)

lemma no_update_fields [simp]:
  "ud_email no_update = None" "ud_status no_update = None" "ud_locked_at no_update = None"
  "ud_locked_reason no_update = None" "ud_password_hash no_update = None"
  "ud_profile no_update = (\<lambda>_. None)" "ud_email_verified no_update = None"
  by (simp_all add: no_update_def)

subsection \<open>Utility queries and login accounting\<close>

text \<open>An \<open>excludeId\<close> that is absent or empty is falsy and excludes nobody.\<close>

definition email_exists :: "string \<Rightarrow> string \<Rightarrow> string option \<Rightarrow> db \<Rightarrow> bool" where
  "email_exists org email exclude d =
     (case exclude of
        Some x \<Rightarrow>
          (if x \<noteq> [] then row_exists (\<lambda>r. same_login org email r \<and> ur_id r \<noteq> x) (db_users d)
           else row_exists (same_login org email) (db_users d))
      | None \<Rightarrow> row_exists (same_login org email) (db_users d))"

definition update_login_stats :: "time \<Rightarrow> string \<Rightarrow> db \<Rightarrow> db" where
  "update_login_stats now i =
     update_users now (\<lambda>r. ur_id r = i)
       (\<lambda>r. r\<lparr>ur_last_login_at := Some now, ur_login_count := ur_login_count r + 1,
             ur_failed_login_count := 0, ur_last_failed_login_at := None\<rparr>)"

definition auto_lockout :: string where
  "auto_lockout = ''auto_lockout''"

text \<open>The \<open>SET\<close> list of the failed-login statement, whose \<open>CASE\<close>s test the old row.\<close>

definition failed_login_set :: "time \<Rightarrow> int \<Rightarrow> user_row \<Rightarrow> user_row" where
  "failed_login_set now max_attempts r =
     (let locks = (int (ur_failed_login_count r) + 1 \<ge> max_attempts \<and> ur_status r = Active)
      in r\<lparr>ur_failed_login_count := ur_failed_login_count r + 1,
           ur_last_failed_login_at := Some now,
           ur_status := (if locks then Locked else ur_status r),
           ur_locked_at := (if locks then Some now else ur_locked_at r),
           ur_locked_reason := (if locks then Some auto_lockout else ur_locked_reason r)\<rparr>)"

datatype failure_status = RowStatus user_status | Unmodified

definition increment_failed_login_count ::
    "time \<Rightarrow> string \<Rightarrow> int \<Rightarrow> db \<Rightarrow> (failure_status \<times> nat) \<times> db" where
  "increment_failed_login_count now i max_attempts d =
     (let d' = update_users now (\<lambda>r. ur_id r = i) (failed_login_set now max_attempts) d
      in ((case find_row (\<lambda>r. ur_id r = i) (db_users d') of
             None \<Rightarrow> (RowStatus Active, 0)
           | Some r \<Rightarrow> (RowStatus (ur_status r), ur_failed_login_count r)), d'))"

text \<open>
  The fixed-shape variant: the predicate \<open>status = 'active'\<close> is in the \<open>WHERE\<close> clause, so
  \<open>RETURNING\<close> yields a row only when the account was active.
\<close>

definition record_eligible_password_failure ::
    "time \<Rightarrow> string \<Rightarrow> int \<Rightarrow> db \<Rightarrow> (failure_status \<times> nat) \<times> db" where
  "record_eligible_password_failure now i max_attempts d =
     ((case find_row (\<lambda>r. ur_id r = i \<and> ur_status r = Active) (db_users d) of
         None \<Rightarrow> (Unmodified, 0)
       | Some r \<Rightarrow>
           (let r' = failed_login_set now max_attempts r
            in (RowStatus (ur_status r'), ur_failed_login_count r'))),
      update_users now (\<lambda>r. ur_id r = i \<and> ur_status r = Active)
        (failed_login_set now max_attempts) d)"

definition clear_lock :: "user_row \<Rightarrow> user_row" where
  "clear_lock r = r\<lparr>ur_status := Active, ur_locked_at := None, ur_locked_reason := None,
     ur_failed_login_count := 0, ur_last_failed_login_at := None\<rparr>"

definition unlock_eligible_password_account ::
    "time \<Rightarrow> string \<Rightarrow> time \<Rightarrow> db \<Rightarrow> bool \<times> db" where
  "unlock_eligible_password_account now i locked_before d =
     (let P = (\<lambda>r. ur_id r = i \<and> ur_status r = Locked \<and>
                 ur_locked_reason r = Some auto_lockout \<and> sql_le (ur_locked_at r) locked_before)
      in (row_count P (db_users d) = 1, update_users now P clear_lock d))"

definition reset_failed_login_count :: "time \<Rightarrow> string \<Rightarrow> db \<Rightarrow> db" where
  "reset_failed_login_count now i =
     update_users now
       (\<lambda>r. ur_id r = i \<and> ur_status r = Locked \<and> ur_locked_reason r = Some auto_lockout)
       clear_lock"

definition count_by_organization :: "string \<Rightarrow> db \<Rightarrow> nat" where
  "count_by_organization org d = row_count (\<lambda>r. ur_organization_id r = org) (db_users d)"

lemma clear_lock_fields [simp]:
  "ur_id (clear_lock r) = ur_id r" "ur_organization_id (clear_lock r) = ur_organization_id r"
  "ur_email (clear_lock r) = ur_email r" "ur_status (clear_lock r) = Active"
  "ur_locked_at (clear_lock r) = None" "ur_locked_reason (clear_lock r) = None"
  "ur_failed_login_count (clear_lock r) = 0" "ur_password_hash (clear_lock r) = ur_password_hash r"
  by (simp_all add: clear_lock_def)

lemma failed_login_set_fields [simp]:
  "ur_id (failed_login_set now m r) = ur_id r"
  "ur_organization_id (failed_login_set now m r) = ur_organization_id r"
  "ur_email (failed_login_set now m r) = ur_email r"
  "ur_failed_login_count (failed_login_set now m r) = Suc (ur_failed_login_count r)"
  "ur_password_hash (failed_login_set now m r) = ur_password_hash r"
  by (simp_all add: failed_login_set_def Let_def)

lemma failed_login_set_status:
  "ur_status (failed_login_set now m r) =
     (if int (ur_failed_login_count r) + 1 \<ge> m \<and> ur_status r = Active then Locked else ur_status r)"
  by (simp add: failed_login_set_def Let_def)

lemma failed_login_set_lock:
  "ur_locked_at (failed_login_set now m r) =
     (if int (ur_failed_login_count r) + 1 \<ge> m \<and> ur_status r = Active then Some now
      else ur_locked_at r)"
  "ur_locked_reason (failed_login_set now m r) =
     (if int (ur_failed_login_count r) + 1 \<ge> m \<and> ur_status r = Active then Some auto_lockout
      else ur_locked_reason r)"
  by (simp_all add: failed_login_set_def Let_def)

end
