(* ===== verification/UserDeletion.thy ===== *)
theory UserDeletion
  imports UserRepository
begin

text \<open>
  The locked deletion of packages/server/src/users/repository.ts: the control-plane check, the
  survivor check for the exact role \<open>porta-super-admin\<close> of the application \<open>porta-admin\<close>, the
  captured authority graph, and the physical delete with the foreign-key actions of the
  migrations. The row locks (\<open>FOR UPDATE\<close>) make these statements one atomic step of the model.
\<close>

definition super_admin_role :: string where
  "super_admin_role = ''porta-super-admin''"

definition porta_admin_app :: string where
  "porta_admin_app = ''porta-admin''"

text \<open>The \<open>EXISTS\<close> join of user\_roles, roles and applications for one user.\<close>

definition holds_super_admin :: "db \<Rightarrow> string \<Rightarrow> bool" where
  "holds_super_admin d uid =
     row_exists (\<lambda>a. ul_user_id a = uid \<and>
       row_exists (\<lambda>ro. ro_id ro = ul_role_id a \<and> ro_slug ro = super_admin_role \<and>
         row_exists (\<lambda>ap. ap_id ap = ro_application_id ro \<and> ap_slug ap = porta_admin_app)
           (db_applications d)) (db_roles d)) (db_user_roles d)"

definition lock_control_plane_organization :: "string \<Rightarrow> db \<Rightarrow> bool" where
  "lock_control_plane_organization org d =
     row_exists (\<lambda>o'. og_id o' = org \<and> og_is_super_admin o') (db_organizations d)"

definition active_survivor :: "string \<Rightarrow> string \<Rightarrow> db \<Rightarrow> bool" where
  "active_survivor org excluded d =
     row_exists (\<lambda>r. ur_organization_id r = org \<and> ur_id r \<noteq> excluded \<and> ur_status r = Active \<and>
       holds_super_admin d (ur_id r)) (db_users d)"

definition last_super_admin_error :: app_error where
  "last_super_admin_error =
     UserValidationError ''Cannot remove the last active porta-super-admin user''"

definition require_active_super_admin_survivor_after_lock ::
    "string \<Rightarrow> string \<Rightarrow> (db, unit) op" where
  "require_active_super_admin_survivor_after_lock org excluded d =
     unless_throw (active_survivor org excluded d) last_super_admin_error d"

definition require_active_super_admin_survivor :: "string \<Rightarrow> string \<Rightarrow> (db, unit) op" where
  "require_active_super_admin_survivor org excluded d =
     (if \<not> lock_control_plane_organization org d then (Inr (), d)
      else require_active_super_admin_survivor_after_lock org excluded d)"

record user_deletion_capture =
  dc_user :: user
  dc_user_ids :: "string list"
  dc_grant_ids :: "string list"
  dc_role_ids :: "string list"
  dc_claim_ids :: "string list"
  dc_application_ids :: "string list"

text \<open>The graph query: grants of the account, assigned roles and claims, their applications.\<close>

definition assigned_roles :: "string \<Rightarrow> db \<Rightarrow> role_row list" where
  "assigned_roles uid d =
     filter (\<lambda>ro. row_exists (\<lambda>a. ul_user_id a = uid \<and> ul_role_id a = ro_id ro) (db_user_roles d))
       (db_roles d)"

definition assigned_claims :: "string \<Rightarrow> db \<Rightarrow> claim_definition_row list" where
  "assigned_claims uid d =
     filter (\<lambda>c. row_exists (\<lambda>v. cv_user_id v = uid \<and> cv_claim_id v = cd_id c) (db_claim_values d))
       (db_claim_definitions d)"

definition grants_of_accounts :: "string list \<Rightarrow> db \<Rightarrow> string list" where
  "grants_of_accounts uids d =
     sort (map pl_id (filter (\<lambda>p. pl_type p = ''Grant'' \<and>
       (case pl_account_id p of None \<Rightarrow> False | Some a \<Rightarrow> a \<in> set uids)) (db_oidc_payloads d)))"

definition delete_user_capture ::
    "string \<Rightarrow> string \<Rightarrow> (db, user_deletion_capture option) op" where
  "delete_user_capture org uid d =
     (let is_control_plane = lock_control_plane_organization org d
      in case find_row (\<lambda>r. ur_id r = uid \<and> ur_organization_id r = org) (db_users d) of
           None \<Rightarrow> (Inr None, d)
         | Some row \<Rightarrow>
             andthen
               (if ur_status row = Active \<and> is_control_plane \<and> holds_super_admin d uid
                then require_active_super_admin_survivor_after_lock org uid
                else return_op ())
               (\<lambda>_. return_op (Some \<lparr>
                  dc_user = map_row_to_user row,
                  dc_user_ids = [ur_id row],
                  dc_grant_ids = grants_of_accounts [uid] d,
                  dc_role_ids = sort (map ro_id (assigned_roles uid d)),
                  dc_claim_ids = sort (map cd_id (assigned_claims uid d)),
                  dc_application_ids = sort (remdups (map ro_application_id (assigned_roles uid d) @
                    map cd_application_id (assigned_claims uid d)))\<rparr>)) d)"

text \<open>
  \<open>DELETE FROM users\<close> with the foreign-key actions of the migrations: rows that belong to the user
  are deleted (\<open>ON DELETE CASCADE\<close>), references by audit rows, role assigners and inviters are
  set to null.
\<close>

definition null_if :: "string \<Rightarrow> string option \<Rightarrow> string option" where
  "null_if uid r = (if r = Some uid then None else r)"

definition delete_users_cascade :: "(user_row \<Rightarrow> bool) \<Rightarrow> string \<Rightarrow> db \<Rightarrow> db" where
  "delete_users_cascade P uid d =
     (if \<not> row_exists P (db_users d) then d
      else d\<lparr>
        db_users := delete_where P (db_users d),
        db_user_roles := map (\<lambda>a. a\<lparr>ul_assigned_by := null_if uid (ul_assigned_by a)\<rparr>)
          (delete_where (\<lambda>a. ul_user_id a = uid) (db_user_roles d)),
        db_claim_values := delete_where (\<lambda>v. cv_user_id v = uid) (db_claim_values d),
        db_magic_link_tokens := delete_where (\<lambda>t. tk_user_id t = uid) (db_magic_link_tokens d),
        db_password_reset_tokens :=
          delete_where (\<lambda>t. tk_user_id t = uid) (db_password_reset_tokens d),
        db_invitation_tokens :=
          map (\<lambda>t. t\<lparr>iv_invited_by := null_if uid (iv_invited_by t)\<rparr>)
            (delete_where (\<lambda>t. iv_user_id t = Some uid) (db_invitation_tokens d)),
        db_two_factor := \<lparr>
          tf_totp = delete_where (\<lambda>t. tt_user_id t = uid) (tf_totp (db_two_factor d)),
          tf_otp_codes = delete_where (\<lambda>t. oc_user_id t = uid) (tf_otp_codes (db_two_factor d)),
          tf_recovery_codes =
            delete_where (\<lambda>t. rk_user_id t = uid) (tf_recovery_codes (db_two_factor d))\<rparr>,
        db_admin_sessions := delete_where (\<lambda>s. se_user_id s = Some uid) (db_admin_sessions d),
        db_audit_log := map (\<lambda>a. a\<lparr>al_user_id := null_if uid (al_user_id a),
            al_actor_id := null_if uid (al_actor_id a)\<rparr>) (db_audit_log d)\<rparr>)"

definition delete_captured_user :: "string \<Rightarrow> string \<Rightarrow> db \<Rightarrow> db" where
  "delete_captured_user org uid =
     delete_users_cascade (\<lambda>r. ur_organization_id r = org \<and> ur_id r = uid) uid"

definition delete_user_repo :: "string \<Rightarrow> string \<Rightarrow> (db, user_deletion_capture option) op" where
  "delete_user_repo org uid =
     andthen (delete_user_capture org uid)
       (\<lambda>capture. case capture of
          None \<Rightarrow> return_op None
        | Some c \<Rightarrow> andthen (execute (delete_captured_user org uid)) (\<lambda>_. return_op (Some c)))"

subsection \<open>The last super administrator survives\<close>

definition has_active_super_admin :: "string \<Rightarrow> db \<Rightarrow> bool" where
  "has_active_super_admin org d =
     row_exists (\<lambda>r. ur_organization_id r = org \<and> ur_status r = Active \<and>
       holds_super_admin d (ur_id r)) (db_users d)"

lemma delete_user_capture_db [simp]: "snd (delete_user_capture org uid d) = d"
  by (simp add: delete_user_capture_def require_active_super_admin_survivor_after_lock_def
      andthen_def unless_throw_def Let_def split: option.splits)

lemma holds_super_admin_delete_other:
  assumes "uid' \<noteq> uid"
  shows "holds_super_admin (delete_users_cascade P uid d) uid' = holds_super_admin d uid'"
  using assms
  by (auto simp: holds_super_admin_def delete_users_cascade_def intro!: row_exists_cong)

lemma delete_user_capture_guards:
  assumes "fst (delete_user_capture org uid d) = Inr (Some c)"
    and "lock_control_plane_organization org d"
    and "unique_on ur_id (db_users d)"
    and "r \<in> set (db_users d)" "ur_organization_id r = org" "ur_status r = Active"
    and "holds_super_admin d (ur_id r)" "ur_id r = uid"
  shows "active_survivor org uid d"
proof -
  have "find_row (\<lambda>x. ur_id x = uid \<and> ur_organization_id x = org) (db_users d) = Some r"
  proof -
    obtain r' where r': "find_row (\<lambda>x. ur_id x = uid \<and> ur_organization_id x = org) (db_users d)
        = Some r'"
      using assms(4,5,8) by (cases "find_row (\<lambda>x. ur_id x = uid \<and> ur_organization_id x = org)
        (db_users d)") (auto simp: find_row_None_iff)
    then have "r' \<in> set (db_users d)" "ur_id r' = ur_id r"
      using find_row_SomeD assms(8) by fastforce+
    with assms(3,4) have "r' = r" by (auto dest: unique_on_same)
    with r' show ?thesis by simp
  qed
  with assms show ?thesis
    by (auto simp: delete_user_capture_def require_active_super_admin_survivor_after_lock_def
        andthen_def unless_throw_def throw_op_def split: if_splits)
qed

lemma delete_user_repo_Some:
  assumes "delete_user_repo org uid d = (Inr (Some c), d')"
  shows "fst (delete_user_capture org uid d) = Inr (Some c)"
    and "d' = delete_captured_user org uid d"
proof -
  have *: "delete_user_capture org uid d = (fst (delete_user_capture org uid d), d)"
    using delete_user_capture_db [of org uid d] by (metis prod.collapse)
  show "fst (delete_user_capture org uid d) = Inr (Some c)" "d' = delete_captured_user org uid d"
    using assms
    by (subst (asm) delete_user_repo_def, subst (asm) andthen_def, subst (asm) *,
        auto simp: andthen_def split: sum.splits option.splits)+
qed

text \<open>
  Deletion keeps an active exact super administrator in every control-plane organization that has
  one: the survivor found by the check is another user, whose role rows are not touched.
\<close>

lemma delete_captured_user_survivor:
  assumes "active_survivor org uid d"
  shows "has_active_super_admin org (delete_captured_user org uid d)"
proof -
  obtain r where r: "r \<in> set (db_users d)" "ur_organization_id r = org" "ur_id r \<noteq> uid"
      "ur_status r = Active" "holds_super_admin d (ur_id r)"
    using assms by (auto simp: active_survivor_def row_exists_iff)
  then have "r \<in> set (db_users (delete_captured_user org uid d))"
    by (auto simp: delete_captured_user_def delete_users_cascade_def)
  moreover have "holds_super_admin (delete_captured_user org uid d) (ur_id r)"
    using r by (simp add: delete_captured_user_def holds_super_admin_delete_other)
  ultimately show ?thesis
    using r by (auto simp: has_active_super_admin_def row_exists_iff)
qed

lemma delete_captured_user_other_survivor:
  assumes "r \<in> set (db_users d)" "ur_organization_id r = o'" "ur_status r = Active"
    and "holds_super_admin d (ur_id r)" and "ur_id r \<noteq> uid"
  shows "has_active_super_admin o' (delete_captured_user org uid d)"
proof -
  have "r \<in> set (db_users (delete_captured_user org uid d))"
    using assms by (auto simp: delete_captured_user_def delete_users_cascade_def)
  moreover have "holds_super_admin (delete_captured_user org uid d) (ur_id r)"
    using assms by (simp add: delete_captured_user_def holds_super_admin_delete_other)
  ultimately show ?thesis
    using assms by (auto simp: has_active_super_admin_def row_exists_iff)
qed

end
