(* ===== verification/AuditLog.thy ===== *)
theory AuditLog
  imports Transaction
begin

text \<open>
  packages/server/src/lib/audit-log.ts: the actor of an audit row and the two writers. The
  compatibility writer defers its row to after the commit; the mutation writer inserts it in the
  open transaction, so that mutation and audit row commit or roll back together.
\<close>

datatype audit_actor = UserActor string | ServiceActor string string | SystemActor

record audit_entry =
  ae_organization_id :: "string option"
  ae_user_id :: "string option"
  ae_actor_id :: "string option"
  ae_actor_type :: "actor_type option"
  ae_actor_client_id :: "string option"
  ae_actor_client_name :: "string option"
  ae_event_type :: string
  ae_event_category :: string
  ae_description :: "string option"
  ae_metadata :: "json option"
  ae_ip_address :: "string option"
  ae_user_agent :: "string option"

definition blank_entry :: "string \<Rightarrow> string \<Rightarrow> audit_entry" where
  "blank_entry event category = \<lparr>ae_organization_id = None, ae_user_id = None, ae_actor_id = None,
     ae_actor_type = None, ae_actor_client_id = None, ae_actor_client_name = None,
     ae_event_type = event, ae_event_category = category, ae_description = None,
     ae_metadata = None, ae_ip_address = None, ae_user_agent = None\<rparr>"

record normalized_actor =
  na_actor_id :: "string option"
  na_actor_type :: actor_type
  na_actor_client_id :: "string option"
  na_actor_client_name :: "string option"

text \<open>Truthiness of an optional string: present and not empty.\<close>

definition truthy :: "string option \<Rightarrow> bool" where
  "truthy s = (case s of None \<Rightarrow> False | Some x \<Rightarrow> x \<noteq> [])"

lemma truthy_simps [simp]: "\<not> truthy None" "truthy (Some x) = (x \<noteq> [])"
  by (simp_all add: truthy_def)

definition normalize_actor :: "audit_entry \<Rightarrow> app_error + normalized_actor" where
  "normalize_actor e =
     (let t = nullish (ae_actor_type e)
                (if truthy (ae_actor_id e) then ActorUser
                 else if truthy (ae_actor_client_id e) then ActorClient else ActorSystem)
      in case t of
           ActorClient \<Rightarrow>
             (if \<not> truthy (ae_actor_client_id e)
              then Inl (JsError ''Client audit actor requires a client identifier'')
              else Inr \<lparr>na_actor_id = None, na_actor_type = ActorClient,
                     na_actor_client_id = ae_actor_client_id e,
                     na_actor_client_name = ae_actor_client_name e\<rparr>)
         | ActorUser \<Rightarrow> Inr \<lparr>na_actor_id = ae_actor_id e, na_actor_type = ActorUser,
             na_actor_client_id = None, na_actor_client_name = None\<rparr>
         | ActorSystem \<Rightarrow> Inr \<lparr>na_actor_id = None, na_actor_type = ActorSystem,
             na_actor_client_id = None, na_actor_client_name = None\<rparr>)"

definition insert_values :: "audit_entry \<Rightarrow> normalized_actor \<Rightarrow> audit_row" where
  "insert_values e a = \<lparr>
     al_organization_id = ae_organization_id e,
     al_user_id = ae_user_id e,
     al_actor_id = na_actor_id a,
     al_actor_type = na_actor_type a,
     al_actor_client_id = na_actor_client_id a,
     al_actor_client_name = na_actor_client_name a,
     al_event_type = ae_event_type e,
     al_event_category = ae_event_category e,
     al_description = ae_description e,
     al_metadata = nullish (ae_metadata e) (JObj []),
     al_ip_address = ae_ip_address e,
     al_user_agent = ae_user_agent e\<rparr>"

definition insert_audit_row :: "audit_row \<Rightarrow> db \<Rightarrow> db" where
  "insert_audit_row row d = d\<lparr>db_audit_log := db_audit_log d @ [row]\<rparr>"

definition audit_actor_columns :: "audit_actor \<Rightarrow> audit_entry \<Rightarrow> audit_entry" where
  "audit_actor_columns actor e =
     (case actor of
        ServiceActor cid name \<Rightarrow> e\<lparr>ae_actor_id := None, ae_actor_type := Some ActorClient,
          ae_actor_client_id := Some cid, ae_actor_client_name := Some name\<rparr>
      | UserActor uid \<Rightarrow> e\<lparr>ae_actor_id := Some uid, ae_actor_type := Some ActorUser,
          ae_actor_client_id := None, ae_actor_client_name := None\<rparr>
      | SystemActor \<Rightarrow> e\<lparr>ae_actor_id := None, ae_actor_type := Some ActorSystem,
          ae_actor_client_id := None, ae_actor_client_name := None\<rparr>)"

record audit_context =
  ac_ip_address :: "string option"
  ac_user_agent :: "string option"

definition audit_fields ::
    "audit_actor option \<Rightarrow> audit_context option \<Rightarrow> audit_entry \<Rightarrow> audit_entry" where
  "audit_fields actor context e =
     (let e1 = audit_actor_columns (nullish actor SystemActor) e;
          ip = (case context of None \<Rightarrow> None | Some c \<Rightarrow> ac_ip_address c);
          ua = (case context of None \<Rightarrow> None | Some c \<Rightarrow> ac_user_agent c);
          e2 = (if truthy ip then e1\<lparr>ae_ip_address := ip\<rparr> else e1)
      in if truthy ua then e2\<lparr>ae_user_agent := ua\<rparr> else e2)"

text \<open>The compatibility writer: an actor-shape error throws before the write is scheduled.\<close>

definition write_audit_log :: "audit_entry \<Rightarrow> (flow, unit) op" where
  "write_audit_log e =
     (case normalize_actor e of
        Inl err \<Rightarrow> throw_op err
      | Inr a \<Rightarrow> after_database_commit (on_db (execute (insert_audit_row (insert_values e a)))))"

definition write_audit_log_in_transaction :: "audit_entry \<Rightarrow> (flow, unit) op" where
  "write_audit_log_in_transaction e =
     (case normalize_actor e of
        Inl err \<Rightarrow> throw_op err
      | Inr a \<Rightarrow> query (execute (insert_audit_row (insert_values e a))))"

lemma step_audit:
  "andthen (write_audit_log_in_transaction e) g f =
     (case normalize_actor e of
        Inl err \<Rightarrow> (Inl err, f)
      | Inr a \<Rightarrow> g () (with_db (insert_audit_row (insert_values e a) (flow_db f)) f))"
  by (simp add: write_audit_log_in_transaction_def step_execute split: sum.splits)

subsection \<open>Actors of audit rows\<close>

text \<open>A row attributed through \<open>audit_fields\<close> with a named service client has one actor.\<close>

definition actor_well_formed :: "audit_row \<Rightarrow> bool" where
  "actor_well_formed r =
     (case al_actor_type r of
        ActorUser \<Rightarrow> al_actor_client_id r = None
      | ActorClient \<Rightarrow> al_actor_id r = None \<and> truthy (al_actor_client_id r)
      | ActorSystem \<Rightarrow> al_actor_id r = None \<and> al_actor_client_id r = None)"

lemma normalize_actor_well_formed:
  "normalize_actor e = Inr a \<Longrightarrow> actor_well_formed (insert_values e a)"
  by (auto simp: normalize_actor_def Let_def insert_values_def actor_well_formed_def
      split: actor_type.splits if_splits)

lemma normalize_actor_audit_fields:
  assumes "\<And>cid name. actor = Some (ServiceActor cid name) \<Longrightarrow> cid \<noteq> []"
  shows "\<exists>a. normalize_actor (audit_fields actor context e) = Inr a"
  using assms
  by (cases actor) (auto simp: normalize_actor_def audit_fields_def audit_actor_columns_def Let_def
      split: option.splits audit_actor.splits)

lemma audit_fields_event [simp]:
  "ae_event_type (audit_fields actor context e) = ae_event_type e"
  "ae_user_id (audit_fields actor context e) = ae_user_id e"
  "ae_organization_id (audit_fields actor context e) = ae_organization_id e"
  by (simp_all add: audit_fields_def audit_actor_columns_def Let_def split: audit_actor.splits)

lemma insert_values_fields [simp]:
  "al_event_type (insert_values e a) = ae_event_type e"
  "al_user_id (insert_values e a) = ae_user_id e"
  "al_organization_id (insert_values e a) = ae_organization_id e"
  by (simp_all add: insert_values_def)

lemma insert_audit_row_tables [simp]:
  "db_users (insert_audit_row r d) = db_users d"
  "db_organizations (insert_audit_row r d) = db_organizations d"
  "db_user_roles (insert_audit_row r d) = db_user_roles d"
  "db_roles (insert_audit_row r d) = db_roles d"
  "db_applications (insert_audit_row r d) = db_applications d"
  "db_audit_log (insert_audit_row r d) = db_audit_log d @ [r]"
  by (simp_all add: insert_audit_row_def)

end
