(* ===== verification/DeletionCleanup.thy ===== *)
theory DeletionCleanup
  imports Transaction
begin

text \<open>
  packages/server/src/lib/deletion-cleanup.ts: the Redis keys that a committed deletion or
  authority change removes. The cleanup runs as an after-commit effect; a Redis failure is logged
  and swallowed. OIDC payloads in Redis are JSON objects under \<open>oidc:<model>:<id>\<close>.
\<close>

definition redis_oidc_models :: "string list" where
  "redis_oidc_models = [''Session'', ''Interaction'', ''AuthorizationCode'', ''ReplayDetection'',
     ''ClientCredentials'', ''PushedAuthorizationRequest'']"

datatype cleanup_resource =
    ROrganization | RApplication | RModule | RClient | RRole | RPermission | RClaim | RUser

record deletion_cleanup_descriptor =
  dd_resource :: cleanup_resource
  dd_target_id :: string
  dd_target_slug :: "string option"
  dd_parent_id :: "string option"
  dd_user_ids :: "string list"
  dd_client_ids :: "string list"
  dd_public_client_ids :: "string list"
  dd_grant_ids :: "string list"
  dd_role_ids :: "string list"
  dd_permission_ids :: "string list"
  dd_claim_ids :: "string list"
  dd_application_ids :: "string list"

record authority_cleanup_descriptor =
  ad_user_ids :: "string list"
  ad_grant_ids :: "string list"
  ad_role_ids :: "string list"
  ad_revoke_oidc_state :: bool

text \<open>One optional string field against a set of identifiers.\<close>

definition has_reference :: "string list \<Rightarrow> json option \<Rightarrow> bool" where
  "has_reference vals v = (case v of Some (JStr s) \<Rightarrow> s \<in> set vals | _ \<Rightarrow> False)"

definition references_deleted_authority ::
    "json \<Rightarrow> string list \<Rightarrow> string list \<Rightarrow> string list \<Rightarrow> bool" where
  "references_deleted_authority payload client_ids grant_ids user_ids =
     (has_reference client_ids (json_get ''clientId'' payload) \<or>
      has_reference grant_ids (json_get ''grantId'' payload) \<or>
      has_reference user_ids (json_get ''accountId'' payload) \<or>
      (case json_get ''authorizations'' payload of
         Some (JObj auths) \<Rightarrow>
           list_ex (\<lambda>(cid, a). cid \<in> set client_ids \<or>
             (case a of JObj _ \<Rightarrow> has_reference grant_ids (json_get ''grantId'' a) | _ \<Rightarrow> False)) auths
       | _ \<Rightarrow> False))"

definition exact_authority_keys :: "string list \<Rightarrow> string list \<Rightarrow> string list \<Rightarrow> string list" where
  "exact_authority_keys role_ids user_ids grant_ids =
     map (\<lambda>i. ''rbac:role:'' @ i) role_ids @
     concat (map (\<lambda>i. [''rbac:user-roles:'' @ i, ''rbac:user-perms:'' @ i]) user_ids) @
     concat (map (\<lambda>m. map (\<lambda>g. ''oidc:'' @ m @ '':grant:'' @ g) grant_ids) redis_oidc_models)"

definition exact_keys :: "deletion_cleanup_descriptor \<Rightarrow> string list" where
  "exact_keys d =
     exact_authority_keys (dd_role_ids d) (dd_user_ids d) (dd_grant_ids d) @
     (if dd_resource d = ROrganization then [''org:id:'' @ dd_target_id d] else []) @
     (if dd_resource d = RApplication
      then [''app:id:'' @ dd_target_id d, ''claims:defs:'' @ dd_target_id d] else []) @
     (if dd_resource d = RClaim
      then map (\<lambda>a. ''claims:defs:'' @ a) (dd_application_ids d) else []) @
     map (\<lambda>i. ''client:id:'' @ i) (dd_client_ids d) @
     map (\<lambda>i. ''client:cid:'' @ i) (dd_public_client_ids d) @
     map (\<lambda>i. ''user:id:'' @ i) (dd_user_ids d)"

subsection \<open>Scanning OIDC payloads\<close>

text \<open>A main payload key has exactly the three parts \<open>oidc\<close>, a known model and an id.\<close>

definition main_key_model :: "string \<Rightarrow> string option" where
  "main_key_model key =
     (case split_on CHR '':'' key of
        [p, m, i] \<Rightarrow> (if p = ''oidc'' \<and> m \<in> set redis_oidc_models then Some m else None)
      | _ \<Rightarrow> None)"

definition parse_payload :: "redis_value option \<Rightarrow> json option" where
  "parse_payload v = (case v of Some (JsonValue (JObj fs)) \<Rightarrow> Some (JObj fs) | _ \<Rightarrow> None)"

definition index_keys :: "string \<Rightarrow> json \<Rightarrow> string list" where
  "index_keys model payload =
     (case json_get ''uid'' payload of
        Some (JStr u) \<Rightarrow> [''oidc:'' @ model @ '':uid:'' @ u] | _ \<Rightarrow> []) @
     (case json_get ''userCode'' payload of
        Some (JStr u) \<Rightarrow> [''oidc:'' @ model @ '':user_code:'' @ u] | _ \<Rightarrow> [])"

definition payload_keys_to_delete ::
    "time \<Rightarrow> string list \<Rightarrow> string list \<Rightarrow> string list \<Rightarrow> redis \<Rightarrow> string \<Rightarrow> string list" where
  "payload_keys_to_delete now client_ids grant_ids user_ids r key =
     (case main_key_model key of
        None \<Rightarrow> []
      | Some m \<Rightarrow>
          (case parse_payload (redis_live now r key) of
             None \<Rightarrow> []
           | Some p \<Rightarrow>
               (if references_deleted_authority p client_ids grant_ids user_ids
                then key # index_keys m p else [])))"

definition redis_del_all :: "string list \<Rightarrow> redis \<Rightarrow> redis" where
  "redis_del_all ks r = fold redis_del ks r"

definition scan_oidc_payloads ::
    "time \<Rightarrow> string list \<Rightarrow> string list \<Rightarrow> string list \<Rightarrow> redis \<Rightarrow> redis" where
  "scan_oidc_payloads now client_ids grant_ids user_ids r =
     redis_del_all
       (concat (map (payload_keys_to_delete now client_ids grant_ids user_ids r) (map fst r))) r"

text \<open>The Lua script: the slug key goes only while its value still names the deleted record.\<close>

definition delete_matching_slug :: "time \<Rightarrow> string \<Rightarrow> string \<Rightarrow> redis \<Rightarrow> redis" where
  "delete_matching_slug now key target r =
     (case redis_live now r key of
        Some (JsonOrganization o') \<Rightarrow> (if og_id o' = target then redis_del key r else r)
      | Some (JsonApplication a) \<Rightarrow> (if ap_id a = target then redis_del key r else r)
      | Some (JsonValue j) \<Rightarrow> (if json_get ''id'' j = Some (JStr target) then redis_del key r else r)
      | _ \<Rightarrow> r)"

definition cleanup_authority_redis :: "time \<Rightarrow> authority_cleanup_descriptor \<Rightarrow> redis \<Rightarrow> redis" where
  "cleanup_authority_redis now d r =
     (let r1 = redis_del_all (exact_authority_keys (ad_role_ids d) (ad_user_ids d) (ad_grant_ids d)) r
      in if ad_revoke_oidc_state d
         then scan_oidc_payloads now [] (ad_grant_ids d) (ad_user_ids d) r1 else r1)"

definition delete_target_slug ::
    "time \<Rightarrow> cleanup_resource \<Rightarrow> string \<Rightarrow> deletion_cleanup_descriptor \<Rightarrow> redis \<Rightarrow> redis" where
  "delete_target_slug now resource pre d r =
     (case dd_target_slug d of
        None \<Rightarrow> r
      | Some slug \<Rightarrow>
          (if slug \<noteq> [] \<and> dd_resource d = resource
           then delete_matching_slug now (pre @ slug) (dd_target_id d) r else r))"

definition cleanup_deletion_redis :: "time \<Rightarrow> deletion_cleanup_descriptor \<Rightarrow> redis \<Rightarrow> redis" where
  "cleanup_deletion_redis now d r =
     (let r1 = redis_del_all (exact_keys d) r;
          r2 = delete_target_slug now ROrganization ''org:slug:'' d r1;
          r3 = delete_target_slug now RApplication ''app:slug:'' d r2
      in scan_oidc_payloads now (dd_public_client_ids d) (dd_grant_ids d) (dd_user_ids d) r3)"

text \<open>Registration: a post-commit effect whose failure never reaches the caller.\<close>

definition best_effort_redis :: "(redis \<Rightarrow> redis) \<Rightarrow> effect" where
  "best_effort_redis f = catch_op (redis_do (\<lambda>r. ((), f r))) (\<lambda>_. return_op ())"

definition register_deletion_cleanup :: "time \<Rightarrow> deletion_cleanup_descriptor \<Rightarrow> (flow, unit) op" where
  "register_deletion_cleanup now d =
     after_database_commit (best_effort_redis (cleanup_deletion_redis now d))"

definition register_authority_cleanup :: "time \<Rightarrow> authority_cleanup_descriptor \<Rightarrow> (flow, unit) op" where
  "register_authority_cleanup now d =
     after_database_commit (best_effort_redis (cleanup_authority_redis now d))"

subsection \<open>What a cleanup leaves\<close>

lemma best_effort_redis_apply [simp, op_simps]:
  "best_effort_redis f st =
     (Inr (), if st_redis_up st then st\<lparr>st_redis := f (st_redis st)\<rparr> else st)"
  by (simp add: best_effort_redis_def catch_op_def redis_do_def)

lemma redis_del_all_simps [simp]:
  "redis_del_all [] r = r"
  "redis_del_all (k # ks) r = redis_del_all ks (redis_del k r)"
  by (simp_all add: redis_del_all_def)

lemma redis_live_del_all:
  "redis_live now (redis_del_all ks r) k = (if k \<in> set ks then None else redis_live now r k)"
  by (induction ks arbitrary: r) auto

lemma redis_live_key: "redis_live now r k = Some v \<Longrightarrow> k \<in> fst ` set r"
  by (auto simp: redis_live_def dest: map_of_SomeD split: option.splits prod.splits
      intro: rev_image_eqI)

text \<open>Deleting keys never makes a key readable.\<close>

definition redis_shrinks :: "redis \<Rightarrow> redis \<Rightarrow> bool" where
  "redis_shrinks r' r \<longleftrightarrow> (\<forall>now k v. redis_live now r' k = Some v \<longrightarrow> redis_live now r k = Some v)"

lemma redis_shrinks_refl [simp, intro]: "redis_shrinks r r"
  by (simp add: redis_shrinks_def)

lemma redis_shrinks_trans [trans]:
  "redis_shrinks r'' r' \<Longrightarrow> redis_shrinks r' r \<Longrightarrow> redis_shrinks r'' r"
  by (simp add: redis_shrinks_def)

lemma redis_shrinks_del_all [intro]: "redis_shrinks (redis_del_all ks r) r"
  by (simp add: redis_shrinks_def redis_live_del_all)

lemma redis_shrinks_del [intro]: "redis_shrinks (redis_del k r) r"
  by (simp add: redis_shrinks_def)

lemma redis_shrinks_scan [intro]: "redis_shrinks (scan_oidc_payloads now cs gs us r) r"
  by (auto simp: scan_oidc_payloads_def)

lemma redis_shrinks_slug [intro]: "redis_shrinks (delete_target_slug now res p d r) r"
  by (auto simp: delete_target_slug_def delete_matching_slug_def
      split: option.splits redis_value.splits)

lemma scan_removes:
  assumes "main_key_model key = Some m"
    and "redis_live now (scan_oidc_payloads now cs gs us r) key = Some (JsonValue (JObj fs))"
  shows "\<not> references_deleted_authority (JObj fs) cs gs us"
proof
  assume ref: "references_deleted_authority (JObj fs) cs gs us"
  let ?ks = "concat (map (payload_keys_to_delete now cs gs us r) (map fst r))"
  have live: "redis_live now r key = Some (JsonValue (JObj fs))" and "key \<notin> set ?ks"
    using assms(2) by (auto simp: scan_oidc_payloads_def redis_live_del_all split: if_splits)
  have "key \<in> set (payload_keys_to_delete now cs gs us r key)"
    using assms(1) live ref by (simp add: payload_keys_to_delete_def parse_payload_def)
  moreover have "key \<in> set (map fst r)"
    using redis_live_key [OF live] by simp
  ultimately have "key \<in> set ?ks" by auto
  with \<open>key \<notin> set ?ks\<close> show False by simp
qed

end
