(* ===== verification/UserService.thy ===== *)
theory UserService
  imports UserDeletion AuditLog DeletionCleanup
begin

text \<open>
  packages/server/src/users/service.ts, cache.ts and password.ts: the user operations composed of
  repository, cache, password utilities and audit log, each in its transaction.

  The environment of a call holds what comes from outside the repository or from another component:
  the clock, \<open>gen_random_uuid()\<close>, the argon2 package (a hash function and a verifier that may
  throw), the process-owned dummy hash and the system configuration reader.
\<close>

record user_env =
  ev_now :: time
  ev_new_id :: string
  ev_argon_hash :: "string \<Rightarrow> string"
  ev_argon_verify :: "string \<Rightarrow> string \<Rightarrow> bool option"
  ev_dummy_hash :: string
  ev_config :: "string \<Rightarrow> int"

subsection \<open>Passwords\<close>

datatype password_failure = TooShort | TooLong

definition min_password_length :: nat where
  "min_password_length = 8"

definition max_password_length :: nat where
  "max_password_length = 128"

definition validate_password :: "string \<Rightarrow> password_failure option" where
  "validate_password p =
     (if length p < min_password_length then Some TooShort
      else if length p > max_password_length then Some TooLong
      else None)"

definition password_error :: "password_failure \<Rightarrow> string" where
  "password_error f =
     (case f of TooShort \<Rightarrow> ''Password must be at least 8 characters''
      | TooLong \<Rightarrow> ''Password must be at most 128 characters'')"

text \<open>\<open>verifyPassword\<close>: any error of the verifier is a non-match.\<close>

definition verify_password :: "user_env \<Rightarrow> string \<Rightarrow> string \<Rightarrow> bool" where
  "verify_password env hash plaintext =
     (case ev_argon_verify env hash plaintext of None \<Rightarrow> False | Some b \<Rightarrow> b)"

subsection \<open>The user cache\<close>

definition user_cache_ttl :: int where
  "user_cache_ttl = 300"

definition user_cache_key :: "string \<Rightarrow> string" where
  "user_cache_key i = ''user:id:'' @ i"

definition iso :: "js_date \<Rightarrow> js_date" where
  "iso d = (case d of DateObj t \<Rightarrow> IsoString t | IsoString t \<Rightarrow> IsoString t)"

definition revive :: "js_date \<Rightarrow> js_date" where
  "revive d = (case d of DateObj t \<Rightarrow> DateObj t | IsoString t \<Rightarrow> DateObj t)"

text \<open>\<open>JSON.stringify\<close> writes every date as an ISO string.\<close>

definition serialize_user :: "user \<Rightarrow> user" where
  "serialize_user u = u\<lparr>
     u_password_changed_at := map_option iso (u_password_changed_at u),
     u_locked_at := map_option iso (u_locked_at u),
     u_last_login_at := map_option iso (u_last_login_at u),
     u_last_failed_login_at := map_option iso (u_last_failed_login_at u),
     u_created_at := iso (u_created_at u),
     u_updated_at := iso (u_updated_at u)\<rparr>"

text \<open>\<open>deserializeUser\<close> converts back the five date fields it names.\<close>

definition deserialize_user :: "redis_value \<Rightarrow> user option" where
  "deserialize_user v =
     (case v of
        JsonUser p \<Rightarrow> Some (p\<lparr>
          u_created_at := revive (u_created_at p),
          u_updated_at := revive (u_updated_at p),
          u_password_changed_at := map_option revive (u_password_changed_at p),
          u_locked_at := map_option revive (u_locked_at p),
          u_last_login_at := map_option revive (u_last_login_at p)\<rparr>)
      | _ \<Rightarrow> None)"

definition get_cached_user_by_id :: "time \<Rightarrow> string \<Rightarrow> store \<Rightarrow> user option" where
  "get_cached_user_by_id now i st =
     (if st_redis_up st
      then (case redis_live now (st_redis st) (user_cache_key i) of
              None \<Rightarrow> None
            | Some v \<Rightarrow> deserialize_user v)
      else None)"

definition cache_user_effect :: "time \<Rightarrow> user \<Rightarrow> effect" where
  "cache_user_effect now u =
     best_effort_redis
       (redis_set_ex now (user_cache_key (u_id u)) (JsonUser (serialize_user u)) user_cache_ttl)"

definition invalidate_user_cache_effect :: "string \<Rightarrow> effect" where
  "invalidate_user_cache_effect i = best_effort_redis (redis_del (user_cache_key i))"

definition cache_user :: "time \<Rightarrow> user \<Rightarrow> (flow, unit) op" where
  "cache_user now u = after_database_commit (cache_user_effect now u)"

definition invalidate_user_cache :: "string \<Rightarrow> (flow, unit) op" where
  "invalidate_user_cache i = after_database_commit (invalidate_user_cache_effect i)"

subsection \<open>Create and read\<close>

record create_user_input =
  cu_organization_id :: string
  cu_email :: string
  cu_password :: "string option"
  cu_profile :: "profile_field \<Rightarrow> string option"
  cu_phone_number_verified :: "bool option"
  cu_email_verified :: "bool option"

definition user_metadata :: "(string \<times> json) list \<Rightarrow> audit_entry \<Rightarrow> audit_entry" where
  "user_metadata fs e = e\<lparr>ae_metadata := Some (JObj fs)\<rparr>"

text \<open>The audit entry of a user mutation: organization, user and actor columns.\<close>

definition user_audit_entry ::
    "string \<Rightarrow> string \<Rightarrow> string \<Rightarrow> audit_actor option \<Rightarrow> audit_context option \<Rightarrow>
     (string \<times> json) list \<Rightarrow> audit_entry" where
  "user_audit_entry event org uid actor context metadata =
     user_metadata metadata (audit_fields actor context
       ((blank_entry event ''admin'')\<lparr>ae_organization_id := Some org, ae_user_id := Some uid\<rparr>))"

lemma user_audit_entry_fields [simp]:
  "ae_event_type (user_audit_entry event org uid actor ctx fs) = event"
  "ae_user_id (user_audit_entry event org uid actor ctx fs) = Some uid"
  "ae_organization_id (user_audit_entry event org uid actor ctx fs) = Some org"
  by (simp_all add: user_audit_entry_def user_metadata_def blank_entry_def)

definition email_conflict_on_unique :: "app_error \<Rightarrow> ('s, 'a) op" where
  "email_conflict_on_unique e =
     throw_op (if e = UniqueViolation then UserEmailConflictError else e)"

definition create_user_work ::
    "user_env \<Rightarrow> create_user_input \<Rightarrow> string option \<Rightarrow> audit_actor option \<Rightarrow>
     audit_context option \<Rightarrow> (flow, user) op" where
  "create_user_work env input password_hash actor context =
     andthen (query (select (email_exists (cu_organization_id input) (cu_email input) None)))
       (\<lambda>exists.
     andthen (unless_throw (\<not> exists) UserEmailConflictError) (\<lambda>_.
     andthen (catch_op
         (query (insert_user_with_client (ev_now env) (ev_new_id env) \<lparr>
            id_organization_id = cu_organization_id input,
            id_email = cu_email input,
            id_password_hash = password_hash,
            id_email_verified = cu_email_verified input,
            id_profile = cu_profile input,
            id_phone_number_verified = cu_phone_number_verified input\<rparr>))
         email_conflict_on_unique) (\<lambda>u.
     andthen (require_transaction ''User creation requires an active database transaction'') (\<lambda>_.
     andthen (write_audit_log_in_transaction
         (user_audit_entry ''user.created'' (u_organization_id u) (u_id u) actor context
            [(''userId'', JStr (u_id u)), (''email'', JStr (u_email u)),
             (''emailVerified'', JBool (u_email_verified u)),
             (''phoneNumberVerified'', JBool (u_phone_number_verified u))])) (\<lambda>_.
     andthen (after_database_commit (cache_user_effect (ev_now env) u)) (\<lambda>_.
     return_op u))))))"

definition create_user ::
    "user_env \<Rightarrow> create_user_input \<Rightarrow> audit_actor option \<Rightarrow> audit_context option \<Rightarrow>
     (flow, user) op" where
  "create_user env input actor context =
     (if truthy (cu_password input)
      then (case validate_password (nullish (cu_password input) []) of
              Some f \<Rightarrow> throw_op (UserValidationError (password_error f))
            | None \<Rightarrow> run_database_transaction
                (create_user_work env input
                   (Some (ev_argon_hash env (nullish (cu_password input) []))) actor context))
      else run_database_transaction (create_user_work env input None actor context))"

definition get_user_by_id :: "user_env \<Rightarrow> string \<Rightarrow> (flow, user option) op" where
  "get_user_by_id env i f =
     (case get_cached_user_by_id (ev_now env) i (fl_store f) of
        Some u \<Rightarrow> (Inr (Some u), f)
      | None \<Rightarrow>
          (case find_user_by_id i (flow_db f) of
             None \<Rightarrow> (Inr None, f)
           | Some u \<Rightarrow> andthen (cache_user (ev_now env) u) (\<lambda>_. return_op (Some u)) f))"

text \<open>\<open>findUserForOidc\<close> reads the database, never the cache, and only active users pass.\<close>

definition find_user_for_oidc :: "string \<Rightarrow> (flow, user option) op" where
  "find_user_for_oidc sub =
     andthen (query (select (find_user_by_id sub))) (\<lambda>u.
       return_op (case u of
          None \<Rightarrow> None
        | Some u \<Rightarrow> if u_status u \<noteq> Active then None else Some u))"

subsection \<open>Update\<close>

text \<open>\<open>UpdateUserInput\<close>; the address is a nested object that may be absent.\<close>

record update_user_input =
  uu_email :: "string option"
  uu_email_verified :: "bool option"
  uu_profile :: "profile_field \<Rightarrow> string option option"
  uu_phone_number_verified :: "bool option"
  uu_address :: "(profile_field \<Rightarrow> string option option) option"

definition is_address_field :: "profile_field \<Rightarrow> bool" where
  "is_address_field f =
     (f \<in> {AddressStreet, AddressLocality, AddressRegion, AddressPostalCode, AddressCountry})"

definition build_update_data :: "update_user_input \<Rightarrow> update_user_data" where
  "build_update_data input = no_update\<lparr>
     ud_email := uu_email input,
     ud_email_verified := uu_email_verified input,
     ud_profile := (\<lambda>f.
       if is_address_field f
       then (case uu_address input of None \<Rightarrow> None | Some a \<Rightarrow> a f)
       else uu_profile input f),
     ud_phone_number_verified := uu_phone_number_verified input\<rparr>"

definition profile_field_name :: "profile_field \<Rightarrow> string" where
  "profile_field_name f =
     (case f of
        GivenName \<Rightarrow> ''givenName'' | FamilyName \<Rightarrow> ''familyName'' | MiddleName \<Rightarrow> ''middleName''
      | Nickname \<Rightarrow> ''nickname'' | PreferredUsername \<Rightarrow> ''preferredUsername''
      | ProfileUrl \<Rightarrow> ''profileUrl'' | PictureUrl \<Rightarrow> ''pictureUrl'' | WebsiteUrl \<Rightarrow> ''websiteUrl''
      | Gender \<Rightarrow> ''gender'' | Birthdate \<Rightarrow> ''birthdate'' | Zoneinfo \<Rightarrow> ''zoneinfo''
      | Locale \<Rightarrow> ''locale'' | PhoneNumber \<Rightarrow> ''phoneNumber''
      | AddressStreet \<Rightarrow> ''addressStreet'' | AddressLocality \<Rightarrow> ''addressLocality''
      | AddressRegion \<Rightarrow> ''addressRegion'' | AddressPostalCode \<Rightarrow> ''addressPostalCode''
      | AddressCountry \<Rightarrow> ''addressCountry'')"

text \<open>\<open>Object.keys(updateData)\<close>, in the order the properties are assigned.\<close>

definition update_data_keys :: "update_user_data \<Rightarrow> string list" where
  "update_data_keys u =
     (let names = (\<lambda>fs. map profile_field_name (filter (\<lambda>f. ud_profile u f \<noteq> None) fs))
      in (if ud_email u \<noteq> None then [''email''] else []) @
         (if ud_email_verified u \<noteq> None then [''emailVerified''] else []) @
         names (filter (\<lambda>f. \<not> is_address_field f) all_profile_fields) @
         (if ud_phone_number_verified u \<noteq> None then [''phoneNumberVerified''] else []) @
         names (filter is_address_field all_profile_fields))"

definition update_metadata :: "string \<Rightarrow> update_user_data \<Rightarrow> (string \<times> json) list" where
  "update_metadata uid u =
     [(''userId'', JStr uid), (''fields'', JArr (map JStr (update_data_keys u)))] @
     (case ud_email_verified u of None \<Rightarrow> [] | Some b \<Rightarrow> [(''emailVerified'', JBool b)]) @
     (case ud_phone_number_verified u of
        None \<Rightarrow> [] | Some b \<Rightarrow> [(''phoneNumberVerified'', JBool b)])"

definition update_user_error :: "string \<Rightarrow> app_error \<Rightarrow> ('s, 'a) op" where
  "update_user_error i e =
     throw_op (if e = UniqueViolation then UserEmailConflictError
               else if e = JsError ''User not found'' then UserNotFoundError i else e)"

definition check_email_change :: "string \<Rightarrow> string option \<Rightarrow> (flow, unit) op" where
  "check_email_change i email =
     (case email of
        None \<Rightarrow> return_op ()
      | Some e \<Rightarrow>
          andthen (query (select (find_user_by_id i))) (\<lambda>current.
            case current of
              None \<Rightarrow> throw_op (UserNotFoundError i)
            | Some c \<Rightarrow>
                andthen (query (select (email_exists (u_organization_id c) e (Some i)))) (\<lambda>taken.
                unless_throw (\<not> taken) UserEmailConflictError)))"

definition update_user_work ::
    "user_env \<Rightarrow> string \<Rightarrow> update_user_input \<Rightarrow> audit_actor option \<Rightarrow> audit_context option \<Rightarrow>
     (flow, user) op" where
  "update_user_work env i input actor context =
     (let data = build_update_data input
      in andthen (check_email_change i (uu_email input)) (\<lambda>_.
         andthen (catch_op (query (update_user_row (ev_now env) i data)) (update_user_error i)) (\<lambda>u.
         andthen (require_transaction ''User update requires an active database transaction'') (\<lambda>_.
         andthen (write_audit_log_in_transaction
             (user_audit_entry ''user.updated'' (u_organization_id u) (u_id u) actor context
                (update_metadata (u_id u) data))) (\<lambda>_.
         andthen (after_database_commit (andthen (invalidate_user_cache_effect (u_id u))
                    (\<lambda>_. cache_user_effect (ev_now env) u))) (\<lambda>_.
         return_op u))))))"

definition update_user ::
    "user_env \<Rightarrow> string \<Rightarrow> update_user_input \<Rightarrow> audit_actor option \<Rightarrow> audit_context option \<Rightarrow>
     (flow, user) op" where
  "update_user env i input actor context =
     run_database_transaction (update_user_work env i input actor context)"

subsection \<open>Status lifecycle\<close>

definition status_name :: "user_status \<Rightarrow> string" where
  "status_name s = (case s of Active \<Rightarrow> ''active'' | Inactive \<Rightarrow> ''inactive'' | Locked \<Rightarrow> ''locked'')"

definition load_user_for_status_change :: "string \<Rightarrow> (flow, user) op" where
  "load_user_for_status_change i =
     andthen (query (select (find_user_by_id i))) (\<lambda>u.
       case u of None \<Rightarrow> throw_op (UserNotFoundError i) | Some u \<Rightarrow> return_op u)"

definition change_status_work ::
    "user_env \<Rightarrow> string \<Rightarrow> user_status \<Rightarrow> user_status \<Rightarrow> string \<Rightarrow> string \<Rightarrow> string \<Rightarrow>
     audit_actor option \<Rightarrow> audit_context option \<Rightarrow> (flow, unit) op" where
  "change_status_work env i expected target verb event tx_error actor context =
     andthen (load_user_for_status_change i) (\<lambda>u.
     andthen (unless_throw (u_status u = expected)
       (UserValidationError (''Cannot '' @ verb @ '' user from status: '' @ status_name (u_status u))))
       (\<lambda>_.
     andthen (query (update_user_row (ev_now env) i (no_update\<lparr>ud_status := Some target\<rparr>))) (\<lambda>_.
     andthen (require_transaction tx_error) (\<lambda>_.
     andthen (write_audit_log_in_transaction
       (user_audit_entry event (u_organization_id u) i actor context [(''userId'', JStr i)])) (\<lambda>_.
     after_database_commit (invalidate_user_cache_effect i))))))"

definition deactivate_user ::
    "user_env \<Rightarrow> string \<Rightarrow> audit_actor option \<Rightarrow> audit_context option \<Rightarrow> (flow, unit) op" where
  "deactivate_user env i actor context =
     run_database_transaction
       (change_status_work env i Active Inactive ''deactivate'' ''user.deactivated''
          ''User deactivation requires an active database transaction'' actor context)"

definition activate_user ::
    "user_env \<Rightarrow> string \<Rightarrow> audit_actor option \<Rightarrow> audit_context option \<Rightarrow> (flow, unit) op" where
  "activate_user env i actor context =
     run_database_transaction
       (change_status_work env i Inactive Active ''activate'' ''user.activated''
          ''User activation requires an active database transaction'' actor context)"

end
