(* ===== verification/UserLogin.thy ===== *)
theory UserLogin
  imports UserService
begin

text \<open>
  packages/server/src/users/service.ts, continued: passwords, verification flags, the fixed-shape
  login verification, failed-login accounting with automatic lock and unlock, and deletion.
\<close>

subsection \<open>Password and email flags\<close>

definition actor_entry :: "string option \<Rightarrow> string \<Rightarrow> string \<Rightarrow> string \<Rightarrow> audit_entry" where
  "actor_entry actor_id event category uid =
     user_metadata [(''userId'', JStr uid)] ((blank_entry event category)\<lparr>ae_actor_id := actor_id\<rparr>)"

definition update_and_audit ::
    "user_env \<Rightarrow> string \<Rightarrow> update_user_data \<Rightarrow> string option \<Rightarrow> string \<Rightarrow> (flow, unit) op" where
  "update_and_audit env i data actor_id event =
     andthen (query (update_user_row (ev_now env) i data)) (\<lambda>_.
     andthen (invalidate_user_cache i) (\<lambda>_.
     write_audit_log (actor_entry actor_id event ''admin'' i)))"

definition set_user_password :: "user_env \<Rightarrow> string \<Rightarrow> string \<Rightarrow> string option \<Rightarrow> (flow, unit) op" where
  "set_user_password env i password actor_id =
     (case validate_password password of
        Some f \<Rightarrow> throw_op (UserValidationError (password_error f))
      | None \<Rightarrow> update_and_audit env i
          (no_update\<lparr>ud_password_hash := Some (Some (ev_argon_hash env password)),
             ud_password_changed_at := Some (Some (ev_now env))\<rparr>) actor_id ''user.password.set'')"

definition clear_user_password :: "user_env \<Rightarrow> string \<Rightarrow> string option \<Rightarrow> (flow, unit) op" where
  "clear_user_password env i actor_id =
     update_and_audit env i
       (no_update\<lparr>ud_password_hash := Some None, ud_password_changed_at := Some None\<rparr>) actor_id
       ''user.password.cleared''"

definition mark_email_verified :: "user_env \<Rightarrow> string \<Rightarrow> string option \<Rightarrow> (flow, unit) op" where
  "mark_email_verified env i actor_id =
     update_and_audit env i (no_update\<lparr>ud_email_verified := Some True\<rparr>) actor_id
       ''user.email.verified''"

definition mark_email_unverified :: "user_env \<Rightarrow> string \<Rightarrow> (flow, unit) op" where
  "mark_email_unverified env i =
     andthen (query (update_user_row (ev_now env) i (no_update\<lparr>ud_email_verified := Some False\<rparr>)))
       (\<lambda>_. invalidate_user_cache i)"

definition verify_user_password :: "user_env \<Rightarrow> string \<Rightarrow> string \<Rightarrow> (flow, bool) op" where
  "verify_user_password env i password =
     andthen (query (select (get_password_hash i))) (\<lambda>hash.
       return_op (case hash of
          None \<Rightarrow> False
        | Some h \<Rightarrow> if h = [] then False else verify_password env h password))"

subsection \<open>Fixed-shape login verification\<close>

definition non_account_user_id :: string where
  "non_account_user_id = ''00000000-0000-0000-0000-000000000000''"

text \<open>The boundary calls of one verification, in order: what an observer of the work can see.\<close>

datatype boundary_call = LoadAccountHash string | LoadDummyHash | VerifyHash string string

definition verify_login_password ::
    "user_env \<Rightarrow> string option \<Rightarrow> string \<Rightarrow> db \<Rightarrow> bool \<times> boundary_call list" where
  "verify_login_password env i password d =
     (let account = nullish i non_account_user_id;
          hash = get_password_hash account d;
          selected = nullish hash (ev_dummy_hash env);
          matched = verify_password env selected password
      in (i \<noteq> None \<and> hash \<noteq> None \<and> matched,
          [LoadAccountHash account] @ (if hash = None then [LoadDummyHash] else []) @
          [VerifyHash selected password]))"

definition auto_event :: "string \<Rightarrow> string \<Rightarrow> string \<Rightarrow> string \<Rightarrow> audit_entry" where
  "auto_event event org uid description =
     (blank_entry event ''security'')\<lparr>ae_organization_id := Some org, ae_user_id := Some uid,
        ae_description := Some description\<rparr>"

definition prepare_user_for_password_login ::
    "user_env \<Rightarrow> string \<Rightarrow> string \<Rightarrow> (flow, user option) op" where
  "prepare_user_for_password_login env org email =
     andthen (query (select (find_user_by_email org email))) (\<lambda>candidate.
     let cooldown_seconds = ev_config env ''lockout_duration_seconds'';
         candidate_id = (case candidate of None \<Rightarrow> non_account_user_id | Some u \<Rightarrow> u_id u)
     in andthen (query (returning (unlock_eligible_password_account (ev_now env) candidate_id
            (ev_now env - cooldown_seconds * 1000)))) (\<lambda>unlocked.
        andthen (invalidate_user_cache candidate_id) (\<lambda>_.
        andthen (case candidate of
            None \<Rightarrow> return_op ()
          | Some u \<Rightarrow>
              (if unlocked
               then write_audit_log (auto_event ''user.auto_unlocked'' (u_organization_id u) (u_id u)
                      ''Account auto-unlocked after configured cooldown'')
               else return_op ())) (\<lambda>_.
        query (select (find_user_by_email org email))))))"

subsection \<open>Login accounting\<close>

definition record_login :: "user_env \<Rightarrow> string \<Rightarrow> (flow, unit) op" where
  "record_login env i =
     andthen (query (execute (update_login_stats (ev_now env) i)))
       (\<lambda>_. invalidate_user_cache i)"

record failure_result =
  fr_locked :: bool
  fr_failed_count :: nat

definition lock_audit :: "user \<Rightarrow> string \<Rightarrow> nat \<Rightarrow> int \<Rightarrow> (flow, unit) op" where
  "lock_audit u description count threshold =
     write_audit_log (user_metadata [(''failedCount'', JNum (int count)), (''threshold'', JNum threshold)]
       (auto_event ''user.auto_locked'' (u_organization_id u) (u_id u) description))"

definition record_failed_login :: "user_env \<Rightarrow> user \<Rightarrow> (flow, failure_result) op" where
  "record_failed_login env u =
     (let max_attempts = ev_config env ''max_failed_logins''
      in andthen (query (returning (increment_failed_login_count (ev_now env) (u_id u) max_attempts))) (\<lambda>(status, count).
         andthen (invalidate_user_cache (u_id u)) (\<lambda>_.
         let just_locked = (status = RowStatus Locked \<and> u_status u = Active)
         in andthen (if just_locked
              then lock_audit u (''Account auto-locked after '' @ show_nat count @
                     '' failed login attempts'') count max_attempts
              else return_op ()) (\<lambda>_.
            return_op \<lparr>fr_locked = just_locked, fr_failed_count = count\<rparr>))))"

definition record_password_failure :: "user_env \<Rightarrow> user option \<Rightarrow> (flow, failure_result) op" where
  "record_password_failure env u =
     (let max_attempts = ev_config env ''max_failed_logins'';
          uid = (case u of None \<Rightarrow> non_account_user_id | Some x \<Rightarrow> u_id x)
      in andthen (query (returning (record_eligible_password_failure (ev_now env) uid max_attempts))) (\<lambda>(status, count).
         andthen (invalidate_user_cache uid) (\<lambda>_.
         let locked = (status = RowStatus Locked \<and> u \<noteq> None)
         in andthen (case u of
               Some x \<Rightarrow>
                 (if locked
                  then lock_audit x ''Account auto-locked after failed login threshold'' count max_attempts
                  else return_op ())
             | None \<Rightarrow> return_op ()) (\<lambda>_.
            return_op \<lparr>fr_locked = locked, fr_failed_count = count\<rparr>))))"

text \<open>\<open>lockedAt.getTime()\<close>: a string in the date position has no such method.\<close>

definition get_time :: "js_date \<Rightarrow> app_error + time" where
  "get_time d = (case d of DateObj t \<Rightarrow> Inr t | IsoString _ \<Rightarrow> Inl (JsError ''TypeError''))"

text \<open>\<open>elapsed\<close> is in seconds in the source; here both sides are in milliseconds.\<close>

definition check_auto_unlock :: "user_env \<Rightarrow> user \<Rightarrow> (flow, bool) op" where
  "check_auto_unlock env u =
     (if u_status u \<noteq> Locked \<or> u_locked_reason u \<noteq> Some auto_lockout then return_op False
      else (case u_locked_at u of
              None \<Rightarrow> return_op False
            | Some at \<Rightarrow>
                (case get_time at of
                   Inl e \<Rightarrow> throw_op e
                 | Inr t \<Rightarrow>
                     (if ev_now env - t < ev_config env ''lockout_duration_seconds'' * 1000
                      then return_op False
                      else
                        andthen (query (execute (reset_failed_login_count (ev_now env) (u_id u)))) (\<lambda>_.
                        andthen (invalidate_user_cache (u_id u)) (\<lambda>_.
                        andthen (write_audit_log (auto_event ''user.auto_unlocked''
                          (u_organization_id u) (u_id u)
                          (''Account auto-unlocked after '' @
                           show_int (ev_config env ''lockout_duration_seconds'') @ ''s cooldown''))) (\<lambda>_.
                        return_op True)))))))"

subsection \<open>Deletion\<close>

text \<open>Session revocation and removal of OIDC payloads, shared by the authority-reducing services.\<close>

definition revoke_sessions_of :: "time \<Rightarrow> string list \<Rightarrow> db \<Rightarrow> db" where
  "revoke_sessions_of now uids d = d\<lparr>db_admin_sessions :=
     update_where (\<lambda>s. (case se_user_id s of None \<Rightarrow> False | Some u \<Rightarrow> u \<in> set uids) \<and>
       se_revoked_at s = None) (\<lambda>s. s\<lparr>se_revoked_at := Some now\<rparr>) (db_admin_sessions d)\<rparr>"

definition payload_affected :: "string list \<Rightarrow> string list \<Rightarrow> payload_row \<Rightarrow> bool" where
  "payload_affected grant_ids uids p =
     (pl_id p \<in> set grant_ids \<or>
      (case pl_grant_id p of None \<Rightarrow> False | Some g \<Rightarrow> g \<in> set grant_ids) \<or>
      (case pl_account_id p of None \<Rightarrow> False | Some a \<Rightarrow> a \<in> set uids))"

definition delete_payloads_of :: "string list \<Rightarrow> string list \<Rightarrow> db \<Rightarrow> db" where
  "delete_payloads_of grant_ids uids d =
     d\<lparr>db_oidc_payloads := delete_where (payload_affected grant_ids uids) (db_oidc_payloads d)\<rparr>"

definition user_cleanup_descriptor :: "string \<Rightarrow> string \<Rightarrow> user_deletion_capture \<Rightarrow>
    deletion_cleanup_descriptor" where
  "user_cleanup_descriptor org uid c = \<lparr>
     dd_resource = RUser, dd_target_id = uid, dd_target_slug = None, dd_parent_id = Some org,
     dd_user_ids = dc_user_ids c, dd_client_ids = [], dd_public_client_ids = [],
     dd_grant_ids = dc_grant_ids c, dd_role_ids = dc_role_ids c, dd_permission_ids = [],
     dd_claim_ids = dc_claim_ids c, dd_application_ids = dc_application_ids c\<rparr>"

definition delete_user_work ::
    "user_env \<Rightarrow> string \<Rightarrow> string \<Rightarrow> audit_actor option \<Rightarrow> audit_context option \<Rightarrow>
     (flow, user_deletion_capture) op" where
  "delete_user_work env org uid actor context =
     andthen (require_transaction ''User deletion requires an active database transaction'') (\<lambda>_.
     andthen (query (delete_user_capture org uid)) (\<lambda>capture.
     case capture of
       None \<Rightarrow> throw_op (UserNotFoundError uid)
     | Some c \<Rightarrow>
         andthen (query (execute (revoke_sessions_of (ev_now env) (dc_user_ids c)))) (\<lambda>_.
         andthen (query (execute (delete_payloads_of (dc_grant_ids c) (dc_user_ids c)))) (\<lambda>_.
         andthen (write_audit_log_in_transaction
           (user_audit_entry ''user.deleted'' org uid actor context
              [(''organizationId'', JStr org), (''userId'', JStr uid),
               (''email'', JStr (u_email (dc_user c))),
               (''status'', JStr (status_name (u_status (dc_user c))))])) (\<lambda>_.
         andthen (query (execute (delete_captured_user org uid))) (\<lambda>_.
         andthen (register_deletion_cleanup (ev_now env) (user_cleanup_descriptor org uid c)) (\<lambda>_.
         return_op c)))))))"

definition delete_user ::
    "user_env \<Rightarrow> string \<Rightarrow> string \<Rightarrow> audit_actor option \<Rightarrow> audit_context option \<Rightarrow>
     (flow, user_deletion_capture) op" where
  "delete_user env org uid actor context =
     run_database_transaction (delete_user_work env org uid actor context)"

end
