(* ===== verification/FlowInvariants.thy ===== *)
theory FlowInvariants
  imports AuditLog DeletionCleanup
begin

text \<open>
  Database invariants of request flows. \<open>flow_inv I\<close> says that \<open>I\<close> holds of the database a flow
  sees and that no pending after-commit effect can break it. The locale \<open>db_invariant\<close> is the
  contract between an invariant and the shared writers: an invariant that audit rows do not touch
  is kept by queries that keep it, by both audit writers, by Redis effects and by a transaction.
\<close>

definition effect_keeps :: "(db \<Rightarrow> bool) \<Rightarrow> effect \<Rightarrow> bool" where
  "effect_keeps I eff \<longleftrightarrow> (\<forall>st. I (st_db st) \<longrightarrow> I (st_db (snd (eff st))))"

definition flow_inv :: "(db \<Rightarrow> bool) \<Rightarrow> flow \<Rightarrow> bool" where
  "flow_inv I f \<longleftrightarrow> I (flow_db f) \<and>
     (case fl_tx f of None \<Rightarrow> True | Some q \<Rightarrow> list_all (effect_keeps I) q)"

lemma flow_inv_db: "flow_inv I f \<Longrightarrow> I (flow_db f)"
  by (simp add: flow_inv_def)

lemma flow_inv_idle [simp]: "flow_inv I (idle_flow st) = I (st_db st)"
  by (simp add: flow_inv_def idle_flow_def)

lemma run_effects_keeps:
  "list_all (effect_keeps I) effs \<Longrightarrow> I (st_db st) \<Longrightarrow> I (st_db (run_effects effs st))"
  by (induction effs arbitrary: st) (auto simp: effect_keeps_def)

lemma effect_keeps_redis [simp, intro]: "effect_keeps I (best_effort_redis g)"
  by (simp add: effect_keeps_def)

lemma effect_keeps_andthen [intro]:
  "effect_keeps I m \<Longrightarrow> (\<And>a. effect_keeps I (g a)) \<Longrightarrow> effect_keeps I (andthen m g)"
  by (force simp: effect_keeps_def andthen_def split: prod.splits sum.splits)

lemma preserves_option [intro]:
  "preserves I m \<Longrightarrow> (\<And>a. preserves I (g a)) \<Longrightarrow>
   preserves I (case x of None \<Rightarrow> m | Some a \<Rightarrow> g a)"
  by (cases x) auto

lemma preserves_sum [intro]:
  "(\<And>e. preserves I (h e)) \<Longrightarrow> (\<And>a. preserves I (g a)) \<Longrightarrow>
   preserves I (case x of Inl e \<Rightarrow> h e | Inr a \<Rightarrow> g a)"
  by (cases x) auto

lemma preserves_prod [intro]:
  "(\<And>a b. preserves I (g a b)) \<Longrightarrow> preserves I (case x of (a, b) \<Rightarrow> g a b)"
  by (cases x) auto

lemma preserves_require [simp, intro]: "preserves I (require_transaction msg)"
  by (rule preservesI) (auto simp: require_transaction_def unless_throw_def)

lemmas preserves_intros = preserves_andthen preserves_catch preserves_if preserves_option
  preserves_sum preserves_prod preserves_return preserves_throw preserves_unless preserves_require

locale db_invariant =
  fixes I :: "db \<Rightarrow> bool"
  assumes audit_insensitive: "\<And>r d. I (insert_audit_row r d) = I d"
begin

lemma keeps_query:
  "(\<And>d. I d \<Longrightarrow> I (snd (m d))) \<Longrightarrow> preserves (flow_inv I) (query m)"
  by (rule preservesI) (simp add: flow_inv_def)

lemma keeps_select: "preserves (flow_inv I) (query (select q))"
  by (rule keeps_query) simp

lemma keeps_execute:
  "(\<And>d. I d \<Longrightarrow> I (u d)) \<Longrightarrow> preserves (flow_inv I) (query (execute u))"
  by (rule keeps_query) simp

lemma keeps_after_commit:
  "effect_keeps I eff \<Longrightarrow> preserves (flow_inv I) (after_database_commit eff)"
  by (rule preservesI)
    (auto simp: flow_inv_def after_database_commit_def effect_keeps_def split: option.splits)

lemma keeps_write_audit_log: "preserves (flow_inv I) (write_audit_log e)"
  by (auto simp: write_audit_log_def effect_keeps_def audit_insensitive
      intro!: keeps_after_commit split: sum.splits)

lemma keeps_write_in_transaction: "preserves (flow_inv I) (write_audit_log_in_transaction e)"
  by (auto simp: write_audit_log_in_transaction_def audit_insensitive
      intro!: keeps_execute split: sum.splits)

lemma keeps_register_deletion: "preserves (flow_inv I) (register_deletion_cleanup now c)"
  by (auto simp: register_deletion_cleanup_def intro!: keeps_after_commit)

lemma keeps_register_authority: "preserves (flow_inv I) (register_authority_cleanup now a)"
  by (auto simp: register_authority_cleanup_def intro!: keeps_after_commit)

lemma keeps_transaction:
  assumes "preserves (flow_inv I) work"
  shows "preserves (flow_inv I) (run_database_transaction work)"
proof (rule preservesI)
  fix f
  assume inv: "flow_inv I f"
  show "flow_inv I (snd (run_database_transaction work f))"
  proof (cases "fl_tx f")
    case (Some q)
    with inv assms show ?thesis
      by (simp add: run_database_transaction_nested preservesD)
  next
    case None
    have "flow_inv I (f\<lparr>fl_tx := Some []\<rparr>)"
      using inv by (simp add: flow_inv_def None)
    then have after: "flow_inv I (snd (work (f\<lparr>fl_tx := Some []\<rparr>)))"
      using assms by (rule preservesD [rotated])
    obtain res f' where res: "work (f\<lparr>fl_tx := Some []\<rparr>) = (res, f')"
      by (cases "work (f\<lparr>fl_tx := Some []\<rparr>)") auto
    show ?thesis
    proof (cases res)
      case (Inl e)
      then show ?thesis
        using None inv res by (simp add: run_database_transaction_Inl flow_inv_def)
    next
      case (Inr a)
      have "list_all (effect_keeps I) (nullish (fl_tx f') [])"
        using after res by (auto simp: flow_inv_def split: option.splits)
      moreover have "I (flow_db f')"
        using after res by (simp add: flow_inv_def)
      ultimately show ?thesis
        using None Inr res by (simp add: run_database_transaction_Inr flow_inv_def run_effects_keeps)
    qed
  qed
qed

lemmas keeps = keeps_query keeps_after_commit keeps_write_audit_log
  keeps_write_in_transaction keeps_register_deletion keeps_register_authority keeps_transaction

end


text \<open>
  Invariants that a request flow keeps of the database and the cache together. Where a guard reads
  through Redis, the cached copy must be as trustworthy as the row: \<open>store_inv D R\<close> says that \<open>D\<close>
  holds of the database, \<open>R\<close> of the Redis keys, and that no pending after-commit effect breaks the
  pair. The locale \<open>store_invariant\<close> extends \<open>db_invariant\<close> by the law that removing keys keeps \<open>R\<close>.
\<close>

definition store_ok :: "(db \<Rightarrow> bool) \<Rightarrow> (redis \<Rightarrow> bool) \<Rightarrow> store \<Rightarrow> bool" where
  "store_ok D R st \<longleftrightarrow> D (st_db st) \<and> R (st_redis st)"

definition store_effect_keeps :: "(db \<Rightarrow> bool) \<Rightarrow> (redis \<Rightarrow> bool) \<Rightarrow> effect \<Rightarrow> bool" where
  "store_effect_keeps D R eff \<longleftrightarrow> (\<forall>st. store_ok D R st \<longrightarrow> store_ok D R (snd (eff st)))"

definition store_inv :: "(db \<Rightarrow> bool) \<Rightarrow> (redis \<Rightarrow> bool) \<Rightarrow> flow \<Rightarrow> bool" where
  "store_inv D R f \<longleftrightarrow> store_ok D R (fl_store f) \<and>
     (case fl_tx f of None \<Rightarrow> True | Some q \<Rightarrow> list_all (store_effect_keeps D R) q)"

lemma store_inv_db: "store_inv D R f \<Longrightarrow> D (flow_db f)"
  and store_inv_redis: "store_inv D R f \<Longrightarrow> R (flow_redis f)"
  by (simp_all add: store_inv_def store_ok_def)

lemma store_inv_idle [simp]: "store_inv D R (idle_flow st) = store_ok D R st"
  by (simp add: store_inv_def idle_flow_def)

lemma run_effects_store_ok:
  "list_all (store_effect_keeps D R) effs \<Longrightarrow> store_ok D R st \<Longrightarrow> store_ok D R (run_effects effs st)"
  by (induction effs arbitrary: st) (auto simp: store_effect_keeps_def)

lemma cleanup_authority_shrinks: "redis_shrinks (cleanup_authority_redis now d r) r"
  unfolding cleanup_authority_redis_def Let_def
  by (auto intro: redis_shrinks_trans [OF redis_shrinks_scan redis_shrinks_del_all])

lemma cleanup_deletion_shrinks: "redis_shrinks (cleanup_deletion_redis now d r) r"
  unfolding cleanup_deletion_redis_def Let_def
  by (intro redis_shrinks_trans [OF redis_shrinks_scan] redis_shrinks_trans [OF redis_shrinks_slug]
      redis_shrinks_del_all)

locale store_invariant = db_invariant D for D :: "db \<Rightarrow> bool" +
  fixes R :: "redis \<Rightarrow> bool"
  assumes shrinks: "\<And>r r'. R r \<Longrightarrow> redis_shrinks r' r \<Longrightarrow> R r'"
begin

lemma keeps_store_query:
  "(\<And>d. D d \<Longrightarrow> D (snd (m d))) \<Longrightarrow> preserves (store_inv D R) (query m)"
  by (rule preservesI) (simp add: store_inv_def store_ok_def with_db_def)

lemma keeps_store_select: "preserves (store_inv D R) (query (select q))"
  by (rule keeps_store_query) simp

lemma keeps_store_execute:
  "(\<And>d. D d \<Longrightarrow> D (u d)) \<Longrightarrow> preserves (store_inv D R) (query (execute u))"
  by (rule keeps_store_query) simp

lemma keeps_store_after_commit:
  "store_effect_keeps D R eff \<Longrightarrow> preserves (store_inv D R) (after_database_commit eff)"
  by (rule preservesI)
    (auto simp: store_inv_def after_database_commit_def store_effect_keeps_def split: option.splits)

lemma keeps_store_redis:
  "(\<And>r. R r \<Longrightarrow> R (g r)) \<Longrightarrow>
   preserves (store_inv D R) (after_database_commit (best_effort_redis g))"
  by (rule keeps_store_after_commit) (simp add: store_effect_keeps_def store_ok_def)

lemma keeps_store_shrink:
  "(\<And>r. redis_shrinks (g r) r) \<Longrightarrow>
   preserves (store_inv D R) (after_database_commit (best_effort_redis g))"
  using shrinks by (blast intro: keeps_store_redis)

lemma keeps_store_audit: "preserves (store_inv D R) (write_audit_log e)"
  by (auto simp: write_audit_log_def store_effect_keeps_def store_ok_def audit_insensitive
      intro!: keeps_store_after_commit split: sum.splits)

lemma keeps_store_audit_row: "preserves (store_inv D R) (write_audit_log_in_transaction e)"
  by (auto simp: write_audit_log_in_transaction_def audit_insensitive
      intro!: keeps_store_execute split: sum.splits)

lemma keeps_store_deletion: "preserves (store_inv D R) (register_deletion_cleanup now c)"
  unfolding register_deletion_cleanup_def by (rule keeps_store_shrink) (rule cleanup_deletion_shrinks)

lemma keeps_store_authority: "preserves (store_inv D R) (register_authority_cleanup now a)"
  unfolding register_authority_cleanup_def by (rule keeps_store_shrink) (rule cleanup_authority_shrinks)

lemma keeps_store_transaction:
  assumes "preserves (store_inv D R) work"
  shows "preserves (store_inv D R) (run_database_transaction work)"
proof (rule preservesI)
  fix f
  assume inv: "store_inv D R f"
  show "store_inv D R (snd (run_database_transaction work f))"
  proof (cases "fl_tx f")
    case (Some q)
    with inv assms show ?thesis
      by (simp add: run_database_transaction_nested preservesD)
  next
    case None
    have "store_inv D R (f\<lparr>fl_tx := Some []\<rparr>)"
      using inv by (simp add: store_inv_def None)
    then have after: "store_inv D R (snd (work (f\<lparr>fl_tx := Some []\<rparr>)))"
      using assms by (rule preservesD [rotated])
    obtain res f' where res: "work (f\<lparr>fl_tx := Some []\<rparr>) = (res, f')"
      by (cases "work (f\<lparr>fl_tx := Some []\<rparr>)") auto
    have ok: "store_ok D R (fl_store f')"
      using after res by (simp add: store_inv_def)
    show ?thesis
    proof (cases res)
      case (Inl e)
      then show ?thesis
        using None inv res ok
        by (simp add: run_database_transaction_Inl store_inv_def store_ok_def)
    next
      case (Inr a)
      have "list_all (store_effect_keeps D R) (nullish (fl_tx f') [])"
        using after res by (auto simp: store_inv_def split: option.splits)
      then show ?thesis
        using None Inr res ok
        by (simp add: run_database_transaction_Inr store_inv_def run_effects_store_ok)
    qed
  qed
qed

lemmas keeps_store = keeps_store_select keeps_store_audit keeps_store_audit_row
  keeps_store_deletion keeps_store_authority keeps_store_transaction

end

end
