(* ===== verification/UserInvariants.thy ===== *)
theory UserInvariants
  imports UserLogin FlowInvariants
begin

text \<open>
  The invariant of the \<open>users\<close> table: ids are unique, logins (organization and case-insensitive
  email) are unique, and the lock columns say \<open>auto_lockout\<close> with a time exactly while the status
  is \<open>locked\<close>. Every operation of the user service keeps it.
\<close>

definition login_key :: "user_row \<Rightarrow> string \<times> string" where
  "login_key r = (ur_organization_id r, to_lower (ur_email r))"

definition lock_consistent :: "user_row \<Rightarrow> bool" where
  "lock_consistent r =
     (if ur_status r = Locked
      then ur_locked_at r \<noteq> None \<and> ur_locked_reason r = Some auto_lockout
      else ur_locked_at r = None \<and> ur_locked_reason r = None)"

definition users_inv :: "db \<Rightarrow> bool" where
  "users_inv d =
     (unique_on ur_id (db_users d) \<and> unique_on login_key (db_users d) \<and>
      list_all lock_consistent (db_users d))"

lemma same_login_iff: "same_login org email r \<longleftrightarrow> login_key r = (org, to_lower email)"
  by (auto simp: same_login_def login_key_def citext_eq_def)

lemma login_key_kept [simp]:
  "login_key (touch_user now r) = login_key r"
  "login_key (clear_lock r) = login_key r"
  "login_key (failed_login_set now m r) = login_key r"
  by (simp_all add: login_key_def)

lemma lock_consistent_touch [simp]: "lock_consistent (touch_user now r) = lock_consistent r"
  by (simp add: lock_consistent_def)

lemma lock_consistent_clear [simp]: "lock_consistent (clear_lock r)"
  by (simp add: lock_consistent_def)

lemma lock_consistent_failed_login:
  "lock_consistent r \<Longrightarrow> lock_consistent (failed_login_set now m r)"
  by (auto simp: lock_consistent_def failed_login_set_status failed_login_set_lock split: if_splits)

interpretation users: db_invariant users_inv
  by unfold_locales (simp add: users_inv_def)

subsection \<open>Statements keep the invariant\<close>

lemma users_inv_update_users:
  assumes "users_inv d"
    and "\<And>r. ur_id (f r) = ur_id r" and "\<And>r. login_key (f r) = login_key r"
    and "\<And>r. P r \<Longrightarrow> lock_consistent r \<Longrightarrow> lock_consistent (f r)"
  shows "users_inv (update_users now P f d)"
  using assms
  by (auto simp: users_inv_def update_users_def unique_on_update_where list_all_iff
      set_update_where)

lemma users_inv_insert:
  assumes "users_inv d"
  shows "users_inv (snd (insert_user_with_client now i data d))"
  using assms
  by (auto simp: insert_user_with_client_def Let_def users_inv_def unique_on_append_single
      row_exists_iff same_login_iff login_key_def inserted_user_row_def lock_consistent_def
      list_all_iff)

lemma lock_consistent_apply:
  assumes "lock_consistent r" and "ud_status u = None \<or> ud_status u \<noteq> Some Locked \<and> ur_status r \<noteq> Locked"
    and "ud_locked_at u = None" "ud_locked_reason u = None"
  shows "lock_consistent (apply_set_clauses u r)"
  using assms by (cases "ud_status u") (auto simp: lock_consistent_def)

text \<open>
  A partial update without lock columns keeps the invariant when it leaves the status alone or
  moves an unlocked row to an unlocked status.
\<close>

lemma users_inv_update_user_row:
  assumes inv: "users_inv d" and "ud_locked_at u = None" "ud_locked_reason u = None"
    and "ud_status u = None \<or> ud_status u \<noteq> Some Locked \<and>
      (\<forall>r \<in> set (db_users d). ur_id r = i \<longrightarrow> ur_status r \<noteq> Locked)"
  shows "users_inv (snd (update_user_row now i u d))"
proof (cases "\<exists>x. fst (update_user_row now i u d) = Inr x")
  case False
  then have "snd (update_user_row now i u d) = d"
    by (auto simp: update_user_row_def Let_def split: if_splits option.splits)
  with inv show ?thesis by simp
next
  case True
  let ?f = "\<lambda>r. touch_user now (apply_set_clauses u r)"
  obtain r where r: "find_row (\<lambda>r. ur_id r = i) (db_users d) = Some r"
    and free: "\<not> row_exists (\<lambda>x. ur_id x \<noteq> i \<and> same_login (ur_organization_id (?f r))
        (ur_email (?f r)) x) (db_users d)"
    and res: "snd (update_user_row now i u d) =
        update_users now (\<lambda>x. ur_id x = i) (apply_set_clauses u) d"
    using True by (auto simp: update_user_row_def Let_def split: if_splits option.splits)
  have key: "login_key (?f r) = (ur_organization_id (?f r), to_lower (ur_email (?f r)))"
    by (simp only: login_key_def)
  have others: "\<forall>x \<in> set (db_users d). ur_id x \<noteq> i \<longrightarrow> login_key x \<noteq> login_key (?f r)"
    using free unfolding row_exists_iff same_login_iff key by blast
  have only: "r' = r" if "r' \<in> set (db_users d)" "ur_id r' = i" for r'
    using that inv find_row_SomeD [OF r] by (auto simp: users_inv_def dest: unique_on_same)
  have "unique_on login_key (update_where (\<lambda>x. ur_id x = i) ?f (db_users d))"
    using inv others only by (intro unique_on_update_one) (auto simp: users_inv_def)
  moreover have "unique_on ur_id (update_where (\<lambda>x. ur_id x = i) ?f (db_users d))"
    using inv by (simp add: users_inv_def unique_on_update_where)
  moreover have "list_all lock_consistent (update_where (\<lambda>x. ur_id x = i) ?f (db_users d))"
    using inv assms(2-4)
    by (auto simp: users_inv_def list_all_iff set_update_where intro!: lock_consistent_apply)
  ultimately show ?thesis
    by (simp add: res users_inv_def update_users_def)
qed

lemma users_inv_delete: "users_inv d \<Longrightarrow> users_inv (delete_captured_user org uid d)"
  by (auto simp: delete_captured_user_def delete_users_cascade_def users_inv_def
      unique_on_delete_where list_all_iff)

lemma users_inv_failures:
  "users_inv d \<Longrightarrow> users_inv (snd (record_eligible_password_failure now i m d))"
  "users_inv d \<Longrightarrow> users_inv (snd (increment_failed_login_count now i m d))"
  by (auto simp: record_eligible_password_failure_def increment_failed_login_count_def Let_def
      lock_consistent_failed_login intro!: users_inv_update_users)

lemma users_inv_unlock:
  "users_inv d \<Longrightarrow> users_inv (snd (unlock_eligible_password_account now i t d))"
  "users_inv d \<Longrightarrow> users_inv (reset_failed_login_count now i d)"
  by (auto simp: unlock_eligible_password_account_def reset_failed_login_count_def Let_def
      intro!: users_inv_update_users)

lemma users_inv_login_stats: "users_inv d \<Longrightarrow> users_inv (update_login_stats now i d)"
  by (auto simp: update_login_stats_def login_key_def lock_consistent_def
      intro!: users_inv_update_users split: if_splits)

subsection \<open>Service operations keep the invariant\<close>

lemmas keeps_users = preserves_intros users.keeps effect_keeps_andthen

lemma preserves_create_user:
  "preserves (flow_inv users_inv) (create_user env input actor context)"
  by (auto simp: create_user_def create_user_work_def cache_user_effect_def
      email_conflict_on_unique_def intro!: keeps_users users_inv_insert split: option.splits)

lemma preserves_check_email: "preserves (flow_inv users_inv) (check_email_change i e)"
  by (auto simp: check_email_change_def intro!: keeps_users split: option.splits)

lemma preserves_update_user:
  "preserves (flow_inv users_inv) (update_user env i input actor context)"
  by (auto simp: update_user_def update_user_work_def Let_def cache_user_effect_def
      invalidate_user_cache_effect_def update_user_error_def build_update_data_def
      intro!: keeps_users users_inv_update_user_row preserves_check_email)

lemma preserves_update_and_audit:
  assumes "ud_status u = None" "ud_locked_at u = None" "ud_locked_reason u = None"
  shows "preserves (flow_inv users_inv) (update_and_audit env i u actor event)"
  using assms
  by (auto simp: update_and_audit_def invalidate_user_cache_def invalidate_user_cache_effect_def
      intro!: keeps_users users_inv_update_user_row)

lemma preserves_password_and_flags:
  "preserves (flow_inv users_inv) (set_user_password env i pw actor)"
  "preserves (flow_inv users_inv) (clear_user_password env i actor)"
  "preserves (flow_inv users_inv) (mark_email_verified env i actor)"
  "preserves (flow_inv users_inv) (mark_email_unverified env i)"
  by (auto simp: set_user_password_def clear_user_password_def mark_email_verified_def
      mark_email_unverified_def invalidate_user_cache_def invalidate_user_cache_effect_def
      intro!: preserves_update_and_audit keeps_users users_inv_update_user_row
      split: option.splits)

lemmas cache_defs = invalidate_user_cache_def invalidate_user_cache_effect_def cache_user_def
  cache_user_effect_def

lemma preserves_record_login: "preserves (flow_inv users_inv) (record_login env i)"
  by (auto simp: record_login_def cache_defs intro!: keeps_users users_inv_login_stats)

lemma preserves_lock_audit: "preserves (flow_inv users_inv) (lock_audit u d c t)"
  by (auto simp: lock_audit_def intro!: keeps_users)

lemma preserves_record_failed_login: "preserves (flow_inv users_inv) (record_failed_login env u)"
  unfolding record_failed_login_def Let_def cache_defs
  by (intro keeps_users preserves_lock_audit) (simp_all add: users_inv_failures)

lemma preserves_record_password_failure:
  "preserves (flow_inv users_inv) (record_password_failure env u)"
  unfolding record_password_failure_def Let_def cache_defs
  by (intro keeps_users preserves_lock_audit) (simp_all add: users_inv_failures)

lemma preserves_check_auto_unlock: "preserves (flow_inv users_inv) (check_auto_unlock env u)"
  unfolding check_auto_unlock_def cache_defs
  by (intro keeps_users) (simp_all add: users_inv_unlock)

lemma preserves_prepare_login:
  "preserves (flow_inv users_inv) (prepare_user_for_password_login env org email)"
  unfolding prepare_user_for_password_login_def Let_def cache_defs
  by (intro keeps_users) (simp_all add: users_inv_unlock)

lemma users_inv_revocation [simp]:
  "users_inv (revoke_sessions_of now us d) = users_inv d"
  "users_inv (delete_payloads_of gs us d) = users_inv d"
  by (simp_all add: revoke_sessions_of_def delete_payloads_of_def users_inv_def)

lemma preserves_delete_user: "preserves (flow_inv users_inv) (delete_user env org uid actor context)"
  unfolding delete_user_def delete_user_work_def
  by (intro keeps_users) (simp_all add: users_inv_delete)

lemma preserves_andthen_from:
  assumes "I (snd (m s))" and "\<And>a. preserves I (g a)"
  shows "I (snd (andthen m g s))"
  using assms(1) preservesD [OF assms(2)]
  by (auto simp: andthen_def split: prod.splits sum.splits)

text \<open>
  A status change tests the loaded status and then updates the same row: between the two
  statements of the transaction nothing else runs.
\<close>

lemma preserves_change_status:
  assumes "expected \<noteq> Locked" and "target \<noteq> Locked"
  shows "preserves (flow_inv users_inv)
    (change_status_work env i expected target verb event msg actor context)"
proof (rule preservesI)
  fix f
  assume inv: "flow_inv users_inv f"
  let ?work = "change_status_work env i expected target verb event msg actor context"
  show "flow_inv users_inv (snd (?work f))"
  proof (cases "find_row (\<lambda>r. ur_id r = i) (db_users (flow_db f))")
    case None
    with inv show ?thesis
      by (simp add: change_status_work_def load_user_for_status_change_def andthen_def
          find_user_by_id_def)
  next
    case (Some r)
    show ?thesis
    proof (cases "ur_status r = expected")
      case False
      with Some inv show ?thesis
        by (simp add: change_status_work_def load_user_for_status_change_def andthen_def
            find_user_by_id_def)
    next
      case True
      have only: "r' = r" if "r' \<in> set (db_users (flow_db f))" "ur_id r' = i" for r'
        using that flow_inv_db [OF inv] find_row_SomeD [OF Some]
        by (auto simp: users_inv_def dest: unique_on_same)
      have "flow_inv users_inv (snd (query (update_user_row (ev_now env) i
          (no_update\<lparr>ud_status := Some target\<rparr>)) f))"
      proof -
        have "users_inv (snd (update_user_row (ev_now env) i
            (no_update\<lparr>ud_status := Some target\<rparr>) (flow_db f)))"
          using flow_inv_db [OF inv] only True assms
          by (intro users_inv_update_user_row) auto
        with inv show ?thesis by (simp add: flow_inv_def)
      qed
      then have "flow_inv users_inv (snd (andthen (query (update_user_row (ev_now env) i
          (no_update\<lparr>ud_status := Some target\<rparr>))) (\<lambda>_. andthen (require_transaction msg) (\<lambda>_.
          andthen (write_audit_log_in_transaction (user_audit_entry event (ur_organization_id r) i
            actor context [(''userId'', JStr i)])) (\<lambda>_.
          after_database_commit (invalidate_user_cache_effect i)))) f))"
        unfolding cache_defs
        by (rule preserves_andthen_from [where I = "flow_inv users_inv"])
          (intro keeps_users effect_keeps_redis)
      with Some True show ?thesis
        by (simp add: change_status_work_def load_user_for_status_change_def andthen_Inr
            find_user_by_id_def)
    qed
  qed
qed

lemma preserves_activation:
  "preserves (flow_inv users_inv) (deactivate_user env i actor context)"
  "preserves (flow_inv users_inv) (activate_user env i actor context)"
  by (simp_all add: deactivate_user_def activate_user_def users.keeps_transaction
      preserves_change_status)

end
