(* ===== verification/UserProperties.thy ===== *)
theory UserProperties
  imports UserInvariants
begin

text \<open>
  Properties of the user component: reachable states keep the table invariant, account lockout is
  exact and lifted exactly after the cooldown, login verification does the same work for every
  identity, creation is atomic, deletion spares the last super administrator, and the cache round
  trip loses one date.
\<close>

subsection \<open>Runs of service calls\<close>

datatype user_call =
    CreateUser create_user_input "audit_actor option" "audit_context option"
  | UpdateUser string update_user_input "audit_actor option" "audit_context option"
  | DeactivateUser string "audit_actor option" "audit_context option"
  | ActivateUser string "audit_actor option" "audit_context option"
  | SetUserPassword string string "string option"
  | ClearUserPassword string "string option"
  | MarkEmailVerified string "string option"
  | MarkEmailUnverified string
  | RecordLogin string
  | RecordFailedLogin user
  | RecordPasswordFailure "user option"
  | CheckAutoUnlock user
  | PrepareLogin string string
  | DeleteUser string string "audit_actor option" "audit_context option"

fun run_user_call :: "user_env \<Rightarrow> user_call \<Rightarrow> flow \<Rightarrow> flow" where
  "run_user_call env (CreateUser input a c) f = snd (create_user env input a c f)"
| "run_user_call env (UpdateUser i input a c) f = snd (update_user env i input a c f)"
| "run_user_call env (DeactivateUser i a c) f = snd (deactivate_user env i a c f)"
| "run_user_call env (ActivateUser i a c) f = snd (activate_user env i a c f)"
| "run_user_call env (SetUserPassword i p a) f = snd (set_user_password env i p a f)"
| "run_user_call env (ClearUserPassword i a) f = snd (clear_user_password env i a f)"
| "run_user_call env (MarkEmailVerified i a) f = snd (mark_email_verified env i a f)"
| "run_user_call env (MarkEmailUnverified i) f = snd (mark_email_unverified env i f)"
| "run_user_call env (RecordLogin i) f = snd (record_login env i f)"
| "run_user_call env (RecordFailedLogin u) f = snd (record_failed_login env u f)"
| "run_user_call env (RecordPasswordFailure u) f = snd (record_password_failure env u f)"
| "run_user_call env (CheckAutoUnlock u) f = snd (check_auto_unlock env u f)"
| "run_user_call env (PrepareLogin org email) f = snd (prepare_user_for_password_login env org email f)"
| "run_user_call env (DeleteUser org uid a c) f = snd (delete_user env org uid a c f)"

text \<open>The flows the service reaches from a store without users.\<close>

inductive user_reachable :: "flow \<Rightarrow> bool" where
  user_start: "db_users (st_db st) = [] \<Longrightarrow> user_reachable (idle_flow st)"
| user_step: "user_reachable f \<Longrightarrow> user_reachable (run_user_call env call f)"

lemma run_user_call_keeps: "flow_inv users_inv f \<Longrightarrow> flow_inv users_inv (run_user_call env call f)"
  by (cases call)
    (simp_all add: preservesD preserves_create_user preserves_update_user preserves_activation
      preserves_password_and_flags preserves_record_login preserves_record_failed_login
      preserves_record_password_failure preserves_check_auto_unlock preserves_prepare_login
      preserves_delete_user)

lemma users_inv_no_users: "db_users d = [] \<Longrightarrow> users_inv d"
  by (simp add: users_inv_def unique_on_def)

lemma user_reachable_flow_inv: "user_reachable f \<Longrightarrow> flow_inv users_inv f"
  by (induction rule: user_reachable.induct) (simp_all add: users_inv_no_users run_user_call_keeps)

subsection \<open>A sample store\<close>

definition sample_row :: user_row where
  "sample_row = inserted_user_row 0 ''u1'' \<lparr>id_organization_id = ''o1'', id_email = ''a@b.c'',
     id_password_hash = Some ''h'', id_email_verified = None, id_profile = (\<lambda>_. None),
     id_phone_number_verified = None\<rparr>"

definition sample_db :: db where
  "sample_db = empty_db\<lparr>db_users := [sample_row]\<rparr>"

definition sample_store :: "db \<Rightarrow> store" where
  "sample_store d = \<lparr>st_db = d, st_redis = [], st_redis_up = True\<rparr>"

definition sample_env :: user_env where
  "sample_env = \<lparr>ev_now = 1000, ev_new_id = ''u2'', ev_argon_hash = (\<lambda>p. ''#'' @ p),
     ev_argon_verify = (\<lambda>h p. Some (h = ''#'' @ p)), ev_dummy_hash = ''dummy'',
     ev_config = (\<lambda>k. if k = ''max_failed_logins'' then 3 else 900)\<rparr>"

definition sample_input :: create_user_input where
  "sample_input = \<lparr>cu_organization_id = ''o1'', cu_email = ''x@y.z'', cu_password = None,
     cu_profile = (\<lambda>_. None), cu_phone_number_verified = None, cu_email_verified = None\<rparr>"

lemmas sample_defs = sample_row_def sample_db_def sample_store_def sample_env_def sample_input_def
  empty_db_def inserted_user_row_def idle_flow_def

text \<open>
  Property C1: whatever sequence of user-service calls runs from a store without users, ids stay
  unique, no organization has two users with the same email up to letter case, and a row carries
  the automatic lock's time and reason exactly while it is locked.
\<close>

theorem user_service_invariant:
  assumes "user_reachable f"
  shows "unique_on ur_id (db_users (flow_db f)) \<and>
    unique_on (\<lambda>r. (ur_organization_id r, to_lower (ur_email r))) (db_users (flow_db f)) \<and>
    list_all lock_consistent (db_users (flow_db f))"
  using flow_inv_db [OF user_reachable_flow_inv [OF assms]]
  by (simp add: users_inv_def login_key_def [abs_def])

theorem user_service_invariant_witness:
  "unique_on ur_id (db_users (flow_db (run_user_call sample_env (CreateUser sample_input None None)
     (idle_flow (sample_store empty_db)))))"
proof -
  have "user_reachable (idle_flow (sample_store empty_db))"
    by (rule user_start) (simp add: sample_defs)
  then have "user_reachable (run_user_call sample_env (CreateUser sample_input None None)
      (idle_flow (sample_store empty_db)))"
    by (rule user_step)
  from user_service_invariant [OF this] show ?thesis by simp
qed

subsection \<open>Lockout\<close>

text \<open>Consecutive rejected passwords at the given times.\<close>

fun fail_times :: "time list \<Rightarrow> string \<Rightarrow> int \<Rightarrow> db \<Rightarrow> db" where
  "fail_times [] i m d = d"
| "fail_times (now # ts) i m d = fail_times ts i m (snd (record_eligible_password_failure now i m d))"

lemma find_after_failure:
  "find_row (\<lambda>r. ur_id r = i) (db_users (snd (record_eligible_password_failure now i m d))) =
   map_option (\<lambda>r. if ur_status r = Active then touch_user now (failed_login_set now m r) else r)
     (find_row (\<lambda>r. ur_id r = i) (db_users d))"
  by (simp add: record_eligible_password_failure_def update_users_def find_row_update_same)

lemma fail_times_not_active:
  assumes "find_row (\<lambda>r. ur_id r = i) (db_users d) = Some r" and "ur_status r \<noteq> Active"
  shows "find_row (\<lambda>r. ur_id r = i) (db_users (fail_times ts i m d)) = Some r"
  using assms by (induction ts arbitrary: d) (simp_all add: find_after_failure)

lemma fail_times_count:
  assumes "find_row (\<lambda>r. ur_id r = i) (db_users d) = Some r"
    and "ur_status r = Active" and "int (ur_failed_login_count r) < m"
  shows "\<exists>r'. find_row (\<lambda>r. ur_id r = i) (db_users (fail_times ts i m d)) = Some r' \<and>
    ur_failed_login_count r' = min (ur_failed_login_count r + length ts) (nat m) \<and>
    ur_status r' = (if int (ur_failed_login_count r + length ts) \<ge> m then Locked else Active)"
  using assms
proof (induction ts arbitrary: d r)
  case Nil
  then show ?case by auto
next
  case (Cons now ts)
  let ?r1 = "touch_user now (failed_login_set now m r)"
  let ?d1 = "snd (record_eligible_password_failure now i m d)"
  have r1: "find_row (\<lambda>r. ur_id r = i) (db_users ?d1) = Some ?r1"
    using Cons.prems by (simp add: find_after_failure)
  show ?case
  proof (cases "int (ur_failed_login_count r) + 1 \<ge> m")
    case True
    then have "ur_status ?r1 \<noteq> Active"
      using Cons.prems by (simp add: failed_login_set_status)
    from fail_times_not_active [OF r1 this, of ts m] show ?thesis
      using True Cons.prems by (auto simp: failed_login_set_status)
  next
    case False
    then have "ur_status ?r1 = Active" "int (ur_failed_login_count ?r1) < m"
      using Cons.prems by (auto simp: failed_login_set_status)
    from Cons.IH [OF r1 this] show ?thesis by auto
  qed
qed

text \<open>
  Property C2: an active account with no failed attempts is locked by exactly the configured
  number of consecutive rejected passwords: after n of them it is locked if and only if n reaches
  the threshold, and its counter then stays at the threshold however many more follow.
\<close>

theorem lockout_exact:
  assumes "find_row (\<lambda>r. ur_id r = i) (db_users d) = Some r"
    and "ur_status r = Active" and "ur_failed_login_count r = 0" and "0 < m"
  shows "\<exists>r'. find_row (\<lambda>r. ur_id r = i) (db_users (fail_times ts i m d)) = Some r' \<and>
    ur_failed_login_count r' = min (length ts) (nat m) \<and>
    ur_status r' = (if int (length ts) \<ge> m then Locked else Active)"
  using fail_times_count [OF assms(1,2), of m ts] assms(3,4) by simp

theorem lockout_exact_witness:
  "\<exists>r'. find_row (\<lambda>r. ur_id r = ''u1'') (db_users (fail_times [5, 6, 7, 8] ''u1'' 3 sample_db)) = Some r' \<and>
    ur_failed_login_count r' = 3 \<and> ur_status r' = Locked"
proof -
  have "find_row (\<lambda>r. ur_id r = ''u1'') (db_users sample_db) = Some sample_row"
    and "ur_status sample_row = Active" and "ur_failed_login_count sample_row = 0"
    by (simp_all add: sample_defs)
  from lockout_exact [OF this, of 3 "[5, 6, 7, 8]"] show ?thesis
    by (simp add: numeral_3_eq_3 del: fail_times.simps)
qed

text \<open>
  Preparing a password login lifts an automatic lock exactly when the configured
  cooldown has passed since the lock; before that the row is unchanged.
\<close>

theorem auto_unlock_exact:
  assumes "find_row (same_login org email) (db_users (flow_db f)) = Some r"
    and "users_inv (flow_db f)" and "ur_status r = Locked" and "ur_locked_at r = Some t"
    and "outside_tx f"
  shows "find_row (\<lambda>x. ur_id x = ur_id r)
      (db_users (flow_db (snd (prepare_user_for_password_login env org email f)))) =
    Some (if t + ev_config env ''lockout_duration_seconds'' * 1000 \<le> ev_now env
          then touch_user (ev_now env) (clear_lock r) else r)"
proof -
  let ?d = "flow_db f"
  let ?t = "ev_now env - ev_config env ''lockout_duration_seconds'' * 1000"
  let ?d1 = "snd (unlock_eligible_password_account (ev_now env) (ur_id r) ?t ?d)"
  have mem: "r \<in> set (db_users ?d)"
    using assms(1) by (auto dest: find_row_SomeD)
  then have "lock_consistent r"
    using assms(2) by (auto simp: users_inv_def list_all_iff)
  then have reason: "ur_locked_reason r = Some auto_lockout"
    using assms(3) by (simp add: lock_consistent_def)
  have "find_row (\<lambda>x. ur_id x = ur_id r) (db_users ?d) = Some r"
    using assms(2) mem by (simp add: users_inv_def find_row_by_key)
  then have d1: "find_row (\<lambda>x. ur_id x = ur_id r) (db_users ?d1) =
      Some (if t \<le> ?t then touch_user (ev_now env) (clear_lock r) else r)"
    using assms(3,4) reason
    by (simp add: unlock_eligible_password_account_def Let_def update_users_def
        find_row_update_same)
  have "db_users (flow_db (snd (prepare_user_for_password_login env org email f))) = db_users ?d1"
    using assms(1,5)
    by (simp add: prepare_user_for_password_login_def Let_def find_user_by_email_def andthen_def
        cache_defs after_database_commit_def write_audit_log_def normalize_actor_def
        auto_event_def blank_entry_def)
  with d1 show ?thesis by (simp add: algebra_simps)
qed

theorem auto_unlock_exact_witness:
  "find_row (\<lambda>x. ur_id x = ''u1'') (db_users (flow_db (snd (prepare_user_for_password_login
      (sample_env\<lparr>ev_now := 900005\<rparr>) ''o1'' ''A@b.c''
      (idle_flow (sample_store (fail_times [5] ''u1'' 1 sample_db))))))) =
    Some (touch_user 900005 (clear_lock (touch_user 5 (failed_login_set 5 1 sample_row))))"
proof -
  have a: "find_row (same_login ''o1'' ''A@b.c'') (db_users (fail_times [5] ''u1'' 1 sample_db)) =
      Some (touch_user 5 (failed_login_set 5 1 sample_row))"
    by (simp add: sample_defs record_eligible_password_failure_def update_users_def same_login_def
        citext_eq_def to_lower_def lower_char_def is_upper_def char_of_def bit_0 touch_user_def
        failed_login_set_def)
  have b: "users_inv (fail_times [5] ''u1'' 1 sample_db)"
    by (simp add: sample_defs record_eligible_password_failure_def update_users_def users_inv_def
        unique_on_def lock_consistent_def touch_user_def failed_login_set_def)
  show ?thesis
    using auto_unlock_exact [of "''o1''" "''A@b.c''"
        "idle_flow (sample_store (fail_times [5] ''u1'' 1 sample_db))"
        "touch_user 5 (failed_login_set 5 1 sample_row)" 5 "sample_env\<lparr>ev_now := 900005\<rparr>"] a b
    by (simp add: idle_flow_def sample_store_def)
      (simp add: sample_env_def sample_row_def inserted_user_row_def failed_login_set_def touch_user_def)
qed

subsection \<open>Login verification\<close>


subsection \<open>Creation is atomic\<close>

lemma step_insert_user:
  "andthen (catch_op (query (insert_user_with_client now i data)) email_conflict_on_unique) g f =
     (if row_exists (\<lambda>r. ur_id r = i) (db_users (flow_db f)) \<or>
         row_exists (same_login (id_organization_id data) (id_email data)) (db_users (flow_db f))
      then (Inl UserEmailConflictError, f)
      else (let row = inserted_user_row now i data
            in g (map_row_to_user row) (with_db ((flow_db f)
              \<lparr>db_users := db_users (flow_db f) @ [row]\<rparr>) f)))"
  by (simp add: andthen_def catch_op_def insert_user_with_client_def email_conflict_on_unique_def
      Let_def)

lemma create_user_work_Inr:
  assumes "create_user_work env input ph actor context f = (Inr u, f')" and "fl_tx f = Some []"
  shows "\<not> email_exists (cu_organization_id input) (cu_email input) None (flow_db f)"
    and "\<exists>row. db_users (flow_db f') = db_users (flow_db f) @ [row] \<and> u = map_row_to_user row \<and>
      ur_organization_id row = cu_organization_id input \<and> ur_email row = cu_email input \<and>
      ur_password_hash row = ph \<and> ur_status row = Active"
    and "\<exists>a. db_audit_log (flow_db f') = db_audit_log (flow_db f) @ [a] \<and>
      al_event_type a = ''user.created'' \<and> al_user_id a = Some (u_id u)"
    and "fl_tx f' = Some [cache_user_effect (ev_now env) u]"
  using assms
  by (auto simp: create_user_work_def step_simps step_audit step_insert_user Let_def
      inserted_user_row_def split: sum.splits if_splits)

lemma cache_user_effect_db [simp]: "st_db (snd (cache_user_effect now u st)) = st_db st"
  by (simp add: cache_user_effect_def)

lemma create_user_outside:
  assumes "create_user env input actor context f = (res, f')" and "outside_tx f"
  shows "(\<exists>e. res = Inl e) \<and> flow_db f' = flow_db f \<or>
    (\<exists>ph u g. create_user_work env input ph actor context (f\<lparr>fl_tx := Some []\<rparr>) = (Inr u, g) \<and>
       res = Inr u \<and> flow_db f' = flow_db g)"
proof -
  have tx: "(\<exists>e. res = Inl e) \<and> flow_db f' = flow_db f \<or>
      (\<exists>u g. create_user_work env input ph actor context (f\<lparr>fl_tx := Some []\<rparr>) = (Inr u, g) \<and>
         res = Inr u \<and> flow_db f' = flow_db g)"
    if "run_database_transaction (create_user_work env input ph actor context) f = (res, f')" for ph
  proof (cases "create_user_work env input ph actor context (f\<lparr>fl_tx := Some []\<rparr>)")
    case (Pair r g)
    show ?thesis
    proof (cases r)
      case (Inl e)
      then show ?thesis using that Pair assms(2) by (auto simp: run_database_transaction_Inl)
    next
      case (Inr u)
      then have "fl_tx g = Some [cache_user_effect (ev_now env) u]"
        using create_user_work_Inr(4) [of env input ph actor _ "f\<lparr>fl_tx := Some []\<rparr>" u g] Pair
        by simp
      then show ?thesis
        using that Pair Inr assms(2) by (auto simp: run_database_transaction_Inr)
    qed
  qed
  show ?thesis
    using assms(1) tx
    by (fastforce simp: create_user_def split: if_splits option.splits)
qed

text \<open>
  Creating a user is all or nothing. A failure leaves the database as it was; a
  success means the email was free in the organization, and the database then holds exactly one
  more user row, active and with that login, and exactly one more audit row, which names it.
\<close>

theorem create_user_atomic:
  assumes "create_user env input actor context f = (res, f')" and "outside_tx f"
  shows "(\<exists>e. res = Inl e) \<and> flow_db f' = flow_db f \<or>
    (\<exists>row a. res = Inr (map_row_to_user row) \<and>
       \<not> email_exists (cu_organization_id input) (cu_email input) None (flow_db f) \<and>
       ur_organization_id row = cu_organization_id input \<and> ur_email row = cu_email input \<and>
       ur_status row = Active \<and>
       db_users (flow_db f') = db_users (flow_db f) @ [row] \<and>
       db_audit_log (flow_db f') = db_audit_log (flow_db f) @ [a] \<and>
       al_event_type a = ''user.created'' \<and> al_user_id a = Some (ur_id row))"
  using create_user_outside [OF assms]
proof (elim disjE)
  assume "(\<exists>e. res = Inl e) \<and> flow_db f' = flow_db f"
  then show ?thesis by blast
next
  assume "\<exists>ph u g. create_user_work env input ph actor context (f\<lparr>fl_tx := Some []\<rparr>) = (Inr u, g) \<and>
     res = Inr u \<and> flow_db f' = flow_db g"
  then obtain ph u g where g: "create_user_work env input ph actor context (f\<lparr>fl_tx := Some []\<rparr>) =
      (Inr u, g)" "res = Inr u" "flow_db f' = flow_db g"
    by blast
  from create_user_work_Inr [OF g(1)] g(2,3) show ?thesis by fastforce
qed

theorem create_user_atomic_witness:
  "\<exists>row. db_users (flow_db (snd (create_user sample_env sample_input None None
      (idle_flow (sample_store sample_db))))) = [sample_row, row] \<and> ur_email row = ''x@y.z''"
proof -
  let ?f = "idle_flow (sample_store sample_db)"
  obtain res f' where r: "create_user sample_env sample_input None None ?f = (res, f')"
    by fastforce
  then have "\<exists>u. res = Inr u"
    by (auto simp: sample_defs create_user_def create_user_work_def andthen_def catch_op_def
        run_database_transaction_def email_exists_def same_login_def citext_eq_def to_lower_def
        lower_char_def is_upper_def insert_user_with_client_def Let_def require_transaction_def
        has_transaction_client_def unless_throw_def write_audit_log_in_transaction_def
        normalize_actor_def user_audit_entry_def audit_fields_def audit_actor_columns_def
        user_metadata_def blank_entry_def after_database_commit_def)
  with create_user_atomic [OF r] r show ?thesis
    by (auto simp: idle_flow_def sample_store_def sample_db_def sample_input_def)
qed

subsection \<open>Deletion\<close>

text \<open>
  Property C7: deleting a user never leaves a control-plane organization that had an active holder
  of the exact role porta-super-admin without one.
\<close>

theorem deletion_spares_last_super_admin:
  assumes "delete_user_repo org uid d = (Inr (Some c), d')"
    and "unique_on ur_id (db_users d)"
    and "lock_control_plane_organization o' d"
    and "has_active_super_admin o' d"
  shows "has_active_super_admin o' d'"
proof -
  note c = delete_user_repo_Some [OF assms(1)]
  obtain r where r: "r \<in> set (db_users d)" "ur_organization_id r = o'" "ur_status r = Active"
      "holds_super_admin d (ur_id r)"
    using assms(4) by (auto simp: has_active_super_admin_def row_exists_iff)
  show ?thesis
  proof (cases "ur_id r = uid")
    case False
    with r c(2) show ?thesis by (simp add: delete_captured_user_other_survivor)
  next
    case True
    have "o' = org"
    proof -
      obtain x where "find_row (\<lambda>r. ur_id r = uid \<and> ur_organization_id r = org) (db_users d) = Some x"
        using c(1) by (cases "find_row (\<lambda>r. ur_id r = uid \<and> ur_organization_id r = org) (db_users d)")
          (auto simp: delete_user_capture_def)
      then have "x \<in> set (db_users d)" "ur_id x = ur_id r" "ur_organization_id x = org"
        using find_row_SomeD True by fastforce+
      with assms(2) r(1,2) show ?thesis by (auto dest: unique_on_same)
    qed
    with delete_user_capture_guards [OF c(1) _ assms(2) r(1) _ r(3,4) True] assms(3) r(2) c(2)
    show ?thesis by (simp add: delete_captured_user_survivor)
  qed
qed

definition sample_admin_db :: db where
  "sample_admin_db = sample_db\<lparr>
     db_users := [sample_row, sample_row\<lparr>ur_id := ''u2'', ur_email := ''b@b.c''\<rparr>],
     db_organizations := [\<lparr>og_id = ''o1'', og_name = ''P'', og_slug = ''porta'', og_status = OrgActive,
       og_is_super_admin = True, og_branding_logo_url = None, og_branding_favicon_url = None,
       og_branding_primary_color = None, og_branding_company_name = None,
       og_branding_custom_css = None, og_default_locale = ''en'', og_two_factor_policy = Optional,
       og_default_login_methods = [Password], og_created_at = 0, og_updated_at = 0\<rparr>],
     db_applications := [\<lparr>ap_id = ''a1'', ap_name = ''Porta'', ap_slug = porta_admin_app,
       ap_description = None, ap_status = RecordActive, ap_created_at = 0, ap_updated_at = 0\<rparr>],
     db_roles := [\<lparr>ro_id = ''r1'', ro_application_id = ''a1'', ro_name = ''R'',
       ro_slug = super_admin_role, ro_description = None, ro_created_at = 0, ro_updated_at = 0\<rparr>],
     db_user_roles := [\<lparr>ul_user_id = ''u1'', ul_role_id = ''r1'', ul_assigned_by = None\<rparr>,
       \<lparr>ul_user_id = ''u2'', ul_role_id = ''r1'', ul_assigned_by = None\<rparr>]\<rparr>"

theorem deletion_spares_last_super_admin_witness:
  "has_active_super_admin ''o1'' (snd (delete_user_repo ''o1'' ''u1'' sample_admin_db))"
proof -
  have admin: "holds_super_admin sample_admin_db ''u1''" "holds_super_admin sample_admin_db ''u2''"
    and plane: "lock_control_plane_organization ''o1'' sample_admin_db"
    by (simp_all add: sample_admin_db_def holds_super_admin_def lock_control_plane_organization_def)
  have users: "db_users sample_admin_db = [sample_row, sample_row\<lparr>ur_id := ''u2'', ur_email := ''b@b.c''\<rparr>]"
    by (simp add: sample_admin_db_def)
  have before: "has_active_super_admin ''o1'' sample_admin_db"
    and survivor: "active_survivor ''o1'' ''u1'' sample_admin_db"
    and ids: "unique_on ur_id (db_users sample_admin_db)"
    using admin
    by (simp_all add: users has_active_super_admin_def active_survivor_def unique_on_def
        sample_row_def inserted_user_row_def)
  have "\<exists>c. fst (delete_user_capture ''o1'' ''u1'' sample_admin_db) = Inr (Some c)"
    using admin plane survivor
    by (simp add: delete_user_capture_def users sample_row_def inserted_user_row_def andthen_def
        require_active_super_admin_survivor_after_lock_def)
  then have "\<exists>c d'. delete_user_repo ''o1'' ''u1'' sample_admin_db = (Inr (Some c), d')"
    by (auto simp: delete_user_repo_def andthen_def split: prod.splits)
  then obtain c d' where d': "delete_user_repo ''o1'' ''u1'' sample_admin_db = (Inr (Some c), d')"
    by blast
  from deletion_spares_last_super_admin [OF d' ids plane before] d' show ?thesis by simp
qed

subsection \<open>The cache round trip\<close>

text \<open>
  A user read back from the cache equals the user that was cached exactly when the
  account has no recorded failed login; otherwise the date of the last failed login comes back as a
  string instead of a date.
\<close>

theorem user_cache_roundtrip:
  "deserialize_user (JsonUser (serialize_user (map_row_to_user r))) = Some (map_row_to_user r) \<longleftrightarrow>
   ur_last_failed_login_at r = None"
  by (cases "ur_last_failed_login_at r")
    (auto simp: deserialize_user_def serialize_user_def map_row_to_user_def date_obj_def iso_def
      revive_def option.map_comp o_def option.map_ident)

end
