(* ===== verification/SingleUse.thy ===== *)
theory SingleUse
  imports Database
begin

text \<open>
  Two interfaces shared by the components that hand out bearer artifacts.

  \<^item> A connection-local transaction: \<open>pool.connect()\<close>, \<open>BEGIN\<close>, work that ends in an explicit
    \<open>COMMIT\<close> or \<open>ROLLBACK\<close>, and the \<open>catch\<close> that rolls back and rethrows.
  \<^item> The locale \<open>single_use\<close>: what makes an artifact (magic link, invitation, recovery code, TOTP
    step, authorization code) usable at most once, whatever calls come between.
\<close>

subsection \<open>Connection-local transactions\<close>

datatype 'a decision = Commit 'a | Rollback 'a

definition own_transaction :: "('s, 'a decision) op \<Rightarrow> ('s, 'a) op" where
  "own_transaction work s =
     (case work s of
        (Inl e, _) \<Rightarrow> (Inl e, s)
      | (Inr (Commit a), s') \<Rightarrow> (Inr a, s')
      | (Inr (Rollback a), _) \<Rightarrow> (Inr a, s))"

lemma own_transaction_throw: "work s = (Inl e, s') \<Longrightarrow> own_transaction work s = (Inl e, s)"
  by (simp add: own_transaction_def)

lemma own_transaction_commit:
  "work s = (Inr (Commit a), s') \<Longrightarrow> own_transaction work s = (Inr a, s')"
  by (simp add: own_transaction_def)

lemma own_transaction_rollback:
  "work s = (Inr (Rollback a), s') \<Longrightarrow> own_transaction work s = (Inr a, s)"
  by (simp add: own_transaction_def)

lemma own_transaction_eqD:
  assumes "own_transaction work s = (res, s')"
  shows "(\<exists>e t. work s = (Inl e, t) \<and> res = Inl e \<and> s' = s) \<or>
    (\<exists>a. work s = (Inr (Commit a), s') \<and> res = Inr a) \<or>
    (\<exists>a t. work s = (Inr (Rollback a), t) \<and> res = Inr a \<and> s' = s)"
  using assms
  by (auto simp: own_transaction_def split: prod.splits sum.splits decision.splits)

subsection \<open>Single-use artifacts\<close>

text \<open>How many calls of a run use artifact \<open>k\<close> successfully.\<close>

fun uses_won :: "('c \<Rightarrow> 's \<Rightarrow> 's) \<Rightarrow> ('c \<Rightarrow> 'k \<Rightarrow> 's \<Rightarrow> bool) \<Rightarrow> 'k \<Rightarrow> 'c list \<Rightarrow> 's \<Rightarrow> nat" where
  "uses_won step wins k [] s = 0"
| "uses_won step wins k (c # cs) s =
     (if wins c k s then 1 else 0) + uses_won step wins k cs (step c s)"

locale single_use =
  fixes inv :: "'s \<Rightarrow> bool"
    and live :: "'k \<Rightarrow> 's \<Rightarrow> bool"
    and step :: "'c \<Rightarrow> 's \<Rightarrow> 's"
    and issues :: "'c \<Rightarrow> 'k \<Rightarrow> bool"
    and wins :: "'c \<Rightarrow> 'k \<Rightarrow> 's \<Rightarrow> bool"
  assumes inv_step: "inv s \<Longrightarrow> inv (step c s)"
    and win_live: "inv s \<Longrightarrow> wins c k s \<Longrightarrow> live k s"
    and win_spends: "inv s \<Longrightarrow> wins c k s \<Longrightarrow> \<not> live k (step c s)"
    and no_revival: "inv s \<Longrightarrow> \<not> live k s \<Longrightarrow> \<not> issues c k \<Longrightarrow> \<not> live k (step c s)"
begin

lemma spent_never_wins:
  "inv s \<Longrightarrow> \<not> live k s \<Longrightarrow> \<forall>c \<in> set cs. \<not> issues c k \<Longrightarrow> uses_won step wins k cs s = 0"
proof (induction cs arbitrary: s)
  case (Cons c cs)
  then have "\<not> wins c k s" and "\<not> live k (step c s)"
    using win_live no_revival by auto
  with Cons inv_step show ?case by simp
qed simp

lemma at_most_one_win:
  "inv s \<Longrightarrow> \<forall>c \<in> set cs. \<not> issues c k \<Longrightarrow> uses_won step wins k cs s \<le> 1"
proof (induction cs arbitrary: s)
  case (Cons c cs)
  show ?case
  proof (cases "wins c k s")
    case True
    with Cons.prems(1) have "\<not> live k (step c s)"
      by (rule win_spends)
    with True Cons.prems inv_step show ?thesis by (simp add: spent_never_wins)
  next
    case False
    with Cons inv_step show ?thesis by simp
  qed
qed simp

end

end
