(* ===== verification/TokenRepository.thy ===== *)
theory TokenRepository
  imports UserRepository AuditLog SingleUse "HOL-Library.Product_Lexorder"
begin

text \<open>
  packages/server/src/auth/token-repository.ts: the three token tables. Row locks (\<open>FOR UPDATE\<close>,
  \<open>FOR SHARE\<close>) make each transaction one atomic step; \<open>NOW()\<close> is the parameter \<open>now\<close> and
  \<open>gen_random_uuid()\<close> the parameter \<open>new_id\<close>.
\<close>

subsection \<open>Tables and records\<close>

datatype token_table = MagicLinkTokens | PasswordResetTokens | InvitationTokens

record token_record =
  tr_id :: string
  tr_user_id :: "string option"
  tr_token_hash :: string
  tr_expires_at :: time
  tr_used_at :: "time option"
  tr_created_at :: time

definition map_row_to_token :: "token_row \<Rightarrow> token_record" where
  "map_row_to_token r = \<lparr>tr_id = tk_id r, tr_user_id = Some (tk_user_id r),
     tr_token_hash = tk_token_hash r, tr_expires_at = tk_expires_at r, tr_used_at = tk_used_at r,
     tr_created_at = tk_created_at r\<rparr>"

text \<open>The shared columns of an invitation; its \<open>user_id\<close> is nullable since migration 033.\<close>

definition invitation_token_columns :: "invitation_row \<Rightarrow> token_record" where
  "invitation_token_columns r = \<lparr>tr_id = iv_id r, tr_user_id = iv_user_id r,
     tr_token_hash = iv_token_hash r, tr_expires_at = iv_expires_at r, tr_used_at = iv_used_at r,
     tr_created_at = iv_created_at r\<rparr>"

definition valid_tables :: "(string \<times> token_table) list" where
  "valid_tables = [(''magic_link_tokens'', MagicLinkTokens),
     (''password_reset_tokens'', PasswordResetTokens), (''invitation_tokens'', InvitationTokens)]"

definition assert_valid_table :: "string \<Rightarrow> app_error + token_table" where
  "assert_valid_table name =
     (case map_of valid_tables name of
        Some t \<Rightarrow> Inr t
      | None \<Rightarrow> Inl (JsError (''Invalid token table: '' @ name)))"

definition token_records :: "token_table \<Rightarrow> db \<Rightarrow> token_record list" where
  "token_records t d =
     (case t of
        MagicLinkTokens \<Rightarrow> map map_row_to_token (db_magic_link_tokens d)
      | PasswordResetTokens \<Rightarrow> map map_row_to_token (db_password_reset_tokens d)
      | InvitationTokens \<Rightarrow> map invitation_token_columns (db_invitation_tokens d))"

text \<open>\<open>UPDATE table SET used_at = NOW() WHERE ...\<close> and \<open>DELETE FROM table WHERE ...\<close>.\<close>

definition set_used :: "token_table \<Rightarrow> (token_record \<Rightarrow> bool) \<Rightarrow> time \<Rightarrow> db \<Rightarrow> db" where
  "set_used t P now d =
     (case t of
        MagicLinkTokens \<Rightarrow> d\<lparr>db_magic_link_tokens :=
          update_where (\<lambda>r. P (map_row_to_token r)) (\<lambda>r. r\<lparr>tk_used_at := Some now\<rparr>)
            (db_magic_link_tokens d)\<rparr>
      | PasswordResetTokens \<Rightarrow> d\<lparr>db_password_reset_tokens :=
          update_where (\<lambda>r. P (map_row_to_token r)) (\<lambda>r. r\<lparr>tk_used_at := Some now\<rparr>)
            (db_password_reset_tokens d)\<rparr>
      | InvitationTokens \<Rightarrow> d\<lparr>db_invitation_tokens :=
          update_where (\<lambda>r. P (invitation_token_columns r)) (\<lambda>r. r\<lparr>iv_used_at := Some now\<rparr>)
            (db_invitation_tokens d)\<rparr>)"

definition delete_tokens :: "token_table \<Rightarrow> (token_record \<Rightarrow> bool) \<Rightarrow> db \<Rightarrow> db" where
  "delete_tokens t P d =
     (case t of
        MagicLinkTokens \<Rightarrow> d\<lparr>db_magic_link_tokens :=
          delete_where (\<lambda>r. P (map_row_to_token r)) (db_magic_link_tokens d)\<rparr>
      | PasswordResetTokens \<Rightarrow> d\<lparr>db_password_reset_tokens :=
          delete_where (\<lambda>r. P (map_row_to_token r)) (db_password_reset_tokens d)\<rparr>
      | InvitationTokens \<Rightarrow> d\<lparr>db_invitation_tokens :=
          delete_where (\<lambda>r. P (invitation_token_columns r)) (db_invitation_tokens d)\<rparr>)"

lemma token_records_set_used [simp]:
  "token_records t' (set_used t P now d) =
     (if t' = t then update_where P (\<lambda>r. r\<lparr>tr_used_at := Some now\<rparr>) (token_records t d)
      else token_records t' d)"
  by (cases t; cases t')
    (simp_all add: token_records_def set_used_def update_where_def map_row_to_token_def
      invitation_token_columns_def)

lemma token_records_delete_tokens [simp]:
  "token_records t' (delete_tokens t P d) =
     (if t' = t then delete_where P (token_records t d) else token_records t' d)"
  by (cases t; cases t')
    (simp_all add: token_records_def delete_tokens_def delete_where_def filter_map o_def)

subsection \<open>Generic operations\<close>

text \<open>A token that can still be used: neither used nor expired.\<close>

definition token_usable :: "time \<Rightarrow> token_record \<Rightarrow> bool" where
  "token_usable now r = (tr_used_at r = None \<and> now < tr_expires_at r)"

definition blank_token :: "string \<Rightarrow> string \<Rightarrow> string \<Rightarrow> time \<Rightarrow> time \<Rightarrow> token_row" where
  "blank_token new_id uid h exp now = \<lparr>tk_id = new_id, tk_user_id = uid, tk_token_hash = h,
     tk_expires_at = exp, tk_used_at = None, tk_created_at = now, tk_recovery_job_id = None,
     tk_organization_id = [], tk_interaction_uid = None, tk_authority_bound = False\<rparr>"

text \<open>
  \<open>insertToken\<close>, for the tables its type admits. Migration 033 made \<open>organization_id\<close> and \<open>email\<close>
  of invitations mandatory, and this statement sets neither.
\<close>

definition insert_token ::
    "time \<Rightarrow> string \<Rightarrow> token_table \<Rightarrow> string \<Rightarrow> string \<Rightarrow> time \<Rightarrow> (db, unit) op" where
  "insert_token now new_id t uid h exp d =
     (case t of
        PasswordResetTokens \<Rightarrow>
          (if \<not> row_exists (\<lambda>u. ur_id u = uid) (db_users d)
           then (Inl (JsError ''foreign key violation''), d)
           else if row_exists (\<lambda>r. tk_id r = new_id \<or> tk_token_hash r = h) (db_password_reset_tokens d)
           then (Inl UniqueViolation, d)
           else (Inr (), d\<lparr>db_password_reset_tokens :=
             db_password_reset_tokens d @ [blank_token new_id uid h exp now]\<rparr>))
      | InvitationTokens \<Rightarrow> (Inl (JsError ''not-null violation''), d)
      | MagicLinkTokens \<Rightarrow> (Inl (JsError ''not-null violation''), d))"

definition find_valid_token :: "time \<Rightarrow> token_table \<Rightarrow> string \<Rightarrow> db \<Rightarrow> token_record option" where
  "find_valid_token now t h d =
     find_row (\<lambda>r. tr_token_hash r = h \<and> token_usable now r) (token_records t d)"

definition find_valid_token_for_organization ::
    "time \<Rightarrow> token_table \<Rightarrow> string \<Rightarrow> string \<Rightarrow> db \<Rightarrow> token_record option" where
  "find_valid_token_for_organization now t h org d =
     find_row (\<lambda>r. row_exists (\<lambda>u. Some (ur_id u) = tr_user_id r \<and> ur_organization_id u = org)
         (db_users d) \<and> tr_token_hash r = h \<and> token_usable now r) (token_records t d)"

definition mark_token_used :: "time \<Rightarrow> token_table \<Rightarrow> string \<Rightarrow> db \<Rightarrow> db" where
  "mark_token_used now t i d = set_used t (\<lambda>r. tr_id r = i) now d"

text \<open>Returns the row count, which PostgreSQL counts from the rows the predicate selects.\<close>

definition delete_expired_tokens :: "token_table \<Rightarrow> time \<Rightarrow> db \<Rightarrow> nat \<times> db" where
  "delete_expired_tokens t older_than d =
     (let P = (\<lambda>r. tr_expires_at r < older_than \<or> sql_less (tr_used_at r) older_than)
      in (row_count P (token_records t d), delete_tokens t P d))"

definition invalidate_user_tokens :: "time \<Rightarrow> token_table \<Rightarrow> string \<Rightarrow> db \<Rightarrow> db" where
  "invalidate_user_tokens now t uid d =
     set_used t (\<lambda>r. tr_user_id r = Some uid \<and> tr_used_at r = None) now d"

subsection \<open>Recovery-job tokens\<close>

record ensure_base =
  en_recovery_job_id :: string
  en_user_id :: string
  en_token_hash :: string
  en_expires_at :: time

text \<open>The closed input union: magic links carry organization, interaction and client.\<close>

datatype ensure_input =
    EnsureMagicLink ensure_base string "string option" "string option"
  | EnsurePasswordReset ensure_base

datatype ensure_result = TokenActive | TokenSuperseded

fun ensure_fields :: "ensure_input \<Rightarrow> ensure_base" where
  "ensure_fields (EnsureMagicLink b _ _ _) = b"
| "ensure_fields (EnsurePasswordReset b) = b"

fun ensure_table :: "ensure_input \<Rightarrow> token_table" where
  "ensure_table (EnsureMagicLink _ _ _ _) = MagicLinkTokens"
| "ensure_table (EnsurePasswordReset _) = PasswordResetTokens"

text \<open>The rows of the table an input selects.\<close>

definition ensure_rows :: "ensure_input \<Rightarrow> db \<Rightarrow> token_row list" where
  "ensure_rows i d =
     (case i of EnsureMagicLink _ _ _ _ \<Rightarrow> db_magic_link_tokens d
      | EnsurePasswordReset _ \<Rightarrow> db_password_reset_tokens d)"

definition lock_active_client_authority :: "string \<Rightarrow> string \<Rightarrow> db \<Rightarrow> bool" where
  "lock_active_client_authority client_id org d =
     row_exists (\<lambda>c. cl_client_id c = client_id \<and> cl_organization_id c = org \<and>
       cl_status c = ClientActive) (db_clients d)"

text \<open>
  The interaction check both magic-link transactions make: standalone, or an interaction together
  with an active client of the organization.
\<close>

definition client_matches :: "string option \<Rightarrow> string option \<Rightarrow> string \<Rightarrow> db \<Rightarrow> bool" where
  "client_matches interaction client org d =
     (if interaction = None \<and> client = None then True
      else interaction \<noteq> None \<and>
        (case client of None \<Rightarrow> False | Some c \<Rightarrow> lock_active_client_authority c org d))"

text \<open>\<open>ORDER BY job.created_at DESC, job.id DESC LIMIT 1\<close> over the user's job-owned tokens.\<close>

definition job_orders :: "string \<Rightarrow> token_row list \<Rightarrow> recovery_job_row list \<Rightarrow> (time \<times> string) list" where
  "job_orders uid rows jobs =
     [(rj_created_at j, rj_id j). r \<leftarrow> rows, j \<leftarrow> jobs,
        tk_user_id r = uid \<and> tk_recovery_job_id r = Some (rj_id j)]"

definition newest_artifact ::
    "string \<Rightarrow> token_row list \<Rightarrow> recovery_job_row list \<Rightarrow> (time \<times> string) option" where
  "newest_artifact uid rows jobs =
     (let os = job_orders uid rows jobs in if os = [] then None else Some (Max (set os)))"

definition newer_artifact_exists :: "(time \<times> string) option \<Rightarrow> time \<Rightarrow> string \<Rightarrow> bool" where
  "newer_artifact_exists newest current_created_at job =
     (case newest of
        None \<Rightarrow> False
      | Some (created, j) \<Rightarrow>
          created > current_created_at \<or> (created = current_created_at \<and> j > job))"

definition recovery_token_row :: "time \<Rightarrow> string \<Rightarrow> ensure_input \<Rightarrow> token_row" where
  "recovery_token_row now new_id i =
     (let b = ensure_fields i;
          row = (blank_token new_id (en_user_id b) (en_token_hash b) (en_expires_at b) now)
            \<lparr>tk_recovery_job_id := Some (en_recovery_job_id b)\<rparr>
      in case i of
           EnsureMagicLink _ org interaction _ \<Rightarrow> row\<lparr>tk_organization_id := org,
             tk_interaction_uid := interaction, tk_authority_bound := True\<rparr>
         | EnsurePasswordReset _ \<Rightarrow> row)"

text \<open>The insert, with the unique keys on id, hash and recovery job.\<close>

definition insert_recovery_token :: "token_row \<Rightarrow> ensure_input \<Rightarrow> (db, unit) op" where
  "insert_recovery_token row i d =
     (if row_exists (\<lambda>r. tk_id r = tk_id row \<or> tk_token_hash r = tk_token_hash row \<or>
           tk_recovery_job_id r = tk_recovery_job_id row) (ensure_rows i d)
      then (Inl UniqueViolation, d)
      else (Inr (), case i of
          EnsureMagicLink _ _ _ _ \<Rightarrow>
            d\<lparr>db_magic_link_tokens := db_magic_link_tokens d @ [row]\<rparr>
        | EnsurePasswordReset _ \<Rightarrow>
            d\<lparr>db_password_reset_tokens := db_password_reset_tokens d @ [row]\<rparr>))"

definition ensure_authority :: "ensure_input \<Rightarrow> db \<Rightarrow> bool" where
  "ensure_authority i d =
     (case i of
        EnsureMagicLink _ org interaction client \<Rightarrow> client_matches interaction client org d
      | EnsurePasswordReset _ \<Rightarrow> True)"

definition ensure_recovery_job_token_work ::
    "time \<Rightarrow> string \<Rightarrow> ensure_input \<Rightarrow> (db, ensure_result decision) op" where
  "ensure_recovery_job_token_work now new_id i d =
     (let b = ensure_fields i; uid = en_user_id b; job = en_recovery_job_id b; rows = ensure_rows i d
      in if \<not> row_exists (\<lambda>u. ur_id u = uid) (db_users d)
         then (Inl (JsError ''Recovery artifact user disappeared before issuance''), d)
         else (case find_row (\<lambda>j. rj_id j = job) (db_recovery_jobs d) of
                 None \<Rightarrow> (Inl (JsError ''Recovery job disappeared before artifact issuance''), d)
               | Some current \<Rightarrow>
                   if \<not> ensure_authority i d then (Inr (Commit TokenSuperseded), d)
                   else (case find_row (\<lambda>r. tk_recovery_job_id r = Some job) rows of
                       Some r \<Rightarrow>
                         (Inr (Commit (if token_usable now (map_row_to_token r) then TokenActive
                            else TokenSuperseded)), d)
                     | None \<Rightarrow>
                         if newer_artifact_exists (newest_artifact uid rows (db_recovery_jobs d))
                              (rj_created_at current) job
                         then (Inr (Commit TokenSuperseded), d)
                         else andthen (execute (set_used (ensure_table i)
                                (\<lambda>r. tr_user_id r = Some uid \<and> token_usable now r) now)) (\<lambda>_.
                              andthen (insert_recovery_token (recovery_token_row now new_id i) i) (\<lambda>_.
                              return_op (Commit TokenActive))) d)))"

definition ensure_recovery_job_token ::
    "time \<Rightarrow> string \<Rightarrow> ensure_input \<Rightarrow> (db, ensure_result) op" where
  "ensure_recovery_job_token now new_id i =
     own_transaction (ensure_recovery_job_token_work now new_id i)"

subsection \<open>Magic links\<close>

record locked_magic_link =
  lm_token :: token_record
  lm_organization_id :: string
  lm_interaction_uid :: "string option"
  lm_account_status :: user_status

text \<open>The user row a magic-link row joins: same id and the organization of the token.\<close>

definition magic_link_account :: "token_row \<Rightarrow> db \<Rightarrow> user_row option" where
  "magic_link_account r d =
     find_row (\<lambda>u. ur_id u = tk_user_id r \<and> ur_organization_id u = tk_organization_id r) (db_users d)"

definition magic_link_match :: "time \<Rightarrow> string \<Rightarrow> string \<Rightarrow> db \<Rightarrow> token_row \<Rightarrow> bool" where
  "magic_link_match now h org d r =
     (magic_link_account r d \<noteq> None \<and> tk_token_hash r = h \<and> tk_organization_id r = org \<and>
      tk_authority_bound r \<and> token_usable now (map_row_to_token r))"

definition find_and_lock_magic_link_token ::
    "time \<Rightarrow> string \<Rightarrow> string \<Rightarrow> db \<Rightarrow> locked_magic_link option" where
  "find_and_lock_magic_link_token now h org d =
     (case find_row (magic_link_match now h org d) (db_magic_link_tokens d) of
        None \<Rightarrow> None
      | Some r \<Rightarrow>
          (case magic_link_account r d of
             None \<Rightarrow> None
           | Some u \<Rightarrow> Some \<lparr>lm_token = map_row_to_token r, lm_organization_id = tk_organization_id r,
               lm_interaction_uid = tk_interaction_uid r, lm_account_status = ur_status u\<rparr>))"

text \<open>\<open>rowCount === 1\<close> of the conditional update.\<close>

definition consume_locked_magic_link_token :: "time \<Rightarrow> string \<Rightarrow> db \<Rightarrow> bool \<times> db" where
  "consume_locked_magic_link_token now i d =
     (let P = (\<lambda>r. tr_id r = i \<and> token_usable now r)
      in (row_count P (token_records MagicLinkTokens d) = 1, set_used MagicLinkTokens P now d))"

record consume_magic_link_input =
  cm_token_hash :: string
  cm_organization_id :: string
  cm_interaction_uid :: "string option"
  cm_client_id :: "string option"
  cm_ip_address :: "string option"

record consumed_magic_link =
  cd_user :: string
  cd_interaction :: "string option"

definition magic_link_login :: "user_row \<Rightarrow> time \<Rightarrow> user_row" where
  "magic_link_login u now = touch_user now (u\<lparr>ur_email_verified := True,
     ur_last_login_at := Some now, ur_login_count := Suc (ur_login_count u),
     ur_failed_login_count := 0, ur_last_failed_login_at := None\<rparr>)"

definition magic_link_account_update :: "time \<Rightarrow> string option \<Rightarrow> string \<Rightarrow> db \<Rightarrow> nat \<times> db" where
  "magic_link_account_update now uid org d =
     (let P = (\<lambda>u. Some (ur_id u) = uid \<and> ur_organization_id u = org \<and> ur_status u = Active)
      in (row_count P (db_users d),
          d\<lparr>db_users := update_where P (\<lambda>u. magic_link_login u now) (db_users d)\<rparr>))"

definition magic_link_audit :: "consume_magic_link_input \<Rightarrow> string option \<Rightarrow> audit_row" where
  "magic_link_audit i uid = \<lparr>
     al_organization_id = Some (cm_organization_id i), al_user_id = uid, al_actor_id = uid,
     al_actor_type = ActorUser, al_actor_client_id = None, al_actor_client_name = None,
     al_event_type = ''user.login.magic_link'', al_event_category = ''authentication'',
     al_description = Some ''Magic link login successful'', al_metadata = JObj [],
     al_ip_address = cm_ip_address i, al_user_agent = None\<rparr>"

definition consume_authorized_magic_link_work ::
    "time \<Rightarrow> consume_magic_link_input \<Rightarrow> (db, consumed_magic_link option decision) op" where
  "consume_authorized_magic_link_work now i d =
     (if \<not> client_matches (cm_interaction_uid i) (cm_client_id i) (cm_organization_id i) d
      then (Inr (Rollback None), d)
      else (case find_and_lock_magic_link_token now (cm_token_hash i) (cm_organization_id i) d of
              None \<Rightarrow> (Inr (Rollback None), d)
            | Some t \<Rightarrow>
                if lm_account_status t \<noteq> Active \<or> lm_interaction_uid t \<noteq> cm_interaction_uid i
                then (Inr (Rollback None), d)
                else (case consume_locked_magic_link_token now (tr_id (lm_token t)) d of
                    (False, d1) \<Rightarrow> (Inr (Rollback None), d1)
                  | (True, d1) \<Rightarrow>
                      (case magic_link_account_update now (tr_user_id (lm_token t))
                              (cm_organization_id i) d1 of
                         (n, d2) \<Rightarrow>
                           if n \<noteq> 1 then (Inr (Rollback None), d2)
                           else (Inr (Commit (Some \<lparr>cd_user = nullish (tr_user_id (lm_token t)) [],
                                    cd_interaction = lm_interaction_uid t\<rparr>)),
                                 insert_audit_row (magic_link_audit i (tr_user_id (lm_token t))) d2)))))"

definition consume_authorized_magic_link ::
    "time \<Rightarrow> consume_magic_link_input \<Rightarrow> (db, consumed_magic_link option) op" where
  "consume_authorized_magic_link now i = own_transaction (consume_authorized_magic_link_work now i)"

subsection \<open>Invitations\<close>

record insert_invitation_input =
  ii_organization_id :: string
  ii_application_id :: "string option"
  ii_email :: string
  ii_token_hash :: string
  ii_expires_at :: time
  ii_given_name :: "string option"
  ii_family_name :: "string option"
  ii_locale :: "string option"
  ii_details :: "invitation_details option"
  ii_invited_by :: "string option"

definition invitation_row_of :: "time \<Rightarrow> string \<Rightarrow> insert_invitation_input \<Rightarrow> invitation_row" where
  "invitation_row_of now new_id i = \<lparr>iv_id = new_id, iv_user_id = None,
     iv_token_hash = ii_token_hash i, iv_expires_at = ii_expires_at i, iv_used_at = None,
     iv_created_at = now, iv_details = ii_details i, iv_invited_by = ii_invited_by i,
     iv_organization_id = ii_organization_id i, iv_email = ii_email i,
     iv_given_name = ii_given_name i, iv_family_name = ii_family_name i, iv_locale = ii_locale i,
     iv_application_id = ii_application_id i\<rparr>"

text \<open>The same organization and, by \<open>CITEXT\<close>, the same address.\<close>

definition same_invitee :: "string \<Rightarrow> string \<Rightarrow> invitation_row \<Rightarrow> bool" where
  "same_invitee org email r = (iv_organization_id r = org \<and> citext_eq (iv_email r) email)"

text \<open>The partial unique index of migration 033 and the unique hash.\<close>

definition insert_invitation :: "invitation_row \<Rightarrow> (db, string) op" where
  "insert_invitation row d =
     (if row_exists (\<lambda>r. iv_id r = iv_id row \<or> iv_token_hash r = iv_token_hash row \<or>
           (iv_used_at r = None \<and> same_invitee (iv_organization_id row) (iv_email row) r))
           (db_invitation_tokens d)
      then (Inl UniqueViolation, d)
      else (Inr (iv_id row), d\<lparr>db_invitation_tokens := db_invitation_tokens d @ [row]\<rparr>))"

definition close_live_invitations :: "time \<Rightarrow> string \<Rightarrow> string \<Rightarrow> db \<Rightarrow> db" where
  "close_live_invitations now org email d = d\<lparr>db_invitation_tokens :=
     update_where (\<lambda>r. same_invitee org email r \<and> iv_used_at r = None)
       (\<lambda>r. r\<lparr>iv_used_at := Some now\<rparr>) (db_invitation_tokens d)\<rparr>"

definition invitation_conflict :: "app_error \<Rightarrow> (flow, string) op" where
  "invitation_conflict e =
     throw_op (case e of UniqueViolation \<Rightarrow> InvitationConflictError | _ \<Rightarrow> e)"

definition replace_invitation :: "time \<Rightarrow> string \<Rightarrow> insert_invitation_input \<Rightarrow> (flow, string) op" where
  "replace_invitation now new_id i =
     catch_op (run_database_transaction (
         andthen (query (execute (close_live_invitations now (ii_organization_id i) (ii_email i)))) (\<lambda>_.
         query (insert_invitation (invitation_row_of now new_id i)))))
       invitation_conflict"

definition find_valid_invitation_token ::
    "time \<Rightarrow> string \<Rightarrow> string \<Rightarrow> db \<Rightarrow> invitation_row option" where
  "find_valid_invitation_token now h org d =
     find_row (\<lambda>r. iv_token_hash r = h \<and> iv_organization_id r = org \<and> iv_used_at r = None \<and>
       now < iv_expires_at r) (db_invitation_tokens d)"

text \<open>\<open>FOR UPDATE\<close> adds the lock; the row it returns is the same.\<close>

definition lock_valid_invitation_for_update ::
    "time \<Rightarrow> string \<Rightarrow> string \<Rightarrow> db \<Rightarrow> invitation_row option" where
  "lock_valid_invitation_for_update now h org d =
     find_row (\<lambda>r. iv_token_hash r = h \<and> iv_organization_id r = org \<and> iv_used_at r = None \<and>
       now < iv_expires_at r) (db_invitation_tokens d)"

definition consume_invitation :: "time \<Rightarrow> string \<Rightarrow> string \<Rightarrow> db \<Rightarrow> bool \<times> db" where
  "consume_invitation now i uid d =
     (let P = (\<lambda>r. iv_id r = i \<and> iv_used_at r = None \<and> now < iv_expires_at r)
      in (row_count P (db_invitation_tokens d) = 1,
          d\<lparr>db_invitation_tokens := update_where P
             (\<lambda>r. r\<lparr>iv_user_id := Some uid, iv_used_at := Some now\<rparr>) (db_invitation_tokens d)\<rparr>))"

end
