(* ===== verification/Invitations.thy ===== *)
theory Invitations
  imports TokenRepository UserService
begin

text \<open>
  The life of an invitation after it is issued: acceptance
  (packages/server/src/users/invitation-service.ts), revocation by the owning application
  (invitation-revocation-service.ts), and the best-effort pre-assignments of the accept route
  (routes/invitation.ts, invite-service.ts).
\<close>

subsection \<open>Acceptance\<close>

text \<open>The fields of the invited account; the profile comes from the invitation.\<close>

definition invited_user_data :: "invitation_row \<Rightarrow> string \<Rightarrow> insert_user_data" where
  "invited_user_data iv password_hash = \<lparr>
     id_organization_id = iv_organization_id iv, id_email = iv_email iv,
     id_password_hash = Some password_hash, id_email_verified = Some True,
     id_profile = (\<lambda>f. case f of GivenName \<Rightarrow> iv_given_name iv | FamilyName \<Rightarrow> iv_family_name iv
       | Locale \<Rightarrow> iv_locale iv | _ \<Rightarrow> None),
     id_phone_number_verified = None\<rparr>"

definition create_user_for_invitation_work ::
    "user_env \<Rightarrow> string \<Rightarrow> string \<Rightarrow> string \<Rightarrow> (db, user option decision) op" where
  "create_user_for_invitation_work env token_hash org password_hash d =
     (case lock_valid_invitation_for_update (ev_now env) token_hash org d of
        None \<Rightarrow> (Inr (Rollback None), d)
      | Some iv \<Rightarrow>
          if email_exists org (iv_email iv) None d then (Inr (Rollback None), d)
          else andthen (insert_user_with_client (ev_now env) (ev_new_id env)
                   ((invited_user_data iv password_hash)\<lparr>id_organization_id := org\<rparr>)) (\<lambda>u.
               andthen (returning (consume_invitation (ev_now env) (iv_id iv) (u_id u))) (\<lambda>consumed.
               return_op (if consumed then Commit (Some u) else Rollback None))) d)"

definition create_user_for_invitation ::
    "user_env \<Rightarrow> string \<Rightarrow> string \<Rightarrow> string \<Rightarrow> (db, user option) op" where
  "create_user_for_invitation env token_hash org password_hash =
     own_transaction (create_user_for_invitation_work env token_hash org password_hash)"

definition accepted_entry :: "string \<Rightarrow> user \<Rightarrow> audit_entry" where
  "accepted_entry org u = user_metadata [(''userId'', JStr (u_id u)), (''email'', JStr (u_email u))]
     ((blank_entry ''user.created'' ''admin'')\<lparr>ae_organization_id := Some org,
        ae_user_id := Some (u_id u)\<rparr>)"

definition accept_invitation ::
    "user_env \<Rightarrow> string \<Rightarrow> string \<Rightarrow> string \<Rightarrow> (flow, (string \<times> string) option) op" where
  "accept_invitation env token_hash org password =
     (case validate_password password of
        Some f \<Rightarrow> throw_op (UserValidationError (password_error f))
      | None \<Rightarrow>
          andthen (query (create_user_for_invitation env token_hash org (ev_argon_hash env password)))
            (\<lambda>created.
             case created of
               None \<Rightarrow> return_op None
             | Some u \<Rightarrow>
                 andthen (cache_user (ev_now env) u) (\<lambda>_.
                 andthen (write_audit_log (accepted_entry org u)) (\<lambda>_.
                 return_op (Some (u_id u, u_email u))))))"

subsection \<open>Revocation\<close>

record revoke_invitation_options =
  ro_organization :: string
  ro_application :: string
  ro_invitation_id :: string
  ro_actor :: audit_actor
  ro_context :: "audit_context option"

definition revocable :: "time \<Rightarrow> revoke_invitation_options \<Rightarrow> invitation_row \<Rightarrow> bool" where
  "revocable now o' r =
     (iv_id r = ro_invitation_id o' \<and> iv_organization_id r = ro_organization o' \<and>
      iv_application_id r = Some (ro_application o') \<and> iv_user_id r = None \<and>
      iv_used_at r = None \<and> now < iv_expires_at r)"

definition revoke_rows :: "time \<Rightarrow> revoke_invitation_options \<Rightarrow> db \<Rightarrow> nat \<times> db" where
  "revoke_rows now o' d =
     (row_count (revocable now o') (db_invitation_tokens d),
      d\<lparr>db_invitation_tokens := update_where (revocable now o')
         (\<lambda>r. r\<lparr>iv_used_at := Some now\<rparr>) (db_invitation_tokens d)\<rparr>)"

definition revoked_entry :: "revoke_invitation_options \<Rightarrow> audit_entry" where
  "revoked_entry o' =
     (audit_fields (Some (ro_actor o')) (ro_context o')
        ((blank_entry ''user.invite.revoked'' ''admin'')
           \<lparr>ae_organization_id := Some (ro_organization o')\<rparr>))
     \<lparr>ae_description := Some ''User invitation revoked'',
      ae_metadata := Some (JObj [(''invitationId'', JStr (ro_invitation_id o')),
        (''applicationId'', JStr (ro_application o'))])\<rparr>"

definition revoke_invitation :: "time \<Rightarrow> revoke_invitation_options \<Rightarrow> (flow, unit) op" where
  "revoke_invitation now o' =
     run_database_transaction (
       andthen (query (returning (revoke_rows now o'))) (\<lambda>n.
         if n = 0 then return_op ()
         else andthen (require_transaction
                ''Invitation revocation requires an active database transaction'') (\<lambda>_.
              write_audit_log_in_transaction (revoked_entry o'))))"

subsection \<open>Pre-assignments\<close>

definition role_in_application :: "string \<Rightarrow> string \<Rightarrow> db \<Rightarrow> bool" where
  "role_in_application role app d =
     row_exists (\<lambda>r. ro_id r = role \<and> ro_application_id r = app) (db_roles d)"

definition claim_in_application :: "string \<Rightarrow> string \<Rightarrow> db \<Rightarrow> bool" where
  "claim_in_application claim app d =
     row_exists (\<lambda>r. cd_id r = claim \<and> cd_application_id r = app) (db_claim_definitions d)"

text \<open>\<open>INSERT ... ON CONFLICT (user_id, role_id) DO NOTHING\<close>.\<close>

definition insert_user_role :: "string \<Rightarrow> string \<Rightarrow> string option \<Rightarrow> db \<Rightarrow> db" where
  "insert_user_role uid role by d =
     (if row_exists (\<lambda>a. ul_user_id a = uid \<and> ul_role_id a = role) (db_user_roles d) then d
      else d\<lparr>db_user_roles := db_user_roles d @
        [\<lparr>ul_user_id = uid, ul_role_id = role, ul_assigned_by = by\<rparr>]\<rparr>)"

text \<open>\<open>INSERT ... ON CONFLICT (user_id, claim_id) DO UPDATE SET value\<close>; new rows get \<open>new_id\<close>.\<close>

definition upsert_claim_value :: "string \<Rightarrow> string \<Rightarrow> string \<Rightarrow> json \<Rightarrow> db \<Rightarrow> db" where
  "upsert_claim_value new_id uid claim v d =
     (if row_exists (\<lambda>c. cv_user_id c = uid \<and> cv_claim_id c = claim) (db_claim_values d)
      then d\<lparr>db_claim_values := update_where (\<lambda>c. cv_user_id c = uid \<and> cv_claim_id c = claim)
        (\<lambda>c. c\<lparr>cv_value := v\<rparr>) (db_claim_values d)\<rparr>
      else d\<lparr>db_claim_values := db_claim_values d @
        [\<lparr>cv_id = new_id, cv_user_id = uid, cv_claim_id = claim, cv_value = v\<rparr>]\<rparr>)"

definition apply_role :: "string \<Rightarrow> role_pre_assignment \<Rightarrow> db \<Rightarrow> db" where
  "apply_role uid r d =
     (if role_in_application (rp_role_id r) (rp_application_id r) d
      then insert_user_role uid (rp_role_id r) None d else d)"

definition apply_claim :: "string \<Rightarrow> string \<times> claim_pre_assignment \<Rightarrow> db \<Rightarrow> db" where
  "apply_claim uid nc d =
     (case nc of (new_id, c) \<Rightarrow>
        if claim_in_application (cp_claim_definition_id c) (cp_application_id c) d
        then upsert_claim_value new_id uid (cp_claim_definition_id c) (cp_value c) d else d)"

definition pre_assignment_entry ::
    "string \<Rightarrow> string \<Rightarrow> role_pre_assignment list \<Rightarrow> claim_pre_assignment list \<Rightarrow> audit_entry" where
  "pre_assignment_entry org uid roles claims =
     user_metadata [(''roles'', JArr (map (\<lambda>r. JStr (rp_role_id r)) roles)),
       (''claims'', JArr (map (\<lambda>c. JStr (cp_claim_definition_id c)) claims))]
     ((blank_entry ''user.invite.pre_assignments_applied'' ''authentication'')
        \<lparr>ae_organization_id := Some org, ae_user_id := Some uid,
         ae_description := Some (''Pre-assignments applied: '' @ show_nat (length roles) @
           '' roles, '' @ show_nat (length claims) @ '' claims'')\<rparr>)"

text \<open>\<open>new_id n\<close> is the generated id of the n-th claim value.\<close>

definition apply_pre_assignments ::
    "(nat \<Rightarrow> string) \<Rightarrow> invitation_row \<Rightarrow> string \<Rightarrow> string \<Rightarrow> (flow, unit) op" where
  "apply_pre_assignments new_id iv org uid =
     (case iv_details iv of
        None \<Rightarrow> return_op ()
      | Some det \<Rightarrow>
          (let roles = nullish (dt_roles det) []; claims = nullish (dt_claims det) []
           in andthen (query (execute (fold (apply_role uid) roles))) (\<lambda>_.
              andthen (query (execute (fold (apply_claim uid)
                  (zip (map new_id [0..<length claims]) claims)))) (\<lambda>_.
              if 0 < length roles \<or> 0 < length claims
              then write_audit_log (pre_assignment_entry org uid roles claims)
              else return_op ()))))"

text \<open>
  \<open>validatePreAssignments\<close>: the error list of an invitation request. The distinct application ids
  keep insertion order, as a JavaScript \<open>Set\<close> does.
\<close>

definition foreign_errors :: "string option \<Rightarrow> string list \<Rightarrow> string \<Rightarrow> string list" where
  "foreign_errors allowed apps msg =
     (case allowed of
        None \<Rightarrow> []
      | Some a \<Rightarrow> if a = [] then [] else map (\<lambda>_. msg) (filter (\<lambda>x. x \<noteq> a) apps))"

definition validate_pre_assignments ::
    "role_pre_assignment list option \<Rightarrow> claim_pre_assignment list option \<Rightarrow> string option \<Rightarrow> db \<Rightarrow>
     string list" where
  "validate_pre_assignments roles claims allowed d =
     (let rs = nullish roles []; cs = nullish claims [];
          app_ids = rev (remdups (rev (map rp_application_id rs @ map cp_application_id cs)))
      in if rs = [] \<and> cs = [] then []
         else foreign_errors allowed (map rp_application_id rs)
                ''A role does not belong to the client application'' @
              foreign_errors allowed (map cp_application_id cs)
                ''A claim does not belong to the client application'' @
              map (\<lambda>_. ''An application does not exist'')
                (filter (\<lambda>a. \<not> row_exists (\<lambda>r. ap_id r = a) (db_applications d)) app_ids) @
              map (\<lambda>_. ''A role does not belong to its application'')
                (filter (\<lambda>r. \<not> role_in_application (rp_role_id r) (rp_application_id r) d) rs) @
              map (\<lambda>_. ''A claim does not belong to its application'')
                (filter (\<lambda>c. \<not> claim_in_application (cp_claim_definition_id c) (cp_application_id c) d)
                  cs))"

end
