(* ===== verification/TokenProperties.thy ===== *)
theory TokenProperties
  imports Invitations
begin

text \<open>
  How the token tables evolve: every operation keeps the token hashes of each table unique and never
  makes a hash usable again unless it issues it. From this the magic-link and invitation operations
  interpret the single-use interface.
\<close>

subsection \<open>Evolution of the tables\<close>

definition live_hashes :: "token_table \<Rightarrow> db \<Rightarrow> string set" where
  "live_hashes t d = tr_token_hash ` {r \<in> set (token_records t d). tr_used_at r = None}"

definition tokens_inv :: "db \<Rightarrow> bool" where
  "tokens_inv d \<longleftrightarrow> (\<forall>t. unique_on tr_token_hash (token_records t d))"

definition tokens_evolve :: "(token_table \<times> string) set \<Rightarrow> db \<Rightarrow> db \<Rightarrow> bool" where
  "tokens_evolve H d d' \<longleftrightarrow>
     (\<forall>t h. h \<in> live_hashes t d' \<longrightarrow> h \<in> live_hashes t d \<or> (t, h) \<in> H) \<and>
     (tokens_inv d \<longrightarrow> tokens_inv d')"

named_theorems evolves

lemma evolves_refl [evolves]: "tokens_evolve H d d"
  by (simp add: tokens_evolve_def)

lemma evolves_trans: "tokens_evolve H d d' \<Longrightarrow> tokens_evolve H d' d'' \<Longrightarrow> tokens_evolve H d d''"
  unfolding tokens_evolve_def by blast

lemma evolves_cong:
  "(\<And>t. token_records t d' = token_records t d) \<Longrightarrow> tokens_evolve H d d'"
  by (simp add: tokens_evolve_def live_hashes_def tokens_inv_def)




lemma token_records_other [simp]:
  "token_records t (d\<lparr>db_users := us\<rparr>) = token_records t d"
  "token_records t (insert_audit_row r d) = token_records t d"
  by (cases t; simp add: token_records_def insert_audit_row_def)+

lemma evolves_users [evolves]: "tokens_evolve H d (d\<lparr>db_users := us\<rparr>)"
  by (rule evolves_cong) simp



lemma token_table_simps:
  "token_records MagicLinkTokens d = map map_row_to_token (db_magic_link_tokens d)"
  "token_records PasswordResetTokens d = map map_row_to_token (db_password_reset_tokens d)"
  "token_records InvitationTokens d = map invitation_token_columns (db_invitation_tokens d)"
  by (simp_all add: token_records_def)

lemma token_row_fields [simp]:
  "tr_id (map_row_to_token r) = tk_id r" "tr_token_hash (map_row_to_token r) = tk_token_hash r"
  "tr_used_at (map_row_to_token r) = tk_used_at r"
  "tr_expires_at (map_row_to_token r) = tk_expires_at r"
  "tr_user_id (map_row_to_token r) = Some (tk_user_id r)"
  "tr_id (invitation_token_columns i) = iv_id i"
  "tr_token_hash (invitation_token_columns i) = iv_token_hash i"
  "tr_used_at (invitation_token_columns i) = iv_used_at i"
  by (simp_all add: map_row_to_token_def invitation_token_columns_def)

lemma tokens_inv_tables:
  "tokens_inv d \<longleftrightarrow> unique_on tk_token_hash (db_magic_link_tokens d) \<and>
     unique_on tk_token_hash (db_password_reset_tokens d) \<and>
     unique_on iv_token_hash (db_invitation_tokens d)"
proof -
  have all: "(\<forall>t. P t) \<longleftrightarrow> P MagicLinkTokens \<and> P PasswordResetTokens \<and> P InvitationTokens" for P
    by (metis token_table.exhaust)
  show ?thesis
    by (simp add: tokens_inv_def all token_table_simps unique_on_def o_def)
qed

subsection \<open>Each operation\<close>



lemma recovery_token_row_hash [simp]:
  "tk_token_hash (recovery_token_row now n i) = en_token_hash (ensure_fields i)"
  by (cases i) (simp_all add: recovery_token_row_def blank_token_def Let_def)


subsection \<open>Magic-link consumption\<close>

text \<open>The database after a successful consumption of the row \<open>r\<close>.\<close>

definition magic_link_consumed ::
    "time \<Rightarrow> consume_magic_link_input \<Rightarrow> token_row \<Rightarrow> db \<Rightarrow> db" where
  "magic_link_consumed now i r d =
     insert_audit_row (magic_link_audit i (Some (tk_user_id r)))
       (snd (magic_link_account_update now (Some (tk_user_id r)) (cm_organization_id i)
         (set_used MagicLinkTokens (\<lambda>x. tr_id x = tk_id r \<and> token_usable now x) now d)))"

definition magic_link_accepts ::
    "time \<Rightarrow> consume_magic_link_input \<Rightarrow> db \<Rightarrow> token_row \<Rightarrow> user_row \<Rightarrow> bool" where
  "magic_link_accepts now i d r u \<longleftrightarrow>
     client_matches (cm_interaction_uid i) (cm_client_id i) (cm_organization_id i) d \<and>
     magic_link_match now (cm_token_hash i) (cm_organization_id i) d r \<and>
     magic_link_account r d = Some u \<and> ur_status u = Active \<and>
     tk_interaction_uid r = cm_interaction_uid i"

lemma consume_magic_link_cases:
  assumes "consume_authorized_magic_link now i d = (res, d')"
  shows "(res = Inr None \<and> d' = d) \<or>
    (\<exists>r u. r \<in> set (db_magic_link_tokens d) \<and> magic_link_accepts now i d r u \<and>
       res = Inr (Some \<lparr>cd_user = tk_user_id r, cd_interaction = tk_interaction_uid r\<rparr>) \<and>
       d' = magic_link_consumed now i r d)"
proof (cases "client_matches (cm_interaction_uid i) (cm_client_id i) (cm_organization_id i) d")
  case False
  then show ?thesis
    using assms by (auto simp: consume_authorized_magic_link_def own_transaction_def
        consume_authorized_magic_link_work_def)
next
  case client: True
  show ?thesis
  proof (cases "find_row (magic_link_match now (cm_token_hash i) (cm_organization_id i) d)
      (db_magic_link_tokens d)")
    case None
    then show ?thesis
      using assms client
      by (auto simp: consume_authorized_magic_link_def own_transaction_def
          consume_authorized_magic_link_work_def find_and_lock_magic_link_token_def)
  next
    case (Some r)
    then have m: "r \<in> set (db_magic_link_tokens d)"
        "magic_link_match now (cm_token_hash i) (cm_organization_id i) d r"
      by (auto dest: find_row_SomeD)
    then obtain u where u: "magic_link_account r d = Some u"
      by (auto simp: magic_link_match_def)
    show ?thesis
      using assms client Some m u
      by (auto simp: consume_authorized_magic_link_def own_transaction_def magic_link_consumed_def
          consume_authorized_magic_link_work_def find_and_lock_magic_link_token_def
          consume_locked_magic_link_token_def magic_link_accepts_def Let_def
          split: if_splits prod.splits bool.splits)
  qed
qed




lemma token_records_account_update [simp]:
  "token_records t (snd (magic_link_account_update now uid org d)) = token_records t d"
  by (simp add: magic_link_account_update_def Let_def)


subsection \<open>Invitations\<close>


lemma evolves_invitation_update:
  assumes "\<And>r. iv_token_hash (g r) = iv_token_hash r"
    and "\<And>r. P r \<Longrightarrow> iv_used_at (g r) \<noteq> None"
  shows "tokens_evolve H d (d\<lparr>db_invitation_tokens := update_where P g (db_invitation_tokens d)\<rparr>)"
    (is "tokens_evolve H d ?d'")
proof -
  have u: "unique_on iv_token_hash (update_where P g (db_invitation_tokens d)) =
      unique_on iv_token_hash (db_invitation_tokens d)"
    by (rule unique_on_update_where) (rule assms(1))
  have other: "token_records t ?d' = token_records t d" if "t \<noteq> InvitationTokens" for t
    using that by (cases t) (simp_all add: token_table_simps)
  have used: "P r \<Longrightarrow> iv_used_at (g r) = None \<Longrightarrow> False" for r
    using assms(2) by blast
  have "h \<in> live_hashes t ?d' \<Longrightarrow> h \<in> live_hashes t d" for t h
    using assms(1) other [of t] by (cases t)
      (auto simp: live_hashes_def token_table_simps set_update_where split: if_splits dest: used)
  then show ?thesis
    by (simp add: tokens_evolve_def tokens_inv_tables u)
qed




text \<open>The invitation that an acceptance finds.\<close>

definition invitation_acceptable :: "time \<Rightarrow> string \<Rightarrow> string \<Rightarrow> db \<Rightarrow> invitation_row \<Rightarrow> bool" where
  "invitation_acceptable now h org d iv \<longleftrightarrow> iv \<in> set (db_invitation_tokens d) \<and>
     iv_token_hash iv = h \<and> iv_organization_id iv = org \<and> iv_used_at iv = None \<and>
     now < iv_expires_at iv \<and> \<not> email_exists org (iv_email iv) None d"

definition accepted_row :: "user_env \<Rightarrow> string \<Rightarrow> invitation_row \<Rightarrow> user_row" where
  "accepted_row env ph iv = inserted_user_row (ev_now env) (ev_new_id env) (invited_user_data iv ph)"

definition accepted_db :: "user_env \<Rightarrow> string \<Rightarrow> invitation_row \<Rightarrow> db \<Rightarrow> db" where
  "accepted_db env ph iv d =
     snd (consume_invitation (ev_now env) (iv_id iv) (ev_new_id env)
       (d\<lparr>db_users := db_users d @ [accepted_row env ph iv]\<rparr>))"

lemma accepted_row_fields [simp]:
  "ur_id (accepted_row env ph iv) = ev_new_id env"
  "ur_email (accepted_row env ph iv) = iv_email iv"
  "ur_organization_id (accepted_row env ph iv) = iv_organization_id iv"
  "ur_status (accepted_row env ph iv) = Active"
  "ur_email_verified (accepted_row env ph iv)"
  "ur_password_hash (accepted_row env ph iv) = Some ph"
  by (simp_all add: accepted_row_def inserted_user_row_def invited_user_data_def)

lemma create_user_for_invitation_cases:
  assumes "create_user_for_invitation env h org ph d = (res, d')"
  shows "(d' = d \<and> (res = Inr None \<or> (\<exists>e. res = Inl e))) \<or>
    (\<exists>iv. invitation_acceptable (ev_now env) h org d iv \<and>
       res = Inr (Some (map_row_to_user (accepted_row env ph iv))) \<and> d' = accepted_db env ph iv d)"
proof (cases "lock_valid_invitation_for_update (ev_now env) h org d")
  case None
  then show ?thesis
    using assms by (auto simp: create_user_for_invitation_def own_transaction_def
        create_user_for_invitation_work_def)
next
  case (Some iv)
  then have iv: "iv \<in> set (db_invitation_tokens d)" "iv_token_hash iv = h"
      "iv_organization_id iv = org" "iv_used_at iv = None" "ev_now env < iv_expires_at iv"
    by (auto simp: lock_valid_invitation_for_update_def dest: find_row_SomeD)
  have same: "(invited_user_data iv ph)\<lparr>id_organization_id := org\<rparr> = invited_user_data iv ph"
    using iv(3) by (simp add: invited_user_data_def)
  have "id_email (invited_user_data iv ph) = iv_email iv"
    and "id_organization_id (invited_user_data iv ph) = org"
    using iv(3) by (simp_all add: invited_user_data_def)
  then show ?thesis
    using assms Some iv
    by (auto simp: create_user_for_invitation_def own_transaction_def same Let_def
        create_user_for_invitation_work_def andthen_def insert_user_with_client_def
        invitation_acceptable_def accepted_db_def accepted_row_def [symmetric]
        split: if_splits prod.splits)
qed

lemma evolves_accepted_db: "tokens_evolve H d (accepted_db env ph iv d)"
  unfolding accepted_db_def consume_invitation_def Let_def snd_conv
  by (rule evolves_trans [OF evolves_users evolves_invitation_update]) simp_all

lemma evolves_create_user_for_invitation:
  "tokens_evolve H d (snd (create_user_for_invitation env h org ph d))"
proof -
  obtain res d' where "create_user_for_invitation env h org ph d = (res, d')"
    by fastforce
  from create_user_for_invitation_cases [OF this] this show ?thesis
    by (auto simp: evolves_refl evolves_accepted_db)
qed


text \<open>Acceptance outside a transaction: the cache and the audit row follow the committed account.\<close>

lemma cache_user_outside:
  "outside_tx f \<Longrightarrow> \<exists>g. cache_user now u f = (Inr (), g) \<and> outside_tx g \<and> flow_db g = flow_db f"
  by (auto simp: cache_user_def after_commit_outside cache_user_effect_def)

lemma accept_invitation_outside:
  assumes "outside_tx f" and "accept_invitation env h org pw f = (res, f')"
  shows "outside_tx f' \<and>
    ((flow_db f' = flow_db f \<and> (res = Inr None \<or> (\<exists>e. res = Inl e))) \<or>
     (\<exists>iv a. validate_password pw = None \<and>
       invitation_acceptable (ev_now env) h org (flow_db f) iv \<and>
       res = Inr (Some (ev_new_id env, iv_email iv)) \<and> al_event_type a = ''user.created'' \<and>
       flow_db f' = insert_audit_row a (accepted_db env (ev_argon_hash env pw) iv (flow_db f))))"
proof (cases "validate_password pw")
  case None
  obtain r d' where c: "create_user_for_invitation env h org (ev_argon_hash env pw) (flow_db f) = (r, d')"
    by fastforce
  from create_user_for_invitation_cases [OF c] show ?thesis
  proof (elim disjE conjE exE)
    fix iv
    assume iv: "invitation_acceptable (ev_now env) h org (flow_db f) iv"
      "r = Inr (Some (map_row_to_user (accepted_row env (ev_argon_hash env pw) iv)))"
      "d' = accepted_db env (ev_argon_hash env pw) iv (flow_db f)"
    let ?u = "map_row_to_user (accepted_row env (ev_argon_hash env pw) iv)"
    obtain g where g: "cache_user (ev_now env) ?u (with_db d' f) = (Inr (), g)" "outside_tx g"
        "flow_db g = d'"
      using cache_user_outside [of "with_db d' f" "ev_now env" ?u] assms(1) by auto
    obtain na where na: "normalize_actor (accepted_entry org ?u) = Inr na"
      by (auto simp: normalize_actor_def accepted_entry_def user_metadata_def blank_entry_def)
    have event: "al_event_type (insert_values (accepted_entry org ?u) na) = ''user.created''"
      by (simp add: accepted_entry_def user_metadata_def blank_entry_def)
    have "outside_tx f' \<and> res = Inr (Some (ev_new_id env, iv_email iv)) \<and>
        flow_db f' = insert_audit_row (insert_values (accepted_entry org ?u) na) d'"
      using assms None c iv(2) g na
      by (auto simp: accept_invitation_def step_query andthen_def write_audit_log_def
          after_commit_outside)
    with event iv(1,3) None show ?thesis by blast
  qed (use assms None c in \<open>auto simp: accept_invitation_def step_query\<close>)
qed (use assms in \<open>auto simp: accept_invitation_def\<close>)



text \<open>
  Properties of the bearer artifacts: no magic link and no invitation is used twice whatever calls
  come between, a magic link is consumed exactly on matching durable authority, a recovery job never
  displaces a newer one, and there is one live invitation per address.
\<close>

subsection \<open>Runs of token calls\<close>










subsection \<open>Properties\<close>


text \<open>A sample: one user, one standalone magic link.\<close>

definition link_user :: user_row where
  "link_user = inserted_user_row 0 ''u1'' \<lparr>id_organization_id = ''o1'', id_email = ''a@b.c'',
     id_password_hash = None, id_email_verified = None, id_profile = (\<lambda>_. None),
     id_phone_number_verified = None\<rparr>"

definition link_row :: token_row where
  "link_row = (blank_token ''t1'' ''u1'' ''H'' 100 0)\<lparr>tk_organization_id := ''o1'',
     tk_authority_bound := True\<rparr>"

definition link_job :: recovery_job_row where
  "link_job = \<lparr>rj_id = ''j1'', rj_job_type = MagicLinkJob, rj_organization_id = ''o1'',
     rj_address = \<lparr>pa_ciphertext = ''c'', pa_iv = ''i'', pa_tag = ''t'', pa_key_id = ''k''\<rparr>,
     rj_interaction_uid = None, rj_idempotency_digest = ''d'', rj_status = JobClaimed,
     rj_available_at = 7, rj_claimed_at = Some 8, rj_claimed_by = Some ''w'', rj_attempt_count = 1,
     rj_last_failure_reason = None, rj_completed_at = None, rj_created_at = 7, rj_updated_at = 8\<rparr>"

definition link_db :: db where
  "link_db = empty_db\<lparr>db_users := [link_user], db_magic_link_tokens := [link_row],
     db_recovery_jobs := [link_job]\<rparr>"

definition link_input :: consume_magic_link_input where
  "link_input = \<lparr>cm_token_hash = ''H'', cm_organization_id = ''o1'', cm_interaction_uid = None,
     cm_client_id = None, cm_ip_address = None\<rparr>"

definition link_flow :: flow where
  "link_flow = \<lparr>fl_store = \<lparr>st_db = link_db, st_redis = [], st_redis_up = True\<rparr>, fl_tx = None\<rparr>"

lemmas link_defs = link_user_def link_row_def link_job_def link_db_def link_input_def link_flow_def blank_token_def
  empty_db_def inserted_user_row_def

lemma link_tokens_inv: "tokens_inv link_db"
  by (simp add: tokens_inv_tables link_defs unique_on_def)

lemma link_consumed:
  "fst (consume_authorized_magic_link 5 link_input link_db) =
     Inr (Some \<lparr>cd_user = ''u1'', cd_interaction = None\<rparr>)"
  by (simp add: link_defs consume_authorized_magic_link_def own_transaction_def
      consume_authorized_magic_link_work_def client_matches_def find_and_lock_magic_link_token_def
      magic_link_match_def magic_link_account_def map_row_to_token_def token_usable_def
      consume_locked_magic_link_token_def token_records_def magic_link_account_update_def
      set_used_def Let_def)


text \<open>The durable facts a consumption needs, in terms of the rows.\<close>

definition interaction_authorized :: "string option \<Rightarrow> string option \<Rightarrow> string \<Rightarrow> db \<Rightarrow> bool" where
  "interaction_authorized interaction client org d \<longleftrightarrow>
     interaction = None \<and> client = None \<or>
     (\<exists>uid c row. interaction = Some uid \<and> client = Some c \<and> row \<in> set (db_clients d) \<and>
        cl_client_id row = c \<and> cl_organization_id row = org \<and> cl_status row = ClientActive)"

lemma client_matches_iff: "client_matches x c org d \<longleftrightarrow> interaction_authorized x c org d"
  by (auto simp: client_matches_def interaction_authorized_def lock_active_client_authority_def
      row_exists_iff split: option.splits)

lemma magic_link_accepts_consumes:
  assumes "r \<in> set (db_magic_link_tokens d)" and "magic_link_accepts now i d r u"
    and "tokens_inv d" and "unique_on tk_id (db_magic_link_tokens d)" and "unique_on ur_id (db_users d)"
  shows "fst (consume_authorized_magic_link now i d) =
    Inr (Some \<lparr>cd_user = ur_id u, cd_interaction = cm_interaction_uid i\<rparr>)"
proof -
  let ?m = "magic_link_match now (cm_token_hash i) (cm_organization_id i) d"
  have r: "client_matches (cm_interaction_uid i) (cm_client_id i) (cm_organization_id i) d" "?m r"
      "magic_link_account r d = Some u" "ur_status u = Active"
      "tk_interaction_uid r = cm_interaction_uid i"
    using assms(2) by (auto simp: magic_link_accepts_def)
  have h: "tk_token_hash r = cm_token_hash i" "token_usable now (map_row_to_token r)"
      "tk_organization_id r = cm_organization_id i"
    using r(2) by (auto simp: magic_link_match_def)
  have u: "u \<in> set (db_users d)" "ur_id u = tk_user_id r" "ur_organization_id u = cm_organization_id i"
    using r(3) h(3) by (auto simp: magic_link_account_def dest: find_row_SomeD)
  obtain r' where f: "find_row ?m (db_magic_link_tokens d) = Some r'"
    using assms(1) r(2) by (cases "find_row ?m (db_magic_link_tokens d)") (auto dest: find_row_NoneD)
  then have "r' \<in> set (db_magic_link_tokens d)" "tk_token_hash r' = cm_token_hash i"
    by (auto dest!: find_row_SomeD simp: magic_link_match_def)
  then have eq: "r' = r"
    using assms(1,3) h(1) by (auto simp: tokens_inv_tables dest: unique_on_same)
  have count: "row_count (\<lambda>x. tk_id x = tk_id r \<and> token_usable now (map_row_to_token x))
      (db_magic_link_tokens d) = 1"
    using row_count_unique_one [of tk_id "db_magic_link_tokens d" "tk_id r"
        "\<lambda>x. token_usable now (map_row_to_token x)"] assms(1,4) h(2) by auto
  have users: "row_count (\<lambda>x. ur_id x = tk_user_id r \<and> ur_organization_id x = cm_organization_id i \<and>
      ur_status x = Active) (db_users d) = 1"
    using row_count_unique_one [of ur_id "db_users d" "tk_user_id r"
        "\<lambda>x. ur_organization_id x = cm_organization_id i \<and> ur_status x = Active"] assms(5) u r(4) by auto
  have map_count: "row_count P (map g xs) = row_count (\<lambda>x. P (g x)) xs" for P g xs
    by (induction xs) simp_all
  show ?thesis
    using r f eq count users u h
    by (simp add: consume_authorized_magic_link_def own_transaction_def
        consume_authorized_magic_link_work_def find_and_lock_magic_link_token_def Let_def
        consume_locked_magic_link_token_def token_table_simps magic_link_account_update_def
        set_used_def map_count)
qed

text \<open>The durable facts that authorize the login of account \<open>u\<close> by the row \<open>r\<close>.\<close>

definition magic_link_authorized ::
    "time \<Rightarrow> consume_magic_link_input \<Rightarrow> db \<Rightarrow> token_row \<Rightarrow> user_row \<Rightarrow> bool" where
  "magic_link_authorized now i d r u \<longleftrightarrow>
     tk_token_hash r = cm_token_hash i \<and> tk_authority_bound r \<and> tk_used_at r = None \<and>
     now < tk_expires_at r \<and> ur_id u = tk_user_id r \<and> ur_status u = Active \<and>
     tk_organization_id r = cm_organization_id i \<and> ur_organization_id u = cm_organization_id i \<and>
     tk_interaction_uid r = cm_interaction_uid i \<and>
     interaction_authorized (cm_interaction_uid i) (cm_client_id i) (cm_organization_id i) d"

lemma magic_link_accepts_iff:
  assumes "unique_on ur_id (db_users d)"
  shows "magic_link_accepts now i d r u \<longleftrightarrow>
    u \<in> set (db_users d) \<and> magic_link_authorized now i d r u"
proof -
  have account: "magic_link_account r d = Some u \<longleftrightarrow>
      u \<in> set (db_users d) \<and> ur_id u = tk_user_id r \<and> ur_organization_id u = tk_organization_id r" for u
    using assms unfolding magic_link_account_def
    by (cases "find_row (\<lambda>u. ur_id u = tk_user_id r \<and> ur_organization_id u = tk_organization_id r) (db_users d)")
      (auto dest!: find_row_SomeD dest: find_row_NoneD unique_on_same)
  show ?thesis
    by (auto simp: magic_link_accepts_def magic_link_match_def client_matches_iff token_usable_def
        account magic_link_authorized_def)
qed

text \<open>
  Property C4: a magic link logs a user in exactly when its row is bound, unused and unexpired, the
  row, the account and the route agree on the organization, the account is active, the interaction
  presented is the persisted one, and an interaction comes with an active client of that organization.
  In every other case the result is null and no row changes.
\<close>

theorem magic_link_authority:
  assumes "tokens_inv d" and "unique_on tk_id (db_magic_link_tokens d)"
    and "unique_on ur_id (db_users d)"
  shows "(fst (consume_authorized_magic_link now i d) = Inr (Some c) \<longleftrightarrow>
      (\<exists>r u. r \<in> set (db_magic_link_tokens d) \<and> u \<in> set (db_users d) \<and>
         magic_link_authorized now i d r u \<and>
         c = \<lparr>cd_user = ur_id u, cd_interaction = cm_interaction_uid i\<rparr>)) \<and>
    ((\<exists>c. fst (consume_authorized_magic_link now i d) = Inr (Some c)) \<or>
     consume_authorized_magic_link now i d = (Inr None, d))"
proof -
  obtain res d' where run: "consume_authorized_magic_link now i d = (res, d')"
    by fastforce
  have works: "fst (consume_authorized_magic_link now i d) =
      Inr (Some \<lparr>cd_user = ur_id u, cd_interaction = cm_interaction_uid i\<rparr>)"
    if "r \<in> set (db_magic_link_tokens d)" "u \<in> set (db_users d)" "magic_link_authorized now i d r u" for r u
    using magic_link_accepts_consumes [OF that(1) _ assms] that(2,3)
    by (simp add: magic_link_accepts_iff [OF assms(3)])
  from consume_magic_link_cases [OF run] show ?thesis
  proof (elim disjE conjE exE)
    assume none: "res = Inr None" "d' = d"
    then have "\<not> magic_link_authorized now i d r u"
      if "r \<in> set (db_magic_link_tokens d)" "u \<in> set (db_users d)" for r u
      using works [OF that] run by auto
    with none run show ?thesis by auto
  next
    fix r u
    assume r: "r \<in> set (db_magic_link_tokens d)" "magic_link_accepts now i d r u"
    then have u: "u \<in> set (db_users d)" "magic_link_authorized now i d r u"
      by (simp_all add: magic_link_accepts_iff [OF assms(3)])
    have "c = \<lparr>cd_user = ur_id u', cd_interaction = cm_interaction_uid i\<rparr> \<longleftrightarrow>
        fst (consume_authorized_magic_link now i d) = Inr (Some c)"
      if "r' \<in> set (db_magic_link_tokens d)" "u' \<in> set (db_users d)" "magic_link_authorized now i d r' u'"
      for r' u'
      using works [OF that] by auto
    with r(1) u works [OF r(1) u] show ?thesis by blast
  qed
qed

theorem magic_link_authority_witness:
  "\<exists>r u. r \<in> set (db_magic_link_tokens link_db) \<and> u \<in> set (db_users link_db) \<and> ur_id u = ''u1'' \<and>
     tk_token_hash r = ''H'' \<and> ur_status u = Active"
proof -
  have "unique_on tk_id (db_magic_link_tokens link_db)" "unique_on ur_id (db_users link_db)"
    by (simp_all add: link_defs unique_on_def)
  from magic_link_authority [OF link_tokens_inv this, of 5 link_input
      "\<lparr>cd_user = ''u1'', cd_interaction = None\<rparr>"] link_consumed
  obtain r u where "r \<in> set (db_magic_link_tokens link_db)" "u \<in> set (db_users link_db)"
      "tk_token_hash r = ''H''" "ur_status u = Active" "ur_id u = ''u1''"
    by (auto simp: link_input_def magic_link_authorized_def)
  then show ?thesis by blast
qed

subsection \<open>Recovery jobs\<close>


lemma recovery_token_row_fields [simp]:
  "tk_recovery_job_id (recovery_token_row now n i) = Some (en_recovery_job_id (ensure_fields i))"
  "tk_user_id (recovery_token_row now n i) = en_user_id (ensure_fields i)"
  "tk_used_at (recovery_token_row now n i) = None"
  "tk_expires_at (recovery_token_row now n i) = en_expires_at (ensure_fields i)"
  by (cases i; simp add: recovery_token_row_def blank_token_def Let_def)+


lemma set_used_tables [simp]:
  "db_users (set_used t P now d) = db_users d"
  "db_recovery_jobs (set_used t P now d) = db_recovery_jobs d"
  "db_clients (set_used t P now d) = db_clients d"
  by (cases t; simp add: set_used_def)+






subsection \<open>Invitations\<close>







definition sample_invitation :: insert_invitation_input where
  "sample_invitation = \<lparr>ii_organization_id = ''o1'', ii_application_id = None, ii_email = ''x@y.z'',
     ii_token_hash = ''I'', ii_expires_at = 100, ii_given_name = None, ii_family_name = None,
     ii_locale = None, ii_details = None, ii_invited_by = None\<rparr>"


text \<open>
  Property C9: accepting an invitation is all or nothing. Either the database is unchanged and the
  caller gets null or an error, or the token was live in the route's organization and its address
  free, and exactly one account was added: active, verified, for the invited address, with the id
  the consumed invitation now names.
\<close>

theorem accept_invitation_atomic:
  assumes "accept_invitation env h org pw f = (res, f')" and "outside_tx f"
  shows "((res = Inr None \<or> (\<exists>e. res = Inl e)) \<and> flow_db f' = flow_db f) \<or>
    (\<exists>iv row. iv \<in> set (db_invitation_tokens (flow_db f)) \<and> iv_token_hash iv = h \<and>
       iv_organization_id iv = org \<and> iv_used_at iv = None \<and> ev_now env < iv_expires_at iv \<and>
       \<not> email_exists org (iv_email iv) None (flow_db f) \<and>
       res = Inr (Some (ur_id row, iv_email iv)) \<and>
       db_users (flow_db f') = db_users (flow_db f) @ [row] \<and>
       ur_email row = iv_email iv \<and> ur_organization_id row = org \<and> ur_status row = Active \<and>
       ur_email_verified row \<and> ur_password_hash row = Some (ev_argon_hash env pw) \<and>
       iv\<lparr>iv_user_id := Some (ur_id row), iv_used_at := Some (ev_now env)\<rparr>
         \<in> set (db_invitation_tokens (flow_db f')))"
proof -
  from accept_invitation_outside [OF assms(2,1)] show ?thesis
  proof (elim conjE disjE exE)
    fix iv a
    let ?row = "accepted_row env (ev_argon_hash env pw) iv"
    let ?d1 = "(flow_db f)\<lparr>db_users := db_users (flow_db f) @ [?row]\<rparr>"
    assume iv: "invitation_acceptable (ev_now env) h org (flow_db f) iv"
      and res: "res = Inr (Some (ev_new_id env, iv_email iv))"
      and db: "flow_db f' = insert_audit_row a (accepted_db env (ev_argon_hash env pw) iv (flow_db f))"
    have "db_users (flow_db f') = db_users (flow_db f) @ [?row]"
      by (simp add: db accepted_db_def consume_invitation_def Let_def)
    moreover have "iv\<lparr>iv_user_id := Some (ev_new_id env), iv_used_at := Some (ev_now env)\<rparr>
        \<in> set (db_invitation_tokens (flow_db f'))"
      using iv by (force simp: db accepted_db_def consume_invitation_def Let_def insert_audit_row_def
          set_update_where invitation_acceptable_def)
    ultimately show ?thesis
      using iv res by (intro disjI2 exI [of _ iv] exI [of _ ?row]) (simp add: invitation_acceptable_def)
  qed auto
qed

definition invited_flow :: flow where
  "invited_flow = with_db (link_db\<lparr>db_invitation_tokens := [invitation_row_of 1 ''i1'' sample_invitation]\<rparr>)
     link_flow"

definition invited_env :: user_env where
  "invited_env = \<lparr>ev_now = 2, ev_new_id = ''u2'', ev_argon_hash = (\<lambda>p. ''#'' @ p),
     ev_argon_verify = (\<lambda>h p. Some (h = ''#'' @ p)), ev_dummy_hash = ''dummy'', ev_config = (\<lambda>_. 5)\<rparr>"

theorem accept_invitation_atomic_witness:
  "\<exists>row. db_users (flow_db (snd (accept_invitation invited_env ''I'' ''o1'' ''password'' invited_flow))) =
     [link_user, row] \<and> ur_email row = ''x@y.z''"
proof -
  let ?call = "accept_invitation invited_env ''I'' ''o1'' ''password'' invited_flow"
  have "fst (create_user_for_invitation invited_env ''I'' ''o1'' ''#password'' (flow_db invited_flow)) =
      Inr (Some (map_row_to_user (accepted_row invited_env ''#password''
        (invitation_row_of 1 ''i1'' sample_invitation))))"
    by (simp add: invited_flow_def invited_env_def sample_invitation_def link_defs
        create_user_for_invitation_def own_transaction_def create_user_for_invitation_work_def
        lock_valid_invitation_for_update_def invitation_row_of_def email_exists_def same_login_def
        citext_eq_def to_lower_def lower_char_def is_upper_def andthen_def insert_user_with_client_def
        invited_user_data_def Let_def consume_invitation_def accepted_row_def)
  then have "\<exists>x. fst ?call = Inr (Some x)"
    by (auto simp: accept_invitation_def step_query validate_password_def min_password_length_def
        max_password_length_def invited_env_def andthen_def cache_user_def after_database_commit_def
        write_audit_log_def normalize_actor_def accepted_entry_def user_metadata_def blank_entry_def
        invited_flow_def link_flow_def cache_user_effect_def split: prod.splits)
  moreover have "outside_tx invited_flow" and "db_users (flow_db invited_flow) = [link_user]"
    and "db_invitation_tokens (flow_db invited_flow) = [invitation_row_of 1 ''i1'' sample_invitation]"
    by (simp_all add: invited_flow_def link_flow_def link_db_def)
  ultimately show ?thesis
    using accept_invitation_atomic [of invited_env "''I''" "''o1''" "''password''" invited_flow,
        OF prod.collapse [symmetric]]
    by (auto simp: invitation_row_of_def sample_invitation_def)
qed

end
