(* ===== verification/SystemConfig.thy ===== *)
theory SystemConfig
  imports Database
begin

text \<open>
  The operational policy: the closed catalog (packages/server/src/lib/system-config-catalog.ts), the
  cached reader with its generations (system-config.ts) and the guard of the bootstrap administrator
  (super-admin-protection.ts). Labels and descriptions of the catalog are presentation and left out.
\<close>

subsection \<open>The catalog\<close>

definition supported_locales :: "string list" where
  "supported_locales = [''en'', ''nl'']"

datatype config_group = Lifetimes | RateLimits | Lockout | General

datatype config_mode = Runtime | RestartRequired

datatype config_unit = Seconds | Attempts | Days | LocaleUnit

datatype config_value_type = IntegerValue | StringValue

record config_definition =
  cf_key :: string
  cf_group :: config_group
  cf_unit :: config_unit
  cf_value_type :: config_value_type
  cf_default :: json
  cf_minimum :: "int option"
  cf_maximum :: "int option"
  cf_allowed_values :: "string list option"
  cf_mode :: config_mode

definition integer_definition ::
    "string \<Rightarrow> config_group \<Rightarrow> config_unit \<Rightarrow> int \<Rightarrow> int \<Rightarrow> int \<Rightarrow> config_mode \<Rightarrow> config_definition" where
  "integer_definition key grp unit default_value minimum maximum mode = \<lparr>
     cf_key = key, cf_group = grp, cf_unit = unit, cf_value_type = IntegerValue,
     cf_default = JNum default_value, cf_minimum = Some minimum, cf_maximum = Some maximum,
     cf_allowed_values = None, cf_mode = mode\<rparr>"

definition system_config_catalog :: "config_definition list" where
  "system_config_catalog = [
     integer_definition ''access_token_ttl'' Lifetimes Seconds 3600 60 86400 RestartRequired,
     integer_definition ''id_token_ttl'' Lifetimes Seconds 3600 60 86400 RestartRequired,
     integer_definition ''refresh_token_ttl'' Lifetimes Seconds 2592000 300 31536000 RestartRequired,
     integer_definition ''authorization_code_ttl'' Lifetimes Seconds 600 30 3600 RestartRequired,
     integer_definition ''session_ttl'' Lifetimes Seconds 86400 300 2592000 RestartRequired,
     integer_definition ''magic_link_ttl'' Lifetimes Seconds 900 60 3600 Runtime,
     integer_definition ''password_reset_ttl'' Lifetimes Seconds 3600 300 86400 Runtime,
     integer_definition ''invitation_ttl'' Lifetimes Seconds 604800 300 2592000 Runtime,
     integer_definition ''rate_limit_login_max'' RateLimits Attempts 10 1 100 Runtime,
     integer_definition ''rate_limit_login_window'' RateLimits Seconds 900 60 86400 Runtime,
     integer_definition ''rate_limit_magic_link_max'' RateLimits Attempts 5 1 100 Runtime,
     integer_definition ''rate_limit_magic_link_window'' RateLimits Seconds 900 60 86400 Runtime,
     integer_definition ''rate_limit_password_reset_max'' RateLimits Attempts 5 1 100 Runtime,
     integer_definition ''rate_limit_password_reset_window'' RateLimits Seconds 900 60 86400 Runtime,
     integer_definition ''max_failed_logins'' Lockout Attempts 5 1 100 Runtime,
     integer_definition ''lockout_duration_seconds'' Lockout Seconds 900 60 604800 Runtime,
     integer_definition ''audit_retention_days'' General Days 90 1 3650 Runtime,
     \<lparr>cf_key = ''default_locale'', cf_group = General, cf_unit = LocaleUnit,
       cf_value_type = StringValue, cf_default = JStr ''en'', cf_minimum = None, cf_maximum = None,
       cf_allowed_values = Some supported_locales, cf_mode = Runtime\<rparr>]"

definition find_system_config_definition :: "string \<Rightarrow> config_definition option" where
  "find_system_config_definition key = List.find (\<lambda>d. cf_key d = key) system_config_catalog"

definition validate_system_config_value :: "config_definition \<Rightarrow> json \<Rightarrow> json option" where
  "validate_system_config_value d v =
     (case cf_value_type d of
        IntegerValue \<Rightarrow>
          (case (v, cf_minimum d, cf_maximum d) of
             (JNum n, Some lo, Some hi) \<Rightarrow> if n < lo \<or> n > hi then None else Some v
           | _ \<Rightarrow> None)
      | StringValue \<Rightarrow>
          (case v of
             JStr s \<Rightarrow>
               (case cf_allowed_values d of
                  None \<Rightarrow> None
                | Some ls \<Rightarrow> if s \<in> set ls then Some v else None)
           | _ \<Rightarrow> None))"

subsection \<open>The reader\<close>

text \<open>
  The process-local cache. \<open>clearSystemConfigCache\<close> replaces the map, so reads in flight still write
  to the map they captured: \<open>cp_maps\<close> holds every map ever used, \<open>cp_current\<close> the active one.
\<close>

record config_process =
  cp_current :: nat
  cp_maps :: "nat \<Rightarrow> string \<Rightarrow> (json \<times> time) option"

definition cache_ttl_ms :: int where
  "cache_ttl_ms = 60000"

datatype raw_config = Found json | Missing | Unavailable

text \<open>The row a query returns; \<open>None\<close> when PostgreSQL fails.\<close>

type_synonym config_answer = "json option option"

text \<open>The two halves of \<open>getRawConfigValue\<close> around its query.\<close>

definition cached_config_value :: "time \<Rightarrow> string \<Rightarrow> config_process \<Rightarrow> json option" where
  "cached_config_value now key p =
     (case cp_maps p (cp_current p) key of
        Some (v, expires_at) \<Rightarrow> if expires_at > now then Some v else None
      | None \<Rightarrow> None)"

definition store_config_value :: "nat \<Rightarrow> time \<Rightarrow> string \<Rightarrow> json \<Rightarrow> config_process \<Rightarrow> config_process" where
  "store_config_value starting now key v p =
     p\<lparr>cp_maps := (cp_maps p)(starting := (cp_maps p starting)(key \<mapsto> (v, now + cache_ttl_ms)))\<rparr>"

definition finish_config_read ::
    "nat \<Rightarrow> time \<Rightarrow> string \<Rightarrow> config_answer \<Rightarrow> config_process \<Rightarrow> raw_config \<times> config_process" where
  "finish_config_read starting now key answer p =
     (case answer of
        None \<Rightarrow> (Unavailable, p)
      | Some None \<Rightarrow> (Missing, p)
      | Some (Some v) \<Rightarrow> (Found v, store_config_value starting now key v p))"

definition get_raw_config_value ::
    "time \<Rightarrow> (string \<Rightarrow> config_answer) \<Rightarrow> string \<Rightarrow> config_process \<Rightarrow> raw_config \<times> config_process" where
  "get_raw_config_value now table key p =
     (case cached_config_value now key p of
        Some v \<Rightarrow> (Found v, p)
      | None \<Rightarrow> finish_config_read (cp_current p) now key (table key) p)"

definition clear_system_config_cache :: "config_process \<Rightarrow> config_process" where
  "clear_system_config_cache p =
     p\<lparr>cp_current := Suc (cp_current p), cp_maps := (cp_maps p)(Suc (cp_current p) := Map.empty)\<rparr>"

definition read_catalog_value ::
    "time \<Rightarrow> (string \<Rightarrow> config_answer) \<Rightarrow> string \<Rightarrow> (config_process, json) op" where
  "read_catalog_value now table key p =
     (case find_system_config_definition key of
        None \<Rightarrow> (Inl (JsError ''Unsupported system configuration key''), p)
      | Some d \<Rightarrow>
          (case get_raw_config_value now table key p of
             (r, p') \<Rightarrow>
               (Inr (case r of
                   Found v \<Rightarrow> nullish (validate_system_config_value d v) (cf_default d)
                 | _ \<Rightarrow> cf_default d), p')))"

definition get_system_config_number ::
    "time \<Rightarrow> (string \<Rightarrow> config_answer) \<Rightarrow> string \<Rightarrow> (config_process, int) op" where
  "get_system_config_number now table key =
     andthen (read_catalog_value now table key) (\<lambda>v.
       case v of JNum n \<Rightarrow> return_op n
       | _ \<Rightarrow> throw_op (JsError ''Expected numeric system configuration key''))"

definition get_system_config_string ::
    "time \<Rightarrow> (string \<Rightarrow> config_answer) \<Rightarrow> string \<Rightarrow> (config_process, string) op" where
  "get_system_config_string now table key =
     andthen (read_catalog_value now table key) (\<lambda>v.
       case v of JStr s \<Rightarrow> return_op s
       | _ \<Rightarrow> throw_op (JsError ''Expected locale system configuration key''))"

definition get_internal_system_config_string ::
    "time \<Rightarrow> (string \<Rightarrow> config_answer) \<Rightarrow> string \<Rightarrow> string \<Rightarrow> config_process \<Rightarrow> string \<times> config_process" where
  "get_internal_system_config_string now table key fallback p =
     (case get_raw_config_value now table key p of
        (Found (JStr s), p') \<Rightarrow> (s, p')
      | (_, p') \<Rightarrow> (fallback, p'))"

record oidc_ttl_config =
  ot_access_token :: int
  ot_id_token :: int
  ot_refresh_token :: int
  ot_authorization_code :: int
  ot_session :: int
  ot_interaction :: int
  ot_grant :: int

definition load_oidc_ttl_config ::
    "time \<Rightarrow> (string \<Rightarrow> config_answer) \<Rightarrow> (config_process, oidc_ttl_config) op" where
  "load_oidc_ttl_config now table =
     andthen (get_system_config_number now table ''access_token_ttl'') (\<lambda>access.
     andthen (get_system_config_number now table ''id_token_ttl'') (\<lambda>idt.
     andthen (get_system_config_number now table ''refresh_token_ttl'') (\<lambda>refresh.
     andthen (get_system_config_number now table ''authorization_code_ttl'') (\<lambda>code.
     andthen (get_system_config_number now table ''session_ttl'') (\<lambda>session.
     return_op \<lparr>ot_access_token = access, ot_id_token = idt, ot_refresh_token = refresh,
       ot_authorization_code = code, ot_session = session, ot_interaction = 3600,
       ot_grant = refresh\<rparr>)))))"

subsection \<open>The bootstrap administrator\<close>

definition super_admin_user_id_key :: string where
  "super_admin_user_id_key = ''super_admin_user_id''"

definition protected_operations :: "string list" where
  "protected_operations = [''delete'', ''deactivate'', ''remove-super-admin-role'', ''manage-2fa'']"

definition is_super_admin_user ::
    "time \<Rightarrow> (string \<Rightarrow> config_answer) \<Rightarrow> string \<Rightarrow> config_process \<Rightarrow> bool \<times> config_process" where
  "is_super_admin_user now table uid p =
     (case get_internal_system_config_string now table super_admin_user_id_key [] p of
        (s, p') \<Rightarrow> (if s = [] then False else s = uid, p'))"

definition guard_super_admin ::
    "time \<Rightarrow> (string \<Rightarrow> config_answer) \<Rightarrow> string \<Rightarrow> string \<Rightarrow> (config_process, unit) op" where
  "guard_super_admin now table uid operation p =
     (case is_super_admin_user now table uid p of
        (protected, p') \<Rightarrow> unless_throw (\<not> protected) (SuperAdminProtectionError operation) p')"

subsection \<open>Bounds\<close>

text \<open>What a stored value must satisfy for its definition.\<close>

definition config_value_ok :: "config_definition \<Rightarrow> json \<Rightarrow> bool" where
  "config_value_ok d v = (validate_system_config_value d v = Some v)"

lemma validate_system_config_value_Some:
  "validate_system_config_value d v = Some w \<Longrightarrow> w = v \<and> config_value_ok d w"
  by (auto simp: validate_system_config_value_def config_value_ok_def
      split: config_value_type.splits json.splits option.splits if_splits)

lemma catalog_defaults_ok: "list_all (\<lambda>d. config_value_ok d (cf_default d)) system_config_catalog"
  by (simp add: system_config_catalog_def integer_definition_def config_value_ok_def
      validate_system_config_value_def supported_locales_def)

lemma find_definition_ok:
  "find_system_config_definition key = Some d \<Longrightarrow>
   cf_key d = key \<and> d \<in> set system_config_catalog \<and> config_value_ok d (cf_default d)"
  using catalog_defaults_ok
  by (auto simp: find_system_config_definition_def find_Some_iff list_all_iff)

lemma read_catalog_value_ok:
  assumes "find_system_config_definition key = Some d"
  shows "\<exists>v p'. read_catalog_value now table key p = (Inr v, p') \<and> config_value_ok d v"
proof -
  have "config_value_ok d (nullish (validate_system_config_value d v) (cf_default d))" for v
    using find_definition_ok [OF assms] validate_system_config_value_Some [of d v]
    by (cases "validate_system_config_value d v") auto
  then show ?thesis
    using assms find_definition_ok [OF assms]
    by (auto simp: read_catalog_value_def split: prod.splits raw_config.splits)
qed

lemma integer_value_range:
  assumes "config_value_ok d v" and "cf_value_type d = IntegerValue"
  shows "\<exists>n lo hi. v = JNum n \<and> cf_minimum d = Some lo \<and> cf_maximum d = Some hi \<and> lo \<le> n \<and> n \<le> hi"
  using assms
  by (auto simp: config_value_ok_def validate_system_config_value_def
      split: json.splits option.splits if_splits)


text \<open>
  Properties of the system configuration: every numeric policy is within the catalog's bounds
  whatever the database holds, and after an administrative save no cached read of the process is
  stale, although queries and cache fills of other requests interleave with the save.
\<close>

text \<open>
  Reading a numeric policy always returns an integer within the bounds of its catalog
  definition, whatever the table and the cache hold and also when the database is unavailable.
\<close>

theorem config_number_bounded:
  assumes "find_system_config_definition key = Some d" and "cf_value_type d = IntegerValue"
  shows "\<exists>n p'. get_system_config_number now table key p = (Inr n, p') \<and>
    the (cf_minimum d) \<le> n \<and> n \<le> the (cf_maximum d)"
proof -
  obtain v p' where r: "read_catalog_value now table key p = (Inr v, p')" "config_value_ok d v"
    using read_catalog_value_ok [OF assms(1)] by blast
  from integer_value_range [OF r(2) assms(2)] r(1) show ?thesis
    by (auto simp: get_system_config_number_def andthen_def)
qed

theorem config_number_bounded_witness:
  "\<exists>n p'. get_system_config_number 0 (\<lambda>_. Some (Some (JNum 0))) ''max_failed_logins''
     \<lparr>cp_current = 0, cp_maps = (\<lambda>_ _. None)\<rparr> = (Inr n, p') \<and> 1 \<le> n \<and> n \<le> 100"
proof -
  let ?d = "integer_definition ''max_failed_logins'' Lockout Attempts 5 1 100 Runtime"
  have "find_system_config_definition ''max_failed_logins'' = Some ?d"
    by (simp add: find_system_config_definition_def system_config_catalog_def integer_definition_def)
  moreover have "cf_value_type ?d = IntegerValue"
    by (simp add: integer_definition_def)
  ultimately show ?thesis
    using config_number_bounded [of "''max_failed_logins''" ?d]
    by (simp add: integer_definition_def)
qed

subsection \<open>Interleaved reads and saves\<close>

text \<open>A read in flight: what it captured, and the row once its query has run.\<close>

record config_read =
  rd_starting :: nat
  rd_now :: time
  rd_key :: string
  rd_row :: "json option option"

record config_system =
  cs_table :: "string \<Rightarrow> json option"
  cs_process :: config_process
  cs_reads :: "config_read list"
  cs_uncleared :: nat

text \<open>
  One step of the process: a read begins (cache miss), its query runs, it fails, or it completes; a
  save commits to the table; the after-commit effect of a committed save clears the cache.
\<close>

inductive config_step :: "config_system \<Rightarrow> config_system \<Rightarrow> bool" where
  begin_read: "cached_config_value now key (cs_process s) = None \<Longrightarrow>
    config_step s (s\<lparr>cs_reads := \<lparr>rd_starting = cp_current (cs_process s), rd_now = now,
      rd_key = key, rd_row = None\<rparr> # cs_reads s\<rparr>)"
| run_query: "cs_reads s = rs @ r # rs' \<Longrightarrow> rd_row r = None \<Longrightarrow>
    config_step s (s\<lparr>cs_reads := rs @ r\<lparr>rd_row := Some (cs_table s (rd_key r))\<rparr> # rs'\<rparr>)"
| fail_query: "cs_reads s = rs @ r # rs' \<Longrightarrow> config_step s (s\<lparr>cs_reads := rs @ rs'\<rparr>)"
| complete_read: "cs_reads s = rs @ r # rs' \<Longrightarrow> rd_row r = Some row \<Longrightarrow>
    config_step s (s\<lparr>cs_reads := rs @ rs', cs_process := snd (finish_config_read (rd_starting r)
      (rd_now r) (rd_key r) (Some row) (cs_process s))\<rparr>)"
| commit_save: "config_step s (s\<lparr>cs_table := (cs_table s)(key \<mapsto> v),
    cs_uncleared := Suc (cs_uncleared s)\<rparr>)"
| clear_cache: "cs_uncleared s = Suc n \<Longrightarrow>
    config_step s (s\<lparr>cs_process := clear_system_config_cache (cs_process s), cs_uncleared := n\<rparr>)"

inductive config_reachable :: "config_system \<Rightarrow> bool" where
  config_start: "config_reachable \<lparr>cs_table = table,
    cs_process = \<lparr>cp_current = 0, cp_maps = (\<lambda>_ _. None)\<rparr>, cs_reads = [], cs_uncleared = 0\<rparr>"
| config_next: "config_reachable s \<Longrightarrow> config_step s s' \<Longrightarrow> config_reachable s'"

text \<open>
  The invariant: no map newer than the active one was ever used, and once every save is cleared the
  active map and the reads that will fill it agree with the table.
\<close>

definition read_fresh :: "config_system \<Rightarrow> config_read \<Rightarrow> bool" where
  "read_fresh s r \<longleftrightarrow> rd_starting r \<le> cp_current (cs_process s) \<and>
     (cs_uncleared s = 0 \<longrightarrow> rd_starting r = cp_current (cs_process s) \<longrightarrow>
        rd_row r = None \<or> rd_row r = Some (cs_table s (rd_key r)))"

definition cache_fresh :: "config_system \<Rightarrow> bool" where
  "cache_fresh s \<longleftrightarrow> (cs_uncleared s = 0 \<longrightarrow> (\<forall>key v e.
     cp_maps (cs_process s) (cp_current (cs_process s)) key = Some (v, e) \<longrightarrow> cs_table s key = Some v))"

definition config_inv :: "config_system \<Rightarrow> bool" where
  "config_inv s \<longleftrightarrow> cache_fresh s \<and> list_all (read_fresh s) (cs_reads s)"

lemma config_step_inv:
  assumes "config_step s s'" and "config_inv s"
  shows "config_inv s'"
  using assms
proof (induction rule: config_step.induct)
  case (complete_read s rs r rs' row)
  then have r: "read_fresh s r" and c: "cache_fresh s" and all: "list_all (read_fresh s) (rs @ rs')"
    by (auto simp: config_inv_def)
  let ?p = "snd (finish_config_read (rd_starting r) (rd_now r) (rd_key r) (Some row) (cs_process s))"
  let ?s = "s\<lparr>cs_reads := rs @ rs', cs_process := ?p\<rparr>"
  have cur: "cp_current ?p = cp_current (cs_process s)"
    by (cases row) (simp_all add: finish_config_read_def store_config_value_def)
  have "cache_fresh ?s"
    using r c complete_read.hyps(2) cur
    by (cases row) (auto simp: cache_fresh_def read_fresh_def finish_config_read_def
        store_config_value_def)
  moreover have "list_all (read_fresh ?s) (rs @ rs')"
    using all by (simp add: read_fresh_def [abs_def] cur)
  ultimately show ?case by (simp add: config_inv_def)
qed (auto simp: config_inv_def cache_fresh_def list_all_iff read_fresh_def clear_system_config_cache_def)

lemma config_reachable_inv: "config_reachable s \<Longrightarrow> config_inv s"
  by (induction rule: config_reachable.induct)
    (simp_all add: config_inv_def cache_fresh_def config_step_inv [unfolded config_inv_def cache_fresh_def])

text \<open>
  Property C12: once every committed save has cleared the cache, a cache hit of the process is the
  value now in the table, however reads that started before a save interleave with it.
\<close>

theorem config_cache_never_stale:
  assumes "config_reachable s" and "cs_uncleared s = 0"
    and "cached_config_value now key (cs_process s) = Some v"
  shows "cs_table s key = Some v"
  using config_reachable_inv [OF assms(1)] assms(2,3)
  by (auto simp: config_inv_def cache_fresh_def cached_config_value_def
      split: option.splits prod.splits if_splits)

theorem config_cache_never_stale_witness:
  "\<exists>s. config_reachable s \<and> cs_uncleared s = 0 \<and>
     cached_config_value 5 ''k'' (cs_process s) = Some (JNum 1) \<and> cs_table s ''k'' = Some (JNum 1)"
proof -
  let ?p = "\<lparr>cp_current = 0, cp_maps = (\<lambda>_ _. None)\<rparr>"
  let ?s0 = "\<lparr>cs_table = [''k'' \<mapsto> JNum 1], cs_process = ?p, cs_reads = [], cs_uncleared = 0\<rparr>"
  let ?r = "\<lparr>rd_starting = 0, rd_now = 0, rd_key = ''k'', rd_row = None\<rparr>"
  let ?s1 = "?s0\<lparr>cs_reads := [?r]\<rparr>"
  let ?s2 = "?s0\<lparr>cs_reads := [?r\<lparr>rd_row := Some (Some (JNum 1))\<rparr>]\<rparr>"
  let ?s3 = "?s0\<lparr>cs_process := store_config_value 0 0 ''k'' (JNum 1) ?p\<rparr>"
  have 0: "config_reachable ?s0"
    by (rule config_start)
  have 1: "config_reachable ?s1"
    using config_next [OF 0 begin_read [of 0 "''k''"]] by (simp add: cached_config_value_def)
  have 2: "config_reachable ?s2"
    using config_next [OF 1 run_query [of _ "[]" ?r "[]"]] by simp
  have 3: "config_reachable ?s3"
    using config_next [OF 2 complete_read [of _ "[]" "?r\<lparr>rd_row := Some (Some (JNum 1))\<rparr>" "[]"]]
    by (simp add: finish_config_read_def)
  have hit: "cached_config_value 5 ''k'' (cs_process ?s3) = Some (JNum 1)"
    by (simp add: cached_config_value_def store_config_value_def cache_ttl_ms_def)
  have "cs_table ?s3 ''k'' = Some (JNum 1)"
    by (rule config_cache_never_stale [OF 3 _ hit]) simp
  with 3 hit show ?thesis by fastforce
qed

end
