(* ===== verification/RateLimiter.thy ===== *)
theory RateLimiter
  imports Transaction SystemConfig
begin

text \<open>
  packages/server/src/auth/rate-limiter.ts: an \<open>INCR\<close> counter with an expiry. The Redis commands are
  modelled on the key they touch; \<open>TTL\<close> answers whole seconds, rounded to the nearest. SHA-256 is the
  parameter \<open>sha256_hex\<close>.
\<close>

subsection \<open>Redis commands on counters\<close>

text \<open>\<open>INCR\<close> keeps the expiry of a live key and starts an absent one at 1 without expiry.\<close>

definition redis_incr :: "time \<Rightarrow> string \<Rightarrow> redis \<Rightarrow> (app_error + int) \<times> redis" where
  "redis_incr now k r =
     (case redis_live now r k of
        None \<Rightarrow> (Inr 1, AList.update k (Counter 1, None) r)
      | Some (Counter n) \<Rightarrow>
          (Inr (n + 1), AList.update k (Counter (n + 1), snd (the (map_of r k))) r)
      | Some _ \<Rightarrow> (Inl (JsError ''ERR value is not an integer or out of range''), r))"

definition redis_expire :: "time \<Rightarrow> string \<Rightarrow> int \<Rightarrow> redis \<Rightarrow> redis" where
  "redis_expire now k seconds r =
     (case redis_live now r k of
        None \<Rightarrow> r
      | Some v \<Rightarrow> if seconds \<le> 0 then redis_del k r
                  else AList.update k (v, Some (now + seconds * 1000)) r)"

definition redis_ttl :: "time \<Rightarrow> string \<Rightarrow> redis \<Rightarrow> int" where
  "redis_ttl now k r =
     (case redis_live now r k of
        None \<Rightarrow> -2
      | Some _ \<Rightarrow>
          (case snd (the (map_of r k)) of
             None \<Rightarrow> -1
           | Some t \<Rightarrow> (t - now + 500) div 1000))"

text \<open>One command on a connection that may be down.\<close>

definition redis_try :: "(redis \<Rightarrow> (app_error + 'a) \<times> redis) \<Rightarrow> (store, 'a) op" where
  "redis_try c st =
     (if st_redis_up st then (case c (st_redis st) of (a, r) \<Rightarrow> (a, st\<lparr>st_redis := r\<rparr>))
      else (Inl (JsError ''Redis unavailable''), st))"

subsection \<open>The limiter\<close>

record rate_limit_config =
  rc_max :: int
  rc_window_seconds :: int

record rate_limit_result =
  rr_allowed :: bool
  rr_remaining :: int
  rr_reset_at :: time
  rr_retry_after :: int

definition rate_limit_decision :: "time \<Rightarrow> rate_limit_config \<Rightarrow> int \<Rightarrow> int \<Rightarrow> rate_limit_result" where
  "rate_limit_decision now config count ttl =
     (let effective_ttl = (if ttl > 0 then ttl else rc_window_seconds config);
          reset_at = now + effective_ttl * 1000
      in if count > rc_max config
         then \<lparr>rr_allowed = False, rr_remaining = 0, rr_reset_at = reset_at,
               rr_retry_after = effective_ttl\<rparr>
         else \<lparr>rr_allowed = True, rr_remaining = rc_max config - count, rr_reset_at = reset_at,
               rr_retry_after = 0\<rparr>)"

definition execute_rate_limit ::
    "time \<Rightarrow> string \<Rightarrow> rate_limit_config \<Rightarrow> (store, rate_limit_result) op" where
  "execute_rate_limit now key config =
     andthen (redis_try (redis_incr now key)) (\<lambda>count.
     andthen (if count = 1
              then redis_do (\<lambda>r. ((), redis_expire now key (rc_window_seconds config) r))
              else return_op ()) (\<lambda>_.
     andthen (redis_do (\<lambda>r. (redis_ttl now key r, r))) (\<lambda>ttl.
     andthen (if ttl = -1
              then redis_do (\<lambda>r. ((), redis_expire now key (rc_window_seconds config) r))
              else return_op ()) (\<lambda>_.
     return_op (rate_limit_decision now config count ttl)))))"

definition check_rate_limit ::
    "time \<Rightarrow> string \<Rightarrow> rate_limit_config \<Rightarrow> (store, rate_limit_result) op" where
  "check_rate_limit now key config =
     catch_op (execute_rate_limit now key config) (\<lambda>_.
       return_op \<lparr>rr_allowed = True, rr_remaining = rc_max config,
         rr_reset_at = now + rc_window_seconds config * 1000, rr_retry_after = 0\<rparr>)"

definition check_rate_limit_strict ::
    "time \<Rightarrow> string \<Rightarrow> rate_limit_config \<Rightarrow> (store, rate_limit_result) op" where
  "check_rate_limit_strict = execute_rate_limit"

definition reset_rate_limit :: "string \<Rightarrow> (store, unit) op" where
  "reset_rate_limit key =
     catch_op (redis_do (\<lambda>r. ((), redis_del key r))) (\<lambda>_. return_op ())"

subsection \<open>Keys\<close>

definition hash_identifier :: "(string \<Rightarrow> string) \<Rightarrow> string \<Rightarrow> string" where
  "hash_identifier sha256_hex v = take 16 (sha256_hex v)"

definition build_login_rate_limit_key ::
    "(string \<Rightarrow> string) \<Rightarrow> string \<Rightarrow> string \<Rightarrow> string \<Rightarrow> string" where
  "build_login_rate_limit_key sha org ip email =
     ''ratelimit:login:'' @ org @ '':'' @ hash_identifier sha (ip @ email)"

definition build_magic_link_rate_limit_key :: "(string \<Rightarrow> string) \<Rightarrow> string \<Rightarrow> string \<Rightarrow> string" where
  "build_magic_link_rate_limit_key sha org email =
     ''ratelimit:magic:'' @ org @ '':'' @ hash_identifier sha email"

definition build_magic_link_callback_rate_limit_key ::
    "(string \<Rightarrow> string) \<Rightarrow> string \<Rightarrow> string \<Rightarrow> string \<Rightarrow> string" where
  "build_magic_link_callback_rate_limit_key sha org peer digest =
     ''ratelimit:magic-callback:'' @ org @ '':'' @ hash_identifier sha peer @ '':'' @ digest"

definition build_rate_limit_key ::
    "(string \<Rightarrow> string) \<Rightarrow> string \<Rightarrow> string \<Rightarrow> string \<Rightarrow> string" where
  "build_rate_limit_key sha action org identifier =
     ''ratelimit:'' @ action @ '':'' @ org @ '':'' @ hash_identifier sha identifier"

definition build_password_reset_rate_limit_key ::
    "(string \<Rightarrow> string) \<Rightarrow> string \<Rightarrow> string \<Rightarrow> string" where
  "build_password_reset_rate_limit_key sha org email =
     ''ratelimit:reset:'' @ org @ '':'' @ hash_identifier sha email"

subsection \<open>Configuration\<close>

definition load_rate_limit_config ::
    "string \<Rightarrow> string \<Rightarrow> time \<Rightarrow> (string \<Rightarrow> config_answer) \<Rightarrow> (config_process, rate_limit_config) op" where
  "load_rate_limit_config max_key window_key now table =
     andthen (get_system_config_number now table max_key) (\<lambda>m.
     andthen (get_system_config_number now table window_key) (\<lambda>w.
     return_op \<lparr>rc_max = m, rc_window_seconds = w\<rparr>))"

definition load_login_rate_limit_config ::
    "time \<Rightarrow> (string \<Rightarrow> config_answer) \<Rightarrow> (config_process, rate_limit_config) op" where
  "load_login_rate_limit_config =
     load_rate_limit_config ''rate_limit_login_max'' ''rate_limit_login_window''"

definition load_magic_link_rate_limit_config ::
    "time \<Rightarrow> (string \<Rightarrow> config_answer) \<Rightarrow> (config_process, rate_limit_config) op" where
  "load_magic_link_rate_limit_config =
     load_rate_limit_config ''rate_limit_magic_link_max'' ''rate_limit_magic_link_window''"

definition load_password_reset_rate_limit_config ::
    "time \<Rightarrow> (string \<Rightarrow> config_answer) \<Rightarrow> (config_process, rate_limit_config) op" where
  "load_password_reset_rate_limit_config =
     load_rate_limit_config ''rate_limit_password_reset_max'' ''rate_limit_password_reset_window''"


text \<open>
  The limiter refines an abstract fixed-window counter, the budget of a window is exact, and every
  counter ends up with an expiry even when an earlier call stopped between \<open>INCR\<close> and \<open>EXPIRE\<close>.
\<close>

subsection \<open>The abstract window\<close>

text \<open>The count of the current window and when it ends.\<close>

type_synonym window = "(int \<times> time) option"


definition window_of :: "string \<Rightarrow> redis \<Rightarrow> window" where
  "window_of key r =
     (case map_of r key of Some (Counter n, Some e) \<Rightarrow> Some (n, e) | _ \<Rightarrow> None)"


text \<open>A counter left without expiry, as after a failure between the two commands.\<close>

definition orphan_counter :: "string \<Rightarrow> redis \<Rightarrow> bool" where
  "orphan_counter key r \<longleftrightarrow> (\<exists>n. map_of r key = Some (Counter n, None) \<and> 1 \<le> n)"

lemmas redis_key_defs = redis_live_def redis_incr_def redis_expire_def redis_ttl_def



lemma execute_orphan:
  assumes "st_redis_up st" and "map_of (st_redis st) key = Some (Counter n, None)" and "1 \<le> n"
    and "0 < rc_window_seconds config"
  shows "\<exists>ttl r'. execute_rate_limit now key config st =
      (Inr (rate_limit_decision now config (n + 1) ttl), st\<lparr>st_redis := r'\<rparr>) \<and>
    map_of r' = (map_of (st_redis st))(key \<mapsto>
      (Counter (n + 1), Some (now + rc_window_seconds config * 1000)))"
  using assms
  by (intro exI [of _ "-1"] exI [of _ "AList.update key
        (Counter (n + 1), Some (now + rc_window_seconds config * 1000)) (st_redis st)"])
    (simp add: execute_rate_limit_def andthen_def redis_try_def redis_do_def redis_key_defs update_conv')

lemma decision_allowed [simp]:
  "rr_allowed (rate_limit_decision now config count ttl) \<longleftrightarrow> count \<le> rc_max config"
  "rr_remaining (rate_limit_decision now config count ttl) =
     (if count \<le> rc_max config then rc_max config - count else 0)"
  by (auto simp: rate_limit_decision_def Let_def)


definition limit2 :: rate_limit_config where
  "limit2 = \<lparr>rc_max = 2, rc_window_seconds = 10\<rparr>"

definition redis_store :: "redis \<Rightarrow> store" where
  "redis_store r = \<lparr>st_db = empty_db, st_redis = r, st_redis_up = True\<rparr>"


subsection \<open>Runs\<close>

text \<open>The decisions of checks at the given times; \<open>None\<close> is a throw.\<close>

fun rate_limit_run :: "string \<Rightarrow> rate_limit_config \<Rightarrow> time list \<Rightarrow> store \<Rightarrow> bool option list" where
  "rate_limit_run key config [] st = []"
| "rate_limit_run key config (now # ts) st =
     (case execute_rate_limit now key config st of
        (Inr res, st') \<Rightarrow> Some (rr_allowed res) # rate_limit_run key config ts st'
      | (Inl e, st') \<Rightarrow> None # rate_limit_run key config ts st')"




text \<open>
  A call that failed between \<open>INCR\<close> and \<open>EXPIRE\<close> leaves a counter without expiry; the next check
  gives it one, so no key is locked forever.
\<close>

theorem orphan_counter_expires:
  assumes "st_redis_up st" and "orphan_counter key (st_redis st)" and "0 < rc_window_seconds config"
  shows "\<exists>res r'. execute_rate_limit now key config st = (Inr res, st\<lparr>st_redis := r'\<rparr>) \<and>
    (\<exists>n. window_of key r' = Some (n, now + rc_window_seconds config * 1000))"
  using assms execute_orphan by (fastforce simp: orphan_counter_def window_of_def)

text \<open>
  The window is fixed, not sliding: with a limit of two per ten seconds, three requests within two
  milliseconds are allowed when a window ends between them.
\<close>

theorem rate_limit_window_not_sliding:
  "rate_limit_run ''k'' limit2 [0, 9999, 10000, 10001] (redis_store []) =
     [Some True, Some True, Some True, Some True]"
  by (simp add: limit2_def redis_store_def execute_rate_limit_def andthen_def redis_try_def
      redis_do_def redis_key_defs rate_limit_decision_def)

text \<open>
  The login key hashes the concatenation of address and email, so two different pairs can share a
  counter whatever the hash function.
\<close>

theorem login_key_ambiguous:
  "build_login_rate_limit_key sha org ''10.0.0.1'' ''1a@x.com'' =
   build_login_rate_limit_key sha org ''10.0.0.11'' ''a@x.com''"
  by (simp add: build_login_rate_limit_key_def)

end
