(* ===== verification/Slugs.thy ===== *)
theory Slugs
  imports Prelude
begin

text \<open>
  Slugs: packages/server/src/organizations/slugs.ts and rbac/slugs.ts. Both generators lower the
  name, replace every other character by a hyphen, collapse and strip hyphens and cut at 100
  characters; characters are 8-bit here.
\<close>

definition slug_char :: "char \<Rightarrow> bool" where
  "slug_char c = (is_lower c \<or> is_digit c)"

text \<open>The three regular-expression replacements.\<close>

definition replace_non_slug :: "string \<Rightarrow> string" where
  "replace_non_slug s = map (\<lambda>c. if slug_char c \<or> c = CHR ''-'' then c else CHR ''-'') s"

fun collapse_hyphens :: "string \<Rightarrow> string" where
  "collapse_hyphens [] = []"
| "collapse_hyphens [c] = [c]"
| "collapse_hyphens (c # d # s) =
     (if c = CHR ''-'' \<and> d = CHR ''-'' then collapse_hyphens (d # s)
      else c # collapse_hyphens (d # s))"

definition strip_trailing_hyphens :: "string \<Rightarrow> string" where
  "strip_trailing_hyphens s = rev (dropWhile (\<lambda>c. c = CHR ''-'') (rev s))"

definition strip_hyphens :: "string \<Rightarrow> string" where
  "strip_hyphens s = strip_trailing_hyphens (dropWhile (\<lambda>c. c = CHR ''-'') s)"

definition slugify :: "string \<Rightarrow> string" where
  "slugify name =
     (if name = [] \<or> trim name = [] then []
      else strip_trailing_hyphens (take 100
        (strip_hyphens (collapse_hyphens (replace_non_slug (to_lower name))))))"

definition generate_slug :: "string \<Rightarrow> string" where
  "generate_slug = slugify"

definition generate_role_slug :: "string \<Rightarrow> string" where
  "generate_role_slug = slugify"

subsection \<open>Organization slugs\<close>

definition reserved_slugs :: "string list" where
  "reserved_slugs = [''admin'', ''api'', ''health'', ''static'', ''.well-known'', ''login'', ''logout'',
     ''callback'', ''register'', ''signup'', ''auth'', ''oauth'', ''oidc'', ''token'', ''jwks'',
     ''portal'', ''dashboard'', ''settings'', ''account'', ''new'', ''favicon.ico'', ''robots.txt'',
     ''sitemap.xml'']"

text \<open>\<open>/^[a-z0-9][a-z0-9-]{1,98}[a-z0-9]$/\<close>.\<close>

definition slug_regex :: "string \<Rightarrow> bool" where
  "slug_regex s =
     (3 \<le> length s \<and> length s \<le> 100 \<and> slug_char (hd s) \<and> slug_char (last s) \<and>
      list_all (\<lambda>c. slug_char c \<or> c = CHR ''-'') s)"

datatype slug_error = SlugTooShort | SlugTooLong | SlugFormat | SlugReserved

definition validate_slug :: "string \<Rightarrow> slug_error option" where
  "validate_slug s =
     (if length s < 3 then Some SlugTooShort
      else if length s > 100 then Some SlugTooLong
      else if \<not> slug_regex s then Some SlugFormat
      else if s \<in> set reserved_slugs then Some SlugReserved
      else None)"

definition slug_error_message :: "string \<Rightarrow> slug_error \<Rightarrow> string" where
  "slug_error_message s e =
     (case e of
        SlugTooShort \<Rightarrow> ''Slug must be at least 3 characters''
      | SlugTooLong \<Rightarrow> ''Slug must be at most 100 characters''
      | SlugFormat \<Rightarrow> ''Slug must contain only lowercase letters, numbers, and hyphens, '' @
          ''and cannot start or end with a hyphen''
      | SlugReserved \<Rightarrow> ''Slug \"'' @ s @ ''\" is reserved and cannot be used'')"

subsection \<open>Role and permission slugs\<close>

definition normalize_rbac_slug :: "string \<Rightarrow> string" where
  "normalize_rbac_slug = trim"

definition contains_control_character :: "string \<Rightarrow> bool" where
  "contains_control_character s =
     list_ex (\<lambda>c. of_char c \<le> (0x1f::nat) \<or> (0x7f \<le> (of_char c :: nat) \<and> of_char c \<le> (0x9f::nat))) s"

definition validate_rbac_slug :: "string \<Rightarrow> nat \<Rightarrow> bool" where
  "validate_rbac_slug slug maximum_length =
     (let n = normalize_rbac_slug slug
      in 0 < length n \<and> length n \<le> maximum_length \<and> \<not> contains_control_character n)"

definition validate_role_slug :: "string \<Rightarrow> bool" where
  "validate_role_slug slug = validate_rbac_slug slug 100"

definition validate_permission_slug :: "string \<Rightarrow> bool" where
  "validate_permission_slug slug = validate_rbac_slug slug 150"

record parsed_permission_slug =
  ps_module :: string
  ps_resource :: string
  ps_action :: string

definition parse_permission_slug :: "string \<Rightarrow> parsed_permission_slug option" where
  "parse_permission_slug slug =
     (let segments = split_on CHR '':'' (normalize_rbac_slug slug)
      in if \<not> validate_permission_slug slug \<or> length segments < 3 \<or> list_ex (\<lambda>p. p = []) segments
         then None
         else Some \<lparr>ps_module = hd segments,
           ps_resource = join_with CHR '':'' (butlast (tl segments)), ps_action = last segments\<rparr>)"

subsection \<open>What the generator produces\<close>

definition slug_alphabet :: "string \<Rightarrow> bool" where
  "slug_alphabet s \<longleftrightarrow> list_all (\<lambda>c. slug_char c \<or> c = CHR ''-'') s"

lemma slug_alphabet_simps [simp]:
  "slug_alphabet []" "slug_alphabet (c # s) \<longleftrightarrow> (slug_char c \<or> c = CHR ''-'') \<and> slug_alphabet s"
  by (simp_all add: slug_alphabet_def)

lemma slug_alphabet_set: "slug_alphabet s \<longleftrightarrow> (\<forall>c \<in> set s. slug_char c \<or> c = CHR ''-'')"
  by (simp add: slug_alphabet_def list_all_iff)

lemma slug_alphabet_replace: "slug_alphabet (replace_non_slug s)"
  by (auto simp: slug_alphabet_set replace_non_slug_def)

lemma set_collapse: "set (collapse_hyphens s) \<subseteq> set s"
  by (induction s rule: collapse_hyphens.induct) auto

lemma set_strip_trailing: "set (strip_trailing_hyphens s) \<subseteq> set s"
  by (auto simp: strip_trailing_hyphens_def dest: set_dropWhileD)

lemma set_strip: "set (strip_hyphens s) \<subseteq> set s"
  using set_strip_trailing [of "dropWhile (\<lambda>c. c = CHR ''-'') s"]
  by (auto simp: strip_hyphens_def dest: set_dropWhileD)

text \<open>Stripping keeps a prefix, so the first character survives when anything does.\<close>

lemma strip_trailing_prefix: "\<exists>h. s = strip_trailing_hyphens s @ h \<and> (\<forall>c \<in> set h. c = CHR ''-'')"
proof -
  have "rev s = takeWhile (\<lambda>c. c = CHR ''-'') (rev s) @ dropWhile (\<lambda>c. c = CHR ''-'') (rev s)"
    by simp
  then have "s = strip_trailing_hyphens s @ rev (takeWhile (\<lambda>c. c = CHR ''-'') (rev s))"
    unfolding strip_trailing_hyphens_def by (metis rev_append rev_rev_ident)
  then show ?thesis by (fastforce dest: set_takeWhileD)
qed

lemma strip_trailing_hd: "strip_trailing_hyphens s \<noteq> [] \<Longrightarrow> hd (strip_trailing_hyphens s) = hd s"
  using strip_trailing_prefix [of s] by (metis hd_append2)

lemma strip_trailing_last: "strip_trailing_hyphens s \<noteq> [] \<Longrightarrow> last (strip_trailing_hyphens s) \<noteq> CHR ''-''"
  using hd_dropWhile [of "\<lambda>c. c = CHR ''-''" "rev s"]
  by (simp add: strip_trailing_hyphens_def last_rev)

lemma strip_trailing_none: "s = [] \<or> last s \<noteq> CHR ''-'' \<Longrightarrow> strip_trailing_hyphens s = s"
  by (cases s rule: rev_cases) (auto simp: strip_trailing_hyphens_def)

lemma strip_trailing_length: "length (strip_trailing_hyphens s) \<le> length s"
  unfolding strip_trailing_hyphens_def by (metis length_dropWhile_le length_rev)

lemma strip_hyphens_hd:
  assumes "strip_hyphens s \<noteq> []"
  shows "hd (strip_hyphens s) \<noteq> CHR ''-''"
proof -
  let ?d = "dropWhile (\<lambda>c. c = CHR ''-'') s"
  have "?d \<noteq> []"
    using assms unfolding strip_hyphens_def strip_trailing_hyphens_def
    by (cases "dropWhile (\<lambda>c. c = CHR ''-'') s") simp_all
  then have "hd ?d \<noteq> CHR ''-''"
    using hd_dropWhile [of "\<lambda>c. c = CHR ''-''" s] by simp
  moreover have "hd (strip_trailing_hyphens ?d) = hd ?d"
    using assms by (intro strip_trailing_hd) (simp add: strip_hyphens_def)
  ultimately show ?thesis
    by (simp add: strip_hyphens_def)
qed

lemma slug_alphabet_subset: "slug_alphabet s \<Longrightarrow> set t \<subseteq> set s \<Longrightarrow> slug_alphabet t"
  by (auto simp: slug_alphabet_set)

text \<open>The slug of a name: bounded, over the alphabet, without outer hyphens.\<close>

lemma slugify_shape:
  "slug_alphabet (slugify name) \<and> length (slugify name) \<le> 100 \<and>
   (slugify name \<noteq> [] \<longrightarrow> hd (slugify name) \<noteq> CHR ''-'' \<and> last (slugify name) \<noteq> CHR ''-'')"
proof (cases "name = [] \<or> trim name = []")
  case False
  let ?s = "strip_hyphens (collapse_hyphens (replace_non_slug (to_lower name)))"
  have "slug_alphabet ?s"
    using slug_alphabet_replace set_strip set_collapse
    by (metis slug_alphabet_subset subset_trans)
  then have "slug_alphabet (take 100 ?s)"
    by (rule slug_alphabet_subset) (rule set_take_subset)
  then have a: "slug_alphabet (strip_trailing_hyphens (take 100 ?s))"
    by (rule slug_alphabet_subset) (rule set_strip_trailing)
  have l: "length (strip_trailing_hyphens (take 100 ?s)) \<le> 100"
    using strip_trailing_length [of "take 100 ?s"] by simp
  have h: "hd (strip_trailing_hyphens (take 100 ?s)) \<noteq> CHR ''-''"
    if "strip_trailing_hyphens (take 100 ?s) \<noteq> []"
  proof -
    have "?s \<noteq> []"
      using that by (auto simp: strip_trailing_hyphens_def)
    moreover from this have "hd (take 100 ?s) = hd ?s"
      by (cases ?s) simp_all
    ultimately show ?thesis
      using strip_hyphens_hd strip_trailing_hd [OF that] by metis
  qed
  show ?thesis
    using False a l h strip_trailing_last [of "take 100 ?s"] by (simp add: slugify_def)
qed (auto simp: slugify_def)


text \<open>
  Generated slugs are always well-formed unless too short or reserved and generating again changes
  nothing; a permission slug is its parsed components joined by colons.
\<close>

subsection \<open>Single hyphens\<close>

definition single_hyphens :: "string \<Rightarrow> bool" where
  "single_hyphens s \<longleftrightarrow> successively (\<lambda>c d. \<not> (c = CHR ''-'' \<and> d = CHR ''-'')) s"

lemma collapse_Nil_iff [simp]: "collapse_hyphens s = [] \<longleftrightarrow> s = []"
  by (induction s rule: collapse_hyphens.induct) simp_all

lemma collapse_hd: "s \<noteq> [] \<Longrightarrow> hd (collapse_hyphens s) = hd s"
  by (induction s rule: collapse_hyphens.induct) simp_all

lemma single_hyphens_Cons:
  "single_hyphens (c # s) \<longleftrightarrow> s = [] \<or> \<not> (c = CHR ''-'' \<and> hd s = CHR ''-'') \<and> single_hyphens s"
  by (cases s) (simp_all add: single_hyphens_def)

lemma single_hyphens_collapse: "single_hyphens (collapse_hyphens s)"
  by (induction s rule: collapse_hyphens.induct)
    (simp_all add: single_hyphens_Cons collapse_hd, simp_all add: single_hyphens_def)

lemma collapse_single: "single_hyphens s \<Longrightarrow> collapse_hyphens s = s"
  by (induction s rule: collapse_hyphens.induct) (auto simp: single_hyphens_Cons)

lemma single_hyphens_appendD: "single_hyphens (s @ t) \<Longrightarrow> single_hyphens s \<and> single_hyphens t"
  by (auto simp: single_hyphens_def successively_append_iff)

lemma single_hyphens_take: "single_hyphens s \<Longrightarrow> single_hyphens (take n s)"
  by (metis append_take_drop_id single_hyphens_appendD)

lemma single_hyphens_strip_trailing: "single_hyphens s \<Longrightarrow> single_hyphens (strip_trailing_hyphens s)"
  using strip_trailing_prefix [of s] by (metis single_hyphens_appendD)

lemma single_hyphens_dropWhile: "single_hyphens s \<Longrightarrow> single_hyphens (dropWhile P s)"
  by (metis single_hyphens_appendD takeWhile_dropWhile_id)

lemma slugify_single: "single_hyphens (slugify name)"
  by (simp add: slugify_def strip_hyphens_def single_hyphens_strip_trailing single_hyphens_take
      single_hyphens_dropWhile single_hyphens_collapse) (simp add: single_hyphens_def)

subsection \<open>Idempotence\<close>

lemma slug_alphabet_lower: "slug_alphabet s \<Longrightarrow> to_lower s = s"
  by (induction s) (auto simp: to_lower_def lower_char_def slug_char_def is_lower_def is_upper_def
      is_digit_def)

lemma slug_alphabet_replace_id: "slug_alphabet s \<Longrightarrow> replace_non_slug s = s"
  by (induction s) (auto simp: replace_non_slug_def)

lemma slug_char_not_space: "slug_char c \<or> c = CHR ''-'' \<Longrightarrow> \<not> is_space c"
  by (auto simp: slug_char_def is_lower_def is_digit_def is_space_def)

lemma dropWhile_none: "\<forall>c \<in> set s. \<not> P c \<Longrightarrow> dropWhile P s = s"
  by (cases s) simp_all

lemma slug_alphabet_trim: "slug_alphabet s \<Longrightarrow> trim s = s"
  by (simp add: trim_def dropWhile_none slug_alphabet_set slug_char_not_space)

lemma slugify_slugify: "slugify (slugify name) = slugify name"
proof (cases "slugify name = []")
  case Cons: False
  let ?s = "slugify name"
  have s: "slug_alphabet ?s" "length ?s \<le> 100" "hd ?s \<noteq> CHR ''-''" "last ?s \<noteq> CHR ''-''"
    using slugify_shape [of name] Cons by simp_all
  have "dropWhile (\<lambda>c. c = CHR ''-'') ?s = ?s"
    using s(3) Cons by (cases ?s) simp_all
  then have "strip_hyphens ?s = ?s"
    using s(4) by (simp add: strip_hyphens_def strip_trailing_none)
  then have "slugify ?s = strip_trailing_hyphens (take 100 ?s)"
    using Cons s(1) by (simp add: slugify_def [of ?s] slug_alphabet_trim slug_alphabet_lower
        slug_alphabet_replace_id collapse_single slugify_single)
  then show ?thesis
    using s(2,4) by (simp add: strip_trailing_none)
qed (simp add: slugify_def)

text \<open>
  A generated organization slug is rejected by the validator only for being shorter
  than three characters or reserved, never for its length or format, and generating from a slug
  returns it.
\<close>

theorem generated_slug_valid:
  "validate_slug (generate_slug name) \<in> {None, Some SlugTooShort, Some SlugReserved} \<and>
   generate_slug (generate_slug name) = generate_slug name"
proof -
  let ?s = "generate_slug name"
  have shape: "slug_alphabet ?s" "length ?s \<le> 100"
      "?s \<noteq> [] \<longrightarrow> hd ?s \<noteq> CHR ''-'' \<and> last ?s \<noteq> CHR ''-''"
    using slugify_shape [of name] by (simp_all add: generate_slug_def)
  have "slug_regex ?s" if "3 \<le> length ?s"
  proof -
    have "?s \<noteq> []" using that by auto
    with shape(1,3) have "slug_char (hd ?s)" "slug_char (last ?s)"
      by (auto simp: slug_alphabet_set)
    with that shape(1,2) show ?thesis by (simp add: slug_regex_def slug_alphabet_def)
  qed
  then show ?thesis
    using shape(2) by (auto simp: validate_slug_def generate_slug_def slugify_slugify)
qed

subsection \<open>Permission slugs\<close>

lemma join_with_append1: "xs \<noteq> [] \<Longrightarrow> join_with c (xs @ [y]) = join_with c xs @ c # y"
  by (induction xs rule: join_with.induct) simp_all

lemma join_with_parts:
  assumes "3 \<le> length xs"
  shows "join_with c xs = hd xs @ c # join_with c (butlast (tl xs)) @ c # last xs"
proof -
  obtain a b ys where xs: "xs = a # b # ys" "ys \<noteq> []"
    using assms that [of "hd xs" "hd (tl xs)" "tl (tl xs)"] by (cases xs; cases "tl xs"; cases "tl (tl xs)") auto
  then have bl: "butlast (b # ys) @ [last (b # ys)] = b # ys" "butlast (b # ys) \<noteq> []"
    by simp_all
  have "join_with c xs = a @ c # join_with c (butlast (b # ys) @ [last (b # ys)])"
    unfolding bl(1) by (simp add: xs(1))
  also have "\<dots> = a @ c # join_with c (butlast (b # ys)) @ c # last (b # ys)"
    unfolding join_with_append1 [OF bl(2)] by simp
  finally show ?thesis
    using xs by simp
qed

text \<open>
  The components of a parsed permission slug, joined by colons, are the normalized
  slug, and none of them is empty; module and action contain no colon.
\<close>

theorem parse_permission_slug_roundtrip:
  assumes "parse_permission_slug slug = Some p"
  shows "ps_module p @ '':'' @ ps_resource p @ '':'' @ ps_action p = normalize_rbac_slug slug \<and>
    ps_module p \<noteq> [] \<and> ps_resource p \<noteq> [] \<and> ps_action p \<noteq> [] \<and>
    CHR '':'' \<notin> set (ps_module p) \<and> CHR '':'' \<notin> set (ps_action p)"
proof -
  let ?xs = "split_on CHR '':'' (normalize_rbac_slug slug)"
  have xs: "3 \<le> length ?xs" "\<forall>x \<in> set ?xs. x \<noteq> []"
    and p: "ps_module p = hd ?xs" "ps_resource p = join_with CHR '':'' (butlast (tl ?xs))"
      "ps_action p = last ?xs"
    using assms by (auto simp: parse_permission_slug_def Let_def list_ex_iff split: if_splits)
  have mem: "hd ?xs \<in> set ?xs" "last ?xs \<in> set ?xs"
    using xs(1) by auto
  have "normalize_rbac_slug slug = join_with CHR '':'' ?xs"
    by (simp add: join_split)
  also have "\<dots> = hd ?xs @ CHR '':'' # join_with CHR '':'' (butlast (tl ?xs)) @ CHR '':'' # last ?xs"
    by (rule join_with_parts [OF xs(1)])
  finally have whole: "normalize_rbac_slug slug = ps_module p @ '':'' @ ps_resource p @ '':'' @ ps_action p"
    by (simp add: p)
  obtain b ys where tl: "butlast (tl ?xs) = b # ys"
    using xs(1) length_butlast [of "tl ?xs"] by (cases "butlast (tl ?xs)") auto
  then have "b \<in> set (butlast (tl ?xs))"
    by simp
  then have "b \<in> set ?xs"
    by (meson in_set_butlastD list.set_sel(2) split_on_not_Nil)
  then have "ps_resource p \<noteq> []"
    using xs(2) tl by (cases ys) (auto simp: p(2))
  with whole mem xs(2) p split_on_parts show ?thesis
    by metis
qed

theorem parse_permission_slug_roundtrip_witness:
  "\<exists>p. parse_permission_slug ''crm:a:b:read'' = Some p \<and> ps_resource p = ''a:b'' \<and> ps_module p \<noteq> []"
proof -
  have "parse_permission_slug ''crm:a:b:read'' =
      Some \<lparr>ps_module = ''crm'', ps_resource = ''a:b'', ps_action = ''read''\<rparr>"
    by (simp add: parse_permission_slug_def validate_permission_slug_def validate_rbac_slug_def
        normalize_rbac_slug_def trim_def is_space_def contains_control_character_def)
  from parse_permission_slug_roundtrip [OF this] this show ?thesis by auto
qed

end
