(* ===== verification/LoginMethods.thy ===== *)
theory LoginMethods
  imports Database
begin

text \<open>
  packages/server/src/clients/resolve-login-methods.ts and the closed list of login methods
  (clients/types.ts): normalization keeps the first occurrence of each method, resolution lets a
  non-empty client list override the organization's default.
\<close>

definition login_methods :: "(string \<times> login_method) list" where
  "login_methods = [(''password'', Password), (''magic_link'', MagicLink)]"

text \<open>A loop with the set \<open>seen\<close> and the result list.\<close>

fun normalize_loop :: "'m list \<Rightarrow> 'm list \<Rightarrow> 'm list \<Rightarrow> 'm list" where
  "normalize_loop seen result [] = result"
| "normalize_loop seen result (m # ms) =
     (if m \<in> set seen then normalize_loop seen result ms
      else normalize_loop (m # seen) (result @ [m]) ms)"

definition normalize_login_methods :: "'m list \<Rightarrow> 'm list" where
  "normalize_login_methods ms = normalize_loop [] [] ms"

definition resolve_login_methods :: "login_method list \<Rightarrow> login_method list option \<Rightarrow> login_method list" where
  "resolve_login_methods org_default client =
     (case client of
        Some ms \<Rightarrow> if length ms > 0 then ms else org_default
      | None \<Rightarrow> org_default)"

lemma normalize_loop_set: "set (normalize_loop seen result ms) = set result \<union> (set ms - set seen)"
  by (induction seen result ms rule: normalize_loop.induct) auto

lemma normalize_loop_distinct:
  "set seen = set result \<Longrightarrow> distinct result \<Longrightarrow> distinct (normalize_loop seen result ms)"
  by (induction seen result ms rule: normalize_loop.induct) auto

lemma normalize_login_methods_set: "set (normalize_login_methods ms) = set ms"
  by (simp add: normalize_login_methods_def normalize_loop_set)

lemma normalize_login_methods_distinct: "distinct (normalize_login_methods ms)"
  by (simp add: normalize_login_methods_def normalize_loop_distinct)

lemma normalize_loop_id:
  "distinct ms \<Longrightarrow> set ms \<inter> set seen = {} \<Longrightarrow> normalize_loop seen result ms = result @ ms"
  by (induction seen result ms rule: normalize_loop.induct) auto

text \<open>Normalization is idempotent.\<close>

lemma normalize_login_methods_idem:
  "normalize_login_methods (normalize_login_methods ms) = normalize_login_methods ms"
  using normalize_login_methods_distinct [of ms]
  by (simp add: normalize_login_methods_def normalize_loop_id)

lemma normalize_login_methods_Nil [simp]: "normalize_login_methods ms = [] \<longleftrightarrow> ms = []"
  using normalize_login_methods_set [of ms] by auto

end
