(* ===== verification/Organizations.thy ===== *)
theory Organizations
  imports Slugs LoginMethods UserLogin
begin

text \<open>
  The tenants: packages/server/src/organizations/repository.ts, cache.ts, branding-url.ts, service.ts
  and middleware/tenant-resolver.ts. The mapping \<open>mapRowToOrganization\<close> renames columns, and both
  dates survive the cache, so a row and its \<open>Organization\<close> are the same record here.

  The environment holds the clock, \<open>gen_random_uuid()\<close>, the WHATWG URL parser of the platform and
  whether \<open>NODE_ENV\<close> is production.
\<close>

record parsed_url =
  pu_username :: string
  pu_password :: string
  pu_protocol :: string
  pu_hostname :: string

record org_env =
  oe_now :: time
  oe_new_id :: string
  oe_parse_url :: "string \<Rightarrow> parsed_url option"
  oe_production :: bool

subsection \<open>Branding image URLs\<close>

definition loopback_hosts :: "string list" where
  "loopback_hosts = [''localhost'', ''127.0.0.1'', ''[::1]'']"

definition branding_error :: app_error where
  "branding_error = OrganizationValidationError ''Branding image URL is invalid''"

definition validate_branding_image_url :: "org_env \<Rightarrow> string \<Rightarrow> app_error + string" where
  "validate_branding_image_url env v =
     (let normalized = trim v
      in case oe_parse_url env normalized of
           None \<Rightarrow> Inl branding_error
         | Some url \<Rightarrow>
             if pu_username url \<noteq> [] \<or> pu_password url \<noteq> [] then Inl branding_error
             else if pu_protocol url = ''https:'' then Inr normalized
             else if \<not> oe_production env \<and> pu_protocol url = ''http:'' \<and>
                     pu_hostname url \<in> set loopback_hosts then Inr normalized
             else Inl branding_error)"

text \<open>\<open>undefined\<close> and \<open>null\<close> pass; the outer option is presence, the inner one nullability.\<close>

definition normalize_branding_image_url ::
    "org_env \<Rightarrow> string option option \<Rightarrow> app_error + string option option" where
  "normalize_branding_image_url env v =
     (case v of
        Some (Some s) \<Rightarrow>
          (case validate_branding_image_url env s of Inl e \<Rightarrow> Inl e | Inr n \<Rightarrow> Inr (Some (Some n)))
      | _ \<Rightarrow> Inr v)"

text \<open>A synchronous computation that may throw, as a step.\<close>

definition lift_result :: "app_error + 'a \<Rightarrow> ('s, 'a) op" where
  "lift_result r = (case r of Inl e \<Rightarrow> throw_op e | Inr a \<Rightarrow> return_op a)"

subsection \<open>Cache\<close>

definition org_cache_ttl :: int where
  "org_cache_ttl = 300"

definition org_slug_key :: "string \<Rightarrow> string" where
  "org_slug_key slug = ''org:slug:'' @ slug"

definition org_id_key :: "string \<Rightarrow> string" where
  "org_id_key i = ''org:id:'' @ i"

definition deserialize_organization :: "redis_value \<Rightarrow> organization_row option" where
  "deserialize_organization v = (case v of JsonOrganization o' \<Rightarrow> Some o' | _ \<Rightarrow> None)"

definition cached_organization :: "time \<Rightarrow> string \<Rightarrow> store \<Rightarrow> organization_row option" where
  "cached_organization now key st =
     (if st_redis_up st
      then (case redis_live now (st_redis st) key of
              None \<Rightarrow> None
            | Some v \<Rightarrow> deserialize_organization v)
      else None)"

definition get_cached_organization_by_slug :: "time \<Rightarrow> string \<Rightarrow> store \<Rightarrow> organization_row option" where
  "get_cached_organization_by_slug now slug = cached_organization now (org_slug_key slug)"

definition get_cached_organization_by_id :: "time \<Rightarrow> string \<Rightarrow> store \<Rightarrow> organization_row option" where
  "get_cached_organization_by_id now i = cached_organization now (org_id_key i)"

definition cache_organization :: "time \<Rightarrow> organization_row \<Rightarrow> (flow, unit) op" where
  "cache_organization now o' = after_database_commit (best_effort_redis (\<lambda>r.
     redis_set_ex now (org_id_key (og_id o')) (JsonOrganization o') org_cache_ttl
       (redis_set_ex now (org_slug_key (og_slug o')) (JsonOrganization o') org_cache_ttl r)))"

definition invalidate_organization_cache :: "string \<Rightarrow> string \<Rightarrow> (flow, unit) op" where
  "invalidate_organization_cache slug i = after_database_commit (best_effort_redis (\<lambda>r.
     redis_del (org_id_key i) (redis_del (org_slug_key slug) r)))"

subsection \<open>Repository\<close>

record insert_organization_data =
  io_name :: string
  io_slug :: string
  io_default_locale :: string
  io_logo_url :: "string option"
  io_favicon_url :: "string option"
  io_primary_color :: "string option"
  io_company_name :: "string option"
  io_custom_css :: "string option"
  io_default_login_methods :: "login_method list option"

text \<open>The inserted row; omitted login methods take the column default.\<close>

definition inserted_organization :: "org_env \<Rightarrow> insert_organization_data \<Rightarrow> organization_row" where
  "inserted_organization env data = \<lparr>
     og_id = oe_new_id env, og_name = io_name data, og_slug = io_slug data,
     og_status = OrgActive, og_is_super_admin = False,
     og_branding_logo_url = io_logo_url data, og_branding_favicon_url = io_favicon_url data,
     og_branding_primary_color = io_primary_color data,
     og_branding_company_name = io_company_name data,
     og_branding_custom_css = io_custom_css data,
     og_default_locale = io_default_locale data, og_two_factor_policy = Optional,
     og_default_login_methods = nullish (io_default_login_methods data) [Password, MagicLink],
     og_created_at = oe_now env, og_updated_at = oe_now env\<rparr>"

definition insert_organization :: "org_env \<Rightarrow> insert_organization_data \<Rightarrow> (db, organization_row) op" where
  "insert_organization env data d =
     (if row_exists (\<lambda>r. og_id r = oe_new_id env \<or> og_slug r = io_slug data) (db_organizations d)
      then (Inl UniqueViolation, d)
      else (let row = inserted_organization env data
            in (Inr row, d\<lparr>db_organizations := db_organizations d @ [row]\<rparr>)))"

definition find_organization_by_id :: "string \<Rightarrow> db \<Rightarrow> organization_row option" where
  "find_organization_by_id i d = find_row (\<lambda>r. og_id r = i) (db_organizations d)"

definition find_organization_by_slug :: "string \<Rightarrow> db \<Rightarrow> organization_row option" where
  "find_organization_by_slug slug d = find_row (\<lambda>r. og_slug r = slug) (db_organizations d)"

definition find_super_admin_organization :: "db \<Rightarrow> organization_row option" where
  "find_super_admin_organization d = find_row og_is_super_admin (db_organizations d)"

text \<open>\<open>UpdateOrganizationData\<close>: an absent field is \<open>None\<close>.\<close>

record update_organization_data =
  og_set_name :: "string option"
  og_set_status :: "organization_status option"
  og_set_default_locale :: "string option"
  og_set_two_factor_policy :: "two_factor_policy option"
  og_set_login_methods :: "login_method list option"
  og_set_logo_url :: "string option option"
  og_set_favicon_url :: "string option option"
  og_set_primary_color :: "string option option"
  og_set_company_name :: "string option option"
  og_set_custom_css :: "string option option"

definition no_organization_update :: update_organization_data where
  "no_organization_update = \<lparr>og_set_name = None, og_set_status = None, og_set_default_locale = None,
     og_set_two_factor_policy = None, og_set_login_methods = None, og_set_logo_url = None,
     og_set_favicon_url = None, og_set_primary_color = None, og_set_company_name = None,
     og_set_custom_css = None\<rparr>"

text \<open>The trigger of migration 031 keeps \<open>updated_at\<close> strictly increasing.\<close>

definition apply_organization_update ::
    "time \<Rightarrow> update_organization_data \<Rightarrow> organization_row \<Rightarrow> organization_row" where
  "apply_organization_update now u r = r\<lparr>
     og_name := nullish (og_set_name u) (og_name r),
     og_status := nullish (og_set_status u) (og_status r),
     og_default_locale := nullish (og_set_default_locale u) (og_default_locale r),
     og_two_factor_policy := nullish (og_set_two_factor_policy u) (og_two_factor_policy r),
     og_default_login_methods := nullish (og_set_login_methods u) (og_default_login_methods r),
     og_branding_logo_url := nullish (og_set_logo_url u) (og_branding_logo_url r),
     og_branding_favicon_url := nullish (og_set_favicon_url u) (og_branding_favicon_url r),
     og_branding_primary_color := nullish (og_set_primary_color u) (og_branding_primary_color r),
     og_branding_company_name := nullish (og_set_company_name u) (og_branding_company_name r),
     og_branding_custom_css := nullish (og_set_custom_css u) (og_branding_custom_css r),
     og_updated_at := max now (og_updated_at r + 1)\<rparr>"

definition repo_update_organization ::
    "time \<Rightarrow> string \<Rightarrow> update_organization_data \<Rightarrow> (db, organization_row) op" where
  "repo_update_organization now i u d =
     (if u = no_organization_update then (Inl (JsError ''No fields to update''), d)
      else (case find_organization_by_id i d of
              None \<Rightarrow> (Inl (JsError ''Organization not found''), d)
            | Some r \<Rightarrow>
                (Inr (apply_organization_update now u r), d\<lparr>db_organizations :=
                   update_where (\<lambda>x. og_id x = i) (apply_organization_update now u)
                     (db_organizations d)\<rparr>)))"

definition slug_exists :: "string \<Rightarrow> string option \<Rightarrow> db \<Rightarrow> bool" where
  "slug_exists slug exclude d =
     (if truthy exclude
      then row_exists (\<lambda>r. og_slug r = slug \<and> Some (og_id r) \<noteq> exclude) (db_organizations d)
      else row_exists (\<lambda>r. og_slug r = slug) (db_organizations d))"

subsection \<open>Create and read\<close>

text \<open>The error's text names the first value that is not a login method.\<close>

definition validate_default_login_methods ::
    "string list option \<Rightarrow> app_error + login_method list option" where
  "validate_default_login_methods ms =
     (case ms of
        None \<Rightarrow> Inr None
      | Some [] \<Rightarrow>
          Inl (OrganizationValidationError ''defaultLoginMethods: must be a non-empty array'')
      | Some xs \<Rightarrow>
          (case List.find (\<lambda>m. map_of login_methods m = None) xs of
             Some m \<Rightarrow> Inl (OrganizationValidationError
               (''defaultLoginMethods: invalid method \"'' @ m @ ''\"''))
           | None \<Rightarrow> Inr (Some (normalize_login_methods
               (map (\<lambda>m. the (map_of login_methods m)) xs)))))"

record branding_input =
  bi_logo_url :: "string option option"
  bi_favicon_url :: "string option option"
  bi_primary_color :: "string option option"
  bi_company_name :: "string option option"
  bi_custom_css :: "string option option"

definition no_branding :: branding_input where
  "no_branding = \<lparr>bi_logo_url = None, bi_favicon_url = None, bi_primary_color = None,
     bi_company_name = None, bi_custom_css = None\<rparr>"

record create_organization_input =
  co_name :: string
  co_slug :: "string option"
  co_default_locale :: "string option"
  co_branding :: "branding_input option"
  co_default_login_methods :: "string list option"

definition method_name :: "login_method \<Rightarrow> string" where
  "method_name m = (case m of Password \<Rightarrow> ''password'' | MagicLink \<Rightarrow> ''magic_link'')"

definition org_event ::
    "string \<Rightarrow> string \<Rightarrow> string option \<Rightarrow> (string \<times> json) list option \<Rightarrow> audit_entry" where
  "org_event event org actor_id metadata =
     (blank_entry event ''admin'')\<lparr>ae_organization_id := Some org, ae_actor_id := actor_id,
        ae_metadata := map_option JObj metadata\<rparr>"

definition org_methods_json :: "login_method list \<Rightarrow> json" where
  "org_methods_json ms = JArr (map (\<lambda>m. JStr (method_name m)) ms)"

definition create_organization ::
    "org_env \<Rightarrow> create_organization_input \<Rightarrow> string option \<Rightarrow> (flow, organization_row) op" where
  "create_organization env input actor_id =
     (let slug = nullish (co_slug input) (generate_slug (co_name input));
          b = nullish (co_branding input) no_branding
      in andthen (case validate_slug slug of
            Some e \<Rightarrow> throw_op (OrganizationValidationError (slug_error_message slug e))
          | None \<Rightarrow> return_op ()) (\<lambda>_.
         andthen (query (select (slug_exists slug None))) (\<lambda>taken.
         andthen (unless_throw (\<not> taken) (OrganizationValidationError ''Slug already in use'')) (\<lambda>_.
         andthen (lift_result (validate_default_login_methods (co_default_login_methods input)))
           (\<lambda>methods.
         andthen (lift_result (normalize_branding_image_url env (bi_logo_url b))) (\<lambda>logo.
         andthen (lift_result (normalize_branding_image_url env (bi_favicon_url b))) (\<lambda>favicon.
         andthen (query (insert_organization env \<lparr>
             io_name = co_name input, io_slug = slug,
             io_default_locale = nullish (co_default_locale input) ''en'',
             io_logo_url = nullish logo None, io_favicon_url = nullish favicon None,
             io_primary_color = nullish (bi_primary_color b) None,
             io_company_name = nullish (bi_company_name b) None,
             io_custom_css = nullish (bi_custom_css b) None,
             io_default_login_methods = methods\<rparr>)) (\<lambda>org.
         andthen (cache_organization (oe_now env) org) (\<lambda>_.
         andthen (write_audit_log (org_event ''org.created'' (og_id org) actor_id
             (Some [(''slug'', JStr (og_slug org)), (''name'', JStr (og_name org)),
               (''defaultLoginMethods'', org_methods_json (og_default_login_methods org))]))) (\<lambda>_.
         return_op org))))))))))"

text \<open>The cache-first read of \<open>getOrganizationById\<close> and \<open>getOrganizationBySlug\<close>.\<close>

definition read_through ::
    "time \<Rightarrow> (store \<Rightarrow> organization_row option) \<Rightarrow> (db \<Rightarrow> organization_row option) \<Rightarrow>
     (flow, organization_row option) op" where
  "read_through now cached lookup f =
     (case cached (fl_store f) of
        Some o' \<Rightarrow> (Inr (Some o'), f)
      | None \<Rightarrow>
          (case lookup (flow_db f) of
             None \<Rightarrow> (Inr None, f)
           | Some o' \<Rightarrow> andthen (cache_organization now o') (\<lambda>_. return_op (Some o')) f))"

definition get_organization_by_id :: "org_env \<Rightarrow> string \<Rightarrow> (flow, organization_row option) op" where
  "get_organization_by_id env i =
     read_through (oe_now env) (get_cached_organization_by_id (oe_now env) i) (find_organization_by_id i)"

definition get_organization_by_slug :: "org_env \<Rightarrow> string \<Rightarrow> (flow, organization_row option) op" where
  "get_organization_by_slug env slug =
     read_through (oe_now env) (get_cached_organization_by_slug (oe_now env) slug)
       (find_organization_by_slug slug)"

subsection \<open>Update\<close>

record update_organization_input =
  uo_name :: "string option"
  uo_default_locale :: "string option"
  uo_two_factor_policy :: "two_factor_policy option"
  uo_branding :: "branding_input option"
  uo_default_login_methods :: "string list option"

definition with_branding ::
    "branding_input \<Rightarrow> string option option \<Rightarrow> string option option \<Rightarrow> update_organization_data \<Rightarrow>
     update_organization_data" where
  "with_branding b logo favicon u = u\<lparr>og_set_logo_url := logo, og_set_favicon_url := favicon,
     og_set_primary_color := bi_primary_color b, og_set_company_name := bi_company_name b,
     og_set_custom_css := bi_custom_css b\<rparr>"

text \<open>\<open>Object.keys(updateData)\<close>, in insertion order.\<close>

definition organization_update_keys :: "update_organization_data \<Rightarrow> string list" where
  "organization_update_keys u =
     (if og_set_name u = None then [] else [''name'']) @
     (if og_set_default_locale u = None then [] else [''defaultLocale'']) @
     (if og_set_two_factor_policy u = None then [] else [''twoFactorPolicy'']) @
     (if og_set_login_methods u = None then [] else [''defaultLoginMethods'']) @
     (if og_set_logo_url u = None then [] else [''brandingLogoUrl'']) @
     (if og_set_favicon_url u = None then [] else [''brandingFaviconUrl'']) @
     (if og_set_primary_color u = None then [] else [''brandingPrimaryColor'']) @
     (if og_set_company_name u = None then [] else [''brandingCompanyName'']) @
     (if og_set_custom_css u = None then [] else [''brandingCustomCss''])"

definition organization_not_found :: "string \<Rightarrow> app_error \<Rightarrow> (flow, 'a) op" where
  "organization_not_found i e =
     throw_op (if e = JsError ''Organization not found'' then OrganizationNotFoundError i else e)"

definition store_organization_update ::
    "org_env \<Rightarrow> string \<Rightarrow> update_organization_data \<Rightarrow> (flow, organization_row) op" where
  "store_organization_update env i u =
     andthen (catch_op (query (repo_update_organization (oe_now env) i u)) (organization_not_found i))
       (\<lambda>org.
     andthen (invalidate_organization_cache (og_slug org) (og_id org)) (\<lambda>_.
     andthen (cache_organization (oe_now env) org) (\<lambda>_. return_op org)))"

definition update_organization ::
    "org_env \<Rightarrow> string \<Rightarrow> update_organization_input \<Rightarrow> string option \<Rightarrow> (flow, organization_row) op" where
  "update_organization env i input actor_id =
     andthen (lift_result (validate_default_login_methods (uo_default_login_methods input))) (\<lambda>methods.
     andthen (if uo_default_login_methods input \<noteq> None then get_organization_by_id env i
              else return_op None) (\<lambda>existing.
     let b = nullish (uo_branding input) no_branding
     in andthen (lift_result (normalize_branding_image_url env (bi_logo_url b))) (\<lambda>logo.
        andthen (lift_result (normalize_branding_image_url env (bi_favicon_url b))) (\<lambda>favicon.
        let u = with_branding b logo favicon (no_organization_update\<lparr>og_set_name := uo_name input,
              og_set_default_locale := uo_default_locale input,
              og_set_two_factor_policy := uo_two_factor_policy input,
              og_set_login_methods := methods\<rparr>)
        in andthen (store_organization_update env i u) (\<lambda>org.
           andthen (write_audit_log (org_event ''org.updated'' (og_id org) actor_id
               (Some ((''fields'', JArr (map JStr (organization_update_keys u))) #
                 (if uo_default_login_methods input = None then []
                  else [(''previousDefaultLoginMethods'', case existing of None \<Rightarrow> JNull
                           | Some e \<Rightarrow> org_methods_json (og_default_login_methods e)),
                        (''newDefaultLoginMethods'',
                           org_methods_json (og_default_login_methods org))]))))) (\<lambda>_.
           return_op org))))))"

definition update_organization_branding ::
    "org_env \<Rightarrow> string \<Rightarrow> branding_input \<Rightarrow> string option \<Rightarrow> (flow, organization_row) op" where
  "update_organization_branding env i b actor_id =
     andthen (lift_result (normalize_branding_image_url env (bi_logo_url b))) (\<lambda>logo.
     andthen (lift_result (normalize_branding_image_url env (bi_favicon_url b))) (\<lambda>favicon.
     let u = with_branding b logo favicon no_organization_update
     in andthen (store_organization_update env i u) (\<lambda>org.
        andthen (write_audit_log (org_event ''org.branding.updated'' (og_id org) actor_id
            (Some [(''fields'', JArr (map JStr (organization_update_keys u)))]))) (\<lambda>_.
        return_op org))))"

subsection \<open>Status\<close>

definition load_org_for_status_change :: "string \<Rightarrow> (flow, organization_row) op" where
  "load_org_for_status_change i =
     andthen (query (select (find_organization_by_id i))) (\<lambda>org.
       case org of None \<Rightarrow> throw_op (OrganizationNotFoundError i) | Some r \<Rightarrow> return_op r)"

definition set_organization_status ::
    "org_env \<Rightarrow> organization_row \<Rightarrow> string \<Rightarrow> organization_status \<Rightarrow> audit_entry \<Rightarrow> (flow, unit) op" where
  "set_organization_status env org i status entry =
     andthen (query (repo_update_organization (oe_now env) i
         (no_organization_update\<lparr>og_set_status := Some status\<rparr>))) (\<lambda>_.
     andthen (invalidate_organization_cache (og_slug org) (og_id org)) (\<lambda>_.
     write_audit_log entry))"

definition suspend_organization ::
    "org_env \<Rightarrow> string \<Rightarrow> string option \<Rightarrow> string option \<Rightarrow> (flow, unit) op" where
  "suspend_organization env i reason actor_id =
     andthen (load_org_for_status_change i) (\<lambda>org.
       if og_is_super_admin org
       then throw_op (OrganizationValidationError ''Super-admin organization cannot be suspended'')
       else if og_status org = OrgSuspended
       then throw_op (OrganizationValidationError ''Organization is already suspended'')
       else if og_status org \<noteq> OrgActive
       then throw_op (OrganizationValidationError ''Cannot suspend organization'')
       else set_organization_status env org i OrgSuspended
         (org_event ''org.suspended'' (og_id org) actor_id
            (Some [(''reason'', case reason of None \<Rightarrow> JNull | Some r \<Rightarrow> JStr r)])))"

definition activate_organization :: "org_env \<Rightarrow> string \<Rightarrow> string option \<Rightarrow> (flow, unit) op" where
  "activate_organization env i actor_id =
     andthen (load_org_for_status_change i) (\<lambda>org.
       if og_status org \<noteq> OrgSuspended
       then throw_op (OrganizationValidationError ''Cannot activate organization from status: active'')
       else set_organization_status env org i OrgActive
         (org_event ''org.activated'' (og_id org) actor_id None))"

definition validate_slug_availability :: "string \<Rightarrow> string option \<Rightarrow> db \<Rightarrow> string option" where
  "validate_slug_availability slug exclude d =
     (case validate_slug slug of
        Some e \<Rightarrow> Some (slug_error_message slug e)
      | None \<Rightarrow> if slug_exists slug exclude d then Some ''Slug already in use'' else None)"

subsection \<open>Deletion\<close>

record organization_deletion_capture =
  oc_organization :: organization_row
  oc_user_ids :: "string list"
  oc_client_ids :: "string list"
  oc_public_client_ids :: "string list"
  oc_grant_ids :: "string list"

definition control_plane_delete_error :: app_error where
  "control_plane_delete_error =
     OrganizationValidationError ''The control-plane organization cannot be deleted''"

text \<open>\<open>WHERE id::text = $1 OR slug = $1 ORDER BY (id::text = $1) DESC LIMIT 1\<close>: an id match first.\<close>

definition find_by_id_or_slug :: "string \<Rightarrow> db \<Rightarrow> organization_row option" where
  "find_by_id_or_slug x d =
     (case find_organization_by_id x d of Some r \<Rightarrow> Some r | None \<Rightarrow> find_organization_by_slug x d)"

definition in_opt :: "string option \<Rightarrow> string list \<Rightarrow> bool" where
  "in_opt v xs = (case v of None \<Rightarrow> False | Some x \<Rightarrow> x \<in> set xs)"

definition organization_graph :: "organization_row \<Rightarrow> db \<Rightarrow> organization_deletion_capture" where
  "organization_graph o' d =
     (let users = map ur_id (filter (\<lambda>u. ur_organization_id u = og_id o') (db_users d));
          clients = filter (\<lambda>c. cl_organization_id c = og_id o') (db_clients d)
      in \<lparr>oc_organization = o', oc_user_ids = sort users,
          oc_client_ids = sort (map cl_id clients),
          oc_public_client_ids = sort (map cl_client_id clients),
          oc_grant_ids = sort (remdups (map pl_id (filter (\<lambda>p. pl_type p = ''Grant'' \<and>
            (in_opt (pl_client_id p) (map cl_client_id clients) \<or> in_opt (pl_account_id p) users))
            (db_oidc_payloads d))))\<rparr>)"

definition capture_organization_for_deletion ::
    "string \<Rightarrow> (db, organization_deletion_capture option) op" where
  "capture_organization_for_deletion id_or_slug d =
     (case find_by_id_or_slug id_or_slug d of
        None \<Rightarrow> (Inr None, d)
      | Some o' \<Rightarrow>
          if og_is_super_admin o' then (Inl control_plane_delete_error, d)
          else (Inr (Some (organization_graph o' d)), d))"

text \<open>
  \<open>DELETE FROM organizations\<close> with the foreign-key actions: users (and what belongs to them),
  clients and their secrets, recovery jobs, invitations, magic links and sessions of the organization
  go; audit rows and tokens keep no reference.
\<close>

definition null_if_in :: "string list \<Rightarrow> string option \<Rightarrow> string option" where
  "null_if_in xs v = (case v of None \<Rightarrow> None | Some x \<Rightarrow> if x \<in> set xs then None else Some x)"

definition delete_organization_cascade :: "string \<Rightarrow> db \<Rightarrow> db" where
  "delete_organization_cascade org d =
     (let uids = map ur_id (filter (\<lambda>u. ur_organization_id u = org) (db_users d));
          d1 = fold (\<lambda>uid. delete_users_cascade (\<lambda>u. ur_id u = uid) uid) uids d;
          clients = map cl_id (filter (\<lambda>c. cl_organization_id c = org) (db_clients d));
          jobs = map rj_id (filter (\<lambda>j. rj_organization_id j = org) (db_recovery_jobs d))
      in d1\<lparr>db_organizations := delete_where (\<lambda>o'. og_id o' = org) (db_organizations d1),
            db_clients := delete_where (\<lambda>c. cl_organization_id c = org) (db_clients d1),
            db_client_secrets := delete_where (\<lambda>s. cs_client_id s \<in> set clients) (db_client_secrets d1),
            db_recovery_jobs := delete_where (\<lambda>j. rj_organization_id j = org) (db_recovery_jobs d1),
            db_magic_link_tokens := map (\<lambda>t. t\<lparr>tk_recovery_job_id := null_if_in jobs (tk_recovery_job_id t)\<rparr>)
              (delete_where (\<lambda>t. tk_organization_id t = org) (db_magic_link_tokens d1)),
            db_password_reset_tokens :=
              map (\<lambda>t. t\<lparr>tk_recovery_job_id := null_if_in jobs (tk_recovery_job_id t)\<rparr>)
                (db_password_reset_tokens d1),
            db_invitation_tokens :=
              delete_where (\<lambda>i. iv_organization_id i = org) (db_invitation_tokens d1),
            db_admin_sessions :=
              delete_where (\<lambda>s. se_organization_id s = Some org) (db_admin_sessions d1),
            db_audit_log := map (\<lambda>a. a\<lparr>al_organization_id := null_if org (al_organization_id a)\<rparr>)
              (db_audit_log d1)\<rparr>)"

definition delete_organization_captured :: "string \<Rightarrow> (db, unit) op" where
  "delete_organization_captured i d =
     (if row_exists (\<lambda>o'. og_id o' = i \<and> \<not> og_is_super_admin o') (db_organizations d)
      then (Inr (), delete_organization_cascade i d)
      else (Inl control_plane_delete_error, d))"

definition org_payload_affected :: "string list \<Rightarrow> string list \<Rightarrow> string list \<Rightarrow> payload_row \<Rightarrow> bool" where
  "org_payload_affected grants clients users p =
     (pl_id p \<in> set grants \<or> in_opt (pl_grant_id p) grants \<or> in_opt (pl_client_id p) clients \<or>
      in_opt (pl_account_id p) users)"

definition delete_org_payloads :: "organization_deletion_capture \<Rightarrow> db \<Rightarrow> db" where
  "delete_org_payloads c d = d\<lparr>db_oidc_payloads :=
     delete_where (org_payload_affected (oc_grant_ids c) (oc_public_client_ids c) (oc_user_ids c))
       (db_oidc_payloads d)\<rparr>"

definition org_cleanup_descriptor :: "organization_deletion_capture \<Rightarrow> deletion_cleanup_descriptor" where
  "org_cleanup_descriptor c = \<lparr>
     dd_resource = ROrganization, dd_target_id = og_id (oc_organization c),
     dd_target_slug = Some (og_slug (oc_organization c)), dd_parent_id = None,
     dd_user_ids = oc_user_ids c, dd_client_ids = oc_client_ids c,
     dd_public_client_ids = oc_public_client_ids c, dd_grant_ids = oc_grant_ids c,
     dd_role_ids = [], dd_permission_ids = [], dd_claim_ids = [], dd_application_ids = []\<rparr>"

definition org_status_name :: "organization_status \<Rightarrow> string" where
  "org_status_name s = (case s of OrgActive \<Rightarrow> ''active'' | OrgSuspended \<Rightarrow> ''suspended'')"

definition delete_organization ::
    "org_env \<Rightarrow> string \<Rightarrow> string option \<Rightarrow> (flow, organization_deletion_capture) op" where
  "delete_organization env id_or_slug actor_id =
     andthen (require_transaction ''Organization deletion requires an active database transaction'') (\<lambda>_.
     andthen (query (capture_organization_for_deletion id_or_slug)) (\<lambda>capture.
     case capture of
       None \<Rightarrow> throw_op (OrganizationNotFoundError id_or_slug)
     | Some c \<Rightarrow>
         if og_is_super_admin (oc_organization c) then throw_op control_plane_delete_error
         else
           andthen (query (execute (revoke_sessions_of (oe_now env) (oc_user_ids c)))) (\<lambda>_.
           andthen (query (execute (delete_org_payloads c))) (\<lambda>_.
           andthen (write_audit_log_in_transaction
             (org_event ''org.deleted'' (og_id (oc_organization c)) actor_id
               (Some [(''organizationId'', JStr (og_id (oc_organization c))),
                 (''slug'', JStr (og_slug (oc_organization c))),
                 (''status'', JStr (org_status_name (og_status (oc_organization c))))]))) (\<lambda>_.
           andthen (query (delete_organization_captured (og_id (oc_organization c)))) (\<lambda>_.
           andthen (register_deletion_cleanup (oe_now env) (org_cleanup_descriptor c)) (\<lambda>_.
           return_op c))))))) "

subsection \<open>Tenant resolution\<close>

text \<open>\<open>ctx.throw(status, message)\<close>, or the organization set on the request.\<close>

datatype tenant_decision = TenantStatus nat | Tenant organization_row

definition tenant_resolver :: "time \<Rightarrow> string option \<Rightarrow> (flow, tenant_decision) op" where
  "tenant_resolver now org_slug f =
     (if \<not> truthy org_slug then (Inr (TenantStatus 404), f)
      else andthen (read_through now (get_cached_organization_by_slug now (the org_slug))
             (find_organization_by_slug (the org_slug))) (\<lambda>org.
           return_op (case org of
               None \<Rightarrow> TenantStatus 404
             | Some o' \<Rightarrow> if og_status o' = OrgSuspended then TenantStatus 403 else Tenant o')) f)"

end
