(* ===== verification/OrganizationProperties.thy ===== *)
theory OrganizationProperties
  imports Organizations FlowInvariants
begin

text \<open>
  The invariant of the tenant component: unique ids and slugs, and a coherent cache, that is, every
  organization that Redis still serves is the row of the database. Each mutation runs in the
  transaction of the admin middleware, its cache effects after the commit.
\<close>

subsection \<open>The invariant\<close>

definition orgs_unique :: "db \<Rightarrow> bool" where
  "orgs_unique d \<longleftrightarrow> unique_on og_id (db_organizations d) \<and> unique_on og_slug (db_organizations d) \<and>
     list_all (\<lambda>r. og_slug r \<noteq> []) (db_organizations d)"

definition coherent :: "time \<Rightarrow> redis \<Rightarrow> db \<Rightarrow> bool" where
  "coherent t r d \<longleftrightarrow>
     (\<forall>i o'. redis_live t r (org_id_key i) = Some (JsonOrganization o') \<longrightarrow>
        find_organization_by_id i d = Some o') \<and>
     (\<forall>s o'. redis_live t r (org_slug_key s) = Some (JsonOrganization o') \<longrightarrow>
        find_organization_by_slug s d = Some o')"


lemma org_keys_distinct [simp]:
  "org_id_key i \<noteq> org_slug_key s" "org_slug_key s \<noteq> org_id_key i"
  "org_id_key i = org_id_key j \<longleftrightarrow> i = j" "org_slug_key s = org_slug_key s' \<longleftrightarrow> s = s'"
  by (simp_all add: org_id_key_def org_slug_key_def)



lemma coherent_cong:
  "coherent t r d \<Longrightarrow> db_organizations d' = db_organizations d \<Longrightarrow> coherent t r d'"
  by (simp add: coherent_def find_organization_by_id_def find_organization_by_slug_def)



lemma coherent_shrinks: "coherent t r d \<Longrightarrow> redis_shrinks r' r \<Longrightarrow> coherent t r' d"
  unfolding coherent_def redis_shrinks_def by blast


definition uncached_org :: "string \<Rightarrow> string \<Rightarrow> redis \<Rightarrow> redis" where
  "uncached_org slug i r = redis_del (org_id_key i) (redis_del (org_slug_key slug) r)"




lemma redis_live_uncached_org:
  "redis_live t (uncached_org slug i r) k =
     (if k = org_id_key i \<or> k = org_slug_key slug then None else redis_live t r k)"
  by (simp add: uncached_org_def)


lemma coherent_uncached: "coherent t r d \<Longrightarrow> coherent t (uncached_org slug i r) d"
  by (auto simp: coherent_def redis_live_uncached_org split: if_splits)

subsection \<open>Rows\<close>

lemma find_by_id_SomeD: "find_organization_by_id i d = Some o' \<Longrightarrow> o' \<in> set (db_organizations d) \<and> og_id o' = i"
  by (auto simp: find_organization_by_id_def dest: find_row_SomeD)



lemma apply_organization_update_keys [simp]:
  "og_id (apply_organization_update now u r) = og_id r"
  "og_slug (apply_organization_update now u r) = og_slug r"
  "og_is_super_admin (apply_organization_update now u r) = og_is_super_admin r"
  "og_status (apply_organization_update now u r) = nullish (og_set_status u) (og_status r)"
  by (simp_all add: apply_organization_update_def)

definition updated_orgs :: "time \<Rightarrow> string \<Rightarrow> update_organization_data \<Rightarrow> db \<Rightarrow> db" where
  "updated_orgs now i u d = d\<lparr>db_organizations :=
     update_where (\<lambda>x. og_id x = i) (apply_organization_update now u) (db_organizations d)\<rparr>"


lemma repo_update_cases:
  "repo_update_organization now i u d =
     (if u = no_organization_update then (Inl (JsError ''No fields to update''), d)
      else (case find_organization_by_id i d of
              None \<Rightarrow> (Inl (JsError ''Organization not found''), d)
            | Some r \<Rightarrow> (Inr (apply_organization_update now u r), updated_orgs now i u d)))"
  by (simp add: repo_update_organization_def updated_orgs_def split: option.split)





text \<open>A new row with a fresh id and slug.\<close>

lemma inserted_org_fields [simp]:
  "og_id (inserted_organization env data) = oe_new_id env"
  "og_slug (inserted_organization env data) = io_slug data"
  by (simp_all add: inserted_organization_def)



text \<open>The cascade: other organizations keep their rows.\<close>

lemma users_cascade_orgs [simp]: "db_organizations (delete_users_cascade P uid d) = db_organizations d"
  by (simp add: delete_users_cascade_def)

lemma fold_users_cascade_orgs [simp]:
  "db_organizations (fold (\<lambda>uid. delete_users_cascade (\<lambda>u. ur_id u = uid) uid) uids d) = db_organizations d"
  by (induction uids arbitrary: d) simp_all

lemma delete_organization_cascade_orgs [simp]:
  "db_organizations (delete_organization_cascade org d) =
     delete_where (\<lambda>o'. og_id o' = org) (db_organizations d)"
  by (simp add: delete_organization_cascade_def Let_def)




lemma orgs_unique_cong:
  "db_organizations d' = db_organizations d \<Longrightarrow> orgs_unique d' = orgs_unique d"
  by (simp add: orgs_unique_def)

subsection \<open>Pending effects\<close>

text \<open>The effects these services queue: Redis commands and deferred audit rows.\<close>

definition simple_effect :: "effect \<Rightarrow> bool" where
  "simple_effect eff \<longleftrightarrow>
     (\<exists>g. eff = best_effort_redis g) \<or> (\<exists>row. eff = on_db (execute (insert_audit_row row)))"

lemma simple_effect_step:
  assumes "simple_effect eff"
  shows "st_redis_up (snd (eff st)) = st_redis_up st"
    and "db_organizations (st_db (snd (eff st))) = db_organizations (st_db st)"
    and "st_redis st' = st_redis st \<Longrightarrow> st_redis_up st' = st_redis_up st \<Longrightarrow>
      st_redis (snd (eff st')) = st_redis (snd (eff st))"
  using assms by (auto simp: simple_effect_def split: if_splits)


lemma simple_effects_redis:
  "list_all simple_effect effs \<Longrightarrow> st_redis st' = st_redis st \<Longrightarrow> st_redis_up st' = st_redis_up st \<Longrightarrow>
   st_redis (run_effects effs st') = st_redis (run_effects effs st)"
proof (induction effs arbitrary: st st')
  case (Cons eff effs)
  then have eff: "simple_effect eff" and all: "list_all simple_effect effs"
    by simp_all
  have "st_redis (snd (eff st')) = st_redis (snd (eff st))"
    using simple_effect_step(3) [OF eff Cons.prems(2,3)] .
  moreover have "st_redis_up (snd (eff st')) = st_redis_up (snd (eff st))"
    using Cons.prems(3) by (simp add: simple_effect_step(1) [OF eff])
  ultimately have "st_redis (run_effects effs (snd (eff st'))) = st_redis (run_effects effs (snd (eff st)))"
    by (rule Cons.IH [OF all])
  then show ?case
    by (simp only: run_effects_simps)
qed simp

lemma simple_effects_db:
  assumes "list_all simple_effect effs"
  shows "st_redis (run_effects effs (st\<lparr>st_db := d\<rparr>)) = st_redis (run_effects effs st)"
  using assms by (rule simple_effects_redis) simp_all

text \<open>
  Inside a transaction: Redis is untouched and up, and the pending effects would leave it coherent
  with the rows of the transaction.
\<close>

definition org_tx_inv :: "time \<Rightarrow> redis \<Rightarrow> flow \<Rightarrow> bool" where
  "org_tx_inv now r f \<longleftrightarrow>
     (\<exists>effs. fl_tx f = Some effs \<and> list_all simple_effect effs \<and>
        coherent now (st_redis (run_effects effs (fl_store f))) (flow_db f)) \<and>
     flow_redis f = r \<and> st_redis_up (fl_store f) \<and> orgs_unique (flow_db f)"

lemma org_tx_query:
  assumes "org_tx_inv now r f" and "db_organizations (snd (m (flow_db f))) = db_organizations (flow_db f)"
  shows "org_tx_inv now r (snd (query m f))"
proof -
  obtain effs where e: "fl_tx f = Some effs" "list_all simple_effect effs"
      "coherent now (st_redis (run_effects effs (fl_store f))) (flow_db f)"
    using assms(1) by (auto simp: org_tx_inv_def)
  have "coherent now (st_redis (run_effects effs (fl_store (with_db (snd (m (flow_db f))) f))))
      (snd (m (flow_db f)))"
    using coherent_cong [OF e(3) assms(2)] by (simp add: with_db_def simple_effects_db [OF e(2)])
  then show ?thesis
    using assms e(1,2) orgs_unique_cong [OF assms(2)] by (auto simp: org_tx_inv_def)
qed



lemma org_tx_audit_in_transaction [intro]:
  "preserves (org_tx_inv now r) (write_audit_log_in_transaction e)"
  by (auto intro!: preservesI org_tx_query simp: write_audit_log_in_transaction_def
      simp del: query_apply split: sum.splits)


lemma org_tx_execute [intro]:
  "(\<And>d. db_organizations (u d) = db_organizations d) \<Longrightarrow>
   preserves (org_tx_inv now r) (query (execute u))"
  by (rule preservesI, rule org_tx_query) simp_all


lemma org_tx_require [intro]: "preserves (org_tx_inv now r) (require_transaction msg)"
  by (rule preservesI) (simp add: require_transaction_def unless_throw_def)




text \<open>
  Properties of the tenants: whatever organization calls run, the tenant resolver admits exactly the
  active organizations of the database although it answers from the cache, and the control-plane
  organization is never suspended or deleted.
\<close>

subsection \<open>The calls keep the invariant of the transaction\<close>






lemma org_tx_load:
  "andthen (load_org_for_status_change i) g f =
     (case find_organization_by_id i (flow_db f) of
        None \<Rightarrow> (Inl (OrganizationNotFoundError i), f) | Some org \<Rightarrow> g org f)"
  by (simp add: load_org_for_status_change_def andthen_assoc step_select split: option.splits)












lemma org_tables_frame [simp]:
  "db_organizations (revoke_sessions_of now uids d) = db_organizations d"
  "db_organizations (delete_org_payloads c d) = db_organizations d"
  by (simp_all add: revoke_sessions_of_def delete_org_payloads_def)

lemma find_by_id_frame:
  "db_organizations d' = db_organizations d \<Longrightarrow> find_organization_by_id i d' = find_organization_by_id i d"
  by (simp add: find_organization_by_id_def)





subsection \<open>Runs\<close>

datatype org_call =
    CreateOrg org_env create_organization_input "string option"
  | UpdateOrg org_env string update_organization_input "string option"
  | UpdateBranding org_env string branding_input "string option"
  | SuspendOrg org_env string "string option" "string option"
  | ActivateOrg org_env string "string option"
  | DeleteOrg org_env string "string option"
  | ReadOrgById org_env string
  | ReadOrgBySlug org_env string
  | ResolveTenant time "string option"


text \<open>Mutations run in the transaction of the admin middleware, reads on their own.\<close>

fun run_org_call :: "org_call \<Rightarrow> flow \<Rightarrow> flow" where
  "run_org_call (CreateOrg env i a) f = snd (run_database_transaction (create_organization env i a) f)"
| "run_org_call (UpdateOrg env x i a) f = snd (run_database_transaction (update_organization env x i a) f)"
| "run_org_call (UpdateBranding env x b a) f =
     snd (run_database_transaction (update_organization_branding env x b a) f)"
| "run_org_call (SuspendOrg env x re a) f =
     snd (run_database_transaction (suspend_organization env x re a) f)"
| "run_org_call (ActivateOrg env x a) f =
     snd (run_database_transaction (activate_organization env x a) f)"
| "run_org_call (DeleteOrg env x a) f = snd (run_database_transaction (delete_organization env x a) f)"
| "run_org_call (ReadOrgById env x) f = snd (get_organization_by_id env x f)"
| "run_org_call (ReadOrgBySlug env s) f = snd (get_organization_by_slug env s f)"
| "run_org_call (ResolveTenant now s) f = snd (tenant_resolver now s f)"







subsection \<open>The resolver\<close>



text \<open>Two tenants: the control plane and one that a request reads and an administrator suspends.\<close>

definition sample_org :: "string \<Rightarrow> string \<Rightarrow> bool \<Rightarrow> organization_row" where
  "sample_org i slug super = \<lparr>og_id = i, og_name = slug, og_slug = slug, og_status = OrgActive,
     og_is_super_admin = super, og_branding_logo_url = None, og_branding_favicon_url = None,
     og_branding_primary_color = None, og_branding_company_name = None, og_branding_custom_css = None,
     og_default_locale = ''en'', og_two_factor_policy = Optional,
     og_default_login_methods = [Password], og_created_at = 0, og_updated_at = 0\<rparr>"

definition org_sample_store :: store where
  "org_sample_store = \<lparr>st_db = empty_db\<lparr>db_organizations :=
     [sample_org ''o0'' ''porta-admin'' True, sample_org ''o1'' ''acme'' False]\<rparr>,
     st_redis = [], st_redis_up = True\<rparr>"

definition org_sample_env :: org_env where
  "org_sample_env = \<lparr>oe_now = 10, oe_new_id = ''o2'', oe_parse_url = \<lambda>_. None, oe_production = True\<rparr>"





subsection \<open>The control plane\<close>

text \<open>The organization with this id is there, is the super-admin one and is active.\<close>

definition control_plane :: "string \<Rightarrow> db \<Rightarrow> bool" where
  "control_plane i d \<longleftrightarrow> row_exists (\<lambda>r. og_id r = i) (db_organizations d) \<and>
     list_all (\<lambda>r. og_id r = i \<longrightarrow> og_is_super_admin r \<and> og_status r = OrgActive) (db_organizations d)"

lemma control_plane_cong:
  "db_organizations d' = db_organizations d \<Longrightarrow> control_plane i d' = control_plane i d"
  by (simp add: control_plane_def)

interpretation control: db_invariant "control_plane i" for i
  by unfold_locales (simp add: control_plane_def)

lemma row_exists_update_key:
  "row_exists (\<lambda>r. og_id r = i) (update_where P (apply_organization_update now u) rs) =
   row_exists (\<lambda>r. og_id r = i) rs"
  by (induction rs) (auto simp: row_exists_iff)

lemma control_plane_updated:
  assumes "control_plane i d" and "j = i \<Longrightarrow> og_set_status u = None \<or> og_set_status u = Some OrgActive"
  shows "control_plane i (updated_orgs now j u d)"
  using assms by (auto simp: control_plane_def updated_orgs_def row_exists_update_key list_all_iff set_update_where)

lemma control_repo_update:
  assumes "control_plane i d" and "j = i \<Longrightarrow> og_set_status u = None \<or> og_set_status u = Some OrgActive"
  shows "control_plane i (snd (repo_update_organization now j u d))"
  using assms by (auto simp: repo_update_cases control_plane_updated split: option.splits)

lemma control_found:
  "control_plane i d \<Longrightarrow> find_organization_by_id j d = Some r \<Longrightarrow> \<not> og_is_super_admin r \<Longrightarrow> j \<noteq> i"
  by (auto simp: control_plane_def list_all_iff dest: find_by_id_SomeD)

lemma control_insert: "control_plane i d \<Longrightarrow> control_plane i (snd (insert_organization env data d))"
  by (auto simp: insert_organization_def Let_def control_plane_def row_exists_iff list_all_iff)

lemma control_delete:
  assumes "control_plane i d"
  shows "control_plane i (snd (delete_organization_captured j d))"
  using assms
  by (auto simp: delete_organization_captured_def control_plane_def row_exists_iff list_all_iff
      set_delete_where)

lemma control_frames:
  "control_plane i d \<Longrightarrow> control_plane i (revoke_sessions_of now uids d)"
  "control_plane i d \<Longrightarrow> control_plane i (delete_org_payloads c d)"
  by (simp_all add: control_plane_def)

lemma control_cache:
  "preserves (flow_inv (control_plane i)) (cache_organization now r)"
  "preserves (flow_inv (control_plane i)) (invalidate_organization_cache slug j)"
  by (auto simp: cache_organization_def invalidate_organization_cache_def intro!: control.keeps_after_commit)

lemma control_store_update:
  assumes "og_set_status u = None"
  shows "preserves (flow_inv (control_plane i)) (store_organization_update env j u)"
  unfolding store_organization_update_def organization_not_found_def
  by (intro preserves_intros control_cache control.keeps_query control_repo_update) (simp_all add: assms)

lemma control_read: "preserves (flow_inv (control_plane i)) (read_through now cached lookup)"
proof (rule preservesI)
  fix f
  assume f: "flow_inv (control_plane i) f"
  have "preserves (flow_inv (control_plane i))
      (andthen (cache_organization now r) (\<lambda>_. return_op (Some r)))" for r
    by (intro preserves_intros control_cache)
  from preservesD [OF this f] f
  show "flow_inv (control_plane i) (snd (read_through now cached lookup f))"
    by (auto simp: read_through_def split: option.splits)
qed

lemma control_lift: "preserves (flow_inv (control_plane i)) (lift_result x)"
  by (auto simp: lift_result_def split: sum.splits)

lemmas control_steps = preserves_intros control_lift control_cache control_read control_store_update
  control.keeps control.keeps_select control.keeps_execute control_insert control_delete control_frames

text \<open>A row found by id and not a super-admin organization is another one.\<close>

lemma control_status:
  assumes "flow_inv (control_plane i) f" and "find_organization_by_id j (flow_db f) = Some r"
    and "\<not> og_is_super_admin r \<or> status = OrgActive"
  shows "flow_inv (control_plane i) (snd (set_organization_status env r j status entry f))"
proof -
  have other: "j = i \<Longrightarrow> status = OrgActive"
    using control_found [OF flow_inv_db [OF assms(1)] assms(2)] assms(3) by blast
  have "preserves (flow_inv (control_plane i)) (set_organization_status env r j status entry)"
    unfolding set_organization_status_def
    by (intro preserves_intros control_cache control.keeps control_repo_update) (simp_all add: other)
  then show ?thesis
    using assms(1) by (rule preservesD)
qed

lemma control_suspend: "preserves (flow_inv (control_plane i)) (suspend_organization env j reason actor)"
  by (rule preservesI) (auto simp: suspend_organization_def org_tx_load split: option.split intro!: control_status)

lemma control_activate: "preserves (flow_inv (control_plane i)) (activate_organization env j actor)"
  by (rule preservesI) (auto simp: activate_organization_def org_tx_load split: option.split intro!: control_status)

lemma control_create: "preserves (flow_inv (control_plane i)) (create_organization env input actor)"
  unfolding create_organization_def Let_def by (intro control_steps)

lemma control_update: "preserves (flow_inv (control_plane i)) (update_organization env j input actor)"
  unfolding update_organization_def get_organization_by_id_def Let_def with_branding_def
  by (intro control_steps) (simp add: no_organization_update_def)

lemma control_branding:
  "preserves (flow_inv (control_plane i)) (update_organization_branding env j b actor)"
  unfolding update_organization_branding_def Let_def with_branding_def
  by (intro control_steps) (simp add: no_organization_update_def)

lemma control_capture: "control_plane i d \<Longrightarrow> control_plane i (snd (capture_organization_for_deletion x d))"
  by (simp add: capture_organization_for_deletion_def split: option.split)

lemma control_delete_org: "preserves (flow_inv (control_plane i)) (delete_organization env x actor)"
  unfolding delete_organization_def by (intro control_steps control_capture)

lemma control_resolver: "preserves (flow_inv (control_plane i)) (tenant_resolver now slug)"
proof (rule preservesI)
  fix f
  assume f: "flow_inv (control_plane i) f"
  have "preserves (flow_inv (control_plane i)) (andthen (read_through now c lookup) (\<lambda>r. return_op (g r)))"
    for c lookup and g :: "organization_row option \<Rightarrow> tenant_decision"
    by (intro preserves_intros control_read)
  from preservesD [OF this f] f show "flow_inv (control_plane i) (snd (tenant_resolver now slug f))"
    by (simp add: tenant_resolver_def)
qed

lemma control_call:
  assumes "flow_inv (control_plane i) f"
  shows "flow_inv (control_plane i) (run_org_call c f)"
proof -
  note keeps = preservesD [where I = "flow_inv (control_plane i)", OF _ assms]
    preservesD [OF control.keeps_transaction, OF _ assms]
  show ?thesis
    by (cases c) (simp_all add: keeps control_create control_update control_branding control_suspend
        control_activate control_delete_org control_resolver control_read get_organization_by_id_def
        get_organization_by_slug_def)
qed

text \<open>
  Property C6: the control plane survives. No sequence of organization calls, with any ids, slugs,
  statuses and actors, removes the super-admin organization, suspends it or takes its super-admin
  mark away.
\<close>

theorem control_plane_survives:
  assumes "control_plane i (st_db st)"
  shows "control_plane i (flow_db (fold run_org_call calls (idle_flow st)))"
proof -
  have "flow_inv (control_plane i) (fold run_org_call calls f)" if "flow_inv (control_plane i) f" for f
    using that by (induction calls arbitrary: f) (simp_all add: control_call)
  then have "flow_inv (control_plane i) (fold run_org_call calls (idle_flow st))"
    using assms by simp
  then show ?thesis
    by (rule flow_inv_db)
qed

theorem control_plane_survives_witness:
  "control_plane ''o0'' (flow_db (fold run_org_call
     [SuspendOrg org_sample_env ''o0'' None None, DeleteOrg org_sample_env ''porta-admin'' None,
      SuspendOrg org_sample_env ''o1'' None None, DeleteOrg org_sample_env ''acme'' None]
     (idle_flow org_sample_store)))"
  by (rule control_plane_survives)
    (simp add: control_plane_def org_sample_store_def sample_org_def)

end
