(* ===== verification/AdminPermissions.thy ===== *)
theory AdminPermissions
  imports UserDeletion DeletionCleanup AuditLog
begin

text \<open>
  packages/server/src/lib/admin-permissions.ts (the static table of administrative permissions and
  built-in roles), packages/server/src/middleware/require-permission.ts (the endpoint guard) and
  packages/server/src/lib/authority-revocation.ts (what losing authority revokes in the database).
\<close>

subsection \<open>The static table\<close>

definition admin_permissions :: "(string \<times> string) list" where
  "admin_permissions =
  [(''ORG_CREATE'', ''admin:org:create''),
   (''ORG_READ'', ''admin:org:read''),
   (''ORG_UPDATE'', ''admin:org:update''),
   (''ORG_SUSPEND'', ''admin:org:suspend''),
   (''ORG_DELETE'', ''admin:org:delete''),
   (''APP_CREATE'', ''admin:app:create''),
   (''APP_READ'', ''admin:app:read''),
   (''APP_UPDATE'', ''admin:app:update''),
   (''APP_DELETE'', ''admin:app:delete''),
   (''MODULE_DELETE'', ''admin:module:delete''),
   (''CLIENT_CREATE'', ''admin:client:create''),
   (''CLIENT_READ'', ''admin:client:read''),
   (''CLIENT_UPDATE'', ''admin:client:update''),
   (''CLIENT_REVOKE'', ''admin:client:revoke''),
   (''CLIENT_DELETE'', ''admin:client:delete''),
   (''USER_CREATE'', ''admin:user:create''),
   (''USER_READ'', ''admin:user:read''),
   (''USER_UPDATE'', ''admin:user:update''),
   (''USER_LIFECYCLE'', ''admin:user:lifecycle''),
   (''USER_DELETE'', ''admin:user:delete''),
   (''USER_INVITE'', ''admin:user:invite''),
   (''USER_2FA'', ''admin:user:2fa''),
   (''ROLE_CREATE'', ''admin:role:create''),
   (''ROLE_READ'', ''admin:role:read''),
   (''ROLE_UPDATE'', ''admin:role:update''),
   (''ROLE_DELETE'', ''admin:role:delete''),
   (''ROLE_ASSIGN'', ''admin:role:assign''),
   (''PERMISSION_CREATE'', ''admin:permission:create''),
   (''PERMISSION_READ'', ''admin:permission:read''),
   (''PERMISSION_UPDATE'', ''admin:permission:update''),
   (''PERMISSION_DELETE'', ''admin:permission:delete''),
   (''CLAIM_CREATE'', ''admin:claim:create''),
   (''CLAIM_READ'', ''admin:claim:read''),
   (''CLAIM_UPDATE'', ''admin:claim:update''),
   (''CLAIM_DELETE'', ''admin:claim:delete''),
   (''CONFIG_READ'', ''admin:config:read''),
   (''CONFIG_UPDATE'', ''admin:config:update''),
   (''KEY_READ'', ''admin:key:read''),
   (''KEY_GENERATE'', ''admin:key:generate''),
   (''KEY_ROTATE'', ''admin:key:rotate''),
   (''AUDIT_READ'', ''admin:audit:read''),
   (''SESSION_READ'', ''admin:session:read''),
   (''SESSION_REVOKE'', ''admin:session:revoke''),
   (''STATS_READ'', ''admin:stats:read''),
   (''EXPORT_READ'', ''admin:export:read''),
   (''IMPORT_WRITE'', ''admin:import:write'')]"

definition admin_permission :: "string \<Rightarrow> string" where
  "admin_permission k = (case map_of admin_permissions k of Some p \<Rightarrow> p | None \<Rightarrow> [])"

definition all_admin_permissions :: "string list" where
  "all_admin_permissions = map snd admin_permissions"

definition super_admin_role_slug :: string where
  "super_admin_role_slug = ''porta-super-admin''"

record admin_role_definition =
  ar_slug :: string
  ar_name :: string
  ar_description :: string
  ar_permissions :: "string list"

definition admin_role_definitions :: "(string \<times> admin_role_definition) list" where
  "admin_role_definitions =
  [(''SUPER_ADMIN'', \<lparr>ar_slug = super_admin_role_slug,
     ar_name = ''Super Admin'',
     ar_description = ''Full system access, cannot be deleted'',
     ar_permissions = all_admin_permissions\<rparr>),
   (''ORG_ADMIN'', \<lparr>ar_slug = ''porta-org-admin'',
     ar_name = ''Organization Admin'',
     ar_description = ''Manage organizations, branding, settings'',
     ar_permissions = map admin_permission
       [''ORG_CREATE'', ''ORG_READ'', ''ORG_UPDATE'', ''ORG_SUSPEND'', ''ORG_DELETE'',
        ''STATS_READ'']\<rparr>),
   (''USER_ADMIN'', \<lparr>ar_slug = ''porta-user-admin'',
     ar_name = ''User Admin'',
     ar_description = ''Manage users, send invitations, manage roles'',
     ar_permissions = map admin_permission
       [''USER_CREATE'', ''USER_READ'', ''USER_UPDATE'', ''USER_LIFECYCLE'', ''USER_DELETE'',
        ''USER_INVITE'', ''USER_2FA'', ''APP_READ'', ''ROLE_ASSIGN'', ''ROLE_READ'',
        ''CLAIM_READ'', ''SESSION_READ'', ''SESSION_REVOKE'']\<rparr>),
   (''APP_ADMIN'', \<lparr>ar_slug = ''porta-app-admin'',
     ar_name = ''Application Admin'',
     ar_description = ''Manage applications, clients, RBAC definitions'',
     ar_permissions = map admin_permission
       [''ORG_READ'', ''APP_CREATE'', ''APP_READ'', ''APP_UPDATE'', ''APP_DELETE'',
        ''MODULE_DELETE'', ''CLIENT_CREATE'', ''CLIENT_READ'', ''CLIENT_UPDATE'',
        ''CLIENT_REVOKE'', ''CLIENT_DELETE'', ''ROLE_CREATE'', ''ROLE_READ'', ''ROLE_UPDATE'',
        ''ROLE_DELETE'', ''PERMISSION_CREATE'', ''PERMISSION_READ'', ''PERMISSION_UPDATE'',
        ''PERMISSION_DELETE'', ''CLAIM_CREATE'', ''CLAIM_READ'', ''CLAIM_UPDATE'',
        ''CLAIM_DELETE'']\<rparr>),
   (''AUDITOR'', \<lparr>ar_slug = ''porta-auditor'',
     ar_name = ''Auditor'',
     ar_description = ''Read-only access to everything, full audit log access'',
     ar_permissions = map admin_permission
       [''ORG_READ'', ''APP_READ'', ''CLIENT_READ'', ''USER_READ'', ''ROLE_READ'',
        ''PERMISSION_READ'', ''CLAIM_READ'', ''CONFIG_READ'', ''KEY_READ'', ''AUDIT_READ'',
        ''SESSION_READ'', ''STATS_READ'', ''EXPORT_READ'']\<rparr>)]"

definition all_admin_roles :: "admin_role_definition list" where
  "all_admin_roles = map snd admin_role_definitions"

definition legacy_admin_role :: string where
  "legacy_admin_role = ''porta-admin''"

definition is_super_admin_role :: "string \<Rightarrow> bool" where
  "is_super_admin_role slug = (slug = super_admin_role_slug \<or> slug = legacy_admin_role)"

definition resolve_admin_role_slug :: "string \<Rightarrow> string" where
  "resolve_admin_role_slug slug =
     (if slug = legacy_admin_role then super_admin_role_slug else slug)"

definition get_permissions_for_admin_role :: "string \<Rightarrow> string list" where
  "get_permissions_for_admin_role slug =
     (if slug = legacy_admin_role then all_admin_permissions
      else (case find_row (\<lambda>r. ar_slug r = slug) all_admin_roles of
              None \<Rightarrow> []
            | Some r \<Rightarrow> ar_permissions r))"

definition resolve_permissions_from_roles :: "string list \<Rightarrow> string list" where
  "resolve_permissions_from_roles slugs =
     foldl (\<lambda>s slug. foldl js_set_add s (get_permissions_for_admin_role slug)) [] slugs"

definition has_permissions :: "string list \<Rightarrow> string list \<Rightarrow> bool" where
  "has_permissions user_permissions required = list_all (\<lambda>p. p \<in> set user_permissions) required"

text \<open>The table with the permission names resolved, for evaluation.\<close>

lemma all_admin_permissions_table [code]:
  "all_admin_permissions =
    [''admin:org:create'', ''admin:org:read'', ''admin:org:update'', ''admin:org:suspend'',
     ''admin:org:delete'', ''admin:app:create'', ''admin:app:read'', ''admin:app:update'',
     ''admin:app:delete'', ''admin:module:delete'', ''admin:client:create'',
     ''admin:client:read'', ''admin:client:update'', ''admin:client:revoke'',
     ''admin:client:delete'', ''admin:user:create'', ''admin:user:read'', ''admin:user:update'',
     ''admin:user:lifecycle'', ''admin:user:delete'', ''admin:user:invite'', ''admin:user:2fa'',
     ''admin:role:create'', ''admin:role:read'', ''admin:role:update'', ''admin:role:delete'',
     ''admin:role:assign'', ''admin:permission:create'', ''admin:permission:read'',
     ''admin:permission:update'', ''admin:permission:delete'', ''admin:claim:create'',
     ''admin:claim:read'', ''admin:claim:update'', ''admin:claim:delete'', ''admin:config:read'',
     ''admin:config:update'', ''admin:key:read'', ''admin:key:generate'', ''admin:key:rotate'',
     ''admin:audit:read'', ''admin:session:read'', ''admin:session:revoke'', ''admin:stats:read'',
     ''admin:export:read'', ''admin:import:write'']"
  by (simp add: all_admin_permissions_def admin_permissions_def)

lemma admin_role_table [code]:
  "all_admin_roles =
    [\<lparr>ar_slug = ''porta-super-admin'', ar_name = ''Super Admin'',
      ar_description = ''Full system access, cannot be deleted'',
      ar_permissions = all_admin_permissions\<rparr>,
     \<lparr>ar_slug = ''porta-org-admin'', ar_name = ''Organization Admin'',
      ar_description = ''Manage organizations, branding, settings'',
      ar_permissions = 
       [''admin:org:create'', ''admin:org:read'', ''admin:org:update'', ''admin:org:suspend'',
        ''admin:org:delete'', ''admin:stats:read'']\<rparr>,
     \<lparr>ar_slug = ''porta-user-admin'', ar_name = ''User Admin'',
      ar_description = ''Manage users, send invitations, manage roles'',
      ar_permissions = 
       [''admin:user:create'', ''admin:user:read'', ''admin:user:update'',
        ''admin:user:lifecycle'', ''admin:user:delete'', ''admin:user:invite'',
        ''admin:user:2fa'', ''admin:app:read'', ''admin:role:assign'', ''admin:role:read'',
        ''admin:claim:read'', ''admin:session:read'', ''admin:session:revoke'']\<rparr>,
     \<lparr>ar_slug = ''porta-app-admin'', ar_name = ''Application Admin'',
      ar_description = ''Manage applications, clients, RBAC definitions'',
      ar_permissions = 
       [''admin:org:read'', ''admin:app:create'', ''admin:app:read'', ''admin:app:update'',
        ''admin:app:delete'', ''admin:module:delete'', ''admin:client:create'',
        ''admin:client:read'', ''admin:client:update'', ''admin:client:revoke'',
        ''admin:client:delete'', ''admin:role:create'', ''admin:role:read'',
        ''admin:role:update'', ''admin:role:delete'', ''admin:permission:create'',
        ''admin:permission:read'', ''admin:permission:update'', ''admin:permission:delete'',
        ''admin:claim:create'', ''admin:claim:read'', ''admin:claim:update'',
        ''admin:claim:delete'']\<rparr>,
     \<lparr>ar_slug = ''porta-auditor'', ar_name = ''Auditor'',
      ar_description = ''Read-only access to everything, full audit log access'',
      ar_permissions = 
       [''admin:org:read'', ''admin:app:read'', ''admin:client:read'', ''admin:user:read'',
        ''admin:role:read'', ''admin:permission:read'', ''admin:claim:read'',
        ''admin:config:read'', ''admin:key:read'', ''admin:audit:read'', ''admin:session:read'',
        ''admin:stats:read'', ''admin:export:read'']\<rparr>]"
  by code_simp

lemma set_resolve_permissions [simp]:
  "set (resolve_permissions_from_roles slugs) =
     (\<Union>slug \<in> set slugs. set (get_permissions_for_admin_role slug))"
proof -
  have "set (foldl (\<lambda>s slug. foldl js_set_add s (get_permissions_for_admin_role slug)) acc slugs) =
      set acc \<union> (\<Union>slug \<in> set slugs. set (get_permissions_for_admin_role slug))" for acc
    by (induction slugs arbitrary: acc) auto
  from this [of "[]"] show ?thesis
    by (simp add: resolve_permissions_from_roles_def)
qed

lemma distinct_resolve_permissions: "distinct (resolve_permissions_from_roles slugs)"
proof -
  have "distinct (foldl (\<lambda>s slug. foldl js_set_add s (get_permissions_for_admin_role slug)) acc slugs)"
    if "distinct acc" for acc
    using that by (induction slugs arbitrary: acc) auto
  from this [of "[]"] show ?thesis
    by (simp add: resolve_permissions_from_roles_def)
qed

text \<open>Every role of the table grants only permissions of the table, each once.\<close>

lemma role_table_wf:
  "list_all (\<lambda>r. list_all (\<lambda>p. p \<in> set all_admin_permissions) (ar_permissions r) \<and>
     distinct (ar_permissions r)) all_admin_roles"
  by code_simp

lemma admin_permissions_distinct: "distinct all_admin_permissions"
  by code_simp

lemma permissions_of_role_subset:
  "set (get_permissions_for_admin_role slug) \<subseteq> set all_admin_permissions"
proof (cases "find_row (\<lambda>r. ar_slug r = slug) all_admin_roles")
  case None
  then show ?thesis
    by (simp add: get_permissions_for_admin_role_def)
next
  case (Some r)
  then have "r \<in> set all_admin_roles"
    by (auto dest: find_row_SomeD)
  with role_table_wf Some show ?thesis
    by (auto simp: get_permissions_for_admin_role_def list_all_iff)
qed

lemma permissions_of_super_admin:
  "is_super_admin_role slug \<Longrightarrow> get_permissions_for_admin_role slug = all_admin_permissions"
  by (auto simp: is_super_admin_role_def get_permissions_for_admin_role_def all_admin_roles_def
      admin_role_definitions_def)

subsection \<open>The endpoint guard\<close>

text \<open>\<open>ctx.state.adminUser\<close>, the identity that \<open>requireAdminAuth\<close> leaves on the request.\<close>

record admin_user =
  au_id :: string
  au_email :: string
  au_organization_id :: string
  au_roles :: "string list"
  au_permissions :: "string list"

text \<open>How a middleware ends: it answers with a status, or lets the request proceed.\<close>

datatype 'a gate = Answer nat | Proceed 'a

definition require_permission :: "string list \<Rightarrow> admin_user option \<Rightarrow> admin_user gate" where
  "require_permission required admin =
     (case admin of
        None \<Rightarrow> Answer 401
      | Some a \<Rightarrow> (if has_permissions (au_permissions a) required then Proceed a else Answer 403))"

subsection \<open>Authority revocation\<close>

record revoked_authority =
  ra_grant_ids :: "string list"

definition revoke_admin_sessions :: "time \<Rightarrow> string list \<Rightarrow> db \<Rightarrow> db" where
  "revoke_admin_sessions now uids d = d\<lparr>db_admin_sessions :=
     update_where (\<lambda>s. (\<exists>u \<in> set uids. se_user_id s = Some u) \<and> se_revoked_at s = None)
       (\<lambda>s. s\<lparr>se_revoked_at := Some now\<rparr>) (db_admin_sessions d)\<rparr>"

definition delete_user_payloads :: "string list \<Rightarrow> string list \<Rightarrow> db \<Rightarrow> db" where
  "delete_user_payloads grants uids d = d\<lparr>db_oidc_payloads :=
     delete_where (\<lambda>p. pl_id p \<in> set grants \<or> (\<exists>g \<in> set grants. pl_grant_id p = Some g) \<or>
       (\<exists>u \<in> set uids. pl_account_id p = Some u)) (db_oidc_payloads d)\<rparr>"

definition revoke_affected_authority_in_transaction ::
    "time \<Rightarrow> string list \<Rightarrow> (flow, revoked_authority) op" where
  "revoke_affected_authority_in_transaction now user_ids =
     andthen (require_transaction ''Authority revocation requires an active database transaction'') (\<lambda>_.
     let ordered = sort (js_set user_ids)
     in if ordered = [] then return_op \<lparr>ra_grant_ids = []\<rparr>
        else
          andthen (query (select (grants_of_accounts ordered))) (\<lambda>grants.
          andthen (query (execute (revoke_admin_sessions now ordered))) (\<lambda>_.
          andthen (query (execute (delete_user_payloads grants ordered))) (\<lambda>_.
          return_op \<lparr>ra_grant_ids = grants\<rparr>))))"

text \<open>The database effect, whatever the order in which the users were named.\<close>

definition revoked_db :: "time \<Rightarrow> string list \<Rightarrow> db \<Rightarrow> db" where
  "revoked_db now uids d =
     (if uids = [] then d
      else delete_user_payloads (grants_of_accounts uids d) uids (revoke_admin_sessions now uids d))"

lemma revoke_admin_sessions_payloads [simp]:
  "db_oidc_payloads (revoke_admin_sessions now uids d) = db_oidc_payloads d"
  by (simp add: revoke_admin_sessions_def)

lemma revoked_db_tables [simp]:
  "db_users (revoked_db now uids d) = db_users d"
  "db_organizations (revoked_db now uids d) = db_organizations d"
  "db_applications (revoked_db now uids d) = db_applications d"
  "db_roles (revoked_db now uids d) = db_roles d"
  "db_permissions (revoked_db now uids d) = db_permissions d"
  "db_role_permissions (revoked_db now uids d) = db_role_permissions d"
  "db_user_roles (revoked_db now uids d) = db_user_roles d"
  "db_audit_log (revoked_db now uids d) = db_audit_log d"
  by (simp_all add: revoked_db_def delete_user_payloads_def revoke_admin_sessions_def)

lemma step_revoke:
  assumes "fl_tx f = Some q"
  shows "andthen (revoke_affected_authority_in_transaction now uids) g f =
    g \<lparr>ra_grant_ids = (if uids = [] then [] else grants_of_accounts (sort (js_set uids)) (flow_db f))\<rparr>
      (with_db (revoked_db now (sort (js_set uids)) (flow_db f)) f)"
proof -
  have "sort (js_set uids) = [] \<longleftrightarrow> uids = []"
    by (metis js_set_set set_empty set_sort)
  with assms show ?thesis
    by (simp add: revoke_affected_authority_in_transaction_def andthen_assoc step_require
        step_select step_execute revoked_db_def Let_def)
qed

text \<open>After a revocation a user has no live admin session and no OIDC payload.\<close>

lemma revoked_db_sessions:
  "u \<in> set uids \<Longrightarrow> s \<in> set (db_admin_sessions (revoked_db now uids d)) \<Longrightarrow>
   se_user_id s = Some u \<Longrightarrow> se_revoked_at s \<noteq> None"
  by (auto simp: revoked_db_def delete_user_payloads_def revoke_admin_sessions_def
      set_update_where split: if_splits)

lemma revoked_db_payloads:
  "u \<in> set uids \<Longrightarrow> p \<in> set (db_oidc_payloads (revoked_db now uids d)) \<Longrightarrow>
   pl_account_id p \<noteq> Some u"
  by (auto simp: revoked_db_def delete_user_payloads_def split: if_splits)

end
