(* ===== verification/Applications.thy ===== *)
theory Applications
  imports Slugs AdminPermissions
begin

text \<open>
  Applications and their modules: packages/server/src/applications/slugs.ts, cache.ts, repository.ts
  and service.ts. \<open>mapRowToApplication\<close> and \<open>mapRowToModule\<close> rename columns, and the cache restores
  both dates, so a row and its \<open>Application\<close> are one record here. A row lock (\<open>FOR UPDATE\<close>) makes
  the captured deletion one atomic step.

  \<open>service_env\<close> is what one call of an administrative service takes from outside: the clock and
  the identifier \<open>gen_random_uuid()\<close> gives the row it inserts; \<open>sv_collate\<close> maps a text to the key
  by which the database's collation orders it.
\<close>

record service_env =
  sv_now :: time
  sv_new_id :: string
  sv_collate :: "string \<Rightarrow> string"

subsection \<open>Slugs\<close>

definition reserved_application_slugs :: "string list" where
  "reserved_application_slugs = [''admin'', ''api'', ''system'', ''internal'', ''default'', ''health'',
     ''status'']"

definition validate_application_slug :: "string \<Rightarrow> slug_error option" where
  "validate_application_slug s =
     (if length s < 3 then Some SlugTooShort
      else if length s > 100 then Some SlugTooLong
      else if \<not> slug_regex s then Some SlugFormat
      else if s \<in> set reserved_application_slugs then Some SlugReserved
      else None)"

definition require_application_slug :: "string \<Rightarrow> (flow, unit) op" where
  "require_application_slug slug =
     (case validate_application_slug slug of
        Some e \<Rightarrow> throw_op (ApplicationValidationError (slug_error_message slug e))
      | None \<Rightarrow> return_op ())"

subsection \<open>Cache\<close>

definition app_cache_ttl :: int where
  "app_cache_ttl = 300"

definition app_slug_key :: "string \<Rightarrow> string" where
  "app_slug_key slug = ''app:slug:'' @ slug"

definition app_id_key :: "string \<Rightarrow> string" where
  "app_id_key i = ''app:id:'' @ i"

definition deserialize_application :: "redis_value \<Rightarrow> application_row option" where
  "deserialize_application v = (case v of JsonApplication a \<Rightarrow> Some a | _ \<Rightarrow> None)"

definition cached_application :: "time \<Rightarrow> string \<Rightarrow> store \<Rightarrow> application_row option" where
  "cached_application now key st =
     (if st_redis_up st
      then (case redis_live now (st_redis st) key of
              None \<Rightarrow> None
            | Some v \<Rightarrow> deserialize_application v)
      else None)"

definition get_cached_application_by_slug :: "time \<Rightarrow> string \<Rightarrow> store \<Rightarrow> application_row option" where
  "get_cached_application_by_slug now slug = cached_application now (app_slug_key slug)"

definition get_cached_application_by_id :: "time \<Rightarrow> string \<Rightarrow> store \<Rightarrow> application_row option" where
  "get_cached_application_by_id now i = cached_application now (app_id_key i)"

definition cache_application :: "time \<Rightarrow> application_row \<Rightarrow> (flow, unit) op" where
  "cache_application now a = after_database_commit (best_effort_redis (\<lambda>r.
     redis_set_ex now (app_id_key (ap_id a)) (JsonApplication a) app_cache_ttl
       (redis_set_ex now (app_slug_key (ap_slug a)) (JsonApplication a) app_cache_ttl r)))"

definition invalidate_application_cache :: "string \<Rightarrow> string \<Rightarrow> (flow, unit) op" where
  "invalidate_application_cache slug i = after_database_commit (best_effort_redis (\<lambda>r.
     redis_del_all [app_slug_key slug, app_id_key i] r))"

subsection \<open>Repository: applications\<close>

record insert_application_data =
  ia_name :: string
  ia_slug :: string
  ia_description :: "string option"

definition inserted_application :: "service_env \<Rightarrow> insert_application_data \<Rightarrow> application_row" where
  "inserted_application env data = \<lparr>ap_id = sv_new_id env, ap_name = ia_name data,
     ap_slug = ia_slug data, ap_description = ia_description data, ap_status = RecordActive,
     ap_created_at = sv_now env, ap_updated_at = sv_now env\<rparr>"

definition insert_application ::
    "service_env \<Rightarrow> insert_application_data \<Rightarrow> (db, application_row) op" where
  "insert_application env data d =
     (if row_exists (\<lambda>a. ap_id a = sv_new_id env \<or> ap_slug a = ia_slug data) (db_applications d)
      then (Inl UniqueViolation, d)
      else (let row = inserted_application env data
            in (Inr row, d\<lparr>db_applications := db_applications d @ [row]\<rparr>)))"

definition find_application_by_id :: "string \<Rightarrow> db \<Rightarrow> application_row option" where
  "find_application_by_id i d = find_row (\<lambda>a. ap_id a = i) (db_applications d)"

definition find_application_by_slug :: "string \<Rightarrow> db \<Rightarrow> application_row option" where
  "find_application_by_slug slug d = find_row (\<lambda>a. ap_slug a = slug) (db_applications d)"

text \<open>\<open>UpdateApplicationData\<close> and \<open>UpdateModuleData\<close> have the same three columns; a description
  may be set to \<open>null\<close>.\<close>

record update_record_data =
  up_name :: "string option"
  up_status :: "record_status option"
  up_description :: "string option option"

definition no_record_update :: update_record_data where
  "no_record_update = \<lparr>up_name = None, up_status = None, up_description = None\<rparr>"

definition apply_application_update ::
    "time \<Rightarrow> update_record_data \<Rightarrow> application_row \<Rightarrow> application_row" where
  "apply_application_update now u a = a\<lparr>
     ap_name := nullish (up_name u) (ap_name a),
     ap_status := nullish (up_status u) (ap_status a),
     ap_description := nullish (up_description u) (ap_description a),
     ap_updated_at := max now (ap_updated_at a + 1)\<rparr>"

definition repo_update_application ::
    "time \<Rightarrow> string \<Rightarrow> update_record_data \<Rightarrow> (db, application_row) op" where
  "repo_update_application now i u d =
     (if u = no_record_update then (Inl (JsError ''No fields to update''), d)
      else (case find_application_by_id i d of
              None \<Rightarrow> (Inl (JsError ''Application not found''), d)
            | Some a \<Rightarrow>
                (Inr (apply_application_update now u a), d\<lparr>db_applications :=
                   update_where (\<lambda>x. ap_id x = i) (apply_application_update now u)
                     (db_applications d)\<rparr>)))"

definition application_slug_exists :: "string \<Rightarrow> string option \<Rightarrow> db \<Rightarrow> bool" where
  "application_slug_exists slug exclude d =
     (if truthy exclude
      then row_exists (\<lambda>a. ap_slug a = slug \<and> Some (ap_id a) \<noteq> exclude) (db_applications d)
      else row_exists (\<lambda>a. ap_slug a = slug) (db_applications d))"

subsection \<open>Repository: modules\<close>

record insert_module_data =
  im_application_id :: string
  im_name :: string
  im_slug :: string
  im_description :: "string option"

definition inserted_module :: "service_env \<Rightarrow> insert_module_data \<Rightarrow> module_row" where
  "inserted_module env data = \<lparr>mo_id = sv_new_id env, mo_application_id = im_application_id data,
     mo_name = im_name data, mo_slug = im_slug data, mo_description = im_description data,
     mo_status = RecordActive, mo_created_at = sv_now env, mo_updated_at = sv_now env\<rparr>"

definition insert_module :: "service_env \<Rightarrow> insert_module_data \<Rightarrow> (db, module_row) op" where
  "insert_module env data d =
     (if row_exists (\<lambda>m. mo_id m = sv_new_id env \<or>
           mo_application_id m = im_application_id data \<and> mo_slug m = im_slug data) (db_modules d)
      then (Inl UniqueViolation, d)
      else if \<not> row_exists (\<lambda>a. ap_id a = im_application_id data) (db_applications d)
      then (Inl ForeignKeyViolation, d)
      else (let row = inserted_module env data
            in (Inr row, d\<lparr>db_modules := db_modules d @ [row]\<rparr>)))"

definition find_module_by_id :: "string \<Rightarrow> string \<Rightarrow> db \<Rightarrow> module_row option" where
  "find_module_by_id app i d =
     find_row (\<lambda>m. mo_application_id m = app \<and> mo_id m = i) (db_modules d)"

definition apply_module_update :: "time \<Rightarrow> update_record_data \<Rightarrow> module_row \<Rightarrow> module_row" where
  "apply_module_update now u m = m\<lparr>
     mo_name := nullish (up_name u) (mo_name m),
     mo_status := nullish (up_status u) (mo_status m),
     mo_description := nullish (up_description u) (mo_description m),
     mo_updated_at := max now (mo_updated_at m + 1)\<rparr>"

definition repo_update_module ::
    "time \<Rightarrow> string \<Rightarrow> string \<Rightarrow> update_record_data \<Rightarrow> (db, module_row) op" where
  "repo_update_module now app i u d =
     (if u = no_record_update then (Inl (JsError ''No fields to update''), d)
      else (case find_module_by_id app i d of
              None \<Rightarrow> (Inl (JsError ''Module not found''), d)
            | Some m \<Rightarrow>
                (Inr (apply_module_update now u m), d\<lparr>db_modules :=
                   update_where (\<lambda>x. mo_application_id x = app \<and> mo_id x = i)
                     (apply_module_update now u) (db_modules d)\<rparr>)))"

definition list_modules :: "service_env \<Rightarrow> string \<Rightarrow> db \<Rightarrow> module_row list" where
  "list_modules env app d =
     sort_key (\<lambda>m. sv_collate env (mo_name m)) (filter (\<lambda>m. mo_application_id m = app) (db_modules d))"

definition module_slug_exists :: "string \<Rightarrow> string \<Rightarrow> string option \<Rightarrow> db \<Rightarrow> bool" where
  "module_slug_exists app slug exclude d =
     (if truthy exclude
      then row_exists (\<lambda>m. mo_application_id m = app \<and> mo_slug m = slug \<and>
             Some (mo_id m) \<noteq> exclude) (db_modules d)
      else row_exists (\<lambda>m. mo_application_id m = app \<and> mo_slug m = slug) (db_modules d))"

subsection \<open>Reading\<close>

definition admin_application_slug :: string where
  "admin_application_slug = ''porta-admin''"

definition app_event ::
    "string \<Rightarrow> string option \<Rightarrow> (string \<times> json) list \<Rightarrow> audit_entry" where
  "app_event event actor_id metadata =
     (blank_entry event ''admin'')\<lparr>ae_actor_id := actor_id, ae_metadata := Some (JObj metadata)\<rparr>"

text \<open>The cache-first read both getters share.\<close>

definition read_application ::
    "time \<Rightarrow> (store \<Rightarrow> application_row option) \<Rightarrow> (db \<Rightarrow> application_row option) \<Rightarrow>
     (flow, application_row option) op" where
  "read_application now cached lookup f =
     (case cached (fl_store f) of
        Some a \<Rightarrow> (Inr (Some a), f)
      | None \<Rightarrow>
          (case lookup (flow_db f) of
             None \<Rightarrow> (Inr None, f)
           | Some a \<Rightarrow> andthen (cache_application now a) (\<lambda>_. return_op (Some a)) f))"

definition get_application_by_id :: "service_env \<Rightarrow> string \<Rightarrow> (flow, application_row option) op" where
  "get_application_by_id env i =
     read_application (sv_now env) (get_cached_application_by_id (sv_now env) i)
       (find_application_by_id i)"

definition get_application_by_slug :: "service_env \<Rightarrow> string \<Rightarrow> (flow, application_row option) op" where
  "get_application_by_slug env slug =
     read_application (sv_now env) (get_cached_application_by_slug (sv_now env) slug)
       (find_application_by_slug slug)"

text \<open>The guard in front of every mutation: Porta's own application is fixed.\<close>

definition canonical_application_error :: app_error where
  "canonical_application_error =
     ApplicationValidationError ''Canonical Porta Admin application cannot be modified''"

definition require_mutable_application :: "service_env \<Rightarrow> string \<Rightarrow> (flow, unit) op" where
  "require_mutable_application env i =
     andthen (get_application_by_slug env admin_application_slug) (\<lambda>canonical.
     unless_throw (map_option ap_id canonical \<noteq> Some i) canonical_application_error)"

subsection \<open>Create and update\<close>

record create_record_input =
  ci_name :: string
  ci_slug :: "string option"
  ci_description :: "string option"

definition create_application ::
    "service_env \<Rightarrow> create_record_input \<Rightarrow> string option \<Rightarrow> (flow, application_row) op" where
  "create_application env input actor_id =
     (let slug = nullish (ci_slug input) (generate_slug (ci_name input))
      in andthen (require_application_slug slug) (\<lambda>_.
         andthen (query (select (application_slug_exists slug None))) (\<lambda>taken.
         andthen (unless_throw (\<not> taken) (ApplicationValidationError ''Slug already in use'')) (\<lambda>_.
         andthen (query (insert_application env \<lparr>ia_name = ci_name input, ia_slug = slug,
             ia_description = ci_description input\<rparr>)) (\<lambda>app.
         andthen (cache_application (sv_now env) app) (\<lambda>_.
         andthen (write_audit_log (app_event ''app.created'' actor_id
             [(''applicationId'', JStr (ap_id app)), (''slug'', JStr (ap_slug app)),
              (''name'', JStr (ap_name app))])) (\<lambda>_.
         return_op app)))))))"

record update_record_input =
  ui_name :: "string option"
  ui_description :: "string option option"

definition record_update_data :: "update_record_input \<Rightarrow> update_record_data" where
  "record_update_data input =
     \<lparr>up_name = ui_name input, up_status = None, up_description = ui_description input\<rparr>"

definition record_update_keys :: "update_record_data \<Rightarrow> string list" where
  "record_update_keys u =
     (if up_name u = None then [] else [''name'']) @
     (if up_description u = None then [] else [''description''])"

definition application_not_found :: "string \<Rightarrow> app_error \<Rightarrow> (flow, 'a) op" where
  "application_not_found i e =
     throw_op (if e = JsError ''Application not found'' then ApplicationNotFoundError i else e)"

definition update_application ::
    "service_env \<Rightarrow> string \<Rightarrow> update_record_input \<Rightarrow> string option \<Rightarrow> (flow, application_row) op" where
  "update_application env i input actor_id =
     andthen (require_mutable_application env i) (\<lambda>_.
     let u = record_update_data input
     in andthen (catch_op (query (repo_update_application (sv_now env) i u))
            (application_not_found i)) (\<lambda>app.
        andthen (invalidate_application_cache (ap_slug app) (ap_id app)) (\<lambda>_.
        andthen (cache_application (sv_now env) app) (\<lambda>_.
        andthen (write_audit_log (app_event ''app.updated'' actor_id
            [(''applicationId'', JStr (ap_id app)),
             (''fields'', JArr (map JStr (record_update_keys u)))])) (\<lambda>_.
        return_op app)))))"

subsection \<open>Status\<close>

definition record_status_name :: "record_status \<Rightarrow> string" where
  "record_status_name s = (case s of RecordActive \<Rightarrow> ''active'' | RecordInactive \<Rightarrow> ''inactive'')"

definition load_app_for_status_change :: "string \<Rightarrow> (flow, application_row) op" where
  "load_app_for_status_change i =
     andthen (query (select (find_application_by_id i))) (\<lambda>app.
       case app of None \<Rightarrow> throw_op (ApplicationNotFoundError i) | Some a \<Rightarrow> return_op a)"

text \<open>The body \<open>activateApplication\<close> and \<open>deactivateApplication\<close> share.\<close>

definition change_application_status ::
    "service_env \<Rightarrow> record_status \<Rightarrow> record_status \<Rightarrow> string \<Rightarrow> string \<Rightarrow> string \<Rightarrow> string option \<Rightarrow>
     (flow, unit) op" where
  "change_application_status env expected target verb event i actor_id =
     andthen (require_mutable_application env i) (\<lambda>_.
     andthen (load_app_for_status_change i) (\<lambda>app.
     andthen (unless_throw (ap_status app = expected) (ApplicationValidationError
         (''Cannot '' @ verb @ '' application from status: '' @ record_status_name (ap_status app)))) (\<lambda>_.
     andthen (query (repo_update_application (sv_now env) i
         (no_record_update\<lparr>up_status := Some target\<rparr>))) (\<lambda>_.
     andthen (invalidate_application_cache (ap_slug app) (ap_id app)) (\<lambda>_.
     write_audit_log (app_event event actor_id [(''applicationId'', JStr (ap_id app))]))))))"

definition deactivate_application :: "service_env \<Rightarrow> string \<Rightarrow> string option \<Rightarrow> (flow, unit) op" where
  "deactivate_application env =
     change_application_status env RecordActive RecordInactive ''deactivate'' ''app.deactivated''"

definition activate_application :: "service_env \<Rightarrow> string \<Rightarrow> string option \<Rightarrow> (flow, unit) op" where
  "activate_application env =
     change_application_status env RecordInactive RecordActive ''activate'' ''app.activated''"

subsection \<open>Modules\<close>

definition create_module ::
    "service_env \<Rightarrow> string \<Rightarrow> create_record_input \<Rightarrow> string option \<Rightarrow> (flow, module_row) op" where
  "create_module env app_id input actor_id =
     andthen (require_mutable_application env app_id) (\<lambda>_.
     andthen (load_app_for_status_change app_id) (\<lambda>_.
     let slug = nullish (ci_slug input) (generate_slug (ci_name input))
     in andthen (require_application_slug slug) (\<lambda>_.
        andthen (query (select (module_slug_exists app_id slug None))) (\<lambda>taken.
        andthen (unless_throw (\<not> taken)
            (ApplicationValidationError ''Module slug already in use within this application'')) (\<lambda>_.
        andthen (query (insert_module env \<lparr>im_application_id = app_id, im_name = ci_name input,
            im_slug = slug, im_description = ci_description input\<rparr>)) (\<lambda>m.
        andthen (write_audit_log (app_event ''app.module.created'' actor_id
            [(''applicationId'', JStr app_id), (''moduleId'', JStr (mo_id m)),
             (''slug'', JStr (mo_slug m)), (''name'', JStr (mo_name m))])) (\<lambda>_.
        return_op m)))))))"

definition load_owned_module :: "string \<Rightarrow> string \<Rightarrow> (flow, module_row) op" where
  "load_owned_module app_id i =
     andthen (query (select (find_module_by_id app_id i))) (\<lambda>m.
       case m of
         None \<Rightarrow> throw_op (ApplicationNotFoundError i)
       | Some x \<Rightarrow> (if mo_application_id x \<noteq> app_id then throw_op (ApplicationNotFoundError i)
                    else return_op x))"

definition module_not_found :: "string \<Rightarrow> app_error \<Rightarrow> (flow, 'a) op" where
  "module_not_found i e =
     throw_op (if e = JsError ''Module not found'' then ApplicationNotFoundError i else e)"

definition update_module ::
    "service_env \<Rightarrow> string \<Rightarrow> string \<Rightarrow> update_record_input \<Rightarrow> string option \<Rightarrow> (flow, module_row) op" where
  "update_module env app_id i input actor_id =
     andthen (require_mutable_application env app_id) (\<lambda>_.
     andthen (load_owned_module app_id i) (\<lambda>_.
     let u = record_update_data input
     in andthen (catch_op (query (repo_update_module (sv_now env) app_id i u)) (module_not_found i)) (\<lambda>m.
        andthen (write_audit_log (app_event ''app.module.updated'' actor_id
            [(''moduleId'', JStr (mo_id m)), (''applicationId'', JStr (mo_application_id m)),
             (''fields'', JArr (map JStr (record_update_keys u)))])) (\<lambda>_.
        return_op m))))"

text \<open>The body \<open>activateModule\<close> and \<open>deactivateModule\<close> share.\<close>

definition change_module_status ::
    "service_env \<Rightarrow> record_status \<Rightarrow> record_status \<Rightarrow> string \<Rightarrow> string \<Rightarrow> string \<Rightarrow> string \<Rightarrow>
     string option \<Rightarrow> (flow, unit) op" where
  "change_module_status env expected target verb event app_id i actor_id =
     andthen (require_mutable_application env app_id) (\<lambda>_.
     andthen (load_owned_module app_id i) (\<lambda>m.
     andthen (unless_throw (mo_status m = expected) (ApplicationValidationError
         (''Cannot '' @ verb @ '' module from status: '' @ record_status_name (mo_status m)))) (\<lambda>_.
     andthen (query (repo_update_module (sv_now env) app_id i
         (no_record_update\<lparr>up_status := Some target\<rparr>))) (\<lambda>_.
     write_audit_log (app_event event actor_id
       [(''moduleId'', JStr (mo_id m)), (''applicationId'', JStr (mo_application_id m))])))))"

definition deactivate_module ::
    "service_env \<Rightarrow> string \<Rightarrow> string \<Rightarrow> string option \<Rightarrow> (flow, unit) op" where
  "deactivate_module env =
     change_module_status env RecordActive RecordInactive ''deactivate'' ''app.module.deactivated''"

definition activate_module ::
    "service_env \<Rightarrow> string \<Rightarrow> string \<Rightarrow> string option \<Rightarrow> (flow, unit) op" where
  "activate_module env =
     change_module_status env RecordInactive RecordActive ''activate'' ''app.module.activated''"


text \<open>
  Deleting an application or a module (packages/server/src/applications/repository.ts and
  service.ts): the captured authority graph, the revocation of sessions and OIDC payloads, the
  physical delete with the foreign-key actions of the migrations, and the cleanup after the commit.
\<close>

definition opt_in :: "string option \<Rightarrow> string list \<Rightarrow> bool" where
  "opt_in v xs = (case v of None \<Rightarrow> False | Some x \<Rightarrow> x \<in> set xs)"

lemma opt_in_simps [simp]: "opt_in None xs = False" "opt_in (Some x) xs = (x \<in> set xs)"
  by (simp_all add: opt_in_def)

subsection \<open>Capture\<close>

record application_graph =
  ag_user_ids :: "string list"
  ag_client_ids :: "string list"
  ag_public_client_ids :: "string list"
  ag_grant_ids :: "string list"
  ag_module_ids :: "string list"
  ag_role_ids :: "string list"
  ag_permission_ids :: "string list"
  ag_claim_ids :: "string list"

definition affected_users_of_application :: "string \<Rightarrow> db \<Rightarrow> string list" where
  "affected_users_of_application i d = remdups
     (map ul_user_id (filter (\<lambda>a. row_exists (\<lambda>ro. ro_id ro = ul_role_id a \<and>
        ro_application_id ro = i) (db_roles d)) (db_user_roles d)) @
      map cv_user_id (filter (\<lambda>v. row_exists (\<lambda>c. cd_id c = cv_claim_id v \<and>
        cd_application_id c = i) (db_claim_definitions d)) (db_claim_values d)))"

definition capture_application_graph :: "string \<Rightarrow> db \<Rightarrow> application_graph" where
  "capture_application_graph i d =
     (let owned = filter (\<lambda>c. cl_application_id c = i) (db_clients d);
          public = map cl_client_id owned
      in \<lparr>ag_user_ids = sort (affected_users_of_application i d),
          ag_client_ids = sort (map cl_id owned),
          ag_public_client_ids = sort public,
          ag_grant_ids = sort (remdups (map pl_id (filter (\<lambda>p. pl_type p = ''Grant'' \<and>
             opt_in (pl_client_id p) public) (db_oidc_payloads d)))),
          ag_module_ids = sort (map mo_id (filter (\<lambda>m. mo_application_id m = i) (db_modules d))),
          ag_role_ids = sort (map ro_id (filter (\<lambda>ro. ro_application_id ro = i) (db_roles d))),
          ag_permission_ids =
             sort (map pm_id (filter (\<lambda>p. pm_application_id p = i) (db_permissions d))),
          ag_claim_ids =
             sort (map cd_id (filter (\<lambda>c. cd_application_id c = i) (db_claim_definitions d)))\<rparr>)"

definition capture_application_for_deletion ::
    "string \<Rightarrow> db \<Rightarrow> (application_row \<times> application_graph) option" where
  "capture_application_for_deletion i d =
     map_option (\<lambda>a. (a, capture_application_graph i d)) (find_application_by_id i d)"

record module_graph =
  mg_user_ids :: "string list"
  mg_permission_ids :: "string list"
  mg_role_ids :: "string list"
  mg_grant_ids :: "string list"

definition capture_module_graph :: "string \<Rightarrow> string \<Rightarrow> db \<Rightarrow> module_graph" where
  "capture_module_graph app i d =
     (let permissions = map pm_id (filter (\<lambda>p. pm_module_id p = Some i) (db_permissions d));
          roles = remdups (map rl_role_id
            (filter (\<lambda>l. rl_permission_id l \<in> set permissions) (db_role_permissions d)));
          users = remdups (map ul_user_id
            (filter (\<lambda>a. ul_role_id a \<in> set roles) (db_user_roles d)));
          public = map cl_client_id (filter (\<lambda>c. cl_application_id c = app) (db_clients d))
      in \<lparr>mg_user_ids = sort users, mg_permission_ids = sort permissions, mg_role_ids = sort roles,
          mg_grant_ids = sort (map pl_id (filter (\<lambda>p. pl_type p = ''Grant'' \<and>
             opt_in (pl_account_id p) users \<and> opt_in (pl_client_id p) public)
             (db_oidc_payloads d)))\<rparr>)"

definition capture_module_for_deletion ::
    "string \<Rightarrow> string \<Rightarrow> db \<Rightarrow> (module_row \<times> module_graph) option" where
  "capture_module_for_deletion app i d =
     map_option (\<lambda>m. (m, capture_module_graph app i d)) (find_module_by_id app i d)"

subsection \<open>Physical deletion\<close>

text \<open>\<open>ON DELETE CASCADE\<close> of migrations 003, 004, 006, 007 and 025, \<open>SET NULL\<close> of 036.\<close>

definition delete_roles_cascade :: "string list \<Rightarrow> db \<Rightarrow> db" where
  "delete_roles_cascade roles d = d\<lparr>
     db_roles := delete_where (\<lambda>ro. ro_id ro \<in> set roles) (db_roles d),
     db_role_permissions := delete_where (\<lambda>l. rl_role_id l \<in> set roles) (db_role_permissions d),
     db_user_roles := delete_where (\<lambda>a. ul_role_id a \<in> set roles) (db_user_roles d)\<rparr>"

definition delete_permissions_cascade :: "string list \<Rightarrow> db \<Rightarrow> db" where
  "delete_permissions_cascade permissions d = d\<lparr>
     db_permissions := delete_where (\<lambda>p. pm_id p \<in> set permissions) (db_permissions d),
     db_role_permissions :=
       delete_where (\<lambda>l. rl_permission_id l \<in> set permissions) (db_role_permissions d)\<rparr>"

definition delete_clients_cascade :: "(client_row \<Rightarrow> bool) \<Rightarrow> db \<Rightarrow> db" where
  "delete_clients_cascade P d =
     (let gone = map cl_id (filter P (db_clients d))
      in d\<lparr>db_clients := delete_where P (db_clients d),
           db_client_secrets :=
             delete_where (\<lambda>s. cs_client_id s \<in> set gone) (db_client_secrets d)\<rparr>)"

definition delete_claims_cascade :: "string list \<Rightarrow> db \<Rightarrow> db" where
  "delete_claims_cascade claims d = d\<lparr>
     db_claim_definitions := delete_where (\<lambda>c. cd_id c \<in> set claims) (db_claim_definitions d),
     db_claim_values := delete_where (\<lambda>v. cv_claim_id v \<in> set claims) (db_claim_values d)\<rparr>"

definition delete_captured_application :: "string \<Rightarrow> db \<Rightarrow> db" where
  "delete_captured_application i d =
     (if \<not> row_exists (\<lambda>a. ap_id a = i) (db_applications d) then d
      else (let g = capture_application_graph i d;
                d1 = delete_claims_cascade (ag_claim_ids g)
                  (delete_clients_cascade (\<lambda>c. cl_application_id c = i)
                    (delete_permissions_cascade (ag_permission_ids g)
                      (delete_roles_cascade (ag_role_ids g) d)))
            in d1\<lparr>db_applications := delete_where (\<lambda>a. ap_id a = i) (db_applications d1),
                  db_modules := delete_where (\<lambda>m. mo_application_id m = i) (db_modules d1),
                  db_invitation_tokens := map (\<lambda>t. t\<lparr>iv_application_id :=
                    null_if i (iv_application_id t)\<rparr>) (db_invitation_tokens d1)\<rparr>))"

definition delete_application_repo ::
    "string \<Rightarrow> (db, (application_row \<times> application_graph) option) op" where
  "delete_application_repo i d =
     (case capture_application_for_deletion i d of
        None \<Rightarrow> (Inr None, d)
      | Some c \<Rightarrow> (Inr (Some c), delete_captured_application i d))"

definition delete_captured_module :: "string \<Rightarrow> string \<Rightarrow> db \<Rightarrow> db" where
  "delete_captured_module app i d =
     (let gone = filter (\<lambda>m. mo_application_id m = app \<and> mo_id m = i) (db_modules d);
          permissions = map pm_id (filter (\<lambda>p. opt_in (pm_module_id p) (map mo_id gone))
            (db_permissions d))
      in (delete_permissions_cascade permissions d)\<lparr>db_modules :=
           delete_where (\<lambda>m. mo_application_id m = app \<and> mo_id m = i) (db_modules d)\<rparr>)"

definition delete_module_repo ::
    "string \<Rightarrow> string \<Rightarrow> (db, (module_row \<times> module_graph) option) op" where
  "delete_module_repo app i d =
     (case capture_module_for_deletion app i d of
        None \<Rightarrow> (Inr None, d)
      | Some c \<Rightarrow> (Inr (Some c), delete_captured_module app i d))"

subsection \<open>Services\<close>

definition delete_application_payloads :: "application_graph \<Rightarrow> db \<Rightarrow> db" where
  "delete_application_payloads g d = d\<lparr>db_oidc_payloads :=
     delete_where (\<lambda>p. pl_id p \<in> set (ag_grant_ids g) \<or> opt_in (pl_grant_id p) (ag_grant_ids g) \<or>
       opt_in (pl_client_id p) (ag_public_client_ids g) \<or> opt_in (pl_account_id p) (ag_user_ids g))
       (db_oidc_payloads d)\<rparr>"

definition app_cleanup_descriptor ::
    "application_row \<Rightarrow> application_graph \<Rightarrow> deletion_cleanup_descriptor" where
  "app_cleanup_descriptor a g = \<lparr>
     dd_resource = RApplication, dd_target_id = ap_id a, dd_target_slug = Some (ap_slug a),
     dd_parent_id = None, dd_user_ids = ag_user_ids g, dd_client_ids = ag_client_ids g,
     dd_public_client_ids = ag_public_client_ids g, dd_grant_ids = ag_grant_ids g,
     dd_role_ids = ag_role_ids g, dd_permission_ids = ag_permission_ids g,
     dd_claim_ids = ag_claim_ids g, dd_application_ids = [ap_id a]\<rparr>"

definition delete_application ::
    "service_env \<Rightarrow> string \<Rightarrow> string option \<Rightarrow> (flow, application_row \<times> application_graph) op" where
  "delete_application env i actor_id =
     andthen (require_mutable_application env i) (\<lambda>_.
     andthen (require_transaction ''Application deletion requires an active database transaction'') (\<lambda>_.
     andthen (query (select (capture_application_for_deletion i))) (\<lambda>capture.
       case capture of
         None \<Rightarrow> throw_op (ApplicationNotFoundError i)
       | Some (a, g) \<Rightarrow>
           andthen (unless_throw (ap_slug a \<noteq> admin_application_slug) canonical_application_error) (\<lambda>_.
           andthen (query (execute (revoke_admin_sessions (sv_now env) (ag_user_ids g)))) (\<lambda>_.
           andthen (query (execute (delete_application_payloads g))) (\<lambda>_.
           andthen (write_audit_log_in_transaction (app_event ''app.deleted'' actor_id
               [(''applicationId'', JStr (ap_id a)), (''slug'', JStr (ap_slug a)),
                (''status'', JStr (record_status_name (ap_status a)))])) (\<lambda>_.
           andthen (query (execute (delete_captured_application i))) (\<lambda>_.
           andthen (register_deletion_cleanup (sv_now env) (app_cleanup_descriptor a g)) (\<lambda>_.
           return_op (a, g)))))))))) "

definition module_cleanup_descriptor ::
    "string \<Rightarrow> module_row \<Rightarrow> module_graph \<Rightarrow> deletion_cleanup_descriptor" where
  "module_cleanup_descriptor app_id m g = \<lparr>
     dd_resource = RModule, dd_target_id = mo_id m, dd_target_slug = Some (mo_slug m),
     dd_parent_id = Some app_id, dd_user_ids = mg_user_ids g, dd_client_ids = [],
     dd_public_client_ids = [], dd_grant_ids = mg_grant_ids g, dd_role_ids = mg_role_ids g,
     dd_permission_ids = mg_permission_ids g, dd_claim_ids = [], dd_application_ids = [app_id]\<rparr>"

definition delete_module ::
    "service_env \<Rightarrow> string \<Rightarrow> string \<Rightarrow> string option \<Rightarrow> (flow, module_row \<times> module_graph) op" where
  "delete_module env app_id i actor_id =
     andthen (require_mutable_application env app_id) (\<lambda>_.
     andthen (require_transaction ''Module deletion requires an active database transaction'') (\<lambda>_.
     andthen (query (select (capture_module_for_deletion app_id i))) (\<lambda>capture.
       case capture of
         None \<Rightarrow> throw_op (ApplicationNotFoundError i)
       | Some (m, g) \<Rightarrow>
           andthen (query (execute (revoke_admin_sessions (sv_now env) (mg_user_ids g)))) (\<lambda>_.
           andthen (query (execute (delete_user_payloads (mg_grant_ids g) (mg_user_ids g)))) (\<lambda>_.
           andthen (write_audit_log_in_transaction (app_event ''app.module.deleted'' actor_id
               [(''applicationId'', JStr app_id), (''moduleId'', JStr i), (''slug'', JStr (mo_slug m)),
                (''status'', JStr (record_status_name (mo_status m)))])) (\<lambda>_.
           andthen (query (execute (delete_captured_module app_id i))) (\<lambda>_.
           andthen (register_deletion_cleanup (sv_now env) (module_cleanup_descriptor app_id m g)) (\<lambda>_.
           return_op (m, g)))))))))"

end
