(* ===== verification/RbacRepository.thy ===== *)
theory RbacRepository
  imports Applications
begin

text \<open>
  Roles, permissions and their join tables: packages/server/src/rbac/role-repository.ts,
  permission-repository.ts and mapping-repository.ts. The row mappers rename columns. A capture with
  its row locks is one atomic step; \<open>ORDER BY name\<close> uses the collation of the environment,
  \<open>ORDER BY id\<close> and JavaScript's \<open>sort\<close> the character order.
\<close>

subsection \<open>Roles\<close>

record create_role_input =
  cr_application_id :: string
  cr_name :: string
  cr_slug :: "string option"
  cr_description :: "string option"

record update_role_input =
  ur_set_name :: "string option"
  ur_set_slug :: "string option"
  ur_set_description :: "string option option"

definition no_role_update :: update_role_input where
  "no_role_update = \<lparr>ur_set_name = None, ur_set_slug = None, ur_set_description = None\<rparr>"

definition inserted_role :: "service_env \<Rightarrow> create_role_input \<Rightarrow> string \<Rightarrow> role_row" where
  "inserted_role env input slug = \<lparr>ro_id = sv_new_id env, ro_application_id = cr_application_id input,
     ro_name = cr_name input, ro_slug = slug, ro_description = cr_description input,
     ro_created_at = sv_now env, ro_updated_at = sv_now env\<rparr>"

definition insert_role :: "service_env \<Rightarrow> create_role_input \<Rightarrow> string \<Rightarrow> (db, role_row) op" where
  "insert_role env input slug d =
     (if row_exists (\<lambda>r. ro_id r = sv_new_id env \<or>
           ro_application_id r = cr_application_id input \<and> ro_slug r = slug) (db_roles d)
      then (Inl UniqueViolation, d)
      else if \<not> row_exists (\<lambda>a. ap_id a = cr_application_id input) (db_applications d)
      then (Inl ForeignKeyViolation, d)
      else (let row = inserted_role env input slug
            in (Inr row, d\<lparr>db_roles := db_roles d @ [row]\<rparr>)))"

definition repo_find_role_by_id :: "string \<Rightarrow> string \<Rightarrow> db \<Rightarrow> role_row option" where
  "repo_find_role_by_id app i d =
     find_row (\<lambda>r. ro_application_id r = app \<and> ro_id r = i) (db_roles d)"

definition lock_role_by_id :: "string \<Rightarrow> string \<Rightarrow> db \<Rightarrow> role_row option" where
  "lock_role_by_id = repo_find_role_by_id"

definition repo_find_role_by_slug :: "string \<Rightarrow> string \<Rightarrow> db \<Rightarrow> role_row option" where
  "repo_find_role_by_slug app slug d =
     find_row (\<lambda>r. ro_application_id r = app \<and> ro_slug r = slug) (db_roles d)"

definition apply_role_update :: "time \<Rightarrow> update_role_input \<Rightarrow> role_row \<Rightarrow> role_row" where
  "apply_role_update now u r = r\<lparr>
     ro_name := nullish (ur_set_name u) (ro_name r),
     ro_slug := nullish (ur_set_slug u) (ro_slug r),
     ro_description := nullish (ur_set_description u) (ro_description r),
     ro_updated_at := max now (ro_updated_at r + 1)\<rparr>"

definition repo_update_role ::
    "time \<Rightarrow> string \<Rightarrow> string \<Rightarrow> update_role_input \<Rightarrow> (db, role_row) op" where
  "repo_update_role now app i u d =
     (if u = no_role_update then (Inl (JsError ''No fields to update''), d)
      else (case repo_find_role_by_id app i d of
              None \<Rightarrow> (Inl (JsError ''Role not found''), d)
            | Some r \<Rightarrow>
                (if row_exists (\<lambda>x. ro_id x \<noteq> i \<and> ro_application_id x = app \<and>
                      ro_slug x = nullish (ur_set_slug u) (ro_slug r)) (db_roles d)
                 then (Inl UniqueViolation, d)
                 else (Inr (apply_role_update now u r), d\<lparr>db_roles :=
                   update_where (\<lambda>x. ro_application_id x = app \<and> ro_id x = i)
                     (apply_role_update now u) (db_roles d)\<rparr>))))"

definition list_roles_by_application :: "service_env \<Rightarrow> string \<Rightarrow> db \<Rightarrow> role_row list" where
  "list_roles_by_application env app d =
     sort_key (\<lambda>r. sv_collate env (ro_name r)) (filter (\<lambda>r. ro_application_id r = app) (db_roles d))"

definition role_slug_exists :: "string \<Rightarrow> string \<Rightarrow> string option \<Rightarrow> db \<Rightarrow> bool" where
  "role_slug_exists app slug exclude d =
     (if truthy exclude
      then row_exists (\<lambda>r. ro_application_id r = app \<and> ro_slug r = slug \<and>
             Some (ro_id r) \<noteq> exclude) (db_roles d)
      else row_exists (\<lambda>r. ro_application_id r = app \<and> ro_slug r = slug) (db_roles d))"

record role_capture =
  rc_role :: role_row
  rc_user_ids :: "string list"
  rc_permission_ids :: "string list"
  rc_grant_ids :: "string list"

text \<open>Grants of the named accounts on the clients of an application.\<close>

definition grants_in_application :: "string \<Rightarrow> string list \<Rightarrow> db \<Rightarrow> string list" where
  "grants_in_application app users d =
     sort (map pl_id (filter (\<lambda>p. pl_type p = ''Grant'' \<and> opt_in (pl_account_id p) users \<and>
       opt_in (pl_client_id p)
         (map cl_client_id (filter (\<lambda>c. cl_application_id c = app) (db_clients d))))
       (db_oidc_payloads d)))"

definition capture_role_for_deletion :: "string \<Rightarrow> string \<Rightarrow> db \<Rightarrow> role_capture option" where
  "capture_role_for_deletion app i d =
     map_option (\<lambda>r.
       let users = sort (map ul_user_id (filter (\<lambda>a. ul_role_id a = i) (db_user_roles d)))
       in \<lparr>rc_role = r, rc_user_ids = users,
           rc_permission_ids = sort (map rl_permission_id
             (filter (\<lambda>l. rl_role_id l = i) (db_role_permissions d))),
           rc_grant_ids = grants_in_application app users d\<rparr>)
       (repo_find_role_by_id app i d)"

definition delete_captured_role :: "string \<Rightarrow> string \<Rightarrow> db \<Rightarrow> db" where
  "delete_captured_role app i d =
     (if row_exists (\<lambda>r. ro_application_id r = app \<and> ro_id r = i) (db_roles d)
      then delete_roles_cascade [i] d else d)"

definition delete_role_repo :: "string \<Rightarrow> string \<Rightarrow> (db, role_capture option) op" where
  "delete_role_repo app i d =
     (case capture_role_for_deletion app i d of
        None \<Rightarrow> (Inr None, d)
      | Some c \<Rightarrow> (Inr (Some c), delete_captured_role app i d))"

subsection \<open>Permissions\<close>

record create_permission_input =
  cpi_application_id :: string
  cpi_module_id :: "string option"
  cpi_name :: string
  cpi_slug :: string
  cpi_description :: "string option"

record update_permission_input =
  upi_name :: "string option"
  upi_description :: "string option option"

definition no_permission_update :: update_permission_input where
  "no_permission_update = \<lparr>upi_name = None, upi_description = None\<rparr>"

definition inserted_permission :: "service_env \<Rightarrow> create_permission_input \<Rightarrow> string \<Rightarrow> permission_row" where
  "inserted_permission env input slug = \<lparr>pm_id = sv_new_id env,
     pm_application_id = cpi_application_id input, pm_module_id = cpi_module_id input,
     pm_name = cpi_name input, pm_slug = slug, pm_description = cpi_description input,
     pm_created_at = sv_now env\<rparr>"

definition insert_permission ::
    "service_env \<Rightarrow> create_permission_input \<Rightarrow> string \<Rightarrow> (db, permission_row) op" where
  "insert_permission env input slug d =
     (if row_exists (\<lambda>p. pm_id p = sv_new_id env \<or>
           pm_application_id p = cpi_application_id input \<and> pm_slug p = slug) (db_permissions d)
      then (Inl UniqueViolation, d)
      else if \<not> row_exists (\<lambda>a. ap_id a = cpi_application_id input) (db_applications d) \<or>
        (case cpi_module_id input of None \<Rightarrow> False
         | Some m \<Rightarrow> \<not> row_exists (\<lambda>x. mo_id x = m) (db_modules d))
      then (Inl ForeignKeyViolation, d)
      else (let row = inserted_permission env input slug
            in (Inr row, d\<lparr>db_permissions := db_permissions d @ [row]\<rparr>)))"

definition find_permission_by_id :: "string \<Rightarrow> string \<Rightarrow> db \<Rightarrow> permission_row option" where
  "find_permission_by_id app i d =
     find_row (\<lambda>p. pm_application_id p = app \<and> pm_id p = i) (db_permissions d)"

definition lock_permission_by_id :: "string \<Rightarrow> string \<Rightarrow> db \<Rightarrow> permission_row option" where
  "lock_permission_by_id = find_permission_by_id"

definition find_permission_by_slug :: "string \<Rightarrow> string \<Rightarrow> db \<Rightarrow> permission_row option" where
  "find_permission_by_slug app slug d =
     find_row (\<lambda>p. pm_application_id p = app \<and> pm_slug p = slug) (db_permissions d)"

definition apply_permission_update :: "update_permission_input \<Rightarrow> permission_row \<Rightarrow> permission_row" where
  "apply_permission_update u p = p\<lparr>
     pm_name := nullish (upi_name u) (pm_name p),
     pm_description := nullish (upi_description u) (pm_description p)\<rparr>"

definition repo_update_permission ::
    "string \<Rightarrow> string \<Rightarrow> update_permission_input \<Rightarrow> (db, permission_row) op" where
  "repo_update_permission app i u d =
     (if u = no_permission_update then (Inl (JsError ''No fields to update''), d)
      else (case find_permission_by_id app i d of
              None \<Rightarrow> (Inl (JsError ''Permission not found''), d)
            | Some p \<Rightarrow>
                (Inr (apply_permission_update u p), d\<lparr>db_permissions :=
                   update_where (\<lambda>x. pm_application_id x = app \<and> pm_id x = i)
                     (apply_permission_update u) (db_permissions d)\<rparr>)))"

definition lock_permission_module :: "string \<Rightarrow> string \<Rightarrow> db \<Rightarrow> bool" where
  "lock_permission_module app m d =
     (length (filter (\<lambda>x. mo_application_id x = app \<and> mo_id x = m) (db_modules d)) = 1)"

record permission_capture =
  pc_permission :: permission_row
  pc_user_ids :: "string list"
  pc_role_ids :: "string list"
  pc_grant_ids :: "string list"

definition capture_permission_for_deletion ::
    "string \<Rightarrow> string \<Rightarrow> db \<Rightarrow> permission_capture option" where
  "capture_permission_for_deletion app i d =
     map_option (\<lambda>p.
       let roles = map rl_role_id (filter (\<lambda>l. rl_permission_id l = i \<and>
             row_exists (\<lambda>r. ro_id r = rl_role_id l \<and> ro_application_id r = app) (db_roles d))
             (db_role_permissions d));
           users = sort (remdups (map ul_user_id
             (filter (\<lambda>a. ul_role_id a \<in> set roles) (db_user_roles d))))
       in \<lparr>pc_permission = p, pc_user_ids = users, pc_role_ids = sort roles,
           pc_grant_ids = grants_in_application app users d\<rparr>)
       (find_permission_by_id app i d)"

definition delete_captured_permission :: "string \<Rightarrow> string \<Rightarrow> db \<Rightarrow> db" where
  "delete_captured_permission app i d =
     (if row_exists (\<lambda>p. pm_application_id p = app \<and> pm_id p = i) (db_permissions d)
      then delete_permissions_cascade [i] d else d)"

definition delete_permission_repo :: "string \<Rightarrow> string \<Rightarrow> (db, permission_capture option) op" where
  "delete_permission_repo app i d =
     (case capture_permission_for_deletion app i d of
        None \<Rightarrow> (Inr None, d)
      | Some c \<Rightarrow> (Inr (Some c), delete_captured_permission app i d))"

definition list_permissions_by_application ::
    "service_env \<Rightarrow> string \<Rightarrow> string option \<Rightarrow> db \<Rightarrow> permission_row list" where
  "list_permissions_by_application env app module d =
     sort_key (\<lambda>p. sv_collate env (pm_slug p))
       (filter (\<lambda>p. pm_application_id p = app \<and> (truthy module \<longrightarrow> pm_module_id p = module))
          (db_permissions d))"

definition permission_slug_exists :: "string \<Rightarrow> string \<Rightarrow> db \<Rightarrow> bool" where
  "permission_slug_exists app slug d =
     row_exists (\<lambda>p. pm_application_id p = app \<and> pm_slug p = slug) (db_permissions d)"

subsection \<open>Role-permission mapping\<close>

definition grants_permission :: "string \<Rightarrow> string \<Rightarrow> db \<Rightarrow> bool" where
  "grants_permission r p d =
     row_exists (\<lambda>l. rl_role_id l = r \<and> rl_permission_id l = p) (db_role_permissions d)"

text \<open>The \<open>INSERT ... SELECT ... ON CONFLICT DO NOTHING RETURNING\<close>: the pairs that were new.\<close>

definition new_role_permissions :: "string \<Rightarrow> string \<Rightarrow> string list \<Rightarrow> db \<Rightarrow> string list" where
  "new_role_permissions app r ps d =
     (if repo_find_role_by_id app r d = None then []
      else map pm_id (filter (\<lambda>p. pm_application_id p = app \<and> pm_id p \<in> set ps \<and>
             \<not> grants_permission r (pm_id p) d) (db_permissions d)))"

definition repo_assign_permissions ::
    "string \<Rightarrow> string \<Rightarrow> string list \<Rightarrow> db \<Rightarrow> string list \<times> db" where
  "repo_assign_permissions app r ps d =
     (let new = new_role_permissions app r ps d
      in (new, d\<lparr>db_role_permissions := db_role_permissions d @
            map (\<lambda>p. \<lparr>rl_role_id = r, rl_permission_id = p\<rparr>) new\<rparr>))"

definition repo_remove_permissions ::
    "string \<Rightarrow> string \<Rightarrow> string list \<Rightarrow> db \<Rightarrow> string list \<times> db" where
  "repo_remove_permissions app r ps d =
     (let hit = (\<lambda>l. rl_role_id l = r \<and> rl_permission_id l \<in> set ps \<and>
            repo_find_role_by_id app r d \<noteq> None \<and>
            find_permission_by_id app (rl_permission_id l) d \<noteq> None)
      in (map rl_permission_id (filter hit (db_role_permissions d)),
          d\<lparr>db_role_permissions := delete_where hit (db_role_permissions d)\<rparr>))"

record role_permission_targets =
  rt_role :: "role_row option"
  rt_permissions :: "permission_row list"
  rt_assigned :: "string list"

definition lock_role_permission_targets ::
    "string \<Rightarrow> string \<Rightarrow> string list \<Rightarrow> db \<Rightarrow> role_permission_targets" where
  "lock_role_permission_targets app r ps d =
     (let ordered = sort (js_set ps);
          permissions = sort_key pm_id (filter (\<lambda>p. pm_application_id p = app \<and>
            pm_id p \<in> set ordered) (db_permissions d))
      in case repo_find_role_by_id app r d of
           None \<Rightarrow> \<lparr>rt_role = None, rt_permissions = [], rt_assigned = []\<rparr>
         | Some role \<Rightarrow>
             (if ordered = [] then \<lparr>rt_role = Some role, rt_permissions = [], rt_assigned = []\<rparr>
              else \<lparr>rt_role = Some role, rt_permissions = permissions,
                rt_assigned = sort (map rl_permission_id (filter (\<lambda>l. rl_role_id l = r \<and>
                  rl_permission_id l \<in> set ordered \<and>
                  find_permission_by_id app (rl_permission_id l) d \<noteq> None)
                  (db_role_permissions d)))\<rparr>))"

definition get_user_ids_for_role :: "string \<Rightarrow> string \<Rightarrow> db \<Rightarrow> string list" where
  "get_user_ids_for_role app r d =
     (if repo_find_role_by_id app r d = None then []
      else sort (remdups (map ul_user_id (filter (\<lambda>a. ul_role_id a = r) (db_user_roles d)))))"

definition get_permissions_for_role :: "service_env \<Rightarrow> string \<Rightarrow> string \<Rightarrow> db \<Rightarrow> permission_row list" where
  "get_permissions_for_role env app r d =
     (if repo_find_role_by_id app r d = None then []
      else sort_key (\<lambda>p. sv_collate env (pm_slug p)) (filter (\<lambda>p. pm_application_id p = app \<and>
             grants_permission r (pm_id p) d) (db_permissions d)))"

definition get_roles_with_permission :: "service_env \<Rightarrow> string \<Rightarrow> string \<Rightarrow> db \<Rightarrow> role_row list" where
  "get_roles_with_permission env app p d =
     (if find_permission_by_id app p d = None then []
      else sort_key (\<lambda>r. sv_collate env (ro_name r)) (filter (\<lambda>r. ro_application_id r = app \<and>
             grants_permission (ro_id r) p d) (db_roles d)))"

subsection \<open>User-role mapping\<close>

definition has_role :: "string \<Rightarrow> string \<Rightarrow> db \<Rightarrow> bool" where
  "has_role u r d = row_exists (\<lambda>a. ul_user_id a = u \<and> ul_role_id a = r) (db_user_roles d)"

definition user_in_organization :: "string \<Rightarrow> string \<Rightarrow> db \<Rightarrow> bool" where
  "user_in_organization org u d =
     row_exists (\<lambda>x. ur_organization_id x = org \<and> ur_id x = u) (db_users d)"

definition new_user_roles :: "string \<Rightarrow> string \<Rightarrow> string list \<Rightarrow> db \<Rightarrow> string list" where
  "new_user_roles org u roles d =
     (if \<not> user_in_organization org u d then []
      else map ro_id (filter (\<lambda>r. ro_id r \<in> set roles \<and> \<not> has_role u (ro_id r) d) (db_roles d)))"

definition repo_assign_roles ::
    "string \<Rightarrow> string \<Rightarrow> string list \<Rightarrow> string option \<Rightarrow> (db, string list) op" where
  "repo_assign_roles org u roles assigned_by d =
     (let new = new_user_roles org u roles d
      in if new \<noteq> [] \<and> (case assigned_by of None \<Rightarrow> False
             | Some a \<Rightarrow> \<not> row_exists (\<lambda>x. ur_id x = a) (db_users d))
         then (Inl ForeignKeyViolation, d)
         else (Inr new, d\<lparr>db_user_roles := db_user_roles d @
           map (\<lambda>r. \<lparr>ul_user_id = u, ul_role_id = r, ul_assigned_by = assigned_by\<rparr>) new\<rparr>))"

definition repo_remove_roles ::
    "string \<Rightarrow> string \<Rightarrow> string list \<Rightarrow> db \<Rightarrow> string list \<times> db" where
  "repo_remove_roles org u roles d =
     (let hit = (\<lambda>a. ul_user_id a = u \<and> ul_role_id a \<in> set roles \<and> user_in_organization org u d \<and>
            row_exists (\<lambda>r. ro_id r = ul_role_id a) (db_roles d))
      in (map ul_role_id (filter hit (db_user_roles d)),
          d\<lparr>db_user_roles := delete_where hit (db_user_roles d)\<rparr>))"

record user_role_targets =
  ut_user :: "(string \<times> user_status) option"
  ut_roles :: "role_row list"
  ut_assigned :: "string list"

definition lock_user_role_targets ::
    "string \<Rightarrow> string \<Rightarrow> string list \<Rightarrow> db \<Rightarrow> user_role_targets" where
  "lock_user_role_targets org u roles d =
     (case find_row (\<lambda>x. ur_organization_id x = org \<and> ur_id x = u) (db_users d) of
        None \<Rightarrow> \<lparr>ut_user = None, ut_roles = [], ut_assigned = []\<rparr>
      | Some x \<Rightarrow>
          (let ordered = sort (js_set roles)
           in if ordered = []
              then \<lparr>ut_user = Some (ur_id x, ur_status x), ut_roles = [], ut_assigned = []\<rparr>
              else \<lparr>ut_user = Some (ur_id x, ur_status x),
                ut_roles = sort_key ro_id (filter (\<lambda>r. ro_id r \<in> set ordered) (db_roles d)),
                ut_assigned = sort (map ul_role_id (filter (\<lambda>a. ul_user_id a = u \<and>
                  ul_role_id a \<in> set ordered) (db_user_roles d)))\<rparr>))"

text \<open>An absent application filter is \<open>None\<close>; the joins yield one row per assignment.\<close>

definition repo_get_roles_for_user ::
    "service_env \<Rightarrow> string \<Rightarrow> string option \<Rightarrow> db \<Rightarrow> role_row list" where
  "repo_get_roles_for_user env u app d =
     sort_key (\<lambda>r. sv_collate env (ro_name r)) (filter (\<lambda>r. has_role u (ro_id r) d \<and>
       (truthy app \<longrightarrow> Some (ro_application_id r) = app)) (db_roles d))"

definition get_roles_for_organization_user ::
    "service_env \<Rightarrow> string \<Rightarrow> string \<Rightarrow> string option \<Rightarrow> db \<Rightarrow> role_row list" where
  "get_roles_for_organization_user env org u app d =
     (if user_in_organization org u d then repo_get_roles_for_user env u app d else [])"

definition repo_get_permissions_for_user ::
    "service_env \<Rightarrow> string \<Rightarrow> string option \<Rightarrow> db \<Rightarrow> permission_row list" where
  "repo_get_permissions_for_user env u app d =
     sort_key (\<lambda>p. sv_collate env (pm_slug p)) (filter (\<lambda>p.
       row_exists (\<lambda>r. ro_application_id r = pm_application_id p \<and> has_role u (ro_id r) d \<and>
         grants_permission (ro_id r) (pm_id p) d) (db_roles d) \<and>
       (truthy app \<longrightarrow> Some (pm_application_id p) = app)) (db_permissions d))"

definition get_permissions_for_organization_user ::
    "service_env \<Rightarrow> string \<Rightarrow> string \<Rightarrow> string option \<Rightarrow> db \<Rightarrow> permission_row list" where
  "get_permissions_for_organization_user env org u app d =
     (if user_in_organization org u d then repo_get_permissions_for_user env u app d else [])"

end
