(* ===== verification/RbacService.thy ===== *)
theory RbacService
  imports RbacRepository
begin

text \<open>
  packages/server/src/rbac/cache.ts, role-service.ts and permission-service.ts: the role cache, the
  guards that keep Porta's own roles and permissions fixed, and the mutations of roles, permissions
  and their links. A reduction of authority revokes the affected users' sessions and OIDC state in
  the same transaction. \<open>void writeAuditLog(...)\<close> is the compatibility writer, whose row is written
  after the commit.
\<close>

subsection \<open>Cache\<close>

definition role_cache_ttl :: int where
  "role_cache_ttl = 300"

definition role_cache_key :: "string \<Rightarrow> string" where
  "role_cache_key i = ''rbac:role:'' @ i"

definition user_roles_cache_key :: "string \<Rightarrow> string" where
  "user_roles_cache_key u = ''rbac:user-roles:'' @ u"

definition user_permissions_cache_key :: "string \<Rightarrow> string" where
  "user_permissions_cache_key u = ''rbac:user-perms:'' @ u"

definition deserialize_role :: "redis_value \<Rightarrow> role_row option" where
  "deserialize_role v = (case v of JsonRole r \<Rightarrow> Some r | _ \<Rightarrow> None)"

definition get_cached_role :: "time \<Rightarrow> string \<Rightarrow> store \<Rightarrow> role_row option" where
  "get_cached_role now i st =
     (if st_redis_up st
      then (case redis_live now (st_redis st) (role_cache_key i) of
              None \<Rightarrow> None
            | Some v \<Rightarrow> deserialize_role v)
      else None)"

definition set_cached_role :: "time \<Rightarrow> role_row \<Rightarrow> (flow, unit) op" where
  "set_cached_role now r = after_database_commit (best_effort_redis
     (redis_set_ex now (role_cache_key (ro_id r)) (JsonRole r) role_cache_ttl))"

definition invalidate_role_cache :: "string \<Rightarrow> (flow, unit) op" where
  "invalidate_role_cache i = after_database_commit (best_effort_redis
     (redis_del_all [role_cache_key i]))"

text \<open>The two per-user arrays of slugs.\<close>

definition cached_slugs :: "time \<Rightarrow> string \<Rightarrow> store \<Rightarrow> json option" where
  "cached_slugs now key st =
     (if st_redis_up st
      then (case redis_live now (st_redis st) key of Some (JsonValue j) \<Rightarrow> Some j | _ \<Rightarrow> None)
      else None)"

definition get_cached_user_roles :: "time \<Rightarrow> string \<Rightarrow> store \<Rightarrow> json option" where
  "get_cached_user_roles now u = cached_slugs now (user_roles_cache_key u)"

definition get_cached_user_permissions :: "time \<Rightarrow> string \<Rightarrow> store \<Rightarrow> json option" where
  "get_cached_user_permissions now u = cached_slugs now (user_permissions_cache_key u)"

definition set_cached_user_roles :: "time \<Rightarrow> string \<Rightarrow> string list \<Rightarrow> (flow, unit) op" where
  "set_cached_user_roles now u slugs = after_database_commit (best_effort_redis
     (redis_set_ex now (user_roles_cache_key u) (JsonValue (JArr (map JStr slugs))) role_cache_ttl))"

definition set_cached_user_permissions :: "time \<Rightarrow> string \<Rightarrow> string list \<Rightarrow> (flow, unit) op" where
  "set_cached_user_permissions now u slugs = after_database_commit (best_effort_redis
     (redis_set_ex now (user_permissions_cache_key u) (JsonValue (JArr (map JStr slugs)))
        role_cache_ttl))"

definition invalidate_user_rbac_cache :: "string \<Rightarrow> (flow, unit) op" where
  "invalidate_user_rbac_cache u = after_database_commit (best_effort_redis
     (redis_del_all [user_roles_cache_key u, user_permissions_cache_key u]))"

definition invalidate_all_user_rbac_caches :: "(flow, unit) op" where
  "invalidate_all_user_rbac_caches = after_database_commit (best_effort_redis (\<lambda>r.
     redis_del_all (filter (\<lambda>k. prefix ''rbac:user-roles:'' k \<or> prefix ''rbac:user-perms:'' k)
       (map fst r)) r))"

subsection \<open>Guards\<close>

definition admin_role_slugs :: "string list" where
  "admin_role_slugs = js_set (map ar_slug all_admin_roles @ [legacy_admin_role])"

definition guard_canonical :: "service_env \<Rightarrow> string \<Rightarrow> string \<Rightarrow> (flow, unit) op" where
  "guard_canonical env app_id message =
     andthen (get_application_by_slug env admin_application_slug) (\<lambda>canonical.
     unless_throw (map_option ap_id canonical \<noteq> Some app_id) (RbacValidationError message))"

definition guard_canonical_admin_role :: "service_env \<Rightarrow> string \<Rightarrow> string \<Rightarrow> (flow, unit) op" where
  "guard_canonical_admin_role env app_id slug =
     (if slug \<notin> set admin_role_slugs then return_op ()
      else guard_canonical env app_id ''Canonical Porta Admin roles cannot be modified'')"

definition guard_canonical_admin_permissions ::
    "service_env \<Rightarrow> string \<Rightarrow> permission_row list \<Rightarrow> (flow, unit) op" where
  "guard_canonical_admin_permissions env app_id ps =
     (if \<not> list_ex (\<lambda>p. pm_slug p \<in> set all_admin_permissions) ps then return_op ()
      else guard_canonical env app_id ''Canonical Porta Admin permissions cannot be modified'')"

definition guard_canonical_admin_permission :: "service_env \<Rightarrow> string \<Rightarrow> string \<Rightarrow> (flow, unit) op" where
  "guard_canonical_admin_permission env app_id slug =
     (if slug \<notin> set all_admin_permissions then return_op ()
      else guard_canonical env app_id ''Canonical Porta Admin permissions cannot be modified'')"

definition rbac_event :: "string \<Rightarrow> string option \<Rightarrow> (string \<times> json) list \<Rightarrow> audit_entry" where
  "rbac_event event actor_id metadata =
     (blank_entry event ''admin'')\<lparr>ae_actor_id := actor_id, ae_metadata := Some (JObj metadata)\<rparr>"

definition invalid_role_slug :: app_error where
  "invalid_role_slug =
     RbacValidationError ''Invalid role slug. Must be 1-100 characters without control characters.''"

definition role_slug_taken :: "string \<Rightarrow> app_error" where
  "role_slug_taken slug =
     RbacValidationError (''Role slug \"'' @ slug @ ''\" already exists for this application.'')"

subsection \<open>Roles\<close>

definition create_role :: "service_env \<Rightarrow> create_role_input \<Rightarrow> string option \<Rightarrow> (flow, role_row) op" where
  "create_role env input actor_id =
     (let slug = normalize_rbac_slug (nullish (cr_slug input) (generate_role_slug (cr_name input)))
      in andthen (unless_throw (validate_role_slug slug) invalid_role_slug) (\<lambda>_.
         andthen (guard_canonical_admin_role env (cr_application_id input) slug) (\<lambda>_.
         andthen (query (select (role_slug_exists (cr_application_id input) slug None))) (\<lambda>taken.
         andthen (unless_throw (\<not> taken) (role_slug_taken slug)) (\<lambda>_.
         andthen (query (insert_role env input slug)) (\<lambda>role.
         andthen (set_cached_role (sv_now env) role) (\<lambda>_.
         andthen (write_audit_log (rbac_event ''role.created'' actor_id
             [(''roleId'', JStr (ro_id role)), (''applicationId'', JStr (ro_application_id role)),
              (''slug'', JStr (ro_slug role))])) (\<lambda>_.
         return_op role))))))))"

definition find_role_by_id :: "service_env \<Rightarrow> string \<Rightarrow> string \<Rightarrow> (flow, role_row option) op" where
  "find_role_by_id env app_id i f =
     (case get_cached_role (sv_now env) i (fl_store f) of
        Some r \<Rightarrow> (Inr (if ro_application_id r = app_id then Some r else None), f)
      | None \<Rightarrow>
          (case repo_find_role_by_id app_id i (flow_db f) of
             None \<Rightarrow> (Inr None, f)
           | Some r \<Rightarrow> andthen (set_cached_role (sv_now env) r) (\<lambda>_. return_op (Some r)) f))"

definition find_role_by_slug :: "string \<Rightarrow> string \<Rightarrow> (flow, role_row option) op" where
  "find_role_by_slug app_id slug = query (select (repo_find_role_by_slug app_id slug))"

definition role_changes :: "update_role_input \<Rightarrow> (string \<times> json) list" where
  "role_changes u =
     (case ur_set_name u of None \<Rightarrow> [] | Some n \<Rightarrow> [(''name'', JStr n)]) @
     (case ur_set_slug u of None \<Rightarrow> [] | Some s \<Rightarrow> [(''slug'', JStr s)]) @
     (case ur_set_description u of None \<Rightarrow> []
      | Some None \<Rightarrow> [(''description'', JNull)] | Some (Some t) \<Rightarrow> [(''description'', JStr t)])"

definition field_changed :: "'a option \<Rightarrow> 'a \<Rightarrow> bool" where
  "field_changed new old = (case new of None \<Rightarrow> False | Some x \<Rightarrow> x \<noteq> old)"

text \<open>The checks on a new slug; nothing is checked when the slug stays.\<close>

definition check_role_slug ::
    "service_env \<Rightarrow> string \<Rightarrow> string \<Rightarrow> string option \<Rightarrow> (flow, unit) op" where
  "check_role_slug env app_id i new_slug =
     (case new_slug of
        None \<Rightarrow> return_op ()
      | Some slug \<Rightarrow>
          andthen (guard_canonical_admin_role env app_id slug) (\<lambda>_.
          andthen (unless_throw (validate_role_slug slug) invalid_role_slug) (\<lambda>_.
          andthen (query (select (role_slug_exists app_id slug (Some i)))) (\<lambda>taken.
          unless_throw (\<not> taken) (role_slug_taken slug)))))"

definition authority_change :: "string list \<Rightarrow> string list \<Rightarrow> string list \<Rightarrow> bool \<Rightarrow>
    authority_cleanup_descriptor" where
  "authority_change users grants roles revoke = \<lparr>ad_user_ids = users, ad_grant_ids = grants,
     ad_role_ids = roles, ad_revoke_oidc_state = revoke\<rparr>"

definition update_role ::
    "service_env \<Rightarrow> string \<Rightarrow> string \<Rightarrow> update_role_input \<Rightarrow> string option \<Rightarrow>
     (flow, role_row \<times> bool) op" where
  "update_role env app_id i input actor_id =
     andthen (require_transaction ''Role update requires an active database transaction'') (\<lambda>_.
     andthen (query (select (lock_role_by_id app_id i))) (\<lambda>found.
       case found of
         None \<Rightarrow> throw_op (RoleNotFoundError i)
       | Some existing \<Rightarrow>
           andthen (guard_canonical_admin_role env (ro_application_id existing) (ro_slug existing)) (\<lambda>_.
           let u = input\<lparr>ur_set_slug := map_option normalize_rbac_slug (ur_set_slug input)\<rparr>;
               slug_changed = field_changed (ur_set_slug u) (ro_slug existing)
           in if \<not> (field_changed (ur_set_name u) (ro_name existing) \<or> slug_changed \<or>
                    field_changed (ur_set_description u) (ro_description existing))
              then return_op (existing, False)
              else
                andthen (check_role_slug env app_id i
                    (if slug_changed then ur_set_slug u else None)) (\<lambda>_.
                andthen (if slug_changed then query (select (get_user_ids_for_role app_id i))
                         else return_op []) (\<lambda>users.
                andthen (if slug_changed
                         then revoke_affected_authority_in_transaction (sv_now env) users
                         else return_op \<lparr>ra_grant_ids = []\<rparr>) (\<lambda>revoked.
                andthen (query (repo_update_role (sv_now env) app_id i u)) (\<lambda>updated.
                andthen ((if slug_changed then write_audit_log_in_transaction else write_audit_log)
                    (rbac_event ''role.updated'' actor_id
                      [(''applicationId'', JStr app_id), (''roleId'', JStr i),
                       (''changes'', JObj (role_changes u))])) (\<lambda>_.
                andthen (register_authority_cleanup (sv_now env)
                    (authority_change users (ra_grant_ids revoked) [i] slug_changed)) (\<lambda>_.
                return_op (updated, slug_changed \<and> opt_in actor_id users)))))))))) "

definition role_cleanup_descriptor ::
    "string \<Rightarrow> string \<Rightarrow> role_capture \<Rightarrow> string list \<Rightarrow> deletion_cleanup_descriptor" where
  "role_cleanup_descriptor app_id i c grants = \<lparr>
     dd_resource = RRole, dd_target_id = i, dd_target_slug = None, dd_parent_id = Some app_id,
     dd_user_ids = rc_user_ids c, dd_client_ids = [], dd_public_client_ids = [],
     dd_grant_ids = grants, dd_role_ids = [i], dd_permission_ids = rc_permission_ids c,
     dd_claim_ids = [], dd_application_ids = [app_id]\<rparr>"

definition delete_role :: "service_env \<Rightarrow> string \<Rightarrow> string \<Rightarrow> string option \<Rightarrow> (flow, bool) op" where
  "delete_role env app_id i actor_id =
     andthen (require_transaction ''Role deletion requires an active database transaction'') (\<lambda>_.
     andthen (query (select (capture_role_for_deletion app_id i))) (\<lambda>capture.
       case capture of
         None \<Rightarrow> throw_op (RoleNotFoundError i)
       | Some c \<Rightarrow>
           andthen (guard_canonical_admin_role env (ro_application_id (rc_role c))
               (ro_slug (rc_role c))) (\<lambda>_.
           andthen (revoke_affected_authority_in_transaction (sv_now env) (rc_user_ids c)) (\<lambda>revoked.
           andthen (write_audit_log_in_transaction (rbac_event ''role.deleted'' actor_id
               [(''applicationId'', JStr app_id), (''roleId'', JStr i),
                (''slug'', JStr (ro_slug (rc_role c)))])) (\<lambda>_.
           andthen (query (execute (delete_captured_role app_id i))) (\<lambda>_.
           andthen (register_deletion_cleanup (sv_now env)
               (role_cleanup_descriptor app_id i c (ra_grant_ids revoked))) (\<lambda>_.
           return_op (opt_in actor_id (rc_user_ids c)))))))))"

subsection \<open>Links between roles and permissions\<close>

definition require_role_permission_targets ::
    "string \<Rightarrow> string \<Rightarrow> string list \<Rightarrow> (flow, role_row \<times> permission_row list \<times> string list) op" where
  "require_role_permission_targets app_id r ps =
     (let requested = sort (js_set ps)
      in andthen (query (select (lock_role_permission_targets app_id r requested))) (\<lambda>t.
           case rt_role t of
             None \<Rightarrow> throw_op (RoleNotFoundError r)
           | Some role \<Rightarrow>
               (if length (rt_permissions t) \<noteq> length requested
                then throw_op (RbacValidationError
                  ''Every permission must belong to the selected application'')
                else return_op (role, rt_permissions t, rt_assigned t))))"

definition assign_permissions_to_role ::
    "service_env \<Rightarrow> string \<Rightarrow> string \<Rightarrow> string list \<Rightarrow> string option \<Rightarrow> (flow, unit) op" where
  "assign_permissions_to_role env app_id r ps actor_id =
     (if ps = [] then return_op ()
      else
        andthen (require_transaction
            ''Role permission assignment requires an active database transaction'') (\<lambda>_.
        andthen (require_role_permission_targets app_id r ps) (\<lambda>(role, permissions, _).
        andthen (guard_canonical_admin_role env (ro_application_id role) (ro_slug role)) (\<lambda>_.
        andthen (guard_canonical_admin_permissions env app_id permissions) (\<lambda>_.
        andthen (query (returning (repo_assign_permissions app_id r ps))) (\<lambda>inserted.
          if inserted = [] then return_op ()
          else
            andthen (query (select (get_user_ids_for_role app_id r))) (\<lambda>users.
            andthen (register_authority_cleanup (sv_now env) (authority_change users [] [] False)) (\<lambda>_.
            write_audit_log (rbac_event ''role.permissions.assigned'' actor_id
              [(''applicationId'', JStr app_id), (''roleId'', JStr r),
               (''permissionIds'', JArr (map JStr inserted))])))))))))"

definition remove_permissions_from_role ::
    "service_env \<Rightarrow> string \<Rightarrow> string \<Rightarrow> string list \<Rightarrow> string option \<Rightarrow> (flow, bool) op" where
  "remove_permissions_from_role env app_id r ps actor_id =
     (if ps = [] then return_op False
      else
        andthen (require_transaction
            ''Role permission removal requires an active database transaction'') (\<lambda>_.
        andthen (require_role_permission_targets app_id r ps) (\<lambda>(role, permissions, assigned).
        andthen (guard_canonical_admin_role env (ro_application_id role) (ro_slug role)) (\<lambda>_.
        andthen (guard_canonical_admin_permissions env app_id permissions) (\<lambda>_.
          if assigned = [] then return_op False
          else
            andthen (query (select (get_user_ids_for_role app_id r))) (\<lambda>users.
            andthen (revoke_affected_authority_in_transaction (sv_now env) users) (\<lambda>revoked.
            andthen (query (returning (repo_remove_permissions app_id r assigned))) (\<lambda>removed.
            andthen (write_audit_log_in_transaction (rbac_event ''role.permissions.removed'' actor_id
                [(''applicationId'', JStr app_id), (''roleId'', JStr r),
                 (''permissionIds'', JArr (map JStr removed))])) (\<lambda>_.
            andthen (register_authority_cleanup (sv_now env)
                (authority_change users (ra_grant_ids revoked) [] True)) (\<lambda>_.
            return_op (opt_in actor_id users)))))))))))"

definition permissions_of_role ::
    "service_env \<Rightarrow> string \<Rightarrow> string \<Rightarrow> (flow, permission_row list) op" where
  "permissions_of_role env app_id r =
     andthen (query (select (repo_find_role_by_id app_id r))) (\<lambda>role.
     andthen (unless_throw (role \<noteq> None) (RoleNotFoundError r)) (\<lambda>_.
     query (select (get_permissions_for_role env app_id r))))"

subsection \<open>Permissions\<close>

definition check_permission_module :: "create_permission_input \<Rightarrow> (flow, unit) op" where
  "check_permission_module input =
     (if \<not> truthy (cpi_module_id input) then return_op ()
      else
        andthen (require_transaction
            ''Permission module validation requires an active database transaction'') (\<lambda>_.
        andthen (query (select (lock_permission_module (cpi_application_id input)
            (nullish (cpi_module_id input) [])))) (\<lambda>owned.
        unless_throw owned
          (RbacValidationError ''Permission module must belong to the selected application''))))"

definition create_permission ::
    "service_env \<Rightarrow> create_permission_input \<Rightarrow> string option \<Rightarrow> (flow, permission_row) op" where
  "create_permission env input actor_id =
     (let slug = normalize_rbac_slug (cpi_slug input)
      in andthen (unless_throw (validate_permission_slug slug) (RbacValidationError
             ''Invalid permission slug. Must be 1-150 characters without control characters.'')) (\<lambda>_.
         andthen (guard_canonical_admin_permission env (cpi_application_id input) slug) (\<lambda>_.
         andthen (check_permission_module input) (\<lambda>_.
         andthen (query (select (permission_slug_exists (cpi_application_id input) slug))) (\<lambda>taken.
         andthen (unless_throw (\<not> taken) (RbacValidationError
             (''Permission slug \"'' @ slug @ ''\" already exists for this application.''))) (\<lambda>_.
         andthen (query (insert_permission env input slug)) (\<lambda>p.
         andthen (write_audit_log (rbac_event ''permission.created'' actor_id
             [(''permissionId'', JStr (pm_id p)), (''applicationId'', JStr (pm_application_id p)),
              (''slug'', JStr (pm_slug p))])) (\<lambda>_.
         return_op p))))))))"

definition permission_changes :: "update_permission_input \<Rightarrow> (string \<times> json) list" where
  "permission_changes u =
     (case upi_name u of None \<Rightarrow> [] | Some n \<Rightarrow> [(''name'', JStr n)]) @
     (case upi_description u of None \<Rightarrow> []
      | Some None \<Rightarrow> [(''description'', JNull)] | Some (Some t) \<Rightarrow> [(''description'', JStr t)])"

definition update_permission ::
    "service_env \<Rightarrow> string \<Rightarrow> string \<Rightarrow> update_permission_input \<Rightarrow> string option \<Rightarrow>
     (flow, permission_row) op" where
  "update_permission env app_id i input actor_id =
     andthen (require_transaction ''Permission update requires an active database transaction'') (\<lambda>_.
     andthen (query (select (lock_permission_by_id app_id i))) (\<lambda>found.
       case found of
         None \<Rightarrow> throw_op (PermissionNotFoundError i)
       | Some existing \<Rightarrow>
           andthen (guard_canonical_admin_permission env app_id (pm_slug existing)) (\<lambda>_.
           if \<not> (field_changed (upi_name input) (pm_name existing) \<or>
                 field_changed (upi_description input) (pm_description existing))
           then return_op existing
           else
             andthen (query (repo_update_permission app_id i input)) (\<lambda>updated.
             andthen (write_audit_log (rbac_event ''permission.updated'' actor_id
                 [(''applicationId'', JStr app_id), (''permissionId'', JStr i),
                  (''changes'', JObj (permission_changes input))])) (\<lambda>_.
             return_op updated)))))"

definition permission_cleanup_descriptor ::
    "string \<Rightarrow> string \<Rightarrow> permission_capture \<Rightarrow> string list \<Rightarrow> deletion_cleanup_descriptor" where
  "permission_cleanup_descriptor app_id i c grants = \<lparr>
     dd_resource = RPermission, dd_target_id = i, dd_target_slug = None,
     dd_parent_id = Some app_id, dd_user_ids = pc_user_ids c, dd_client_ids = [],
     dd_public_client_ids = [], dd_grant_ids = grants, dd_role_ids = pc_role_ids c,
     dd_permission_ids = [i], dd_claim_ids = [], dd_application_ids = [app_id]\<rparr>"

definition delete_permission ::
    "service_env \<Rightarrow> string \<Rightarrow> string \<Rightarrow> string option \<Rightarrow> (flow, bool) op" where
  "delete_permission env app_id i actor_id =
     andthen (require_transaction ''Permission deletion requires an active database transaction'') (\<lambda>_.
     andthen (query (select (capture_permission_for_deletion app_id i))) (\<lambda>capture.
       case capture of
         None \<Rightarrow> throw_op (PermissionNotFoundError i)
       | Some c \<Rightarrow>
           andthen (guard_canonical_admin_permission env app_id (pm_slug (pc_permission c))) (\<lambda>_.
           andthen (revoke_affected_authority_in_transaction (sv_now env) (pc_user_ids c)) (\<lambda>revoked.
           andthen (write_audit_log_in_transaction (rbac_event ''permission.deleted'' actor_id
               [(''applicationId'', JStr app_id), (''permissionId'', JStr i),
                (''slug'', JStr (pm_slug (pc_permission c)))])) (\<lambda>_.
           andthen (query (execute (delete_captured_permission app_id i))) (\<lambda>_.
           andthen (register_deletion_cleanup (sv_now env)
               (permission_cleanup_descriptor app_id i c (ra_grant_ids revoked))) (\<lambda>_.
           return_op (opt_in actor_id (pc_user_ids c)))))))))"

definition roles_with_permission :: "service_env \<Rightarrow> string \<Rightarrow> string \<Rightarrow> (flow, role_row list) op" where
  "roles_with_permission env app_id i =
     andthen (query (select (find_permission_by_id app_id i))) (\<lambda>p.
     andthen (unless_throw (p \<noteq> None) (PermissionNotFoundError i)) (\<lambda>_.
     query (select (get_roles_with_permission env app_id i))))"

end
