(* ===== verification/UserRoles.thy ===== *)
theory UserRoles
  imports RbacService
begin

text \<open>
  packages/server/src/rbac/user-role-service.ts: assigning and removing the roles of a user under the
  actor's boundary, and the role and permission claims of a token.
\<close>

record user_role_options =
  uo_organization_id :: string
  uo_user_id :: string
  uo_role_ids :: "string list"
  uo_actor :: audit_actor
  uo_allowed_application_id :: "string option"
  uo_audit_context :: "audit_context option"

record validated_user_role_targets =
  vt_user_id :: string
  vt_status :: user_status
  vt_roles :: "role_row list"
  vt_assigned :: "string list"
  vt_admin_application :: "string option"

definition require_role_actor_boundary ::
    "audit_actor \<Rightarrow> validated_user_role_targets \<Rightarrow> string option \<Rightarrow> (flow, unit) op" where
  "require_role_actor_boundary actor t allowed =
     (if actor = SystemActor then throw_op RoleDelegationError
      else if \<not> truthy allowed then return_op ()
      else unless_throw (list_all (\<lambda>r. Some (ro_application_id r) = allowed \<and>
             Some (ro_application_id r) \<noteq> vt_admin_application t) (vt_roles t))
        RoleApplicationBoundaryError)"

definition require_user_role_targets ::
    "service_env \<Rightarrow> string \<Rightarrow> string \<Rightarrow> string list \<Rightarrow> (flow, validated_user_role_targets) op" where
  "require_user_role_targets env org u roles =
     (let requested = sort (js_set roles)
      in andthen (query (select (lock_user_role_targets org u requested))) (\<lambda>t.
           case ut_user t of
             None \<Rightarrow> throw_op (UserNotFoundError u)
           | Some (i, status) \<Rightarrow>
               (if length (ut_roles t) \<noteq> length requested
                then throw_op (RoleNotFoundError (nullish
                  (List.find (\<lambda>r. r \<notin> ro_id ` set (ut_roles t)) requested) ''requested role''))
                else
                  andthen (get_application_by_slug env admin_application_slug) (\<lambda>admin.
                  return_op \<lparr>vt_user_id = i, vt_status = status, vt_roles = ut_roles t,
                    vt_assigned = ut_assigned t,
                    vt_admin_application = map_option ap_id admin\<rparr>))))"

text \<open>The capability ceiling: the actor must hold every capability the requested roles carry.\<close>

definition requested_capabilities :: "role_row list \<Rightarrow> string \<Rightarrow> string list" where
  "requested_capabilities roles admin =
     concat (map (\<lambda>r. get_permissions_for_admin_role (ro_slug r))
       (filter (\<lambda>r. ro_application_id r = admin) roles))"

definition require_delegable_roles ::
    "service_env \<Rightarrow> role_row list \<Rightarrow> string \<Rightarrow> string option \<Rightarrow> (flow, unit) op" where
  "require_delegable_roles env roles actor_id admin =
     (case admin of
        None \<Rightarrow> return_op ()
      | Some a \<Rightarrow>
          (if requested_capabilities roles a = [] then return_op ()
           else
             andthen (query (select (repo_get_roles_for_user env actor_id (Some a)))) (\<lambda>held.
             let capabilities = resolve_permissions_from_roles (map ro_slug held)
             in unless_throw (list_all (\<lambda>c. c \<in> set capabilities) (requested_capabilities roles a))
                  RoleDelegationError)))"

definition role_change_entry ::
    "string \<Rightarrow> user_role_options \<Rightarrow> string list \<Rightarrow> audit_entry" where
  "role_change_entry event opts roles =
     (audit_fields (Some (uo_actor opts)) (uo_audit_context opts)
       ((blank_entry event ''admin'')\<lparr>ae_organization_id := Some (uo_organization_id opts),
          ae_user_id := Some (uo_user_id opts)\<rparr>))\<lparr>ae_metadata := Some (JObj
        [(''organizationId'', JStr (uo_organization_id opts)),
         (''roleIds'', JArr (map JStr roles))])\<rparr>"

definition acting_user :: "audit_actor \<Rightarrow> string option" where
  "acting_user actor = (case actor of UserActor u \<Rightarrow> Some u | _ \<Rightarrow> None)"

definition check_delegation ::
    "service_env \<Rightarrow> user_role_options \<Rightarrow> validated_user_role_targets \<Rightarrow> (flow, unit) op" where
  "check_delegation env opts t =
     (case acting_user (uo_actor opts) of
        None \<Rightarrow> return_op ()
      | Some a \<Rightarrow>
          (if truthy (uo_allowed_application_id opts) then return_op ()
           else require_delegable_roles env (vt_roles t) a (vt_admin_application t)))"

definition assign_roles_work :: "service_env \<Rightarrow> user_role_options \<Rightarrow> string list \<Rightarrow> (flow, unit) op" where
  "assign_roles_work env opts requested =
     andthen (require_user_role_targets env (uo_organization_id opts) (uo_user_id opts) requested) (\<lambda>t.
     andthen (require_role_actor_boundary (uo_actor opts) t (uo_allowed_application_id opts)) (\<lambda>_.
     andthen (check_delegation env opts t) (\<lambda>_.
     andthen (query (repo_assign_roles (uo_organization_id opts) (uo_user_id opts) requested
         (acting_user (uo_actor opts)))) (\<lambda>inserted.
       if inserted = [] then return_op ()
       else
         andthen (require_transaction ''User role assignment requires an active transaction'') (\<lambda>_.
         andthen (write_audit_log_in_transaction
             (role_change_entry ''user.roles.assigned'' opts inserted)) (\<lambda>_.
         register_authority_cleanup (sv_now env)
           (authority_change [uo_user_id opts] [] [] False)))))))"

definition assign_roles_to_user :: "service_env \<Rightarrow> user_role_options \<Rightarrow> (flow, unit) op" where
  "assign_roles_to_user env opts =
     (let requested = js_set (uo_role_ids opts)
      in if requested = [] then return_op ()
         else run_database_transaction (assign_roles_work env opts requested))"

definition removes_exact_super_admin :: "validated_user_role_targets \<Rightarrow> bool" where
  "removes_exact_super_admin t =
     list_ex (\<lambda>r. ro_id r \<in> set (vt_assigned t) \<and>
       Some (ro_application_id r) = vt_admin_application t \<and> ro_slug r = super_admin_role_slug)
       (vt_roles t)"

definition remove_roles_work :: "service_env \<Rightarrow> user_role_options \<Rightarrow> (flow, bool) op" where
  "remove_roles_work env opts =
     andthen (query (select (lock_control_plane_organization (uo_organization_id opts)))) (\<lambda>_.
     andthen (require_user_role_targets env (uo_organization_id opts) (uo_user_id opts)
         (uo_role_ids opts)) (\<lambda>t.
     andthen (require_role_actor_boundary (uo_actor opts) t (uo_allowed_application_id opts)) (\<lambda>_.
       if vt_assigned t = [] then return_op False
       else
         andthen (if vt_status t = Active \<and> removes_exact_super_admin t
                  then query (require_active_super_admin_survivor (uo_organization_id opts)
                    (uo_user_id opts))
                  else return_op ()) (\<lambda>_.
         andthen (revoke_affected_authority_in_transaction (sv_now env) [uo_user_id opts]) (\<lambda>revoked.
         andthen (query (returning (repo_remove_roles (uo_organization_id opts) (uo_user_id opts)
             (vt_assigned t)))) (\<lambda>removed.
         andthen (require_transaction ''User role removal requires an active transaction'') (\<lambda>_.
         andthen (write_audit_log_in_transaction
             (role_change_entry ''user.roles.removed'' opts removed)) (\<lambda>_.
         andthen (register_authority_cleanup (sv_now env)
             (authority_change [uo_user_id opts] (ra_grant_ids revoked) [] True)) (\<lambda>_.
         return_op (acting_user (uo_actor opts) = Some (uo_user_id opts)))))))))))"

definition remove_roles_from_user :: "service_env \<Rightarrow> user_role_options \<Rightarrow> (flow, bool) op" where
  "remove_roles_from_user env opts =
     (if uo_role_ids opts = [] then return_op False
      else run_database_transaction (remove_roles_work env opts))"

subsection \<open>Reading\<close>

definition get_user_roles ::
    "service_env \<Rightarrow> string \<Rightarrow> string \<Rightarrow> string option \<Rightarrow> (flow, role_row list) op" where
  "get_user_roles env org u app = query (select (get_roles_for_organization_user env org u app))"

definition get_user_roles_for_authority :: "service_env \<Rightarrow> string \<Rightarrow> (flow, role_row list) op" where
  "get_user_roles_for_authority env u = query (select (repo_get_roles_for_user env u None))"

definition get_user_permissions ::
    "service_env \<Rightarrow> string \<Rightarrow> string \<Rightarrow> string option \<Rightarrow> (flow, permission_row list) op" where
  "get_user_permissions env org u app =
     query (select (get_permissions_for_organization_user env org u app))"

definition build_role_claims :: "service_env \<Rightarrow> string \<Rightarrow> string \<Rightarrow> (flow, string list) op" where
  "build_role_claims env u app =
     andthen (query (select (repo_get_roles_for_user env u (Some app)))) (\<lambda>roles.
     return_op (js_set (map ro_slug roles)))"

definition build_permission_claims :: "service_env \<Rightarrow> string \<Rightarrow> string \<Rightarrow> (flow, string list) op" where
  "build_permission_claims env u app =
     andthen (query (select (repo_get_permissions_for_user env u (Some app)))) (\<lambda>ps.
     return_op (js_set (map pm_slug ps)))"

end
