(* ===== verification/AdminAuth.thy ===== *)
theory AdminAuth
  imports Organizations UserRoles
begin

text \<open>
  The authority of an administrative request: packages/server/src/middleware/admin-auth.ts
  (\<open>requireAdminAuth\<close>) and admin-mutation-audit.ts (one transaction and one audit row per mutation),
  with the route's \<open>requirePermission\<close> between them and the handler.

  The OIDC provider's \<open>AccessToken.find\<close> is a parameter: it fails, knows no such token, or gives
  the token's \<open>accountId\<close>, which may be absent. A handler is a parameter too: an operation that
  returns the response status it set, or throws.
\<close>

type_synonym token_lookup = "string \<Rightarrow> app_error + string option option"

definition bearer_token :: "string \<Rightarrow> string option" where
  "bearer_token header = (if prefix ''Bearer '' header then Some (drop 7 header) else None)"

text \<open>Steps 1 and 2: the header and the token give the account or a status.\<close>

definition authenticate_bearer :: "token_lookup option \<Rightarrow> string \<Rightarrow> nat + string" where
  "authenticate_bearer provider header =
     (case bearer_token header of
        None \<Rightarrow> Inl 401
      | Some token \<Rightarrow>
          (case provider of
             None \<Rightarrow> Inl 500
           | Some find_token \<Rightarrow>
               (case find_token token of
                  Inr (Some (Some account)) \<Rightarrow> (if account = [] then Inl 401 else Inr account)
                | _ \<Rightarrow> Inl 401)))"

definition require_admin_organization_membership :: "string \<Rightarrow> string \<Rightarrow> bool" where
  "require_admin_organization_membership user_org admin_org = (user_org = admin_org)"

definition admin_role_slugs_of :: "role_row list \<Rightarrow> application_row \<Rightarrow> string list" where
  "admin_role_slugs_of roles app = map ro_slug (filter (\<lambda>r. ro_application_id r = ap_id app \<and>
     get_permissions_for_admin_role (ro_slug r) \<noteq> []) roles)"

text \<open>Steps 3 to 8.\<close>

definition resolve_admin_user :: "service_env \<Rightarrow> string \<Rightarrow> (flow, admin_user gate) op" where
  "resolve_admin_user env account =
     andthen (query (select find_super_admin_organization)) (\<lambda>org.
       case org of
         None \<Rightarrow> return_op (Answer 500)
       | Some o' \<Rightarrow>
           andthen (find_user_for_oidc account) (\<lambda>u.
             case u of
               None \<Rightarrow> return_op (Answer 401)
             | Some user \<Rightarrow>
                 (if \<not> require_admin_organization_membership (u_organization_id user) (og_id o')
                  then return_op (Answer 403)
                  else
                    andthen (get_application_by_slug env admin_application_slug) (\<lambda>app.
                      case app of
                        None \<Rightarrow> return_op (Answer 500)
                      | Some a \<Rightarrow>
                          andthen (get_user_roles_for_authority env account) (\<lambda>roles.
                          let slugs = admin_role_slugs_of roles a
                          in return_op
                               (if slugs = [] then Answer 403
                                else Proceed \<lparr>au_id = account, au_email = u_email user,
                                  au_organization_id = u_organization_id user, au_roles = slugs,
                                  au_permissions = resolve_permissions_from_roles slugs\<rparr>))))))"

definition require_admin_auth ::
    "service_env \<Rightarrow> token_lookup option \<Rightarrow> string \<Rightarrow> (flow, admin_user gate) op" where
  "require_admin_auth env provider header =
     (case authenticate_bearer provider header of
        Inl status \<Rightarrow> return_op (Answer status)
      | Inr account \<Rightarrow> resolve_admin_user env account)"

subsection \<open>The mutation transaction\<close>

definition mutation_methods :: "string list" where
  "mutation_methods = [''POST'', ''PUT'', ''PATCH'', ''DELETE'']"

definition self_managed_mutation_prefixes :: "string list" where
  "self_managed_mutation_prefixes = [''/api/admin/bulk'', ''/api/admin/import'',
     ''/api/admin/export/manifest'', ''/api/admin/config'']"

definition owns_administrative_mutation :: "string \<Rightarrow> string \<Rightarrow> bool" where
  "owns_administrative_mutation meth path =
     (meth \<in> set mutation_methods \<and> prefix ''/api/admin/'' path \<and>
      \<not> list_ex (\<lambda>p. prefix p path) self_managed_mutation_prefixes)"

definition is_public_http_error :: "app_error \<Rightarrow> bool" where
  "is_public_http_error e = (case e of HttpError s \<Rightarrow> 400 \<le> s \<and> s < 500 | _ \<Rightarrow> False)"

record admin_request =
  aq_method :: string
  aq_path :: string
  aq_route :: string
  aq_authorization :: string

text \<open>The route of one endpoint: authentication, the endpoint's permissions, the handler.\<close>

type_synonym admin_handler = "admin_user \<Rightarrow> (flow, nat) op"

definition admin_route ::
    "service_env \<Rightarrow> token_lookup option \<Rightarrow> string list \<Rightarrow> admin_handler \<Rightarrow> admin_request \<Rightarrow>
     (flow, nat \<times> admin_user option) op" where
  "admin_route env provider required handler req =
     andthen (require_admin_auth env provider (aq_authorization req)) (\<lambda>g.
       case g of
         Answer status \<Rightarrow> return_op (status, None)
       | Proceed admin \<Rightarrow>
           (case require_permission required (Some admin) of
              Answer status \<Rightarrow> return_op (status, Some admin)
            | Proceed _ \<Rightarrow> andthen (handler admin) (\<lambda>status. return_op (status, Some admin))))"

definition live_actor :: "string \<Rightarrow> db \<Rightarrow> (string \<times> string) option" where
  "live_actor i d =
     map_option (\<lambda>r. (ur_id r, ur_organization_id r)) (find_row (\<lambda>r. ur_id r = i) (db_users d))"

definition mutation_entry :: "admin_request \<Rightarrow> (string \<times> string) option \<Rightarrow> audit_entry" where
  "mutation_entry req actor =
     (blank_entry ''admin.mutation.committed'' ''admin'')\<lparr>
        ae_organization_id := map_option snd actor, ae_actor_id := map_option fst actor,
        ae_metadata := Some (JObj [(''method'', JStr (aq_method req)),
          (''routeTemplate'', JStr (aq_route req))])\<rparr>"

definition mutation_work ::
    "(flow, nat \<times> admin_user option) op \<Rightarrow> admin_request \<Rightarrow> (flow, nat) op" where
  "mutation_work route req =
     andthen route (\<lambda>(status, admin).
     andthen (unless_throw (status < 400) (HandledMutationRejection status)) (\<lambda>_.
     andthen (require_transaction ''Administrative mutation transaction is unavailable'') (\<lambda>_.
       case admin of
         None \<Rightarrow> throw_op (JsError ''Administrative mutation actor is unavailable'')
       | Some a \<Rightarrow>
           andthen (query (select (live_actor (au_id a)))) (\<lambda>actor.
           andthen (write_audit_log_in_transaction (mutation_entry req actor)) (\<lambda>_.
           return_op status)))))"

definition admin_mutation_audit ::
    "(flow, nat \<times> admin_user option) op \<Rightarrow> admin_request \<Rightarrow> (flow, nat) op" where
  "admin_mutation_audit route req =
     (if \<not> owns_administrative_mutation (aq_method req) (aq_path req)
      then andthen route (\<lambda>(status, _). return_op status)
      else catch_op (run_database_transaction (mutation_work route req)) (\<lambda>e.
        case e of
          HandledMutationRejection status \<Rightarrow> return_op status
        | _ \<Rightarrow> if is_public_http_error e then throw_op e else return_op 503))"

end
