(* ===== verification/ControlPlaneProperties.thy ===== *)
theory ControlPlaneProperties
  imports FlowInvariants UserRoles
begin

text \<open>
  The control plane: Porta's own application, its modules, the built-in roles and permissions it owns
  and the links between them. The invariant \<open>control_ok S\<close> says that the database still holds the
  snapshot \<open>S\<close>; \<open>control_cache S\<close> says that no cached application claims the reserved slug under
  another id, which is what the guards of the services read.
\<close>

record control_snapshot =
  sn_application :: application_row
  sn_modules :: "module_row list"
  sn_roles :: "role_row list"
  sn_permissions :: "permission_row list"
  sn_links :: "role_permission_row list"

definition built_in_role :: "string \<Rightarrow> role_row \<Rightarrow> bool" where
  "built_in_role app r = (ro_application_id r = app \<and> ro_slug r \<in> set admin_role_slugs)"

definition built_in_permission :: "string \<Rightarrow> permission_row \<Rightarrow> bool" where
  "built_in_permission app p =
     (pm_application_id p = app \<and> pm_slug p \<in> set all_admin_permissions)"

definition built_in_link :: "role_row list \<Rightarrow> permission_row list \<Rightarrow> role_permission_row \<Rightarrow> bool" where
  "built_in_link rs ps l = (rl_role_id l \<in> ro_id ` set rs \<and> rl_permission_id l \<in> pm_id ` set ps)"

definition control_snapshot :: "db \<Rightarrow> control_snapshot option" where
  "control_snapshot d =
     (case find_application_by_slug admin_application_slug d of
        None \<Rightarrow> None
      | Some a \<Rightarrow>
          (let rs = filter (built_in_role (ap_id a)) (db_roles d);
               ps = filter (built_in_permission (ap_id a)) (db_permissions d)
           in Some \<lparr>sn_application = a,
                sn_modules = filter (\<lambda>m. mo_application_id m = ap_id a) (db_modules d),
                sn_roles = rs, sn_permissions = ps,
                sn_links = filter (built_in_link rs ps) (db_role_permissions d)\<rparr>))"

definition keys_unique :: "db \<Rightarrow> bool" where
  "keys_unique d \<longleftrightarrow> unique_on ap_slug (db_applications d) \<and> unique_on ro_id (db_roles d) \<and>
     unique_on pm_id (db_permissions d)"

definition control_ok :: "control_snapshot \<Rightarrow> db \<Rightarrow> bool" where
  "control_ok S d \<longleftrightarrow> control_snapshot d = Some S \<and> keys_unique d \<and>
     (\<forall>p \<in> set (sn_permissions S). pm_module_id p = None)"

definition control_id :: "control_snapshot \<Rightarrow> string" where
  "control_id S = ap_id (sn_application S)"

definition control_cache :: "control_snapshot \<Rightarrow> redis \<Rightarrow> bool" where
  "control_cache S r \<longleftrightarrow> (\<forall>now a. redis_live now r (app_slug_key admin_application_slug) =
     Some (JsonApplication a) \<longrightarrow> ap_id a = control_id S)"

abbreviation control_inv :: "control_snapshot \<Rightarrow> flow \<Rightarrow> bool" where
  "control_inv S \<equiv> store_inv (control_ok S) (control_cache S)"

lemma control_ok_alt:
  "control_ok S d \<longleftrightarrow> keys_unique d \<and>
     find_application_by_slug admin_application_slug d = Some (sn_application S) \<and>
     filter (\<lambda>m. mo_application_id m = control_id S) (db_modules d) = sn_modules S \<and>
     filter (built_in_role (control_id S)) (db_roles d) = sn_roles S \<and>
     filter (built_in_permission (control_id S)) (db_permissions d) = sn_permissions S \<and>
     filter (built_in_link (sn_roles S) (sn_permissions S)) (db_role_permissions d) = sn_links S \<and>
     (\<forall>p \<in> set (sn_permissions S). pm_module_id p = None)"
  by (auto simp: control_ok_def control_snapshot_def control_id_def Let_def split: option.splits)

lemma control_cong:
  assumes "db_applications d' = db_applications d" "db_modules d' = db_modules d"
    "db_roles d' = db_roles d" "db_permissions d' = db_permissions d"
    "db_role_permissions d' = db_role_permissions d"
  shows "control_ok S d' = control_ok S d"
  by (simp add: control_ok_alt keys_unique_def find_application_by_slug_def assms)

interpretation cp: store_invariant "control_ok S" "control_cache S" for S
proof unfold_locales
  show "\<And>r d. control_ok S (insert_audit_row r d) = control_ok S d"
    by (rule control_cong) (simp_all add: insert_audit_row_def)
  show "\<And>r r'. control_cache S r \<Longrightarrow> redis_shrinks r' r \<Longrightarrow> control_cache S r'"
    unfolding control_cache_def redis_shrinks_def by blast
qed

subsection \<open>Steps of a service under the invariant\<close>

text \<open>A value that a query returned in some state of the invariant.\<close>

lemma keeps_query_result:
  assumes "\<And>d. D d \<Longrightarrow> D (snd (m d))"
    and "\<And>a d. D d \<Longrightarrow> fst (m d) = Inr a \<Longrightarrow> preserves (store_inv D R) (g a)"
  shows "preserves (store_inv D R) (andthen (query m) g)"
proof (rule preservesI)
  fix f
  assume inv: "store_inv D R f"
  then have d: "D (flow_db f)"
    by (rule store_inv_db)
  have "store_inv D R (with_db (snd (m (flow_db f))) f)"
    using inv assms(1) [OF d] by (simp add: store_inv_def store_ok_def with_db_def)
  then show "store_inv D R (snd (andthen (query m) g f))"
    using assms(2) [OF d] by (cases "m (flow_db f)"; cases "fst (m (flow_db f))")
      (auto simp: andthen_def preserves_def)
qed

lemma keeps_select_result:
  assumes "\<And>d. D d \<Longrightarrow> preserves (store_inv D R) (g (q d))"
  shows "preserves (store_inv D R) (andthen (query (select q)) g)"
  by (rule keeps_query_result) (auto intro: assms)

lemma keeps_catch_result:
  assumes "\<And>d. D d \<Longrightarrow> D (snd (m d))"
    and "\<And>a d. D d \<Longrightarrow> fst (m d) = Inr a \<Longrightarrow> preserves (store_inv D R) (g a)"
  shows "preserves (store_inv D R) (andthen (catch_op (query m) (\<lambda>e. throw_op (t e))) g)"
proof -
  let ?m = "\<lambda>d. case m d of (Inl e, d') \<Rightarrow> (Inl (t e), d') | (Inr a, d') \<Rightarrow> (Inr a, d')"
  have "catch_op (query m) (\<lambda>e. throw_op (t e)) = query ?m"
    by (rule ext) (auto simp: catch_op_def split: prod.splits sum.splits)
  moreover have "preserves (store_inv D R) (andthen (query ?m) g)"
  proof (rule keeps_query_result)
    fix d
    assume "D d"
    then show "D (snd (?m d))"
      using assms(1) [of d] by (auto split: prod.splits sum.splits)
  next
    fix a d
    assume "D d" and "fst (?m d) = Inr a"
    then show "preserves (store_inv D R) (g a)"
      using assms(2) [of d a] by (auto split: prod.splits sum.splits)
  qed
  ultimately show ?thesis by simp
qed

subsection \<open>Reading the canonical application\<close>

lemma app_keys_distinct [simp]:
  "app_id_key i \<noteq> app_slug_key s" "app_slug_key s \<noteq> app_id_key i"
  "app_slug_key s = app_slug_key s' \<longleftrightarrow> s = s'" "app_id_key i = app_id_key j \<longleftrightarrow> i = j"
  by (simp_all add: app_id_key_def app_slug_key_def)

lemma find_application_slugD:
  "find_application_by_slug s d = Some a \<Longrightarrow> a \<in> set (db_applications d) \<and> ap_slug a = s"
  by (auto simp: find_application_by_slug_def dest: find_row_SomeD)

lemma find_application_idD:
  "find_application_by_id i d = Some a \<Longrightarrow> a \<in> set (db_applications d) \<and> ap_id a = i"
  by (auto simp: find_application_by_id_def dest: find_row_SomeD)

lemma control_row:
  assumes "control_ok S d" and "a \<in> set (db_applications d)" and "ap_slug a = admin_application_slug"
  shows "a = sn_application S"
  using assms by (auto simp: control_ok_alt keys_unique_def dest!: find_application_slugD
      dest: unique_on_same)

lemma control_cache_cached:
  assumes "control_cache S r" and "ap_slug a = admin_application_slug \<Longrightarrow> ap_id a = control_id S"
  shows "control_cache S (redis_set_ex now (app_id_key (ap_id a)) (JsonApplication a) app_cache_ttl
    (redis_set_ex now (app_slug_key (ap_slug a)) (JsonApplication a) app_cache_ttl r))"
  using assms
  by (cases "ap_slug a = admin_application_slug") (auto simp: control_cache_def split: if_splits)

lemma keeps_cache_application:
  assumes "ap_slug a = admin_application_slug \<Longrightarrow> ap_id a = control_id S"
  shows "preserves (control_inv S) (cache_application now a)"
  unfolding cache_application_def
  by (rule cp.keeps_store_redis) (rule control_cache_cached [OF _ assms])

lemma keeps_invalidate_application [intro]:
  "preserves (control_inv S) (invalidate_application_cache slug i)"
  unfolding invalidate_application_cache_def
  by (rule cp.keeps_store_shrink) (rule redis_shrinks_del_all)

lemma read_application_keeps:
  assumes "\<And>d a. control_ok S d \<Longrightarrow> lookup d = Some a \<Longrightarrow> a \<in> set (db_applications d)"
  shows "preserves (control_inv S) (read_application now cached lookup)"
proof (rule preservesI)
  fix f
  assume inv: "control_inv S f"
  show "control_inv S (snd (read_application now cached lookup f))"
  proof (cases "cached (fl_store f)")
    case (Some a)
    with inv show ?thesis
      by (simp add: read_application_def)
  next
    case None
    show ?thesis
    proof (cases "lookup (flow_db f)")
      case (Some a)
      have "ap_slug a = admin_application_slug \<Longrightarrow> ap_id a = control_id S"
        using control_row [OF store_inv_db [OF inv] assms [OF store_inv_db [OF inv] Some]]
        by (simp add: control_id_def)
      then have "preserves (control_inv S) (andthen (cache_application now a) (\<lambda>_. return_op (Some a)))"
        by (auto intro: keeps_cache_application)
      with inv None Some show ?thesis
        by (simp add: read_application_def preservesD)
    qed (simp add: read_application_def None inv)
  qed
qed

lemma get_by_slug_keeps [intro]: "preserves (control_inv S) (get_application_by_slug env slug)"
  unfolding get_application_by_slug_def
  by (rule read_application_keeps) (auto dest: find_application_slugD)

lemma get_by_id_keeps [intro]: "preserves (control_inv S) (get_application_by_id env i)"
  unfolding get_application_by_id_def
  by (rule read_application_keeps) (auto dest: find_application_idD)

text \<open>Under the invariant, the guards always see the canonical id, whether cached or not.\<close>

lemma get_canonical:
  assumes "control_inv S f"
  shows "\<exists>a f'. get_application_by_slug env admin_application_slug f = (Inr (Some a), f') \<and>
    ap_id a = control_id S \<and> control_inv S f' \<and> flow_db f' = flow_db f"
proof -
  have inv': "control_inv S (snd (get_application_by_slug env admin_application_slug f))"
    using get_by_slug_keeps assms by (rule preservesD)
  have db: "find_application_by_slug admin_application_slug (flow_db f) = Some (sn_application S)"
    using store_inv_db [OF assms] by (simp add: control_ok_alt)
  show ?thesis
  proof (cases "get_cached_application_by_slug (sv_now env) admin_application_slug (fl_store f)")
    case (Some a)
    then have "ap_id a = control_id S"
      using store_inv_redis [OF assms]
      by (auto simp: get_cached_application_by_slug_def cached_application_def
          deserialize_application_def control_cache_def split: if_splits option.splits redis_value.splits)
    with Some assms show ?thesis
      by (auto simp: get_application_by_slug_def read_application_def)
  next
    case None
    then show ?thesis
      using db inv'
      by (auto simp: get_application_by_slug_def read_application_def control_id_def andthen_def
          cache_application_def after_database_commit_def split: option.splits prod.splits)
  qed
qed

text \<open>A guard that compares the canonical id: the continuation only runs for another id.\<close>

lemma keeps_canonical_guard:
  assumes "i \<noteq> control_id S \<Longrightarrow> preserves (control_inv S) (g ())"
  shows "preserves (control_inv S) (andthen (andthen (get_application_by_slug env admin_application_slug)
    (\<lambda>canonical. unless_throw (map_option ap_id canonical \<noteq> Some i) e)) g)"
proof (rule preservesI)
  fix f
  assume "control_inv S f"
  then obtain a f' where f': "get_application_by_slug env admin_application_slug f = (Inr (Some a), f')"
      "ap_id a = control_id S" "control_inv S f'"
    using get_canonical by blast
  show "control_inv S (snd (andthen (andthen (get_application_by_slug env admin_application_slug)
    (\<lambda>canonical. unless_throw (map_option ap_id canonical \<noteq> Some i) e)) g f))"
  proof (cases "i = control_id S")
    case True
    with f' show ?thesis
      by (simp add: andthen_def)
  next
    case False
    with f' assms show ?thesis
      by (simp add: andthen_def preservesD)
  qed
qed

lemma keeps_mutable_guard:
  "(i \<noteq> control_id S \<Longrightarrow> preserves (control_inv S) (g ())) \<Longrightarrow>
   preserves (control_inv S) (andthen (require_mutable_application env i) g)"
  unfolding require_mutable_application_def by (rule keeps_canonical_guard)

lemma keeps_rbac_guard:
  "(i \<noteq> control_id S \<Longrightarrow> preserves (control_inv S) (g ())) \<Longrightarrow>
   preserves (control_inv S) (andthen (guard_canonical env i msg) g)"
  unfolding guard_canonical_def by (rule keeps_canonical_guard)

lemma keeps_role_guard:
  assumes "\<not> (i = control_id S \<and> slug \<in> set admin_role_slugs) \<Longrightarrow> preserves (control_inv S) (g ())"
  shows "preserves (control_inv S) (andthen (guard_canonical_admin_role env i slug) g)"
  using assms by (cases "slug \<in> set admin_role_slugs")
    (auto simp: guard_canonical_admin_role_def intro: keeps_rbac_guard)

lemma keeps_permission_guard:
  assumes "\<not> (i = control_id S \<and> slug \<in> set all_admin_permissions) \<Longrightarrow>
    preserves (control_inv S) (g ())"
  shows "preserves (control_inv S) (andthen (guard_canonical_admin_permission env i slug) g)"
  using assms by (cases "slug \<in> set all_admin_permissions")
    (auto simp: guard_canonical_admin_permission_def intro: keeps_rbac_guard)

lemma keeps_guard_alone [intro]:
  "preserves (control_inv S) (guard_canonical_admin_role env i slug)"
  "preserves (control_inv S) (guard_canonical_admin_permission env i slug)"
  "preserves (control_inv S) (guard_canonical_admin_permissions env i ps)"
  by (auto simp: guard_canonical_admin_role_def guard_canonical_admin_permission_def
      guard_canonical_admin_permissions_def guard_canonical_def intro!: preserves_intros)

subsection \<open>Statements\<close>

lemma filter_update_where:
  "(\<And>x. x \<in> set t \<Longrightarrow> P x \<Longrightarrow> \<not> Q x \<and> \<not> Q (f x)) \<Longrightarrow> filter Q (update_where P f t) = filter Q t"
  by (induction t) auto

lemma filter_delete_where:
  "(\<And>x. x \<in> set t \<Longrightarrow> P x \<Longrightarrow> \<not> Q x) \<Longrightarrow> filter Q (delete_where P t) = filter Q t"
  by (induction t) auto

lemma find_row_filter: "find_row Q t = (case filter Q t of [] \<Rightarrow> None | x # _ \<Rightarrow> Some x)"
  by (induction t) auto

lemma find_row_cong_filter: "filter Q t' = filter Q t \<Longrightarrow> find_row Q t' = find_row Q t"
  by (simp add: find_row_filter)

lemma unique_on_insert_row: "unique_on key t \<Longrightarrow> \<not> row_exists (\<lambda>x. key x = key r) t \<Longrightarrow> unique_on key (t @ [r])"
  by (auto simp: unique_on_append_single row_exists_iff)

lemma control_uniques:
  assumes "control_ok S d"
  shows "unique_on ap_slug (db_applications d)" "unique_on ro_id (db_roles d)"
    "unique_on pm_id (db_permissions d)"
  using assms by (simp_all add: control_ok_alt keys_unique_def)

lemma control_role:
  assumes "control_ok S d" and "r \<in> set (db_roles d)"
  shows "ro_id r \<in> ro_id ` set (sn_roles S) \<longleftrightarrow> built_in_role (control_id S) r"
proof -
  have "sn_roles S = filter (built_in_role (control_id S)) (db_roles d)"
    using assms(1) by (simp add: control_ok_alt)
  then show ?thesis
    using assms(2) control_uniques(2) [OF assms(1)] by (auto dest: unique_on_same)
qed

lemma control_permission:
  assumes "control_ok S d" and "p \<in> set (db_permissions d)"
  shows "pm_id p \<in> pm_id ` set (sn_permissions S) \<longleftrightarrow> built_in_permission (control_id S) p"
proof -
  have "sn_permissions S = filter (built_in_permission (control_id S)) (db_permissions d)"
    using assms(1) by (simp add: control_ok_alt)
  then show ?thesis
    using assms(2) control_uniques(3) [OF assms(1)] by (auto dest: unique_on_same)
qed

lemma control_permission_module:
  assumes "control_ok S d" and "p \<in> set (db_permissions d)" and "pm_module_id p = Some m"
  shows "\<not> built_in_permission (control_id S) p"
proof
  assume "built_in_permission (control_id S) p"
  moreover have "sn_permissions S = filter (built_in_permission (control_id S)) (db_permissions d)"
    using assms(1) by (simp add: control_ok_alt)
  ultimately have "p \<in> set (sn_permissions S)"
    using assms(2) by simp
  with assms(1,3) show False
    by (simp add: control_ok_alt)
qed

lemma control_apps:
  assumes "control_ok S d" and "unique_on ap_slug as"
    and "filter (\<lambda>a. ap_slug a = admin_application_slug) as =
      filter (\<lambda>a. ap_slug a = admin_application_slug) (db_applications d)"
  shows "control_ok S (d\<lparr>db_applications := as\<rparr>)"
  using assms find_row_cong_filter [OF assms(3)]
  by (simp add: control_ok_alt keys_unique_def find_application_by_slug_def)

lemma control_modules:
  assumes "control_ok S d"
    and "filter (\<lambda>m. mo_application_id m = control_id S) ms =
      filter (\<lambda>m. mo_application_id m = control_id S) (db_modules d)"
  shows "control_ok S (d\<lparr>db_modules := ms\<rparr>)"
  using assms by (simp add: control_ok_alt keys_unique_def find_application_by_slug_def)

lemma control_roles:
  assumes "control_ok S d" and "unique_on ro_id rs"
    and "filter (built_in_role (control_id S)) rs =
      filter (built_in_role (control_id S)) (db_roles d)"
  shows "control_ok S (d\<lparr>db_roles := rs\<rparr>)"
  using assms by (simp add: control_ok_alt keys_unique_def find_application_by_slug_def)

lemma control_permissions:
  assumes "control_ok S d" and "unique_on pm_id ps"
    and "filter (built_in_permission (control_id S)) ps =
      filter (built_in_permission (control_id S)) (db_permissions d)"
  shows "control_ok S (d\<lparr>db_permissions := ps\<rparr>)"
  using assms by (simp add: control_ok_alt keys_unique_def find_application_by_slug_def)

lemma control_links:
  assumes "control_ok S d"
    and "filter (built_in_link (sn_roles S) (sn_permissions S)) ls =
      filter (built_in_link (sn_roles S) (sn_permissions S)) (db_role_permissions d)"
  shows "control_ok S (d\<lparr>db_role_permissions := ls\<rparr>)"
  using assms by (simp add: control_ok_alt keys_unique_def find_application_by_slug_def)

lemma control_insert_application:
  assumes "control_ok S d"
  shows "control_ok S (snd (insert_application env data d))"
proof (cases "row_exists (\<lambda>a. ap_id a = sv_new_id env \<or> ap_slug a = ia_slug data) (db_applications d)")
  case False
  have "sn_application S \<in> set (db_applications d) \<and>
      ap_slug (sn_application S) = admin_application_slug"
    using assms by (auto simp: control_ok_alt dest!: find_application_slugD)
  with False have "ia_slug data \<noteq> admin_application_slug"
    by (auto simp: row_exists_iff)
  moreover have "unique_on ap_slug (db_applications d @ [inserted_application env data])"
    using False control_uniques(1) [OF assms]
    by (intro unique_on_insert_row) (auto simp: row_exists_iff inserted_application_def)
  ultimately show ?thesis
    using False assms by (auto simp: insert_application_def Let_def inserted_application_def
        intro!: control_apps)
qed (simp add: insert_application_def assms)

lemma control_update_application:
  assumes "control_ok S d" and "i \<noteq> control_id S"
  shows "control_ok S (snd (repo_update_application now i u d))"
proof -
  have "filter (\<lambda>a. ap_slug a = admin_application_slug)
      (update_where (\<lambda>x. ap_id x = i) (apply_application_update now u) (db_applications d)) =
    filter (\<lambda>a. ap_slug a = admin_application_slug) (db_applications d)"
    by (rule filter_update_where) (use assms control_row [OF assms(1)] in
        \<open>auto simp: apply_application_update_def control_id_def\<close>)
  moreover have "unique_on ap_slug
      (update_where (\<lambda>x. ap_id x = i) (apply_application_update now u) (db_applications d))"
    using control_uniques(1) [OF assms(1)]
    by (simp add: unique_on_update_where apply_application_update_def)
  ultimately show ?thesis
    using assms(1) by (auto simp: repo_update_application_def intro!: control_apps split: option.split)
qed

lemma control_insert_module:
  "control_ok S d \<Longrightarrow> im_application_id data \<noteq> control_id S \<Longrightarrow>
   control_ok S (snd (insert_module env data d))"
  by (auto simp: insert_module_def Let_def inserted_module_def intro!: control_modules)

lemma control_update_module:
  assumes "control_ok S d" and "app \<noteq> control_id S"
  shows "control_ok S (snd (repo_update_module now app i u d))"
proof -
  have "filter (\<lambda>m. mo_application_id m = control_id S)
      (update_where (\<lambda>x. mo_application_id x = app \<and> mo_id x = i) (apply_module_update now u) (db_modules d)) =
    filter (\<lambda>m. mo_application_id m = control_id S) (db_modules d)"
    by (rule filter_update_where) (use assms(2) in \<open>auto simp: apply_module_update_def\<close>)
  then show ?thesis
    using assms(1) by (auto simp: repo_update_module_def intro!: control_modules split: option.split)
qed

lemma control_insert_role:
  assumes "control_ok S d" and "\<not> (cr_application_id input = control_id S \<and> slug \<in> set admin_role_slugs)"
  shows "control_ok S (snd (insert_role env input slug d))"
proof (cases "row_exists (\<lambda>r. ro_id r = sv_new_id env \<or>
    ro_application_id r = cr_application_id input \<and> ro_slug r = slug) (db_roles d)")
  case False
  then have "unique_on ro_id (db_roles d @ [inserted_role env input slug])"
    using control_uniques(2) [OF assms(1)]
    by (intro unique_on_insert_row) (auto simp: row_exists_iff inserted_role_def)
  with False assms show ?thesis
    by (auto simp: insert_role_def Let_def inserted_role_def built_in_role_def intro!: control_roles)
qed (simp add: insert_role_def assms)

lemma control_update_role:
  assumes "control_ok S d" and "\<not> (app = control_id S \<and> i \<in> ro_id ` set (sn_roles S))"
    and "\<And>s. ur_set_slug u = Some s \<Longrightarrow> \<not> (app = control_id S \<and> s \<in> set admin_role_slugs)"
  shows "control_ok S (snd (repo_update_role now app i u d))"
proof -
  have "\<not> built_in_role (control_id S) x \<and> \<not> built_in_role (control_id S) (apply_role_update now u x)"
    if "x \<in> set (db_roles d)" "ro_application_id x = app \<and> ro_id x = i" for x
    using that assms(2,3) control_role [OF assms(1) that(1)]
    by (cases "ur_set_slug u") (auto simp: built_in_role_def apply_role_update_def)
  then have "filter (built_in_role (control_id S)) (update_where
      (\<lambda>x. ro_application_id x = app \<and> ro_id x = i) (apply_role_update now u) (db_roles d)) =
    filter (built_in_role (control_id S)) (db_roles d)"
    by (intro filter_update_where)
  moreover have "unique_on ro_id (update_where
      (\<lambda>x. ro_application_id x = app \<and> ro_id x = i) (apply_role_update now u) (db_roles d))"
    using control_uniques(2) [OF assms(1)] by (simp add: unique_on_update_where apply_role_update_def)
  ultimately show ?thesis
    using assms(1) by (auto simp: repo_update_role_def intro!: control_roles split: option.split)
qed

lemma control_roles_links:
  assumes "control_ok S d" and "\<And>i. i \<in> set gone \<Longrightarrow> i \<notin> ro_id ` set (sn_roles S)"
  shows "control_ok S (delete_roles_cascade gone d)"
proof -
  have roles: "filter (built_in_role (control_id S)) (delete_where (\<lambda>ro. ro_id ro \<in> set gone) (db_roles d)) =
      filter (built_in_role (control_id S)) (db_roles d)"
    using assms(2) control_role [OF assms(1)] by (intro filter_delete_where) blast
  have links: "filter (built_in_link (sn_roles S) (sn_permissions S))
      (delete_where (\<lambda>l. rl_role_id l \<in> set gone) (db_role_permissions d)) =
      filter (built_in_link (sn_roles S) (sn_permissions S)) (db_role_permissions d)"
    using assms(2) by (intro filter_delete_where) (auto simp: built_in_link_def)
  show ?thesis
    using assms(1) roles links unique_on_delete_where [OF control_uniques(2) [OF assms(1)]]
    by (simp add: control_ok_alt keys_unique_def find_application_by_slug_def delete_roles_cascade_def)
qed

lemma control_delete_permissions:
  assumes "control_ok S d" and "\<And>i. i \<in> set gone \<Longrightarrow> i \<notin> pm_id ` set (sn_permissions S)"
  shows "control_ok S (delete_permissions_cascade gone d)"
proof -
  have ps: "filter (built_in_permission (control_id S)) (delete_where (\<lambda>p. pm_id p \<in> set gone) (db_permissions d)) =
      filter (built_in_permission (control_id S)) (db_permissions d)"
    using assms(2) control_permission [OF assms(1)] by (intro filter_delete_where) blast
  have links: "filter (built_in_link (sn_roles S) (sn_permissions S))
      (delete_where (\<lambda>l. rl_permission_id l \<in> set gone) (db_role_permissions d)) =
      filter (built_in_link (sn_roles S) (sn_permissions S)) (db_role_permissions d)"
    using assms(2) by (intro filter_delete_where) (auto simp: built_in_link_def)
  show ?thesis
    using assms(1) ps links unique_on_delete_where [OF control_uniques(3) [OF assms(1)]]
    by (simp add: control_ok_alt keys_unique_def find_application_by_slug_def delete_permissions_cascade_def)
qed

text \<open>Ids taken from rows that are not built in do not name built-in rows.\<close>

lemma foreign_role_ids:
  assumes "control_ok S d" and "\<And>r. P r \<Longrightarrow> \<not> built_in_role (control_id S) r"
    and "i \<in> set (map ro_id (filter P (db_roles d)))"
  shows "i \<notin> ro_id ` set (sn_roles S)"
  using assms(2,3) control_role [OF assms(1)] by auto

lemma foreign_permission_ids:
  assumes "control_ok S d"
    and "\<And>p. p \<in> set (db_permissions d) \<Longrightarrow> P p \<Longrightarrow> \<not> built_in_permission (control_id S) p"
    and "i \<in> set (map pm_id (filter P (db_permissions d)))"
  shows "i \<notin> pm_id ` set (sn_permissions S)"
  using assms(2,3) control_permission [OF assms(1)] by auto

lemma control_delete_role:
  assumes "control_ok S d" and "\<not> (app = control_id S \<and> i \<in> ro_id ` set (sn_roles S))"
  shows "control_ok S (delete_captured_role app i d)"
proof (cases "row_exists (\<lambda>r. ro_application_id r = app \<and> ro_id r = i) (db_roles d)")
  case True
  then obtain x where x: "x \<in> set (db_roles d)" "ro_application_id x = app" "ro_id x = i"
    by (auto simp: row_exists_iff)
  then have "i \<notin> ro_id ` set (sn_roles S)"
    using assms(2) control_role [OF assms(1) x(1)] by (auto simp: built_in_role_def)
  then have "control_ok S (delete_roles_cascade [i] d)"
    by (intro control_roles_links [OF assms(1)]) simp
  with True show ?thesis
    by (simp add: delete_captured_role_def)
qed (simp add: delete_captured_role_def assms(1))

lemma control_insert_permission:
  assumes "control_ok S d"
    and "\<not> (cpi_application_id input = control_id S \<and> slug \<in> set all_admin_permissions)"
  shows "control_ok S (snd (insert_permission env input slug d))"
proof (cases "row_exists (\<lambda>p. pm_id p = sv_new_id env \<or>
    pm_application_id p = cpi_application_id input \<and> pm_slug p = slug) (db_permissions d)")
  case False
  then have "unique_on pm_id (db_permissions d @ [inserted_permission env input slug])"
    using control_uniques(3) [OF assms(1)]
    by (intro unique_on_insert_row) (auto simp: row_exists_iff inserted_permission_def)
  with False assms show ?thesis
    by (auto simp: insert_permission_def Let_def inserted_permission_def built_in_permission_def
        intro!: control_permissions)
qed (simp add: insert_permission_def assms)

lemma control_update_permission:
  assumes "control_ok S d" and "\<not> (app = control_id S \<and> i \<in> pm_id ` set (sn_permissions S))"
  shows "control_ok S (snd (repo_update_permission app i u d))"
proof -
  have "\<not> built_in_permission (control_id S) x \<and>
      \<not> built_in_permission (control_id S) (apply_permission_update u x)"
    if "x \<in> set (db_permissions d)" "pm_application_id x = app \<and> pm_id x = i" for x
    using that assms(2) control_permission [OF assms(1) that(1)]
    by (auto simp: built_in_permission_def apply_permission_update_def)
  then have "filter (built_in_permission (control_id S)) (update_where
      (\<lambda>x. pm_application_id x = app \<and> pm_id x = i) (apply_permission_update u) (db_permissions d)) =
    filter (built_in_permission (control_id S)) (db_permissions d)"
    by (intro filter_update_where)
  moreover have "unique_on pm_id (update_where
      (\<lambda>x. pm_application_id x = app \<and> pm_id x = i) (apply_permission_update u) (db_permissions d))"
    using control_uniques(3) [OF assms(1)] by (simp add: unique_on_update_where apply_permission_update_def)
  ultimately show ?thesis
    using assms(1) by (auto simp: repo_update_permission_def intro!: control_permissions split: option.split)
qed

lemma control_delete_permission:
  assumes "control_ok S d" and "\<not> (app = control_id S \<and> i \<in> pm_id ` set (sn_permissions S))"
  shows "control_ok S (delete_captured_permission app i d)"
proof (cases "row_exists (\<lambda>p. pm_application_id p = app \<and> pm_id p = i) (db_permissions d)")
  case True
  then obtain x where x: "x \<in> set (db_permissions d)" "pm_application_id x = app" "pm_id x = i"
    by (auto simp: row_exists_iff)
  then have "i \<notin> pm_id ` set (sn_permissions S)"
    using assms(2) control_permission [OF assms(1) x(1)] by (auto simp: built_in_permission_def)
  then have "control_ok S (delete_permissions_cascade [i] d)"
    by (intro control_delete_permissions [OF assms(1)]) simp
  with True show ?thesis
    by (simp add: delete_captured_permission_def)
qed (simp add: delete_captured_permission_def assms(1))

lemma control_assign_permissions:
  assumes "control_ok S d" and "r \<notin> ro_id ` set (sn_roles S)"
  shows "control_ok S (snd (repo_assign_permissions app r ps d))"
  using assms by (auto simp: repo_assign_permissions_def Let_def built_in_link_def filter_empty_conv
      intro!: control_links)

lemma control_remove_permissions:
  assumes "control_ok S d" and "r \<notin> ro_id ` set (sn_roles S)"
  shows "control_ok S (snd (repo_remove_permissions app r ps d))"
proof -
  have "filter (built_in_link (sn_roles S) (sn_permissions S)) (delete_where
      (\<lambda>l. rl_role_id l = r \<and> rl_permission_id l \<in> set ps \<and> repo_find_role_by_id app r d \<noteq> None \<and>
        find_permission_by_id app (rl_permission_id l) d \<noteq> None) (db_role_permissions d)) =
    filter (built_in_link (sn_roles S) (sn_permissions S)) (db_role_permissions d)"
    using assms(2) by (intro filter_delete_where) (auto simp: built_in_link_def)
  with assms(1) show ?thesis
    by (simp add: repo_remove_permissions_def Let_def control_links)
qed

lemma control_delete_module:
  assumes "control_ok S d" and "app \<noteq> control_id S"
  shows "control_ok S (delete_captured_module app i d)"
proof -
  let ?P = "\<lambda>p. opt_in (pm_module_id p)
    (map mo_id (filter (\<lambda>m. mo_application_id m = app \<and> mo_id m = i) (db_modules d)))"
  have foreign: "\<not> built_in_permission (control_id S) p" if "p \<in> set (db_permissions d)" "?P p" for p
    using that control_permission_module [OF assms(1) that(1)] by (cases "pm_module_id p") auto
  have "control_ok S (delete_permissions_cascade (map pm_id (filter ?P (db_permissions d))) d)"
    by (rule control_delete_permissions [OF assms(1)])
      (rule foreign_permission_ids [OF assms(1) foreign])
  moreover have "filter (\<lambda>m. mo_application_id m = control_id S)
      (delete_where (\<lambda>m. mo_application_id m = app \<and> mo_id m = i) (db_modules d)) =
    filter (\<lambda>m. mo_application_id m = control_id S) (db_modules d)"
    using assms(2) by (intro filter_delete_where) auto
  ultimately show ?thesis
    by (simp add: delete_captured_module_def Let_def control_modules delete_permissions_cascade_def)
qed

lemma control_delete_application:
  assumes "control_ok S d" and "i \<noteq> control_id S"
  shows "control_ok S (delete_captured_application i d)"
proof (cases "row_exists (\<lambda>a. ap_id a = i) (db_applications d)")
  case True
  have role: "\<not> built_in_role (control_id S) r" if "ro_application_id r = i" for r
    using assms(2) that by (auto simp: built_in_role_def)
  have permission: "\<not> built_in_permission (control_id S) p" if "pm_application_id p = i" for p
    using assms(2) that by (auto simp: built_in_permission_def)
  let ?roles = "map ro_id (filter (\<lambda>r. ro_application_id r = i) (db_roles d))"
  let ?perms = "map pm_id (filter (\<lambda>p. pm_application_id p = i) (db_permissions d))"
  let ?g = "capture_application_graph i d"
  define d1 where "d1 = delete_roles_cascade (ag_role_ids ?g) d"
  define d2 where "d2 = delete_permissions_cascade (ag_permission_ids ?g) d1"
  have ids: "set (ag_role_ids ?g) = set ?roles" "set (ag_permission_ids ?g) = set ?perms"
    by (simp_all add: capture_application_graph_def Let_def)
  have d1: "control_ok S d1"
    unfolding d1_def by (rule control_roles_links [OF assms(1)])
      (rule foreign_role_ids [OF assms(1) role], simp_all only: ids)
  have same: "db_permissions d1 = db_permissions d"
    by (simp add: d1_def delete_roles_cascade_def)
  have ok: "control_ok S d2"
    unfolding d2_def by (rule control_delete_permissions [OF d1])
      (rule foreign_permission_ids [OF d1 permission], simp_all only: ids same)
  have "filter (\<lambda>m. mo_application_id m = control_id S)
      (delete_where (\<lambda>m. mo_application_id m = i) (db_modules d2)) =
    filter (\<lambda>m. mo_application_id m = control_id S) (db_modules d2)"
    using assms(2) by (intro filter_delete_where) auto
  moreover have "filter (\<lambda>a. ap_slug a = admin_application_slug)
      (delete_where (\<lambda>a. ap_id a = i) (db_applications d2)) =
    filter (\<lambda>a. ap_slug a = admin_application_slug) (db_applications d2)"
    using assms(2) control_row [OF ok]
    by (intro filter_delete_where) (auto simp: control_id_def)
  ultimately have "control_ok S (d2\<lparr>db_modules := delete_where (\<lambda>m. mo_application_id m = i) (db_modules d2),
      db_applications := delete_where (\<lambda>a. ap_id a = i) (db_applications d2)\<rparr>)"
    using ok unique_on_delete_where [OF control_uniques(1) [OF ok]]
    by (intro control_apps control_modules) simp_all
  moreover have "control_ok S (delete_captured_application i d) =
      control_ok S (d2\<lparr>db_modules := delete_where (\<lambda>m. mo_application_id m = i) (db_modules d2),
      db_applications := delete_where (\<lambda>a. ap_id a = i) (db_applications d2)\<rparr>)"
    by (rule control_cong) (simp_all add: delete_captured_application_def Let_def True d1_def d2_def
        delete_claims_cascade_def delete_clients_cascade_def)
  ultimately show ?thesis by simp
qed (simp add: delete_captured_application_def assms(1))


text \<open>
  Whatever application, module, role, permission and role-assignment calls run, the control plane
  stays as it was: every service keeps \<open>control_inv\<close>.
\<close>

lemmas keeps_control = cp.keeps_store keeps_cache_application keeps_invalidate_application
  get_by_slug_keeps get_by_id_keeps keeps_guard_alone

lemma keeps_set_cached_role [intro]: "preserves (control_inv S) (set_cached_role now r)"
  unfolding set_cached_role_def
  by (rule cp.keeps_store_redis)
    (auto simp: control_cache_def role_cache_key_def app_slug_key_def)

lemma control_sessions:
  "control_ok S d \<Longrightarrow> control_ok S (revoke_admin_sessions now uids d)"
  "control_ok S d \<Longrightarrow> control_ok S (delete_application_payloads g d)"
  "control_ok S d \<Longrightarrow> control_ok S (delete_user_payloads grants uids d)"
  by (rule control_cong [THEN iffD2]; simp add: revoke_admin_sessions_def
      delete_application_payloads_def delete_user_payloads_def)+

lemma keeps_revoke [intro]:
  "preserves (control_inv S) (revoke_affected_authority_in_transaction now uids)"
  unfolding revoke_affected_authority_in_transaction_def Let_def
  by (intro preserves_intros cp.keeps_store_select cp.keeps_store_execute control_sessions)

subsection \<open>Applications and modules\<close>

lemma keeps_require_slug [intro]: "preserves (control_inv S) (require_application_slug slug)"
  unfolding require_application_slug_def by (intro preserves_intros)

lemma inserted_not_canonical:
  assumes "control_ok S d" and "fst (insert_application env data d) = Inr a"
    and "ap_slug a = admin_application_slug"
  shows "ap_id a = control_id S"
proof -
  have "sn_application S \<in> set (db_applications d)"
    and "ap_slug (sn_application S) = admin_application_slug"
    using assms(1) by (auto simp: control_ok_alt dest!: find_application_slugD)
  moreover have "\<not> row_exists (\<lambda>a. ap_slug a = ia_slug data) (db_applications d)"
    and "ap_slug a = ia_slug data"
    using assms(2) by (auto simp: insert_application_def Let_def inserted_application_def row_exists_iff
        split: if_splits)
  ultimately have False
    using assms(3) by (auto simp: row_exists_iff)
  then show ?thesis ..
qed

lemma create_application_keeps: "preserves (control_inv S) (create_application env input actor)"
  unfolding create_application_def Let_def
  by (intro preserves_andthen keeps_query_result preserves_unless preserves_return keeps_require_slug
      cp.keeps_store_select keeps_cache_application cp.keeps_store_audit control_insert_application
      inserted_not_canonical)

lemma update_application_keeps: "preserves (control_inv S) (update_application env i input actor)"
proof (unfold update_application_def Let_def application_not_found_def, rule keeps_mutable_guard,
    rule keeps_catch_result)
  fix d
  assume "i \<noteq> control_id S" and "control_ok S d"
  then show "control_ok S (snd (repo_update_application (sv_now env) i (record_update_data input) d))"
    by (rule control_update_application [rotated])
next
  fix a d
  assume i: "i \<noteq> control_id S" and d: "control_ok S d"
    and a: "fst (repo_update_application (sv_now env) i (record_update_data input) d) = Inr a"
  then have "ap_slug a = admin_application_slug \<Longrightarrow> ap_id a = control_id S"
    using control_row [OF d] by (auto simp: repo_update_application_def apply_application_update_def
        control_id_def dest!: find_application_idD split: if_splits option.splits)
  then show "preserves (control_inv S) (andthen (invalidate_application_cache (ap_slug a) (ap_id a))
     (\<lambda>_. andthen (cache_application (sv_now env) a)
     (\<lambda>_. andthen (write_audit_log (app_event ''app.updated'' actor
            [(''applicationId'', JStr (ap_id a)),
             (''fields'', JArr (map JStr (record_update_keys (record_update_data input))))]))
     (\<lambda>_. return_op a))))"
    by (intro preserves_andthen preserves_return keeps_cache_application
        keeps_invalidate_application cp.keeps_store_audit)
qed

lemma load_app_keeps [intro]: "preserves (control_inv S) (load_app_for_status_change i)"
  unfolding load_app_for_status_change_def by (intro preserves_intros cp.keeps_store_select)

lemma load_module_keeps [intro]: "preserves (control_inv S) (load_owned_module app i)"
  unfolding load_owned_module_def by (intro preserves_intros cp.keeps_store_select)

lemma application_status_keeps:
  "preserves (control_inv S) (change_application_status env s t verb event i actor)"
  unfolding change_application_status_def
  by (rule keeps_mutable_guard)
    (intro preserves_andthen preserves_unless load_app_keeps cp.keeps_store_query
      keeps_invalidate_application cp.keeps_store_audit control_update_application)

lemma create_module_keeps: "preserves (control_inv S) (create_module env app input actor)"
  unfolding create_module_def Let_def
  by (rule keeps_mutable_guard)
    (intro preserves_andthen preserves_unless preserves_return load_app_keeps keeps_require_slug
      cp.keeps_store_select cp.keeps_store_query cp.keeps_store_audit control_insert_module, simp_all)

lemma update_module_keeps: "preserves (control_inv S) (update_module env app i input actor)"
  unfolding update_module_def Let_def module_not_found_def
  by (rule keeps_mutable_guard)
    (intro preserves_andthen preserves_catch preserves_throw preserves_return load_module_keeps
      cp.keeps_store_query cp.keeps_store_audit control_update_module)

lemma module_status_keeps:
  "preserves (control_inv S) (change_module_status env s t verb event app i actor)"
  unfolding change_module_status_def
  by (rule keeps_mutable_guard)
    (intro preserves_andthen preserves_unless load_module_keeps cp.keeps_store_query
      cp.keeps_store_audit control_update_module)

lemma delete_application_keeps: "preserves (control_inv S) (delete_application env i actor)"
  unfolding delete_application_def
  by (rule keeps_mutable_guard)
    (intro preserves_intros cp.keeps_store_select cp.keeps_store_execute cp.keeps_store_audit_row
      cp.keeps_store_deletion control_sessions control_delete_application)

lemma delete_module_keeps: "preserves (control_inv S) (delete_module env app i actor)"
  unfolding delete_module_def
  by (rule keeps_mutable_guard)
    (intro preserves_intros cp.keeps_store_select cp.keeps_store_execute cp.keeps_store_audit_row
      cp.keeps_store_deletion control_sessions control_delete_module)

subsection \<open>Roles\<close>

lemma create_role_keeps: "preserves (control_inv S) (create_role env input actor)"
  unfolding create_role_def Let_def
  by (rule preserves_andthen, rule preserves_unless, rule keeps_role_guard)
    (intro preserves_andthen preserves_unless preserves_return cp.keeps_store_select
      cp.keeps_store_query keeps_set_cached_role cp.keeps_store_audit control_insert_role)

lemma find_role_keeps: "preserves (control_inv S) (find_role_by_id env app i)"
proof (rule preservesI)
  fix f
  assume inv: "control_inv S f"
  have "preserves (control_inv S) (andthen (set_cached_role (sv_now env) r) (\<lambda>_. return_op (Some r)))" for r
    by (intro preserves_andthen preserves_return keeps_set_cached_role)
  with inv show "control_inv S (snd (find_role_by_id env app i f))"
    by (auto simp: find_role_by_id_def preserves_def split: option.splits)
qed

text \<open>A row that a service found is built in exactly when the snapshot has its id.\<close>

lemma found_role:
  assumes "control_ok S d" and "repo_find_role_by_id app i d = Some r"
  shows "ro_application_id r = app" and "ro_id r = i"
    and "app = control_id S \<and> ro_slug r \<in> set admin_role_slugs \<longleftrightarrow>
      app = control_id S \<and> i \<in> ro_id ` set (sn_roles S)"
proof -
  have r: "r \<in> set (db_roles d)" "ro_application_id r = app" "ro_id r = i"
    using assms(2) by (auto simp: repo_find_role_by_id_def dest: find_row_SomeD)
  then show "ro_application_id r = app" and "ro_id r = i"
    by simp_all
  show "app = control_id S \<and> ro_slug r \<in> set admin_role_slugs \<longleftrightarrow>
      app = control_id S \<and> i \<in> ro_id ` set (sn_roles S)"
    using control_role [OF assms(1) r(1)] r(2,3) by (auto simp: built_in_role_def)
qed

lemma found_permission:
  assumes "control_ok S d" and "find_permission_by_id app i d = Some p"
  shows "app = control_id S \<and> pm_slug p \<in> set all_admin_permissions \<longleftrightarrow>
      app = control_id S \<and> i \<in> pm_id ` set (sn_permissions S)"
proof -
  have p: "p \<in> set (db_permissions d)" "pm_application_id p = app" "pm_id p = i"
    using assms(2) by (auto simp: find_permission_by_id_def dest: find_row_SomeD)
  show ?thesis
    using control_permission [OF assms(1) p(1)] p(2,3) by (auto simp: built_in_permission_def)
qed

lemma delete_role_keeps: "preserves (control_inv S) (delete_role env app i actor)"
  unfolding delete_role_def
proof (rule preserves_andthen [OF preserves_require], rule keeps_select_result)
  fix d
  assume d: "control_ok S d"
  show "preserves (control_inv S) (case capture_role_for_deletion app i d of
       None \<Rightarrow> throw_op (RoleNotFoundError i)
     | Some c \<Rightarrow>
         andthen (guard_canonical_admin_role env (ro_application_id (rc_role c)) (ro_slug (rc_role c)))
          (\<lambda>_. andthen (revoke_affected_authority_in_transaction (sv_now env) (rc_user_ids c))
          (\<lambda>revoked. andthen (write_audit_log_in_transaction (rbac_event ''role.deleted'' actor
               [(''applicationId'', JStr app), (''roleId'', JStr i), (''slug'', JStr (ro_slug (rc_role c)))]))
          (\<lambda>_. andthen (query (execute (delete_captured_role app i)))
          (\<lambda>_. andthen (register_deletion_cleanup (sv_now env)
               (role_cleanup_descriptor app i c (ra_grant_ids revoked)))
          (\<lambda>_. return_op (opt_in actor (rc_user_ids c))))))))"
  proof (cases "repo_find_role_by_id app i d")
    case (Some r)
    then show ?thesis
      using found_role [OF d Some]
      by (auto simp: capture_role_for_deletion_def Let_def
          intro!: keeps_role_guard preserves_andthen keeps_revoke cp.keeps_store_audit_row
          cp.keeps_store_execute cp.keeps_store_deletion control_delete_role)
  qed (simp add: capture_role_for_deletion_def)
qed

lemma check_slug_keeps [intro]: "preserves (control_inv S) (check_role_slug env app i slug)"
  unfolding check_role_slug_def
  by (intro preserves_intros keeps_guard_alone cp.keeps_store_select)

text \<open>A new slug that reaches the update is not one of the control plane's.\<close>

lemma keeps_check_slug:
  assumes "\<And>s. slug = Some s \<Longrightarrow> \<not> (app = control_id S \<and> s \<in> set admin_role_slugs) \<Longrightarrow>
      preserves (control_inv S) (g ())"
    and "slug = None \<Longrightarrow> preserves (control_inv S) (g ())"
  shows "preserves (control_inv S) (andthen (check_role_slug env app i slug) g)"
proof (cases slug)
  case None
  with assms(2) show ?thesis by (simp add: check_role_slug_def)
next
  case (Some s)
  then show ?thesis
    unfolding check_role_slug_def andthen_assoc option.case
    by (auto simp: andthen_assoc intro!: keeps_role_guard preserves_andthen preserves_unless cp.keeps_store_select
        intro: assms(1))
qed

lemma update_role_rest:
  assumes "\<not> (app = control_id S \<and> i \<in> ro_id ` set (sn_roles S))"
    and "\<And>s. ur_set_slug u = Some s \<Longrightarrow> \<not> (app = control_id S \<and> s \<in> set admin_role_slugs)"
  shows "preserves (control_inv S)
    (andthen (if ch then query (select (get_user_ids_for_role app i)) else return_op []) (\<lambda>users.
     andthen (if ch then revoke_affected_authority_in_transaction (sv_now env) users
              else return_op \<lparr>ra_grant_ids = []\<rparr>) (\<lambda>revoked.
     andthen (query (repo_update_role (sv_now env) app i u)) (\<lambda>updated.
     andthen ((if ch then write_audit_log_in_transaction else write_audit_log) e) (\<lambda>_.
     andthen (register_authority_cleanup (sv_now env) (h users revoked)) (\<lambda>_.
     return_op (k updated users)))))))"
  using assms
  by (intro preserves_andthen preserves_if preserves_return cp.keeps_store_select keeps_revoke
      cp.keeps_store_query control_update_role cp.keeps_store_authority)
    (auto intro: cp.keeps_store_audit cp.keeps_store_audit_row)

lemma update_role_keeps: "preserves (control_inv S) (update_role env app i input actor)"
  unfolding update_role_def lock_role_by_id_def
proof (rule preserves_andthen [OF preserves_require], rule keeps_select_result, goal_cases)
  case (1 _ d)
  show ?case
  proof (cases "repo_find_role_by_id app i d")
    case (Some r)
    note r = found_role [OF 1 Some]
    let ?u = "input\<lparr>ur_set_slug := map_option normalize_rbac_slug (ur_set_slug input)\<rparr>"
    show ?thesis
      unfolding Some option.case Let_def r(1)
    proof (rule keeps_role_guard, goal_cases)
      case guard: 1
      then have i: "\<not> (app = control_id S \<and> i \<in> ro_id ` set (sn_roles S))"
        using r(3) by blast
      have same: "\<not> (app = control_id S \<and> s \<in> set admin_role_slugs)"
        if "ur_set_slug ?u = Some s" "\<not> field_changed (ur_set_slug ?u) (ro_slug r)" for s
        using that guard by (cases "ur_set_slug input") (auto simp: field_changed_def)
      show ?case
        by (intro preserves_if preserves_return keeps_check_slug update_role_rest i)
          (use same in \<open>force split: if_splits\<close>)+
    qed
  qed simp
qed

subsection \<open>Permissions and links\<close>

lemma targets_keeps_role:
  assumes "\<And>role ps as. ro_application_id role = app \<Longrightarrow>
      (app = control_id S \<and> ro_slug role \<in> set admin_role_slugs \<longleftrightarrow>
       r \<in> ro_id ` set (sn_roles S)) \<Longrightarrow> preserves (control_inv S) (g (role, ps, as))"
  shows "preserves (control_inv S) (andthen (require_role_permission_targets app r ids) g)"
  unfolding require_role_permission_targets_def Let_def andthen_assoc
proof (rule keeps_select_result)
  fix d
  assume d: "control_ok S d"
  show "preserves (control_inv S) (andthen (case rt_role (lock_role_permission_targets app r (sort (js_set ids)) d) of
       None \<Rightarrow> throw_op (RoleNotFoundError r)
     | Some role \<Rightarrow>
         if length (rt_permissions (lock_role_permission_targets app r (sort (js_set ids)) d)) \<noteq>
            length (sort (js_set ids))
         then throw_op (RbacValidationError ''Every permission must belong to the selected application'')
         else return_op (role, rt_permissions (lock_role_permission_targets app r (sort (js_set ids)) d),
           rt_assigned (lock_role_permission_targets app r (sort (js_set ids)) d))) g)"
  proof (cases "repo_find_role_by_id app r d")
    case (Some role)
    have mem: "role \<in> set (db_roles d)" "ro_application_id role = app" "ro_id role = r"
      using Some by (auto simp: repo_find_role_by_id_def dest: find_row_SomeD)
    then have "app = control_id S \<and> ro_slug role \<in> set admin_role_slugs \<longleftrightarrow> r \<in> ro_id ` set (sn_roles S)"
      using control_role [OF d mem(1)] by (auto simp: built_in_role_def)
    then have "\<And>ps as. preserves (control_inv S) (g (role, ps, as))"
      by (rule assms [OF mem(2)])
    with Some show ?thesis
      by (auto simp: lock_role_permission_targets_def Let_def)
  qed (simp add: lock_role_permission_targets_def Let_def)
qed

lemma assign_permissions_keeps:
  "preserves (control_inv S) (assign_permissions_to_role env app r ids actor)"
proof (cases "ids = []")
  case False
  show ?thesis
    unfolding assign_permissions_to_role_def if_not_P [OF False]
    by (rule preserves_andthen [OF preserves_require], rule targets_keeps_role, simp, rule keeps_role_guard)
      (intro preserves_intros cp.keeps_store_select cp.keeps_store_query cp.keeps_store_authority
        cp.keeps_store_audit keeps_guard_alone, simp add: control_assign_permissions)
qed (simp add: assign_permissions_to_role_def)

lemma remove_permissions_keeps:
  "preserves (control_inv S) (remove_permissions_from_role env app r ids actor)"
proof (cases "ids = []")
  case False
  show ?thesis
    unfolding remove_permissions_from_role_def if_not_P [OF False]
    by (rule preserves_andthen [OF preserves_require], rule targets_keeps_role, simp only: prod.case, rule keeps_role_guard)
      (intro preserves_intros cp.keeps_store_select cp.keeps_store_query cp.keeps_store_authority
        cp.keeps_store_audit_row keeps_revoke keeps_guard_alone, simp add: control_remove_permissions)
qed (simp add: remove_permissions_from_role_def)

lemma create_permission_keeps: "preserves (control_inv S) (create_permission env input actor)"
  unfolding create_permission_def Let_def check_permission_module_def
  by (rule preserves_andthen, rule preserves_unless, rule keeps_permission_guard)
    (intro preserves_intros cp.keeps_store_select cp.keeps_store_query cp.keeps_store_audit
      control_insert_permission)

lemma update_permission_keeps: "preserves (control_inv S) (update_permission env app i input actor)"
  unfolding update_permission_def lock_permission_by_id_def
proof (rule preserves_andthen [OF preserves_require], rule keeps_select_result, goal_cases)
  case (1 _ d)
  show ?case
  proof (cases "find_permission_by_id app i d")
    case (Some p)
    then show ?thesis
      using found_permission [OF 1 Some]
      by (auto intro!: keeps_permission_guard preserves_andthen cp.keeps_store_query
          cp.keeps_store_audit control_update_permission)
  qed simp
qed

lemma delete_permission_keeps: "preserves (control_inv S) (delete_permission env app i actor)"
  unfolding delete_permission_def
proof (rule preserves_andthen [OF preserves_require], rule keeps_select_result, goal_cases)
  case (1 _ d)
  show ?case
  proof (cases "find_permission_by_id app i d")
    case (Some p)
    then show ?thesis
      using found_permission [OF 1 Some]
      by (auto simp: capture_permission_for_deletion_def Let_def
          intro!: keeps_permission_guard preserves_andthen keeps_revoke cp.keeps_store_audit_row
          cp.keeps_store_execute cp.keeps_store_deletion control_delete_permission)
  qed (simp add: capture_permission_for_deletion_def)
qed

subsection \<open>Role assignments\<close>

lemma user_targets_keeps [intro]: "preserves (control_inv S) (require_user_role_targets env org u ids)"
  unfolding require_user_role_targets_def Let_def
  by (intro preserves_intros cp.keeps_store_select get_by_slug_keeps)

lemma boundary_keeps [intro]: "preserves (control_inv S) (require_role_actor_boundary actor t app)"
  unfolding require_role_actor_boundary_def by (intro preserves_intros)

lemma delegation_keeps [intro]: "preserves (control_inv S) (check_delegation env opts t)"
  unfolding check_delegation_def require_delegable_roles_def Let_def
  by (intro preserves_intros cp.keeps_store_select)

lemma control_user_roles:
  "control_ok S d \<Longrightarrow> control_ok S (snd (repo_assign_roles org u ids by d))"
  "control_ok S d \<Longrightarrow> control_ok S (snd (repo_remove_roles org u ids d))"
  by (rule control_cong [THEN iffD2]; simp add: repo_assign_roles_def repo_remove_roles_def Let_def)+

lemma assign_roles_keeps: "preserves (control_inv S) (assign_roles_to_user env opts)"
  unfolding assign_roles_to_user_def Let_def assign_roles_work_def
  by (intro preserves_intros cp.keeps_store_transaction user_targets_keeps boundary_keeps
      delegation_keeps cp.keeps_store_query cp.keeps_store_audit_row cp.keeps_store_authority
      control_user_roles)

lemma survivor_db: "snd (require_active_super_admin_survivor org u d) = d"
  by (simp add: require_active_super_admin_survivor_def
      require_active_super_admin_survivor_after_lock_def unless_throw_def)

lemma remove_roles_keeps: "preserves (control_inv S) (remove_roles_from_user env opts)"
  unfolding remove_roles_from_user_def remove_roles_work_def
  by (intro preserves_intros cp.keeps_store_transaction user_targets_keeps boundary_keeps
      keeps_revoke cp.keeps_store_select cp.keeps_store_query cp.keeps_store_audit_row
      cp.keeps_store_authority) (simp_all add: control_user_roles survivor_db)

end
