(* ===== verification/UserRoleProperties.thy ===== *)
theory UserRoleProperties
  imports ControlPlaneProperties
begin

text \<open>
  Who may give and take roles. An operation is \<open>reading\<close> when it leaves the database alone;
  \<open>quiet\<close> flows have only cache effects pending, so a commit leaves the database the work reached.
\<close>

subsection \<open>Reading operations and quiet flows\<close>

definition reading :: "(flow, 'a) op \<Rightarrow> bool" where
  "reading m \<longleftrightarrow> (\<forall>f. flow_db (snd (m f)) = flow_db f)"

definition cache_effect :: "effect \<Rightarrow> bool" where
  "cache_effect eff \<longleftrightarrow> (\<forall>st. st_db (snd (eff st)) = st_db st)"

definition quiet :: "flow \<Rightarrow> bool" where
  "quiet f \<longleftrightarrow> (case fl_tx f of None \<Rightarrow> True | Some q \<Rightarrow> list_all cache_effect q)"

lemma readingD: "reading m \<Longrightarrow> m f = (r, f') \<Longrightarrow> flow_db f' = flow_db f"
  unfolding reading_def by (metis snd_conv)

lemma reading_return [simp, intro]: "reading (return_op a)" "reading (throw_op e)"
  by (simp_all add: reading_def)

lemma reading_unless [simp, intro]: "reading (unless_throw b e)"
  by (cases b) simp_all

lemma reading_select [simp, intro]: "reading (query (select q))"
  by (simp add: reading_def)

lemma reading_andthen [intro]:
  assumes "reading m" and "\<And>a. reading (g a)"
  shows "reading (andthen m g)"
  unfolding reading_def
proof
  fix f
  obtain r f' where m: "m f = (r, f')"
    by (cases "m f") auto
  then have "flow_db f' = flow_db f"
    by (rule readingD [OF assms(1)])
  moreover have "flow_db (snd (g a f')) = flow_db f'" for a
    using assms(2) by (simp add: reading_def)
  ultimately show "flow_db (snd (andthen m g f)) = flow_db f"
    using m by (cases r) (simp_all add: andthen_def)
qed

lemma reading_get_application [intro]: "reading (get_application_by_slug env slug)"
  by (auto simp: reading_def get_application_by_slug_def read_application_def andthen_def
      cache_application_def after_database_commit_def split: option.splits prod.splits)

lemma cache_effect_redis [simp]: "cache_effect (best_effort_redis g)"
  by (simp add: cache_effect_def)

lemma run_cache_effects: "list_all cache_effect q \<Longrightarrow> st_db (run_effects q st) = st_db st"
  by (induction q arbitrary: st) (auto simp: cache_effect_def)

lemma quiet_after_commit [intro]:
  "preserves quiet (after_database_commit (best_effort_redis g))"
  by (rule preservesI) (auto simp: quiet_def after_database_commit_def split: option.splits)

lemma quiet_query [intro]: "preserves quiet (query m)"
  by (rule preservesI) (simp add: quiet_def)

lemma quiet_require [intro]: "preserves quiet (require_transaction msg)"
  by (rule preservesI) (auto simp: require_transaction_def unless_throw_def)

lemma quiet_audit_row [intro]: "preserves quiet (write_audit_log_in_transaction e)"
  by (auto simp: write_audit_log_in_transaction_def split: sum.splits)

lemma quiet_cleanups [intro]:
  "preserves quiet (register_authority_cleanup now a)"
  "preserves quiet (register_deletion_cleanup now c)"
  by (auto simp: register_authority_cleanup_def register_deletion_cleanup_def)

lemma preserves_read_application:
  assumes "\<And>a. preserves I (cache_application now a)"
  shows "preserves I (read_application now cached lookup)"
proof (rule preservesI)
  fix f
  assume f: "I f"
  have step: "preserves I (andthen (cache_application now a) (\<lambda>_. return_op (Some a)))" for a
    using assms by (intro preserves_andthen) simp_all
  show "I (snd (read_application now cached lookup f))"
    using f preservesD [OF step f]
    by (cases "cached (fl_store f)"; cases "lookup (flow_db f)") (simp_all add: read_application_def)
qed

lemma quiet_get_application [intro]: "preserves quiet (get_application_by_slug env slug)"
  unfolding get_application_by_slug_def cache_application_def
  by (rule preserves_read_application) (simp add: cache_application_def quiet_after_commit)

lemmas quiet_intros = preserves_intros quiet_query quiet_audit_row quiet_cleanups quiet_get_application

text \<open>The committed database of quiet work is the one the work reached.\<close>

lemma quiet_commit:
  assumes "outside_tx f" and "run_database_transaction work f = (Inr a, f')" and "preserves quiet work"
  obtains f1 where "work (f\<lparr>fl_tx := Some []\<rparr>) = (Inr a, f1)" and "flow_db f' = flow_db f1"
proof -
  obtain r f1 where w: "work (f\<lparr>fl_tx := Some []\<rparr>) = (r, f1)"
    by (cases "work (f\<lparr>fl_tx := Some []\<rparr>)") auto
  show thesis
  proof (cases r)
    case (Inl e)
    with assms w show ?thesis
      by (simp add: run_database_transaction_Inl)
  next
    case (Inr b)
    have "quiet f1"
      using assms(3) w preservesD [of quiet work "f\<lparr>fl_tx := Some []\<rparr>"] by (simp add: quiet_def)
    then have "list_all cache_effect (nullish (fl_tx f1) [])"
      by (auto simp: quiet_def split: option.splits)
    moreover have "a = b \<and> f' = f1\<lparr>fl_tx := None,
        fl_store := run_effects (nullish (fl_tx f1) []) (fl_store f1)\<rparr>"
      using assms(1,2) w Inr by (auto simp: run_database_transaction_Inr)
    ultimately show ?thesis
      using that [of f1] w Inr by (simp add: run_cache_effects)
  qed
qed

lemma control_inv_enter: "control_inv S f \<Longrightarrow> outside_tx f \<Longrightarrow> control_inv S (f\<lparr>fl_tx := Some []\<rparr>)"
  by (simp add: store_inv_def)

subsection \<open>The validated targets\<close>

lemma sort_Nil: "sort xs = [] \<longleftrightarrow> xs = []"
  by (metis set_empty set_sort)

lemma user_role_targets:
  assumes "control_inv S f" and "require_user_role_targets env org u ids f = (Inr t, f')"
  shows "flow_db f' = flow_db f" and "vt_admin_application t = Some (control_id S)"
    and "set (vt_roles t) = {r \<in> set (db_roles (flow_db f)). ro_id r \<in> set ids}"
    and "set (vt_assigned t) = {i \<in> set ids. has_role u i (flow_db f)}"
    and "\<exists>x \<in> set (db_users (flow_db f)). ur_organization_id x = org \<and> ur_id x = u \<and>
      vt_status t = ur_status x"
proof -
  let ?t = "lock_user_role_targets org u (sort (js_set ids)) (flow_db f)"
  obtain i status where user: "ut_user ?t = Some (i, status)"
    using assms(2) by (auto simp: require_user_role_targets_def Let_def step_select split: option.splits)
  with assms(2) have len: "length (ut_roles ?t) = length (sort (js_set ids))"
    by (auto simp: require_user_role_targets_def Let_def step_select split: if_splits)
  obtain a f1 where a: "get_application_by_slug env admin_application_slug f = (Inr (Some a), f1)"
      "ap_id a = control_id S" "flow_db f1 = flow_db f"
    using get_canonical [OF assms(1)] by blast
  have res: "f' = f1" "t = \<lparr>vt_user_id = i, vt_status = status, vt_roles = ut_roles ?t,
      vt_assigned = ut_assigned ?t, vt_admin_application = Some (control_id S)\<rparr>"
    using assms(2) user len a
    by (auto simp: require_user_role_targets_def Let_def step_select andthen_def)
  obtain x where x: "x \<in> set (db_users (flow_db f))" "ur_organization_id x = org" "ur_id x = u"
      "status = ur_status x"
    using user by (auto simp: lock_user_role_targets_def Let_def dest!: find_row_SomeD
        split: option.splits if_splits)
  have "set (ut_roles ?t) = {r \<in> set (db_roles (flow_db f)). ro_id r \<in> set ids}"
    "set (ut_assigned ?t) = {i \<in> set ids. has_role u i (flow_db f)}"
    using user by (auto simp: lock_user_role_targets_def Let_def has_role_def row_exists_iff
        sort_Nil split: option.splits if_splits)
  with res a(3) x show "flow_db f' = flow_db f" "vt_admin_application t = Some (control_id S)"
    "set (vt_roles t) = {r \<in> set (db_roles (flow_db f)). ro_id r \<in> set ids}"
    "set (vt_assigned t) = {i \<in> set ids. has_role u i (flow_db f)}"
    "\<exists>x \<in> set (db_users (flow_db f)). ur_organization_id x = org \<and> ur_id x = u \<and>
      vt_status t = ur_status x"
    by auto
qed

subsection \<open>Delegation\<close>

text \<open>The capabilities a user holds through the roles of one application.\<close>

definition capabilities_of :: "string \<Rightarrow> string \<Rightarrow> db \<Rightarrow> string set" where
  "capabilities_of u app d =
     (\<Union>r \<in> {r \<in> set (db_roles d). ro_application_id r = app \<and> has_role u (ro_id r) d}.
        set (get_permissions_for_admin_role (ro_slug r)))"

lemma capabilities_of_roles:
  assumes "app \<noteq> []"
  shows "set (resolve_permissions_from_roles (map ro_slug (repo_get_roles_for_user env u (Some app) d))) =
    capabilities_of u app d"
  using assms by (auto simp: capabilities_of_def repo_get_roles_for_user_def)

lemma delegable_roles:
  assumes "require_delegable_roles env roles a (Some app) f = (Inr (), f')" and "app \<noteq> []"
    and "r \<in> set roles" and "ro_application_id r = app"
  shows "set (get_permissions_for_admin_role (ro_slug r)) \<subseteq> capabilities_of a app (flow_db f)"
proof
  fix c
  assume c: "c \<in> set (get_permissions_for_admin_role (ro_slug r))"
  with assms(3,4) have req: "c \<in> set (requested_capabilities roles app)"
    by (auto simp: requested_capabilities_def)
  then have "requested_capabilities roles app \<noteq> []"
    by auto
  with assms(1,2) have "list_all (\<lambda>c. c \<in> capabilities_of a app (flow_db f)) (requested_capabilities roles app)"
    unfolding require_delegable_roles_def Let_def capabilities_of_roles [OF assms(2), symmetric, of _ _ env]
    by (auto simp: step_select split: if_splits)
      (auto simp: unless_throw_def split: if_splits)
  with req show "c \<in> capabilities_of a app (flow_db f)"
    by (simp add: list_all_iff)
qed

lemma reading_delegation: "reading (check_delegation env opts t)"
  by (auto simp: check_delegation_def require_delegable_roles_def Let_def split: option.splits)

lemma reading_boundary: "reading (require_role_actor_boundary actor t app)"
  by (auto simp: require_role_actor_boundary_def)

lemma quiet_assign: "preserves quiet (assign_roles_work env opts ids)"
  unfolding assign_roles_work_def require_user_role_targets_def require_role_actor_boundary_def
    check_delegation_def require_delegable_roles_def Let_def
  by (intro quiet_intros)

text \<open>A successful assignment: the checks it passed and the roles the user has afterwards.\<close>

lemma assign_roles_work_success:
  assumes "control_inv S f" and "assign_roles_work env opts ids f = (Inr (), f')"
  obtains t f1 f2 f3 where
    "set (vt_roles t) = {r \<in> set (db_roles (flow_db f)). ro_id r \<in> set ids}"
    "vt_admin_application t = Some (control_id S)"
    "require_role_actor_boundary (uo_actor opts) t (uo_allowed_application_id opts) f1 = (Inr (), f2)"
    "flow_db f2 = flow_db f"
    "check_delegation env opts t f2 = (Inr (), f3)"
    "\<And>r. has_role (uo_user_id opts) r (flow_db f') \<Longrightarrow> has_role (uo_user_id opts) r (flow_db f) \<or> r \<in> set ids"
proof -
  obtain t f1 f2 f3 new f4 where t: "require_user_role_targets env (uo_organization_id opts) (uo_user_id opts)
      ids f = (Inr t, f1)"
    and b: "require_role_actor_boundary (uo_actor opts) t (uo_allowed_application_id opts) f1 = (Inr (), f2)"
    and c: "check_delegation env opts t f2 = (Inr (), f3)"
    and q: "query (repo_assign_roles (uo_organization_id opts) (uo_user_id opts) ids
      (acting_user (uo_actor opts))) f3 = (Inr new, f4)"
    and r: "(if new = [] then return_op ()
       else
         andthen (require_transaction ''User role assignment requires an active transaction'') (\<lambda>_.
         andthen (write_audit_log_in_transaction (role_change_entry ''user.roles.assigned'' opts new)) (\<lambda>_.
         register_authority_cleanup (sv_now env) (authority_change [uo_user_id opts] [] [] False)))) f4 =
      (Inr (), f')"
    using assms(2) unfolding assign_roles_work_def by (elim andthen_InrE) simp
  note targets = user_role_targets [OF assms(1) t]
  have same: "flow_db f2 = flow_db f" "flow_db f3 = flow_db f"
    using readingD [OF reading_boundary b] readingD [OF reading_delegation c] targets(1) by simp_all
  let ?d = "snd (repo_assign_roles (uo_organization_id opts) (uo_user_id opts) ids
    (acting_user (uo_actor opts)) (flow_db f))"
  have roles: "db_user_roles (flow_db f') = db_user_roles ?d"
    using q r same(2)
    by (auto simp: andthen_def require_transaction_def unless_throw_def throw_op_def
        write_audit_log_in_transaction_def register_authority_cleanup_def after_database_commit_def
        split: sum.splits prod.splits option.splits if_splits)
  have "has_role (uo_user_id opts) r (flow_db f) \<or> r \<in> set ids"
    if "has_role (uo_user_id opts) r (flow_db f')" for r
    using that unfolding has_role_def roles
    by (auto simp: repo_assign_roles_def Let_def new_user_roles_def row_exists_iff split: if_splits)
  then show thesis
    using that [OF targets(3) targets(2) b same(1) c] by blast
qed

lemma sound_delegation:
  assumes "control_inv S f" and "outside_tx f" and "control_id S \<noteq> []"
    and "assign_roles_to_user env opts f = (Inr (), f')"
    and "r \<in> set (db_roles (flow_db f))" and "ro_application_id r = control_id S"
    and "has_role (uo_user_id opts) (ro_id r) (flow_db f')"
    and "\<not> has_role (uo_user_id opts) (ro_id r) (flow_db f)"
  shows "\<not> truthy (uo_allowed_application_id opts) \<and> uo_actor opts \<noteq> SystemActor \<and>
    (\<forall>a. uo_actor opts = UserActor a \<longrightarrow>
       set (get_permissions_for_admin_role (ro_slug r)) \<subseteq> capabilities_of a (control_id S) (flow_db f))"
proof -
  let ?ids = "js_set (uo_role_ids opts)"
  have "uo_role_ids opts \<noteq> []"
    using assms(4,7,8) by (auto simp: assign_roles_to_user_def)
  with assms(4) have "run_database_transaction (assign_roles_work env opts ?ids) f = (Inr (), f')"
    by (simp add: assign_roles_to_user_def)
  then obtain fe where fe: "assign_roles_work env opts ?ids (f\<lparr>fl_tx := Some []\<rparr>) = (Inr (), fe)"
      "flow_db f' = flow_db fe"
    using quiet_commit [OF assms(2) _ quiet_assign] by blast
  let ?f = "f\<lparr>fl_tx := Some []\<rparr>"
  obtain t f1 f2 f3 where raw: "set (vt_roles t) = {r \<in> set (db_roles (flow_db ?f)). ro_id r \<in> set ?ids}"
      "vt_admin_application t = Some (control_id S)"
      "require_role_actor_boundary (uo_actor opts) t (uo_allowed_application_id opts) f1 = (Inr (), f2)"
      "flow_db f2 = flow_db ?f" "check_delegation env opts t f2 = (Inr (), f3)"
      "\<And>r. has_role (uo_user_id opts) r (flow_db fe) \<Longrightarrow>
         has_role (uo_user_id opts) r (flow_db ?f) \<or> r \<in> set ?ids"
    by (rule assign_roles_work_success [OF control_inv_enter [OF assms(1,2)] fe(1)]) (rule that)
  note t = raw [simplified]
  have r: "r \<in> set (vt_roles t)"
    using t(1) t(6) [of "ro_id r"] assms(5,7,8) fe(2) by auto
  have actor: "uo_actor opts \<noteq> SystemActor"
    using t(3) by (auto simp: require_role_actor_boundary_def)
  have boundary: "\<not> truthy (uo_allowed_application_id opts)"
    using t(2,3) r assms(6) actor
    by (auto simp: require_role_actor_boundary_def unless_throw_def list_all_iff split: if_splits)
  have "set (get_permissions_for_admin_role (ro_slug r)) \<subseteq> capabilities_of a (control_id S) (flow_db f)"
    if "uo_actor opts = UserActor a" for a
    using delegable_roles [of env "vt_roles t" a "control_id S" f2 f3 r] t(2,4,5) r assms(3,6) boundary that
    by (simp add: check_delegation_def acting_user_def)
  with actor boundary show ?thesis by blast
qed

subsection \<open>Removal\<close>

lemma reading_get_targets: "reading (require_user_role_targets env org u ids)"
  unfolding require_user_role_targets_def Let_def
  by (intro reading_andthen reading_select) (auto split: option.splits)

lemma quiet_remove: "preserves quiet (remove_roles_work env opts)"
  unfolding remove_roles_work_def require_user_role_targets_def require_role_actor_boundary_def
    revoke_affected_authority_in_transaction_def Let_def
  by (intro quiet_intros)

definition removed_roles :: "string \<Rightarrow> string list \<Rightarrow> user_role_row \<Rightarrow> bool" where
  "removed_roles u ids a = (ul_user_id a = u \<and> ul_role_id a \<in> set ids)"

lemma remove_roles_work_success:
  assumes "control_inv S f" and "remove_roles_work env opts f = (Inr b, f')"
  obtains (nothing) "flow_db f' = flow_db f"
  | (removed) t where
    "set (vt_roles t) = {r \<in> set (db_roles (flow_db f)). ro_id r \<in> set (uo_role_ids opts)}"
    "set (vt_assigned t) = {i \<in> set (uo_role_ids opts). has_role (uo_user_id opts) i (flow_db f)}"
    "vt_admin_application t = Some (control_id S)"
    "\<exists>x \<in> set (db_users (flow_db f)). ur_organization_id x = uo_organization_id opts \<and>
      ur_id x = uo_user_id opts \<and> vt_status t = ur_status x"
    "vt_status t = Active \<Longrightarrow> removes_exact_super_admin t \<Longrightarrow>
      lock_control_plane_organization (uo_organization_id opts) (flow_db f) \<Longrightarrow>
      active_survivor (uo_organization_id opts) (uo_user_id opts) (flow_db f)"
    "db_users (flow_db f') = db_users (flow_db f)" "db_roles (flow_db f') = db_roles (flow_db f)"
    "db_applications (flow_db f') = db_applications (flow_db f)"
    "\<And>a. a \<in> set (db_user_roles (flow_db f)) \<Longrightarrow> \<not> removed_roles (uo_user_id opts) (vt_assigned t) a \<Longrightarrow>
      a \<in> set (db_user_roles (flow_db f'))"
proof -
  let ?org = "uo_organization_id opts" and ?u = "uo_user_id opts"
  obtain cp0 f0 t f1 f2 where f0: "query (select (lock_control_plane_organization ?org)) f = (Inr cp0, f0)"
    and t: "require_user_role_targets env ?org ?u (uo_role_ids opts) f0 = (Inr t, f1)"
    and b: "require_role_actor_boundary (uo_actor opts) t (uo_allowed_application_id opts) f1 = (Inr (), f2)"
    and r: "(if vt_assigned t = [] then return_op False
       else
         andthen (if vt_status t = Active \<and> removes_exact_super_admin t
                  then query (require_active_super_admin_survivor ?org ?u) else return_op ()) (\<lambda>_.
         andthen (revoke_affected_authority_in_transaction (sv_now env) [?u]) (\<lambda>revoked.
         andthen (query (returning (repo_remove_roles ?org ?u (vt_assigned t)))) (\<lambda>removed.
         andthen (require_transaction ''User role removal requires an active transaction'') (\<lambda>_.
         andthen (write_audit_log_in_transaction (role_change_entry ''user.roles.removed'' opts removed)) (\<lambda>_.
         andthen (register_authority_cleanup (sv_now env)
             (authority_change [?u] (ra_grant_ids revoked) [] True)) (\<lambda>_.
         return_op (acting_user (uo_actor opts) = Some ?u)))))))) f2 = (Inr b, f')"
    using assms(2) unfolding remove_roles_work_def by (elim andthen_InrE) simp
  have "f0 = f"
    using f0 by simp
  note targets = user_role_targets [OF assms(1) t [unfolded \<open>f0 = f\<close>]]
  have same: "flow_db f2 = flow_db f"
    using readingD [OF reading_boundary b] targets(1) by simp
  show thesis
  proof (cases "vt_assigned t = []")
    case True
    with r same have "flow_db f' = flow_db f" by simp
    then show ?thesis by (rule nothing)
  next
    case False
    then obtain f3 revoked f4 removed f5 f6 f7 f8 where
      s3: "(if vt_status t = Active \<and> removes_exact_super_admin t
        then query (require_active_super_admin_survivor ?org ?u) else return_op ()) f2 = (Inr (), f3)"
      and s4: "revoke_affected_authority_in_transaction (sv_now env) [?u] f3 = (Inr revoked, f4)"
      and s5: "query (returning (repo_remove_roles ?org ?u (vt_assigned t))) f4 = (Inr removed, f5)"
      and s6: "require_transaction ''User role removal requires an active transaction'' f5 = (Inr (), f6)"
      and s7: "write_audit_log_in_transaction (role_change_entry ''user.roles.removed'' opts removed) f6 =
        (Inr (), f7)"
      and s8: "register_authority_cleanup (sv_now env)
        (authority_change [?u] (ra_grant_ids revoked) [] True) f7 = (Inr (), f8)" and s9: "f' = f8"
      using r by (simp only: if_False) (elim andthen_InrE, simp)
    have d3: "flow_db f3 = flow_db f"
      using s3 same survivor_db by (auto split: if_splits)
    have survive: "active_survivor ?org ?u (flow_db f)"
      if "vt_status t = Active" "removes_exact_super_admin t" "lock_control_plane_organization ?org (flow_db f)"
      using s3 that same by (auto simp: require_active_super_admin_survivor_def
          require_active_super_admin_survivor_after_lock_def unless_throw_def split: if_splits)
    have d4: "db_users (flow_db f4) = db_users (flow_db f)" "db_roles (flow_db f4) = db_roles (flow_db f)"
      "db_applications (flow_db f4) = db_applications (flow_db f)"
      "db_user_roles (flow_db f4) = db_user_roles (flow_db f)"
    proof -
      obtain q where "fl_tx f3 = Some q"
        using s4 by (cases "fl_tx f3") (auto simp: revoke_affected_authority_in_transaction_def step_require)
      from step_revoke [OF this, of "sv_now env" "[?u]" return_op] s4
      have "flow_db f4 = revoked_db (sv_now env) (sort (js_set [?u])) (flow_db f3)"
        by auto
      with d3 show "db_users (flow_db f4) = db_users (flow_db f)" "db_roles (flow_db f4) = db_roles (flow_db f)"
        "db_applications (flow_db f4) = db_applications (flow_db f)"
        "db_user_roles (flow_db f4) = db_user_roles (flow_db f)"
        by simp_all
    qed
    have d8: "db_users (flow_db f') = db_users (flow_db f5)" "db_roles (flow_db f') = db_roles (flow_db f5)"
      "db_applications (flow_db f') = db_applications (flow_db f5)"
      "db_user_roles (flow_db f') = db_user_roles (flow_db f5)"
      using s6 s7 s8 s9
      by (auto simp: require_transaction_def unless_throw_def write_audit_log_in_transaction_def
          register_authority_cleanup_def after_database_commit_def split: if_splits sum.splits option.splits)
    have d5: "flow_db f5 = snd (repo_remove_roles ?org ?u (vt_assigned t) (flow_db f4))"
      using s5 by auto
    show ?thesis
    proof (rule removed [OF targets(3) targets(4) targets(2) targets(5) survive])
      show "db_users (flow_db f') = db_users (flow_db f)" "db_roles (flow_db f') = db_roles (flow_db f)"
        "db_applications (flow_db f') = db_applications (flow_db f)"
        using d4 d5 d8 by (simp_all add: repo_remove_roles_def Let_def)
      show "\<And>a. a \<in> set (db_user_roles (flow_db f)) \<Longrightarrow> \<not> removed_roles ?u (vt_assigned t) a \<Longrightarrow>
          a \<in> set (db_user_roles (flow_db f'))"
        using d4 d5 d8 by (auto simp: repo_remove_roles_def Let_def removed_roles_def)
    qed auto
  qed
qed

text \<open>The role rows of other users, and other roles, survive a removal.\<close>

lemma holds_super_admin_kept:
  assumes "holds_super_admin d u" and "db_roles d' = db_roles d" and "db_applications d' = db_applications d"
    and "\<And>a. a \<in> set (db_user_roles d) \<Longrightarrow> ul_user_id a = u \<Longrightarrow>
      (\<exists>r \<in> set (db_roles d). ro_id r = ul_role_id a \<and> ro_slug r = super_admin_role \<and>
         row_exists (\<lambda>ap. ap_id ap = ro_application_id r \<and> ap_slug ap = porta_admin_app) (db_applications d)) \<Longrightarrow>
      a \<in> set (db_user_roles d')"
  shows "holds_super_admin d' u"
  using assms unfolding holds_super_admin_def row_exists_iff by metis

lemma removal_keeps_super_admin:
  assumes inv: "control_inv S f" and out: "outside_tx f" and ids: "unique_on ur_id (db_users (flow_db f))"
    and run: "remove_roles_from_user env opts f = (Inr b, f')"
    and org: "lock_control_plane_organization org (flow_db f)"
    and before: "has_active_super_admin org (flow_db f)"
  shows "has_active_super_admin org (flow_db f')"
proof (cases "uo_role_ids opts = []")
  case True
  with run before show ?thesis
    by (auto simp: remove_roles_from_user_def)
next
  case False
  with run have "run_database_transaction (remove_roles_work env opts) f = (Inr b, f')"
    by (simp add: remove_roles_from_user_def)
  then obtain fe where fe: "remove_roles_work env opts (f\<lparr>fl_tx := Some []\<rparr>) = (Inr b, fe)"
      "flow_db f' = flow_db fe"
    using quiet_commit [OF out _ quiet_remove] by blast
  from control_inv_enter [OF inv out] fe(1) show ?thesis
  proof (rule remove_roles_work_success)
    assume "flow_db fe = flow_db (f\<lparr>fl_tx := Some []\<rparr>)"
    with fe(2) before show ?thesis by simp
  next
    fix t
    assume "set (vt_roles t) = {r \<in> set (db_roles (flow_db (f\<lparr>fl_tx := Some []\<rparr>))). ro_id r \<in> set (uo_role_ids opts)}"
      and "set (vt_assigned t) = {i \<in> set (uo_role_ids opts). has_role (uo_user_id opts) i (flow_db (f\<lparr>fl_tx := Some []\<rparr>))}"
      and admin: "vt_admin_application t = Some (control_id S)"
      and "\<exists>x\<in>set (db_users (flow_db (f\<lparr>fl_tx := Some []\<rparr>))). ur_organization_id x = uo_organization_id opts \<and>
        ur_id x = uo_user_id opts \<and> vt_status t = ur_status x"
      and "vt_status t = Active \<Longrightarrow> removes_exact_super_admin t \<Longrightarrow>
        lock_control_plane_organization (uo_organization_id opts) (flow_db (f\<lparr>fl_tx := Some []\<rparr>)) \<Longrightarrow>
        active_survivor (uo_organization_id opts) (uo_user_id opts) (flow_db (f\<lparr>fl_tx := Some []\<rparr>))"
      and "db_users (flow_db fe) = db_users (flow_db (f\<lparr>fl_tx := Some []\<rparr>))"
      and "db_roles (flow_db fe) = db_roles (flow_db (f\<lparr>fl_tx := Some []\<rparr>))"
      and "db_applications (flow_db fe) = db_applications (flow_db (f\<lparr>fl_tx := Some []\<rparr>))"
      and "\<And>a. a \<in> set (db_user_roles (flow_db (f\<lparr>fl_tx := Some []\<rparr>))) \<Longrightarrow>
        \<not> removed_roles (uo_user_id opts) (vt_assigned t) a \<Longrightarrow> a \<in> set (db_user_roles (flow_db fe))"
    note raw = this
    let ?d = "flow_db f" and ?e = "flow_db fe" and ?u = "uo_user_id opts"
    have roles: "set (vt_roles t) = {r \<in> set (db_roles ?d). ro_id r \<in> set (uo_role_ids opts)}"
      and assigned: "set (vt_assigned t) = {i \<in> set (uo_role_ids opts). has_role ?u i ?d}"
      and same: "db_users ?e = db_users ?d" "db_roles ?e = db_roles ?d" "db_applications ?e = db_applications ?d"
      and kept: "\<And>a. a \<in> set (db_user_roles ?d) \<Longrightarrow> \<not> removed_roles ?u (vt_assigned t) a \<Longrightarrow>
        a \<in> set (db_user_roles ?e)"
      using raw(1,2,6-9) by simp_all
    obtain x where x: "x \<in> set (db_users ?d)" "ur_organization_id x = uo_organization_id opts" "ur_id x = ?u"
        "vt_status t = ur_status x"
      using raw(4) by auto
    have other: "holds_super_admin ?e v" if "holds_super_admin ?d v" "v \<noteq> ?u" for v
      using that by (intro holds_super_admin_kept [OF that(1) same(2,3)]) (auto intro: kept simp: removed_roles_def)
    obtain y where y: "y \<in> set (db_users ?d)" "ur_organization_id y = org" "ur_status y = Active"
        "holds_super_admin ?d (ur_id y)"
      using before by (auto simp: has_active_super_admin_def row_exists_iff)
    have goal: "has_active_super_admin org ?e" if "z \<in> set (db_users ?d)" "ur_organization_id z = org"
        "ur_status z = Active" "holds_super_admin ?e (ur_id z)" for z
      using that same(1) by (auto simp: has_active_super_admin_def row_exists_iff)
    have "has_active_super_admin org ?e"
    proof (cases "ur_id y = ?u")
      case False
      with y other goal show ?thesis by blast
    next
      case True
      then have xy: "x = y"
        using ids x(1,3) y(1) by (auto dest: unique_on_same)
      show ?thesis
      proof (cases "removes_exact_super_admin t")
        case removes: True
        have "active_survivor org ?u ?d"
          using raw(5) removes x(2,4) y(2,3) xy org by simp
        then obtain z where "z \<in> set (db_users ?d)" "ur_organization_id z = org" "ur_id z \<noteq> ?u"
            "ur_status z = Active" "holds_super_admin ?d (ur_id z)"
          by (auto simp: active_survivor_def row_exists_iff)
        with other goal show ?thesis by blast
      next
        case keeps: False
        have "holds_super_admin ?e (ur_id y)"
        proof (rule holds_super_admin_kept [OF y(4) same(2,3)])
          fix a
          assume a: "a \<in> set (db_user_roles ?d)" "ul_user_id a = ur_id y"
            and "\<exists>r \<in> set (db_roles ?d). ro_id r = ul_role_id a \<and> ro_slug r = super_admin_role \<and>
              row_exists (\<lambda>ap. ap_id ap = ro_application_id r \<and> ap_slug ap = porta_admin_app) (db_applications ?d)"
          then obtain r ap where r: "r \<in> set (db_roles ?d)" "ro_id r = ul_role_id a" "ro_slug r = super_admin_role"
            and ap: "ap \<in> set (db_applications ?d)" "ap_id ap = ro_application_id r" "ap_slug ap = porta_admin_app"
            by (auto simp: row_exists_iff)
          have "ro_application_id r = control_id S"
            using control_row [OF store_inv_db [OF inv] ap(1)] ap(2,3)
            by (simp add: porta_admin_app_def admin_application_slug_def control_id_def)
          with keeps roles r have "ro_id r \<notin> set (vt_assigned t)"
            using assigned admin by (auto simp: removes_exact_super_admin_def list_ex_iff super_admin_role_def
                super_admin_role_slug_def)
          with a(1) r(2) show "a \<in> set (db_user_roles ?e)"
            by (intro kept) (simp_all add: removed_roles_def)
        qed
        with y goal show ?thesis by blast
      qed
    qed
    with fe(2) show ?thesis by simp
  qed
qed

end
