(* ===== verification/AdminProperties.thy ===== *)
theory AdminProperties
  imports AdminAuth UserRoleProperties UserProperties
begin

text \<open>
  Properties of administrative authority: the control plane is immutable, a role assignment never
  gives more than the assigning administrator holds, a removal spares the last super administrator,
  and an administrative mutation either commits for an authorized actor with its audit row or leaves
  the database as it was.
\<close>

subsection \<open>Sequences of administrative calls\<close>

datatype control_call =
    CallCreateApplication create_record_input
  | CallUpdateApplication string update_record_input
  | CallDeactivateApplication string
  | CallActivateApplication string
  | CallDeleteApplication string
  | CallGetApplication string
  | CallGetApplicationBySlug string
  | CallCreateModule string create_record_input
  | CallUpdateModule string string update_record_input
  | CallDeactivateModule string string
  | CallActivateModule string string
  | CallDeleteModule string string
  | CallCreateRole create_role_input
  | CallFindRole string string
  | CallUpdateRole string string update_role_input
  | CallDeleteRole string string
  | CallAssignPermissions string string "string list"
  | CallRemovePermissions string string "string list"
  | CallCreatePermission create_permission_input
  | CallUpdatePermission string string update_permission_input
  | CallDeletePermission string string
  | CallAssignRoles user_role_options
  | CallRemoveRoles user_role_options

definition discard :: "(flow, 'a) op \<Rightarrow> (flow, unit) op" where
  "discard m = andthen m (\<lambda>_. return_op ())"

fun control_operation :: "service_env \<Rightarrow> string option \<Rightarrow> control_call \<Rightarrow> (flow, unit) op" where
  "control_operation env by (CallCreateApplication input) = discard (create_application env input by)"
| "control_operation env by (CallUpdateApplication i input) = discard (update_application env i input by)"
| "control_operation env by (CallDeactivateApplication i) = deactivate_application env i by"
| "control_operation env by (CallActivateApplication i) = activate_application env i by"
| "control_operation env by (CallDeleteApplication i) = discard (delete_application env i by)"
| "control_operation env by (CallGetApplication i) = discard (get_application_by_id env i)"
| "control_operation env by (CallGetApplicationBySlug slug) = discard (get_application_by_slug env slug)"
| "control_operation env by (CallCreateModule app input) = discard (create_module env app input by)"
| "control_operation env by (CallUpdateModule app i input) = discard (update_module env app i input by)"
| "control_operation env by (CallDeactivateModule app i) = deactivate_module env app i by"
| "control_operation env by (CallActivateModule app i) = activate_module env app i by"
| "control_operation env by (CallDeleteModule app i) = discard (delete_module env app i by)"
| "control_operation env by (CallCreateRole input) = discard (create_role env input by)"
| "control_operation env by (CallFindRole app i) = discard (find_role_by_id env app i)"
| "control_operation env by (CallUpdateRole app i input) = discard (update_role env app i input by)"
| "control_operation env by (CallDeleteRole app i) = discard (delete_role env app i by)"
| "control_operation env by (CallAssignPermissions app r ps) =
     assign_permissions_to_role env app r ps by"
| "control_operation env by (CallRemovePermissions app r ps) =
     discard (remove_permissions_from_role env app r ps by)"
| "control_operation env by (CallCreatePermission input) = discard (create_permission env input by)"
| "control_operation env by (CallUpdatePermission app i input) =
     discard (update_permission env app i input by)"
| "control_operation env by (CallDeletePermission app i) = discard (delete_permission env app i by)"
| "control_operation env by (CallAssignRoles opts) = assign_roles_to_user env opts"
| "control_operation env by (CallRemoveRoles opts) = discard (remove_roles_from_user env opts)"

text \<open>Each call runs in the transaction of the admin middleware, with its own clock and actor.\<close>

definition run_control_calls ::
    "(service_env \<times> string option \<times> control_call) list \<Rightarrow> flow \<Rightarrow> flow" where
  "run_control_calls cs f =
     fold (\<lambda>(env, by, c) f. snd (run_database_transaction (control_operation env by c) f)) cs f"

lemma discard_keeps: "preserves I m \<Longrightarrow> preserves I (discard m)"
  by (auto simp: discard_def)

lemma control_operation_keeps: "preserves (control_inv S) (control_operation env by c)"
  by (cases c) (auto simp: deactivate_application_def activate_application_def deactivate_module_def
      activate_module_def intro!: discard_keeps create_application_keeps update_application_keeps
      application_status_keeps delete_application_keeps get_by_id_keeps get_by_slug_keeps
      create_module_keeps update_module_keeps module_status_keeps delete_module_keeps create_role_keeps
      find_role_keeps update_role_keeps delete_role_keeps assign_permissions_keeps
      remove_permissions_keeps create_permission_keeps update_permission_keeps delete_permission_keeps
      assign_roles_keeps remove_roles_keeps)

lemma run_control_calls_keeps: "control_inv S f \<Longrightarrow> control_inv S (run_control_calls cs f)"
proof (induction cs arbitrary: f)
  case (Cons c cs)
  obtain env "by" k where c: "c = (env, by, k)"
    by (cases c) auto
  have "control_inv S (snd (run_database_transaction (control_operation env by k) f))"
    by (rule preservesD [OF cp.keeps_store_transaction Cons.prems]) (rule control_operation_keeps)
  with Cons.IH c show ?case
    by (simp add: run_control_calls_def)
qed (simp add: run_control_calls_def)

subsection \<open>The authenticated administrator\<close>

lemma resolved_admin:
  assumes "control_inv S f" and "resolve_admin_user env account f = (Inr (Proceed a), f')"
  shows "flow_db f' = flow_db f" and "au_id a = account"
    and "set (au_permissions a) = capabilities_of account (control_id S) (flow_db f)"
    and "\<exists>u \<in> set (db_users (flow_db f)). \<exists>g \<in> set (db_organizations (flow_db f)).
      ur_id u = account \<and> ur_status u = Active \<and> og_is_super_admin g \<and> ur_organization_id u = og_id g"
proof -
  obtain g where g: "find_super_admin_organization (flow_db f) = Some g"
    using assms(2) by (auto simp: resolve_admin_user_def step_select split: option.splits)
  obtain u where u: "find_user_by_id account (flow_db f) = Some u" "u_status u = Active"
    using assms(2) g by (auto simp: resolve_admin_user_def step_select find_user_for_oidc_def andthen_def
        split: option.splits if_splits)
  have org: "u_organization_id u = og_id g"
    using assms(2) g u by (auto simp: resolve_admin_user_def step_select find_user_for_oidc_def andthen_def
        require_admin_organization_membership_def split: if_splits)
  obtain c f1 where c: "get_application_by_slug env admin_application_slug f = (Inr (Some c), f1)"
      "ap_id c = control_id S" "flow_db f1 = flow_db f"
    using get_canonical [OF assms(1)] by blast
  let ?slugs = "admin_role_slugs_of (repo_get_roles_for_user env account None (flow_db f)) c"
  have res: "f' = f1" "a = \<lparr>au_id = account, au_email = u_email u,
      au_organization_id = u_organization_id u, au_roles = ?slugs,
      au_permissions = resolve_permissions_from_roles ?slugs\<rparr>"
    using assms(2) g u org c
    by (auto simp: resolve_admin_user_def step_select find_user_for_oidc_def andthen_def Let_def
        require_admin_organization_membership_def get_user_roles_for_authority_def split: if_splits)
  with c(3) show "flow_db f' = flow_db f" "au_id a = account"
    by simp_all
  show "set (au_permissions a) = capabilities_of account (control_id S) (flow_db f)"
    using c(2) by (auto simp: res admin_role_slugs_of_def capabilities_of_def repo_get_roles_for_user_def)
  obtain r where "r \<in> set (db_users (flow_db f))" "ur_id r = account" "u = map_row_to_user r"
    using u(1) by (auto simp: find_user_by_id_def dest: find_row_SomeD)
  moreover have "g \<in> set (db_organizations (flow_db f))" "og_is_super_admin g"
    using g by (auto simp: find_super_admin_organization_def dest: find_row_SomeD)
  ultimately show "\<exists>u \<in> set (db_users (flow_db f)). \<exists>g \<in> set (db_organizations (flow_db f)).
      ur_id u = account \<and> ur_status u = Active \<and> og_is_super_admin g \<and> ur_organization_id u = og_id g"
    using u(2) org by (auto simp: map_row_to_user_def)
qed

lemma require_admin_auth_ok:
  assumes "require_admin_auth env provider header f = (Inr (Proceed a), f')"
  obtains account where "authenticate_bearer provider header = Inr account"
    and "resolve_admin_user env account f = (Inr (Proceed a), f')"
  using assms by (auto simp: require_admin_auth_def split: sum.splits)

lemma admin_route_ok:
  assumes "admin_route env provider required handler req f = (Inr (status, admin), f')" and "status < 400"
    and "control_inv S f"
  obtains a account g where "admin = Some a" and "handler a g = (Inr status, f')"
    and "flow_db g = flow_db f" and "au_id a = account"
    and "authenticate_bearer provider (aq_authorization req) = Inr account"
    and "set required \<subseteq> capabilities_of account (control_id S) (flow_db f)"
    and "\<exists>u \<in> set (db_users (flow_db f)). \<exists>g \<in> set (db_organizations (flow_db f)).
      ur_id u = account \<and> ur_status u = Active \<and> og_is_super_admin g \<and> ur_organization_id u = og_id g"
proof -
  obtain gt g where g: "require_admin_auth env provider (aq_authorization req) f = (Inr gt, g)"
    using assms(1) by (auto simp: admin_route_def andthen_def split: prod.splits sum.splits)
  show thesis
  proof (cases gt)
    case (Answer s)
    have "400 \<le> s"
      using g Answer by (auto simp: require_admin_auth_def authenticate_bearer_def resolve_admin_user_def
          andthen_def Let_def find_user_for_oidc_def split: sum.splits option.splits prod.splits if_splits)
    with assms(1,2) g Answer show ?thesis
      by (simp add: admin_route_def andthen_def)
  next
    case (Proceed a)
    obtain account where acc: "authenticate_bearer provider (aq_authorization req) = Inr account"
        "resolve_admin_user env account f = (Inr (Proceed a), g)"
      using g unfolding Proceed by (rule require_admin_auth_ok)
    note admin = resolved_admin [OF assms(3) acc(2)]
    have perm: "has_permissions (au_permissions a) required"
      using assms(1,2) g Proceed
      by (auto simp: admin_route_def andthen_def require_permission_def split: if_splits)
    have h: "handler a g = (Inr status, f')" "admin = Some a"
      using assms(1) g Proceed perm
      by (auto simp: admin_route_def andthen_def require_permission_def split: prod.splits sum.splits)
    show ?thesis
      using that [OF h(2,1) admin(1,2) acc(1)] perm admin(3,4)
      by (auto simp: has_permissions_def list_all_iff)
  qed
qed

text \<open>The audit row of a committed mutation.\<close>

definition mutation_row :: "admin_request \<Rightarrow> (string \<times> string) option \<Rightarrow> audit_row" where
  "mutation_row req actor = (case normalize_actor (mutation_entry req actor) of
     Inr n \<Rightarrow> insert_values (mutation_entry req actor) n)"

lemma mutation_row_normal: "\<exists>n. normalize_actor (mutation_entry req actor) = Inr n"
  by (cases "truthy (map_option fst actor)")
    (auto simp: normalize_actor_def mutation_entry_def blank_entry_def Let_def)

lemma mutation_work_ok:
  assumes "mutation_work route req f = (Inr status, f')"
  obtains a f1 where "route f = (Inr (status, Some a), f1)" and "status < 400"
    and "f' = with_db (insert_audit_row (mutation_row req (live_actor (au_id a) (flow_db f1)))
      (flow_db f1)) f1"
proof -
  obtain st admin f1 where r: "route f = (Inr (st, admin), f1)"
    using assms by (auto simp: mutation_work_def andthen_def split: prod.splits sum.splits)
  then have st: "st < 400"
    using assms by (auto simp: mutation_work_def andthen_def unless_throw_def split: if_splits)
  obtain a where a: "admin = Some a"
    using assms r st by (cases admin)
      (auto simp: mutation_work_def andthen_def step_require split: if_splits prod.splits sum.splits)
  obtain n where n: "normalize_actor (mutation_entry req (live_actor (au_id a) (flow_db f1))) = Inr n"
    using mutation_row_normal by blast
  have "f' = with_db (insert_audit_row (mutation_row req (live_actor (au_id a) (flow_db f1))) (flow_db f1)) f1"
    and "status = st"
    using assms r st a n
    by (auto simp: mutation_work_def andthen_Inr [where m = route and s = f, OF r] step_require step_select step_audit mutation_row_def
        split: if_splits)
  with that r st a show thesis by blast
qed

lemma require_admin_auth_returns: "\<exists>g f'. require_admin_auth env provider header f = (Inr g, f')"
proof -
  have "get_application_by_slug env slug f \<noteq> (Inl e, f')" for slug e f f'
    by (auto simp: get_application_by_slug_def read_application_def andthen_def cache_application_def
        after_database_commit_def split: option.splits)
  then show ?thesis
    by (auto simp: require_admin_auth_def resolve_admin_user_def step_select find_user_for_oidc_def
        andthen_def get_user_roles_for_authority_def Let_def split: sum.splits option.splits prod.splits)
qed

text \<open>The rejection signal carries an error status, as the handler cannot raise it.\<close>

lemma rejected_status:
  assumes "\<And>a g s g'. handler a g \<noteq> (Inl (HandledMutationRejection s), g')"
    and "mutation_work (admin_route env provider required handler req) req f =
      (Inl (HandledMutationRejection status), f')"
  shows "400 \<le> status"
proof -
  obtain g f1 where g: "require_admin_auth env provider (aq_authorization req) f = (Inr g, f1)"
    using require_admin_auth_returns by blast
  have route: "admin_route env provider required handler req f \<noteq> (Inl (HandledMutationRejection s), f'')"
    for s f''
    using assms(1) by (auto simp: admin_route_def andthen_def g split: gate.splits prod.splits sum.splits)
  obtain st admin f2 where r: "admin_route env provider required handler req f = (Inr (st, admin), f2)"
    using assms(2) route by (auto simp: mutation_work_def andthen_def split: prod.splits sum.splits)
  have norm: "normalize_actor (mutation_entry req actor) \<noteq> Inl e" for actor e
    using mutation_row_normal [of req actor] by auto
  from r show ?thesis
    using assms(2)
    by (cases "st < 400"; cases admin; cases "fl_tx f2")
      (auto simp: norm mutation_work_def andthen_Inr [where m = "admin_route env provider required handler req"
        and s = f, OF r] step_require step_select step_audit split: sum.splits)
qed

lemma idle_flow_fields [simp]:
  "fl_store (idle_flow st) = st" "outside_tx (idle_flow st)"
  by (simp_all add: idle_flow_def)

lemma control_inv_idle:
  "control_ok S (st_db st) \<Longrightarrow> control_cache S (st_redis st) \<Longrightarrow> control_inv S (idle_flow st)"
  by (simp add: store_ok_def)

subsection \<open>A sample control plane\<close>

text \<open>Two super administrators, a user without roles and the built-in user-administrator role.\<close>

definition control_sample_db :: db where
  "control_sample_db = sample_admin_db\<lparr>
     db_users := db_users sample_admin_db @ [sample_row\<lparr>ur_id := ''u3'', ur_email := ''c@b.c''\<rparr>],
     db_roles := db_roles sample_admin_db @
       [\<lparr>ro_id = ''r2'', ro_application_id = ''a1'', ro_name = ''U'', ro_slug = ''porta-user-admin'',
         ro_description = None, ro_created_at = 0, ro_updated_at = 0\<rparr>]\<rparr>"

definition control_sample :: store where
  "control_sample = \<lparr>st_db = control_sample_db, st_redis = [], st_redis_up = True\<rparr>"

definition control_sample_snapshot :: control_snapshot where
  "control_sample_snapshot = the (control_snapshot control_sample_db)"

definition control_sample_env :: service_env where
  "control_sample_env = \<lparr>sv_now = 10, sv_new_id = ''n1'', sv_collate = id\<rparr>"

definition role_call :: "string \<Rightarrow> string \<Rightarrow> user_role_options" where
  "role_call u r = \<lparr>uo_organization_id = ''o1'', uo_user_id = u, uo_role_ids = [r],
     uo_actor = UserActor ''u1'', uo_allowed_application_id = None, uo_audit_context = None\<rparr>"

lemma control_sample_ok:
  "control_ok control_sample_snapshot (st_db control_sample)"
  "control_cache control_sample_snapshot (st_redis control_sample)"
  "control_id control_sample_snapshot = ''a1''"
  by (simp_all add: control_ok_def control_cache_def control_id_def control_sample_snapshot_def
      control_snapshot_def control_sample_def control_sample_db_def sample_admin_db_def sample_db_def
      empty_db_def find_application_by_slug_def porta_admin_app_def admin_application_slug_def Let_def
      keys_unique_def unique_on_def redis_live_def)

subsection \<open>Properties\<close>

text \<open>
  Property C15: the control plane is immutable. Whatever application, module, role, permission and
  role-assignment calls administrators make, in any order and with any arguments, Porta's own
  application row, its modules, the built-in roles and permissions it owns and the links between
  them stay exactly as they were: the guards hold although they read through the Redis cache.
\<close>

theorem control_plane_immutable:
  assumes "control_ok S (st_db st)" and "control_cache S (st_redis st)"
  shows "control_snapshot (flow_db (run_control_calls calls (idle_flow st))) = Some S"
proof -
  have "control_inv S (run_control_calls calls (idle_flow st))"
    by (intro run_control_calls_keeps control_inv_idle assms)
  then show ?thesis
    using store_inv_db [of "control_ok S" "control_cache S"] by (auto simp: control_ok_def)
qed

theorem control_plane_immutable_witness:
  "control_snapshot (flow_db (run_control_calls
     [(control_sample_env, Some ''u1'', CallDeleteApplication ''a1''),
      (control_sample_env, Some ''u1'', CallDeleteRole ''a1'' ''r1''),
      (control_sample_env, Some ''u1'', CallUpdateRole ''a1'' ''r2''
         (no_role_update\<lparr>ur_set_slug := Some ''porta-super-admin''\<rparr>)),
      (control_sample_env, None, CallCreateApplication \<lparr>ci_name = ''Shop'', ci_slug = None,
         ci_description = None\<rparr>)] (idle_flow control_sample))) = Some control_sample_snapshot"
  by (rule control_plane_immutable [OF control_sample_ok(1,2)])

text \<open>
  Property C16: delegation is bounded. When a role assignment succeeds and gives the user a role of
  the control-plane application that the user did not hold, the call had no tenant application
  boundary, the actor is not the system, and an administrator who made it holds every capability of
  that role at that moment.
\<close>

theorem role_delegation_bounded:
  assumes "control_ok S (st_db st)" and "control_cache S (st_redis st)" and "control_id S \<noteq> []"
    and "assign_roles_to_user env opts (idle_flow st) = (Inr (), f')"
    and "r \<in> set (db_roles (st_db st))" and "ro_application_id r = control_id S"
    and "has_role (uo_user_id opts) (ro_id r) (flow_db f')"
    and "\<not> has_role (uo_user_id opts) (ro_id r) (st_db st)"
  shows "\<not> truthy (uo_allowed_application_id opts) \<and> uo_actor opts \<noteq> SystemActor \<and>
    (\<forall>a. uo_actor opts = UserActor a \<longrightarrow>
       set (get_permissions_for_admin_role (ro_slug r)) \<subseteq> capabilities_of a (control_id S) (st_db st))"
  using sound_delegation [OF control_inv_idle [OF assms(1,2)], of env opts f' r] assms
  by simp

theorem role_delegation_bounded_witness:
  "\<exists>f'. assign_roles_to_user control_sample_env (role_call ''u3'' ''r2'') (idle_flow control_sample) =
     (Inr (), f') \<and>
   set (get_permissions_for_admin_role ''porta-user-admin'') \<subseteq>
     capabilities_of ''u1'' ''a1'' (st_db control_sample)"
proof -
  let ?run = "assign_roles_to_user control_sample_env (role_call ''u3'' ''r2'') (idle_flow control_sample)"
  let ?r = "\<lparr>ro_id = ''r2'', ro_application_id = ''a1'', ro_name = ''U'', ro_slug = ''porta-user-admin'',
    ro_description = None, ro_created_at = 0, ro_updated_at = 0\<rparr>"
  have run: "fst ?run = Inr ()" "has_role ''u3'' ''r2'' (flow_db (snd ?run))"
    by code_simp+
  have role: "?r \<in> set (db_roles (st_db control_sample))" "\<not> has_role ''u3'' ''r2'' (st_db control_sample)"
    by (simp_all add: control_sample_def control_sample_db_def has_role_def sample_admin_db_def)
  have "?run = (Inr (), snd ?run)"
    using run(1) by (metis prod.collapse)
  from role_delegation_bounded [OF control_sample_ok(1,2) _ this role(1)] this run(2) role(2)
  show ?thesis
    by (auto simp: control_sample_ok(3) role_call_def)
qed

text \<open>
  Property C17: a role removal spares the last super administrator. Removing any roles from any user,
  by any actor, leaves every control-plane organization that had an active exact super administrator
  with one.
\<close>

theorem role_removal_spares_super_admin:
  assumes "control_ok S (st_db st)" and "control_cache S (st_redis st)"
    and "unique_on ur_id (db_users (st_db st))"
    and "remove_roles_from_user env opts (idle_flow st) = (Inr b, f')"
    and "lock_control_plane_organization org (st_db st)"
    and "has_active_super_admin org (st_db st)"
  shows "has_active_super_admin org (flow_db f')"
  using removal_keeps_super_admin [OF control_inv_idle [OF assms(1,2)], of env opts b f' org] assms
  by simp

theorem role_removal_spares_super_admin_witness:
  "has_active_super_admin ''o1''
     (flow_db (snd (remove_roles_from_user control_sample_env (role_call ''u1'' ''r1'')
        (idle_flow control_sample))))"
proof -
  let ?run = "remove_roles_from_user control_sample_env (role_call ''u1'' ''r1'') (idle_flow control_sample)"
  have "fst ?run = Inr True"
    by code_simp
  then have run: "?run = (Inr True, snd ?run)"
    by (metis prod.collapse)
  have "unique_on ur_id (db_users (st_db control_sample))"
    "lock_control_plane_organization ''o1'' (st_db control_sample)"
    "has_active_super_admin ''o1'' (st_db control_sample)"
    by code_simp+
  then show ?thesis
    by (rule role_removal_spares_super_admin [OF control_sample_ok(1,2) _ run])
qed

text \<open>
  Property C14: an administrative mutation is authorized, atomic and audited. For any endpoint, whatever
  its handler does inside the request transaction (the rejection signal itself is private to the
  middleware): either the response is a success, the bearer token
  names an active member of the super-admin organization whose built-in roles carry every permission
  the endpoint requires, and the handler's database is committed together with one audit row for the
  actor still living; or the response is an error and the database is the one before the request.
\<close>

theorem admin_mutation_authorized_and_atomic:
  assumes "control_ok S (st_db st)" and "control_cache S (st_redis st)"
    and "owns_administrative_mutation (aq_method req) (aq_path req)"
    and "\<And>a g s g'. handler a g \<noteq> (Inl (HandledMutationRejection s), g')"
    and "admin_mutation_audit (admin_route env provider required handler req) req (idle_flow st) =
      (res, f')"
  shows "(\<exists>status account a g h.
      res = Inr status \<and> status < 400 \<and>
      authenticate_bearer provider (aq_authorization req) = Inr account \<and> au_id a = account \<and>
      (\<exists>u \<in> set (db_users (st_db st)). \<exists>o' \<in> set (db_organizations (st_db st)).
         ur_id u = account \<and> ur_status u = Active \<and> og_is_super_admin o' \<and>
         ur_organization_id u = og_id o') \<and>
      set required \<subseteq> capabilities_of account (control_id S) (st_db st) \<and>
      flow_db g = st_db st \<and> handler a g = (Inr status, h) \<and>
      flow_db f' = st_db (run_effects (nullish (fl_tx h) []) ((fl_store h)\<lparr>st_db :=
        insert_audit_row (mutation_row req (live_actor account (flow_db h))) (flow_db h)\<rparr>))) \<or>
    (flow_db f' = st_db st \<and> (\<forall>status. res = Inr status \<longrightarrow> 400 \<le> status))"
proof -
  let ?route = "admin_route env provider required handler req"
  let ?f = "(idle_flow st)\<lparr>fl_tx := Some []\<rparr>"
  have out: "outside_tx (idle_flow st)" and f: "flow_db ?f = st_db st"
    by simp_all
  have inv: "control_inv S ?f"
    using control_inv_idle [OF assms(1,2)] by (rule control_inv_enter) simp
  obtain w f1 where w: "mutation_work ?route req ?f = (w, f1)"
    by (cases "mutation_work ?route req ?f") auto
  show ?thesis
  proof (cases w)
    case (Inr status)
    obtain a h where a: "?route ?f = (Inr (status, Some a), h)" "status < 400"
        "f1 = with_db (insert_audit_row (mutation_row req (live_actor (au_id a) (flow_db h))) (flow_db h)) h"
      using w Inr by (auto elim: mutation_work_ok)
    obtain b account g where b: "Some a = Some b" "handler b g = (Inr status, h)" "flow_db g = flow_db ?f"
        "au_id b = account" "authenticate_bearer provider (aq_authorization req) = Inr account"
        "set required \<subseteq> capabilities_of account (control_id S) (flow_db ?f)"
        "\<exists>u \<in> set (db_users (flow_db ?f)). \<exists>g \<in> set (db_organizations (flow_db ?f)).
          ur_id u = account \<and> ur_status u = Active \<and> og_is_super_admin g \<and> ur_organization_id u = og_id g"
      by (rule admin_route_ok [OF a(1,2) inv]) (rule that)
    have "res = Inr status" and "flow_db f' = st_db (run_effects (nullish (fl_tx f1) []) (fl_store f1))"
      using assms(3,5) run_database_transaction_Inr [where f = "idle_flow st" and work = "mutation_work ?route req", OF out w [unfolded Inr]]
      by (auto simp: admin_mutation_audit_def catch_op_def)
    with a b f show ?thesis
      by (auto simp: with_db_def)
  next
    case (Inl e)
    have "400 \<le> status" if "e = HandledMutationRejection status" for status
      using rejected_status [OF assms(4) w [unfolded Inl that]] .
    then show ?thesis
      using assms(3,5) run_database_transaction_Inl [where f = "idle_flow st" and work = "mutation_work ?route req", OF out w [unfolded Inl]]
      by (auto simp: admin_mutation_audit_def catch_op_def split: app_error.splits if_splits)
  qed
qed

definition sample_request :: admin_request where
  "sample_request = \<lparr>aq_method = ''POST'', aq_path = ''/api/admin/roles'', aq_route = ''/api/admin/roles'',
     aq_authorization = ''Bearer t1''\<rparr>"

definition sample_handler :: admin_handler where
  "sample_handler a = catch_op (andthen (assign_roles_to_user control_sample_env (role_call ''u3'' ''r2''))
     (\<lambda>_. return_op 204)) (\<lambda>_. return_op 403)"

lemma sample_handler_returns: "sample_handler a g \<noteq> (Inl e, g')"
  by (auto simp: sample_handler_def catch_op_def split: prod.splits sum.splits)

theorem admin_mutation_authorized_and_atomic_witness:
  "\<exists>f'. admin_mutation_audit (admin_route control_sample_env (Some (\<lambda>t. Inr (Some (Some ''u1''))))
      [''admin:role:assign''] sample_handler sample_request) sample_request (idle_flow control_sample) =
      (Inr 204, f') \<and>
    set [''admin:role:assign''] \<subseteq> capabilities_of ''u1'' ''a1'' (st_db control_sample)"
proof -
  let ?provider = "Some (\<lambda>t. Inr (Some (Some ''u1'')))"
  let ?run = "admin_mutation_audit (admin_route control_sample_env ?provider [''admin:role:assign'']
    sample_handler sample_request) sample_request (idle_flow control_sample)"
  have "fst ?run = Inr 204"
    by code_simp
  then have run: "?run = (Inr 204, snd ?run)"
    by (metis prod.collapse)
  have own: "owns_administrative_mutation (aq_method sample_request) (aq_path sample_request)"
    and auth: "authenticate_bearer ?provider (aq_authorization sample_request) = Inr ''u1''"
    by code_simp+
  from admin_mutation_authorized_and_atomic [OF control_sample_ok(1,2) own sample_handler_returns run] run auth
  show ?thesis
    by (auto simp: control_sample_ok(3))
qed

end
