(* ===== verification/TwoFactor.thy ===== *)
theory TwoFactor
  imports UserRepository Transaction AuditLog DeletionCleanup
begin

text \<open>
  packages/server/src/two-factor/repository.ts: the statements on \<open>user_totp\<close>,
  \<open>two_factor_otp_codes\<close> and \<open>two_factor_recovery_codes\<close> (migrations 012 and 028), and the row
  mapping of types.ts. The tables are the three fields of \<open>two_factor_tables\<close>.
\<close>

definition on_totp :: "(totp_row list \<Rightarrow> totp_row list) \<Rightarrow> db \<Rightarrow> db" where
  "on_totp g d = d\<lparr>db_two_factor := (db_two_factor d)\<lparr>tf_totp := g (tf_totp (db_two_factor d))\<rparr>\<rparr>"

definition on_otp_codes :: "(otp_code_row list \<Rightarrow> otp_code_row list) \<Rightarrow> db \<Rightarrow> db" where
  "on_otp_codes g d =
     d\<lparr>db_two_factor := (db_two_factor d)\<lparr>tf_otp_codes := g (tf_otp_codes (db_two_factor d))\<rparr>\<rparr>"

definition on_recovery_codes ::
    "(recovery_code_row list \<Rightarrow> recovery_code_row list) \<Rightarrow> db \<Rightarrow> db" where
  "on_recovery_codes g d =
     d\<lparr>db_two_factor :=
        (db_two_factor d)\<lparr>tf_recovery_codes := g (tf_recovery_codes (db_two_factor d))\<rparr>\<rparr>"

abbreviation db_totp :: "db \<Rightarrow> totp_row list" where
  "db_totp d \<equiv> tf_totp (db_two_factor d)"

abbreviation db_otp_codes :: "db \<Rightarrow> otp_code_row list" where
  "db_otp_codes d \<equiv> tf_otp_codes (db_two_factor d)"

abbreviation db_recovery_codes :: "db \<Rightarrow> recovery_code_row list" where
  "db_recovery_codes d \<equiv> tf_recovery_codes (db_two_factor d)"

lemma on_two_factor_simps [simp]:
  "db_totp (on_totp g d) = g (db_totp d)"
  "db_otp_codes (on_totp g d) = db_otp_codes d"
  "db_recovery_codes (on_totp g d) = db_recovery_codes d"
  "db_totp (on_otp_codes h d) = db_totp d"
  "db_otp_codes (on_otp_codes h d) = h (db_otp_codes d)"
  "db_recovery_codes (on_otp_codes h d) = db_recovery_codes d"
  "db_totp (on_recovery_codes k d) = db_totp d"
  "db_otp_codes (on_recovery_codes k d) = db_otp_codes d"
  "db_recovery_codes (on_recovery_codes k d) = k (db_recovery_codes d)"
  "db_users (on_totp g d) = db_users d" "db_users (on_otp_codes h d) = db_users d"
  "db_users (on_recovery_codes k d) = db_users d"
  by (simp_all add: on_totp_def on_otp_codes_def on_recovery_codes_def)

subsection \<open>TOTP configurations\<close>

text \<open>\<open>InsertTotpData\<close>; \<open>None\<close> takes the default of the statement.\<close>

record insert_totp_data =
  it_user_id :: string
  it_encrypted_secret :: string
  it_encryption_iv :: string
  it_encryption_tag :: string
  it_algorithm :: "string option"
  it_digits :: "int option"
  it_period :: "int option"

definition inserted_totp_row :: "time \<Rightarrow> string \<Rightarrow> insert_totp_data \<Rightarrow> totp_row" where
  "inserted_totp_row now new_id data = \<lparr>
     tt_id = new_id,
     tt_user_id = it_user_id data,
     tt_encrypted_secret = it_encrypted_secret data,
     tt_encryption_iv = it_encryption_iv data,
     tt_encryption_tag = it_encryption_tag data,
     tt_algorithm = nullish (it_algorithm data) ''SHA1'',
     tt_digits = nullish (it_digits data) 6,
     tt_period = nullish (it_period data) 30,
     tt_verified = False,
     tt_last_accepted_time_step = None,
     tt_created_at = now,
     tt_updated_at = now\<rparr>"

text \<open>The CHECK constraints of migration 028.\<close>

definition totp_parameters_ok :: "totp_row \<Rightarrow> bool" where
  "totp_parameters_ok r = (tt_algorithm r = ''SHA1'' \<and> tt_digits r = 6 \<and> tt_period r = 30)"

text \<open>\<open>mapRowToUserTotp\<close>: a stored step that is not a safe integer throws.\<close>

definition map_row_to_user_totp :: "totp_row \<Rightarrow> app_error + totp_row" where
  "map_row_to_user_totp r =
     (case tt_last_accepted_time_step r of
        None \<Rightarrow> Inr r
      | Some n \<Rightarrow>
          (if \<bar>n\<bar> \<le> 9007199254740991 then Inr r
           else Inl (JsError ''TOTP replay time step is invalid'')))"

definition insert_totp :: "time \<Rightarrow> string \<Rightarrow> insert_totp_data \<Rightarrow> (db, totp_row) op" where
  "insert_totp now new_id data d =
     (let row = inserted_totp_row now new_id data
      in if \<not> totp_parameters_ok row then (Inl (JsError ''user_totp check constraint''), d)
         else if row_exists (\<lambda>r. tt_id r = new_id \<or> tt_user_id r = it_user_id data) (db_totp d)
         then (Inl UniqueViolation, d)
         else if \<not> row_exists (\<lambda>u. ur_id u = it_user_id data) (db_users d)
         then (Inl ForeignKeyViolation, d)
         else (map_row_to_user_totp row, on_totp (\<lambda>t. t @ [row]) d))"

definition find_totp_by_user_id :: "string \<Rightarrow> (db, totp_row option) op" where
  "find_totp_by_user_id uid d =
     (case find_row (\<lambda>r. tt_user_id r = uid) (db_totp d) of
        None \<Rightarrow> (Inr None, d)
      | Some r \<Rightarrow> (map_sum id Some (map_row_to_user_totp r), d))"

definition touch_totp :: "time \<Rightarrow> totp_row \<Rightarrow> totp_row" where
  "touch_totp now r = r\<lparr>tt_updated_at := max now (tt_updated_at r + 1)\<rparr>"

definition update_totp ::
    "time \<Rightarrow> (totp_row \<Rightarrow> bool) \<Rightarrow> (totp_row \<Rightarrow> totp_row) \<Rightarrow> db \<Rightarrow> db" where
  "update_totp now P g = on_totp (update_where P (\<lambda>r. touch_totp now (g r)))"

text \<open>The \<open>WHERE\<close> of the consuming statement: the exact verified row, and only forward.\<close>

definition accepted_before :: "int option \<Rightarrow> int \<Rightarrow> bool" where
  "accepted_before step n = (case step of None \<Rightarrow> True | Some m \<Rightarrow> m < n)"

definition totp_step_open :: "string \<Rightarrow> string \<Rightarrow> int \<Rightarrow> totp_row \<Rightarrow> bool" where
  "totp_step_open i uid n r =
     (tt_id r = i \<and> tt_user_id r = uid \<and> tt_verified r \<and>
      accepted_before (tt_last_accepted_time_step r) n)"

lemma accepted_before_simps [simp]:
  "accepted_before None n" "accepted_before (Some m) n = (m < n)"
  by (simp_all add: accepted_before_def)

lemma accepted_before_mono: "accepted_before step m \<Longrightarrow> m \<le> n \<Longrightarrow> accepted_before step n"
  by (cases step) auto

definition consume_totp_time_step :: "time \<Rightarrow> string \<Rightarrow> string \<Rightarrow> int \<Rightarrow> db \<Rightarrow> bool \<times> db" where
  "consume_totp_time_step now i uid n d =
     (row_count (totp_step_open i uid n) (db_totp d) = 1,
      update_totp now (totp_step_open i uid n) (\<lambda>r. r\<lparr>tt_last_accepted_time_step := Some n\<rparr>) d)"

definition totp_pending :: "string \<Rightarrow> string \<Rightarrow> totp_row \<Rightarrow> bool" where
  "totp_pending i uid r = (tt_id r = i \<and> tt_user_id r = uid \<and> \<not> tt_verified r)"

definition verify_totp_enrollment :: "time \<Rightarrow> string \<Rightarrow> string \<Rightarrow> int \<Rightarrow> db \<Rightarrow> bool \<times> db" where
  "verify_totp_enrollment now i uid n d =
     (row_count (totp_pending i uid) (db_totp d) = 1,
      update_totp now (totp_pending i uid)
        (\<lambda>r. r\<lparr>tt_verified := True, tt_last_accepted_time_step := Some n\<rparr>) d)"

definition delete_totp :: "string \<Rightarrow> db \<Rightarrow> db" where
  "delete_totp uid = on_totp (delete_where (\<lambda>r. tt_user_id r = uid))"

subsection \<open>E-mail OTP codes\<close>

definition insert_otp_code ::
    "time \<Rightarrow> string \<Rightarrow> string \<Rightarrow> string \<Rightarrow> time \<Rightarrow> (db, otp_code_row) op" where
  "insert_otp_code now new_id uid code_hash expires_at d =
     (let row = \<lparr>oc_code_id = new_id, oc_user_id = uid, oc_code_hash = code_hash,
                  oc_expires_at = expires_at, oc_used_at = None, oc_created_at = now\<rparr>
      in if row_exists (\<lambda>r. oc_code_id r = new_id) (db_otp_codes d) then (Inl UniqueViolation, d)
         else if \<not> row_exists (\<lambda>u. ur_id u = uid) (db_users d) then (Inl ForeignKeyViolation, d)
         else (Inr row, on_otp_codes (\<lambda>t. t @ [row]) d))"

definition otp_active :: "time \<Rightarrow> string \<Rightarrow> otp_code_row \<Rightarrow> bool" where
  "otp_active now uid r = (oc_user_id r = uid \<and> oc_used_at r = None \<and> now < oc_expires_at r)"

text \<open>\<open>ORDER BY created_at DESC\<close>; rows of one instant keep the table's order.\<close>

definition find_active_otp_codes :: "time \<Rightarrow> string \<Rightarrow> db \<Rightarrow> otp_code_row list" where
  "find_active_otp_codes now uid d =
     sort_key (\<lambda>r. - oc_created_at r) (filter (otp_active now uid) (db_otp_codes d))"

definition mark_otp_code_used :: "time \<Rightarrow> string \<Rightarrow> db \<Rightarrow> db" where
  "mark_otp_code_used now i =
     on_otp_codes (update_where (\<lambda>r. oc_code_id r = i) (\<lambda>r. r\<lparr>oc_used_at := Some now\<rparr>))"

definition otp_stale :: "time \<Rightarrow> string \<Rightarrow> otp_code_row \<Rightarrow> bool" where
  "otp_stale now uid r = (oc_user_id r = uid \<and> (oc_expires_at r \<le> now \<or> oc_used_at r \<noteq> None))"

definition delete_expired_otp_codes :: "time \<Rightarrow> string \<Rightarrow> db \<Rightarrow> nat \<times> db" where
  "delete_expired_otp_codes now uid d =
     (row_count (otp_stale now uid) (db_otp_codes d),
      on_otp_codes (delete_where (otp_stale now uid)) d)"

definition count_active_otp_codes :: "time \<Rightarrow> string \<Rightarrow> db \<Rightarrow> nat" where
  "count_active_otp_codes now uid d = row_count (otp_active now uid) (db_otp_codes d)"

subsection \<open>Recovery codes\<close>

definition new_recovery_rows ::
    "time \<Rightarrow> (nat \<Rightarrow> string) \<Rightarrow> string \<Rightarrow> string list \<Rightarrow> recovery_code_row list" where
  "new_recovery_rows now new_id uid hashes =
     map (\<lambda>(i, h). \<lparr>rk_id = new_id i, rk_user_id = uid, rk_code_hash = h, rk_used_at = None,
                     rk_created_at = now\<rparr>) (enumerate 0 hashes)"

text \<open>One multi-row \<open>INSERT\<close>; an empty list issues no statement.\<close>

definition insert_recovery_codes ::
    "time \<Rightarrow> (nat \<Rightarrow> string) \<Rightarrow> string \<Rightarrow> string list \<Rightarrow> (db, unit) op" where
  "insert_recovery_codes now new_id uid hashes d =
     (if hashes = [] then (Inr (), d)
      else (let rows = new_recovery_rows now new_id uid hashes
            in if \<not> unique_on rk_id (db_recovery_codes d @ rows) then (Inl UniqueViolation, d)
               else if \<not> row_exists (\<lambda>u. ur_id u = uid) (db_users d)
               then (Inl ForeignKeyViolation, d)
               else (Inr (), on_recovery_codes (\<lambda>t. t @ rows) d)))"

definition recovery_unused :: "string \<Rightarrow> recovery_code_row \<Rightarrow> bool" where
  "recovery_unused uid r = (rk_user_id r = uid \<and> rk_used_at r = None)"

text \<open>\<open>ORDER BY created_at ASC\<close>.\<close>

definition find_unused_recovery_codes :: "string \<Rightarrow> db \<Rightarrow> recovery_code_row list" where
  "find_unused_recovery_codes uid d =
     sort_key rk_created_at (filter (recovery_unused uid) (db_recovery_codes d))"

definition mark_recovery_code_used :: "time \<Rightarrow> string \<Rightarrow> db \<Rightarrow> db" where
  "mark_recovery_code_used now i =
     on_recovery_codes (update_where (\<lambda>r. rk_id r = i) (\<lambda>r. r\<lparr>rk_used_at := Some now\<rparr>))"

definition delete_all_recovery_codes :: "string \<Rightarrow> db \<Rightarrow> db" where
  "delete_all_recovery_codes uid = on_recovery_codes (delete_where (\<lambda>r. rk_user_id r = uid))"

definition count_unused_recovery_codes :: "string \<Rightarrow> db \<Rightarrow> nat" where
  "count_unused_recovery_codes uid d = row_count (recovery_unused uid) (db_recovery_codes d)"

subsection \<open>What the statements keep\<close>

text \<open>The keys of the three tables, and one TOTP configuration per user.\<close>

definition two_factor_keys :: "db \<Rightarrow> bool" where
  "two_factor_keys d \<longleftrightarrow> unique_on tt_id (db_totp d) \<and> unique_on tt_user_id (db_totp d) \<and>
     unique_on oc_code_id (db_otp_codes d) \<and> unique_on rk_id (db_recovery_codes d)"

lemma touch_totp_fields [simp]:
  "tt_id (touch_totp now r) = tt_id r" "tt_user_id (touch_totp now r) = tt_user_id r"
  "tt_verified (touch_totp now r) = tt_verified r"
  "tt_last_accepted_time_step (touch_totp now r) = tt_last_accepted_time_step r"
  "tt_encrypted_secret (touch_totp now r) = tt_encrypted_secret r"
  by (simp_all add: touch_totp_def)

lemma find_totp_db [simp]: "snd (find_totp_by_user_id uid d) = d"
  by (simp add: find_totp_by_user_id_def split: option.splits)

lemma find_totp_SomeD:
  "find_totp_by_user_id uid d = (Inr (Some r), d') \<Longrightarrow>
   r \<in> set (db_totp d) \<and> tt_user_id r = uid \<and> d' = d"
  by (auto simp: find_totp_by_user_id_def map_row_to_user_totp_def
      split: option.splits if_splits dest: find_row_SomeD)

lemma two_factor_keys_congs:
  "db_two_factor d = db_two_factor d' \<Longrightarrow> two_factor_keys d = two_factor_keys d'"
  by (simp add: two_factor_keys_def)

lemma two_factor_keys_statements:
  assumes "two_factor_keys d"
  shows "two_factor_keys (snd (insert_totp now i data d))"
    and "two_factor_keys (update_totp now P (\<lambda>r. r\<lparr>tt_last_accepted_time_step := n\<rparr>) d)"
    and "two_factor_keys (update_totp now P
           (\<lambda>r. r\<lparr>tt_verified := b, tt_last_accepted_time_step := n\<rparr>) d)"
    and "two_factor_keys (delete_totp uid d)"
    and "two_factor_keys (snd (insert_otp_code now i uid h t d))"
    and "two_factor_keys (mark_otp_code_used now i d)"
    and "two_factor_keys (snd (delete_expired_otp_codes now uid d))"
    and "two_factor_keys (snd (insert_recovery_codes now new_id uid hs d))"
    and "two_factor_keys (mark_recovery_code_used now i d)"
    and "two_factor_keys (delete_all_recovery_codes uid d)"
  using assms
  by (auto simp: two_factor_keys_def insert_totp_def update_totp_def delete_totp_def
      insert_otp_code_def mark_otp_code_used_def delete_expired_otp_codes_def
      insert_recovery_codes_def mark_recovery_code_used_def delete_all_recovery_codes_def Let_def
      inserted_totp_row_def unique_on_append_single unique_on_update_where unique_on_delete_where
      row_exists_iff image_iff)


text \<open>
  packages/server/src/two-factor: the second factor of a login. \<open>crypto.ts\<close>, \<open>otp.ts\<close>, \<open>totp.ts\<close>
  and \<open>recovery.ts\<close> with the cryptographic primitives as parameters, the status cache of \<open>cache.ts\<close>,
  and every operation of \<open>service.ts\<close>: enrolment, codes by e-mail, authenticator codes, recovery
  codes, status, policy and the organization summary.

  The environment of a call holds the clock, \<open>gen_random_uuid()\<close>, the random numbers of
  \<open>node:crypto\<close>, SHA-256, argon2, AES-256-GCM, the libraries \<open>otpauth\<close> and \<open>qrcode\<close>, and the
  configured key. \<open>fe_totp_validate secret token t\<close> is \<open>totp.validate\<close> with the default parameters
  and a window of one step.
\<close>

record two_factor_env =
  fe_now :: time
  fe_new_id :: "nat \<Rightarrow> string"
  fe_random_int :: nat
  fe_random_bytes :: "nat \<Rightarrow> nat \<Rightarrow> nat"
  fe_sha256 :: "string \<Rightarrow> string"
  fe_argon_hash :: "nat \<Rightarrow> string \<Rightarrow> string"
  fe_argon_verify :: "string \<Rightarrow> string \<Rightarrow> bool option"
  fe_totp_secret :: string
  fe_encrypt :: "string \<Rightarrow> string \<Rightarrow> string \<times> string \<times> string"
  fe_decrypt :: "string \<Rightarrow> string \<Rightarrow> string \<Rightarrow> string \<Rightarrow> string + string"
  fe_totp_validate :: "string \<Rightarrow> string \<Rightarrow> time \<Rightarrow> int option"
  fe_totp_uri :: "string \<Rightarrow> string \<Rightarrow> string \<Rightarrow> string"
  fe_qr_code :: "string \<Rightarrow> string"
  fe_config_key :: "string option"

subsection \<open>Encryption of secrets\<close>

definition is_hex :: "char \<Rightarrow> bool" where
  "is_hex c = (is_digit c \<or> lower_char c \<in> set ''abcdef'')"

definition parse_encryption_key :: "string \<Rightarrow> app_error + string" where
  "parse_encryption_key k =
     (if k = [] \<or> length k \<noteq> 64 \<or> \<not> list_all is_hex k
      then Inl (TwoFactorCryptoError ''Invalid encryption key: must be 64 hex characters (32 bytes)'')
      else Inr (to_lower k))"

definition encrypt_totp_secret ::
    "two_factor_env \<Rightarrow> string \<Rightarrow> string \<Rightarrow> app_error + (string \<times> string \<times> string)" where
  "encrypt_totp_secret env plaintext key =
     (case parse_encryption_key key of
        Inl e \<Rightarrow> Inl e
      | Inr k \<Rightarrow> Inr (fe_encrypt env plaintext k))"

definition decrypt_totp_secret ::
    "two_factor_env \<Rightarrow> string \<Rightarrow> string \<Rightarrow> string \<Rightarrow> string \<Rightarrow> app_error + string" where
  "decrypt_totp_secret env encrypted iv tag key =
     (case parse_encryption_key key of
        Inl e \<Rightarrow> Inl e
      | Inr k \<Rightarrow>
          (case fe_decrypt env encrypted iv tag k of
             Inl message \<Rightarrow> Inl (TwoFactorCryptoError (''Decryption failed: '' @ message))
           | Inr secret \<Rightarrow> Inr secret))"

definition dev_encryption_key :: string where
  "dev_encryption_key = replicate 64 CHR ''a''"

definition get_encryption_key :: "two_factor_env \<Rightarrow> string" where
  "get_encryption_key env =
     (if truthy (fe_config_key env) then nullish (fe_config_key env) [] else dev_encryption_key)"

definition lift_sum :: "app_error + 'a \<Rightarrow> ('s, 'a) op" where
  "lift_sum r s = (r, s)"

subsection \<open>E-mail codes\<close>

definition otp_code_length :: nat where
  "otp_code_length = 6"

definition otp_max_value :: nat where
  "otp_max_value = 1000000"

definition pad_start :: "nat \<Rightarrow> char \<Rightarrow> string \<Rightarrow> string" where
  "pad_start n c s = replicate (n - length s) c @ s"

definition generate_otp_code :: "two_factor_env \<Rightarrow> string" where
  "generate_otp_code env =
     pad_start otp_code_length CHR ''0'' (show_nat (fe_random_int env mod otp_max_value))"

definition hash_otp_code :: "two_factor_env \<Rightarrow> string \<Rightarrow> string" where
  "hash_otp_code env code = fe_sha256 env code"

definition verify_otp_code :: "two_factor_env \<Rightarrow> string \<Rightarrow> string \<Rightarrow> bool" where
  "verify_otp_code env code h = (hash_otp_code env code = h)"

subsection \<open>Authenticator codes\<close>

definition default_period :: int where
  "default_period = 30"

definition verify_totp_code ::
    "two_factor_env \<Rightarrow> string \<Rightarrow> string \<Rightarrow> totp_row \<Rightarrow> app_error + int option" where
  "verify_totp_code env code secret r =
     (if tt_algorithm r \<noteq> ''SHA1'' \<or> tt_digits r \<noteq> 6 \<or> tt_period r \<noteq> default_period
      then Inl UnsupportedTotpConfigurationError
      else Inr (case fe_totp_validate env secret code (fe_now env) of
                  None \<Rightarrow> None
                | Some delta \<Rightarrow> Some (fe_now env div (default_period * 1000) + delta)))"

subsection \<open>Recovery codes\<close>

definition recovery_code_count :: nat where
  "recovery_code_count = 10"

definition code_chars :: string where
  "code_chars = ''ABCDEFGHJKMNPQRSTUVWXYZ23456789''"

definition half_length :: nat where
  "half_length = 4"

definition generate_single_code :: "(nat \<Rightarrow> nat) \<Rightarrow> string" where
  "generate_single_code bytes =
     (let code = map (\<lambda>i. code_chars ! (bytes i mod length code_chars)) [0 ..< half_length * 2]
      in take half_length code @ CHR ''-'' # drop half_length code)"

definition generate_recovery_codes :: "two_factor_env \<Rightarrow> nat \<Rightarrow> string list" where
  "generate_recovery_codes env count =
     map (\<lambda>i. generate_single_code (fe_random_bytes env i)) [0 ..< count]"

definition normalize_code :: "string \<Rightarrow> string" where
  "normalize_code code = filter (\<lambda>c. c \<noteq> CHR ''-'') (to_upper code)"

definition hash_recovery_code :: "two_factor_env \<Rightarrow> nat \<Rightarrow> string \<Rightarrow> string" where
  "hash_recovery_code env i code = fe_argon_hash env i (normalize_code code)"

definition verify_recovery_code_hash :: "two_factor_env \<Rightarrow> string \<Rightarrow> string \<Rightarrow> bool" where
  "verify_recovery_code_hash env code h =
     (case fe_argon_verify env h (normalize_code code) of None \<Rightarrow> False | Some b \<Rightarrow> b)"

definition generate_and_hash_recovery_codes :: "two_factor_env \<Rightarrow> string list \<times> string list" where
  "generate_and_hash_recovery_codes env =
     (let codes = generate_recovery_codes env recovery_code_count
      in (codes, map (\<lambda>(i, c). hash_recovery_code env i c) (enumerate 0 codes)))"

subsection \<open>The status cache\<close>

definition two_factor_cache_ttl :: int where
  "two_factor_cache_ttl = 300"

definition two_factor_status_key :: "string \<Rightarrow> string" where
  "two_factor_status_key uid = ''2fa:status:'' @ uid"

definition deserialize_status :: "redis_value \<Rightarrow> two_factor_status option" where
  "deserialize_status v = (case v of JsonTwoFactor s \<Rightarrow> Some s | _ \<Rightarrow> None)"

definition get_cached_two_factor_status :: "time \<Rightarrow> string \<Rightarrow> store \<Rightarrow> two_factor_status option" where
  "get_cached_two_factor_status now uid st =
     (if st_redis_up st
      then (case redis_live now (st_redis st) (two_factor_status_key uid) of
              None \<Rightarrow> None
            | Some v \<Rightarrow> deserialize_status v)
      else None)"

definition cache_two_factor_status :: "time \<Rightarrow> string \<Rightarrow> two_factor_status \<Rightarrow> (flow, unit) op" where
  "cache_two_factor_status now uid status = after_database_commit (best_effort_redis
     (redis_set_ex now (two_factor_status_key uid) (JsonTwoFactor status) two_factor_cache_ttl))"

definition invalidate_two_factor_cache :: "string \<Rightarrow> (flow, unit) op" where
  "invalidate_two_factor_cache uid =
     after_database_commit (best_effort_redis (redis_del (two_factor_status_key uid)))"

subsection \<open>Enrolment\<close>

text \<open>The \<open>two_factor_method\<close> column; its CHECK constraint admits the two names and \<open>NULL\<close>.\<close>

definition method_name :: "two_factor_method \<Rightarrow> string" where
  "method_name m = (case m of EmailMethod \<Rightarrow> ''email'' | TotpMethod \<Rightarrow> ''totp'')"

definition method_of :: "string option \<Rightarrow> two_factor_method option" where
  "method_of c =
     (if c = Some ''email'' then Some EmailMethod
      else if c = Some ''totp'' then Some TotpMethod else None)"

definition two_factor_event ::
    "string \<Rightarrow> string option \<Rightarrow> string \<Rightarrow> (string \<times> json) list \<Rightarrow> audit_entry" where
  "two_factor_event event org uid metadata =
     (blank_entry event ''auth'')\<lparr>ae_organization_id := org, ae_user_id := Some uid,
        ae_metadata := Some (JObj metadata)\<rparr>"

definition two_factor_flags :: "bool \<Rightarrow> two_factor_method option \<Rightarrow> update_user_data" where
  "two_factor_flags enabled method = no_update\<lparr>ud_two_factor_enabled := Some enabled,
     ud_two_factor_method := Some (map_option method_name method)\<rparr>"

record two_factor_setup_result =
  tr_method :: two_factor_method
  tr_recovery_codes :: "string list"
  tr_totp_uri :: "string option"
  tr_qr_code :: "string option"

text \<open>The precondition both set-ups share.\<close>

definition require_not_enabled :: "string \<Rightarrow> (flow, user) op" where
  "require_not_enabled uid =
     andthen (query (select (find_user_by_id uid))) (\<lambda>found.
     (case found of
        None \<Rightarrow> throw_op (TwoFactorNotEnabledError uid)
      | Some u \<Rightarrow>
          (if u_two_factor_enabled u then throw_op (TwoFactorAlreadyEnabledError uid)
           else return_op u)))"

definition setup_email_otp ::
    "two_factor_env \<Rightarrow> string \<Rightarrow> string \<Rightarrow> (flow, two_factor_setup_result) op" where
  "setup_email_otp env uid org =
     andthen (require_not_enabled uid) (\<lambda>_.
     (case generate_and_hash_recovery_codes env of (codes, hashes) \<Rightarrow>
     andthen (query (insert_recovery_codes (fe_now env) (fe_new_id env) uid hashes)) (\<lambda>_.
     andthen (query (update_user_row (fe_now env) uid (two_factor_flags True (Some EmailMethod))))
       (\<lambda>_.
     andthen (invalidate_two_factor_cache uid) (\<lambda>_.
     andthen (write_audit_log (two_factor_event ''2fa.setup.email'' (Some org) uid
         [(''method'', JStr ''email'')])) (\<lambda>_.
     return_op \<lparr>tr_method = EmailMethod, tr_recovery_codes = codes, tr_totp_uri = None,
                tr_qr_code = None\<rparr>))))))"

definition totp_issuer :: "string \<Rightarrow> string" where
  "totp_issuer org_slug = ''Porta ('' @ org_slug @ '')''"

definition setup_totp ::
    "two_factor_env \<Rightarrow> string \<Rightarrow> string \<Rightarrow> string \<Rightarrow> (flow, two_factor_setup_result) op" where
  "setup_totp env uid email org_slug =
     andthen (require_not_enabled uid) (\<lambda>_.
     andthen (query (execute (delete_totp uid))) (\<lambda>_.
     andthen (lift_sum (encrypt_totp_secret env (fe_totp_secret env) (get_encryption_key env)))
       (\<lambda>(encrypted, iv, tag).
     andthen (query (insert_totp (fe_now env) (fe_new_id env 0) \<lparr>
         it_user_id = uid, it_encrypted_secret = encrypted, it_encryption_iv = iv,
         it_encryption_tag = tag, it_algorithm = None, it_digits = None, it_period = None\<rparr>)) (\<lambda>_.
     (let uri = fe_totp_uri env (fe_totp_secret env) email (totp_issuer org_slug);
          qr = fe_qr_code env uri
      in (case generate_and_hash_recovery_codes env of (codes, hashes) \<Rightarrow>
     andthen (query (execute (delete_all_recovery_codes uid))) (\<lambda>_.
     andthen (query (insert_recovery_codes (fe_now env) (fe_new_id env) uid hashes)) (\<lambda>_.
     andthen (invalidate_two_factor_cache uid) (\<lambda>_.
     return_op \<lparr>tr_method = TotpMethod, tr_recovery_codes = codes, tr_totp_uri = Some uri,
                tr_qr_code = Some qr\<rparr>)))))))))"

definition stored_secret :: "two_factor_env \<Rightarrow> totp_row \<Rightarrow> app_error + string" where
  "stored_secret env r =
     decrypt_totp_secret env (tt_encrypted_secret r) (tt_encryption_iv r) (tt_encryption_tag r)
       (get_encryption_key env)"

record pending_totp_setup =
  pt_totp_uri :: string
  pt_qr_code :: string
  pt_secret :: string

definition get_pending_totp_setup_info ::
    "two_factor_env \<Rightarrow> string \<Rightarrow> string \<Rightarrow> string \<Rightarrow> (flow, pending_totp_setup option) op" where
  "get_pending_totp_setup_info env uid email org_slug =
     andthen (query (find_totp_by_user_id uid)) (\<lambda>found.
     (case found of
        None \<Rightarrow> return_op None
      | Some r \<Rightarrow>
          (if tt_verified r then return_op None
           else andthen (lift_sum (stored_secret env r)) (\<lambda>secret.
             (let uri = fe_totp_uri env secret email (totp_issuer org_slug)
              in return_op (Some \<lparr>pt_totp_uri = uri, pt_qr_code = fe_qr_code env uri,
                                  pt_secret = secret\<rparr>))))))"

definition confirm_work :: "two_factor_env \<Rightarrow> string \<Rightarrow> string \<Rightarrow> int \<Rightarrow> (flow, bool) op" where
  "confirm_work env i uid n =
     andthen (query (returning (verify_totp_enrollment (fe_now env) i uid n))) (\<lambda>consumed.
     if \<not> consumed then return_op False
     else andthen (query (update_user_row (fe_now env) uid
              (two_factor_flags True (Some TotpMethod)))) (\<lambda>_.
          return_op True))"

definition confirm_totp_setup :: "two_factor_env \<Rightarrow> string \<Rightarrow> string \<Rightarrow> (flow, bool) op" where
  "confirm_totp_setup env uid code =
     andthen (query (find_totp_by_user_id uid)) (\<lambda>found.
     (case found of
        None \<Rightarrow> throw_op (TotpNotConfiguredError uid)
      | Some r \<Rightarrow>
          (if tt_verified r then throw_op (TotpNotConfiguredError uid)
           else
             andthen (lift_sum (stored_secret env r)) (\<lambda>secret.
             andthen (lift_sum (verify_totp_code env code secret r)) (\<lambda>matched.
             (case matched of
                None \<Rightarrow> return_op False
              | Some n \<Rightarrow>
                  andthen (run_database_transaction (confirm_work env (tt_id r) uid n)) (\<lambda>confirmed.
                  if \<not> confirmed then return_op False
                  else
                    andthen (invalidate_two_factor_cache uid) (\<lambda>_.
                    andthen (query (select (find_user_by_id uid))) (\<lambda>u.
                    andthen (write_audit_log (two_factor_event ''2fa.setup.totp''
                        (map_option u_organization_id u) uid [(''method'', JStr ''totp'')])) (\<lambda>_.
                    return_op True))))))))))"

subsection \<open>Codes by e-mail\<close>

definition max_active_otp_codes :: nat where
  "max_active_otp_codes = 5"

definition otp_expiry_minutes :: int where
  "otp_expiry_minutes = 10"

definition too_many_otp_codes :: app_error where
  "too_many_otp_codes =
     JsError ''Too many active OTP codes. Please wait before requesting a new one.''"

definition limit_otp_codes :: "two_factor_env \<Rightarrow> string \<Rightarrow> (flow, unit) op" where
  "limit_otp_codes env uid =
     andthen (query (select (count_active_otp_codes (fe_now env) uid))) (\<lambda>active.
     if active < max_active_otp_codes then return_op ()
     else
       andthen (query (returning (delete_expired_otp_codes (fe_now env) uid))) (\<lambda>_.
       andthen (query (select (count_active_otp_codes (fe_now env) uid))) (\<lambda>recount.
       unless_throw (recount < max_active_otp_codes) too_many_otp_codes)))"

definition send_otp_code :: "two_factor_env \<Rightarrow> string \<Rightarrow> string \<Rightarrow> string \<Rightarrow> (flow, string) op" where
  "send_otp_code env uid email org =
     andthen (limit_otp_codes env uid) (\<lambda>_.
     (let plaintext = generate_otp_code env in
     andthen (query (insert_otp_code (fe_now env) (fe_new_id env 0) uid
         (hash_otp_code env plaintext) (fe_now env + otp_expiry_minutes * 60 * 1000))) (\<lambda>_.
     andthen (write_audit_log (two_factor_event ''2fa.otp.sent'' (Some org) uid
         [(''email'', JStr email)])) (\<lambda>_.
     return_op plaintext))))"

text \<open>The clean-up \<open>verifyOtp\<close> starts without awaiting it is the next statement of the flow.\<close>

definition verify_otp :: "two_factor_env \<Rightarrow> string \<Rightarrow> string \<Rightarrow> (flow, bool) op" where
  "verify_otp env uid code =
     andthen (query (select (find_active_otp_codes (fe_now env) uid))) (\<lambda>active.
     if active = [] then throw_op OtpExpiredError
     else (case find_row (\<lambda>r. verify_otp_code env code (oc_code_hash r)) active of
             None \<Rightarrow> throw_op OtpInvalidError
           | Some r \<Rightarrow>
               andthen (query (execute (mark_otp_code_used (fe_now env) (oc_code_id r)))) (\<lambda>_.
               andthen (query (returning (delete_expired_otp_codes (fe_now env) uid))) (\<lambda>_.
               return_op True))))"

subsection \<open>Verification\<close>

definition verify_totp :: "two_factor_env \<Rightarrow> string \<Rightarrow> string \<Rightarrow> (flow, bool) op" where
  "verify_totp env uid code =
     andthen (query (find_totp_by_user_id uid)) (\<lambda>found.
     (case found of
        None \<Rightarrow> throw_op (TotpNotConfiguredError uid)
      | Some r \<Rightarrow>
          (if \<not> tt_verified r then throw_op (TotpNotConfiguredError uid)
           else
             andthen (lift_sum (stored_secret env r)) (\<lambda>secret.
             andthen (lift_sum (verify_totp_code env code secret r)) (\<lambda>matched.
             (case matched of
                None \<Rightarrow> return_op False
              | Some n \<Rightarrow>
                  query (returning (consume_totp_time_step (fe_now env) (tt_id r) uid n))))))))"

definition verify_recovery_code :: "two_factor_env \<Rightarrow> string \<Rightarrow> string \<Rightarrow> (flow, bool) op" where
  "verify_recovery_code env uid code =
     andthen (query (select (find_unused_recovery_codes uid))) (\<lambda>unused.
     if unused = [] then throw_op (RecoveryCodesExhaustedError uid)
     else (case find_row (\<lambda>r. verify_recovery_code_hash env code (rk_code_hash r)) unused of
             None \<Rightarrow> throw_op RecoveryCodeInvalidError
           | Some r \<Rightarrow>
               andthen (query (execute (mark_recovery_code_used (fe_now env) (rk_id r)))) (\<lambda>_.
               andthen (invalidate_two_factor_cache uid) (\<lambda>_.
               andthen (write_audit_log (two_factor_event ''2fa.recovery.used'' None uid
                   [(''remainingCodes'', JNum (int (length unused) - 1))])) (\<lambda>_.
               return_op True)))))"

subsection \<open>Management\<close>

definition status_of :: "string \<Rightarrow> user \<Rightarrow> totp_row option \<Rightarrow> nat \<Rightarrow> two_factor_status" where
  "status_of uid u totp recovery = \<lparr>
     ts_enabled = u_two_factor_enabled u,
     ts_method = method_of (u_two_factor_method u),
     ts_totp_configured = (case totp of None \<Rightarrow> False | Some r \<Rightarrow> tt_verified r),
     ts_recovery_codes_remaining = recovery\<rparr>"

definition unknown_user_status :: two_factor_status where
  "unknown_user_status = \<lparr>ts_enabled = False, ts_method = None, ts_totp_configured = False,
     ts_recovery_codes_remaining = 0\<rparr>"

definition get_two_factor_status :: "two_factor_env \<Rightarrow> string \<Rightarrow> (flow, two_factor_status) op" where
  "get_two_factor_status env uid f =
     (case get_cached_two_factor_status (fe_now env) uid (fl_store f) of
        Some status \<Rightarrow> (Inr status, f)
      | None \<Rightarrow>
          (case find_user_by_id uid (flow_db f) of
             None \<Rightarrow> (Inr unknown_user_status, f)
           | Some u \<Rightarrow>
               andthen (query (find_totp_by_user_id uid)) (\<lambda>totp.
               andthen (query (select (count_unused_recovery_codes uid))) (\<lambda>recovery.
               andthen (cache_two_factor_status (fe_now env) uid (status_of uid u totp recovery))
                 (\<lambda>_. return_op (status_of uid u totp recovery)))) f))"

definition require_enabled :: "string \<Rightarrow> (flow, user) op" where
  "require_enabled uid =
     andthen (query (select (find_user_by_id uid))) (\<lambda>found.
     (case found of
        None \<Rightarrow> throw_op (TwoFactorNotEnabledError uid)
      | Some u \<Rightarrow>
          (if u_two_factor_enabled u then return_op u
           else throw_op (TwoFactorNotEnabledError uid))))"

definition disable_two_factor :: "two_factor_env \<Rightarrow> string \<Rightarrow> (flow, unit) op" where
  "disable_two_factor env uid =
     andthen (require_enabled uid) (\<lambda>u.
     andthen (query (execute (delete_totp uid))) (\<lambda>_.
     andthen (query (execute (delete_all_recovery_codes uid))) (\<lambda>_.
     andthen (query (returning (delete_expired_otp_codes (fe_now env) uid))) (\<lambda>_.
     andthen (query (update_user_row (fe_now env) uid (two_factor_flags False None))) (\<lambda>_.
     andthen (invalidate_two_factor_cache uid) (\<lambda>_.
     write_audit_log (two_factor_event ''2fa.disabled'' (Some (u_organization_id u)) uid
       [(''previousMethod'',
         case u_two_factor_method u of None \<Rightarrow> JNull | Some m \<Rightarrow> JStr m)])))))))"

definition regenerate_recovery_codes :: "two_factor_env \<Rightarrow> string \<Rightarrow> (flow, string list) op" where
  "regenerate_recovery_codes env uid =
     andthen (require_enabled uid) (\<lambda>u.
     andthen (query (execute (delete_all_recovery_codes uid))) (\<lambda>_.
     (case generate_and_hash_recovery_codes env of (codes, hashes) \<Rightarrow>
     andthen (query (insert_recovery_codes (fe_now env) (fe_new_id env) uid hashes)) (\<lambda>_.
     andthen (invalidate_two_factor_cache uid) (\<lambda>_.
     andthen (write_audit_log ((two_factor_event ''2fa.recovery.regenerated''
         (Some (u_organization_id u)) uid [])\<lparr>ae_metadata := None\<rparr>)) (\<lambda>_.
     return_op codes))))))"

subsection \<open>Policy and summary\<close>

definition requires_two_factor :: "two_factor_policy \<Rightarrow> bool \<Rightarrow> bool" where
  "requires_two_factor policy enabled =
     (if policy = Optional then False else if enabled then False else True)"

definition determine_two_factor_method ::
    "two_factor_policy \<Rightarrow> bool \<Rightarrow> two_factor_method option \<Rightarrow> two_factor_method option" where
  "determine_two_factor_method policy enabled method =
     (if enabled \<and> method \<noteq> None then method
      else (case policy of
              RequiredEmail \<Rightarrow> Some EmailMethod
            | RequiredTotp \<Rightarrow> Some TotpMethod
            | RequiredAny \<Rightarrow> None
            | Optional \<Rightarrow> None))"

text \<open>
  The compliance rate in ten-thousandths: \<open>Math.round\<close> rounds a half up (the quotient is exact
  here, a double in the source).
\<close>

record two_factor_summary =
  sm_total_users :: nat
  sm_enabled_count :: nat
  sm_disabled_count :: nat
  sm_totp_count :: nat
  sm_email_count :: nat
  sm_compliance_rate :: nat

definition get_two_factor_summary :: "string \<Rightarrow> db \<Rightarrow> two_factor_summary" where
  "get_two_factor_summary org d =
     (let us = filter (\<lambda>r. ur_organization_id r = org) (db_users d);
          total = length us;
          enabled = row_count ur_two_factor_enabled us
      in \<lparr>sm_total_users = total,
          sm_enabled_count = enabled,
          sm_disabled_count = row_count (\<lambda>r. \<not> ur_two_factor_enabled r) us,
          sm_totp_count = row_count (\<lambda>r. ur_two_factor_method r = Some ''totp'') us,
          sm_email_count = row_count (\<lambda>r. ur_two_factor_method r = Some ''email'') us,
          sm_compliance_rate =
            (if total > 0 then (2 * enabled * 10000 + total) div (2 * total) else 0)\<rparr>)"

end
