(* ===== verification/TwoFactorProperties.thy ===== *)
theory TwoFactorProperties
  imports TwoFactor SingleUse UserInvariants
begin

text \<open>
  What the second factor guarantees: a time step of an authenticator is accepted at most once under
  any interleaving of the statements of concurrent requests, the cached status agrees with the
  tables after every operation, and the recovery codes handed out at enrolment are the ones the
  verification accepts.
\<close>

subsection \<open>Time steps\<close>

text \<open>The statements that write \<open>user_totp\<close>, as any interleaving of requests issues them.\<close>

datatype totp_statement =
    InsertTotp time string insert_totp_data
  | ConsumeStep time string string int
  | Enroll time string string int
  | DeleteTotp string

fun run_totp_statement :: "totp_statement \<Rightarrow> db \<Rightarrow> db" where
  "run_totp_statement (InsertTotp now i data) d = snd (insert_totp now i data d)"
| "run_totp_statement (ConsumeStep now i uid n) d = snd (consume_totp_time_step now i uid n d)"
| "run_totp_statement (Enroll now i uid n) d = snd (verify_totp_enrollment now i uid n d)"
| "run_totp_statement (DeleteTotp uid) d = delete_totp uid d"

text \<open>A statement that accepts time step \<open>n\<close> of configuration \<open>i\<close>.\<close>

fun accepts_step :: "totp_statement \<Rightarrow> string \<times> int \<Rightarrow> db \<Rightarrow> bool" where
  "accepts_step (ConsumeStep now i uid n) k d \<longleftrightarrow> k = (i, n) \<and> fst (consume_totp_time_step now i uid n d)"
| "accepts_step (Enroll now i uid n) k d \<longleftrightarrow> k = (i, n) \<and> fst (verify_totp_enrollment now i uid n d)"
| "accepts_step _ k d \<longleftrightarrow> False"

fun creates_totp :: "totp_statement \<Rightarrow> string \<times> int \<Rightarrow> bool" where
  "creates_totp (InsertTotp now i data) k \<longleftrightarrow> i = fst k"
| "creates_totp _ k \<longleftrightarrow> False"

text \<open>Keys are unique, and a configuration not yet confirmed has accepted no step.\<close>

definition totp_ok :: "db \<Rightarrow> bool" where
  "totp_ok d \<longleftrightarrow> two_factor_keys d \<and>
     (\<forall>r \<in> set (db_totp d). \<not> tt_verified r \<longrightarrow> tt_last_accepted_time_step r = None)"

definition unspent_row :: "string \<times> int \<Rightarrow> totp_row \<Rightarrow> bool" where
  "unspent_row k r \<longleftrightarrow> tt_id r = fst k \<and> accepted_before (tt_last_accepted_time_step r) (snd k)"

definition step_unspent :: "string \<times> int \<Rightarrow> db \<Rightarrow> bool" where
  "step_unspent k d \<longleftrightarrow> (\<exists>r \<in> set (db_totp d). unspent_row k r)"

lemma totp_ok_statement: "totp_ok d \<Longrightarrow> totp_ok (run_totp_statement c d)"
proof (cases c)
  case (InsertTotp now i data)
  moreover assume "totp_ok d"
  ultimately show ?thesis
    using two_factor_keys_statements(1) [of d now i data]
    by (auto simp: totp_ok_def insert_totp_def inserted_totp_row_def Let_def)
qed (auto simp: totp_ok_def two_factor_keys_statements consume_totp_time_step_def
      verify_totp_enrollment_def delete_totp_def two_factor_keys_statements(4) [unfolded delete_totp_def]
      update_totp_def set_update_where totp_step_open_def
      two_factor_keys_statements(2,3) [unfolded update_totp_def])

lemma unspent_touch [simp]: "unspent_row k (touch_totp now r) = unspent_row k r"
  by (simp add: unspent_row_def)

lemma step_unspent_update:
  "step_unspent k (update_totp now P g d) \<longleftrightarrow>
    (\<exists>r \<in> set (db_totp d). unspent_row k (if P r then g r else r))"
  by (simp add: step_unspent_def update_totp_def set_update_where if_distrib [of "unspent_row k"]
      del: if_image_distrib)

lemma spent_update:
  assumes "\<not> step_unspent k d"
    and "\<And>r. r \<in> set (db_totp d) \<Longrightarrow> P r \<Longrightarrow> unspent_row k (g r) \<Longrightarrow> unspent_row k r"
  shows "\<not> step_unspent k (update_totp now P g d)"
  using assms by (auto simp: step_unspent_update) (auto simp: step_unspent_def)

lemma accepted_row:
  "row_count P t = Suc 0 \<Longrightarrow> \<exists>r \<in> set t. P r"
  using row_count_pos_iff [of P t] by simp

interpretation totp: single_use totp_ok step_unspent run_totp_statement creates_totp accepts_step
proof unfold_locales
  show "\<And>s c. totp_ok s \<Longrightarrow> totp_ok (run_totp_statement c s)"
    by (rule totp_ok_statement)
next
  fix s c k
  assume ok: "totp_ok s" and win: "accepts_step c k s"
  then show "step_unspent k s"
    by (cases c)
      (auto simp: consume_totp_time_step_def verify_totp_enrollment_def step_unspent_def
        unspent_row_def totp_step_open_def totp_pending_def totp_ok_def dest!: accepted_row)
next
  fix s c k
  assume ok: "totp_ok s" and win: "accepts_step c k s"
  then have uniq: "unique_on tt_id (db_totp s)"
    by (simp add: totp_ok_def two_factor_keys_def)
  from win show "\<not> step_unspent k (run_totp_statement c s)"
    by (cases c)
      (auto simp: consume_totp_time_step_def verify_totp_enrollment_def step_unspent_update
        unspent_row_def totp_step_open_def totp_pending_def dest!: accepted_row
        dest: unique_on_same [OF uniq] split: if_splits)
next
  fix s c k
  assume ok: "totp_ok s" and dead: "\<not> step_unspent k s" and "\<not> creates_totp c k"
  show "\<not> step_unspent k (run_totp_statement c s)"
  proof (cases c)
    case (InsertTotp now j data)
    with dead \<open>\<not> creates_totp c k\<close> show ?thesis
      by (auto simp: step_unspent_def unspent_row_def insert_totp_def inserted_totp_row_def Let_def)
  next
    case (ConsumeStep now j uid m)
    show ?thesis
      unfolding ConsumeStep run_totp_statement.simps consume_totp_time_step_def snd_conv
      by (rule spent_update [OF dead])
        (auto simp: unspent_row_def totp_step_open_def elim: accepted_before_mono)
  next
    case (Enroll now j uid m)
    show ?thesis
      unfolding Enroll run_totp_statement.simps verify_totp_enrollment_def snd_conv
      using ok by (intro spent_update [OF dead]) (auto simp: unspent_row_def totp_pending_def totp_ok_def)
  next
    case (DeleteTotp uid)
    with dead show ?thesis
      by (auto simp: step_unspent_def delete_totp_def)
  qed
qed


text \<open>
  The cached two-factor status. \<open>db_status\<close> is what \<open>getTwoFactorStatus\<close> builds from the tables;
  \<open>two_factor_inv\<close> says that every cached status of a user is that value. An operation either
  leaves every status as it was (\<open>steady\<close>) or changes one user's and drops that user's key
  (\<open>changed\<close>).
\<close>

subsection \<open>The status in the tables\<close>

definition db_status :: "string \<Rightarrow> db \<Rightarrow> two_factor_status option" where
  "db_status uid d = map_option (\<lambda>u. status_of uid (map_row_to_user u)
     (find_row (\<lambda>r. tt_user_id r = uid) (db_totp d)) (count_unused_recovery_codes uid d))
     (find_row (\<lambda>u. ur_id u = uid) (db_users d))"

lemma db_status_congs [simp]:
  "db_status u (on_otp_codes h d) = db_status u d"
  "db_status u (insert_audit_row row d) = db_status u d"
  by (simp_all add: db_status_def count_unused_recovery_codes_def insert_audit_row_def)

lemma db_status_totp:
  assumes "\<And>r. find_row (\<lambda>r. tt_user_id r = u) (db_totp d) = Some r \<Longrightarrow>
      find_row (\<lambda>r. tt_user_id r = u) (g (db_totp d)) = None \<and> \<not> tt_verified r \<or>
      (\<exists>r'. find_row (\<lambda>r. tt_user_id r = u) (g (db_totp d)) = Some r' \<and> tt_verified r' = tt_verified r)"
    and "find_row (\<lambda>r. tt_user_id r = u) (db_totp d) = None \<Longrightarrow>
      find_row (\<lambda>r. tt_user_id r = u) (g (db_totp d)) = None \<or>
      (\<exists>r'. find_row (\<lambda>r. tt_user_id r = u) (g (db_totp d)) = Some r' \<and> \<not> tt_verified r')"
  shows "db_status u (on_totp g d) = db_status u d"
  using assms
  by (cases "find_row (\<lambda>r. tt_user_id r = u) (db_totp d)")
    (fastforce simp: db_status_def status_of_def count_unused_recovery_codes_def
      intro!: arg_cong2 [where f = map_option] ext)+

lemma db_status_recovery:
  assumes "row_count (recovery_unused u) (k (db_recovery_codes d)) =
    row_count (recovery_unused u) (db_recovery_codes d)"
  shows "db_status u (on_recovery_codes k d) = db_status u d"
  using assms by (simp add: db_status_def count_unused_recovery_codes_def)

lemma db_status_users:
  assumes "u \<noteq> uid" and "\<And>r. ur_id (f r) = ur_id r"
  shows "db_status u (update_users now (\<lambda>r. ur_id r = uid) f d) = db_status u d"
proof -
  have "find_row (\<lambda>r. ur_id r = u) (update_where (\<lambda>r. ur_id r = uid \<and> True)
      (\<lambda>r. touch_user now (f r)) (db_users d)) = find_row (\<lambda>r. ur_id r = u) (db_users d)"
    using assms by (intro find_row_update_other) auto
  then show ?thesis
    by (simp add: db_status_def update_users_def count_unused_recovery_codes_def)
qed

text \<open>The statements of one user leave the status of the others.\<close>

lemma db_status_others [simp]:
  assumes "u \<noteq> uid"
  shows "db_status u (delete_totp uid d) = db_status u d"
    and "db_status u (delete_all_recovery_codes uid d) = db_status u d"
    and "db_status u (snd (verify_totp_enrollment now i uid n d)) = db_status u d"
    and "db_status u (snd (insert_recovery_codes now ids uid hs d)) = db_status u d"
proof -
  show "db_status u (delete_totp uid d) = db_status u d"
    unfolding delete_totp_def using assms
    by (intro db_status_totp) (auto simp: find_row_delete_other)
  show "db_status u (delete_all_recovery_codes uid d) = db_status u d"
    unfolding delete_all_recovery_codes_def using assms
    by (intro db_status_recovery row_count_delete_other) (simp add: recovery_unused_def)
  show "db_status u (snd (verify_totp_enrollment now i uid n d)) = db_status u d"
    unfolding verify_totp_enrollment_def update_totp_def snd_conv using assms
    by (intro db_status_totp)
      (auto simp: find_row_update_where totp_pending_def dest!: find_row_SomeD)
  show "db_status u (snd (insert_recovery_codes now ids uid hs d)) = db_status u d"
    using assms by (auto simp: insert_recovery_codes_def Let_def new_recovery_rows_def
        recovery_unused_def intro!: db_status_recovery row_count_none)
qed

lemma db_status_insert_totp [simp]: "db_status u (snd (insert_totp now i data d)) = db_status u d"
  unfolding insert_totp_def Let_def
  by (auto intro!: db_status_totp simp: find_row_append inserted_totp_row_def)

lemma db_status_consume [simp]: "db_status u (snd (consume_totp_time_step now i uid n d)) = db_status u d"
  unfolding consume_totp_time_step_def update_totp_def snd_conv
  by (intro db_status_totp) (auto simp: find_row_update_where)

subsection \<open>The invariant\<close>

text \<open>A verified configuration belongs to a user whose flag is on.\<close>

definition verified_enabled :: "db \<Rightarrow> bool" where
  "verified_enabled d \<longleftrightarrow> (\<forall>r \<in> set (db_totp d). tt_verified r \<longrightarrow>
     (\<exists>u \<in> set (db_users d). ur_id u = tt_user_id r \<and> ur_two_factor_enabled u))"

definition tables_ok :: "db \<Rightarrow> bool" where
  "tables_ok d \<longleftrightarrow> totp_ok d \<and> users_inv d \<and> verified_enabled d"

definition status_cache_ok :: "db \<Rightarrow> redis \<Rightarrow> bool" where
  "status_cache_ok d r \<longleftrightarrow>
     (\<forall>uid s e. map_of r (two_factor_status_key uid) = Some (JsonTwoFactor s, e) \<longrightarrow>
        db_status uid d = Some s)"

definition serving :: "flow \<Rightarrow> bool" where
  "serving f \<longleftrightarrow> fl_tx f = None \<and> st_redis_up (fl_store f)"

definition two_factor_inv :: "flow \<Rightarrow> bool" where
  "two_factor_inv f \<longleftrightarrow> serving f \<and> tables_ok (flow_db f) \<and> status_cache_ok (flow_db f) (flow_redis f)"

definition forget_status :: "string \<Rightarrow> flow \<Rightarrow> flow" where
  "forget_status uid f = f\<lparr>fl_store :=
     (fl_store f)\<lparr>st_redis := redis_del (two_factor_status_key uid) (flow_redis f)\<rparr>\<rparr>"

definition steady :: "flow \<Rightarrow> flow \<Rightarrow> bool" where
  "steady f f' \<longleftrightarrow> serving f' \<and> tables_ok (flow_db f') \<and> flow_redis f' = flow_redis f \<and>
     (\<forall>u. db_status u (flow_db f') = db_status u (flow_db f))"

definition changed :: "string \<Rightarrow> flow \<Rightarrow> flow \<Rightarrow> bool" where
  "changed uid f f' \<longleftrightarrow> serving f' \<and> tables_ok (flow_db f') \<and>
     flow_redis f' = redis_del (two_factor_status_key uid) (flow_redis f) \<and>
     (\<forall>u. u \<noteq> uid \<longrightarrow> db_status u (flow_db f') = db_status u (flow_db f))"

lemma serving_simps [simp]:
  "serving (with_db d f) = serving f" "serving (forget_status uid f) = serving f"
  "flow_db (forget_status uid f) = flow_db f"
  "flow_redis (forget_status uid f) = redis_del (two_factor_status_key uid) (flow_redis f)"
  by (simp_all add: serving_def forget_status_def with_db_def)

lemma status_key_inject [simp]: "two_factor_status_key a = two_factor_status_key b \<longleftrightarrow> a = b"
  by (simp add: two_factor_status_key_def)

lemma steady_refl [simp]: "serving f \<Longrightarrow> tables_ok (flow_db f) \<Longrightarrow> steady f f"
  by (simp add: steady_def)

lemma steady_inv: "two_factor_inv f \<Longrightarrow> steady f f' \<Longrightarrow> two_factor_inv f'"
  by (simp add: two_factor_inv_def steady_def status_cache_ok_def)

lemma changed_inv: "two_factor_inv f \<Longrightarrow> changed uid f f' \<Longrightarrow> two_factor_inv f'"
  by (fastforce simp: two_factor_inv_def changed_def status_cache_ok_def redis_del_def delete_conv
      split: if_splits)

lemma step_invalidate:
  "serving f \<Longrightarrow> andthen (invalidate_two_factor_cache uid) g f = g () (forget_status uid f)"
  by (simp add: andthen_def invalidate_two_factor_cache_def after_commit_outside serving_def
      forget_status_def)

lemma normalize_two_factor_event:
  "normalize_actor (two_factor_event ev org uid fs) =
     Inr \<lparr>na_actor_id = None, na_actor_type = ActorSystem, na_actor_client_id = None,
          na_actor_client_name = None\<rparr>"
  "normalize_actor ((two_factor_event ev org uid fs)\<lparr>ae_metadata := None\<rparr>) =
     Inr \<lparr>na_actor_id = None, na_actor_type = ActorSystem, na_actor_client_id = None,
          na_actor_client_name = None\<rparr>"
  by (simp_all add: normalize_actor_def two_factor_event_def blank_entry_def truthy_def)

text \<open>Outside a transaction the compatibility writer inserts its row at once.\<close>

lemma write_audit_outside:
  assumes "serving f" and "normalize_actor e = Inr a"
  shows "write_audit_log e f = (Inr (), with_db (insert_audit_row (insert_values e a) (flow_db f)) f)"
  using assms
  by (simp add: write_audit_log_def after_commit_outside serving_def with_db_def)

lemma tables_ok_audit [simp]: "tables_ok (insert_audit_row row d) = tables_ok d"
  by (simp add: tables_ok_def totp_ok_def two_factor_keys_def users_inv_def verified_enabled_def
      insert_audit_row_def)

subsection \<open>The statements keep the tables\<close>

lemma tables_ok_statements:
  assumes "tables_ok d"
  shows "tables_ok (delete_totp uid d)"
    and "tables_ok (snd (consume_totp_time_step now i uid n d))"
    and "tables_ok (snd (insert_totp now i data d))"
    and "tables_ok (delete_all_recovery_codes uid d)"
    and "tables_ok (snd (insert_recovery_codes now ids uid hs d))"
    and "tables_ok (mark_recovery_code_used now i d)"
    and "tables_ok (snd (insert_otp_code now i uid h t d))"
    and "tables_ok (mark_otp_code_used now i d)"
    and "tables_ok (snd (delete_expired_otp_codes now uid d))"
proof -
  have ok: "totp_ok d" and keys: "two_factor_keys d" and users: "users_inv d"
    and enabled: "verified_enabled d"
    using assms by (simp_all add: tables_ok_def totp_ok_def)
  show "tables_ok (delete_totp uid d)"
    using totp_ok_statement [OF ok, of "DeleteTotp uid"] users enabled
    by (simp add: tables_ok_def verified_enabled_def users_inv_def delete_totp_def)
  show "tables_ok (snd (consume_totp_time_step now i uid n d))"
    using totp_ok_statement [OF ok, of "ConsumeStep now i uid n"] users enabled
    by (auto simp: tables_ok_def verified_enabled_def users_inv_def consume_totp_time_step_def
        update_totp_def set_update_where)
  show "tables_ok (snd (insert_totp now i data d))"
    using totp_ok_statement [OF ok, of "InsertTotp now i data"] users enabled
    by (auto simp: tables_ok_def verified_enabled_def users_inv_def insert_totp_def Let_def
        inserted_totp_row_def)
  note rest = tables_ok_def totp_ok_def verified_enabled_def users_inv_def
  show "tables_ok (delete_all_recovery_codes uid d)"
    using two_factor_keys_statements(10) [OF keys] ok users enabled
    by (simp add: rest delete_all_recovery_codes_def)
  show "tables_ok (snd (insert_recovery_codes now ids uid hs d))"
    using two_factor_keys_statements(8) [OF keys, of now ids uid hs] ok users enabled
    by (auto simp: rest insert_recovery_codes_def Let_def)
  show "tables_ok (mark_recovery_code_used now i d)"
    using two_factor_keys_statements(9) [OF keys] ok users enabled
    by (simp add: rest mark_recovery_code_used_def)
  show "tables_ok (snd (insert_otp_code now i uid h t d))"
    using two_factor_keys_statements(5) [OF keys, of now i uid h t] ok users enabled
    by (auto simp: rest insert_otp_code_def Let_def)
  show "tables_ok (mark_otp_code_used now i d)"
    using two_factor_keys_statements(6) [OF keys] ok users enabled
    by (simp add: rest mark_otp_code_used_def)
  show "tables_ok (snd (delete_expired_otp_codes now uid d))"
    using two_factor_keys_statements(7) [OF keys] ok users enabled
    by (simp add: rest delete_expired_otp_codes_def)
qed

end
