(* ===== verification/TwoFactorOperations.thy ===== *)
theory TwoFactorOperations
  imports TwoFactorProperties
begin

text \<open>
  Every operation of the two-factor service is \<open>steady\<close> or \<open>changed\<close>, hence keeps
  \<open>two_factor_inv\<close>. The one condition is that \<open>gen_random_uuid()\<close> is fresh for the recovery codes a
  call inserts.
\<close>

subsection \<open>The flags of a user\<close>

lemma find_user_row: "find_user_by_id uid d = Some u \<Longrightarrow>
    \<exists>r. find_row (\<lambda>r. ur_id r = uid) (db_users d) = Some r \<and> u = map_row_to_user r \<and>
      r \<in> set (db_users d) \<and> ur_id r = uid"
  by (auto simp: find_user_by_id_def dest: find_row_SomeD)

lemma update_flags:
  assumes "users_inv d" and "find_user_by_id uid d = Some u"
  shows "\<exists>x. update_user_row now uid (two_factor_flags b m) d =
    (Inr x, update_users now (\<lambda>x. ur_id x = uid) (apply_set_clauses (two_factor_flags b m)) d)"
proof -
  obtain r where r: "find_row (\<lambda>r. ur_id r = uid) (db_users d) = Some r" "r \<in> set (db_users d)"
    "ur_id r = uid"
    using find_user_row [OF assms(2)] by blast
  have clauses: "\<not> no_set_clauses (two_factor_flags b m)"
    by (simp add: no_set_clauses_def two_factor_flags_def)
  have email: "ud_email (two_factor_flags b m) = None"
    by (simp add: two_factor_flags_def)
  have free: "\<not> row_exists (\<lambda>x. ur_id x \<noteq> uid \<and> same_login (ur_organization_id r) (ur_email r) x)
      (db_users d)"
  proof
    assume "row_exists (\<lambda>x. ur_id x \<noteq> uid \<and> same_login (ur_organization_id r) (ur_email r) x)
      (db_users d)"
    then obtain x where "x \<in> set (db_users d)" "ur_id x \<noteq> uid" "login_key x = login_key r"
      by (auto simp: row_exists_iff same_login_iff login_key_def)
    with r assms(1) show False
      by (auto simp: users_inv_def dest: unique_on_same)
  qed
  with r clauses email show ?thesis
    by (simp add: update_user_row_def Let_def)
qed

lemma apply_flags [simp]:
  "ur_two_factor_enabled (touch_user now (apply_set_clauses (two_factor_flags b m) r)) = b"
  "ur_id (apply_set_clauses (two_factor_flags b m) r) = ur_id r"
  by (simp_all add: apply_set_clauses_def two_factor_flags_def touch_user_def)

abbreviation set_flags :: "time \<Rightarrow> string \<Rightarrow> bool \<Rightarrow> two_factor_method option \<Rightarrow> db \<Rightarrow> db" where
  "set_flags now uid b m \<equiv>
     update_users now (\<lambda>x. ur_id x = uid) (apply_set_clauses (two_factor_flags b m))"

lemma set_flags_tables [simp]:
  "db_two_factor (set_flags now uid b m d) = db_two_factor d"
  by (simp add: update_users_def)

lemma users_inv_set_flags: "users_inv d \<Longrightarrow> users_inv (set_flags now uid b m d)"
  by (rule users_inv_update_users)
    (auto simp: login_key_def two_factor_flags_def no_update_def lock_consistent_def)

lemma tables_ok_set_flags:
  assumes "tables_ok d" and "b \<or> (\<forall>r \<in> set (db_totp d). tt_user_id r \<noteq> uid)"
  shows "tables_ok (set_flags now uid b m d)"
proof -
  have "\<exists>u \<in> set (db_users (set_flags now uid b m d)). ur_id u = tt_user_id r \<and> ur_two_factor_enabled u"
    if r: "r \<in> set (db_totp d)" "tt_verified r" for r
  proof -
    obtain u where u: "u \<in> set (db_users d)" "ur_id u = tt_user_id r" "ur_two_factor_enabled u"
      using assms(1) r by (auto simp: tables_ok_def verified_enabled_def)
    show ?thesis
    proof (cases "ur_id u = uid")
      case True
      with u assms(2) r show ?thesis
        by (intro bexI [of _ "touch_user now (apply_set_clauses (two_factor_flags b m) u)"])
          (auto simp: update_users_def set_update_where)
    next
      case False
      with u show ?thesis
        by (intro bexI [of _ u]) (auto simp: update_users_def set_update_where)
    qed
  qed
  with assms(1) show ?thesis
    by (simp add: tables_ok_def totp_ok_def two_factor_keys_def users_inv_set_flags verified_enabled_def)
qed

lemma db_status_set_flags [simp]:
  "u \<noteq> uid \<Longrightarrow> db_status u (set_flags now uid b m d) = db_status u d"
  by (rule db_status_users) simp_all

lemma find_user_congs [simp]:
  "find_user_by_id uid (on_totp g d) = find_user_by_id uid d"
  "find_user_by_id uid (on_otp_codes h d) = find_user_by_id uid d"
  "find_user_by_id uid (on_recovery_codes k d) = find_user_by_id uid d"
  by (simp_all add: find_user_by_id_def)

subsection \<open>Fresh identifiers\<close>

definition fresh_ids :: "two_factor_env \<Rightarrow> flow \<Rightarrow> bool" where
  "fresh_ids env f \<longleftrightarrow> inj_on (fe_new_id env) {0 ..< recovery_code_count} \<and>
     (\<forall>i < recovery_code_count. \<forall>r \<in> set (db_recovery_codes (flow_db f)). rk_id r \<noteq> fe_new_id env i)"

lemma insert_fresh_recovery_codes:
  assumes "inj_on ids {0 ..< length hs}" and "\<forall>i < length hs. \<forall>r \<in> set (db_recovery_codes d). rk_id r \<noteq> ids i"
    and "unique_on rk_id (db_recovery_codes d)" and "find_user_by_id uid d = Some u"
  shows "insert_recovery_codes now ids uid hs d =
    (Inr (), on_recovery_codes (\<lambda>t. t @ new_recovery_rows now ids uid hs) d)"
proof -
  have ids: "map rk_id (new_recovery_rows now ids uid hs) = map ids [0 ..< length hs]"
    by (rule nth_equalityI) (simp_all add: new_recovery_rows_def nth_enumerate_eq)
  then have keys: "rk_id ` set (new_recovery_rows now ids uid hs) = ids ` {0 ..< length hs}"
    by (metis list.set_map set_upt)
  have "distinct (map rk_id (new_recovery_rows now ids uid hs))"
    unfolding ids using assms(1) by (simp add: distinct_map)
  with keys have "unique_on rk_id (db_recovery_codes d @ new_recovery_rows now ids uid hs)"
    using assms(2,3) by (auto simp: unique_on_def)
  moreover have "row_exists (\<lambda>r. ur_id r = uid) (db_users d)"
    using find_user_row [OF assms(4)] by (auto simp: row_exists_iff)
  ultimately show ?thesis
    by (auto simp: insert_recovery_codes_def Let_def new_recovery_rows_def on_recovery_codes_def)
qed

lemma generated_code_count [simp]:
  "length (snd (generate_and_hash_recovery_codes env)) = recovery_code_count"
  "length (fst (generate_and_hash_recovery_codes env)) = recovery_code_count"
  by (simp_all add: generate_and_hash_recovery_codes_def generate_recovery_codes_def Let_def)

subsection \<open>Enrolment\<close>

lemma step_not_enabled:
  "andthen (require_not_enabled uid) g f =
     (case find_user_by_id uid (flow_db f) of
        None \<Rightarrow> (Inl (TwoFactorNotEnabledError uid), f)
      | Some u \<Rightarrow>
          (if u_two_factor_enabled u then (Inl (TwoFactorAlreadyEnabledError uid), f) else g u f))"
  by (simp add: require_not_enabled_def andthen_assoc step_select split: option.splits)

lemma step_enabled:
  "andthen (require_enabled uid) g f =
     (case find_user_by_id uid (flow_db f) of
        None \<Rightarrow> (Inl (TwoFactorNotEnabledError uid), f)
      | Some u \<Rightarrow>
          (if u_two_factor_enabled u then g u f else (Inl (TwoFactorNotEnabledError uid), f)))"
  by (simp add: require_enabled_def andthen_assoc step_select split: option.splits)

lemma step_event:
  "serving f \<Longrightarrow> andthen (write_audit_log (two_factor_event ev org uid fs)) g f =
     g () (with_db (insert_audit_row (insert_values (two_factor_event ev org uid fs)
       \<lparr>na_actor_id = None, na_actor_type = ActorSystem, na_actor_client_id = None,
        na_actor_client_name = None\<rparr>) (flow_db f)) f)"
  by (simp add: andthen_def write_audit_outside [OF _ normalize_two_factor_event(1)])

lemma step_lift: "andthen (lift_sum r) g f = (case r of Inl e \<Rightarrow> (Inl e, f) | Inr a \<Rightarrow> g a f)"
  by (simp add: andthen_def lift_sum_def split: sum.splits)

text \<open>An \<open>INSERT\<close> of recovery codes that fails changes nothing.\<close>

lemma step_insert_recovery:
  "andthen (query (insert_recovery_codes now ids uid hs)) g f =
     (case fst (insert_recovery_codes now ids uid hs (flow_db f)) of
        Inl e \<Rightarrow> (Inl e, f)
      | Inr _ \<Rightarrow> g () (with_db (snd (insert_recovery_codes now ids uid hs (flow_db f))) f))"
  by (auto simp: step_query insert_recovery_codes_def Let_def)

lemma step_query_split:
  "andthen (query m) g f =
     (case fst (m (flow_db f)) of
        Inl e \<Rightarrow> (Inl e, with_db (snd (m (flow_db f))) f)
      | Inr a \<Rightarrow> g a (with_db (snd (m (flow_db f))) f))"
  by (simp add: step_query split: prod.splits sum.splits)

lemmas step_update_user = step_query_split [where m = "update_user_row now i u" for now i u]
lemmas step_insert_totp = step_query_split [where m = "insert_totp now i data" for now i data]
lemmas step_insert_otp = step_query_split [where m = "insert_otp_code now i u h t" for now i u h t]

lemma find_user_insert_recovery [simp]:
  "find_user_by_id u (snd (insert_recovery_codes now ids uid hs d)) = find_user_by_id u d"
  by (auto simp: insert_recovery_codes_def Let_def)

definition keeps_status :: "string \<Rightarrow> flow \<Rightarrow> flow \<Rightarrow> bool" where
  "keeps_status uid f f' \<longleftrightarrow> steady f f' \<or> changed uid f f'"

lemma two_factor_invD:
  assumes "two_factor_inv f"
  shows "serving f" and "tables_ok (flow_db f)" and "users_inv (flow_db f)"
    and "two_factor_keys (flow_db f)" and "unique_on rk_id (db_recovery_codes (flow_db f))"
  using assms
  by (simp_all add: two_factor_inv_def tables_ok_def totp_ok_def two_factor_keys_def)

lemma setup_email_keeps:
  assumes "two_factor_inv f"
  shows "keeps_status uid f (snd (setup_email_otp env uid org f))"
proof (cases "\<exists>u. find_user_by_id uid (flow_db f) = Some u \<and> \<not> u_two_factor_enabled u")
  case False
  with two_factor_invD [OF assms] show ?thesis
    by (auto simp: setup_email_otp_def step_not_enabled keeps_status_def split: option.splits)
next
  case True
  then obtain u where found: "find_user_by_id uid (flow_db f) = Some u" "\<not> u_two_factor_enabled u"
    by blast
  obtain codes hashes where g: "generate_and_hash_recovery_codes env = (codes, hashes)"
    by (cases "generate_and_hash_recovery_codes env")
  let ?ins = "insert_recovery_codes (fe_now env) (fe_new_id env) uid hashes (flow_db f)"
  note step = setup_email_otp_def step_not_enabled found g step_insert_recovery
  show ?thesis
  proof (cases "fst ?ins")
    case (Inl e)
    with two_factor_invD [OF assms] show ?thesis
      by (simp add: step keeps_status_def)
  next
    case (Inr x)
    have tables: "tables_ok (snd ?ins)"
      using tables_ok_statements(5) two_factor_invD(2) [OF assms] .
    then have "users_inv (snd ?ins)"
      by (simp add: tables_ok_def)
    from update_flags [OF this, of uid u "fe_now env" True "Some EmailMethod"] found
    obtain y where "update_user_row (fe_now env) uid (two_factor_flags True (Some EmailMethod))
        (snd ?ins) = (Inr y, set_flags (fe_now env) uid True (Some EmailMethod) (snd ?ins))"
      by auto
    with Inr tables two_factor_invD [OF assms] show ?thesis
      by (simp add: step step_update_user step_invalidate step_event keeps_status_def changed_def
          tables_ok_set_flags)
  qed
qed

text \<open>Dropping a configuration that was never confirmed changes no status.\<close>

lemma db_status_delete_pending:
  assumes "tables_ok d" and "find_user_by_id uid d = Some u" and "\<not> u_two_factor_enabled u"
  shows "db_status v (delete_totp uid d) = db_status v d"
proof (cases "v = uid")
  case True
  have "\<not> tt_verified r" if "find_row (\<lambda>r. tt_user_id r = uid) (db_totp d) = Some r" for r
  proof
    assume "tt_verified r"
    with find_row_SomeD [OF that] assms(1) obtain x where
      x: "x \<in> set (db_users d)" "ur_id x = uid" "ur_two_factor_enabled x"
      by (auto simp: tables_ok_def verified_enabled_def)
    from find_user_row [OF assms(2)] obtain y where
      y: "u = map_row_to_user y" "y \<in> set (db_users d)" "ur_id y = uid" by blast
    with x assms(1) have "x = y"
      by (auto simp: tables_ok_def users_inv_def dest: unique_on_same)
    with x y assms(3) show False by (simp add: map_row_to_user_def)
  qed
  then show ?thesis
    unfolding delete_totp_def True
    by (intro db_status_totp) (auto simp: find_row_delete_same)
qed simp

lemma fresh_after_delete:
  assumes "fresh_ids env f" and "two_factor_inv f" and "find_user_by_id uid d = Some u"
    and "db_recovery_codes d = delete_where (\<lambda>r. rk_user_id r = v) (db_recovery_codes (flow_db f))"
    and "length hs = recovery_code_count"
  shows "fst (insert_recovery_codes now (fe_new_id env) uid hs d) = Inr ()"
  using assms insert_fresh_recovery_codes [of "fe_new_id env" hs d uid u now]
    unique_on_delete_where [OF two_factor_invD(5) [OF assms(2)]]
  by (auto simp: fresh_ids_def)

lemma find_user_insert_totp [simp]:
  "find_user_by_id u (snd (insert_totp now i data d)) = find_user_by_id u d"
  "db_recovery_codes (snd (insert_totp now i data d)) = db_recovery_codes d"
  by (auto simp: insert_totp_def Let_def)

lemma table_congs [simp]:
  "find_user_by_id u (delete_totp uid d) = find_user_by_id u d"
  "db_recovery_codes (delete_totp uid d) = db_recovery_codes d"
  "find_user_by_id u (delete_all_recovery_codes uid d) = find_user_by_id u d"
  "db_recovery_codes (delete_all_recovery_codes uid d) =
     delete_where (\<lambda>r. rk_user_id r = uid) (db_recovery_codes d)"
  "db_totp (delete_all_recovery_codes uid d) = db_totp d"
  by (simp_all add: delete_totp_def delete_all_recovery_codes_def)

lemma setup_totp_keeps:
  assumes "two_factor_inv f" and "fresh_ids env f"
  shows "keeps_status uid f (snd (setup_totp env uid email slug f))"
proof (cases "\<exists>u. find_user_by_id uid (flow_db f) = Some u \<and> \<not> u_two_factor_enabled u")
  case False
  with two_factor_invD [OF assms(1)] show ?thesis
    by (auto simp: setup_totp_def step_not_enabled keeps_status_def split: option.splits)
next
  case True
  then obtain u where found: "find_user_by_id uid (flow_db f) = Some u" "\<not> u_two_factor_enabled u"
    by blast
  obtain codes hashes where g: "generate_and_hash_recovery_codes env = (codes, hashes)"
    by (cases "generate_and_hash_recovery_codes env")
  then have len: "length hashes = recovery_code_count"
    using generated_code_count(1) [of env] by simp
  note inv = two_factor_invD [OF assms(1)]
  note pending = db_status_delete_pending [OF inv(2) found]
  show ?thesis
    using inv fresh_after_delete [OF assms(2,1) _ _ len] found
    by (simp add: setup_totp_def step_not_enabled step_execute step_lift step_insert_totp
        step_insert_recovery step_invalidate g keeps_status_def steady_def changed_def pending
        tables_ok_statements Let_def split: sum.splits)
qed

lemmas step_find_totp = step_query_split [where m = "find_totp_by_user_id uid" for uid]

lemma find_totp_Inr_Some:
  "fst (find_totp_by_user_id uid d) = Inr (Some r) \<Longrightarrow> r \<in> set (db_totp d) \<and> tt_user_id r = uid"
  using find_totp_SomeD [of uid d r d] by (metis find_totp_db prod.collapse)

lemma tables_ok_confirmed:
  assumes ok: "tables_ok d" and user: "find_user_by_id uid d = Some u"
  shows "tables_ok (set_flags now uid True m (snd (verify_totp_enrollment now i uid n d)))"
    (is "tables_ok (set_flags _ _ _ _ ?d)")
proof -
  have totp: "totp_ok ?d" and users: "users_inv ?d"
    using totp_ok_statement [of d "Enroll now i uid n"] ok
    by (simp_all add: tables_ok_def users_inv_def verify_totp_enrollment_def update_totp_def)
  have row: "\<exists>x \<in> set (db_users d). ur_id x = uid"
    using find_user_row [OF user] by blast
  have "\<exists>x \<in> set (db_users (set_flags now uid True m ?d)). ur_id x = tt_user_id r \<and> ur_two_factor_enabled x"
    if r: "r \<in> set (db_totp ?d)" "tt_verified r" for r
  proof (cases "tt_user_id r = uid")
    case True
    obtain x where "x \<in> set (db_users d)" "ur_id x = uid"
      using row by blast
    with True show ?thesis
      by (intro bexI [of _ "touch_user now (apply_set_clauses (two_factor_flags True m) x)"])
        (auto simp: update_users_def set_update_where verify_totp_enrollment_def update_totp_def)
  next
    case False
    with r have "r \<in> set (db_totp d)"
      by (auto simp: verify_totp_enrollment_def update_totp_def set_update_where totp_pending_def
          split: if_splits)
    with ok r obtain x where "x \<in> set (db_users d)" "ur_id x = tt_user_id r" "ur_two_factor_enabled x"
      by (auto simp: tables_ok_def verified_enabled_def)
    with False show ?thesis
      by (intro bexI [of _ x])
        (auto simp: update_users_def set_update_where verify_totp_enrollment_def update_totp_def)
  qed
  with totp users show ?thesis
    by (simp add: tables_ok_def totp_ok_def two_factor_keys_def users_inv_set_flags verified_enabled_def)
qed

lemma find_user_enrollment [simp]:
  "find_user_by_id u (snd (verify_totp_enrollment now i uid n d)) = find_user_by_id u d"
  "users_inv (snd (verify_totp_enrollment now i uid n d)) = users_inv d"
  by (simp_all add: verify_totp_enrollment_def update_totp_def users_inv_def)

lemma enrollment_consumed:
  "fst (verify_totp_enrollment now i uid n d) \<longleftrightarrow> row_count (totp_pending i uid) (db_totp d) = 1"
  by (simp add: verify_totp_enrollment_def)

lemma confirm_work_effect:
  assumes "users_inv (flow_db f)"
  shows "(\<exists>e f'. confirm_work env i uid n f = (Inl e, f') \<and> fl_tx f' = fl_tx f \<and>
        flow_redis f' = flow_redis f \<and> st_redis_up (fl_store f') = st_redis_up (fl_store f)) \<or>
    (\<exists>u. find_user_by_id uid (flow_db f) = Some u \<and> confirm_work env i uid n f =
       (Inr True, with_db (set_flags (fe_now env) uid True (Some TotpMethod)
          (snd (verify_totp_enrollment (fe_now env) i uid n (flow_db f)))) f)) \<or>
    confirm_work env i uid n f =
      (Inr False, with_db (snd (verify_totp_enrollment (fe_now env) i uid n (flow_db f))) f) \<and>
      row_count (totp_pending i uid) (db_totp (flow_db f)) \<noteq> 1"
proof -
  let ?d = "snd (verify_totp_enrollment (fe_now env) i uid n (flow_db f))"
  show ?thesis
  proof (cases "find_user_by_id uid (flow_db f)")
    case None
    then have "find_row (\<lambda>r. ur_id r = uid) (db_users ?d) = None"
      by (simp add: find_user_by_id_def verify_totp_enrollment_def update_totp_def)
    then have "fst (update_user_row (fe_now env) uid (two_factor_flags True (Some TotpMethod)) ?d) =
        Inl (JsError ''User not found'')"
      by (simp add: update_user_row_def no_set_clauses_def two_factor_flags_def)
    then show ?thesis
      by (auto simp: confirm_work_def step_returning step_update_user enrollment_consumed)
  next
    case (Some u)
    from update_flags [of ?d uid u "fe_now env" True "Some TotpMethod"] assms Some
    obtain x where "update_user_row (fe_now env) uid (two_factor_flags True (Some TotpMethod)) ?d =
        (Inr x, set_flags (fe_now env) uid True (Some TotpMethod) ?d)" by auto
    with Some show ?thesis
      by (auto simp: confirm_work_def step_returning step_update_user enrollment_consumed)
  qed
qed

lemma enrollment_idle:
  assumes "totp_ok d" and "row_count (totp_pending i uid) (db_totp d) \<noteq> 1"
  shows "snd (verify_totp_enrollment now i uid n d) = d"
proof -
  have "row_count (totp_pending i uid) (db_totp d) \<le> 1"
    using row_count_unique_le [of tt_id "db_totp d" i "\<lambda>r. tt_user_id r = uid \<and> \<not> tt_verified r"]
      assms(1) by (simp add: totp_ok_def two_factor_keys_def totp_pending_def [abs_def])
  with assms(2) have "row_count (totp_pending i uid) (db_totp d) = 0"
    by linarith
  then show ?thesis
    by (simp add: verify_totp_enrollment_def update_totp_def on_totp_def row_count_zero_iff
        update_where_none)
qed

lemma confirm_transaction:
  assumes "two_factor_inv f"
  shows "(\<exists>e f'. run_database_transaction (confirm_work env i uid n) f = (Inl e, f') \<and> steady f f') \<or>
    (\<exists>u. find_user_by_id uid (flow_db f) = Some u \<and>
       run_database_transaction (confirm_work env i uid n) f =
         (Inr True, with_db (set_flags (fe_now env) uid True (Some TotpMethod)
            (snd (verify_totp_enrollment (fe_now env) i uid n (flow_db f)))) f)) \<or>
    run_database_transaction (confirm_work env i uid n) f = (Inr False, f)"
proof -
  have out: "outside_tx f" and users: "users_inv (flow_db f)" and totp: "totp_ok (flow_db f)"
    using assms by (simp_all add: two_factor_inv_def serving_def tables_ok_def)
  let ?f = "f\<lparr>fl_tx := Some []\<rparr>"
  have close: "(with_db d ?f)\<lparr>fl_tx := None, fl_store := run_effects (nullish (fl_tx (with_db d ?f)) [])
      (fl_store (with_db d ?f))\<rparr> = with_db d f" for d
    using out by (cases f) (simp add: with_db_def)
  have "users_inv (flow_db ?f)"
    using users by simp
  from confirm_work_effect [OF this, of env i uid n] show ?thesis
  proof (elim disjE exE conjE)
    fix e f'
    assume w: "confirm_work env i uid n ?f = (Inl e, f')" "flow_redis f' = flow_redis ?f"
      "st_redis_up (fl_store f') = st_redis_up (fl_store ?f)"
    then show ?thesis
      using run_database_transaction_Inl [where work = "confirm_work env i uid n", OF out w(1)] assms
      by (auto simp: steady_def serving_def two_factor_inv_def)
  next
    fix u
    assume "find_user_by_id uid (flow_db ?f) = Some u" and w: "confirm_work env i uid n ?f =
      (Inr True, with_db (set_flags (fe_now env) uid True (Some TotpMethod)
         (snd (verify_totp_enrollment (fe_now env) i uid n (flow_db ?f)))) ?f)"
    then show ?thesis
      using run_database_transaction_Inr [where work = "confirm_work env i uid n", OF out w]
      unfolding close by simp
  next
    assume w: "confirm_work env i uid n ?f =
        (Inr False, with_db (snd (verify_totp_enrollment (fe_now env) i uid n (flow_db ?f))) ?f)"
      and "row_count (totp_pending i uid) (db_totp (flow_db ?f)) \<noteq> 1"
    then show ?thesis
      using run_database_transaction_Inr [where work = "confirm_work env i uid n", OF out w]
        enrollment_idle [OF totp, of i uid] unfolding close by simp
  qed
qed

lemma steady_self [simp]: "two_factor_inv f \<Longrightarrow> steady f f"
  using two_factor_invD [of f] by simp

lemma keeps_self [simp]: "two_factor_inv f \<Longrightarrow> keeps_status uid f f"
  by (simp add: keeps_status_def)

lemma confirm_keeps:
  assumes inv: "two_factor_inv f"
  shows "keeps_status uid f (snd (confirm_totp_setup env uid code f))"
proof -
  have finish: "keeps_status uid f (snd (andthen (run_database_transaction (confirm_work env i uid n))
      (\<lambda>confirmed. if \<not> confirmed then return_op False
        else andthen (invalidate_two_factor_cache uid) (\<lambda>_.
          andthen (query (select (find_user_by_id uid))) (\<lambda>u.
          andthen (write_audit_log (two_factor_event ''2fa.setup.totp''
            (map_option u_organization_id u) uid [(''method'', JStr ''totp'')])) (\<lambda>_.
          return_op True)))) f))" for i n
    using confirm_transaction [OF inv, of env i uid n]
  proof (elim disjE exE conjE)
    fix u
    assume u: "find_user_by_id uid (flow_db f) = Some u"
      and r: "run_database_transaction (confirm_work env i uid n) f =
        (Inr True, with_db (set_flags (fe_now env) uid True (Some TotpMethod)
          (snd (verify_totp_enrollment (fe_now env) i uid n (flow_db f)))) f)"
    show ?thesis
      using two_factor_invD [OF inv] tables_ok_confirmed [OF two_factor_invD(2) [OF inv] u]
      by (simp add: andthen_Inr [where m = "run_database_transaction (confirm_work env i uid n)" and s = f, OF r]
          step_invalidate step_select step_event
          keeps_status_def changed_def)
  qed (use inv in \<open>auto simp: andthen_def keeps_status_def\<close>)
  show ?thesis
    using inv finish
    by (auto simp: confirm_totp_setup_def step_find_totp step_lift split: sum.splits option.splits)
qed

subsection \<open>Codes\<close>

lemma db_status_otp_statements [simp]:
  "db_status u (snd (insert_otp_code now i uid h t d)) = db_status u d"
  "db_status u (mark_otp_code_used now i d) = db_status u d"
  "db_status u (snd (delete_expired_otp_codes now uid d)) = db_status u d"
  by (auto simp: insert_otp_code_def mark_otp_code_used_def delete_expired_otp_codes_def Let_def)

lemma send_otp_keeps:
  assumes "two_factor_inv f"
  shows "keeps_status uid f (snd (send_otp_code env uid email org f))"
  using two_factor_invD [OF assms]
  by (auto simp: send_otp_code_def limit_otp_codes_def andthen_assoc step_select step_returning
      step_unless step_insert_otp step_event keeps_status_def steady_def tables_ok_statements Let_def
      split: sum.splits if_splits)

lemma verify_otp_keeps:
  assumes "two_factor_inv f"
  shows "keeps_status uid f (snd (verify_otp env uid code f))"
  using two_factor_invD [OF assms]
  by (auto simp: verify_otp_def step_select step_execute step_returning keeps_status_def steady_def
      tables_ok_statements split: option.splits)

lemma verify_totp_keeps:
  assumes "two_factor_inv f"
  shows "keeps_status uid f (snd (verify_totp env uid code f))"
  using two_factor_invD [OF assms]
  by (auto simp: verify_totp_def step_find_totp step_lift keeps_status_def steady_def
      tables_ok_statements split: sum.splits option.splits)

text \<open>A recovery code found for a user is that user's.\<close>

lemma find_unused_row:
  "find_row P (find_unused_recovery_codes uid d) = Some r \<Longrightarrow>
   r \<in> set (db_recovery_codes d) \<and> rk_user_id r = uid \<and> rk_used_at r = None \<and> P r"
  by (drule find_row_SomeD) (simp add: find_unused_recovery_codes_def recovery_unused_def)

lemma db_status_mark_recovery:
  assumes "unique_on rk_id (db_recovery_codes d)" and "r \<in> set (db_recovery_codes d)"
    and "u \<noteq> rk_user_id r"
  shows "db_status u (mark_recovery_code_used now (rk_id r) d) = db_status u d"
  unfolding mark_recovery_code_used_def using assms
  by (intro db_status_recovery row_count_update_other)
    (auto simp: recovery_unused_def dest: unique_on_same)

lemma verify_recovery_keeps:
  assumes "two_factor_inv f"
  shows "keeps_status uid f (snd (verify_recovery_code env uid code f))"
proof -
  note inv = two_factor_invD [OF assms]
  have "changed uid f (snd (andthen (query (execute (mark_recovery_code_used (fe_now env) (rk_id r))))
      (\<lambda>_. andthen (invalidate_two_factor_cache uid) (\<lambda>_.
        andthen (write_audit_log (two_factor_event ''2fa.recovery.used'' None uid fs)) (\<lambda>_.
        return_op True))) f))"
    if "r \<in> set (db_recovery_codes (flow_db f))" "rk_user_id r = uid" for r fs
    using inv that db_status_mark_recovery [OF inv(5) that(1)]
    by (simp add: step_execute step_invalidate step_event changed_def tables_ok_statements)
  then show ?thesis
    using assms
    by (auto simp: verify_recovery_code_def step_select keeps_status_def dest!: find_unused_row
        split: option.splits)
qed

subsection \<open>Management\<close>

lemma disable_keeps:
  assumes "two_factor_inv f"
  shows "keeps_status uid f (snd (disable_two_factor env uid f))"
proof (cases "\<exists>u. find_user_by_id uid (flow_db f) = Some u \<and> u_two_factor_enabled u")
  case False
  with assms show ?thesis
    by (auto simp: disable_two_factor_def step_enabled split: option.splits)
next
  case True
  then obtain u where found: "find_user_by_id uid (flow_db f) = Some u" "u_two_factor_enabled u"
    by blast
  note inv = two_factor_invD [OF assms]
  let ?d = "snd (delete_expired_otp_codes (fe_now env) uid
    (delete_all_recovery_codes uid (delete_totp uid (flow_db f))))"
  have tables: "tables_ok ?d"
    using inv(2) by (simp add: tables_ok_statements)
  have user: "find_user_by_id uid ?d = Some u"
    using found(1) by (simp add: delete_expired_otp_codes_def)
  have none: "\<forall>r \<in> set (db_totp ?d). tt_user_id r \<noteq> uid"
    by (simp add: delete_expired_otp_codes_def delete_totp_def)
  from update_flags [of ?d uid u "fe_now env" False None] tables user
  obtain x where "update_user_row (fe_now env) uid (two_factor_flags False None) ?d =
      (Inr x, set_flags (fe_now env) uid False None ?d)" by (auto simp: tables_ok_def)
  with inv tables_ok_set_flags [OF tables, of False uid] none show ?thesis
    by (simp add: disable_two_factor_def step_enabled found step_execute step_returning
        step_update_user step_invalidate write_audit_outside [OF _ normalize_two_factor_event(1)]
        keeps_status_def changed_def)
qed

lemma regenerate_keeps:
  assumes "two_factor_inv f" and "fresh_ids env f"
  shows "keeps_status uid f (snd (regenerate_recovery_codes env uid f))"
proof (cases "\<exists>u. find_user_by_id uid (flow_db f) = Some u \<and> u_two_factor_enabled u")
  case False
  with assms show ?thesis
    by (auto simp: regenerate_recovery_codes_def step_enabled split: option.splits)
next
  case True
  then obtain u where found: "find_user_by_id uid (flow_db f) = Some u" "u_two_factor_enabled u"
    by blast
  obtain codes hashes where g: "generate_and_hash_recovery_codes env = (codes, hashes)"
    by (cases "generate_and_hash_recovery_codes env")
  then have len: "length hashes = recovery_code_count"
    using generated_code_count(1) [of env] by simp
  note inv = two_factor_invD [OF assms(1)]
  show ?thesis
    using inv fresh_after_delete [OF assms(2,1) _ _ len] found
    by (simp add: regenerate_recovery_codes_def step_enabled step_execute step_insert_recovery
        step_invalidate g andthen_def [of "write_audit_log _"] keeps_status_def changed_def
        write_audit_outside [OF _ normalize_two_factor_event(2)] tables_ok_statements)
qed

lemma status_keeps:
  assumes inv: "two_factor_inv f"
  shows "two_factor_inv (snd (get_two_factor_status env uid f))"
proof -
  have "two_factor_inv (snd (cache_two_factor_status (fe_now env) uid s f))"
    if "db_status uid (flow_db f) = Some s" for s
    using inv that
    by (auto simp: cache_two_factor_status_def after_commit_outside serving_def two_factor_inv_def
        status_cache_ok_def redis_set_ex_def update_conv split: if_splits)
  moreover have "db_status uid (flow_db f) = Some (status_of uid u totp
      (count_unused_recovery_codes uid (flow_db f)))"
    if "find_user_by_id uid (flow_db f) = Some u"
      and "fst (find_totp_by_user_id uid (flow_db f)) = Inr totp" for u totp
    using that
    by (auto simp: db_status_def find_user_by_id_def find_totp_by_user_id_def
        map_row_to_user_totp_def split: option.splits if_splits)
  ultimately show ?thesis
    using inv
    by (auto simp: get_two_factor_status_def step_find_totp step_select andthen_def
        [of "cache_two_factor_status _ _ _"] split: option.splits sum.splits prod.splits)
qed

subsection \<open>Runs\<close>

datatype two_factor_call =
    SetupEmail two_factor_env string string
  | SetupTotp two_factor_env string string string
  | ConfirmTotp two_factor_env string string
  | SendOtp two_factor_env string string string
  | VerifyOtp two_factor_env string string
  | VerifyTotp two_factor_env string string
  | VerifyRecovery two_factor_env string string
  | GetStatus two_factor_env string
  | Disable two_factor_env string
  | Regenerate two_factor_env string

fun run_two_factor_call :: "two_factor_call \<Rightarrow> flow \<Rightarrow> flow" where
  "run_two_factor_call (SetupEmail env uid org) f = snd (setup_email_otp env uid org f)"
| "run_two_factor_call (SetupTotp env uid email slug) f = snd (setup_totp env uid email slug f)"
| "run_two_factor_call (ConfirmTotp env uid code) f = snd (confirm_totp_setup env uid code f)"
| "run_two_factor_call (SendOtp env uid email org) f = snd (send_otp_code env uid email org f)"
| "run_two_factor_call (VerifyOtp env uid code) f = snd (verify_otp env uid code f)"
| "run_two_factor_call (VerifyTotp env uid code) f = snd (verify_totp env uid code f)"
| "run_two_factor_call (VerifyRecovery env uid code) f = snd (verify_recovery_code env uid code f)"
| "run_two_factor_call (GetStatus env uid) f = snd (get_two_factor_status env uid f)"
| "run_two_factor_call (Disable env uid) f = snd (disable_two_factor env uid f)"
| "run_two_factor_call (Regenerate env uid) f = snd (regenerate_recovery_codes env uid f)"

fun draws_fresh :: "two_factor_call \<Rightarrow> flow \<Rightarrow> bool" where
  "draws_fresh (SetupTotp env uid email slug) f = fresh_ids env f"
| "draws_fresh (Regenerate env uid) f = fresh_ids env f"
| "draws_fresh _ f = True"

text \<open>States the service reaches from \<open>f0\<close>, one call after another.\<close>

inductive two_factor_reach :: "flow \<Rightarrow> flow \<Rightarrow> bool" for f0 where
  start: "two_factor_reach f0 f0"
| call: "two_factor_reach f0 f \<Longrightarrow> draws_fresh c f \<Longrightarrow> two_factor_reach f0 (run_two_factor_call c f)"

lemma keeps_status_inv: "two_factor_inv f \<Longrightarrow> keeps_status uid f f' \<Longrightarrow> two_factor_inv f'"
  by (auto simp: keeps_status_def intro: steady_inv changed_inv)

lemma call_keeps_inv:
  assumes "two_factor_inv f" and "draws_fresh c f"
  shows "two_factor_inv (run_two_factor_call c f)"
  using assms
  by (cases c)
    (auto intro: keeps_status_inv setup_email_keeps setup_totp_keeps confirm_keeps send_otp_keeps
      verify_otp_keeps verify_totp_keeps verify_recovery_keeps disable_keeps regenerate_keeps
      status_keeps)

lemma reach_inv: "two_factor_reach f0 f \<Longrightarrow> two_factor_inv f0 \<Longrightarrow> two_factor_inv f"
  by (induction rule: two_factor_reach.induct) (auto intro: call_keeps_inv)

text \<open>Under the invariant the service answers what the tables say, cached or not.\<close>

lemma status_answer:
  assumes "two_factor_inv f" and "get_two_factor_status env uid f = (Inr s, f')"
  shows "s = (case db_status uid (flow_db f) of None \<Rightarrow> unknown_user_status | Some x \<Rightarrow> x)"
proof (cases "get_cached_two_factor_status (fe_now env) uid (fl_store f)")
  case None
  with assms(2) show ?thesis
    by (auto simp: get_two_factor_status_def step_find_totp step_select andthen_def
        [of "cache_two_factor_status _ _ _"] db_status_def find_user_by_id_def
        find_totp_by_user_id_def map_row_to_user_totp_def
        split: option.splits sum.splits prod.splits if_splits)
next
  case (Some x)
  then obtain t where "map_of (flow_redis f) (two_factor_status_key uid) = Some (JsonTwoFactor x, t)"
    by (auto simp: get_cached_two_factor_status_def redis_live_def deserialize_status_def
        split: if_splits option.splits redis_value.splits prod.splits)
  with assms(1) have "db_status uid (flow_db f) = Some x"
    by (auto simp: two_factor_inv_def status_cache_ok_def)
  with Some assms(2) show ?thesis
    by (simp add: get_two_factor_status_def)
qed

end
