(* ===== verification/TwoFactorTheorems.thy ===== *)
theory TwoFactorTheorems
  imports TwoFactorOperations
begin

text \<open>
  The properties of the second factor, with a sample organization of one user on which each is
  evaluated.
\<close>

subsection \<open>Sample\<close>

definition sample_ids :: "string list" where
  "sample_ids = [''a'', ''b'', ''c'', ''d'', ''e'', ''f'', ''g'', ''h'', ''i'', ''j'']"

definition sample_two_factor_env :: "time \<Rightarrow> two_factor_env" where
  "sample_two_factor_env now = \<lparr>fe_now = now, fe_new_id = nth sample_ids,
     fe_random_int = 42, fe_random_bytes = (\<lambda>i k. i), fe_sha256 = (\<lambda>s. ''sha:'' @ s),
     fe_argon_hash = (\<lambda>i s. CHR ''$'' # s), fe_argon_verify = (\<lambda>h s. Some (tl h = s)),
     fe_totp_secret = ''SECRET'', fe_encrypt = (\<lambda>s k. (s, ''iv'', ''tag'')),
     fe_decrypt = (\<lambda>c iv tag k. Inr c),
     fe_totp_validate = (\<lambda>s token t. if token = ''123456'' then Some 0 else None),
     fe_totp_uri = (\<lambda>s email issuer. issuer @ email), fe_qr_code = id, fe_config_key = None\<rparr>"

definition sample_member :: user_row where
  "sample_member = \<lparr>ur_id = ''u'', ur_organization_id = ''org'', ur_email = ''a@b.c'',
     ur_email_verified = True, ur_password_hash = None, ur_password_changed_at = None,
     ur_profile = (\<lambda>_. None), ur_phone_number_verified = False, ur_two_factor_enabled = False,
     ur_two_factor_method = None, ur_status = Active, ur_locked_at = None, ur_locked_reason = None,
     ur_last_login_at = None, ur_login_count = 0, ur_failed_login_count = 0,
     ur_last_failed_login_at = None, ur_created_at = 0, ur_updated_at = 0\<rparr>"

definition sample_two_factor_flow :: flow where
  "sample_two_factor_flow =
     idle_flow \<lparr>st_db = empty_db\<lparr>db_users := [sample_member]\<rparr>, st_redis = [], st_redis_up = True\<rparr>"

lemma sample_two_factor_inv: "two_factor_inv sample_two_factor_flow"
  by (simp add: sample_two_factor_flow_def two_factor_inv_def idle_flow_def serving_def tables_ok_def
      totp_ok_def two_factor_keys_def users_inv_def unique_on_def verified_enabled_def
      lock_consistent_def sample_member_def empty_db_def status_cache_ok_def)

lemma sample_ids_inject: "inj_on (nth sample_ids) {0 ..< 10}"
  using inj_on_nth [of sample_ids "{0 ..< 10}"] by (simp add: sample_ids_def)

lemma sample_fresh: "fresh_ids (sample_two_factor_env now) sample_two_factor_flow"
  using sample_ids_inject
  by (simp add: fresh_ids_def sample_two_factor_env_def recovery_code_count_def
      sample_two_factor_flow_def idle_flow_def empty_db_def)

subsection \<open>Each time step once\<close>

definition sample_totp_data :: insert_totp_data where
  "sample_totp_data = \<lparr>it_user_id = ''u'', it_encrypted_secret = ''SECRET'', it_encryption_iv = ''iv'',
     it_encryption_tag = ''tag'', it_algorithm = None, it_digits = None, it_period = None\<rparr>"

definition sample_pending_db :: db where
  "sample_pending_db = snd (insert_totp 0 ''t'' sample_totp_data (empty_db\<lparr>db_users := [sample_member]\<rparr>))"

lemma sample_pending_ok: "totp_ok sample_pending_db"
  by (simp add: sample_pending_db_def insert_totp_def sample_totp_data_def Let_def
      inserted_totp_row_def totp_parameters_ok_def empty_db_def sample_member_def totp_ok_def
      two_factor_keys_def unique_on_def on_totp_def)

text \<open>
  Property C18: a code of an authenticator cannot be replayed. However the statements of concurrent
  requests interleave (enrolments, verifications, resets), at most one of them accepts time step
  \<open>n\<close> of configuration \<open>i\<close>; and \<open>verifyTotp\<close> answers true only when its own statement is the one
  that accepts the step its code matched.
\<close>

theorem totp_step_accepted_once:
  assumes "totp_ok d" and "\<forall>c \<in> set cs. \<not> creates_totp c (i, n)"
  shows "uses_won run_totp_statement accepts_step (i, n) cs d \<le> 1 \<and>
    (verify_totp env uid code f = (Inr True, f') \<longrightarrow>
      (\<exists>r secret m. r \<in> set (db_totp (flow_db f)) \<and> stored_secret env r = Inr secret \<and>
        verify_totp_code env code secret r = Inr (Some m) \<and>
        accepts_step (ConsumeStep (fe_now env) (tt_id r) uid m) (tt_id r, m) (flow_db f) \<and>
        f' = with_db (run_totp_statement (ConsumeStep (fe_now env) (tt_id r) uid m) (flow_db f)) f))"
proof
  show "uses_won run_totp_statement accepts_step (i, n) cs d \<le> 1"
    by (rule totp.at_most_one_win [OF assms])
  show "(verify_totp env uid code f = (Inr True, f') \<longrightarrow>
      (\<exists>r secret m. r \<in> set (db_totp (flow_db f)) \<and> stored_secret env r = Inr secret \<and>
        verify_totp_code env code secret r = Inr (Some m) \<and>
        accepts_step (ConsumeStep (fe_now env) (tt_id r) uid m) (tt_id r, m) (flow_db f) \<and>
        f' = with_db (run_totp_statement (ConsumeStep (fe_now env) (tt_id r) uid m) (flow_db f)) f))"
    by (auto simp: verify_totp_def step_find_totp step_lift dest!: find_totp_Inr_Some
        split: sum.splits option.splits if_splits)
qed

text \<open>Enrolment at step 5, the same code twice, then the next step.\<close>

definition sample_totp_statements :: "totp_statement list" where
  "sample_totp_statements = [Enroll 150000 ''t'' ''u'' 5, ConsumeStep 150001 ''t'' ''u'' 5,
     ConsumeStep 180000 ''t'' ''u'' 6, ConsumeStep 180001 ''t'' ''u'' 6]"

lemma totp_step_accepted_once_witness:
  "uses_won run_totp_statement accepts_step (''t'', 6) sample_totp_statements sample_pending_db = 1 \<and>
   uses_won run_totp_statement accepts_step (''t'', 6) sample_totp_statements sample_pending_db \<le> 1"
proof -
  have "uses_won run_totp_statement accepts_step (''t'', 6) sample_totp_statements sample_pending_db = 1"
    by code_simp
  moreover have "\<forall>c \<in> set sample_totp_statements. \<not> creates_totp c (''t'', 6)"
    by (simp add: sample_totp_statements_def)
  ultimately show ?thesis
    using totp_step_accepted_once [OF sample_pending_ok, of sample_totp_statements "''t''" 6]
    by blast
qed

subsection \<open>The status is current\<close>


text \<open>A member with a confirmed authenticator and two recovery codes; the status is cached, then the
  second factor is switched off.\<close>

definition sample_totp_row :: totp_row where
  "sample_totp_row = \<lparr>tt_id = ''t'', tt_user_id = ''u'', tt_encrypted_secret = ''SECRET'',
     tt_encryption_iv = ''iv'', tt_encryption_tag = ''tag'', tt_algorithm = ''SHA1'', tt_digits = 6,
     tt_period = 30, tt_verified = True, tt_last_accepted_time_step = Some 5, tt_created_at = 0,
     tt_updated_at = 0\<rparr>"

definition sample_recovery_row :: "string \<Rightarrow> string \<Rightarrow> recovery_code_row" where
  "sample_recovery_row i h = \<lparr>rk_id = i, rk_user_id = ''u'', rk_code_hash = h, rk_used_at = None,
     rk_created_at = 0\<rparr>"

definition sample_totp_flow :: flow where
  "sample_totp_flow = idle_flow \<lparr>
     st_db = empty_db\<lparr>
       db_users := [sample_member\<lparr>ur_two_factor_enabled := True, ur_two_factor_method := Some ''totp''\<rparr>],
       db_two_factor := \<lparr>tf_totp = [sample_totp_row], tf_otp_codes = [],
         tf_recovery_codes = [sample_recovery_row ''a'' ''$A'', sample_recovery_row ''b'' ''$B'']\<rparr>\<rparr>,
     st_redis = [], st_redis_up = True\<rparr>"

lemma sample_totp_inv: "two_factor_inv sample_totp_flow"
  by (simp add: sample_totp_flow_def two_factor_inv_def idle_flow_def serving_def tables_ok_def
      totp_ok_def two_factor_keys_def users_inv_def unique_on_def verified_enabled_def
      lock_consistent_def sample_member_def empty_db_def status_cache_ok_def sample_totp_row_def
      sample_recovery_row_def)

definition sample_cached_flow :: flow where
  "sample_cached_flow =
     run_two_factor_call (GetStatus (sample_two_factor_env 1000) ''u'') sample_totp_flow"

definition sample_disabled_flow :: flow where
  "sample_disabled_flow =
     run_two_factor_call (Disable (sample_two_factor_env 2000) ''u'') sample_cached_flow"


lemma sample_cached_answer:
  "get_cached_two_factor_status 2000 ''u'' (fl_store sample_cached_flow) =
     Some \<lparr>ts_enabled = True, ts_method = Some TotpMethod, ts_totp_configured = True,
       ts_recovery_codes_remaining = 2\<rparr>"
  by code_simp



subsection \<open>Switching off\<close>

lemma forget_with_db: "forget_status uid (with_db d f) = with_db d (forget_status uid f)"
  by (simp add: forget_status_def with_db_def)

lemma disable_success:
  assumes inv: "two_factor_inv f" and r: "disable_two_factor env uid f = (Inr x, f')"
  shows "two_factor_inv f'" and "db_status uid (flow_db f') = Some unknown_user_status"
    and "\<forall>t \<in> set (db_totp (flow_db f')). tt_user_id t \<noteq> uid"
    and "\<forall>c \<in> set (db_recovery_codes (flow_db f')). rk_user_id c \<noteq> uid"
    and "map_of (flow_redis f') (two_factor_status_key uid) = None"
proof -
  show "two_factor_inv f'"
    using keeps_status_inv [OF inv disable_keeps [OF inv, of uid env]] r by simp
  obtain u where found: "find_user_by_id uid (flow_db f) = Some u" "u_two_factor_enabled u"
    using r by (auto simp: disable_two_factor_def step_enabled split: option.splits if_splits)
  let ?d = "snd (delete_expired_otp_codes (fe_now env) uid
    (delete_all_recovery_codes uid (delete_totp uid (flow_db f))))"
  note facts = two_factor_invD [OF inv]
  have "users_inv ?d" "find_user_by_id uid ?d = Some u"
    using facts(3) found(1) by (simp_all add: users_inv_def delete_expired_otp_codes_def
        delete_all_recovery_codes_def delete_totp_def)
  from update_flags [OF this, of "fe_now env" False None] obtain y where
    upd: "update_user_row (fe_now env) uid (two_factor_flags False None) ?d =
      (Inr y, set_flags (fe_now env) uid False None ?d)" by blast
  with r facts found obtain row where
    f': "f' = with_db (insert_audit_row row (set_flags (fe_now env) uid False None ?d)) (forget_status uid f)"
    by (auto simp: disable_two_factor_def step_enabled step_execute step_returning step_update_user
        step_invalidate write_audit_outside [OF _ normalize_two_factor_event(1)] forget_with_db)
  show "map_of (flow_redis f') (two_factor_status_key uid) = None"
    by (simp add: f' redis_del_def delete_conv)
  show totp: "\<forall>t \<in> set (db_totp (flow_db f')). tt_user_id t \<noteq> uid"
    by (simp add: f' insert_audit_row_def delete_expired_otp_codes_def delete_totp_def)
  show codes: "\<forall>c \<in> set (db_recovery_codes (flow_db f')). rk_user_id c \<noteq> uid"
    by (simp add: f' insert_audit_row_def delete_expired_otp_codes_def delete_all_recovery_codes_def)
  have "find_row (\<lambda>t. tt_user_id t = uid) (db_totp (flow_db f')) = None"
    using totp by (simp add: find_row_None_iff)
  moreover have "count_unused_recovery_codes uid (flow_db f') = 0"
    using codes by (simp add: count_unused_recovery_codes_def row_count_zero_iff recovery_unused_def)
  moreover obtain z where z: "find_row (\<lambda>r. ur_id r = uid) (db_users (flow_db f)) = Some z"
    using find_user_row [OF found(1)] by blast
  moreover have "find_row (\<lambda>r. ur_id r = uid) (db_users (flow_db f')) =
      Some (touch_user (fe_now env) (apply_set_clauses (two_factor_flags False None) z))"
    using z by (simp add: f' insert_audit_row_def update_users_def delete_expired_otp_codes_def
        delete_all_recovery_codes_def delete_totp_def find_row_update_same')
  ultimately show "db_status uid (flow_db f') = Some unknown_user_status"
    by (simp add: db_status_def status_of_def unknown_user_status_def method_of_def
        map_row_to_user_def touch_user_def apply_set_clauses_def two_factor_flags_def no_update_def)
qed

text \<open>
  Property C20: after \<open>disableTwoFactor\<close> nothing of the second factor is left. The status reads
  not enabled, no method, no authenticator and no codes, whatever was cached before; an
  authenticator code is refused as not configured and a recovery code as exhausted.
\<close>

theorem disabled_factor_is_gone:
  assumes "two_factor_inv f" and "disable_two_factor env uid f = (Inr x, f')"
  shows "fst (get_two_factor_status env' uid f') = Inr unknown_user_status \<and>
    verify_totp env' uid code f' = (Inl (TotpNotConfiguredError uid), f') \<and>
    verify_recovery_code env' uid code f' = (Inl (RecoveryCodesExhaustedError uid), f')"
proof (intro conjI)
  note gone = disable_success [OF assms]
  have none: "find_row (\<lambda>t. tt_user_id t = uid) (db_totp (flow_db f')) = None"
    using gone(3) by (simp add: find_row_None_iff)
  then show "verify_totp env' uid code f' = (Inl (TotpNotConfiguredError uid), f')"
    by (simp add: verify_totp_def step_find_totp find_totp_by_user_id_def)
  have "find_unused_recovery_codes uid (flow_db f') = []"
    using gone(4) by (simp add: find_unused_recovery_codes_def recovery_unused_def filter_empty_conv)
  then show "verify_recovery_code env' uid code f' = (Inl (RecoveryCodesExhaustedError uid), f')"
    by (simp add: verify_recovery_code_def step_select)
  have "get_cached_two_factor_status (fe_now env') uid (fl_store f') = None"
    using gone(5) by (simp add: get_cached_two_factor_status_def redis_live_def)
  moreover obtain u where "find_user_by_id uid (flow_db f') = Some u"
    using gone(2) by (auto simp: db_status_def find_user_by_id_def)
  ultimately have "\<exists>s t. get_two_factor_status env' uid f' = (Inr s, t)"
    using none two_factor_invD(1) [OF gone(1)]
    by (simp add: get_two_factor_status_def step_find_totp find_totp_by_user_id_def step_select
        andthen_def cache_two_factor_status_def after_commit_outside serving_def)
  then obtain s t where r: "get_two_factor_status env' uid f' = (Inr s, t)" by blast
  with status_answer [OF gone(1) r] gone(2)
  show "fst (get_two_factor_status env' uid f') = Inr unknown_user_status"
    by simp
qed

lemma disabled_factor_is_gone_witness:
  "fst (get_two_factor_status (sample_two_factor_env 3000) ''u'' sample_disabled_flow) =
     Inr unknown_user_status \<and>
   verify_totp (sample_two_factor_env 3000) ''u'' ''123456'' sample_disabled_flow =
     (Inl (TotpNotConfiguredError ''u''), sample_disabled_flow) \<and>
   verify_recovery_code (sample_two_factor_env 3000) ''u'' ''123456'' sample_disabled_flow =
     (Inl (RecoveryCodesExhaustedError ''u''), sample_disabled_flow)"
proof -
  have "fst (disable_two_factor (sample_two_factor_env 2000) ''u'' sample_cached_flow) = Inr ()"
    by code_simp
  then have "disable_two_factor (sample_two_factor_env 2000) ''u'' sample_cached_flow =
      (Inr (), sample_disabled_flow)"
    by (simp add: sample_disabled_flow_def prod_eq_iff)
  moreover have "two_factor_inv sample_cached_flow"
    unfolding sample_cached_flow_def by (rule call_keeps_inv [OF sample_totp_inv]) simp
  ultimately show ?thesis
    by (rule disabled_factor_is_gone [rotated])
qed

subsection \<open>Recovery codes\<close>

lemma setup_email_success:
  assumes inv: "two_factor_inv f" and r: "setup_email_otp env uid org f = (Inr res, f')"
  shows "tr_recovery_codes res = fst (generate_and_hash_recovery_codes env)"
    and "db_recovery_codes (flow_db f') = db_recovery_codes (flow_db f) @
      new_recovery_rows (fe_now env) (fe_new_id env) uid (snd (generate_and_hash_recovery_codes env))"
    and "two_factor_inv f'"
proof -
  obtain codes hashes where g: "generate_and_hash_recovery_codes env = (codes, hashes)"
    by (cases "generate_and_hash_recovery_codes env")
  then have "hashes \<noteq> []"
    using generated_code_count(1) [of env] by (auto simp: recovery_code_count_def)
  let ?ins = "insert_recovery_codes (fe_now env) (fe_new_id env) uid hashes (flow_db f)"
  have found: "\<exists>u. find_user_by_id uid (flow_db f) = Some u \<and> \<not> u_two_factor_enabled u"
    and ok: "\<exists>x. fst ?ins = Inr x"
    using r by (auto simp: setup_email_otp_def step_not_enabled g step_insert_recovery
        split: option.splits if_splits sum.splits)
  then have ins: "db_recovery_codes (snd ?ins) = db_recovery_codes (flow_db f) @
      new_recovery_rows (fe_now env) (fe_new_id env) uid hashes"
    using \<open>hashes \<noteq> []\<close> by (auto simp: insert_recovery_codes_def Let_def split: if_splits)
  have "users_inv (snd ?ins)"
    using tables_ok_statements(5) [OF two_factor_invD(2) [OF inv]] by (simp add: tables_ok_def)
  from update_flags [OF this, of uid _ "fe_now env" True "Some EmailMethod"] found
  obtain y where "update_user_row (fe_now env) uid (two_factor_flags True (Some EmailMethod))
      (snd ?ins) = (Inr y, set_flags (fe_now env) uid True (Some EmailMethod) (snd ?ins))"
    by auto
  with r found ok two_factor_invD [OF inv] obtain row where
    "f' = with_db (insert_audit_row row (set_flags (fe_now env) uid True (Some EmailMethod) (snd ?ins)))
       (forget_status uid f)" and res: "tr_recovery_codes res = codes"
    by (auto simp: setup_email_otp_def step_not_enabled g step_insert_recovery step_update_user
        step_invalidate step_event forget_with_db)
  with ins show "db_recovery_codes (flow_db f') = db_recovery_codes (flow_db f) @
      new_recovery_rows (fe_now env) (fe_new_id env) uid (snd (generate_and_hash_recovery_codes env))"
    by (simp add: g insert_audit_row_def)
  show "tr_recovery_codes res = fst (generate_and_hash_recovery_codes env)"
    by (simp add: g res)
  show "two_factor_inv f'"
    using keeps_status_inv [OF inv setup_email_keeps [OF inv, of uid env org]] r by simp
qed

text \<open>Marking one unused code leaves one code fewer.\<close>

lemma row_count_mark_used:
  assumes "unique_on rk_id t" and "r \<in> set t" and "recovery_unused uid r"
  shows "Suc (row_count (recovery_unused uid)
      (update_where (\<lambda>x. rk_id x = rk_id r) (\<lambda>x. x\<lparr>rk_used_at := Some now\<rparr>) t)) =
    row_count (recovery_unused uid) t"
  using assms
proof (induction t)
  case (Cons x t)
  show ?case
  proof (cases "rk_id x = rk_id r")
    case True
    with Cons.prems have "x = r" and others: "\<forall>y \<in> set t. rk_id y \<noteq> rk_id r"
      by (auto simp: unique_on_def image_iff)
    with Cons.prems(3) show ?thesis
      by (simp add: update_where_none [OF others] recovery_unused_def)
  next
    case False
    with Cons show ?thesis
      by (auto simp: unique_on_def)
  qed
qed simp

lemma new_row_of_code:
  assumes "c \<in> set (fst (generate_and_hash_recovery_codes env))"
  shows "\<exists>i. \<exists>x \<in> set (new_recovery_rows now ids uid (snd (generate_and_hash_recovery_codes env))).
    recovery_unused uid x \<and> rk_code_hash x = fe_argon_hash env i (normalize_code c)"
proof -
  obtain i where i: "i < recovery_code_count" "c = fst (generate_and_hash_recovery_codes env) ! i"
    using assms by (metis in_set_conv_nth generated_code_count(2))
  let ?hs = "snd (generate_and_hash_recovery_codes env)"
  have h: "?hs ! i = fe_argon_hash env i (normalize_code c)"
    using i by (simp add: generate_and_hash_recovery_codes_def Let_def nth_enumerate_eq
        hash_recovery_code_def generate_recovery_codes_def)
  let ?x = "new_recovery_rows now ids uid ?hs ! i"
  have "?x \<in> set (new_recovery_rows now ids uid ?hs)"
    using i by (intro nth_mem) (simp add: new_recovery_rows_def)
  moreover have "rk_code_hash ?x = ?hs ! i" "recovery_unused uid ?x"
    using i by (simp_all add: new_recovery_rows_def nth_enumerate_eq recovery_unused_def)
  ultimately show ?thesis
    unfolding h by blast
qed

text \<open>
  Property C21: the recovery codes shown at enrolment work. \<open>setupEmailOtp\<close> returns ten codes, and
  each of them, typed in upper or lower case and with or without the dash, is accepted by
  \<open>verifyRecoveryCode\<close> afterwards and uses up exactly one stored code (given that argon2 verifies
  what it hashed).
\<close>

theorem recovery_codes_accepted:
  assumes inv: "two_factor_inv f" and enrolled: "setup_email_otp env uid org f = (Inr res, f')"
    and argon: "\<And>i x. fe_argon_verify env' (fe_argon_hash env i x) x = Some True"
    and c: "c \<in> set (tr_recovery_codes res)" and typed: "normalize_code typed = normalize_code c"
  shows "length (tr_recovery_codes res) = 10 \<and>
    (\<exists>f''. verify_recovery_code env' uid typed f' = (Inr True, f'') \<and>
       Suc (count_unused_recovery_codes uid (flow_db f'')) = count_unused_recovery_codes uid (flow_db f'))"
proof
  note codes = setup_email_success [OF inv enrolled]
  show "length (tr_recovery_codes res) = 10"
    by (simp add: codes(1) recovery_code_count_def)
  let ?unused = "find_unused_recovery_codes uid (flow_db f')"
  let ?match = "\<lambda>r. verify_recovery_code_hash env' typed (rk_code_hash r)"
  obtain i x where x: "x \<in> set (db_recovery_codes (flow_db f'))" "recovery_unused uid x"
    "rk_code_hash x = fe_argon_hash env i (normalize_code c)"
    using new_row_of_code [of c env] c unfolding codes(1,2) by fastforce
  then have "x \<in> set ?unused" "?match x"
    using argon by (simp_all add: find_unused_recovery_codes_def verify_recovery_code_hash_def typed)
  then have "find_row ?match ?unused \<noteq> None" and nonempty: "?unused \<noteq> []"
    by (auto simp: find_row_None_iff)
  then obtain r where r: "find_row ?match ?unused = Some r" by blast
  from find_unused_row [OF r] have row: "r \<in> set (db_recovery_codes (flow_db f'))" "recovery_unused uid r"
    by (simp_all add: recovery_unused_def)
  note facts = two_factor_invD [OF codes(3)]
  have "\<exists>f''. verify_recovery_code env' uid typed f' = (Inr True, f'') \<and>
      db_recovery_codes (flow_db f'') =
        db_recovery_codes (mark_recovery_code_used (fe_now env') (rk_id r) (flow_db f'))"
    using facts(1) nonempty r
    by (simp add: verify_recovery_code_def step_select step_execute step_invalidate step_event
        insert_audit_row_def)
  with row_count_mark_used [OF facts(5) row]
  show "\<exists>f''. verify_recovery_code env' uid typed f' = (Inr True, f'') \<and>
       Suc (count_unused_recovery_codes uid (flow_db f'')) = count_unused_recovery_codes uid (flow_db f')"
    by (auto simp: count_unused_recovery_codes_def mark_recovery_code_used_def)
qed

text \<open>The first code of the sample enrolment, typed in lower case without its dash.\<close>

lemma recovery_codes_accepted_witness:
  "\<exists>res f'. setup_email_otp (sample_two_factor_env 0) ''u'' ''org'' sample_two_factor_flow = (Inr res, f') \<and>
     length (tr_recovery_codes res) = 10 \<and>
     (\<exists>f''. verify_recovery_code (sample_two_factor_env 1) ''u'' ''aaaaaaaa'' f' = (Inr True, f'') \<and>
       Suc (count_unused_recovery_codes ''u'' (flow_db f'')) = count_unused_recovery_codes ''u'' (flow_db f'))"
proof -
  let ?env = "sample_two_factor_env 0"
  obtain codes hashes where g: "generate_and_hash_recovery_codes ?env = (codes, hashes)"
    by (cases "generate_and_hash_recovery_codes ?env")
  have "length hashes = recovery_code_count"
    using generated_code_count(1) [of ?env] g by simp
  let ?d = "flow_db sample_two_factor_flow"
  have user: "find_user_by_id ''u'' ?d = Some (map_row_to_user sample_member)"
    by (simp add: find_user_by_id_def sample_two_factor_flow_def idle_flow_def sample_member_def)
  let ?ins = "insert_recovery_codes (fe_now ?env) (fe_new_id ?env) ''u'' hashes ?d"
  have ok: "fst ?ins = Inr ()"
    using insert_fresh_recovery_codes [of "fe_new_id ?env" hashes ?d "''u''" _ "fe_now ?env"]
      sample_fresh [of 0] user two_factor_invD(5) [OF sample_two_factor_inv]
      \<open>length hashes = recovery_code_count\<close> by (simp add: fresh_ids_def)
  have "users_inv (snd ?ins)"
    using tables_ok_statements(5) [OF two_factor_invD(2) [OF sample_two_factor_inv]]
    by (simp add: tables_ok_def)
  from update_flags [OF this, of "''u''" _ "fe_now ?env" True "Some EmailMethod"] user ok
  obtain res f' where r:
    "setup_email_otp ?env ''u'' ''org'' sample_two_factor_flow = (Inr res, f')"
    using two_factor_invD(1) [OF sample_two_factor_inv]
    by (auto simp: setup_email_otp_def step_not_enabled g step_insert_recovery step_update_user
        step_invalidate step_event map_row_to_user_def sample_member_def)
  have "''AAAA-AAAA'' \<in> set (tr_recovery_codes res)"
    unfolding setup_email_success(1) [OF sample_two_factor_inv r]
    by (simp add: generate_and_hash_recovery_codes_def generate_recovery_codes_def Let_def
        recovery_code_count_def generate_single_code_def half_length_def code_chars_def
        sample_two_factor_env_def upt_rec)
  moreover have "normalize_code ''aaaaaaaa'' = normalize_code ''AAAA-AAAA''"
    by code_simp
  moreover have "\<And>i x. fe_argon_verify (sample_two_factor_env 1) (fe_argon_hash ?env i x) x = Some True"
    by (simp add: sample_two_factor_env_def)
  ultimately show ?thesis
    using recovery_codes_accepted [OF sample_two_factor_inv r] r by blast
qed

end
