(* ===== verification/RecoveryJobs.thy ===== *)
theory RecoveryJobs
  imports Transaction "HOL-Library.Product_Lexorder"
begin

text \<open>
  packages/server/src/auth/recovery-job-repository.ts: the durable queue of account-recovery work
  (table \<open>auth_recovery_jobs\<close>, migration 021). Each operation validates its input with a schema and
  issues one conditional statement; a transition of a claimed job is fenced by the claiming worker.

  The environment holds \<open>NOW()\<close> and \<open>gen_random_uuid()\<close> of the inserting statement and the UUID
  format of the zod package. UUIDs are lower-case, so their order is the order of their text.
\<close>

record job_env =
  je_now :: time
  je_new_id :: string
  je_uuid :: "string \<Rightarrow> bool"

definition recovery_job_claim_limit :: nat where
  "recovery_job_claim_limit = 25"

definition recovery_job_attempt_limit :: nat where
  "recovery_job_attempt_limit = 5"

subsection \<open>Schemas\<close>

definition base64url_char :: "char \<Rightarrow> bool" where
  "base64url_char c = (is_upper c \<or> is_lower c \<or> is_digit c \<or> c = CHR ''_'' \<or> c = CHR ''-'')"

definition protected_text :: "string \<Rightarrow> bool" where
  "protected_text s = (1 \<le> length s \<and> length s \<le> 4096 \<and> list_all base64url_char s)"

definition key_id_text :: "string \<Rightarrow> bool" where
  "key_id_text s = (8 \<le> length s \<and> length s \<le> 64 \<and> list_all base64url_char s)"

definition digest_text :: "string \<Rightarrow> bool" where
  "digest_text s = (length s = 64 \<and> list_all (\<lambda>c. is_digit c \<or> c \<in> set ''abcdef'') s)"

definition interaction_uid_text :: "string option \<Rightarrow> bool" where
  "interaction_uid_text u = (case u of None \<Rightarrow> True | Some s \<Rightarrow> 1 \<le> length s \<and> length s \<le> 128)"

definition reason_text :: "string \<Rightarrow> bool" where
  "reason_text s =
     (case s of
        [] \<Rightarrow> False
      | c # cs \<Rightarrow> is_lower c \<and> length cs \<le> 63 \<and>
          list_all (\<lambda>c. is_lower c \<or> is_digit c \<or> c = CHR ''_'') cs)"

record enqueue_job_input =
  ej_job_type :: job_type
  ej_organization_id :: string
  ej_address :: protected_address
  ej_interaction_uid :: "string option"
  ej_idempotency_digest :: string
  ej_available_at :: time

definition enqueue_schema :: "job_env \<Rightarrow> enqueue_job_input \<Rightarrow> bool" where
  "enqueue_schema env i =
     (je_uuid env (ej_organization_id i) \<and>
      protected_text (pa_ciphertext (ej_address i)) \<and> protected_text (pa_iv (ej_address i)) \<and>
      protected_text (pa_tag (ej_address i)) \<and> key_id_text (pa_key_id (ej_address i)) \<and>
      interaction_uid_text (ej_interaction_uid i) \<and> digest_text (ej_idempotency_digest i) \<and>
      (ej_job_type i = MagicLinkJob \<or> ej_job_type i = PasswordResetJob \<and> ej_interaction_uid i = None))"

record claim_jobs_input =
  cj_worker_id :: string
  cj_now :: time
  cj_lease_expired_before :: time
  cj_limit :: "nat option"

definition claim_schema :: "job_env \<Rightarrow> claim_jobs_input \<Rightarrow> bool" where
  "claim_schema env i =
     (je_uuid env (cj_worker_id i) \<and>
      (case cj_limit i of None \<Rightarrow> True | Some n \<Rightarrow> 1 \<le> n \<and> n \<le> recovery_job_claim_limit) \<and>
      cj_lease_expired_before i \<le> cj_now i)"

record begin_attempt_input =
  bj_job_id :: string
  bj_worker_id :: string
  bj_now :: time

definition begin_attempt_schema :: "job_env \<Rightarrow> begin_attempt_input \<Rightarrow> bool" where
  "begin_attempt_schema env i = (je_uuid env (bj_job_id i) \<and> je_uuid env (bj_worker_id i))"

record retry_job_input =
  rt_job_id :: string
  rt_worker_id :: string
  rt_available_at :: time
  rt_reason :: string
  rt_now :: time

definition retry_schema :: "job_env \<Rightarrow> retry_job_input \<Rightarrow> bool" where
  "retry_schema env i =
     (je_uuid env (rt_job_id i) \<and> je_uuid env (rt_worker_id i) \<and> reason_text (rt_reason i) \<and>
      rt_now i \<le> rt_available_at i)"

record finish_job_input =
  fj_job_id :: string
  fj_worker_id :: string
  fj_now :: time
  fj_reason :: "string option"

definition finish_schema :: "job_env \<Rightarrow> finish_job_input \<Rightarrow> bool" where
  "finish_schema env i =
     (je_uuid env (fj_job_id i) \<and> je_uuid env (fj_worker_id i) \<and>
      (case fj_reason i of None \<Rightarrow> True | Some r \<Rightarrow> reason_text r))"

text \<open>\<open>schema.parse(input)\<close> throws when the input does not match.\<close>

definition parse_input :: "bool \<Rightarrow> (db, unit) op" where
  "parse_input ok = unless_throw ok (JsError ''ZodError'')"

subsection \<open>Enqueue\<close>

record enqueue_job_result =
  er_job :: recovery_job_row
  er_inserted :: bool

definition new_job_row :: "job_env \<Rightarrow> enqueue_job_input \<Rightarrow> recovery_job_row" where
  "new_job_row env i = \<lparr>
     rj_id = je_new_id env,
     rj_job_type = ej_job_type i,
     rj_organization_id = ej_organization_id i,
     rj_address = ej_address i,
     rj_interaction_uid = ej_interaction_uid i,
     rj_idempotency_digest = ej_idempotency_digest i,
     rj_status = JobAvailable,
     rj_available_at = ej_available_at i,
     rj_claimed_at = None,
     rj_claimed_by = None,
     rj_attempt_count = 0,
     rj_last_failure_reason = None,
     rj_completed_at = None,
     rj_created_at = je_now env,
     rj_updated_at = je_now env\<rparr>"

definition idempotency_key :: "recovery_job_row \<Rightarrow> string \<times> job_type \<times> string" where
  "idempotency_key r = (rj_organization_id r, rj_job_type r, rj_idempotency_digest r)"

definition enqueue_key :: "enqueue_job_input \<Rightarrow> string \<times> job_type \<times> string" where
  "enqueue_key i = (ej_organization_id i, ej_job_type i, ej_idempotency_digest i)"

text \<open>\<open>ON CONFLICT (organization_id, job_type, idempotency_digest) DO NOTHING RETURNING\<close>.\<close>

definition insert_job :: "job_env \<Rightarrow> enqueue_job_input \<Rightarrow> (db, recovery_job_row option) op" where
  "insert_job env i d =
     (if row_exists (\<lambda>r. idempotency_key r = enqueue_key i) (db_recovery_jobs d) then (Inr None, d)
      else if row_exists (\<lambda>r. rj_id r = je_new_id env) (db_recovery_jobs d) then (Inl UniqueViolation, d)
      else if \<not> row_exists (\<lambda>r. og_id r = ej_organization_id i) (db_organizations d)
      then (Inl ForeignKeyViolation, d)
      else (let row = new_job_row env i
            in (Inr (Some row), d\<lparr>db_recovery_jobs := db_recovery_jobs d @ [row]\<rparr>)))"

definition enqueue :: "job_env \<Rightarrow> enqueue_job_input \<Rightarrow> (db, enqueue_job_result) op" where
  "enqueue env i =
     andthen (parse_input (enqueue_schema env i)) (\<lambda>_.
     andthen (insert_job env i) (\<lambda>inserted.
     (case inserted of
        Some row \<Rightarrow> return_op \<lparr>er_job = row, er_inserted = True\<rparr>
      | None \<Rightarrow>
          andthen (select (\<lambda>d. find_row (\<lambda>r. idempotency_key r = enqueue_key i) (db_recovery_jobs d)))
            (\<lambda>existing.
          (case existing of
             None \<Rightarrow>
               throw_op (JsError ''Recovery job idempotency row disappeared after insert conflict'')
           | Some row \<Rightarrow> return_op \<lparr>er_job = row, er_inserted = False\<rparr>)))))"

subsection \<open>Claim\<close>

datatype claim_disposition = ClaimAvailable | LeaseReclaimed | LeaseExhausted

record claimed_job =
  cq_job :: recovery_job_row
  cq_disposition :: claim_disposition

definition claimable :: "time \<Rightarrow> time \<Rightarrow> recovery_job_row \<Rightarrow> bool" where
  "claimable now lease_expired_before r =
     (rj_status r = JobAvailable \<and> rj_available_at r \<le> now \<and>
        rj_attempt_count r < recovery_job_attempt_limit \<or>
      rj_status r = JobClaimed \<and> sql_le (rj_claimed_at r) lease_expired_before \<and>
        rj_attempt_count r \<le> recovery_job_attempt_limit)"

text \<open>\<open>ORDER BY COALESCE(claimed_at, available_at), created_at, id LIMIT n\<close>.\<close>

definition claim_order :: "recovery_job_row \<Rightarrow> time \<times> time \<times> string" where
  "claim_order r = (nullish (rj_claimed_at r) (rj_available_at r), rj_created_at r, rj_id r)"

definition claim_candidates :: "time \<Rightarrow> time \<Rightarrow> nat \<Rightarrow> db \<Rightarrow> recovery_job_row list" where
  "claim_candidates now lease_expired_before n d =
     take n (sort_key claim_order (filter (claimable now lease_expired_before) (db_recovery_jobs d)))"

definition claim_row :: "time \<Rightarrow> string \<Rightarrow> recovery_job_row \<Rightarrow> recovery_job_row" where
  "claim_row now worker r = r\<lparr>rj_status := JobClaimed, rj_claimed_at := Some now,
     rj_claimed_by := Some worker, rj_last_failure_reason := None, rj_completed_at := None,
     rj_updated_at := now\<rparr>"

definition disposition_of :: "recovery_job_row \<Rightarrow> claim_disposition" where
  "disposition_of previous =
     (if rj_status previous = JobAvailable then ClaimAvailable
      else if rj_attempt_count previous \<ge> recovery_job_attempt_limit then LeaseExhausted
      else LeaseReclaimed)"

text \<open>The rows come back in the order of the candidates (SQL leaves the order of \<open>RETURNING\<close> open).\<close>

definition claim_statement :: "claim_jobs_input \<Rightarrow> db \<Rightarrow> claimed_job list \<times> db" where
  "claim_statement i d =
     (let cs = claim_candidates (cj_now i) (cj_lease_expired_before i)
                 (nullish (cj_limit i) recovery_job_claim_limit) d
      in (map (\<lambda>r. \<lparr>cq_job = claim_row (cj_now i) (cj_worker_id i) r,
                   cq_disposition = disposition_of r\<rparr>) cs,
          d\<lparr>db_recovery_jobs := update_where (\<lambda>r. rj_id r \<in> rj_id ` set cs)
             (claim_row (cj_now i) (cj_worker_id i)) (db_recovery_jobs d)\<rparr>))"

definition claim_available :: "job_env \<Rightarrow> claim_jobs_input \<Rightarrow> (db, claimed_job list) op" where
  "claim_available env i =
     andthen (parse_input (claim_schema env i)) (\<lambda>_. returning (claim_statement i))"

subsection \<open>Owned transitions\<close>

definition owns :: "string \<Rightarrow> string \<Rightarrow> recovery_job_row \<Rightarrow> bool" where
  "owns i worker r = (rj_id r = i \<and> rj_claimed_by r = Some worker \<and> rj_status r = JobClaimed)"

definition update_jobs ::
    "(recovery_job_row \<Rightarrow> bool) \<Rightarrow> (recovery_job_row \<Rightarrow> recovery_job_row) \<Rightarrow> db \<Rightarrow> db" where
  "update_jobs P g d = d\<lparr>db_recovery_jobs := update_where P g (db_recovery_jobs d)\<rparr>"

definition attempt_row :: "time \<Rightarrow> recovery_job_row \<Rightarrow> recovery_job_row" where
  "attempt_row now r = r\<lparr>rj_attempt_count := rj_attempt_count r + 1, rj_updated_at := now\<rparr>"

definition has_budget :: "recovery_job_row \<Rightarrow> bool" where
  "has_budget r = (rj_attempt_count r < recovery_job_attempt_limit)"

definition attempt_statement :: "begin_attempt_input \<Rightarrow> db \<Rightarrow> recovery_job_row option \<times> db" where
  "attempt_statement i d =
     (let P = (\<lambda>r. owns (bj_job_id i) (bj_worker_id i) r \<and> has_budget r)
      in (map_option (attempt_row (bj_now i)) (find_row P (db_recovery_jobs d)),
          update_jobs P (attempt_row (bj_now i)) d))"

definition begin_attempt :: "job_env \<Rightarrow> begin_attempt_input \<Rightarrow> (db, recovery_job_row option) op" where
  "begin_attempt env i =
     andthen (parse_input (begin_attempt_schema env i)) (\<lambda>_. returning (attempt_statement i))"

definition retry_row :: "time \<Rightarrow> string \<Rightarrow> time \<Rightarrow> recovery_job_row \<Rightarrow> recovery_job_row" where
  "retry_row available_at reason now r = r\<lparr>rj_status := JobAvailable, rj_available_at := available_at,
     rj_claimed_at := None, rj_claimed_by := None, rj_last_failure_reason := Some reason,
     rj_updated_at := now\<rparr>"

definition retry_statement :: "retry_job_input \<Rightarrow> db \<Rightarrow> bool \<times> db" where
  "retry_statement i d =
     (let P = (\<lambda>r. owns (rt_job_id i) (rt_worker_id i) r \<and> has_budget r)
      in (row_count P (db_recovery_jobs d) = 1,
          update_jobs P (retry_row (rt_available_at i) (rt_reason i) (rt_now i)) d))"

definition schedule_retry :: "job_env \<Rightarrow> retry_job_input \<Rightarrow> (db, bool) op" where
  "schedule_retry env i =
     andthen (parse_input (retry_schema env i)) (\<lambda>_. returning (retry_statement i))"

definition finish_row :: "job_status \<Rightarrow> string option \<Rightarrow> time \<Rightarrow> recovery_job_row \<Rightarrow> recovery_job_row" where
  "finish_row status reason now r = r\<lparr>rj_status := status, rj_claimed_at := None, rj_claimed_by := None,
     rj_last_failure_reason := reason, rj_completed_at := Some now, rj_updated_at := now\<rparr>"

definition finish_statement :: "job_status \<Rightarrow> finish_job_input \<Rightarrow> db \<Rightarrow> bool \<times> db" where
  "finish_statement status i d =
     (let P = owns (fj_job_id i) (fj_worker_id i)
      in (row_count P (db_recovery_jobs d) = 1,
          update_jobs P (finish_row status (fj_reason i) (fj_now i)) d))"

definition mark_completed :: "job_env \<Rightarrow> finish_job_input \<Rightarrow> (db, bool) op" where
  "mark_completed env i =
     andthen (parse_input (finish_schema env i)) (\<lambda>_.
     andthen (unless_throw (fj_reason i = None)
       (JsError ''Completed recovery jobs cannot carry a failure reason'')) (\<lambda>_.
     returning (finish_statement JobCompleted i)))"

text \<open>\<open>finishSchema.extend({ reason: reasonSchema })\<close>: here the reason is required.\<close>

definition mark_terminal_failure :: "job_env \<Rightarrow> finish_job_input \<Rightarrow> (db, bool) op" where
  "mark_terminal_failure env i =
     andthen (parse_input (finish_schema env i \<and> fj_reason i \<noteq> None)) (\<lambda>_.
     returning (finish_statement JobTerminalFailure i))"

end
