(* ===== verification/Json.thy ===== *)
theory Json
  imports Database
begin

text \<open>
  \<open>JSON.stringify\<close> and \<open>JSON.parse\<close> on the values of \<open>json\<close>, as the source uses them for cursors,
  authenticated data and stored payloads. Integers up to 2^53 - 1 are \<open>JNum\<close>; any other number
  keeps its text as \<open>JDec\<close>. \<open>parse_value\<close> spends one unit of fuel per nesting level and list
  element; twice the length of the text is always enough.
\<close>

subsection \<open>Printing\<close>

definition hex_digit :: "nat \<Rightarrow> char" where
  "hex_digit n = ''0123456789abcdef'' ! n"

definition escape_char :: "char \<Rightarrow> string" where
  "escape_char c =
     (let n = (of_char c :: nat)
      in if c = CHR 0x22 then [CHR 0x5C, CHR 0x22]
         else if c = CHR 0x5C then [CHR 0x5C, CHR 0x5C]
         else if n = 8 then [CHR 0x5C, CHR ''b''] else if n = 12 then [CHR 0x5C, CHR ''f'']
         else if n = 10 then [CHR 0x5C, CHR ''n''] else if n = 13 then [CHR 0x5C, CHR ''r'']
         else if n = 9 then [CHR 0x5C, CHR ''t'']
         else if n < 32 then
           [CHR 0x5C, CHR ''u'', CHR ''0'', CHR ''0'', hex_digit (n div 16), hex_digit (n mod 16)]
         else [c])"

definition quote_string :: "string \<Rightarrow> string" where
  "quote_string s = CHR 0x22 # concat (map escape_char s) @ [CHR 0x22]"

fun comma_join :: "string list \<Rightarrow> string" where
  "comma_join [] = []"
| "comma_join [p] = p"
| "comma_join (p # ps) = p @ CHR '','' # comma_join ps"

fun json_stringify :: "json \<Rightarrow> string" where
  "json_stringify JNull = ''null''"
| "json_stringify (JBool b) = (if b then ''true'' else ''false'')"
| "json_stringify (JNum i) = show_int i"
| "json_stringify (JDec s) = s"
| "json_stringify (JStr s) = quote_string s"
| "json_stringify (JArr js) = CHR ''['' # comma_join (map json_stringify js) @ '']''"
| "json_stringify (JObj fs) =
     CHR ''{'' # comma_join (map (\<lambda>(k, v). quote_string k @ CHR '':'' # json_stringify v) fs) @ ''}''"

subsection \<open>Parsing\<close>

definition json_space :: "char \<Rightarrow> bool" where
  "json_space c = ((of_char c :: nat) \<in> {9, 10, 13, 32})"

definition skip_space :: "string \<Rightarrow> string" where
  "skip_space s = dropWhile json_space s"

definition hex_value :: "char \<Rightarrow> nat option" where
  "hex_value c = map_of (zip ''0123456789abcdefABCDEF'' ([0 ..< 16] @ [10 ..< 16])) c"

fun hex_number :: "string \<Rightarrow> nat option" where
  "hex_number [] = Some 0"
| "hex_number (c # cs) =
     (case hex_value c of
        None \<Rightarrow> None
      | Some v \<Rightarrow> map_option (\<lambda>n. v * 16 ^ length cs + n) (hex_number cs))"

definition unit_char :: "nat \<Rightarrow> char" where
  "unit_char n = (if n < 256 then char_of n else CHR ''?'')"

definition escaped :: "char \<Rightarrow> char option" where
  "escaped c = map_of [(CHR 0x22, CHR 0x22), (CHR 0x5C, CHR 0x5C), (CHR ''/'', CHR ''/''),
     (CHR ''b'', CHR 0x08), (CHR ''f'', CHR 0x0C), (CHR ''n'', CHR 0x0A), (CHR ''r'', CHR 0x0D),
     (CHR ''t'', CHR 0x09)] c"

definition cons_char :: "char \<Rightarrow> (string \<times> string) option \<Rightarrow> (string \<times> string) option" where
  "cons_char c r = map_option (\<lambda>(s, rest). (c # s, rest)) r"

text \<open>The characters of a string literal up to its closing quote.\<close>

fun parse_chars :: "string \<Rightarrow> (string \<times> string) option" where
  "parse_chars [] = None"
| "parse_chars (c # s) =
     (if c = CHR 0x22 then Some ([], s)
      else if c = CHR 0x5C then
        (case s of
           [] \<Rightarrow> None
         | e # t \<Rightarrow>
             (if e = CHR ''u'' then
                (case t of
                   a # b # x # y # rest \<Rightarrow>
                     (case hex_number [a, b, x, y] of
                        None \<Rightarrow> None
                      | Some n \<Rightarrow> cons_char (unit_char n) (parse_chars rest))
                 | _ \<Rightarrow> None)
              else (case escaped e of
                      None \<Rightarrow> None
                    | Some r \<Rightarrow> cons_char r (parse_chars t))))
      else if (of_char c :: nat) < 32 then None
      else cons_char c (parse_chars s))"

definition read_nat :: "string \<Rightarrow> nat" where
  "read_nat s = foldl (\<lambda>n c. n * 10 + (of_char c - 48)) 0 s"

definition max_safe_integer :: int where
  "max_safe_integer = 9007199254740991"

text \<open>\<open>-?(0|[1-9][0-9]*)(.[0-9]+)?([eE][+-]?[0-9]+)?\<close>; a zero followed by a digit is an error.\<close>

definition parse_fraction :: "string \<Rightarrow> (string \<times> string) option" where
  "parse_fraction s =
     (case s of
        c # r \<Rightarrow>
          (if c \<noteq> CHR ''.'' then Some ([], s)
           else if takeWhile is_digit r = [] then None
           else Some (c # takeWhile is_digit r, dropWhile is_digit r))
      | [] \<Rightarrow> Some ([], []))"

definition parse_exponent :: "string \<Rightarrow> (string \<times> string) option" where
  "parse_exponent s =
     (case s of
        c # r \<Rightarrow>
          (if c \<noteq> CHR ''e'' \<and> c \<noteq> CHR ''E'' then Some ([], s)
           else (let sign = (case r of x # _ \<Rightarrow> if x = CHR ''+'' \<or> x = CHR ''-'' then [x] else [] | [] \<Rightarrow> []);
                     t = drop (length sign) r
                 in if takeWhile is_digit t = [] then None
                    else Some (c # sign @ takeWhile is_digit t, dropWhile is_digit t)))
      | [] \<Rightarrow> Some ([], []))"

definition number_value :: "string \<Rightarrow> string \<Rightarrow> string \<Rightarrow> json" where
  "number_value sign digits extra =
     (let i = (if sign = [] then int (read_nat digits) else - int (read_nat digits))
      in if extra = [] \<and> \<bar>i\<bar> \<le> max_safe_integer then JNum i else JDec (sign @ digits @ extra))"

definition parse_digits :: "string \<Rightarrow> string \<Rightarrow> (json \<times> string) option" where
  "parse_digits sign s =
     (let digits = takeWhile is_digit s
      in if digits = [] \<or> (hd digits = CHR ''0'' \<and> tl digits \<noteq> []) then None
         else (case parse_fraction (dropWhile is_digit s) of
                 None \<Rightarrow> None
               | Some (fraction, r1) \<Rightarrow>
                   (case parse_exponent r1 of
                      None \<Rightarrow> None
                    | Some (exponent, r2) \<Rightarrow>
                        Some (number_value sign digits (fraction @ exponent), r2))))"

definition parse_number :: "string \<Rightarrow> (json \<times> string) option" where
  "parse_number s =
     (case s of
        [] \<Rightarrow> None
      | c # r \<Rightarrow> if c = CHR ''-'' then parse_digits [c] r else parse_digits [] s)"

text \<open>A repeated key keeps its first position and takes the last value.\<close>

definition object_add :: "string \<times> json \<Rightarrow> (string \<times> json) list \<Rightarrow> (string \<times> json) list" where
  "object_add kv fs = (case kv of (k, v) \<Rightarrow>
     if k \<in> fst ` set fs then (k, the (map_of fs k)) # filter (\<lambda>(k', _). k' \<noteq> k) fs else (k, v) # fs)"

definition strip :: "string \<Rightarrow> string \<Rightarrow> string option" where
  "strip p s = (if prefix p s then Some (drop (length p) s) else None)"

definition literal :: "string \<Rightarrow> json \<Rightarrow> string \<Rightarrow> (json \<times> string) option" where
  "literal p v s = map_option (\<lambda>r. (v, r)) (strip p s)"

fun parse_value :: "nat \<Rightarrow> string \<Rightarrow> (json \<times> string) option"
  and parse_elements :: "nat \<Rightarrow> string \<Rightarrow> (json list \<times> string) option"
  and parse_members :: "nat \<Rightarrow> string \<Rightarrow> ((string \<times> json) list \<times> string) option" where
  "parse_value 0 s = None"
| "parse_value (Suc n) s =
     (case skip_space s of
        [] \<Rightarrow> None
      | c # r \<Rightarrow>
          (if c = CHR 0x22 then map_option (\<lambda>(t, rest). (JStr t, rest)) (parse_chars r)
           else if c = CHR ''['' then
             (case strip '']'' (skip_space r) of
                Some rest \<Rightarrow> Some (JArr [], rest)
              | None \<Rightarrow> map_option (\<lambda>(vs, rest). (JArr vs, rest)) (parse_elements n r))
           else if c = CHR ''{'' then
             (case strip ''}'' (skip_space r) of
                Some rest \<Rightarrow> Some (JObj [], rest)
              | None \<Rightarrow> map_option (\<lambda>(fs, rest). (JObj fs, rest)) (parse_members n r))
           else if c = CHR ''n'' then literal ''null'' JNull (c # r)
           else if c = CHR ''t'' then literal ''true'' (JBool True) (c # r)
           else if c = CHR ''f'' then literal ''false'' (JBool False) (c # r)
           else parse_number (c # r)))"
| "parse_elements 0 s = None"
| "parse_elements (Suc n) s =
     (case parse_value n s of
        None \<Rightarrow> None
      | Some (v, r) \<Rightarrow>
          (case skip_space r of
             [] \<Rightarrow> None
           | c # rest \<Rightarrow>
               (if c = CHR '','' then map_option (\<lambda>(vs, t). (v # vs, t)) (parse_elements n rest)
                else if c = CHR '']'' then Some ([v], rest) else None)))"
| "parse_members 0 s = None"
| "parse_members (Suc n) s =
     (case strip [CHR 0x22] (skip_space s) of
        None \<Rightarrow> None
      | Some r \<Rightarrow>
          (case parse_chars r of
             None \<Rightarrow> None
           | Some (k, r1) \<Rightarrow>
               (case strip '':'' (skip_space r1) of
                  None \<Rightarrow> None
                | Some r2 \<Rightarrow>
                    (case parse_value n r2 of
                       None \<Rightarrow> None
                     | Some (v, r3) \<Rightarrow>
                         (case skip_space r3 of
                            [] \<Rightarrow> None
                          | c # rest \<Rightarrow>
                              (if c = CHR '','' then
                                 map_option (\<lambda>(fs, t). (object_add (k, v) fs, t)) (parse_members n rest)
                               else if c = CHR ''}'' then Some ([(k, v)], rest) else None))))))"

text \<open>\<open>None\<close> is the \<open>SyntaxError\<close>; only white space may follow the value.\<close>

definition json_parse :: "string \<Rightarrow> json option" where
  "json_parse s =
     (case parse_value (2 * length s + 2) s of
        None \<Rightarrow> None
      | Some (v, rest) \<Rightarrow> if skip_space rest = [] then Some v else None)"

subsection \<open>Parsing what was printed\<close>

text \<open>The values a JavaScript program can hold: safe integers and objects without repeated keys.\<close>

fun json_ok :: "json \<Rightarrow> bool" where
  "json_ok (JNum i) = (\<bar>i\<bar> \<le> max_safe_integer)"
| "json_ok (JDec s) = False"
| "json_ok (JArr js) = list_all json_ok js"
| "json_ok (JObj fs) = (distinct (map fst fs) \<and> list_all (\<lambda>(k, v). json_ok v) fs)"
| "json_ok _ = True"

lemma hex_control: "n < 32 \<Longrightarrow>
    hex_number [CHR ''0'', CHR ''0'', hex_digit (n div 16), hex_digit (n mod 16)] = Some n"
proof -
  have "list_all (\<lambda>n. hex_number [CHR ''0'', CHR ''0'', hex_digit (n div 16), hex_digit (n mod 16)] = Some n)
      [0 ..< 32]"
    by code_simp
  then show "n < 32 \<Longrightarrow>
      hex_number [CHR ''0'', CHR ''0'', hex_digit (n div 16), hex_digit (n mod 16)] = Some n"
    by (simp add: list_all_iff)
qed

lemma parse_escaped: "parse_chars (escape_char c @ t) = cons_char c (parse_chars t)"
proof -
  let ?named = "{CHR 0x22, CHR 0x5C, CHR 0x08, CHR 0x0C, CHR 0x0A, CHR 0x0D, CHR 0x09}"
  define n where "n = (of_char c :: nat)"
  have c: "c = char_of n" and n: "n < 256"
    by (simp_all add: n_def)
  show ?thesis
  proof (cases "c \<in> ?named")
    case True
    then show ?thesis
      by (elim insertE emptyE) (simp_all add: escape_char_def escaped_def)
  next
    case False
    then have named: "n \<noteq> of_char d" if "d \<in> ?named" for d
      using that by (auto simp: n_def)
    have other: "c \<noteq> CHR 0x22" "c \<noteq> CHR 0x5C" "n \<noteq> 8" "n \<noteq> 12" "n \<noteq> 10" "n \<noteq> 13" "n \<noteq> 9"
      using False named [of "CHR 0x08"] named [of "CHR 0x0C"] named [of "CHR 0x0A"]
        named [of "CHR 0x0D"] named [of "CHR 0x09"] by simp_all
    show ?thesis
    proof (cases "n < 32")
      case True
      then have "hex_number [CHR ''0'', CHR ''0'', hex_digit (n div 16), hex_digit (n mod 16)] = Some n"
        by (rule hex_control)
      moreover have "unit_char n = c"
        by (simp add: unit_char_def n c)
      ultimately show ?thesis
        using other True by (simp add: escape_char_def n_def [symmetric] Let_def)
    next
      case False
      with other show ?thesis
        by (simp add: escape_char_def n_def [symmetric] Let_def)
    qed
  qed
qed

lemma cons_char_Some [simp]: "cons_char c (Some (s, r)) = Some (c # s, r)"
  by (simp add: cons_char_def)

lemma parse_quoted: "parse_chars (concat (map escape_char s) @ CHR 0x22 # rest) = Some (s, rest)"
  by (induction s) (simp_all add: parse_escaped)

text \<open>Decimal numbers.\<close>

lemma show_nat_digit: "n < 10 \<Longrightarrow> show_nat n = [char_of (48 + n)]"
  by (simp add: show_nat.simps)

lemma show_nat_step: "\<not> n < 10 \<Longrightarrow> show_nat n = show_nat (n div 10) @ [char_of (48 + n mod 10)]"
  by (simp add: show_nat.simps [of n])

lemma digit_char: "n < 10 \<Longrightarrow> (of_char (char_of (48 + n) :: char) :: nat) = 48 + n"
  by (rule trans [OF of_char_of], rule mod_less) linarith

lemma show_nat_digits: "list_all is_digit (show_nat n)"
proof (induction n rule: show_nat.induct)
  case (1 n)
  show ?case
  proof (cases "n < 10")
    case True
    then show ?thesis by (simp add: show_nat_digit is_digit_def digit_char)
  next
    case False
    with 1 show ?thesis
      by (simp add: show_nat_step is_digit_def digit_char)
  qed
qed

lemma show_nat_not_Nil [simp]: "show_nat n \<noteq> []"
  by (simp add: show_nat.simps [of n])

lemma read_show_nat: "read_nat (show_nat n) = n"
proof (induction n rule: show_nat.induct)
  case (1 n)
  show ?case
  proof (cases "n < 10")
    case True
    then show ?thesis by (simp add: show_nat_digit read_nat_def digit_char)
  next
    case False
    with 1 show ?thesis
      by (simp add: show_nat_step read_nat_def digit_char)
  qed
qed

lemma show_nat_head: "0 < n \<Longrightarrow> hd (show_nat n) \<noteq> CHR ''0''"
proof (induction n rule: show_nat.induct)
  case (1 n)
  show ?case
  proof (cases "n < 10")
    case True
    have "char_of (48 + n) \<noteq> CHR ''0''"
    proof
      assume "char_of (48 + n) = CHR ''0''"
      then have "(of_char (char_of (48 + n) :: char) :: nat) = of_char CHR ''0''"
        by (simp only: )
      with 1(2) show False
        unfolding digit_char [OF True] by simp
    qed
    then show ?thesis
      by (simp add: show_nat_digit [OF True])
  next
    case False
    then have "0 < n div 10"
      by (simp add: div_greater_zero_iff)
    with 1(1) [OF False] False show ?thesis
      by (simp add: show_nat_step)
  qed
qed

text \<open>What may follow a number so that the number ends there.\<close>

definition number_ends :: "string \<Rightarrow> bool" where
  "number_ends rest =
     (case rest of [] \<Rightarrow> True
      | c # _ \<Rightarrow> \<not> is_digit c \<and> c \<noteq> CHR ''.'' \<and> c \<noteq> CHR ''e'' \<and> c \<noteq> CHR ''E'')"

lemma takeWhile_digits:
  "list_all is_digit ds \<Longrightarrow> number_ends rest \<Longrightarrow>
   takeWhile is_digit (ds @ rest) = ds \<and> dropWhile is_digit (ds @ rest) = rest"
  by (induction ds) (auto simp: number_ends_def split: list.splits)

lemma number_ends_more:
  "number_ends rest \<Longrightarrow> parse_fraction rest = Some ([], rest)"
  "number_ends rest \<Longrightarrow> parse_exponent rest = Some ([], rest)"
  by (auto simp: number_ends_def parse_fraction_def parse_exponent_def split: list.splits)

lemma show_nat_shape: "\<not> (hd (show_nat n) = CHR ''0'' \<and> tl (show_nat n) \<noteq> [])"
  using show_nat_head [of n] by (cases "n = 0") (simp_all add: show_nat_digit)

lemma show_nat_no_sign: "\<exists>c r. show_nat n = c # r \<and> is_digit c"
  using show_nat_digits [of n] show_nat_not_Nil [of n] by (cases "show_nat n") auto

lemma parse_digits_shown:
  assumes "number_ends rest"
  shows "parse_digits sign (show_nat n @ rest) = Some (number_value sign (show_nat n) [], rest)"
  using takeWhile_digits [OF show_nat_digits assms, of n] show_nat_shape [of n] assms
  by (simp add: parse_digits_def number_ends_more Let_def)

lemma parse_show_int:
  assumes "\<bar>i\<bar> \<le> max_safe_integer" and "number_ends rest"
  shows "parse_number (show_int i @ rest) = Some (JNum i, rest)"
proof (cases "i < 0")
  case True
  with assms show ?thesis
    by (simp add: parse_number_def show_int_def parse_digits_shown number_value_def read_show_nat)
next
  case False
  obtain c r where c: "show_nat (nat i) = c # r" "is_digit c"
    using show_nat_no_sign by blast
  have "c \<noteq> CHR ''-''"
    using c(2) by (auto simp: is_digit_def)
  then have "parse_number (show_nat (nat i) @ rest) = parse_digits [] (show_nat (nat i) @ rest)"
    by (simp add: parse_number_def c)
  with False assms show ?thesis
    by (simp add: show_int_def parse_digits_shown number_value_def read_show_nat)
qed

lemma literal_simps: "literal p v (p @ rest) = Some (v, rest)"
  by (simp add: literal_def strip_def)

text \<open>A printed value starts with a character that is neither white space nor a closing bracket.\<close>

definition value_head :: "char \<Rightarrow> bool" where
  "value_head c = (\<not> json_space c \<and> c \<noteq> CHR '']'' \<and> c \<noteq> CHR ''}'')"

lemma digit_value_head: "is_digit c \<Longrightarrow> value_head c"
  by (auto simp: value_head_def is_digit_def json_space_def)

lemma stringify_head:
  assumes "json_ok j"
  shows "\<exists>c r. json_stringify j = c # r \<and> value_head c"
proof (cases j)
  case (JNum i)
  show ?thesis
    using show_nat_no_sign [of "nat i"] digit_value_head
    by (auto simp: JNum show_int_def value_head_def json_space_def)
qed (use assms in \<open>auto simp: value_head_def json_space_def quote_string_def\<close>)

lemma skip_space_head: "value_head c \<Longrightarrow> skip_space (c # r) = c # r"
  by (simp add: skip_space_def value_head_def)

lemma skip_space_stringify:
  "json_ok j \<Longrightarrow> skip_space (json_stringify j @ rest) = json_stringify j @ rest"
  using stringify_head [of j] skip_space_head by (metis append_Cons)

lemma skip_space_punctuation [simp]:
  "skip_space (CHR '','' # r) = CHR '','' # r" "skip_space (CHR '']'' # r) = CHR '']'' # r"
  "skip_space (CHR ''}'' # r) = CHR ''}'' # r" "skip_space (CHR '':'' # r) = CHR '':'' # r"
  "skip_space (CHR 0x22 # r) = CHR 0x22 # r"
  by (simp_all add: skip_space_def json_space_def)

lemma number_ends_punctuation [simp]:
  "number_ends (CHR '','' # r)" "number_ends (CHR '']'' # r)" "number_ends (CHR ''}'' # r)"
  "number_ends []"
  by (simp_all add: number_ends_def is_digit_def)

text \<open>Enough fuel for a value.\<close>

fun json_fuel :: "json \<Rightarrow> nat" where
  "json_fuel (JArr js) = 1 + sum_list (map (\<lambda>j. 1 + json_fuel j) js)"
| "json_fuel (JObj fs) = 1 + sum_list (map (\<lambda>(k, v). 1 + json_fuel v) fs)"
| "json_fuel _ = 1"

lemma parse_elements_printed:
  assumes "js \<noteq> []" and "list_all json_ok js"
    and IH: "\<And>j n r. j \<in> set js \<Longrightarrow> json_fuel j \<le> n \<Longrightarrow> number_ends r \<Longrightarrow>
      parse_value n (json_stringify j @ r) = Some (j, r)"
    and "sum_list (map (\<lambda>j. 1 + json_fuel j) js) \<le> n"
  shows "parse_elements n (comma_join (map json_stringify js) @ CHR '']'' # rest) = Some (js, rest)"
  using assms
proof (induction js arbitrary: n)
  case (Cons j js)
  then obtain m where n: "n = Suc m" "json_fuel j \<le> m"
    "sum_list (map (\<lambda>j. 1 + json_fuel j) js) \<le> m"
    by (cases n) auto
  show ?case
  proof (cases js)
    case Nil
    have "parse_value m (json_stringify j @ CHR '']'' # rest) = Some (j, CHR '']'' # rest)"
      using Cons.prems(3) n by simp
    then show ?thesis by (simp add: n Nil)
  next
    case (Cons j' js')
    have "parse_value m (json_stringify j @ CHR '','' # t) = Some (j, CHR '','' # t)" for t
      using Cons.prems(3) n by simp
    moreover have "parse_elements m (comma_join (map json_stringify js) @ CHR '']'' # rest) =
        Some (js, rest)"
      using Cons.IH [of m] Cons.prems n Cons by simp
    ultimately show ?thesis by (simp add: n Cons)
  qed
qed simp

lemma quote_string_append: "quote_string k @ r = CHR 0x22 # concat (map escape_char k) @ CHR 0x22 # r"
  by (simp add: quote_string_def)

lemma strip_simps [simp]: "strip [c] (c' # r) = (if c = c' then Some r else None)"
  by (simp add: strip_def)

lemma object_add_fresh: "k \<notin> fst ` set fs \<Longrightarrow> object_add (k, v) fs = (k, v) # fs"
  by (simp add: object_add_def)

lemma parse_members_printed:
  assumes "fs \<noteq> []" and "distinct (map fst fs)" and "list_all (\<lambda>(k, v). json_ok v) fs"
    and IH: "\<And>k v n r. (k, v) \<in> set fs \<Longrightarrow> json_fuel v \<le> n \<Longrightarrow> number_ends r \<Longrightarrow>
      parse_value n (json_stringify v @ r) = Some (v, r)"
    and "sum_list (map (\<lambda>(k, v). 1 + json_fuel v) fs) \<le> n"
  shows "parse_members n (comma_join (map (\<lambda>(k, v). quote_string k @ CHR '':'' # json_stringify v) fs) @
    CHR ''}'' # rest) = Some (fs, rest)"
  using assms
proof (induction fs arbitrary: n)
  case (Cons f fs)
  obtain k v where f: "f = (k, v)" by (cases f)
  from Cons.prems f obtain m where n: "n = Suc m" "json_fuel v \<le> m"
    "sum_list (map (\<lambda>(k, v). 1 + json_fuel v) fs) \<le> m"
    by (cases n) auto
  show ?case
  proof (cases fs)
    case Nil
    have "parse_value m (json_stringify v @ CHR ''}'' # rest) = Some (v, CHR ''}'' # rest)"
      using Cons.prems(4) [of k v m "CHR ''}'' # rest"] n f by simp
    then show ?thesis by (simp add: n f Nil quote_string_append parse_quoted)
  next
    case (Cons f' fs')
    have "parse_value m (json_stringify v @ CHR '','' # t) = Some (v, CHR '','' # t)" for t
      using Cons.prems(4) [of k v m "CHR '','' # t"] n f by simp
    moreover have "parse_members m (comma_join (map (\<lambda>(k, v). quote_string k @ CHR '':'' # json_stringify v) fs) @
        CHR ''}'' # rest) = Some (fs, rest)"
    proof (rule Cons.IH)
      show "parse_value n' (json_stringify v' @ r) = Some (v', r)"
        if "(k', v') \<in> set fs" "json_fuel v' \<le> n'" "number_ends r" for k' v' n' r
        using Cons.prems(4) [of k' v' n' r] that by simp
    qed (use Cons.prems n Cons f in simp_all)
    moreover have "object_add (k, v) fs = (k, v) # fs"
      using Cons.prems(2) f by (intro object_add_fresh) simp
    ultimately show ?thesis by (simp add: n f Cons quote_string_append parse_quoted)
  qed
qed simp

lemma parse_value_printed:
  "json_ok j \<Longrightarrow> json_fuel j \<le> n \<Longrightarrow> number_ends rest \<Longrightarrow>
   parse_value n (json_stringify j @ rest) = Some (j, rest)"
proof (induction j arbitrary: n rest rule: json_stringify.induct)
  case (3 i)
  obtain c r where head: "json_stringify (JNum i) = c # r" "value_head c"
    using stringify_head [OF "3.prems"(1)] by blast
  have "c = CHR ''-'' \<or> is_digit c"
    using show_nat_no_sign [of "nat i"] head(1) by (auto simp: show_int_def split: if_splits)
  then have "c \<notin> {CHR 0x22, CHR ''['', CHR ''{'', CHR ''n'', CHR ''t'', CHR ''f''}"
    by (auto simp: is_digit_def)
  moreover have "parse_number (c # r @ rest) = Some (JNum i, rest)"
    using parse_show_int [of i rest] "3.prems" head by simp
  ultimately show ?case
    using "3.prems" head by (cases n) (simp_all add: skip_space_head)
next
  case (6 js)
  show ?case
  proof (cases js)
    case Nil
    with 6 show ?thesis
      by (cases n) (simp_all add: skip_space_head value_head_def json_space_def)
  next
    case (Cons j js')
    obtain m where n: "n = Suc m" "sum_list (map (\<lambda>j. 1 + json_fuel j) js) \<le> m"
      using "6.prems"(2) by (cases n) auto
    have "parse_elements m (comma_join (map json_stringify js) @ CHR '']'' # rest) = Some (js, rest)"
      using 6 n Cons by (intro parse_elements_printed) (auto simp: list_all_iff)
    moreover obtain c r where "json_stringify j = c # r" "value_head c"
      using stringify_head [of j] "6.prems"(1) Cons by auto
    then have "\<exists>t. comma_join (map json_stringify js) = c # t" "value_head c"
      by (cases js'; simp add: Cons)+
    ultimately show ?thesis
      by (auto simp: n skip_space_head value_head_def json_space_def)
  qed
next
  case (7 fs)
  show ?case
  proof (cases fs)
    case Nil
    with 7 show ?thesis
      by (cases n) (simp_all add: skip_space_head value_head_def json_space_def)
  next
    case (Cons f fs')
    obtain m where n: "n = Suc m" "sum_list (map (\<lambda>(k, v). 1 + json_fuel v) fs) \<le> m"
      using "7.prems"(2) by (cases n) auto
    let ?text = "comma_join (map (\<lambda>(k, v). quote_string k @ CHR '':'' # json_stringify v) fs)"
    have IH: "parse_value n (json_stringify v @ r) = Some (v, r)"
      if "(k, v) \<in> set fs" "json_fuel v \<le> n" "number_ends r" for k v n r
      using "7.IH" [of "(k, v)" k v n r] "7.prems"(1) that by (auto simp: list_all_iff)
    have "parse_members m (?text @ CHR ''}'' # rest) = Some (fs, rest)"
      using "7.prems"(1) IH n Cons by (intro parse_members_printed) auto
    moreover have "\<exists>t. ?text = CHR 0x22 # t"
      by (cases fs'; cases f) (simp_all add: Cons quote_string_def)
    ultimately show ?thesis
      by (auto simp: n skip_space_head value_head_def json_space_def)
  qed
qed (auto simp: skip_space_head value_head_def json_space_def literal_def strip_def
    quote_string_append parse_quoted gr0_conv_Suc Suc_le_eq)

lemma comma_join_length: "ps \<noteq> [] \<Longrightarrow> length (comma_join ps) + 1 = sum_list (map (\<lambda>p. length p + 1) ps)"
  by (induction ps rule: comma_join.induct) auto

lemma fuel_sum:
  assumes "\<And>x. x \<in> set xs \<Longrightarrow> f x \<le> 2 * g x" and "xs \<noteq> []"
  shows "1 + sum_list (map (\<lambda>x. 1 + f x) xs) \<le> 2 * sum_list (map (\<lambda>x. (g x :: nat) + 1) xs)"
  using assms
proof (induction xs)
  case (Cons x xs)
  then show ?case
    by (cases "xs = []") (force simp: le_SucI)+
qed simp

lemma show_int_not_Nil: "show_int i \<noteq> []"
  using show_nat_not_Nil by (simp add: show_int_def)

lemma fuel_bound: "json_ok j \<Longrightarrow> json_fuel j \<le> 2 * length (json_stringify j)"
proof (induction j rule: json_fuel.induct)
  case (1 js)
  show ?case
  proof (cases "js = []")
    case False
    have "json_fuel j \<le> 2 * length (json_stringify j)" if "j \<in> set js" for j
      using 1 that by (simp add: list_all_iff)
    from fuel_sum [of js json_fuel "\<lambda>j. length (json_stringify j)", OF this False]
    show ?thesis
      using comma_join_length [of "map json_stringify js"] False by (simp add: o_def)
  qed simp
next
  case (2 fs)
  show ?case
  proof (cases "fs = []")
    case False
    let ?text = "\<lambda>(k, v). quote_string k @ CHR '':'' # json_stringify v"
    have "(case x of (k, v) \<Rightarrow> json_fuel v) \<le> 2 * length (?text x)" if "x \<in> set fs" for x
    proof -
      obtain k v where x: "x = (k, v)" by (cases x)
      have "json_fuel v \<le> 2 * length (json_stringify v)"
        using 2 that x by (auto simp: list_all_iff)
      then show ?thesis by (simp add: x)
    qed
    from fuel_sum [of fs "\<lambda>(k, v). json_fuel v" "\<lambda>x. length (?text x)", OF this False]
    have "1 + sum_list (map (\<lambda>(k, v). 1 + json_fuel v) fs) \<le> 2 * sum_list (map (\<lambda>x. length (?text x) + 1) fs)"
      by (simp add: case_prod_unfold)
    then show ?thesis
      using comma_join_length [of "map ?text fs"] False by (simp add: o_def)
  qed simp
qed (auto simp: quote_string_def Suc_le_eq show_int_not_Nil)

theorem json_roundtrip: "json_ok j \<Longrightarrow> json_parse (json_stringify j) = Some j"
proof -
  assume "json_ok j"
  with fuel_bound [of j] have "parse_value (2 * length (json_stringify j) + 2) (json_stringify j @ []) = Some (j, [])"
    by (intro parse_value_printed) simp_all
  then show ?thesis
    by (simp add: json_parse_def skip_space_def)
qed

end
