(* ===== verification/Translations.thy ===== *)
theory Translations
  imports SystemConfig Json
begin

text \<open>
  packages/server/src/auth/i18n.ts: the choice of the language of a page or message, and the
  translator with the overrides of a tenant.

  The environment holds what the file imports: \<open>Intl.getCanonicalLocales\<close> on one tag (\<open>None\<close> when
  it throws), the loaded bundles and the lookup of the i18next package, and the files below the
  locales directory (\<open>None\<close> when reading fails).
\<close>

record locale_env =
  le_canonical :: "string \<Rightarrow> string option"
  le_has_bundle :: "string \<Rightarrow> string \<Rightarrow> bool"
  le_lookup :: "string \<Rightarrow> string \<Rightarrow> (string \<times> string) list option \<Rightarrow> string option"
  le_file :: "string \<Rightarrow> string \<Rightarrow> string \<Rightarrow> string option"

definition translation_namespaces :: "string list" where
  "translation_namespaces = [''common'', ''login'', ''consent'', ''forgot-password'', ''reset-password'',
     ''magic-link'', ''invitation'', ''logout'', ''errors'', ''emails'', ''two-factor'']"

definition fallback_locale :: string where
  "fallback_locale = ''en''"

subsection \<open>The language\<close>

definition normalize_locale :: "locale_env \<Rightarrow> string \<Rightarrow> string option" where
  "normalize_locale env locale =
     (case le_canonical env (map (\<lambda>c. if c = CHR ''_'' then CHR ''-'' else c) locale) of
        None \<Rightarrow> None
      | Some canonical \<Rightarrow> Some (to_lower (hd (split_on CHR ''-'' canonical))))"

definition is_locale_available :: "locale_env \<Rightarrow> string option \<Rightarrow> bool" where
  "is_locale_available env locale =
     (case locale of None \<Rightarrow> False
      | Some l \<Rightarrow> l \<in> set supported_locales \<and> le_has_bundle env l ''common'')"

text \<open>The first candidate whose normal form is available.\<close>

fun first_available :: "locale_env \<Rightarrow> string list \<Rightarrow> string option" where
  "first_available env [] = None"
| "first_available env (c # cs) =
     (if is_locale_available env (normalize_locale env c) then normalize_locale env c
      else first_available env cs)"

text \<open>\<open>s.split(/\\s+/).filter(Boolean)\<close>.\<close>

fun split_spaces :: "string \<Rightarrow> string \<Rightarrow> string list" where
  "split_spaces word [] = (if word = [] then [] else [rev word])"
| "split_spaces word (c # s) =
     (if is_space c then (if word = [] then split_spaces [] s else rev word # split_spaces [] s)
      else split_spaces (c # word) s)"

text \<open>\<open>/^q=(0(?:\\.\\d{0,3})?|1(?:\\.0{0,3})?)$/i\<close>, in thousandths.\<close>

definition digits_value :: "string \<Rightarrow> nat" where
  "digits_value ds = foldl (\<lambda>n d. n * 10 + (of_char d - 48)) 0 ds"

definition quality_thousandths :: "string \<Rightarrow> nat option" where
  "quality_thousandths parameter =
     (case parameter of
        q # e # n # rest \<Rightarrow>
          if lower_char q = CHR ''q'' \<and> e = CHR ''='' \<and> (n = CHR ''0'' \<or> n = CHR ''1'')
          then (case rest of
                  [] \<Rightarrow> Some (if n = CHR ''0'' then 0 else 1000)
                | dot # ds \<Rightarrow>
                    if dot = CHR ''.'' \<and> length ds \<le> 3 \<and>
                      list_all (\<lambda>d. if n = CHR ''0'' then is_digit d else d = CHR ''0'') ds
                    then Some (if n = CHR ''0'' then digits_value ds * 10 ^ (3 - length ds) else 1000)
                    else None)
          else None
      | _ \<Rightarrow> None)"

definition language_preference :: "string \<Rightarrow> (string \<times> nat) option" where
  "language_preference part =
     (case split_on CHR '';'' (trim part) of
        [] \<Rightarrow> None
      | language # parameters \<Rightarrow>
          (case parameters of
             [] \<Rightarrow> Some (trim language, 1000)
           | [p] \<Rightarrow>
               (case quality_thousandths (trim p) of
                  None \<Rightarrow> None
                | Some q \<Rightarrow> if q > 0 then Some (trim language, q) else None)
           | _ \<Rightarrow> None))"

text \<open>The sort is stable: equal weights keep the order of the header.\<close>

definition parse_accept_language :: "string \<Rightarrow> string list" where
  "parse_accept_language header =
     map fst (sort_key (\<lambda>p. 1000 - snd p)
       (List.map_filter language_preference (split_on CHR '','' header)))"

definition truthy_candidates :: "string option \<Rightarrow> (string \<Rightarrow> string list) \<Rightarrow> string list" where
  "truthy_candidates s split = (case s of None \<Rightarrow> [] | Some x \<Rightarrow> if x = [] then [] else split x)"

text \<open>The candidates of a request in the order of the chain, before the global default.\<close>

definition locale_candidates ::
    "string option \<Rightarrow> string option \<Rightarrow> string \<Rightarrow> string option \<Rightarrow> string list" where
  "locale_candidates ui_locales accept_language org_default invitation =
     truthy_candidates ui_locales (split_spaces []) @
     truthy_candidates accept_language parse_accept_language @
     truthy_candidates invitation (\<lambda>l. [l]) @
     truthy_candidates (Some org_default) (\<lambda>l. [l])"

definition resolve_locale ::
    "locale_env \<Rightarrow> time \<Rightarrow> (string \<Rightarrow> config_answer) \<Rightarrow> string option \<Rightarrow> string option \<Rightarrow> string \<Rightarrow>
     string option \<Rightarrow> (config_process, string) op" where
  "resolve_locale env now table ui_locales accept_language org_default invitation =
     (case first_available env (locale_candidates ui_locales accept_language org_default invitation) of
        Some l \<Rightarrow> return_op l
      | None \<Rightarrow>
          andthen (get_system_config_string now table ''default_locale'') (\<lambda>global.
          return_op (case first_available env [global] of Some l \<Rightarrow> l | None \<Rightarrow> fallback_locale)))"

subsection \<open>The translator\<close>

text \<open>Nested objects flatten to dotted keys; a later key replaces an earlier one.\<close>

fun flatten_overrides :: "string \<Rightarrow> (string \<times> json) list \<Rightarrow> (string \<times> string) list \<Rightarrow> (string \<times> string) list" where
  "flatten_overrides pre [] result = result"
| "flatten_overrides pre ((k, v) # fs) result =
     (let full_key = (if pre = [] then k else pre @ ''.'' @ k)
      in flatten_overrides pre fs
           (case v of
              JObj gs \<Rightarrow> AList.updates (map fst (flatten_overrides full_key gs []))
                (map snd (flatten_overrides full_key gs [])) result
            | JStr s \<Rightarrow> AList.update full_key s result
            | _ \<Rightarrow> result))"

text \<open>A file that does not hold a JSON object has no overrides.\<close>

definition load_org_overrides ::
    "locale_env \<Rightarrow> string \<Rightarrow> string \<Rightarrow> string \<Rightarrow> (string \<times> json) list option" where
  "load_org_overrides env org_slug locale namespace =
     (case le_file env org_slug locale namespace of
        None \<Rightarrow> None
      | Some content \<Rightarrow>
          (case json_parse content of Some (JObj fs) \<Rightarrow> Some fs | _ \<Rightarrow> None))"

definition org_override_cache ::
    "locale_env \<Rightarrow> string \<Rightarrow> string option \<Rightarrow> string \<Rightarrow> (string \<times> string) list option" where
  "org_override_cache env locale org_slug namespace =
     (if truthy_candidates org_slug (\<lambda>s. [s]) = [] \<or> namespace \<notin> set translation_namespaces then None
      else map_option (\<lambda>fs. flatten_overrides [] fs [])
        (load_org_overrides env (nullish org_slug []) locale namespace))"

text \<open>\<open>text.replace(/\\{\\{([^{}]+)\\}\\}/g, ...)\<close>: values are not scanned again.\<close>

definition placeholder :: "string \<Rightarrow> (string \<times> string) option" where
  "placeholder s =
     (case s of
        a # b # rest \<Rightarrow>
          if a = CHR ''{'' \<and> b = CHR ''{'' then
            (let key = takeWhile (\<lambda>c. c \<noteq> CHR ''{'' \<and> c \<noteq> CHR ''}'') rest;
                 after = drop (length key) rest
             in if key \<noteq> [] \<and> take 2 after = ''}}'' then Some (key, drop 2 after) else None)
          else None
      | _ \<Rightarrow> None)"

lemma placeholder_shorter: "placeholder s = Some (key, rest) \<Longrightarrow> length rest < length s"
  by (auto simp: placeholder_def Let_def split: list.splits if_splits)

function interpolate :: "string \<Rightarrow> (string \<times> string) list \<Rightarrow> string" where
  "interpolate s options =
     (case s of
        [] \<Rightarrow> []
      | c # cs \<Rightarrow>
          (case placeholder s of
             Some (key, rest) \<Rightarrow>
               (case map_of options key of
                  None \<Rightarrow> ''{{'' @ key @ ''}}'' | Some v \<Rightarrow> v) @ interpolate rest options
           | None \<Rightarrow> c # interpolate cs options))"
  by pat_completeness auto
termination
  by (relation "measure (\<lambda>(s, options). length s)") (auto dest: placeholder_shorter)

declare interpolate.simps [simp del]

definition interpolate_override :: "string \<Rightarrow> (string \<times> string) list option \<Rightarrow> string" where
  "interpolate_override s options = (case options of None \<Rightarrow> s | Some os \<Rightarrow> interpolate s os)"

text \<open>The namespace and key of \<open>ns:key\<close> or \<open>ns.key\<close>.\<close>

definition before :: "char \<Rightarrow> string \<Rightarrow> string" where
  "before c s = takeWhile (\<lambda>x. x \<noteq> c) s"

definition after_first :: "char \<Rightarrow> string \<Rightarrow> string" where
  "after_first c s = drop (Suc (length (before c s))) s"

definition split_key :: "string \<Rightarrow> string option \<times> string" where
  "split_key key =
     (if CHR '':'' \<in> set key then (Some (before CHR '':'' key), after_first CHR '':'' key)
      else if CHR ''.'' \<in> set key \<and> before CHR ''.'' key \<in> set translation_namespaces
      then (Some (before CHR ''.'' key), after_first CHR ''.'' key)
      else (None, key))"

definition translate ::
    "locale_env \<Rightarrow> string \<Rightarrow> string option \<Rightarrow> string \<Rightarrow> (string \<times> string) list option \<Rightarrow> string" where
  "translate env locale org_slug key options =
     (case split_key key of
        (ns, lookup_key) \<Rightarrow>
          (case Option.bind ns (\<lambda>n. Option.bind (org_override_cache env locale org_slug n)
                  (\<lambda>overrides. map_of overrides lookup_key)) of
             Some s \<Rightarrow> interpolate_override s options
           | None \<Rightarrow>
               nullish (le_lookup env locale
                 (case ns of None \<Rightarrow> lookup_key | Some n \<Rightarrow> if n = [] then lookup_key else n @ '':'' @ lookup_key) options) key))"

definition prepare_translation_function ::
    "locale_env \<Rightarrow> string \<Rightarrow> string option \<Rightarrow> app_error + (string \<Rightarrow> (string \<times> string) list option \<Rightarrow> string)" where
  "prepare_translation_function env locale org_slug =
     (if is_locale_available env (Some locale) then Inr (translate env locale org_slug)
      else Inl (JsError ''Translation locale is not available''))"

end
