(* ===== verification/Bytes.thy ===== *)
theory Bytes
  imports Prelude
begin

text \<open>
  The byte codecs of Node's \<open>Buffer\<close> the source uses. A buffer is a string of byte-valued
  characters, a JavaScript string a string of characters up to U+00FF.

  \<^item> \<open>base64url\<close>: three bytes are four characters of the URL-safe alphabet, without padding; the
    decoder takes both alphabets, skips any other character and drops an incomplete last group.
  \<^item> \<open>utf8\<close>: one byte up to U+007F, two up to U+00FF. A sequence that is none of these decodes
    to a question mark, which stands for the characters outside the modelled range.
\<close>

subsection \<open>Base64url\<close>

definition base64url_alphabet :: string where
  "base64url_alphabet = ''ABCDEFGHIJKLMNOPQRSTUVWXYZabcdefghijklmnopqrstuvwxyz0123456789-_''"

fun to_sextets :: "nat list \<Rightarrow> nat list" where
  "to_sextets [] = []"
| "to_sextets [a] = [a div 4, a mod 4 * 16]"
| "to_sextets [a, b] = [a div 4, a mod 4 * 16 + b div 16, b mod 16 * 4]"
| "to_sextets (a # b # c # bs) =
     a div 4 # (a mod 4 * 16 + b div 16) # (b mod 16 * 4 + c div 64) # c mod 64 # to_sextets bs"

fun of_sextets :: "nat list \<Rightarrow> nat list" where
  "of_sextets [] = []"
| "of_sextets [x] = []"
| "of_sextets [x, y] = [x * 4 + y div 16]"
| "of_sextets [x, y, z] = [x * 4 + y div 16, y mod 16 * 16 + z div 4]"
| "of_sextets (x # y # z # w # xs) =
     (x * 4 + y div 16) # (y mod 16 * 16 + z div 4) # (z mod 4 * 64 + w) # of_sextets xs"

definition sextet_of :: "char \<Rightarrow> nat option" where
  "sextet_of c =
     (if c = CHR ''+'' then Some 62 else if c = CHR ''/'' then Some 63
      else map_of (zip base64url_alphabet [0 ..< 64]) c)"

definition base64url_encode :: "string \<Rightarrow> string" where
  "base64url_encode bs = map (\<lambda>x. base64url_alphabet ! x) (to_sextets (map of_char bs))"

definition base64url_decode :: "string \<Rightarrow> string" where
  "base64url_decode s = map char_of (of_sextets (List.map_filter sextet_of s))"

lemma of_to_sextets: "\<forall>b \<in> set bs. b < 256 \<Longrightarrow> of_sextets (to_sextets bs) = bs"
  by (induction bs rule: to_sextets.induct) auto

lemma to_sextets_range: "\<forall>b \<in> set bs. b < 256 \<Longrightarrow> x \<in> set (to_sextets bs) \<Longrightarrow> x < 64"
  by (induction bs rule: to_sextets.induct) auto

lemma to_sextets_bytes: "x \<in> set (to_sextets (map of_char (bs :: string))) \<Longrightarrow> x < 64"
  by (rule to_sextets_range [of "map of_char bs"]) (auto simp only: list.set_map nat_of_char_less_256)

lemma alphabet_length: "length base64url_alphabet = 64"
  by (simp add: base64url_alphabet_def)

lemma alphabet_chars: "distinct base64url_alphabet" "CHR ''+'' \<notin> set base64url_alphabet"
    "CHR ''/'' \<notin> set base64url_alphabet"
  by (simp_all add: base64url_alphabet_def)

lemma sextet_of_alphabet:
  assumes "x < 64"
  shows "sextet_of (base64url_alphabet ! x) = Some x"
proof -
  have "base64url_alphabet ! x \<in> set base64url_alphabet"
    using assms by (simp add: alphabet_length)
  then have "base64url_alphabet ! x \<noteq> CHR ''+''" "base64url_alphabet ! x \<noteq> CHR ''/''"
    using alphabet_chars by metis+
  moreover have "map_of (zip base64url_alphabet [0 ..< 64]) (base64url_alphabet ! x) = Some ([0 ..< 64] ! x)"
    using assms alphabet_chars(1) by (intro map_of_zip_nth) (simp_all add: alphabet_length)
  ultimately show ?thesis
    using assms by (simp add: sextet_of_def)
qed

lemma map_filter_alphabet:
  "\<forall>x \<in> set xs. x < 64 \<Longrightarrow> List.map_filter sextet_of (map (\<lambda>x. base64url_alphabet ! x) xs) = xs"
  by (induction xs) (auto simp: sextet_of_alphabet map_filter_simps)

lemma base64url_roundtrip [simp]: "base64url_decode (base64url_encode bs) = bs"
proof -
  have range: "\<forall>b \<in> set (map of_char bs). (b :: nat) < 256"
    by simp
  then have "List.map_filter sextet_of (base64url_encode bs) = to_sextets (map of_char bs)"
    unfolding base64url_encode_def by (intro map_filter_alphabet ballI to_sextets_bytes)
  with of_to_sextets [OF range] show ?thesis
    by (simp add: base64url_decode_def o_def)
qed

lemma base64url_encode_chars: "c \<in> set (base64url_encode bs) \<Longrightarrow> c \<in> set base64url_alphabet"
  by (auto simp: base64url_encode_def alphabet_length intro!: nth_mem to_sextets_bytes)

subsection \<open>UTF-8\<close>

definition utf8_char :: "char \<Rightarrow> string" where
  "utf8_char c =
     (let n = (of_char c :: nat)
      in if n < 128 then [c] else [char_of (192 + n div 64), char_of (128 + n mod 64)])"

definition utf8_encode :: "string \<Rightarrow> string" where
  "utf8_encode s = concat (map utf8_char s)"

fun utf8_decode :: "string \<Rightarrow> string" where
  "utf8_decode [] = []"
| "utf8_decode [b] = [if (of_char b :: nat) < 128 then b else CHR ''?'']"
| "utf8_decode (b # c # bs) =
     (let n = (of_char b :: nat); m = (of_char c :: nat)
      in if n < 128 then b # utf8_decode (c # bs)
         else if (n = 194 \<or> n = 195) \<and> m div 64 = 2
         then char_of ((n - 192) * 64 + m mod 64) # utf8_decode bs
         else CHR ''?'' # utf8_decode (c # bs))"

lemma utf8_decode_ascii: "(of_char b :: nat) < 128 \<Longrightarrow> utf8_decode (b # bs) = b # utf8_decode bs"
  by (cases bs) (simp_all add: Let_def)

lemma utf8_decode_two:
  assumes "(of_char b :: nat) = 194 \<or> (of_char b :: nat) = 195" and "(of_char c :: nat) div 64 = 2"
  shows "utf8_decode (b # c # bs) = char_of ((of_char b - 192) * 64 + of_char c mod (64 :: nat)) # utf8_decode bs"
  using assms by (auto simp: Let_def)

lemma utf8_decode_pair:
  assumes "q = 2 \<or> q = 3" and "r < (64 :: nat)"
  shows "utf8_decode (char_of (192 + q) # char_of (128 + r) # bs) = char_of (q * 64 + r) # utf8_decode bs"
proof -
  have b: "(of_char (char_of (192 + q) :: char) :: nat) = 192 + q"
    by (rule trans [OF of_char_of], rule mod_less) (use assms in linarith)
  have c: "(of_char (char_of (128 + r) :: char) :: nat) = 128 + r"
    by (rule trans [OF of_char_of], rule mod_less) (use assms in linarith)
  have "128 + r = r + 2 * 64"
    by linarith
  then have r: "(128 + r) mod 64 = r" "(128 + r) div 64 = 2"
    using assms(2) by (simp_all only: mod_mult_self1 mod_less div_mult_self1 div_less)
  have "192 + q = 194 \<or> 192 + q = 195"
    using assms(1) by linarith
  then show ?thesis
    using utf8_decode_two [of "char_of (192 + q)" "char_of (128 + r)" bs]
    unfolding b c r by simp
qed

lemma utf8_decode_char: "utf8_decode (utf8_char c @ bs) = c # utf8_decode bs"
proof (cases "(of_char c :: nat) < 128")
  case True
  then show ?thesis
    by (simp add: utf8_char_def utf8_decode_ascii)
next
  case False
  define n where "n = (of_char c :: nat)"
  have "128 \<le> n" "n < 256" and c: "c = char_of n"
    using False nat_of_char_less_256 [of c] by (simp_all add: n_def)
  then have "n div 64 = 2 \<or> n div 64 = 3"
    by linarith
  moreover have "n div 64 * 64 + n mod 64 = n" "n mod 64 < 64"
    by simp_all
  ultimately have "utf8_decode (char_of (192 + n div 64) # char_of (128 + n mod 64) # bs) =
      c # utf8_decode bs"
    using utf8_decode_pair [of "n div 64" "n mod 64" bs] c by (simp only: )
  moreover have "utf8_char c = [char_of (192 + n div 64), char_of (128 + n mod 64)]"
    using False by (simp add: utf8_char_def n_def Let_def)
  ultimately show ?thesis
    by (simp only: append.simps)
qed

lemma utf8_roundtrip [simp]: "utf8_decode (utf8_encode s) = s"
  by (induction s) (simp_all add: utf8_encode_def utf8_decode_char)

lemma utf8_encode_ascii: "\<forall>c \<in> set s. (of_char c :: nat) < 128 \<Longrightarrow> utf8_encode s = s"
  by (induction s) (auto simp: utf8_encode_def utf8_char_def)

end
