(* ===== verification/Email.thy ===== *)
theory Email
  imports Organizations Translations Bytes
begin

text \<open>
  packages/server/src/auth/effective-branding.ts and email-service.ts: the branding of a message and
  the operations that render, send and audit it. All but the recovery message catch every failure.

  The environment holds the configured issuer, the metadata of uploaded assets (the table
  \<open>branding_assets\<close>; \<open>None\<close> when its query fails), the origin of a parsed URL, the compiled Handlebars
  templates and the mail transport. The transport gets the number of the attempt, so that attempts
  of one message may end differently; a message may also be accepted and the caller still fail.
\<close>

datatype mail_outcome = MailAccepted | MailRejected | MailAcceptedThenFailed

record email_message =
  em_to :: string
  em_subject :: string
  em_html :: string
  em_text :: string
  em_message_id :: "string option"

record mail_env =
  me_issuer :: string
  me_org_env :: org_env
  me_assets :: "string \<Rightarrow> asset_type list option"
  me_origin :: "string \<Rightarrow> string option"
  me_locale_env :: locale_env
  me_template :: "string \<Rightarrow> string \<Rightarrow> ((string \<times> json) list \<Rightarrow> string) option"
  me_year :: int
  me_config :: "string \<Rightarrow> config_answer"
  me_transport :: "nat \<Rightarrow> email_message \<Rightarrow> mail_outcome"
  me_error_text :: "app_error \<Rightarrow> string"

record mail_world =
  mw_flow :: flow
  mw_config :: config_process
  mw_sends :: nat
  mw_outbox :: "email_message list"

subsection \<open>Branding\<close>

definition default_branding_primary_color :: string where
  "default_branding_primary_color = ''#3B82F6''"

record effective_branding =
  eb_company_name :: string
  eb_primary_color :: string
  eb_logo_url :: "string option"
  eb_favicon_url :: "string option"
  eb_custom_css :: "string option"
  eb_image_sources :: "string list"

text \<open>\<open>encodeURIComponent\<close>.\<close>

definition uri_unreserved :: "char \<Rightarrow> bool" where
  "uri_unreserved c = (is_upper c \<or> is_lower c \<or> is_digit c \<or> c \<in> set ''-_.!~*()'' \<or> c = CHR 0x27)"

definition encode_uri_component :: "string \<Rightarrow> string" where
  "encode_uri_component s = concat (map (\<lambda>b. if uri_unreserved b then [b]
     else CHR ''%'' # to_upper [hex_digit (of_char b div 16), hex_digit (of_char b mod 16)]) (utf8_encode s))"

definition asset_name :: "asset_type \<Rightarrow> string" where
  "asset_name t = (case t of LogoAsset \<Rightarrow> ''logo'' | FaviconAsset \<Rightarrow> ''favicon'')"

definition has_asset :: "asset_type list \<Rightarrow> asset_type \<Rightarrow> bool" where
  "has_asset assets t = list_ex (\<lambda>a. a = t) assets"

definition public_asset_url :: "mail_env \<Rightarrow> string \<Rightarrow> asset_type \<Rightarrow> string" where
  "public_asset_url env organization_slug t =
     rev (dropWhile (\<lambda>c. c = CHR ''/'') (rev (me_issuer env))) @ ''/'' @
     encode_uri_component organization_slug @ ''/branding/'' @ asset_name t"

definition safe_configured_url :: "mail_env \<Rightarrow> string option \<Rightarrow> string option" where
  "safe_configured_url env v =
     (case v of
        None \<Rightarrow> None
      | Some s \<Rightarrow>
          if trim s = [] then None
          else (case validate_branding_image_url (me_org_env env) s of Inl e \<Rightarrow> None | Inr u \<Rightarrow> Some u))"

definition image_source :: "mail_env \<Rightarrow> string option \<Rightarrow> bool \<Rightarrow> string option" where
  "image_source env url uploaded =
     (case url of None \<Rightarrow> None
      | Some u \<Rightarrow> if uploaded then Some [CHR 0x27, CHR ''s'', CHR ''e'', CHR ''l'', CHR ''f'', CHR 0x27]
          else me_origin env u)"

text \<open>\<open>value?.trim() || fallback\<close>.\<close>

definition trimmed_or :: "string option \<Rightarrow> string \<Rightarrow> string" where
  "trimmed_or v fallback =
     (case v of None \<Rightarrow> fallback | Some s \<Rightarrow> if trim s = [] then fallback else trim s)"

definition resolve_effective_branding :: "mail_env \<Rightarrow> organization_row \<Rightarrow> effective_branding" where
  "resolve_effective_branding env org =
     (let assets = nullish (me_assets env (og_id org)) [];
          has_logo = has_asset assets LogoAsset;
          has_favicon = has_asset assets FaviconAsset;
          logo = (if has_logo then Some (public_asset_url env (og_slug org) LogoAsset)
                  else safe_configured_url env (og_branding_logo_url org));
          favicon = (if has_favicon then Some (public_asset_url env (og_slug org) FaviconAsset)
                  else safe_configured_url env (og_branding_favicon_url org))
      in \<lparr>eb_company_name = trimmed_or (og_branding_company_name org) (og_name org),
          eb_primary_color = trimmed_or (og_branding_primary_color org) default_branding_primary_color,
          eb_logo_url = logo,
          eb_favicon_url = favicon,
          eb_custom_css = og_branding_custom_css org,
          eb_image_sources = js_set (List.map_filter id
            [image_source env logo has_logo, image_source env favicon has_favicon])\<rparr>)"

definition optional_json :: "string option \<Rightarrow> json" where
  "optional_json v = (case v of None \<Rightarrow> JNull | Some s \<Rightarrow> JStr s)"

definition branding_json :: "effective_branding \<Rightarrow> json" where
  "branding_json b = JObj [
     (''companyName'', JStr (eb_company_name b)), (''primaryColor'', JStr (eb_primary_color b)),
     (''logoUrl'', optional_json (eb_logo_url b)), (''faviconUrl'', optional_json (eb_favicon_url b)),
     (''customCss'', optional_json (eb_custom_css b)),
     (''imageSources'', JArr (map JStr (eb_image_sources b)))]"

subsection \<open>Rendering and sending\<close>

record email_user =
  eu_id :: "string option"
  eu_email :: string
  eu_given_name :: "string option"
  eu_family_name :: "string option"

definition get_user_display_name :: "email_user \<Rightarrow> string" where
  "get_user_display_name u =
     (case eu_given_name u of
        Some g \<Rightarrow>
          if g = [] then hd (split_on CHR ''@'' (eu_email u))
          else (case eu_family_name u of
                  Some f \<Rightarrow> if f = [] then g else g @ '' '' @ f | None \<Rightarrow> g)
      | None \<Rightarrow> hd (split_on CHR ''@'' (eu_email u)))"

text \<open>
  \<open>renderEmail\<close>: the template of the organization or the default one (\<open>me_template\<close> gives the compiled
  file of a directory); a missing plaintext template is the empty text.
\<close>

definition resolve_template :: "mail_env \<Rightarrow> string \<Rightarrow> string \<Rightarrow> ((string \<times> json) list \<Rightarrow> string) option" where
  "resolve_template env org_slug path =
     (case me_template env org_slug path of Some t \<Rightarrow> Some t | None \<Rightarrow> me_template env ''default'' path)"

definition render_email ::
    "mail_env \<Rightarrow> string \<Rightarrow> string \<Rightarrow> (string \<times> json) list \<Rightarrow> app_error + string \<times> string" where
  "render_email env template org_slug vars =
     (let enriched = vars @ [(''year'', JNum (me_year env))]
      in case resolve_template env org_slug (template @ ''.hbs'') of
           None \<Rightarrow> Inl (JsError ''Email template not found'')
         | Some html \<Rightarrow> Inr (html enriched,
             (case resolve_template env org_slug (template @ ''.txt.hbs'') of
                None \<Rightarrow> [] | Some t \<Rightarrow> t enriched)))"

definition send_message :: "mail_env \<Rightarrow> email_message \<Rightarrow> ('z mail_world_scheme, unit) op" where
  "send_message env m w =
     (let w' = w\<lparr>mw_sends := Suc (mw_sends w)\<rparr>; delivered = w'\<lparr>mw_outbox := mw_outbox w' @ [m]\<rparr>
      in case me_transport env (mw_sends w) m of
           MailAccepted \<Rightarrow> (Inr (), delivered)
         | MailRejected \<Rightarrow> (Inl (JsError ''SMTP''), w')
         | MailAcceptedThenFailed \<Rightarrow> (Inl (JsError ''SMTP''), delivered))"

definition in_flow :: "(flow, 'a) op \<Rightarrow> ('z mail_world_scheme, 'a) op" where
  "in_flow m w = (case m (mw_flow w) of (r, f) \<Rightarrow> (r, w\<lparr>mw_flow := f\<rparr>))"

definition in_config :: "(config_process, 'a) op \<Rightarrow> ('z mail_world_scheme, 'a) op" where
  "in_config m w = (case m (mw_config w) of (r, p) \<Rightarrow> (r, w\<lparr>mw_config := p\<rparr>))"

definition lift_result :: "app_error + 'a \<Rightarrow> ('s, 'a) op" where
  "lift_result r s = (r, s)"

text \<open>\<open>writeAuditLog\<close> without \<open>await\<close>: its own failure reaches nobody.\<close>

definition detached_audit :: "audit_entry \<Rightarrow> ('z mail_world_scheme, unit) op" where
  "detached_audit e w = (Inr (), snd (in_flow (write_audit_log e) w))"

definition email_entry :: "organization_row \<Rightarrow> email_user \<Rightarrow> string \<Rightarrow> string \<Rightarrow> json option \<Rightarrow> audit_entry" where
  "email_entry org u event description metadata = (blank_entry event ''auth'')
     \<lparr>ae_organization_id := Some (og_id org), ae_user_id := eu_id u,
      ae_description := Some description, ae_metadata := metadata\<rparr>"

record email_kind =
  ek_template :: string
  ek_event :: string
  ek_sent :: string
  ek_failed :: string

text \<open>What every fire-and-forget sender does with its template, subject and vars.\<close>

definition deliver_email ::
    "mail_env \<Rightarrow> email_kind \<Rightarrow> organization_row \<Rightarrow> email_user \<Rightarrow> json option \<Rightarrow>
     ('z mail_world_scheme, (string \<times> json) list \<times> string) op \<Rightarrow> ('z mail_world_scheme, bool) op" where
  "deliver_email env kind org u metadata prepare =
     catch_op
       (andthen prepare (\<lambda>(vars, subject).
        andthen (lift_result (render_email env (ek_template kind) (og_slug org) vars)) (\<lambda>(html, body).
        andthen (send_message env \<lparr>em_to = eu_email u, em_subject = subject, em_html = html,
          em_text = body, em_message_id = None\<rparr>) (\<lambda>_.
        andthen (detached_audit (email_entry org u (ek_event kind) (ek_sent kind @ eu_email u) metadata))
          (\<lambda>_. return_op True)))))
       (\<lambda>e. andthen (detached_audit (email_entry org u ''email.send.failed'' (ek_failed kind @ eu_email u)
          (Some (JObj [(''error'', JStr (me_error_text env e)), (''template'', JStr (ek_template kind))]))))
          (\<lambda>_. return_op False))"

definition branded_fields ::
    "mail_env \<Rightarrow> organization_row \<Rightarrow> email_user \<Rightarrow> string \<Rightarrow> (string \<times> json) list \<Rightarrow> (string \<times> json) list" where
  "branded_fields env org u locale vars =
     (''userName'', JStr (get_user_display_name u)) # vars @
     [(''branding'', branding_json (resolve_effective_branding env org)), (''locale'', JStr locale)]"

definition send_magic_link_email ::
    "mail_env \<Rightarrow> email_user \<Rightarrow> organization_row \<Rightarrow> string \<Rightarrow> string \<Rightarrow> ('z mail_world_scheme, bool) op" where
  "send_magic_link_email env u org url locale = deliver_email env
     \<lparr>ek_template = ''magic-link'', ek_event = ''email.send.magic_link'',
      ek_sent = ''Magic link email sent to '', ek_failed = ''Failed to send magic link email to ''\<rparr> org u None
     (return_op (branded_fields env org u locale
        [(''magicLinkUrl'', JStr url), (''expiresMinutes'', JNum 15)], ''Sign in to your account''))"

definition send_password_reset_email ::
    "mail_env \<Rightarrow> email_user \<Rightarrow> organization_row \<Rightarrow> string \<Rightarrow> string \<Rightarrow> ('z mail_world_scheme, bool) op" where
  "send_password_reset_email env u org url locale = deliver_email env
     \<lparr>ek_template = ''password-reset'', ek_event = ''email.send.password_reset'',
      ek_sent = ''Password reset email sent to '', ek_failed = ''Failed to send password reset email to ''\<rparr>
     org u None
     (return_op (branded_fields env org u locale
        [(''resetUrl'', JStr url), (''expiresMinutes'', JNum 60)], ''Reset your password''))"

definition send_welcome_email ::
    "mail_env \<Rightarrow> email_user \<Rightarrow> organization_row \<Rightarrow> string \<Rightarrow> ('z mail_world_scheme, bool) op" where
  "send_welcome_email env u org locale =
     (let company = eb_company_name (resolve_effective_branding env org)
      in deliver_email env
     \<lparr>ek_template = ''welcome'', ek_event = ''email.send.welcome'',
      ek_sent = ''Welcome email sent to '', ek_failed = ''Failed to send welcome email to ''\<rparr> org u None
     (return_op (branded_fields env org u locale [(''orgName'', JStr company)], ''Welcome to '' @ company)))"

definition send_otp_code_email ::
    "mail_env \<Rightarrow> email_user \<Rightarrow> organization_row \<Rightarrow> string \<Rightarrow> int \<Rightarrow> string \<Rightarrow> ('z mail_world_scheme, bool) op" where
  "send_otp_code_email env u org code expires_minutes locale = deliver_email env
     \<lparr>ek_template = ''otp-code'', ek_event = ''email.send.otp_code'',
      ek_sent = ''OTP code email sent to '', ek_failed = ''Failed to send OTP code email to ''\<rparr> org u None
     (return_op (branded_fields env org u locale
        [(''code'', JStr code), (''expiresMinutes'', JNum expires_minutes),
         (''orgName'', JStr (eb_company_name (resolve_effective_branding env org)))],
        ''Your verification code: '' @ code))"

definition send_password_changed_email ::
    "mail_env \<Rightarrow> email_user \<Rightarrow> organization_row \<Rightarrow> string \<Rightarrow> ('z mail_world_scheme, bool) op" where
  "send_password_changed_email env u org locale = deliver_email env
     \<lparr>ek_template = ''password-changed'', ek_event = ''email.send.password_changed'',
      ek_sent = ''Password changed email sent to '',
      ek_failed = ''Failed to send password changed email to ''\<rparr> org u None
     (return_op (branded_fields env org u locale [], ''Your password has been changed''))"

subsection \<open>Invitations\<close>

record invitation_email_options =
  io_expires_in_seconds :: int
  io_personal_message :: "string option"
  io_inviter_name :: "string option"
  io_invitation_id :: "string option"

definition format_invitation_lifetime ::
    "int \<Rightarrow> (string \<Rightarrow> (string \<times> string) list option \<Rightarrow> string) \<Rightarrow> string" where
  "format_invitation_lifetime seconds tr =
     (let total = max 1 seconds; days = total div 86400; hours = total div 3600;
          minutes = max 1 ((total + 59) div 60);
          unit = (\<lambda>one other n. tr (''emails.invitation.duration.'' @ (if n = 1 then one else other))
            (Some [(''count'', show_int n)]))
      in if days \<ge> 1 \<and> total mod 86400 = 0 then unit ''day_one'' ''day_other'' days
         else if hours \<ge> 1 \<and> total mod 3600 = 0 then unit ''hour_one'' ''hour_other'' hours
         else unit ''minute_one'' ''minute_other'' minutes)"

definition invitation_text_keys :: "bool \<Rightarrow> (string \<times> string \<times> bool) list" where
  "invitation_text_keys inviter =
     [(''heading'', ''emails.invitation.heading'', False),
      (''greeting'', ''emails.invitation.greeting'', True),
      (''description'', if inviter then ''emails.invitation.description_inviter''
         else ''emails.invitation.description'', True),
      (''htmlInstructions'', ''emails.invitation.html_instructions'', False),
      (''textInstructions'', ''emails.invitation.text_instructions'', False),
      (''expiry'', ''emails.invitation.expiry'', True),
      (''acceptLabel'', ''emails.invitation.accept_label'', False),
      (''copyLinkLabel'', ''emails.invitation.copy_link_label'', False),
      (''personalMessageLabel'', if inviter then ''emails.invitation.personal_message_label_inviter''
         else ''emails.invitation.personal_message_label'', True)]"

definition build_invitation_context ::
    "mail_env \<Rightarrow> time \<Rightarrow> email_user \<Rightarrow> organization_row \<Rightarrow> string \<Rightarrow> string option \<Rightarrow>
     invitation_email_options \<Rightarrow> ('z mail_world_scheme, (string \<times> json) list \<times> string) op" where
  "build_invitation_context env now u org url locale options =
     (let branding = resolve_effective_branding env org; inviter = truthy (io_inviter_name options)
      in andthen (in_config (resolve_locale (me_locale_env env) now (me_config env) None None
           (og_default_locale org) locale)) (\<lambda>selected.
         andthen (lift_result (prepare_translation_function (me_locale_env env) selected
           (Some (og_slug org)))) (\<lambda>tr.
         let expires_in = format_invitation_lifetime (io_expires_in_seconds options) tr;
             vals = [(''orgName'', eb_company_name branding), (''userName'', get_user_display_name u),
               (''expiresIn'', expires_in), (''inviterName'', nullish (io_inviter_name options) [])];
             copy = map (\<lambda>(name, key, interpolated). (name, JStr (tr key (if interpolated then Some vals else None))))
               (invitation_text_keys inviter)
         in return_op
           ([(''userName'', JStr (get_user_display_name u)), (''inviteUrl'', JStr url),
             (''orgName'', JStr (eb_company_name branding)), (''expiresIn'', JStr expires_in),
             (''branding'', branding_json branding), (''locale'', JStr selected),
             (''invitationCopy'', JObj copy),
             (''personalMessage'', optional_json (io_personal_message options)),
             (''inviterName'', optional_json (io_inviter_name options))],
            tr (if inviter then ''emails.invitation.subject_inviter''
              else ''emails.invitation.subject'') (Some vals)))))"

text \<open>The answer \<open>True\<close> is \<open>sent\<close>, \<open>False\<close> is \<open>failed\<close>.\<close>

definition send_invitation_email ::
    "mail_env \<Rightarrow> time \<Rightarrow> email_user \<Rightarrow> organization_row \<Rightarrow> string \<Rightarrow> string option \<Rightarrow>
     invitation_email_options \<Rightarrow> ('z mail_world_scheme, bool) op" where
  "send_invitation_email env now u org url locale options = deliver_email env
     \<lparr>ek_template = ''invitation'', ek_event = ''email.send.invitation'',
      ek_sent = ''Invitation email sent to '', ek_failed = ''Failed to send invitation email to ''\<rparr> org u
     (if truthy (io_invitation_id options)
      then Some (JObj [(''invitationId'', JStr (nullish (io_invitation_id options) []))]) else None)
     (build_invitation_context env now u org url locale options)"

definition render_invitation_email ::
    "mail_env \<Rightarrow> time \<Rightarrow> email_user \<Rightarrow> organization_row \<Rightarrow> string \<Rightarrow> string option \<Rightarrow>
     invitation_email_options \<Rightarrow> ('z mail_world_scheme, string \<times> string \<times> string) op" where
  "render_invitation_email env now u org url locale options =
     andthen (build_invitation_context env now u org url locale options) (\<lambda>(vars, subject).
     andthen (lift_result (render_email env ''invitation'' (og_slug org) vars)) (\<lambda>(html, body).
     return_op (html, body, subject)))"

subsection \<open>Recovery messages\<close>

record recovery_email =
  re_magic_link :: bool
  re_user :: email_user
  re_organization :: organization_row
  re_recovery_url :: string
  re_locale :: string
  re_message_id :: string

definition send_recovery_email_strict :: "mail_env \<Rightarrow> recovery_email \<Rightarrow> ('z mail_world_scheme, unit) op" where
  "send_recovery_email_strict env i =
     (let ml = re_magic_link i
      in andthen (lift_result (render_email env (if ml then ''magic-link'' else ''password-reset'')
           (og_slug (re_organization i))
           [(''userName'', JStr (get_user_display_name (re_user i))),
            (if ml then ''magicLinkUrl'' else ''resetUrl'', JStr (re_recovery_url i)),
            (''expiresMinutes'', JNum (if ml then 15 else 60)),
            (''branding'', branding_json (resolve_effective_branding env (re_organization i))),
            (''locale'', JStr (re_locale i))])) (\<lambda>(html, body).
         send_message env \<lparr>em_to = eu_email (re_user i),
           em_subject = (if ml then ''Sign in to your account'' else ''Reset your password''),
           em_html = html, em_text = body, em_message_id = Some (re_message_id i)\<rparr>))"

end
