(* ===== verification/RecoveryWorker.thy ===== *)
theory RecoveryWorker
  imports RecoveryJobs Email
begin

text \<open>
  packages/server/src/auth/recovery-worker.ts: one claim cycle of the durable worker and the
  single-flight scheduler around it.

  A cycle runs on \<open>worker_world\<close>: the store the repository queries, what the mail service uses, the
  clock and the events shown to the observer. \<open>ww_script\<close> says for each awaited database call how long it takes and whether it is
  answered: a refused call did not run, an answer that is lost leaves the statement executed and
  the caller with an error. An empty script is an immediate answer.
\<close>

datatype await_outcome = Answered | Refused | AnswerLost

datatype worker_event_kind = EvClaimed | EvCompleted | EvNoOp | EvRetryScheduled | EvLeaseReclaimed
  | EvTerminalFailure | EvShutdownStarted | EvShutdownSettled | EvShutdownTimeout

record worker_event =
  we_event :: worker_event_kind
  we_job_id :: "string option"
  we_attempt :: "nat option"
  we_delay :: "time option"
  we_reason :: "string option"

record worker_world = mail_world +
  ww_now :: time
  ww_script :: "(nat \<times> await_outcome) list"
  ww_events :: "worker_event list"

abbreviation world_jobs :: "worker_world \<Rightarrow> recovery_job_row list" where
  "world_jobs w \<equiv> db_recovery_jobs (flow_db (mw_flow w))"

definition connection_lost :: app_error where
  "connection_lost = JsError ''Connection terminated unexpectedly''"

definition await :: "(flow, 'a) op \<Rightarrow> (worker_world, 'a) op" where
  "await m w =
     (let (d, outcome) = (case ww_script w of [] \<Rightarrow> (0, Answered) | s # _ \<Rightarrow> s);
          w' = w\<lparr>ww_now := ww_now w + int d, ww_script := drop 1 (ww_script w)\<rparr>;
          (r, f) = m (mw_flow w)
      in (case outcome of
            Answered \<Rightarrow> (r, w'\<lparr>mw_flow := f\<rparr>)
          | Refused \<Rightarrow> (Inl connection_lost, w')
          | AnswerLost \<Rightarrow> (Inl connection_lost, w'\<lparr>mw_flow := f\<rparr>)))"

definition clock_now :: "(worker_world, time) op" where
  "clock_now w = (Inr (ww_now w), w)"

subsection \<open>Policy\<close>

definition worker_poll_milliseconds :: nat where
  "worker_poll_milliseconds = 1000"

definition worker_lease_milliseconds :: time where
  "worker_lease_milliseconds = 300000"

definition worker_retry_delays :: "time list" where
  "worker_retry_delays = [1000, 10000, 60000, 300000]"

definition worker_failure_reasons :: "string list" where
  "worker_failure_reasons = [''database_unavailable'', ''smtp_unavailable'', ''smtp_outcome_unknown'',
     ''invalid_protected_input'', ''template_unavailable'', ''lease_exhausted'', ''processing_failed'']"

text \<open>\<open>DELAYS[attemptCount - 1]\<close>, which is \<open>undefined\<close> outside the array.\<close>

definition retry_delay :: "nat \<Rightarrow> time option" where
  "retry_delay attempt =
     (if 1 \<le> attempt \<and> attempt \<le> length worker_retry_delays
      then Some (worker_retry_delays ! (attempt - 1)) else None)"

datatype processing_result = ProcessedCompleted | ProcessedNoOp

type_synonym job_processor = "recovery_job_row \<Rightarrow> (worker_world, processing_result) op"

record worker_env =
  wk_worker_id :: string
  wk_uuid :: "string \<Rightarrow> bool"
  wk_processor :: job_processor
  wk_observed :: bool

text \<open>The repository of the worker; \<open>NOW()\<close> and new identifiers are used by \<open>enqueue\<close> only.\<close>

definition repository_env :: "worker_env \<Rightarrow> job_env" where
  "repository_env env = \<lparr>je_now = 0, je_new_id = [], je_uuid = wk_uuid env\<rparr>"

definition emit :: "worker_env \<Rightarrow> worker_event \<Rightarrow> (worker_world, unit) op" where
  "emit env e w =
     (Inr (), if wk_observed env then w\<lparr>ww_events := ww_events w @ [e]\<rparr> else w)"

definition job_event :: "worker_event_kind \<Rightarrow> recovery_job_row \<Rightarrow> worker_event" where
  "job_event kind job = \<lparr>we_event = kind, we_job_id = Some (rj_id job),
     we_attempt = Some (rj_attempt_count job), we_delay = None, we_reason = None\<rparr>"

subsection \<open>One claim\<close>

definition finish_terminal ::
    "worker_env \<Rightarrow> recovery_job_row \<Rightarrow> string \<Rightarrow> (worker_world, unit) op" where
  "finish_terminal env job reason =
     andthen clock_now (\<lambda>now.
     andthen (await (query (mark_terminal_failure (repository_env env)
       \<lparr>fj_job_id = rj_id job, fj_worker_id = wk_worker_id env, fj_now = now,
        fj_reason = Some reason\<rparr>))) (\<lambda>finished.
     if \<not> finished then return_op ()
     else emit env ((job_event EvTerminalFailure job)\<lparr>we_reason := Some reason\<rparr>)))"

definition retry_claim ::
    "worker_env \<Rightarrow> recovery_job_row \<Rightarrow> string \<Rightarrow> (worker_world, unit) op" where
  "retry_claim env job reason =
     (case retry_delay (rj_attempt_count job) of
        None \<Rightarrow> finish_terminal env job reason
      | Some delay \<Rightarrow>
          andthen clock_now (\<lambda>now.
          andthen (await (query (schedule_retry (repository_env env)
            \<lparr>rt_job_id = rj_id job, rt_worker_id = wk_worker_id env, rt_available_at = now + delay,
             rt_reason = reason, rt_now = now\<rparr>))) (\<lambda>scheduled.
          if \<not> scheduled then return_op ()
          else emit env ((job_event EvRetryScheduled job)
            \<lparr>we_delay := Some delay, we_reason := Some reason\<rparr>))))"

text \<open>The closed failure of an error: anything unexpected is a retryable \<open>processing_failed\<close>.\<close>

definition processing_failure :: "app_error \<Rightarrow> string \<times> bool" where
  "processing_failure e =
     (case e of RecoveryJobProcessingError reason retryable \<Rightarrow> (reason, retryable)
      | _ \<Rightarrow> (''processing_failed'', True))"

definition complete_claim ::
    "worker_env \<Rightarrow> recovery_job_row \<Rightarrow> processing_result \<Rightarrow> (worker_world, unit) op" where
  "complete_claim env job result =
     andthen clock_now (\<lambda>now.
     andthen (await (query (mark_completed (repository_env env)
       \<lparr>fj_job_id = rj_id job, fj_worker_id = wk_worker_id env, fj_now = now, fj_reason = None\<rparr>)))
       (\<lambda>completed.
     if \<not> completed then return_op ()
     else emit env (job_event (case result of ProcessedNoOp \<Rightarrow> EvNoOp | ProcessedCompleted \<Rightarrow> EvCompleted)
       job)))"

definition settle_failure ::
    "worker_env \<Rightarrow> recovery_job_row \<Rightarrow> app_error \<Rightarrow> (worker_world, unit) op" where
  "settle_failure env job e =
     (case processing_failure e of
        (reason, retryable) \<Rightarrow>
          if retryable \<and> rj_attempt_count job < recovery_job_attempt_limit
          then retry_claim env job reason
          else finish_terminal env job reason)"

definition process_claim :: "worker_env \<Rightarrow> recovery_job_row \<Rightarrow> (worker_world, unit) op" where
  "process_claim env job =
     catch_op (andthen (wk_processor env job) (complete_claim env job)) (settle_failure env job)"

definition work_claim :: "worker_env \<Rightarrow> claimed_job \<Rightarrow> (worker_world, unit) op" where
  "work_claim env c =
     (let job = cq_job c
      in if cq_disposition c = LeaseExhausted
         then andthen (emit env (job_event EvClaimed job)) (\<lambda>_.
              finish_terminal env job ''lease_exhausted'')
         else andthen clock_now (\<lambda>now.
              andthen (await (query (begin_attempt (repository_env env)
                \<lparr>bj_job_id = rj_id job, bj_worker_id = wk_worker_id env, bj_now = now\<rparr>))) (\<lambda>started.
              case started of
                None \<Rightarrow> return_op ()
              | Some job' \<Rightarrow>
                  andthen (emit env (job_event EvClaimed job')) (\<lambda>_.
                  andthen (if cq_disposition c = LeaseReclaimed
                    then emit env (job_event EvLeaseReclaimed job') else return_op ()) (\<lambda>_.
                  process_claim env job')))))"

fun work_claims :: "worker_env \<Rightarrow> claimed_job list \<Rightarrow> (worker_world, unit) op" where
  "work_claims env [] = return_op ()"
| "work_claims env (c # cs) = andthen (work_claim env c) (\<lambda>_. work_claims env cs)"

text \<open>A cycle answers whether the batch was full, which makes the next cycle start at once.\<close>

definition run_cycle :: "worker_env \<Rightarrow> (worker_world, bool) op" where
  "run_cycle env =
     andthen clock_now (\<lambda>now.
     andthen (await (query (claim_available (repository_env env)
       \<lparr>cj_worker_id = wk_worker_id env, cj_now = now,
        cj_lease_expired_before = now - worker_lease_milliseconds,
        cj_limit = Some recovery_job_claim_limit\<rparr>))) (\<lambda>jobs.
     andthen (work_claims env jobs) (\<lambda>_.
     return_op (length jobs = recovery_job_claim_limit))))"

end
