(* ===== verification/RecoveryCrypto.thy ===== *)
theory RecoveryCrypto
  imports Json Bytes
begin

text \<open>
  packages/server/src/auth/recovery-crypto.ts: the protection of a recovery address under the
  rotating cookie keys, the idempotency digest of a request and the token a job derives.

  The environment holds the configured keys and the primitives of \<open>node:crypto\<close>: HKDF-SHA256 with
  an empty salt, SHA-256, HMAC-SHA256, AES-256-GCM (\<open>ky_open\<close> is \<open>None\<close> when the tag does not
  authenticate), the random bytes of the call, and the e-mail format of the zod package.
\<close>

record recovery_crypto_env =
  ky_cookie_keys :: "string list"
  ky_hkdf :: "string \<Rightarrow> string \<Rightarrow> string"
  ky_sha256 :: "string \<Rightarrow> string"
  ky_hmac :: "string \<Rightarrow> string \<Rightarrow> string"
  ky_seal :: "string \<Rightarrow> string \<Rightarrow> string \<Rightarrow> string \<Rightarrow> string \<times> string"
  ky_open :: "string \<Rightarrow> string \<Rightarrow> string \<Rightarrow> string \<Rightarrow> string \<Rightarrow> string option"
  ky_iv :: string
  ky_padding :: string
  ky_email :: "string \<Rightarrow> bool"

definition address_context :: string where
  "address_context = ''porta/recovery-address/v1''"

definition idempotency_context :: string where
  "idempotency_context = ''porta/recovery-idempotency/v1''"

definition token_context :: string where
  "token_context = ''porta/recovery-token/v1''"

definition callback_context :: string where
  "callback_context = ''porta/magic-link-callback/v1''"

record recovery_authority =
  ra_organization_id :: string
  ra_job_type :: job_type
  ra_interaction_uid :: "string option"
  ra_idempotency_digest :: string

definition job_type_name :: "job_type \<Rightarrow> string" where
  "job_type_name t = (case t of MagicLinkJob \<Rightarrow> ''magic_link'' | PasswordResetJob \<Rightarrow> ''password_reset'')"

text \<open>\<open>z.string().trim().toLowerCase().email().max(255)\<close>.\<close>

definition normalize_recovery_address :: "recovery_crypto_env \<Rightarrow> string \<Rightarrow> app_error + string" where
  "normalize_recovery_address env address =
     (let a = to_lower (trim address)
      in if ky_email env a \<and> length a \<le> 255 then Inr a else Inl (JsError ''ZodError''))"

definition key_id :: "recovery_crypto_env \<Rightarrow> string \<Rightarrow> string" where
  "key_id env key = take 22 (base64url_encode (ky_sha256 env key))"

definition json_or_null :: "string option \<Rightarrow> json" where
  "json_or_null s = (case s of None \<Rightarrow> JNull | Some x \<Rightarrow> JStr x)"

definition address_aad :: "recovery_authority \<Rightarrow> string" where
  "address_aad a = utf8_encode (json_stringify (JArr [JStr address_context,
     JStr (ra_organization_id a), JStr (job_type_name (ra_job_type a)),
     json_or_null (ra_interaction_uid a), JStr (ra_idempotency_digest a)]))"

text \<open>\<open>config.cookieKeys[0]\<close>; an empty list is \<open>undefined\<close>, on which the key derivation throws.\<close>

definition active_key :: "recovery_crypto_env \<Rightarrow> app_error + string" where
  "active_key env =
     (case ky_cookie_keys env of [] \<Rightarrow> Inl (JsError ''TypeError'') | k # _ \<Rightarrow> Inr k)"

text \<open>The 512-byte block: length in two bytes, the text, random padding.\<close>

definition pad_address :: "string \<Rightarrow> string \<Rightarrow> string" where
  "pad_address padding encoded =
     [char_of (length encoded div 256), char_of (length encoded mod 256)] @ encoded @
     drop (2 + length encoded) padding"

definition protect_recovery_address ::
    "recovery_crypto_env \<Rightarrow> string \<Rightarrow> recovery_authority \<Rightarrow> app_error + protected_address" where
  "protect_recovery_address env address authority =
     (case normalize_recovery_address env address of
        Inl e \<Rightarrow> Inl e
      | Inr normalized \<Rightarrow>
          (case active_key env of
             Inl e \<Rightarrow> Inl e
           | Inr secret \<Rightarrow>
               (let key = ky_hkdf env secret address_context;
                    encoded = utf8_encode normalized
                in if length encoded > 510
                   then Inl (JsError ''Normalized recovery address is too large'')
                   else (case ky_seal env key (ky_iv env) (address_aad authority)
                                (pad_address (ky_padding env) encoded) of
                           (ciphertext, tag) \<Rightarrow> Inr \<lparr>
                             pa_ciphertext = base64url_encode ciphertext,
                             pa_iv = base64url_encode (ky_iv env),
                             pa_tag = base64url_encode tag,
                             pa_key_id = key_id env key\<rparr>))))"

definition unpad_address :: "recovery_crypto_env \<Rightarrow> string \<Rightarrow> app_error + string" where
  "unpad_address env padded =
     (if length padded \<noteq> 512 then Inl (JsError ''Protected recovery address has invalid length'')
      else (let n = of_char (padded ! 0) * 256 + of_char (padded ! 1)
            in if n > 510 then Inl (JsError ''Protected recovery address has invalid content'')
               else normalize_recovery_address env (utf8_decode (take n (drop 2 padded)))))"

fun reveal_with ::
    "recovery_crypto_env \<Rightarrow> protected_address \<Rightarrow> recovery_authority \<Rightarrow> string list \<Rightarrow> app_error + string" where
  "reveal_with env p a [] = Inl (JsError ''Protected recovery address key is unavailable'')"
| "reveal_with env p a (secret # secrets) =
     (let key = ky_hkdf env secret address_context
      in if key_id env key \<noteq> pa_key_id p then reveal_with env p a secrets
         else (case ky_open env key (base64url_decode (pa_iv p)) (address_aad a)
                      (base64url_decode (pa_tag p)) (base64url_decode (pa_ciphertext p)) of
                 None \<Rightarrow> Inl (JsError ''Unsupported state or unable to authenticate data'')
               | Some padded \<Rightarrow> unpad_address env padded))"

definition reveal_recovery_address ::
    "recovery_crypto_env \<Rightarrow> protected_address \<Rightarrow> recovery_authority \<Rightarrow> app_error + string" where
  "reveal_recovery_address env p a = reveal_with env p a (ky_cookie_keys env)"

definition to_hex :: "string \<Rightarrow> string" where
  "to_hex bs = concat (map (\<lambda>b. [hex_digit (of_char b div 16), hex_digit (of_char b mod 16)]) bs)"

definition recovery_idempotency_digest ::
    "recovery_crypto_env \<Rightarrow> string \<Rightarrow> job_type \<Rightarrow> string option \<Rightarrow> string \<Rightarrow> app_error + string" where
  "recovery_idempotency_digest env org job_type interaction nonce =
     (case active_key env of
        Inl e \<Rightarrow> Inl e
      | Inr secret \<Rightarrow>
          Inr (to_hex (ky_hmac env (ky_hkdf env secret idempotency_context)
            (utf8_encode (json_stringify (JArr [JStr org, JStr (job_type_name job_type),
               json_or_null interaction])) @ [CHR 0x00] @ utf8_encode nonce))))"

definition recovery_artifact_token ::
    "recovery_crypto_env \<Rightarrow> string \<Rightarrow> job_type \<Rightarrow> string \<Rightarrow> app_error + string" where
  "recovery_artifact_token env job_id job_type address_key_id =
     (case find_row (\<lambda>s. key_id env (ky_hkdf env s address_context) = address_key_id)
             (ky_cookie_keys env) of
        None \<Rightarrow> Inl (JsError ''Recovery artifact key is unavailable'')
      | Some secret \<Rightarrow>
          if secret = [] then Inl (JsError ''Recovery artifact key is unavailable'')
          else Inr (base64url_encode (ky_hmac env (ky_hkdf env secret token_context)
            (utf8_encode (job_type_name job_type) @ [CHR 0x00] @ utf8_encode job_id))))"

definition magic_link_callback_artifact_digest :: "recovery_crypto_env \<Rightarrow> string \<Rightarrow> app_error + string" where
  "magic_link_callback_artifact_digest env artifact =
     (case active_key env of
        Inl e \<Rightarrow> Inl e
      | Inr secret \<Rightarrow> Inr (take 22 (base64url_encode
          (ky_hmac env (ky_hkdf env secret callback_context) (utf8_encode artifact)))))"

subsection \<open>What was protected is revealed\<close>

lemma utf8_length: "length (utf8_encode s) \<le> 2 * length s"
  by (induction s) (auto simp: utf8_encode_def utf8_char_def Let_def)

lemma is_space_lower [simp]: "is_space (lower_char c) = is_space c"
  by (auto simp: is_space_def lower_char_def is_upper_def)

lemma trim_to_lower: "trim (to_lower s) = to_lower (trim s)"
  by (simp add: trim_def to_lower_def dropWhile_map rev_map o_def)

lemma dropWhile_idem: "dropWhile P (dropWhile P s) = dropWhile P s"
  by (induction s) auto

lemma trim_idem [simp]: "trim (trim s) = trim s"
proof -
  let ?d = "dropWhile is_space"
  have *: "?d (rev (?d (rev (?d s)))) = rev (?d (rev (?d s)))"
  proof (cases "?d s")
    case Nil
    show ?thesis unfolding Nil by simp
  next
    case (Cons c r)
    then have "\<not> is_space c"
      using hd_dropWhile [of is_space s] by auto
    have "rev (?d (rev (c # r))) = c # rev (?d (rev r))"
    proof (cases "\<forall>x \<in> set r. is_space x")
      case True
      then have "?d (rev r) = []" by simp
      with True \<open>\<not> is_space c\<close> show ?thesis by (simp add: dropWhile_append)
    next
      case False
      then show ?thesis by (auto simp: dropWhile_append)
    qed
    with Cons \<open>\<not> is_space c\<close> show ?thesis by simp
  qed
  then show ?thesis
    by (simp add: trim_def dropWhile_idem)
qed

lemma normalize_idem:
  "normalize_recovery_address env a = Inr n \<Longrightarrow> normalize_recovery_address env n = Inr n"
  by (auto simp: normalize_recovery_address_def Let_def trim_to_lower split: if_splits)

lemma unpad_padded:
  assumes "length padding = 512" and "length encoded \<le> 510"
  shows "unpad_address env (pad_address padding encoded) =
    normalize_recovery_address env (utf8_decode encoded)"
proof -
  let ?n = "length encoded"
  have "(of_char (char_of (?n div 256) :: char) :: nat) = ?n div 256"
    by (rule trans [OF of_char_of], rule mod_less) (use assms(2) in linarith)
  moreover have "(of_char (char_of (?n mod 256) :: char) :: nat) = ?n mod 256"
    by (rule trans [OF of_char_of], rule mod_less) simp
  ultimately have "of_char (pad_address padding encoded ! 0) * 256 +
      of_char (pad_address padding encoded ! 1) = ?n"
    by (simp add: pad_address_def)
  moreover have "length (pad_address padding encoded) = 512"
    using assms by (simp add: pad_address_def)
  moreover have "take ?n (drop 2 (pad_address padding encoded)) = encoded"
    by (simp add: pad_address_def)
  ultimately show ?thesis
    using assms(2) by (simp add: unpad_address_def)
qed

lemma protect_never_too_large:
  "normalize_recovery_address env a = Inr n \<Longrightarrow> length (utf8_encode n) \<le> 510"
  using utf8_length [of n] by (auto simp: normalize_recovery_address_def Let_def split: if_splits)

text \<open>
  The address survives a rotation of the keys: it is revealed as long as the key it was protected
  with is still on the ring and no other key of the ring has the same identifier.
\<close>

lemma reveal_with_key:
  assumes "secret \<in> set secrets"
    and "\<forall>s \<in> set secrets. key_id env (ky_hkdf env s address_context) = pa_key_id p \<longrightarrow>
      ky_hkdf env s address_context = key"
    and "ky_hkdf env secret address_context = key" and "pa_key_id p = key_id env key"
    and "ky_open env key (base64url_decode (pa_iv p)) (address_aad a) (base64url_decode (pa_tag p))
      (base64url_decode (pa_ciphertext p)) = Some padded"
  shows "reveal_with env p a secrets = unpad_address env padded"
  using assms by (induction secrets) (auto simp: Let_def)

lemma protect_reveal:
  assumes p: "protect_recovery_address env address a = Inr p"
    and pad: "length (ky_padding env) = 512"
    and prims: "ky_hkdf env' = ky_hkdf env" "ky_sha256 env' = ky_sha256 env" "ky_email env' = ky_email env"
    and ring: "set (take 1 (ky_cookie_keys env)) \<subseteq> set (ky_cookie_keys env')"
    and ids: "\<forall>s \<in> set (ky_cookie_keys env'). \<forall>t \<in> set (ky_cookie_keys env).
      key_id env (ky_hkdf env s address_context) = key_id env (ky_hkdf env t address_context) \<longrightarrow> s = t"
    and gcm: "\<And>key iv aad text c t. ky_seal env key iv aad text = (c, t) \<Longrightarrow>
      ky_open env' key iv aad t c = Some text"
  shows "reveal_recovery_address env' p a = normalize_recovery_address env address"
proof -
  obtain n where n: "normalize_recovery_address env address = Inr n"
    using p by (auto simp: protect_recovery_address_def split: sum.splits)
  obtain secret rest where keys: "ky_cookie_keys env = secret # rest"
    using p n by (auto simp: protect_recovery_address_def active_key_def split: list.splits sum.splits)
  let ?key = "ky_hkdf env secret address_context"
  let ?padded = "pad_address (ky_padding env) (utf8_encode n)"
  obtain c t where sealed: "ky_seal env ?key (ky_iv env) (address_aad a) ?padded = (c, t)"
    by (cases "ky_seal env ?key (ky_iv env) (address_aad a) ?padded")
  have p': "p = \<lparr>pa_ciphertext = base64url_encode c, pa_iv = base64url_encode (ky_iv env),
      pa_tag = base64url_encode t, pa_key_id = key_id env ?key\<rparr>"
    using p n keys sealed protect_never_too_large [OF n]
    by (simp add: protect_recovery_address_def active_key_def Let_def)
  have kid: "key_id env' k = key_id env k" for k
    by (simp add: key_id_def prims)
  have "reveal_with env' p a (ky_cookie_keys env') = unpad_address env' ?padded"
  proof (rule reveal_with_key [where secret = secret and key = ?key])
    show "secret \<in> set (ky_cookie_keys env')"
      using ring keys by simp
    show "\<forall>s \<in> set (ky_cookie_keys env').
        key_id env' (ky_hkdf env' s address_context) = pa_key_id p \<longrightarrow>
        ky_hkdf env' s address_context = ?key"
      using ids keys by (auto simp: p' kid prims)
    show "ky_open env' ?key (base64url_decode (pa_iv p)) (address_aad a) (base64url_decode (pa_tag p))
        (base64url_decode (pa_ciphertext p)) = Some ?padded"
      using gcm [OF sealed] by (simp add: p')
  qed (simp_all add: p' kid prims)
  then show ?thesis
    using unpad_padded [OF pad protect_never_too_large [OF n]] normalize_idem [OF n] n
    by (simp add: reveal_recovery_address_def normalize_recovery_address_def prims)
qed

end
