(* ===== verification/RecoveryProcessor.thy ===== *)
theory RecoveryProcessor
  imports RecoveryWorker RecoveryCrypto TokenRepository
begin

text \<open>
  packages/server/src/auth/recovery-job-processor.ts, interaction-authority.ts, recovery-service.ts
  and the digest of tokens.ts: what a claimed job does, the live interaction it depends on, and how
  a public request enqueues it.

  The OIDC provider is a parameter: \<open>Interaction.find\<close> throws, finds nothing, or returns the stored
  identifier and the \<open>client_id\<close> parameter (\<open>None\<close> when it is no string).
\<close>

subsection \<open>Interactions\<close>

type_synonym interaction_provider = "string \<Rightarrow> app_error + (string \<times> string option) option"

record live_interaction =
  li_interaction_uid :: string
  li_client_id :: string

definition resolve_interaction :: "interaction_provider \<Rightarrow> string \<Rightarrow> app_error + live_interaction option" where
  "resolve_interaction provider uid =
     (if length uid < 1 \<or> length uid > 128 then Inr None
      else (case provider uid of
              Inl e \<Rightarrow> Inl e
            | Inr None \<Rightarrow> Inr None
            | Inr (Some (stored, client)) \<Rightarrow>
                if stored \<noteq> uid then Inr None
                else (case client of
                        None \<Rightarrow> Inr None
                      | Some c \<Rightarrow>
                          if length c < 1 \<or> length c > 255 then Inr None
                          else Inr (Some \<lparr>li_interaction_uid = uid, li_client_id = c\<rparr>))))"

subsection \<open>The processor\<close>

record processor_env =
  pe_crypto :: recovery_crypto_env
  pe_mail :: mail_env
  pe_interactions :: "interaction_provider option"
  pe_new_token_id :: string

definition hash_token :: "recovery_crypto_env \<Rightarrow> string \<Rightarrow> string" where
  "hash_token env s = to_hex (ky_sha256 env (utf8_encode s))"

text \<open>A \<open>try\<close> block whose failure becomes one closed processing error.\<close>

definition failing_as :: "string \<Rightarrow> bool \<Rightarrow> ('s, 'a) op \<Rightarrow> ('s, 'a) op" where
  "failing_as reason retryable m = catch_op m (\<lambda>_. throw_op (RecoveryJobProcessingError reason retryable))"

definition job_authority :: "recovery_job_row \<Rightarrow> recovery_authority" where
  "job_authority job = \<lparr>ra_organization_id = rj_organization_id job, ra_job_type = rj_job_type job,
     ra_interaction_uid = rj_interaction_uid job, ra_idempotency_digest = rj_idempotency_digest job\<rparr>"

definition load_recipient ::
    "processor_env \<Rightarrow> recovery_job_row \<Rightarrow> string \<Rightarrow>
     (worker_world, organization_row option \<times> user option) op" where
  "load_recipient env job address =
     andthen clock_now (\<lambda>now.
     andthen (await (get_organization_by_id ((me_org_env (pe_mail env))\<lparr>oe_now := now\<rparr>)
       (rj_organization_id job))) (\<lambda>org.
     andthen (await (query (select (find_user_by_email (rj_organization_id job) address)))) (\<lambda>u.
     return_op (org, u))))"

definition live_authority ::
    "processor_env \<Rightarrow> recovery_job_row \<Rightarrow> (worker_world, live_interaction option) op" where
  "live_authority env job =
     (if truthy (rj_interaction_uid job)
      then (case pe_interactions env of
              None \<Rightarrow> return_op None
            | Some provider \<Rightarrow> lift_result (resolve_interaction provider (nullish (rj_interaction_uid job) [])))
      else return_op None)"

datatype issued_artifact = NoArtifact | IssuedArtifact string

definition issue_artifact ::
    "processor_env \<Rightarrow> recovery_job_row \<Rightarrow> user \<Rightarrow> (worker_world, issued_artifact) op" where
  "issue_artifact env job u =
     andthen (lift_result (recovery_artifact_token (pe_crypto env) (rj_id job) (rj_job_type job)
       (pa_key_id (rj_address job)))) (\<lambda>plaintext.
     andthen clock_now (\<lambda>now.
     andthen (in_config (get_system_config_number now (me_config (pe_mail env))
       (case rj_job_type job of MagicLinkJob \<Rightarrow> ''magic_link_ttl'' | PasswordResetJob \<Rightarrow> ''password_reset_ttl'')))
       (\<lambda>ttl.
     let base = \<lparr>en_recovery_job_id = rj_id job, en_user_id = u_id u,
           en_token_hash = hash_token (pe_crypto env) plaintext, en_expires_at = now + ttl * 1000\<rparr>;
         ensure = (\<lambda>i. andthen clock_now (\<lambda>now.
           andthen (await (query (ensure_recovery_job_token now (pe_new_token_id env) i))) (\<lambda>artifact.
           return_op (case artifact of TokenSuperseded \<Rightarrow> NoArtifact
             | TokenActive \<Rightarrow> IssuedArtifact plaintext))))
     in (case rj_job_type job of
           PasswordResetJob \<Rightarrow> ensure (EnsurePasswordReset base)
         | MagicLinkJob \<Rightarrow>
             andthen (live_authority env job) (\<lambda>live.
             if truthy (rj_interaction_uid job) \<and> live = None then return_op NoArtifact
             else ensure (EnsureMagicLink base (rj_organization_id job) (rj_interaction_uid job)
               (map_option li_client_id live)))))))"

definition recovery_url :: "processor_env \<Rightarrow> recovery_job_row \<Rightarrow> organization_row \<Rightarrow> string \<Rightarrow> string" where
  "recovery_url env job org plaintext =
     (let base = me_issuer (pe_mail env) @ ''/'' @ og_slug org @ ''/auth''
      in case rj_job_type job of
           MagicLinkJob \<Rightarrow> base @ ''/magic-link/'' @ plaintext @
             (if truthy (rj_interaction_uid job)
              then ''?interaction='' @ encode_uri_component (nullish (rj_interaction_uid job) []) else [])
         | PasswordResetJob \<Rightarrow> base @ ''/reset-password/'' @ plaintext)"

definition recipient_of :: "user \<Rightarrow> email_user" where
  "recipient_of u = \<lparr>eu_id = Some (u_id u), eu_email = u_email u,
     eu_given_name = u_profile u GivenName, eu_family_name = u_profile u FamilyName\<rparr>"

definition sent_entry :: "recovery_job_row \<Rightarrow> organization_row \<Rightarrow> user \<Rightarrow> audit_entry" where
  "sent_entry job org u = (blank_entry
     (case rj_job_type job of MagicLinkJob \<Rightarrow> ''user.magic_link.sent''
        | PasswordResetJob \<Rightarrow> ''user.password_reset.requested'') ''authentication'')
     \<lparr>ae_organization_id := Some (og_id org), ae_user_id := Some (u_id u),
      ae_description := Some ''Recovery message accepted for delivery'',
      ae_metadata := Some (JObj [(''recoveryType'', JStr (job_type_name (rj_job_type job)))])\<rparr>"

definition deliver_recovery ::
    "processor_env \<Rightarrow> recovery_job_row \<Rightarrow> organization_row \<Rightarrow> user \<Rightarrow> string \<Rightarrow>
     (worker_world, processing_result) op" where
  "deliver_recovery env job org u plaintext =
     andthen (failing_as ''smtp_outcome_unknown'' True (send_recovery_email_strict (pe_mail env)
       \<lparr>re_magic_link = (rj_job_type job = MagicLinkJob), re_user = recipient_of u,
        re_organization = org, re_recovery_url = recovery_url env job org plaintext,
        re_locale = nullish (u_profile u Locale) (og_default_locale org),
        re_message_id = ''<recovery-'' @ rj_id job @ ''@porta.invalid>''\<rparr>)) (\<lambda>_.
     andthen (detached_audit (sent_entry job org u)) (\<lambda>_.
     return_op ProcessedCompleted))"

definition process_job :: "processor_env \<Rightarrow> job_processor" where
  "process_job env job =
     andthen (failing_as ''invalid_protected_input'' False (lift_result
       (reveal_recovery_address (pe_crypto env) (rj_address job) (job_authority job)))) (\<lambda>address.
     andthen (failing_as ''database_unavailable'' True (load_recipient env job address)) (\<lambda>recipient.
     case recipient of
       (Some org, Some u) \<Rightarrow>
         if og_status org \<noteq> OrgActive \<or> u_status u \<noteq> Active then return_op ProcessedNoOp
         else andthen (failing_as ''database_unavailable'' True (issue_artifact env job u)) (\<lambda>artifact.
           case artifact of
             NoArtifact \<Rightarrow> return_op ProcessedNoOp
           | IssuedArtifact plaintext \<Rightarrow> deliver_recovery env job org u plaintext)
     | _ \<Rightarrow> return_op ProcessedNoOp))"

subsection \<open>Enqueueing\<close>

record enqueue_recovery_input =
  qi_job_type :: job_type
  qi_organization_id :: string
  qi_email :: string
  qi_interaction_uid :: "string option"
  qi_action_nonce :: string

text \<open>\<open>worker?.wake()\<close> follows a successful insert; the scheduler is modelled on its own.\<close>

definition enqueue_account_recovery ::
    "recovery_crypto_env \<Rightarrow> job_env \<Rightarrow> enqueue_recovery_input \<Rightarrow> (flow, enqueue_job_result) op" where
  "enqueue_account_recovery cenv jenv i =
     andthen (lift_result (normalize_recovery_address cenv (qi_email i))) (\<lambda>normalized.
     andthen (lift_result (recovery_idempotency_digest cenv (qi_organization_id i) (qi_job_type i)
       (qi_interaction_uid i) (qi_action_nonce i))) (\<lambda>digest.
     andthen (lift_result (protect_recovery_address cenv normalized
       \<lparr>ra_organization_id = qi_organization_id i, ra_job_type = qi_job_type i,
        ra_interaction_uid = qi_interaction_uid i, ra_idempotency_digest = digest\<rparr>)) (\<lambda>protected.
     query (enqueue jenv \<lparr>ej_job_type = qi_job_type i, ej_organization_id = qi_organization_id i,
       ej_address = protected, ej_interaction_uid = qi_interaction_uid i,
       ej_idempotency_digest = digest, ej_available_at = je_now jenv\<rparr>))))"

end
