(* ===== verification/RecoveryQueue.thy ===== *)
theory RecoveryQueue
  imports RecoveryJobs
begin

text \<open>
  The recovery queue as a whole: the constraints of migration 021 as an invariant of every
  repository call, the life cycle of a job as an abstract machine that every call follows, and what
  that machine bounds. The calls of all workers and requests interleave freely.
\<close>

subsection \<open>The constraints of the table\<close>

text \<open>The \<open>CHECK\<close> constraints of \<open>auth_recovery_jobs\<close>; the type is a datatype.\<close>

definition address_check :: "protected_address \<Rightarrow> bool" where
  "address_check p =
     (pa_ciphertext p \<noteq> [] \<and> list_all base64url_char (pa_ciphertext p) \<and>
      pa_iv p \<noteq> [] \<and> list_all base64url_char (pa_iv p) \<and>
      pa_tag p \<noteq> [] \<and> list_all base64url_char (pa_tag p) \<and> key_id_text (pa_key_id p))"

definition interaction_check :: "job_type \<Rightarrow> string option \<Rightarrow> bool" where
  "interaction_check t u =
     (case t of MagicLinkJob \<Rightarrow> interaction_uid_text u | PasswordResetJob \<Rightarrow> u = None)"

definition claim_check :: "recovery_job_row \<Rightarrow> bool" where
  "claim_check r =
     (if rj_status r = JobClaimed then rj_claimed_at r \<noteq> None \<and> rj_claimed_by r \<noteq> None
      else rj_claimed_at r = None \<and> rj_claimed_by r = None)"

definition completion_check :: "recovery_job_row \<Rightarrow> bool" where
  "completion_check r =
     ((rj_status r \<in> {JobCompleted, JobTerminalFailure}) = (rj_completed_at r \<noteq> None))"

definition reason_check :: "recovery_job_row \<Rightarrow> bool" where
  "reason_check r = (case rj_last_failure_reason r of None \<Rightarrow> True | Some s \<Rightarrow> reason_text s)"

definition job_checks :: "recovery_job_row \<Rightarrow> bool" where
  "job_checks r =
     (rj_attempt_count r \<le> recovery_job_attempt_limit \<and> digest_text (rj_idempotency_digest r) \<and>
      address_check (rj_address r) \<and> interaction_check (rj_job_type r) (rj_interaction_uid r) \<and>
      reason_check r \<and> claim_check r \<and> completion_check r)"

text \<open>Beyond the constraints: a waiting job has budget left, so it cannot wait for ever.\<close>

definition well_formed_job :: "recovery_job_row \<Rightarrow> bool" where
  "well_formed_job r = (job_checks r \<and> (rj_status r = JobAvailable \<longrightarrow> has_budget r))"

definition queue_ok :: "db \<Rightarrow> bool" where
  "queue_ok d =
     (list_all well_formed_job (db_recovery_jobs d) \<and> unique_on rj_id (db_recovery_jobs d) \<and>
      unique_on idempotency_key (db_recovery_jobs d))"

definition empty_queue :: "db \<Rightarrow> bool" where
  "empty_queue d = (db_recovery_jobs d = [])"

lemma queue_ok_update:
  assumes "queue_ok d"
    and "\<And>r. rj_id (g r) = rj_id r" and "\<And>r. idempotency_key (g r) = idempotency_key r"
    and "\<And>r. r \<in> set (db_recovery_jobs d) \<Longrightarrow> P r \<Longrightarrow> well_formed_job r \<Longrightarrow> well_formed_job (g r)"
  shows "queue_ok (update_jobs P g d)"
proof -
  have "well_formed_job (if P r then g r else r)" if "r \<in> set (db_recovery_jobs d)" for r
    using assms(1,4) that by (auto simp: queue_ok_def list_all_iff)
  then show ?thesis
    using assms(1-3)
    by (auto simp: queue_ok_def update_jobs_def list_all_iff set_update_where unique_on_update_where
      simp del: if_image_distrib)
qed

lemma claim_statement_update:
  "snd (claim_statement i d) = update_jobs
     (\<lambda>r. rj_id r \<in> rj_id ` set (claim_candidates (cj_now i) (cj_lease_expired_before i)
        (nullish (cj_limit i) recovery_job_claim_limit) d))
     (claim_row (cj_now i) (cj_worker_id i)) d"
  by (simp add: claim_statement_def update_jobs_def Let_def)

lemma claim_candidatesD:
  "r \<in> set (claim_candidates now lease n d) \<Longrightarrow> r \<in> set (db_recovery_jobs d) \<and> claimable now lease r"
  unfolding claim_candidates_def by (drule in_set_takeD) simp

lemma candidate_by_id:
  assumes "queue_ok d" and "r \<in> set (db_recovery_jobs d)"
    and "rj_id r \<in> rj_id ` set (claim_candidates now lease n d)"
  shows "claimable now lease r"
  using assms unique_on_same [of rj_id "db_recovery_jobs d"]
  by (auto simp: queue_ok_def dest!: claim_candidatesD)

lemma queue_ok_claim: "queue_ok d \<Longrightarrow> queue_ok (snd (claim_statement i d))"
  unfolding claim_statement_update
proof (rule queue_ok_update)
  fix r
  assume "queue_ok d" "r \<in> set (db_recovery_jobs d)" and wf: "well_formed_job r"
    and "rj_id r \<in> rj_id ` set (claim_candidates (cj_now i) (cj_lease_expired_before i)
      (nullish (cj_limit i) recovery_job_claim_limit) d)"
  then show "well_formed_job (claim_row (cj_now i) (cj_worker_id i) r)"
    by (auto simp: well_formed_job_def job_checks_def claim_row_def reason_check_def claim_check_def
        completion_check_def)
qed (simp_all add: claim_row_def idempotency_key_def)

lemma queue_ok_attempt: "queue_ok d \<Longrightarrow> queue_ok (snd (attempt_statement i d))"
  unfolding attempt_statement_def Let_def snd_conv
  by (rule queue_ok_update)
    (auto simp: attempt_row_def idempotency_key_def well_formed_job_def job_checks_def has_budget_def
      owns_def reason_check_def claim_check_def completion_check_def recovery_job_attempt_limit_def)

lemma queue_ok_retry:
  "reason_text (rt_reason i) \<Longrightarrow> queue_ok d \<Longrightarrow> queue_ok (snd (retry_statement i d))"
  unfolding retry_statement_def Let_def snd_conv
  by (rule queue_ok_update)
    (auto simp: retry_row_def idempotency_key_def well_formed_job_def job_checks_def has_budget_def
      owns_def reason_check_def claim_check_def completion_check_def)

lemma queue_ok_finish:
  assumes "s \<in> {JobCompleted, JobTerminalFailure}"
    and "case fj_reason i of None \<Rightarrow> True | Some r \<Rightarrow> reason_text r" and "queue_ok d"
  shows "queue_ok (snd (finish_statement s i d))"
  unfolding finish_statement_def Let_def snd_conv using assms
  by (intro queue_ok_update)
    (auto simp: finish_row_def idempotency_key_def well_formed_job_def job_checks_def has_budget_def
      owns_def reason_check_def claim_check_def completion_check_def split: option.splits)

lemma queue_ok_insert:
  assumes "queue_ok d" and "enqueue_schema env i"
  shows "queue_ok (snd (insert_job env i d))"
proof -
  have "well_formed_job (new_job_row env i)"
    using assms(2)
    by (auto simp: well_formed_job_def job_checks_def new_job_row_def enqueue_schema_def
        address_check_def protected_text_def interaction_check_def reason_check_def claim_check_def
        completion_check_def has_budget_def recovery_job_attempt_limit_def split: job_type.splits)
  then show ?thesis
    using assms(1)
    by (auto simp: insert_job_def queue_ok_def Let_def unique_on_append_single row_exists_iff
        new_job_row_def idempotency_key_def enqueue_key_def)
qed

text \<open>Every call keeps the constraints.\<close>

datatype queue_call =
    Enqueue job_env enqueue_job_input
  | Claim job_env claim_jobs_input
  | BeginAttempt job_env begin_attempt_input
  | ScheduleRetry job_env retry_job_input
  | MarkCompleted job_env finish_job_input
  | MarkTerminal job_env finish_job_input

fun run_queue_call :: "queue_call \<Rightarrow> db \<Rightarrow> db" where
  "run_queue_call (Enqueue env i) d = snd (enqueue env i d)"
| "run_queue_call (Claim env i) d = snd (claim_available env i d)"
| "run_queue_call (BeginAttempt env i) d = snd (begin_attempt env i d)"
| "run_queue_call (ScheduleRetry env i) d = snd (schedule_retry env i d)"
| "run_queue_call (MarkCompleted env i) d = snd (mark_completed env i d)"
| "run_queue_call (MarkTerminal env i) d = snd (mark_terminal_failure env i d)"

lemma parse_input_apply [simp]:
  "parse_input ok d = (if ok then Inr () else Inl (JsError ''ZodError''), d)"
  by (simp add: parse_input_def unless_throw_def)

lemma andthen_parse:
  "andthen (parse_input ok) g d = (if ok then g () d else (Inl (JsError ''ZodError''), d))"
  by (simp add: andthen_def)

lemma call_effects:
  "snd (enqueue env i d) = (if enqueue_schema env i then snd (insert_job env i d) else d)"
  "snd (claim_available env c d) = (if claim_schema env c then snd (claim_statement c d) else d)"
  "snd (begin_attempt env b d) =
     (if begin_attempt_schema env b then snd (attempt_statement b d) else d)"
  "snd (schedule_retry env t d) = (if retry_schema env t then snd (retry_statement t d) else d)"
  "snd (mark_completed env f d) =
     (if finish_schema env f \<and> fj_reason f = None then snd (finish_statement JobCompleted f d) else d)"
  "snd (mark_terminal_failure env f d) =
     (if finish_schema env f \<and> fj_reason f \<noteq> None then snd (finish_statement JobTerminalFailure f d)
      else d)"
  by (auto simp: enqueue_def claim_available_def begin_attempt_def schedule_retry_def
      mark_completed_def mark_terminal_failure_def andthen_parse andthen_def insert_job_def Let_def
      split: prod.splits sum.splits option.splits)

lemma queue_call_keeps: "queue_ok d \<Longrightarrow> queue_ok (run_queue_call c d)"
  by (cases c)
    (auto simp: call_effects queue_ok_insert queue_ok_claim queue_ok_attempt finish_schema_def
      retry_schema_def intro: queue_ok_retry queue_ok_finish)

end
