(* ===== verification/RecoveryDrain.thy ===== *)
theory RecoveryDrain
  imports RecoveryProcessor RecoveryQueue
begin

text \<open>
  One worker and its queue. Each claim that a cycle takes ends closed or waiting with one attempt
  less, whatever the processor does outside the table, so a queue that the worker polls is worked
  off in a bounded number of cycles.
\<close>

abbreviation world_db :: "worker_world \<Rightarrow> db" where
  "world_db w \<equiv> flow_db (mw_flow w)"

text \<open>PostgreSQL answers every call that is still to come.\<close>

definition healthy :: "worker_world \<Rightarrow> bool" where
  "healthy w = list_all (\<lambda>s. snd s = Answered) (ww_script w)"

definition closed_job :: "recovery_job_row \<Rightarrow> bool" where
  "closed_job r = (rj_status r = JobCompleted \<or> rj_status r = JobTerminalFailure)"

text \<open>How many cycles a job can still take part in.\<close>

definition remaining :: "recovery_job_row \<Rightarrow> nat" where
  "remaining r = (if closed_job r then 0 else Suc recovery_job_attempt_limit - rj_attempt_count r)"

definition put_job :: "string \<Rightarrow> recovery_job_row \<Rightarrow> recovery_job_row list \<Rightarrow> recovery_job_row list" where
  "put_job i r' js = update_where (\<lambda>x. rj_id x = i) (\<lambda>_. r') js"

definition find_open :: "string \<Rightarrow> worker_world \<Rightarrow> recovery_job_row \<Rightarrow> bool" where
  "find_open i w r = (r \<in> set (world_jobs w) \<and> rj_id r = i)"

definition rewrote :: "string \<Rightarrow> recovery_job_row \<Rightarrow> worker_world \<Rightarrow> worker_world \<Rightarrow> bool" where
  "rewrote i r' w w' = (world_jobs w' = put_job i r' (world_jobs w) \<and> queue_ok (world_db w') \<and>
     healthy w' \<and> ww_now w \<le> ww_now w')"

lemma put_put: "rj_id r1 = i \<Longrightarrow> put_job i r2 (put_job i r1 js) = put_job i r2 js"
  by (induction js) (auto simp: put_job_def)

lemma put_same: "unique_on rj_id js \<Longrightarrow> r \<in> set js \<Longrightarrow> put_job (rj_id r) r js = js"
  unfolding put_job_def update_where_def by (rule map_idI) (auto dest: unique_on_same)

lemma put_mem: "r \<in> set js \<Longrightarrow> r' \<in> set (put_job (rj_id r) r' js)"
  by (induction js) (auto simp: put_job_def)

lemma put_ids: "rj_id r' = i \<Longrightarrow> map rj_id (put_job i r' js) = map rj_id js"
  by (induction js) (auto simp: put_job_def)

lemma put_other: "x \<in> set js \<Longrightarrow> rj_id x \<noteq> i \<Longrightarrow> x \<in> set (put_job i r' js)"
  by (induction js) (auto simp: put_job_def)

lemma set_put_job: "x \<in> set (put_job i r' js) \<Longrightarrow> x = r' \<or> x \<in> set js \<and> rj_id x \<noteq> i"
  by (induction js) (auto simp: put_job_def split: if_splits)

lemma rewrote_trans:
  "rewrote i r1 w w1 \<Longrightarrow> rj_id r1 = i \<Longrightarrow> rewrote i r2 w1 w2 \<Longrightarrow> rewrote i r2 w w2"
  by (simp add: rewrote_def put_put)

lemma rewrote_mem: "rewrote i r' w w' \<Longrightarrow> r \<in> set (world_jobs w) \<Longrightarrow> rj_id r = i \<Longrightarrow> r' \<in> set (world_jobs w')"
  by (auto simp: rewrote_def put_mem)

text \<open>A statement on one owned row writes that row.\<close>

lemma update_one:
  assumes "queue_ok d" and "r \<in> set (db_recovery_jobs d)" and "P r"
    and "\<And>x. P x \<Longrightarrow> rj_id x = rj_id r"
  shows "db_recovery_jobs (update_jobs P g d) = put_job (rj_id r) (g r) (db_recovery_jobs d)"
    and "row_count P (db_recovery_jobs d) = 1" and "find_row P (db_recovery_jobs d) = Some r"
proof -
  have unique: "unique_on rj_id (db_recovery_jobs d)"
    using assms(1) by (simp add: queue_ok_def)
  have key: "rj_id x = rj_id r \<longleftrightarrow> x = r" if "x \<in> set (db_recovery_jobs d)" for x
    using unique_on_same [OF unique that assms(2)] by blast
  have same: "P x \<longleftrightarrow> x = r" if "x \<in> set (db_recovery_jobs d)" for x
    using key [OF that] assms(3,4) by blast
  show "db_recovery_jobs (update_jobs P g d) = put_job (rj_id r) (g r) (db_recovery_jobs d)"
    unfolding update_jobs_def put_job_def update_where_def
  proof (simp, intro ballI)
    fix x
    assume "x \<in> set (db_recovery_jobs d)"
    then show "(P x \<longrightarrow> (rj_id x = rj_id r \<longrightarrow> g x = g r) \<and> (rj_id x \<noteq> rj_id r \<longrightarrow> g x = x)) \<and>
        (\<not> P x \<longrightarrow> rj_id x = rj_id r \<longrightarrow> x = g r)"
      using same [of x] key [of x] by (cases "x = r") simp_all
  qed
  have "\<exists>x \<in> set (db_recovery_jobs d). rj_id x = rj_id r \<and> P x"
    using assms(2,3) by auto
  then have "row_count (\<lambda>x. rj_id x = rj_id r \<and> P x) (db_recovery_jobs d) = 1"
    using row_count_unique_one [OF unique, of "rj_id r" P] by blast
  moreover have "(\<lambda>x. rj_id x = rj_id r \<and> P x) = P"
    using assms(4) by auto
  ultimately show "row_count P (db_recovery_jobs d) = 1" by simp
  show "find_row P (db_recovery_jobs d) = Some r"
  proof (cases "find_row P (db_recovery_jobs d)")
    case None
    then show ?thesis using find_row_NoneD assms(2,3) by metis
  next
    case (Some x)
    then show ?thesis using same find_row_SomeD by metis
  qed
qed

lemma healthy_await:
  assumes "healthy w"
  obtains w1 where "await (query m) w = (fst (m (world_db w)), w1)"
    and "world_db w1 = snd (m (world_db w))" and "ww_now w \<le> ww_now w1" and "healthy w1"
proof -
  obtain d s where "ww_script w = [] \<or> ww_script w = (d, Answered) # s"
    using assms by (cases "ww_script w") (auto simp: healthy_def)
  with assms that show ?thesis
    by (auto simp: await_def healthy_def)
qed

lemma emit_frame:
  "fst (emit env e w) = Inr ()" "mw_flow (snd (emit env e w)) = mw_flow w"
  "ww_now (snd (emit env e w)) = ww_now w" "healthy (snd (emit env e w)) = healthy w"
  by (simp_all add: emit_def healthy_def)

lemma rewrote_emit: "rewrote i r w w1 \<Longrightarrow> rewrote i r w (snd (emit env e w1))"
  by (simp add: rewrote_def emit_frame)

lemma emit_apply: "emit env e w = (Inr (), snd (emit env e w))"
  by (simp add: emit_def)

lemma step_emit: "andthen (emit env e) g w = g () (snd (emit env e w))"
  by (simp add: emit_def andthen_def)

lemma step_clock: "andthen clock_now g w = g (ww_now w) w"
  by (simp add: clock_now_def andthen_def)

lemma queue_ok_cong: "db_recovery_jobs d = db_recovery_jobs d' \<Longrightarrow> queue_ok d = queue_ok d'"
  by (simp add: queue_ok_def)

subsection \<open>Settling one claim\<close>

definition worker_ids :: "worker_env \<Rightarrow> worker_world \<Rightarrow> bool" where
  "worker_ids env w = (wk_uuid env (wk_worker_id env) \<and> (\<forall>r \<in> set (world_jobs w). wk_uuid env (rj_id r)))"

text \<open>Job \<open>r\<close> of a sound queue, held by the worker.\<close>

definition holding :: "worker_env \<Rightarrow> recovery_job_row \<Rightarrow> worker_world \<Rightarrow> bool" where
  "holding env r w = (healthy w \<and> queue_ok (world_db w) \<and> worker_ids env w \<and> r \<in> set (world_jobs w) \<and>
     owns (rj_id r) (wk_worker_id env) r)"

lemma worker_ids_rewrote:
  "worker_ids env w \<Longrightarrow> rewrote i r' w w' \<Longrightarrow> rj_id r' = i \<Longrightarrow> r \<in> set (world_jobs w) \<Longrightarrow> rj_id r = i \<Longrightarrow>
   worker_ids env w'"
  by (auto simp: worker_ids_def rewrote_def dest!: set_put_job)

lemma finish_statement_owned:
  assumes "holding env r w"
  shows "fst (finish_statement s \<lparr>fj_job_id = rj_id r, fj_worker_id = wk_worker_id env, fj_now = t,
      fj_reason = reason\<rparr> (world_db w)) = True"
    and "db_recovery_jobs (snd (finish_statement s \<lparr>fj_job_id = rj_id r, fj_worker_id = wk_worker_id env,
      fj_now = t, fj_reason = reason\<rparr> (world_db w))) = put_job (rj_id r) (finish_row s reason t r) (world_jobs w)"
proof -
  note one = update_one [where P = "owns (rj_id r) (wk_worker_id env)" and r = r and d = "world_db w"]
  have h: "queue_ok (world_db w)" "r \<in> set (world_jobs w)" "owns (rj_id r) (wk_worker_id env) r"
    "\<And>x. owns (rj_id r) (wk_worker_id env) x \<Longrightarrow> rj_id x = rj_id r"
    using assms by (simp_all add: holding_def owns_def)
  show "fst (finish_statement s \<lparr>fj_job_id = rj_id r, fj_worker_id = wk_worker_id env, fj_now = t,
      fj_reason = reason\<rparr> (world_db w)) = True"
    using one(2) [OF h] by (simp add: finish_statement_def)
  show "db_recovery_jobs (snd (finish_statement s \<lparr>fj_job_id = rj_id r, fj_worker_id = wk_worker_id env,
      fj_now = t, fj_reason = reason\<rparr> (world_db w))) = put_job (rj_id r) (finish_row s reason t r) (world_jobs w)"
    using one(1) [OF h] by (simp add: finish_statement_def Let_def)
qed

lemma finish_terminal_effect:
  assumes h: "holding env r w" and id: "rj_id job = rj_id r" and reason: "reason_text reason"
  obtains w1 where "finish_terminal env job reason w = (Inr (), w1)"
    and "rewrote (rj_id r) (finish_row JobTerminalFailure (Some reason) (ww_now w) r) w w1"
proof -
  let ?i = "\<lparr>fj_job_id = rj_id r, fj_worker_id = wk_worker_id env, fj_now = ww_now w, fj_reason = Some reason\<rparr>"
  let ?m = "mark_terminal_failure (repository_env env) ?i"
  have "finish_schema (repository_env env) ?i"
    using h reason by (auto simp: finish_schema_def repository_env_def holding_def worker_ids_def)
  then have m: "?m (world_db w) = (Inr (fst (finish_statement JobTerminalFailure ?i (world_db w))),
      snd (finish_statement JobTerminalFailure ?i (world_db w)))"
    by (simp add: mark_terminal_failure_def andthen_parse)
  obtain w1 where w1: "await (query ?m) w = (fst (?m (world_db w)), w1)"
    "world_db w1 = snd (?m (world_db w))" "ww_now w \<le> ww_now w1" "healthy w1"
    using h by (auto simp: holding_def elim: healthy_await [where m = ?m])
  have "queue_ok (world_db w1)"
    using h reason w1(2) by (simp add: m holding_def queue_ok_finish)
  then have r: "rewrote (rj_id r) (finish_row JobTerminalFailure (Some reason) (ww_now w) r) w w1"
    using w1 finish_statement_owned(2) [OF h] by (simp add: rewrote_def m)
  have "finish_terminal env job reason w =
      emit env ((job_event EvTerminalFailure job)\<lparr>we_reason := Some reason\<rparr>) w1"
    using w1(1) finish_statement_owned(1) [OF h]
    by (simp add: finish_terminal_def step_clock id m andthen_Inr)
  with r that show ?thesis
    by (metis emit_apply rewrote_emit)
qed

lemma complete_effect:
  assumes h: "holding env r w" and id: "rj_id job = rj_id r"
  obtains w1 where "complete_claim env job result w = (Inr (), w1)"
    and "rewrote (rj_id r) (finish_row JobCompleted None (ww_now w) r) w w1"
proof -
  let ?i = "\<lparr>fj_job_id = rj_id r, fj_worker_id = wk_worker_id env, fj_now = ww_now w, fj_reason = None\<rparr>"
  let ?m = "mark_completed (repository_env env) ?i"
  have "finish_schema (repository_env env) ?i"
    using h by (auto simp: finish_schema_def repository_env_def holding_def worker_ids_def)
  then have m: "?m (world_db w) = (Inr (fst (finish_statement JobCompleted ?i (world_db w))),
      snd (finish_statement JobCompleted ?i (world_db w)))"
    by (simp add: mark_completed_def andthen_parse)
  obtain w1 where w1: "await (query ?m) w = (fst (?m (world_db w)), w1)"
    "world_db w1 = snd (?m (world_db w))" "ww_now w \<le> ww_now w1" "healthy w1"
    using h by (auto simp: holding_def elim: healthy_await [where m = ?m])
  have "queue_ok (world_db w1)"
    using h w1(2) by (simp add: m holding_def queue_ok_finish)
  then have r: "rewrote (rj_id r) (finish_row JobCompleted None (ww_now w) r) w w1"
    using w1 finish_statement_owned(2) [OF h] by (simp add: rewrote_def m)
  have "complete_claim env job result w =
      emit env (job_event (case result of ProcessedNoOp \<Rightarrow> EvNoOp | ProcessedCompleted \<Rightarrow> EvCompleted) job) w1"
    using w1(1) finish_statement_owned(1) [OF h]
    by (simp add: complete_claim_def step_clock id m andthen_Inr)
  with r that show ?thesis
    by (metis emit_apply rewrote_emit)
qed

lemma retry_statement_owned:
  assumes "holding env r w" and "has_budget r"
  shows "fst (retry_statement \<lparr>rt_job_id = rj_id r, rt_worker_id = wk_worker_id env, rt_available_at = a,
      rt_reason = reason, rt_now = t\<rparr> (world_db w)) = True"
    and "db_recovery_jobs (snd (retry_statement \<lparr>rt_job_id = rj_id r, rt_worker_id = wk_worker_id env,
      rt_available_at = a, rt_reason = reason, rt_now = t\<rparr> (world_db w))) =
      put_job (rj_id r) (retry_row a reason t r) (world_jobs w)"
proof -
  note one = update_one [where P = "\<lambda>x. owns (rj_id r) (wk_worker_id env) x \<and> has_budget x" and r = r
    and d = "world_db w"]
  have h: "queue_ok (world_db w)" "r \<in> set (world_jobs w)"
    "owns (rj_id r) (wk_worker_id env) r \<and> has_budget r"
    "\<And>x. owns (rj_id r) (wk_worker_id env) x \<and> has_budget x \<Longrightarrow> rj_id x = rj_id r"
    using assms by (simp_all add: holding_def owns_def)
  show "fst (retry_statement \<lparr>rt_job_id = rj_id r, rt_worker_id = wk_worker_id env, rt_available_at = a,
      rt_reason = reason, rt_now = t\<rparr> (world_db w)) = True"
    using one(2) [OF h] by (simp add: retry_statement_def)
  show "db_recovery_jobs (snd (retry_statement \<lparr>rt_job_id = rj_id r, rt_worker_id = wk_worker_id env,
      rt_available_at = a, rt_reason = reason, rt_now = t\<rparr> (world_db w))) =
      put_job (rj_id r) (retry_row a reason t r) (world_jobs w)"
    using one(1) [OF h] by (simp add: retry_statement_def Let_def)
qed

lemma retry_delay_range:
  assumes "1 \<le> n" and "n < recovery_job_attempt_limit"
  obtains delay where "retry_delay n = Some delay" and "0 \<le> delay" and "delay \<le> worker_lease_milliseconds"
proof -
  have "n \<in> {1, 2, 3, 4}"
    using assms by (auto simp: recovery_job_attempt_limit_def)
  with that show ?thesis
    by (auto simp: retry_delay_def worker_retry_delays_def worker_lease_milliseconds_def)
qed

lemma retry_effect:
  assumes h: "holding env r w" and id: "rj_id job = rj_id r" and reason: "reason_text reason"
    and n: "1 \<le> rj_attempt_count job" "rj_attempt_count job < recovery_job_attempt_limit"
    and budget: "has_budget r"
  obtains w1 a where "retry_claim env job reason w = (Inr (), w1)"
    and "rewrote (rj_id r) (retry_row a reason (ww_now w) r) w w1"
    and "a \<le> ww_now w1 + worker_lease_milliseconds"
proof -
  obtain delay where d: "retry_delay (rj_attempt_count job) = Some delay" "0 \<le> delay"
      "delay \<le> worker_lease_milliseconds"
    by (rule retry_delay_range [OF n])
  let ?i = "\<lparr>rt_job_id = rj_id r, rt_worker_id = wk_worker_id env, rt_available_at = ww_now w + delay,
    rt_reason = reason, rt_now = ww_now w\<rparr>"
  let ?m = "schedule_retry (repository_env env) ?i"
  have "retry_schema (repository_env env) ?i"
    using h reason d(2) by (auto simp: retry_schema_def repository_env_def holding_def worker_ids_def)
  then have m: "?m (world_db w) = (Inr (fst (retry_statement ?i (world_db w))), snd (retry_statement ?i (world_db w)))"
    by (simp add: schedule_retry_def andthen_parse)
  obtain w1 where w1: "await (query ?m) w = (fst (?m (world_db w)), w1)"
    "world_db w1 = snd (?m (world_db w))" "ww_now w \<le> ww_now w1" "healthy w1"
    using h by (auto simp: holding_def elim: healthy_await [where m = ?m])
  have "queue_ok (world_db w1)"
    using h reason w1(2) by (simp add: m holding_def queue_ok_retry)
  then have r: "rewrote (rj_id r) (retry_row (ww_now w + delay) reason (ww_now w) r) w w1"
    using w1 retry_statement_owned(2) [OF h budget] by (simp add: rewrote_def m)
  have eq: "retry_claim env job reason w =
      emit env ((job_event EvRetryScheduled job)\<lparr>we_delay := Some delay, we_reason := Some reason\<rparr>) w1"
    using w1(1) retry_statement_owned(1) [OF h budget]
    by (simp add: retry_claim_def d(1) step_clock id m andthen_Inr)
  show ?thesis
  proof (rule that)
    show "retry_claim env job reason w = (Inr (),
        snd (emit env ((job_event EvRetryScheduled job)\<lparr>we_delay := Some delay, we_reason := Some reason\<rparr>) w1))"
      by (simp only: eq emit_apply [symmetric])
    show "rewrote (rj_id r) (retry_row (ww_now w + delay) reason (ww_now w) r) w
        (snd (emit env ((job_event EvRetryScheduled job)\<lparr>we_delay := Some delay, we_reason := Some reason\<rparr>) w1))"
      by (rule rewrote_emit [OF r])
    show "ww_now w + delay \<le> ww_now (snd (emit env ((job_event EvRetryScheduled job)
        \<lparr>we_delay := Some delay, we_reason := Some reason\<rparr>) w1)) + worker_lease_milliseconds"
      using w1(3) d(3) by (simp add: emit_frame)
  qed
qed

text \<open>What a processor may do: anything but touch the queue, and it fails for a closed reason.\<close>

definition quiet_processor :: "worker_env \<Rightarrow> bool" where
  "quiet_processor env \<longleftrightarrow> (\<forall>job w. let (r, w1) = wk_processor env job w in
     world_jobs w1 = world_jobs w \<and> ww_now w \<le> ww_now w1 \<and> (healthy w \<longrightarrow> healthy w1) \<and>
     (\<forall>e. r = Inl e \<longrightarrow> reason_text (fst (processing_failure e))))"

text \<open>A worked claim: closed, or waiting for at most the longest delay.\<close>

definition put_off :: "time \<Rightarrow> recovery_job_row \<Rightarrow> bool" where
  "put_off t r = (closed_job r \<or> rj_status r = JobAvailable \<and>
     rj_available_at r \<le> t + worker_lease_milliseconds)"

lemma put_off_later: "put_off t r \<Longrightarrow> t \<le> t' \<Longrightarrow> put_off t' r"
  by (auto simp: put_off_def)

lemma finish_row_closed:
  "s \<in> {JobCompleted, JobTerminalFailure} \<Longrightarrow> closed_job (finish_row s reason t r)"
  by (auto simp: closed_job_def finish_row_def)

lemma finish_row_id: "rj_id (finish_row s reason t r) = rj_id r"
  by (simp add: finish_row_def)

lemma retry_row_fields:
  "rj_id (retry_row a reason t r) = rj_id r" "rj_status (retry_row a reason t r) = JobAvailable"
  "rj_available_at (retry_row a reason t r) = a"
  "rj_attempt_count (retry_row a reason t r) = rj_attempt_count r"
  by (simp_all add: retry_row_def)

lemma holding_rewrote_self:
  assumes "holding env r w" and "world_jobs w1 = world_jobs w" and "healthy w1"
  shows "holding env r w1"
  using assms queue_ok_cong [of "world_db w1" "world_db w"] by (simp add: holding_def worker_ids_def)

lemma rewrote_after_quiet:
  assumes "rewrote i r' w1 w2" and "world_jobs w1 = world_jobs w" and "ww_now w \<le> ww_now w1"
  shows "rewrote i r' w w2"
  using assms by (simp add: rewrote_def)

definition worked :: "string \<Rightarrow> nat \<Rightarrow> worker_world \<Rightarrow> (app_error + unit) \<times> worker_world \<Rightarrow> bool" where
  "worked i n w out \<longleftrightarrow> (\<exists>w1 r'. out = (Inr (), w1) \<and> rewrote i r' w w1 \<and> rj_id r' = i \<and>
     put_off (ww_now w1) r' \<and> (closed_job r' \<or> rj_attempt_count r' = n))"

lemma worked_closed:
  assumes "out = (Inr (), w1)" and "rewrote (rj_id r) (finish_row s reason t r) w w1"
    and "s \<in> {JobCompleted, JobTerminalFailure}"
  shows "worked (rj_id r) n w out"
  unfolding worked_def
  using assms finish_row_closed [OF assms(3), of reason t r] finish_row_id [of s reason t r]
  by (intro exI [of _ w1] exI [of _ "finish_row s reason t r"]) (simp add: put_off_def)

lemma settle_effect:
  assumes h: "holding env job w" and n: "1 \<le> rj_attempt_count job"
    and reason: "reason_text (fst (processing_failure e))"
  shows "worked (rj_id job) (rj_attempt_count job) w (settle_failure env job e w)"
proof -
  obtain reason retryable where e: "processing_failure e = (reason, retryable)"
    by (cases "processing_failure e")
  show ?thesis
  proof (cases "retryable \<and> rj_attempt_count job < recovery_job_attempt_limit")
    case True
    then have budget: "has_budget job" by (simp add: has_budget_def)
    obtain w1 a where w1: "retry_claim env job reason w = (Inr (), w1)"
      "rewrote (rj_id job) (retry_row a reason (ww_now w) job) w w1"
      "a \<le> ww_now w1 + worker_lease_milliseconds"
      using retry_effect [OF h refl _ n _ budget, of reason] reason e True by auto
    show ?thesis
      unfolding worked_def
    proof (intro exI conjI)
      show "settle_failure env job e w = (Inr (), w1)"
        using w1(1) True by (simp add: settle_failure_def e)
      show "rewrote (rj_id job) (retry_row a reason (ww_now w) job) w w1"
        by (rule w1(2))
    qed (simp_all add: retry_row_fields put_off_def w1(3))
  next
    case False
    obtain w1 where w1: "finish_terminal env job reason w = (Inr (), w1)"
      "rewrote (rj_id job) (finish_row JobTerminalFailure (Some reason) (ww_now w) job) w w1"
      using finish_terminal_effect [OF h refl, of reason] reason e by auto
    show ?thesis
      by (rule worked_closed [OF _ w1(2)]) (use w1(1) False in \<open>auto simp: settle_failure_def e\<close>)
  qed
qed

lemma worked_after_quiet:
  assumes "worked i n v out" and "world_jobs v = world_jobs w" and "ww_now w \<le> ww_now v"
  shows "worked i n w out"
  using assms by (auto simp: worked_def rewrote_def)

lemma process_claim_effect:
  assumes h: "holding env job w" and n: "1 \<le> rj_attempt_count job" and quiet: "quiet_processor env"
  shows "worked (rj_id job) (rj_attempt_count job) w (process_claim env job w)"
proof -
  obtain r v where p: "wk_processor env job w = (r, v)"
    by (cases "wk_processor env job w")
  then have v: "world_jobs v = world_jobs w" "ww_now w \<le> ww_now v" "healthy v"
    and reason: "\<And>e. r = Inl e \<Longrightarrow> reason_text (fst (processing_failure e))"
    using quiet h unfolding quiet_processor_def holding_def by (auto dest!: spec [of _ job] spec [of _ w])
  have hv: "holding env job v"
    by (rule holding_rewrote_self [OF h v(1,3)])
  have "worked (rj_id job) (rj_attempt_count job) v (process_claim env job w)"
  proof (cases r)
    case (Inl e)
    then have "process_claim env job w = settle_failure env job e v"
      using p by (simp add: process_claim_def catch_op_def andthen_def)
    with settle_effect [OF hv n reason [OF Inl]] show ?thesis by simp
  next
    case (Inr result)
    obtain w1 where w1: "complete_claim env job result v = (Inr (), w1)"
      "rewrote (rj_id job) (finish_row JobCompleted None (ww_now v) job) v w1"
      by (rule complete_effect [OF hv refl])
    show ?thesis
      by (rule worked_closed [OF _ w1(2)]) (use w1(1) p Inr in \<open>simp_all add: process_claim_def catch_op_def andthen_def\<close>)
  qed
  then show ?thesis
    by (rule worked_after_quiet [OF _ v(1,2)])
qed

lemma attempt_effect:
  assumes h: "holding env r w" and budget: "has_budget r"
  obtains w1 where "await (query (begin_attempt (repository_env env)
      \<lparr>bj_job_id = rj_id r, bj_worker_id = wk_worker_id env, bj_now = ww_now w\<rparr>)) w =
      (Inr (Some (attempt_row (ww_now w) r)), w1)"
    and "rewrote (rj_id r) (attempt_row (ww_now w) r) w w1" and "holding env (attempt_row (ww_now w) r) w1"
proof -
  let ?i = "\<lparr>bj_job_id = rj_id r, bj_worker_id = wk_worker_id env, bj_now = ww_now w\<rparr>"
  let ?m = "begin_attempt (repository_env env) ?i"
  let ?P = "\<lambda>x. owns (rj_id r) (wk_worker_id env) x \<and> has_budget x"
  note one = update_one [where P = ?P and r = r and d = "world_db w"]
  have held: "queue_ok (world_db w)" "r \<in> set (world_jobs w)" "?P r" "\<And>x. ?P x \<Longrightarrow> rj_id x = rj_id r"
    using h budget by (simp_all add: holding_def owns_def)
  have "begin_attempt_schema (repository_env env) ?i"
    using h by (auto simp: begin_attempt_schema_def repository_env_def holding_def worker_ids_def)
  then have m: "?m (world_db w) = (Inr (Some (attempt_row (ww_now w) r)), snd (attempt_statement ?i (world_db w)))"
    using one(3) [OF held] by (simp add: begin_attempt_def andthen_parse attempt_statement_def)
  obtain w1 where w1: "await (query ?m) w = (fst (?m (world_db w)), w1)"
    "world_db w1 = snd (?m (world_db w))" "ww_now w \<le> ww_now w1" "healthy w1"
    using h by (auto simp: holding_def elim: healthy_await [where m = ?m])
  have "queue_ok (world_db w1)"
    using h w1(2) by (simp add: m holding_def queue_ok_attempt)
  then have r: "rewrote (rj_id r) (attempt_row (ww_now w) r) w w1"
    using w1 one(1) [OF held] by (simp add: rewrote_def m attempt_statement_def Let_def)
  moreover have "holding env (attempt_row (ww_now w) r) w1"
    using h r worker_ids_rewrote [OF _ r, of env r] rewrote_mem [OF r, of r]
    by (auto simp: holding_def rewrote_def attempt_row_def owns_def)
  ultimately show ?thesis
    using w1(1) that by (simp add: m)
qed

lemma holding_emit: "holding env r w \<Longrightarrow> holding env r (snd (emit env e w))"
  by (simp add: holding_def worker_ids_def emit_frame)

lemma worked_emit: "worked i n (snd (emit env e w)) out \<Longrightarrow> worked i n w out"
  by (simp add: worked_def rewrote_def emit_frame)

lemma worked_trans:
  "rewrote i r1 w w1 \<Longrightarrow> rj_id r1 = i \<Longrightarrow> worked i n w1 out \<Longrightarrow> worked i n w out"
  unfolding worked_def using rewrote_trans by blast

lemma work_claim_effect:
  assumes h: "holding env (cq_job c) w" and quiet: "quiet_processor env"
    and disposition: "cq_disposition c = LeaseExhausted \<longleftrightarrow> \<not> has_budget (cq_job c)"
  shows "worked (rj_id (cq_job c)) (Suc (rj_attempt_count (cq_job c))) w (work_claim env c w)"
proof (cases "has_budget (cq_job c)")
  case False
  let ?w = "snd (emit env (job_event EvClaimed (cq_job c)) w)"
  have "reason_text ''lease_exhausted''" by code_simp
  then obtain w1 where w1: "finish_terminal env (cq_job c) ''lease_exhausted'' ?w = (Inr (), w1)"
    "rewrote (rj_id (cq_job c)) (finish_row JobTerminalFailure (Some ''lease_exhausted'') (ww_now ?w) (cq_job c)) ?w w1"
    using finish_terminal_effect [OF holding_emit [OF h] refl] by metis
  show ?thesis
    by (rule worked_emit [where env = env and e = "job_event EvClaimed (cq_job c)"],
        rule worked_closed [OF _ w1(2)])
      (use w1(1) False disposition in \<open>simp_all add: work_claim_def step_emit Let_def\<close>)
next
  case True
  let ?job = "attempt_row (ww_now w) (cq_job c)"
  obtain w1 where w1: "await (query (begin_attempt (repository_env env)
      \<lparr>bj_job_id = rj_id (cq_job c), bj_worker_id = wk_worker_id env, bj_now = ww_now w\<rparr>)) w = (Inr (Some ?job), w1)"
    "rewrote (rj_id (cq_job c)) ?job w w1" "holding env ?job w1"
    by (rule attempt_effect [OF h True])
  let ?w2 = "snd (emit env (job_event EvClaimed ?job) w1)"
  let ?w3 = "if cq_disposition c = LeaseReclaimed then snd (emit env (job_event EvLeaseReclaimed ?job) ?w2) else ?w2"
  have eq: "work_claim env c w = process_claim env ?job ?w3"
    using True disposition w1(1) by (simp add: work_claim_def step_clock andthen_Inr step_emit)
  have "worked (rj_id ?job) (rj_attempt_count ?job) ?w3 (work_claim env c w)"
    unfolding eq using w1(3) by (intro process_claim_effect quiet) (simp_all add: holding_emit attempt_row_def)
  then have "worked (rj_id ?job) (rj_attempt_count ?job) ?w2 (work_claim env c w)"
    using worked_emit by (cases "cq_disposition c = LeaseReclaimed") auto
  then have "worked (rj_id ?job) (rj_attempt_count ?job) w1 (work_claim env c w)"
    by (rule worked_emit)
  then show ?thesis
    using worked_trans [OF w1(2)] by (simp add: attempt_row_def)
qed

subsection \<open>A batch and a cycle\<close>

definition progress :: "time \<Rightarrow> recovery_job_row \<Rightarrow> recovery_job_row \<Rightarrow> bool" where
  "progress t r r' = (rj_id r' = rj_id r \<and> put_off t r' \<and>
     (closed_job r' \<or> rj_attempt_count r' = Suc (rj_attempt_count r)))"

text \<open>The jobs in \<open>C\<close> made progress, the others are as they were.\<close>

definition worked_off :: "string set \<Rightarrow> worker_world \<Rightarrow> worker_world \<Rightarrow> bool" where
  "worked_off C w w1 = (queue_ok (world_db w1) \<and> healthy w1 \<and> ww_now w \<le> ww_now w1 \<and>
     list_all2 (\<lambda>r r'. if rj_id r \<in> C then progress (ww_now w1) r r' else r' = r)
       (world_jobs w) (world_jobs w1))"

lemma list_all2_put:
  assumes "\<And>x. x \<in> set js \<Longrightarrow> rj_id x = i \<Longrightarrow> P x r'" and "\<And>x. x \<in> set js \<Longrightarrow> rj_id x \<noteq> i \<Longrightarrow> P x x"
  shows "list_all2 P js (put_job i r' js)"
  using assms by (induction js) (auto simp: put_job_def)

lemma worked_off_one:
  assumes "worked (rj_id r) (Suc (rj_attempt_count r)) w (Inr (), w1)" and "r \<in> set (world_jobs w)"
    and "unique_on rj_id (world_jobs w)"
  shows "worked_off {rj_id r} w w1"
proof -
  obtain r' where r': "rewrote (rj_id r) r' w w1" "rj_id r' = rj_id r" "put_off (ww_now w1) r'"
    "closed_job r' \<or> rj_attempt_count r' = Suc (rj_attempt_count r)"
    using assms(1) by (auto simp: worked_def)
  have "list_all2 (\<lambda>x x'. if rj_id x \<in> {rj_id r} then progress (ww_now w1) x x' else x' = x)
      (world_jobs w) (put_job (rj_id r) r' (world_jobs w))"
    using r' unique_on_same [OF assms(3) _ assms(2)]
    by (intro list_all2_put) (auto simp: progress_def)
  then show ?thesis
    using r'(1) by (simp add: worked_off_def rewrote_def)
qed

lemma progress_later: "progress t r r' \<Longrightarrow> t \<le> t' \<Longrightarrow> progress t' r r'"
  by (auto simp: progress_def intro: put_off_later)

lemma worked_off_trans:
  assumes "worked_off C w w1" and "worked_off D w1 w2" and "C \<inter> D = {}"
  shows "worked_off (C \<union> D) w w2"
proof -
  have "list_all2 (\<lambda>r r'. if rj_id r \<in> C \<union> D then progress (ww_now w2) r r' else r' = r)
      (world_jobs w) (world_jobs w2)"
  proof (rule list_all2_trans)
    show "list_all2 (\<lambda>r r'. if rj_id r \<in> C then progress (ww_now w1) r r' else r' = r)
        (world_jobs w) (world_jobs w1)"
      using assms(1) by (simp add: worked_off_def)
    show "list_all2 (\<lambda>r r'. if rj_id r \<in> D then progress (ww_now w2) r r' else r' = r)
        (world_jobs w1) (world_jobs w2)"
      using assms(2) by (simp add: worked_off_def)
    fix a b c
    assume "if rj_id a \<in> C then progress (ww_now w1) a b else b = a"
      and "if rj_id b \<in> D then progress (ww_now w2) b c else c = b"
    moreover have "ww_now w1 \<le> ww_now w2"
      using assms(2) by (simp add: worked_off_def)
    ultimately show "if rj_id a \<in> C \<union> D then progress (ww_now w2) a c else c = a"
      using assms(3) progress_later [of "ww_now w1" a c "ww_now w2"]
      by (auto simp: progress_def split: if_splits)
  qed
  then show ?thesis
    using assms(1,2) by (auto simp: worked_off_def)
qed

lemma worked_off_refl: "queue_ok (world_db w) \<Longrightarrow> healthy w \<Longrightarrow> worked_off {} w w"
  by (simp add: worked_off_def list_all2_refl)

text \<open>A claim in hand: its row is held, and its disposition fits the budget.\<close>

definition claim_in_hand :: "worker_env \<Rightarrow> worker_world \<Rightarrow> claimed_job \<Rightarrow> bool" where
  "claim_in_hand env w c = (cq_job c \<in> set (world_jobs w) \<and>
     owns (rj_id (cq_job c)) (wk_worker_id env) (cq_job c) \<and>
     (cq_disposition c = LeaseExhausted \<longleftrightarrow> \<not> has_budget (cq_job c)))"

lemma worked_off_unmoved:
  assumes "worked_off C w w1" and "r \<in> set (world_jobs w)" and "rj_id r \<notin> C"
  shows "r \<in> set (world_jobs w1)"
proof -
  obtain r' where "r' \<in> set (world_jobs w1)"
      "if rj_id r \<in> C then progress (ww_now w1) r r' else r' = r"
    using assms(1,2) by (auto simp: worked_off_def list_all2_conv_all_nth set_conv_nth) metis
  with assms(3) show ?thesis by simp
qed

lemma worked_off_ids:
  assumes "worked_off C w w1"
  shows "map rj_id (world_jobs w1) = map rj_id (world_jobs w)"
proof -
  have "list_all2 (\<lambda>r r'. rj_id r' = rj_id r) (world_jobs w) (world_jobs w1)"
    using assms unfolding worked_off_def
    by (auto elim!: list_all2_mono simp: progress_def split: if_splits)
  then show ?thesis
    by (induction rule: list_all2_induct) simp_all
qed

lemma worker_ids_same:
  assumes "worker_ids env w" and "map rj_id (world_jobs w1) = map rj_id (world_jobs w)"
  shows "worker_ids env w1"
proof -
  have "worker_ids env v \<longleftrightarrow> wk_uuid env (wk_worker_id env) \<and> list_all (wk_uuid env) (map rj_id (world_jobs v))"
    for v
    by (simp add: worker_ids_def list_all_iff)
  with assms show ?thesis by simp
qed

lemma work_claims_effect:
  assumes "healthy w" and "queue_ok (world_db w)" and "worker_ids env w" and quiet: "quiet_processor env"
    and "\<forall>c \<in> set cs. claim_in_hand env w c" and "distinct (map (\<lambda>c. rj_id (cq_job c)) cs)"
  obtains w1 where "work_claims env cs w = (Inr (), w1)" and "worked_off ((\<lambda>c. rj_id (cq_job c)) ` set cs) w w1"
  using assms
proof (induction cs arbitrary: w thesis)
  case Nil
  then show ?case using worked_off_refl by simp
next
  case (Cons c cs)
  let ?id = "\<lambda>c. rj_id (cq_job c)"
  have h: "holding env (cq_job c) w"
    using Cons.prems by (simp add: holding_def claim_in_hand_def)
  have "worked (?id c) (Suc (rj_attempt_count (cq_job c))) w (work_claim env c w)"
    using Cons.prems(6) by (intro work_claim_effect [OF h quiet]) (simp add: claim_in_hand_def)
  moreover then obtain w1 where w1: "work_claim env c w = (Inr (), w1)"
    by (auto simp: worked_def)
  ultimately have off: "worked_off {?id c} w w1"
    using h by (intro worked_off_one) (simp_all add: holding_def queue_ok_def)
  have "\<forall>c' \<in> set cs. claim_in_hand env w1 c'"
  proof
    fix c'
    assume c': "c' \<in> set cs"
    then have "?id c' \<noteq> ?id c"
      using Cons.prems(7) by (auto simp: image_iff)
    with c' Cons.prems(6) worked_off_unmoved [OF off, of "cq_job c'"] show "claim_in_hand env w1 c'"
      by (simp add: claim_in_hand_def)
  qed
  then obtain w2 where w2: "work_claims env cs w1 = (Inr (), w2)" "worked_off (?id ` set cs) w1 w2"
    using Cons.IH [of w1] off Cons.prems(4,7) worker_ids_same [OF _ worked_off_ids [OF off]] quiet
    by (auto simp: worked_off_def)
  have "worked_off ({?id c} \<union> ?id ` set cs) w w2"
    using Cons.prems(7) by (intro worked_off_trans [OF off w2(2)]) auto
  moreover have "work_claims env (c # cs) w = (Inr (), w2)"
    using w1 w2(1) by (simp add: andthen_Inr)
  ultimately show ?case
    by (intro Cons.prems(1)) simp_all
qed

definition due_candidates :: "worker_world \<Rightarrow> recovery_job_row list" where
  "due_candidates w = claim_candidates (ww_now w) (ww_now w - worker_lease_milliseconds)
     recovery_job_claim_limit (world_db w)"

lemma candidates_distinct:
  assumes "queue_ok d"
  shows "distinct (map rj_id (claim_candidates now lease n d))"
proof -
  have "distinct (map rj_id (filter P (db_recovery_jobs d)))" for P
    using assms by (simp add: queue_ok_def unique_on_def distinct_map_filter)
  then show ?thesis
    unfolding claim_candidates_def take_map [symmetric]
    by (intro distinct_take) (simp add: distinct_map inj_on_def)
qed

lemma claimed_in_hand:
  assumes "queue_ok d" and "claimable now cutoff r" and "r \<in> set (db_recovery_jobs d)"
    and "db_recovery_jobs (world_db w) = update_where (\<lambda>x. rj_id x \<in> C) (claim_row now (wk_worker_id env))
      (db_recovery_jobs d)" and "rj_id r \<in> C"
  shows "claim_in_hand env w \<lparr>cq_job = claim_row now (wk_worker_id env) r, cq_disposition = disposition_of r\<rparr>"
  using assms
  by (auto simp: claim_in_hand_def set_update_where claim_row_def owns_def disposition_of_def has_budget_def
      claimable_def simp del: if_image_distrib)

lemma run_cycle_effect:
  assumes "healthy w" and ok: "queue_ok (world_db w)" and ids: "worker_ids env w" and quiet: "quiet_processor env"
  obtains full w2 where "run_cycle env w = (Inr full, w2)"
    and "worked_off (rj_id ` set (due_candidates w)) w w2"
proof -
  let ?cs = "due_candidates w" and ?C = "rj_id ` set (due_candidates w)"
  let ?i = "\<lparr>cj_worker_id = wk_worker_id env, cj_now = ww_now w,
    cj_lease_expired_before = ww_now w - worker_lease_milliseconds, cj_limit = Some recovery_job_claim_limit\<rparr>"
  let ?m = "claim_available (repository_env env) ?i"
  let ?row = "claim_row (ww_now w) (wk_worker_id env)"
  let ?claims = "map (\<lambda>r. \<lparr>cq_job = ?row r, cq_disposition = disposition_of r\<rparr>) ?cs"
  have "claim_schema (repository_env env) ?i"
    using ids by (simp add: claim_schema_def repository_env_def worker_ids_def recovery_job_claim_limit_def
        worker_lease_milliseconds_def)
  then have m: "?m (world_db w) = (Inr ?claims, snd (claim_statement ?i (world_db w)))"
    by (simp add: claim_available_def andthen_parse claim_statement_def Let_def due_candidates_def)
  obtain w1 where w1: "await (query ?m) w = (Inr ?claims, w1)"
    "world_db w1 = snd (claim_statement ?i (world_db w))" "ww_now w \<le> ww_now w1" "healthy w1"
    by (rule healthy_await [OF assms(1), where m = ?m]) (auto simp: m)
  have jobs1: "world_jobs w1 = update_where (\<lambda>x. rj_id x \<in> ?C) ?row (world_jobs w)"
    using w1(2) by (simp add: claim_statement_def Let_def due_candidates_def)
  have hand: "\<forall>c \<in> set ?claims. claim_in_hand env w1 c"
  proof
    fix c
    assume "c \<in> set ?claims"
    then obtain r where r: "r \<in> set ?cs" "c = \<lparr>cq_job = ?row r, cq_disposition = disposition_of r\<rparr>"
      by auto
    then show "claim_in_hand env w1 c"
      using claim_candidatesD [of r] claimed_in_hand [OF ok _ _ jobs1, of "ww_now w - worker_lease_milliseconds" r]
      by (simp add: due_candidates_def)
  qed
  have distinct: "distinct (map (\<lambda>c. rj_id (cq_job c)) ?claims)"
    using candidates_distinct [OF ok] by (simp add: due_candidates_def o_def claim_row_def)
  have ids1: "worker_ids env w1"
    by (rule worker_ids_same [OF ids]) (simp add: jobs1 map_key_update_where claim_row_def)
  have ok1: "queue_ok (world_db w1)"
    by (simp add: w1(2) queue_ok_claim [OF ok])
  obtain w2 where w2: "work_claims env ?claims w1 = (Inr (), w2)"
    "worked_off ((\<lambda>c. rj_id (cq_job c)) ` set ?claims) w1 w2"
    by (rule work_claims_effect [OF w1(4) ok1 ids1 quiet hand distinct])
  have "worked_off ?C w1 w2"
    using w2(2) by (simp add: image_image claim_row_def)
  then have "list_all2 (\<lambda>r r'. if rj_id r \<in> ?C then progress (ww_now w2) r r' else r' = r)
      (map (\<lambda>x. if rj_id x \<in> ?C then ?row x else x) (world_jobs w)) (world_jobs w2)"
    using jobs1 by (simp add: worked_off_def update_where_def)
  then have "list_all2 (\<lambda>r r'. if rj_id r \<in> ?C then progress (ww_now w2) r r' else r' = r)
      (world_jobs w) (world_jobs w2)"
    unfolding list_all2_map1
    by (rule list_all2_mono) (auto simp: progress_def claim_row_def split: if_splits)
  with \<open>worked_off ?C w1 w2\<close> w1(3) have "worked_off ?C w w2"
    by (simp add: worked_off_def)
  moreover have "run_cycle env w = (Inr (length ?claims = recovery_job_claim_limit), w2)"
    using w1(1) w2(1) by (simp add: run_cycle_def step_clock andthen_Inr)
  ultimately show ?thesis by (rule that [rotated])
qed

subsection \<open>The queue is worked off\<close>

text \<open>A job that is closed, or due within one lease.\<close>

definition pending :: "time \<Rightarrow> recovery_job_row \<Rightarrow> bool" where
  "pending t r = (put_off t r \<or> rj_status r = JobClaimed \<and> sql_le (rj_claimed_at r) t)"

definition polled_queue :: "worker_env \<Rightarrow> worker_world \<Rightarrow> bool" where
  "polled_queue env w = (healthy w \<and> queue_ok (world_db w) \<and> worker_ids env w \<and>
     (\<forall>r \<in> set (world_jobs w). pending (ww_now w) r))"

text \<open>One cycle after each pause.\<close>

fun run_cycles :: "worker_env \<Rightarrow> time list \<Rightarrow> worker_world \<Rightarrow> worker_world" where
  "run_cycles env [] w = w"
| "run_cycles env (p # ps) w = run_cycles env ps (snd (run_cycle env (w\<lparr>ww_now := ww_now w + p\<rparr>)))"

definition total_remaining :: "worker_world \<Rightarrow> nat" where
  "total_remaining w = sum_list (map remaining (world_jobs w))"

lemma pending_later: "pending t r \<Longrightarrow> t \<le> t' \<Longrightarrow> pending t' r"
  by (auto simp: pending_def sql_le_def split: option.splits intro: put_off_later)

lemma pending_claimable:
  assumes "pending t r" and "well_formed_job r" and "\<not> closed_job r" and "t + worker_lease_milliseconds \<le> t'"
  shows "claimable t' (t' - worker_lease_milliseconds) r"
  using assms
  by (auto simp: pending_def put_off_def claimable_def well_formed_job_def job_checks_def has_budget_def
      sql_le_def split: option.splits)

lemma progress_remaining:
  assumes "progress t r r'" and "claimable now cutoff r"
  shows "remaining r' < remaining r"
  using assms
  by (auto simp: progress_def claimable_def remaining_def closed_job_def recovery_job_attempt_limit_def)

lemma total_remaining_less:
  assumes "worked_off C w w1" and "\<And>r. r \<in> set (world_jobs w) \<Longrightarrow> rj_id r \<in> C \<Longrightarrow> claimable now cutoff r"
    and "r \<in> set (world_jobs w)" and "rj_id r \<in> C"
  shows "total_remaining w1 < total_remaining w"
proof -
  have "list_all2 (\<lambda>r r'. if rj_id r \<in> C then progress (ww_now w1) r r' else r' = r) js js' \<Longrightarrow>
      (\<And>r. r \<in> set js \<Longrightarrow> rj_id r \<in> C \<Longrightarrow> claimable now cutoff r) \<Longrightarrow>
      sum_list (map remaining js') \<le> sum_list (map remaining js) \<and>
      ((\<exists>r \<in> set js. rj_id r \<in> C) \<longrightarrow> sum_list (map remaining js') < sum_list (map remaining js))" for js js'
  proof (induction rule: list_all2_induct)
    case (Cons x xs y ys)
    have "remaining y \<le> remaining x \<and> (rj_id x \<in> C \<longrightarrow> remaining y < remaining x)"
      using Cons.hyps(1) Cons.prems [of x] progress_remaining [of "ww_now w1" x y now cutoff]
      by (auto split: if_splits)
    with Cons.IH Cons.prems show ?case by fastforce
  qed simp
  then show ?thesis
    using assms by (auto simp: worked_off_def total_remaining_def)
qed

lemma list_all2_mem2: "list_all2 P xs ys \<Longrightarrow> y \<in> set ys \<Longrightarrow> \<exists>x \<in> set xs. P x y"
  by (induction rule: list_all2_induct) auto

lemma list_all2_same: "list_all2 (\<lambda>x y. y = x) xs ys \<Longrightarrow> ys = xs"
  by (induction rule: list_all2_induct) simp_all

lemma sort_key_Nil: "sort_key f xs = [] \<longleftrightarrow> xs = []"
  by (metis length_0_conv length_sort)

lemma all_closed_remaining: "\<forall>r \<in> set js. closed_job r \<Longrightarrow> sum_list (map remaining js) = 0"
  by (induction js) (simp_all add: remaining_def)

lemma cycle_step:
  assumes q: "polled_queue env w" and quiet: "quiet_processor env" and p: "worker_lease_milliseconds \<le> p"
    and w': "w' = snd (run_cycle env (w\<lparr>ww_now := ww_now w + p\<rparr>))"
  shows "polled_queue env w'" and "map rj_id (world_jobs w') = map rj_id (world_jobs w)"
    and "total_remaining w' < total_remaining w \<or> (\<forall>r \<in> set (world_jobs w). closed_job r) \<and>
      world_jobs w' = world_jobs w"
proof -
  let ?v = "w\<lparr>ww_now := ww_now w + p\<rparr>"
  let ?C = "rj_id ` set (due_candidates ?v)"
  have v: "healthy ?v" "queue_ok (world_db ?v)" "worker_ids env ?v"
    using q by (simp_all add: polled_queue_def healthy_def worker_ids_def)
  obtain full w2 where run: "run_cycle env ?v = (Inr full, w2)" and off: "worked_off ?C ?v w2"
    by (rule run_cycle_effect [OF v quiet])
  then have [simp]: "w' = w2" by (simp add: w')
  have later: "ww_now w + p \<le> ww_now w2" "0 \<le> p"
    using off p by (simp_all add: worked_off_def worker_lease_milliseconds_def)
  show ids: "map rj_id (world_jobs w') = map rj_id (world_jobs w)"
    using worked_off_ids [OF off] by simp
  have "pending (ww_now w2) r'" if "r' \<in> set (world_jobs w2)" for r'
  proof -
    have "list_all2 (\<lambda>r r'. if rj_id r \<in> ?C then progress (ww_now w2) r r' else r' = r)
        (world_jobs w) (world_jobs w2)"
      using off by (simp add: worked_off_def)
    from list_all2_mem2 [OF this that] obtain r where "r \<in> set (world_jobs w)"
      "if rj_id r \<in> ?C then progress (ww_now w2) r r' else r' = r"
      by blast
    then show ?thesis
      using q later pending_later [of "ww_now w" r "ww_now w2"]
      by (auto simp: polled_queue_def progress_def pending_def split: if_splits)
  qed
  then show "polled_queue env w'"
    using off worker_ids_same [OF v(3), of w2] ids by (simp add: polled_queue_def worked_off_def)
  have candidate: "claimable (ww_now ?v) (ww_now ?v - worker_lease_milliseconds) r"
    if "r \<in> set (world_jobs ?v)" "rj_id r \<in> ?C" for r
    using candidate_by_id [OF v(2) that(1)] that(2) by (simp add: due_candidates_def)
  show "total_remaining w' < total_remaining w \<or> (\<forall>r \<in> set (world_jobs w). closed_job r) \<and>
      world_jobs w' = world_jobs w"
  proof (cases "due_candidates ?v = []")
    case True
    have "closed_job r" if "r \<in> set (world_jobs w)" for r
    proof (rule ccontr)
      assume "\<not> closed_job r"
      then have "claimable (ww_now ?v) (ww_now ?v - worker_lease_milliseconds) r"
        using q that by (intro pending_claimable [of "ww_now w"])
          (auto simp: polled_queue_def queue_ok_def list_all_iff p)
      then have "filter (claimable (ww_now ?v) (ww_now ?v - worker_lease_milliseconds)) (world_jobs w) \<noteq> []"
        using that by (auto simp: filter_empty_conv)
      then show False
        using True by (auto simp: due_candidates_def claim_candidates_def recovery_job_claim_limit_def sort_key_Nil)
    qed
    moreover have "world_jobs w2 = world_jobs w"
      using off True by (intro list_all2_same) (simp add: worked_off_def)
    ultimately show ?thesis by simp
  next
    case False
    then obtain r where r: "r \<in> set (due_candidates ?v)" by (cases "due_candidates ?v") auto
    then have "r \<in> set (world_jobs ?v)"
      using claim_candidatesD by (fastforce simp: due_candidates_def)
    with r show ?thesis
      using total_remaining_less [OF off candidate] by (simp add: total_remaining_def)
  qed
qed

lemma run_cycles_drain:
  assumes "polled_queue env w" and "quiet_processor env" and "\<forall>p \<in> set ps. worker_lease_milliseconds \<le> p"
    and "total_remaining w \<le> length ps"
  shows "(\<forall>r \<in> set (world_jobs (run_cycles env ps w)). closed_job r) \<and>
    map rj_id (world_jobs (run_cycles env ps w)) = map rj_id (world_jobs w)"
  using assms
proof (induction ps arbitrary: w)
  case Nil
  have "closed_job r" if "r \<in> set (world_jobs w)" for r
  proof (rule ccontr)
    assume "\<not> closed_job r"
    then have "1 \<le> remaining r"
      using Nil.prems(1) that by (auto simp: polled_queue_def queue_ok_def list_all_iff well_formed_job_def
          job_checks_def remaining_def)
    then show False
      using Nil.prems(4) member_le_sum_list [of "remaining r" "map remaining (world_jobs w)"] that
      by (simp add: total_remaining_def)
  qed
  then show ?case by simp
next
  case (Cons p ps)
  let ?w = "snd (run_cycle env (w\<lparr>ww_now := ww_now w + p\<rparr>))"
  note step = cycle_step [OF Cons.prems(1,2) _ refl, of p]
  have "worker_lease_milliseconds \<le> p"
    using Cons.prems(3) by simp
  from step(3) [OF this] have "total_remaining ?w < total_remaining w \<or> total_remaining ?w = 0"
    by (elim disjE conjE) (simp_all add: total_remaining_def all_closed_remaining del: sum_list_eq_0_iff)
  with Cons.prems(4) have "total_remaining ?w \<le> length ps"
    by auto
  then show ?case
    using Cons.IH [of ?w] step(1,2) Cons.prems(2,3) by simp
qed

end
