(* ===== verification/RecoveryLifecycle.thy ===== *)
theory RecoveryLifecycle
  imports RecoveryQueue SingleUse
begin

text \<open>
  The life cycle of one job, as an abstract machine. A worker holds a job from its claim on, no
  attempt is charged beyond the budget, and a closed job stays closed. Every repository call moves
  every job by at most one step of the machine.
\<close>

datatype job_phase = Waiting nat | Held string nat time | Closed nat

datatype queue_event = RequestEvent | ClaimEvent string time time | WorkerEvent string

inductive phase_step :: "queue_event \<Rightarrow> job_phase \<Rightarrow> job_phase \<Rightarrow> bool" where
  claim: "n < recovery_job_attempt_limit \<Longrightarrow>
    phase_step (ClaimEvent w now cutoff) (Waiting n) (Held w n now)"
| reclaim: "since \<le> cutoff \<Longrightarrow>
    phase_step (ClaimEvent w now cutoff) (Held v n since) (Held w n now)"
| attempt: "n < recovery_job_attempt_limit \<Longrightarrow>
    phase_step (WorkerEvent w) (Held w n since) (Held w (Suc n) since)"
| retry: "n < recovery_job_attempt_limit \<Longrightarrow> phase_step (WorkerEvent w) (Held w n since) (Waiting n)"
| close: "phase_step (WorkerEvent w) (Held w n since) (Closed n)"

inductive_cases phase_stepE: "phase_step e p q"

fun phase_attempts :: "job_phase \<Rightarrow> nat" where
  "phase_attempts (Waiting n) = n"
| "phase_attempts (Held w n t) = n"
| "phase_attempts (Closed n) = n"

definition job_phase_of :: "recovery_job_row \<Rightarrow> job_phase" where
  "job_phase_of r =
     (case rj_status r of
        JobAvailable \<Rightarrow> Waiting (rj_attempt_count r)
      | JobClaimed \<Rightarrow> Held (nullish (rj_claimed_by r) []) (rj_attempt_count r) (nullish (rj_claimed_at r) 0)
      | _ \<Rightarrow> Closed (rj_attempt_count r))"

definition find_job :: "string \<Rightarrow> db \<Rightarrow> recovery_job_row option" where
  "find_job i d = find_row (\<lambda>r. rj_id r = i) (db_recovery_jobs d)"

definition phase_of :: "string \<Rightarrow> db \<Rightarrow> job_phase option" where
  "phase_of i d = map_option job_phase_of (find_job i d)"

fun call_event :: "queue_call \<Rightarrow> queue_event" where
  "call_event (Enqueue env i) = RequestEvent"
| "call_event (Claim env i) = ClaimEvent (cj_worker_id i) (cj_now i) (cj_lease_expired_before i)"
| "call_event (BeginAttempt env i) = WorkerEvent (bj_worker_id i)"
| "call_event (ScheduleRetry env i) = WorkerEvent (rt_worker_id i)"
| "call_event (MarkCompleted env i) = WorkerEvent (fj_worker_id i)"
| "call_event (MarkTerminal env i) = WorkerEvent (fj_worker_id i)"

definition moves :: "queue_event \<Rightarrow> job_phase option \<Rightarrow> job_phase option \<Rightarrow> bool" where
  "moves e p q \<longleftrightarrow> q = p \<or> (p = None \<and> e = RequestEvent \<and> q = Some (Waiting 0)) \<or>
     (\<exists>x y. p = Some x \<and> q = Some y \<and> phase_step e x y)"

lemma moves_refl [simp]: "moves e p p"
  by (simp add: moves_def)

lemma find_job_update:
  assumes "\<And>r. rj_id (g r) = rj_id r"
  shows "find_job i (update_jobs P g d) = map_option (\<lambda>r. if P r then g r else r) (find_job i d)"
  using assms by (simp add: find_job_def update_jobs_def find_row_update_where)

lemma find_jobD: "find_job i d = Some r \<Longrightarrow> r \<in> set (db_recovery_jobs d) \<and> rj_id r = i"
  unfolding find_job_def by (drule find_row_SomeD) simp

lemma moves_update:
  assumes "\<And>r. rj_id (g r) = rj_id r"
    and "\<And>r. r \<in> set (db_recovery_jobs d) \<Longrightarrow> P r \<Longrightarrow> phase_step e (job_phase_of r) (job_phase_of (g r))"
  shows "moves e (phase_of i d) (phase_of i (update_jobs P g d))"
proof (cases "find_job i d")
  case (Some r)
  then show ?thesis
    using assms find_jobD [OF Some] by (auto simp: phase_of_def find_job_update moves_def)
qed (simp add: phase_of_def find_job_update assms(1))

lemma owned_phase:
  "owns i w r \<Longrightarrow> job_phase_of r = Held w (rj_attempt_count r) (nullish (rj_claimed_at r) 0)"
  by (auto simp: owns_def job_phase_of_def)

lemma moves_claim:
  assumes "queue_ok d"
  shows "moves (ClaimEvent (cj_worker_id c) (cj_now c) (cj_lease_expired_before c))
    (phase_of i d) (phase_of i (snd (claim_statement c d)))"
  unfolding claim_statement_update
proof (rule moves_update)
  fix r
  assume "r \<in> set (db_recovery_jobs d)"
    "rj_id r \<in> rj_id ` set (claim_candidates (cj_now c) (cj_lease_expired_before c)
      (nullish (cj_limit c) recovery_job_claim_limit) d)"
  then have "claimable (cj_now c) (cj_lease_expired_before c) r"
    by (rule candidate_by_id [OF assms])
  then show "phase_step (ClaimEvent (cj_worker_id c) (cj_now c) (cj_lease_expired_before c))
      (job_phase_of r) (job_phase_of (claim_row (cj_now c) (cj_worker_id c) r))"
    by (auto simp: claimable_def job_phase_of_def claim_row_def sql_le_def intro: phase_step.intros
        split: option.splits)
qed (simp add: claim_row_def)

lemma moves_attempt:
  "moves (WorkerEvent (bj_worker_id b)) (phase_of i d) (phase_of i (snd (attempt_statement b d)))"
  unfolding attempt_statement_def Let_def snd_conv
  by (rule moves_update)
    (auto simp: owned_phase attempt_row_def has_budget_def, auto simp: owns_def job_phase_of_def
      intro: phase_step.intros)

lemma moves_retry:
  "moves (WorkerEvent (rt_worker_id t)) (phase_of i d) (phase_of i (snd (retry_statement t d)))"
  unfolding retry_statement_def Let_def snd_conv
  by (rule moves_update)
    (auto simp: owned_phase retry_row_def has_budget_def, auto simp: owns_def job_phase_of_def
      intro: phase_step.intros)

lemma moves_finish:
  "s \<in> {JobCompleted, JobTerminalFailure} \<Longrightarrow>
   moves (WorkerEvent (fj_worker_id f)) (phase_of i d) (phase_of i (snd (finish_statement s f d)))"
  unfolding finish_statement_def Let_def snd_conv
  by (rule moves_update)
    (auto simp: owned_phase finish_row_def, auto simp: owns_def job_phase_of_def
      intro: phase_step.intros)

lemma moves_insert: "moves RequestEvent (phase_of i d) (phase_of i (snd (insert_job env e d)))"
  by (cases "phase_of i d")
    (auto simp: phase_of_def find_job_def insert_job_def Let_def find_row_append moves_def
      new_job_row_def job_phase_of_def split: option.splits)

lemma call_moves: "queue_ok d \<Longrightarrow> moves (call_event c) (phase_of i d) (phase_of i (run_queue_call c d))"
  by (cases c)
    (auto simp: call_effects moves_insert moves_claim moves_attempt moves_retry moves_finish)

subsection \<open>Attempts and settlements\<close>

text \<open>The calls that charge an attempt of job \<open>i\<close>, and those that settle it.\<close>

fun charges :: "queue_call \<Rightarrow> string \<Rightarrow> db \<Rightarrow> bool" where
  "charges (BeginAttempt env b) i d = (bj_job_id b = i \<and>
     (case fst (begin_attempt env b d) of Inr (Some job) \<Rightarrow> True | _ \<Rightarrow> False))"
| "charges _ i d = False"

fun settles :: "queue_call \<Rightarrow> string \<Rightarrow> db \<Rightarrow> bool" where
  "settles (MarkCompleted env f) i d = (fj_job_id f = i \<and> fst (mark_completed env f d) = Inr True)"
| "settles (MarkTerminal env f) i d = (fj_job_id f = i \<and> fst (mark_terminal_failure env f d) = Inr True)"
| "settles _ i d = False"

fun creates_job :: "queue_call \<Rightarrow> string \<Rightarrow> bool" where
  "creates_job (Enqueue env e) i = (je_new_id env = i)"
| "creates_job _ i = False"

definition job_open :: "string \<Rightarrow> db \<Rightarrow> bool" where
  "job_open i d = (case phase_of i d of None \<Rightarrow> False | Some (Closed n) \<Rightarrow> False | _ \<Rightarrow> True)"

definition attempts_of :: "string \<Rightarrow> db \<Rightarrow> nat" where
  "attempts_of i d = (case phase_of i d of None \<Rightarrow> 0 | Some p \<Rightarrow> phase_attempts p)"

lemma moves_attempts:
  assumes "moves e p q"
  shows "(case p of None \<Rightarrow> 0 | Some x \<Rightarrow> phase_attempts x) \<le>
    (case q of None \<Rightarrow> 0 | Some x \<Rightarrow> phase_attempts x)"
  using assms by (auto simp: moves_def elim!: phase_stepE split: option.splits)

lemma attempts_mono: "queue_ok d \<Longrightarrow> attempts_of i d \<le> attempts_of i (run_queue_call c d)"
  unfolding attempts_of_def by (rule moves_attempts [OF call_moves])

lemma phase_attempts_of: "phase_attempts (job_phase_of r) = rj_attempt_count r"
  by (simp add: job_phase_of_def split: job_status.splits)

lemma attempts_limit: "queue_ok d \<Longrightarrow> attempts_of i d \<le> recovery_job_attempt_limit"
  by (auto simp: attempts_of_def phase_of_def phase_attempts_of queue_ok_def list_all_iff
      well_formed_job_def job_checks_def dest!: find_jobD split: option.splits)

lemma attempt_charged:
  assumes "queue_ok d" and "charges c i d"
  shows "attempts_of i (run_queue_call c d) = Suc (attempts_of i d)"
proof -
  obtain env b where c: "c = BeginAttempt env b" "bj_job_id b = i"
    using assms(2) by (cases c) auto
  then obtain job where "fst (begin_attempt env b d) = Inr (Some job)"
    using assms(2) by (auto split: sum.splits option.splits)
  then obtain r where schema: "begin_attempt_schema env b"
    and r: "r \<in> set (db_recovery_jobs d)" "owns i (bj_worker_id b) r" "has_budget r"
    using c(2) by (auto simp: begin_attempt_def andthen_parse attempt_statement_def Let_def
        split: if_splits dest!: find_row_SomeD)
  have found: "find_job i d = Some r"
    using find_row_by_key [of rj_id "db_recovery_jobs d" r] assms(1) r
    by (simp add: find_job_def queue_ok_def owns_def)
  have "find_job i (snd (attempt_statement b d)) = Some (attempt_row (bj_now b) r)"
    unfolding attempt_statement_def Let_def snd_conv
    using found r c(2) by (subst find_job_update) (auto simp: attempt_row_def)
  then show ?thesis
    using found schema c(1)
    by (simp add: call_effects attempts_of_def phase_of_def phase_attempts_of attempt_row_def)
qed

lemma attempts_bounded:
  assumes "queue_ok d"
  shows "uses_won run_queue_call charges i cs d + attempts_of i d \<le> recovery_job_attempt_limit"
  using assms
proof (induction cs arbitrary: d)
  case (Cons c cs)
  have "uses_won run_queue_call charges i cs (run_queue_call c d) + attempts_of i (run_queue_call c d)
      \<le> recovery_job_attempt_limit"
    by (rule Cons.IH [OF queue_call_keeps [OF Cons.prems]])
  then show ?case
    using attempt_charged [OF Cons.prems, of c i] attempts_mono [OF Cons.prems, of i c]
    by (cases "charges c i d") auto
qed (simp add: attempts_limit)

lemma closed_stays: "phase_step e p q \<Longrightarrow> p \<noteq> Closed n"
  by (auto elim: phase_stepE)

lemma finish_closes:
  assumes "queue_ok d" and "s \<in> {JobCompleted, JobTerminalFailure}"
    and "fst (finish_statement s f d)"
  shows "job_open (fj_job_id f) d" and "\<not> job_open (fj_job_id f) (snd (finish_statement s f d))"
proof -
  let ?P = "owns (fj_job_id f) (fj_worker_id f)"
  obtain r where r: "r \<in> set (db_recovery_jobs d)" "?P r"
    using assms(3) row_count_pos_iff [of ?P "db_recovery_jobs d"]
    by (auto simp: finish_statement_def Let_def)
  have found: "find_job (fj_job_id f) d = Some r"
    using find_row_by_key [of rj_id "db_recovery_jobs d" r] assms(1) r
    by (simp add: find_job_def queue_ok_def owns_def)
  then show "job_open (fj_job_id f) d"
    using r by (simp add: job_open_def phase_of_def owned_phase)
  have "find_job (fj_job_id f) (snd (finish_statement s f d)) =
      Some (finish_row s (fj_reason f) (fj_now f) r)"
    unfolding finish_statement_def Let_def snd_conv
    using found r by (subst find_job_update) (auto simp: finish_row_def)
  then show "\<not> job_open (fj_job_id f) (snd (finish_statement s f d))"
    using assms(2) by (auto simp: job_open_def phase_of_def job_phase_of_def finish_row_def)
qed

lemma settle_statement:
  assumes "settles c i d"
  obtains s f where "run_queue_call c d = snd (finish_statement s f d)" "fst (finish_statement s f d)"
    "fj_job_id f = i" "s \<in> {JobCompleted, JobTerminalFailure}"
  using assms
  by (cases c)
    (auto simp: call_effects mark_completed_def mark_terminal_failure_def andthen_parse
      unless_throw_def andthen_def split: if_splits)

lemma insert_other: "je_new_id env \<noteq> k \<Longrightarrow> find_job k (snd (insert_job env e d)) = find_job k d"
  by (auto simp: insert_job_def Let_def find_job_def find_row_append new_job_row_def split: option.splits)

text \<open>A job is settled at most once: the contract of a single-use artifact.\<close>

interpretation recovery: single_use queue_ok job_open run_queue_call creates_job settles
proof
  fix c :: queue_call and k :: string and d :: db
  assume ok: "queue_ok d"
  then show "queue_ok (run_queue_call c d)"
    by (rule queue_call_keeps)
  show "job_open k d" "\<not> job_open k (run_queue_call c d)" if settled: "settles c k d"
  proof -
    obtain s f where sf: "run_queue_call c d = snd (finish_statement s f d)" "fst (finish_statement s f d)"
      "fj_job_id f = k" "s \<in> {JobCompleted, JobTerminalFailure}"
      by (rule settle_statement [OF settled])
    show "job_open k d" "\<not> job_open k (run_queue_call c d)"
      using finish_closes [OF ok sf(4,2)] sf(1,3) by simp_all
  qed
  show "\<not> job_open k (run_queue_call c d)" if "\<not> job_open k d" and "\<not> creates_job c k"
  proof (cases "phase_of k d")
    case None
    then show ?thesis
      using call_moves [OF ok, of c k] that(2) insert_other [of _ k _ d]
      by (cases c) (auto simp: moves_def job_open_def call_effects phase_of_def)
  next
    case (Some p)
    with that obtain n where "p = Closed n"
      by (auto simp: job_open_def split: job_phase.splits)
    with Some show ?thesis
      using call_moves [OF ok, of c k] closed_stays that(1)
      by (fastforce simp: moves_def job_open_def)
  qed
qed

end
