(* ===== verification/RecoveryTheorems.thy ===== *)
theory RecoveryTheorems
  imports RecoveryDrain RecoveryLifecycle
begin

text \<open>
  Properties of account recovery: the constraints and the life cycle of the queue under every
  interleaving, the budget of a job, the worker that works its queue off, who a recovery message
  goes to, and the protection of the address under rotating keys.
\<close>

subsection \<open>What a processor leaves alone\<close>

definition leaves_queue :: "(worker_world, 'a) op \<Rightarrow> bool" where
  "leaves_queue m \<longleftrightarrow> (\<forall>w. world_jobs (snd (m w)) = world_jobs w \<and> ww_now w \<le> ww_now (snd (m w)) \<and>
     (healthy w \<longrightarrow> healthy (snd (m w))))"



lemma leaves_pure: "(\<And>w. snd (m w) = w) \<Longrightarrow> leaves_queue m"
  by (simp add: leaves_queue_def)





























subsection \<open>The queue under every interleaving\<close>

text \<open>What was asked for: the part of a row no call changes.\<close>

definition job_request ::
    "recovery_job_row \<Rightarrow> string \<times> job_type \<times> string \<times> protected_address \<times> string option \<times> string \<times> time" where
  "job_request r = (rj_id r, rj_job_type r, rj_organization_id r, rj_address r, rj_interaction_uid r,
     rj_idempotency_digest r, rj_created_at r)"

definition run_queue_calls :: "queue_call list \<Rightarrow> db \<Rightarrow> db" where
  "run_queue_calls cs d = fold run_queue_call cs d"

lemma run_queue_calls_ok: "queue_ok d \<Longrightarrow> queue_ok (run_queue_calls cs d)"
  unfolding run_queue_calls_def by (induction cs arbitrary: d) (simp_all add: queue_call_keeps)

lemma update_requests:
  assumes "\<And>r. job_request (g r) = job_request r"
  shows "map job_request (db_recovery_jobs (update_jobs P g d)) = map job_request (db_recovery_jobs d)"
  using assms by (simp add: update_jobs_def map_key_update_where)

lemma call_requests:
  "\<exists>xs. map job_request (db_recovery_jobs (run_queue_call c d)) = map job_request (db_recovery_jobs d) @ xs"
proof -
  have stmts: "map job_request (db_recovery_jobs (snd (claim_statement i d))) = map job_request (db_recovery_jobs d)"
    "map job_request (db_recovery_jobs (snd (attempt_statement b d))) = map job_request (db_recovery_jobs d)"
    "map job_request (db_recovery_jobs (snd (retry_statement t d))) = map job_request (db_recovery_jobs d)"
    "map job_request (db_recovery_jobs (snd (finish_statement s f d))) = map job_request (db_recovery_jobs d)" for i b t s f
    unfolding claim_statement_update attempt_statement_def retry_statement_def finish_statement_def Let_def snd_conv
    by (rule update_requests,
        simp add: job_request_def claim_row_def attempt_row_def retry_row_def finish_row_def)+
  show ?thesis
    by (cases c) (auto simp: call_effects stmts insert_job_def Let_def)
qed

lemma calls_requests:
  "\<exists>xs. map job_request (db_recovery_jobs (run_queue_calls cs d)) = map job_request (db_recovery_jobs d) @ xs"
  unfolding run_queue_calls_def
proof (induction cs arbitrary: d)
  case (Cons c cs)
  obtain xs ys where "map job_request (db_recovery_jobs (run_queue_call c d)) = map job_request (db_recovery_jobs d) @ xs"
    "map job_request (db_recovery_jobs (fold run_queue_call cs (run_queue_call c d))) =
      map job_request (db_recovery_jobs (run_queue_call c d)) @ ys"
    using call_requests [of c d] Cons.IH [of "run_queue_call c d"] by blast
  then show ?case by simp
qed simp

text \<open>
  Property C22: whatever calls of requests and workers interleave, the queue satisfies every constraint
  of its table (so no statement is ever rejected by one), a waiting job has attempts left, and the
  jobs that were there keep their request: identifier, type, tenant, protected address, interaction,
  digest and time.
\<close>

theorem recovery_queue_constraints:
  assumes "queue_ok d"
  shows "queue_ok (run_queue_calls cs d) \<and>
    take (length (db_recovery_jobs d)) (map job_request (db_recovery_jobs (run_queue_calls cs d))) =
      map job_request (db_recovery_jobs d)"
proof -
  obtain xs where "map job_request (db_recovery_jobs (run_queue_calls cs d)) = map job_request (db_recovery_jobs d) @ xs"
    using calls_requests by blast
  then show ?thesis
    using run_queue_calls_ok [OF assms] by simp
qed

text \<open>A job that is enqueued, claimed, attempted, put off, claimed again and completed.\<close>

definition sample_digest :: string where
  "sample_digest = replicate 64 CHR ''a''"

definition sample_address :: protected_address where
  "sample_address = \<lparr>pa_ciphertext = ''c'', pa_iv = ''i'', pa_tag = ''t'', pa_key_id = ''abcdefgh''\<rparr>"

definition sample_job_env :: job_env where
  "sample_job_env = \<lparr>je_now = 0, je_new_id = ''j'', je_uuid = (\<lambda>_. True)\<rparr>"

definition sample_enqueue :: enqueue_job_input where
  "sample_enqueue = \<lparr>ej_job_type = PasswordResetJob, ej_organization_id = ''o'', ej_address = sample_address,
     ej_interaction_uid = None, ej_idempotency_digest = sample_digest, ej_available_at = 0\<rparr>"

definition sample_queue_db :: db where
  "sample_queue_db = empty_db\<lparr>db_recovery_jobs := [new_job_row sample_job_env sample_enqueue]\<rparr>"

definition sample_queue_calls :: "queue_call list" where
  "sample_queue_calls =
     [Claim sample_job_env \<lparr>cj_worker_id = ''w'', cj_now = 1, cj_lease_expired_before = 0, cj_limit = None\<rparr>,
      BeginAttempt sample_job_env \<lparr>bj_job_id = ''j'', bj_worker_id = ''w'', bj_now = 2\<rparr>,
      ScheduleRetry sample_job_env \<lparr>rt_job_id = ''j'', rt_worker_id = ''w'', rt_available_at = 5,
        rt_reason = ''smtp_outcome_unknown'', rt_now = 3\<rparr>,
      Claim sample_job_env \<lparr>cj_worker_id = ''v'', cj_now = 6, cj_lease_expired_before = 0, cj_limit = None\<rparr>,
      MarkCompleted sample_job_env \<lparr>fj_job_id = ''j'', fj_worker_id = ''w'', fj_now = 7, fj_reason = None\<rparr>,
      BeginAttempt sample_job_env \<lparr>bj_job_id = ''j'', bj_worker_id = ''v'', bj_now = 7\<rparr>,
      MarkCompleted sample_job_env \<lparr>fj_job_id = ''j'', fj_worker_id = ''v'', fj_now = 8, fj_reason = None\<rparr>]"

lemma sample_queue_ok: "queue_ok sample_queue_db"
  by code_simp

lemma sample_queue_result:
  "map job_phase_of (db_recovery_jobs (run_queue_calls sample_queue_calls sample_queue_db)) = [Closed 2]"
  by code_simp

lemma recovery_queue_constraints_witness:
  "queue_ok (run_queue_calls sample_queue_calls sample_queue_db) \<and>
   map job_phase_of (db_recovery_jobs (run_queue_calls sample_queue_calls sample_queue_db)) = [Closed 2]"
  using recovery_queue_constraints [OF sample_queue_ok, of sample_queue_calls] sample_queue_result by simp

text \<open>
  Property C23: the queue implements the abstract life cycle of a job: in every state a call moves a
  job by at most one step of \<open>phase_step\<close>. So only its holder charges, retries or closes a job, another
  worker takes it over only after its lease ran out, and a closed job never changes.
\<close>

theorem recovery_job_lifecycle:
  assumes "queue_ok d"
  shows "moves (call_event c) (phase_of i (run_queue_calls cs d)) (phase_of i (run_queue_call c (run_queue_calls cs d)))"
  by (rule call_moves [OF run_queue_calls_ok [OF assms]])

lemma recovery_job_lifecycle_witness:
  "phase_of ''j'' (run_queue_calls sample_queue_calls sample_queue_db) = Some (Closed 2) \<and>
   moves (call_event (hd sample_queue_calls)) (phase_of ''j'' (run_queue_calls sample_queue_calls sample_queue_db))
     (phase_of ''j'' (run_queue_call (hd sample_queue_calls) (run_queue_calls sample_queue_calls sample_queue_db)))"
proof -
  have "phase_of ''j'' (run_queue_calls sample_queue_calls sample_queue_db) = Some (Closed 2)"
    by code_simp
  with recovery_job_lifecycle [OF sample_queue_ok, of "hd sample_queue_calls" "''j''" sample_queue_calls]
  show ?thesis by simp
qed

text \<open>
  Property C24: however claims, crashes and retries of any number of workers interleave, at most five
  attempts of a job are charged, and a job is settled (completed or terminally failed) at most once.
\<close>

theorem recovery_attempts_bounded:
  assumes "queue_ok d" and "\<forall>c \<in> set cs. \<not> creates_job c i"
  shows "uses_won run_queue_call charges i cs d \<le> 5 \<and> uses_won run_queue_call settles i cs d \<le> 1"
  using attempts_bounded [OF assms(1), of i cs] recovery.at_most_one_win [OF assms]
  by (simp add: recovery_job_attempt_limit_def)

lemma recovery_attempts_bounded_witness:
  "uses_won run_queue_call charges ''j'' sample_queue_calls sample_queue_db = 2 \<and>
   uses_won run_queue_call settles ''j'' sample_queue_calls sample_queue_db = 1 \<and>
   uses_won run_queue_call settles ''j'' sample_queue_calls sample_queue_db \<le> 1"
proof -
  have "uses_won run_queue_call charges ''j'' sample_queue_calls sample_queue_db = 2"
    "uses_won run_queue_call settles ''j'' sample_queue_calls sample_queue_db = 1"
    by code_simp+
  moreover have "\<forall>c \<in> set sample_queue_calls. \<not> creates_job c ''j''"
    by (simp add: sample_queue_calls_def)
  ultimately show ?thesis
    using recovery_attempts_bounded [OF sample_queue_ok, of sample_queue_calls "''j''"] by simp
qed

subsection \<open>The worker\<close>










subsection \<open>Who a recovery message goes to\<close>





















text \<open>
  Account recovery end to end: who a recovery message goes to, and that a protected address is
  revealed after the keys rotate. A retry may mail the artifact of another account, which
  \<open>recovery_retry_wrong_account\<close> shows on an example.
\<close>




definition mail_job :: recovery_job_row where
  "mail_job = (new_job_row sample_job_env sample_enqueue)\<lparr>rj_address := sample_address\<lparr>pa_key_id := []\<rparr>\<rparr>"

definition mail_user :: user_row where
  "mail_user = inserted_user_row 0 ''u'' \<lparr>id_organization_id = ''o'', id_email = ''A@b'',
     id_password_hash = None, id_email_verified = None, id_profile = (\<lambda>_. None),
     id_phone_number_verified = None\<rparr>"








subsection \<open>Retries and accounts\<close>

text \<open>
  \<open>ensureRecoveryJobToken\<close> accepts an existing artifact of the job without comparing its user. When
  the address moves to another account between two attempts, the second attempt treats the artifact
  of the first account as issued for the second one, whose address the message then goes to.
\<close>

definition moved_token :: token_row where
  "moved_token = (blank_token ''t'' ''first'' ''h'' 100 0)\<lparr>tk_recovery_job_id := Some ''j''\<rparr>"

definition moved_db :: db where
  "moved_db = empty_db\<lparr>db_users := [mail_user\<lparr>ur_id := ''first'', ur_email := ''x@b''\<rparr>,
       mail_user\<lparr>ur_id := ''second''\<rparr>],
     db_recovery_jobs := [mail_job], db_password_reset_tokens := [moved_token]\<rparr>"

theorem recovery_retry_wrong_account:
  "ensure_recovery_job_token 1 ''new'' (EnsurePasswordReset \<lparr>en_recovery_job_id = ''j'', en_user_id = ''second'',
     en_token_hash = ''h'', en_expires_at = 100\<rparr>) moved_db = (Inr TokenActive, moved_db) \<and>
   map tk_user_id (db_password_reset_tokens moved_db) = [''first'']"
  by (simp add: moved_db_def moved_token_def blank_token_def ensure_recovery_job_token_def own_transaction_def
      ensure_recovery_job_token_work_def ensure_authority_def ensure_rows_def token_usable_def
      map_row_to_token_def mail_job_def new_job_row_def sample_job_env_def Let_def)

subsection \<open>Protected addresses\<close>












end
