(* ===== verification/RecoveryScheduler.thy ===== *)
theory RecoveryScheduler
  imports RecoveryWorker
begin

text \<open>
  The scheduler of packages/server/src/auth/recovery-worker.ts as a step relation: the public calls
  \<open>start\<close>, \<open>wake\<close> and \<open>stop\<close>, the timer that fires, a cycle that finds a full batch and a cycle that
  settles (its promise resolved or rejected) happen in any order. \<open>sc_open\<close> are the cycles whose
  promise is not settled, which is more than the field \<open>activeCycle\<close> of the code knows.
\<close>

record scheduler =
  sc_running :: bool
  sc_timer :: "nat option"
  sc_active :: "nat option"
  sc_wake_pending :: bool
  sc_open :: "nat list"
  sc_started :: nat
  sc_events :: "worker_event_kind list"

definition stopped_scheduler :: scheduler where
  "stopped_scheduler = \<lparr>sc_running = False, sc_timer = None, sc_active = None, sc_wake_pending = False,
     sc_open = [], sc_started = 0, sc_events = []\<rparr>"

text \<open>A new poll replaces the scheduled one.\<close>

definition schedule :: "nat \<Rightarrow> scheduler \<Rightarrow> scheduler" where
  "schedule ms s = (if \<not> sc_running s then s else s\<lparr>sc_timer := Some ms\<rparr>)"

definition start_worker :: "scheduler \<Rightarrow> scheduler" where
  "start_worker s = (if sc_running s then s else schedule 0 (s\<lparr>sc_running := True\<rparr>))"

definition wake_worker :: "scheduler \<Rightarrow> scheduler" where
  "wake_worker s =
     (if \<not> sc_running s then s
      else if sc_active s \<noteq> None then s\<lparr>sc_wake_pending := True\<rparr>
      else schedule 0 s)"

text \<open>The answer \<open>None\<close> is the wait for the active cycle, which its settling or a timeout ends.\<close>

definition stop_worker :: "scheduler \<Rightarrow> bool option \<times> scheduler" where
  "stop_worker s =
     (if \<not> sc_running s \<and> sc_active s = None then (Some True, s)
      else (let s' = s\<lparr>sc_running := False, sc_wake_pending := False, sc_timer := None,
                 sc_events := sc_events s @ [EvShutdownStarted]\<rparr>
            in if sc_active s = None
               then (Some True, s'\<lparr>sc_events := sc_events s' @ [EvShutdownSettled]\<rparr>)
               else (None, s')))"

definition end_shutdown :: "bool \<Rightarrow> scheduler \<Rightarrow> bool \<times> scheduler" where
  "end_shutdown settled s = (settled, s\<lparr>sc_events := sc_events s @
     [if settled then EvShutdownSettled else EvShutdownTimeout]\<rparr>)"

definition begin_cycle :: "scheduler \<Rightarrow> scheduler" where
  "begin_cycle s =
     (if \<not> sc_running s then s
      else if sc_active s \<noteq> None then s\<lparr>sc_wake_pending := True\<rparr>
      else s\<lparr>sc_active := Some (sc_started s), sc_open := sc_started s # sc_open s,
             sc_started := Suc (sc_started s)\<rparr>)"

definition timer_fires :: "scheduler \<Rightarrow> scheduler" where
  "timer_fires s = begin_cycle (s\<lparr>sc_timer := None\<rparr>)"

definition cycle_full :: "scheduler \<Rightarrow> scheduler" where
  "cycle_full s = s\<lparr>sc_wake_pending := True\<rparr>"

definition cycle_settled :: "nat \<Rightarrow> scheduler \<Rightarrow> scheduler" where
  "cycle_settled c s =
     (let s1 = s\<lparr>sc_open := remove1 c (sc_open s),
            sc_active := (if sc_active s = Some c then None else sc_active s)\<rparr>
      in if \<not> sc_running s1 then s1
         else schedule (if sc_wake_pending s1 then 0 else worker_poll_milliseconds)
           (s1\<lparr>sc_wake_pending := False\<rparr>))"

inductive scheduler_step :: "scheduler \<Rightarrow> scheduler \<Rightarrow> bool" where
  start: "scheduler_step s (start_worker s)"
| wake: "scheduler_step s (wake_worker s)"
| stop: "scheduler_step s (snd (stop_worker s))"
| shutdown: "scheduler_step s (snd (end_shutdown settled s))"
| timer: "sc_timer s \<noteq> None \<Longrightarrow> scheduler_step s (timer_fires s)"
| full: "sc_open s \<noteq> [] \<Longrightarrow> scheduler_step s (cycle_full s)"
| settled: "c \<in> set (sc_open s) \<Longrightarrow> scheduler_step s (cycle_settled c s)"

inductive_cases scheduler_stepE: "scheduler_step s s'"

inductive scheduler_reachable :: "scheduler \<Rightarrow> bool" where
  initial: "scheduler_reachable stopped_scheduler"
| step: "scheduler_reachable s \<Longrightarrow> scheduler_step s s' \<Longrightarrow> scheduler_reachable s'"

subsection \<open>The process-wide worker\<close>

text \<open>packages/server/src/auth/recovery-service.ts: one worker at a time for the process.\<close>

type_synonym recovery_service = "scheduler option"

definition start_account_recovery_worker :: "recovery_service \<Rightarrow> recovery_service" where
  "start_account_recovery_worker sv =
     (case sv of Some s \<Rightarrow> sv | None \<Rightarrow> Some (start_worker stopped_scheduler))"

definition stop_account_recovery_worker :: "recovery_service \<Rightarrow> bool option \<times> recovery_service" where
  "stop_account_recovery_worker sv =
     (case sv of None \<Rightarrow> (Some True, None) | Some s \<Rightarrow> (fst (stop_worker s), None))"

subsection \<open>The invariant\<close>

definition single_flight :: "scheduler \<Rightarrow> bool" where
  "single_flight s = (sc_open s = (case sc_active s of None \<Rightarrow> [] | Some c \<Rightarrow> [c]))"

definition never_idle :: "scheduler \<Rightarrow> bool" where
  "never_idle s = (sc_running s \<longrightarrow> sc_timer s \<noteq> None \<or> sc_active s \<noteq> None)"

text \<open>The next cycle begins without a poll interval in between. (A \<open>start\<close> while the cycle of an earlier
  \<open>start\<close> is still active is not prompt: the settling of that cycle replaces its immediate poll.)\<close>

definition prompt :: "scheduler \<Rightarrow> bool" where
  "prompt s = (if sc_active s = None then sc_timer s = Some 0 else sc_wake_pending s)"

lemmas scheduler_defs = start_worker_def wake_worker_def stop_worker_def end_shutdown_def timer_fires_def
  begin_cycle_def cycle_full_def cycle_settled_def schedule_def Let_def

lemma scheduler_step_inv:
  "scheduler_step s s' \<Longrightarrow> single_flight s \<and> never_idle s \<Longrightarrow> single_flight s' \<and> never_idle s'"
  by (erule scheduler_stepE)
    (auto simp: scheduler_defs single_flight_def never_idle_def split: option.splits)

lemma scheduler_inv: "scheduler_reachable s \<Longrightarrow> single_flight s \<and> never_idle s"
proof (induction rule: scheduler_reachable.induct)
  case initial
  then show ?case by (simp add: stopped_scheduler_def single_flight_def never_idle_def)
qed (rule scheduler_step_inv)

lemma prompt_kept:
  assumes "scheduler_step s s'" and "single_flight s" and "prompt s" and "sc_running s'"
  shows "prompt s' \<or> sc_started s' = Suc (sc_started s)"
  using assms
  by (auto simp: scheduler_defs single_flight_def prompt_def elim!: scheduler_stepE split: option.splits if_splits)

text \<open>
  Property C28: in every state the worker can reach at most one cycle runs, a running worker has a
  poll scheduled or a cycle active, a wake-up makes the next cycle prompt, and no step but a stop
  takes the promptness away before that cycle begins.
\<close>

theorem worker_never_stalls:
  assumes "scheduler_reachable s"
  shows "length (sc_open s) \<le> 1 \<and> (sc_running s \<longrightarrow> sc_timer s \<noteq> None \<or> sc_active s \<noteq> None) \<and>
    (sc_running s \<longrightarrow> prompt (wake_worker s)) \<and>
    (\<forall>s'. scheduler_step s s' \<and> prompt s \<and> sc_running s' \<longrightarrow>
      prompt s' \<or> sc_started s' = Suc (sc_started s))"
proof -
  have inv: "single_flight s" "never_idle s"
    using scheduler_inv [OF assms] by simp_all
  then have "length (sc_open s) \<le> 1"
    by (simp add: single_flight_def split: option.splits)
  moreover have "sc_running s \<longrightarrow> prompt (wake_worker s)"
    by (auto simp: wake_worker_def schedule_def prompt_def)
  ultimately show ?thesis
    using inv prompt_kept [OF _ inv(1)] by (auto simp: never_idle_def)
qed

text \<open>A worker that is woken while its first cycle runs.\<close>

definition woken_sample :: scheduler where
  "woken_sample = wake_worker (timer_fires (start_worker stopped_scheduler))"

lemma woken_sample_reachable: "scheduler_reachable woken_sample"
proof -
  have "scheduler_reachable (start_worker stopped_scheduler)"
    by (rule scheduler_reachable.step [OF scheduler_reachable.initial scheduler_step.start])
  then have "scheduler_reachable (timer_fires (start_worker stopped_scheduler))"
    by (rule scheduler_reachable.step)
      (rule scheduler_step.timer, simp add: start_worker_def schedule_def stopped_scheduler_def)
  then show ?thesis
    unfolding woken_sample_def by (rule scheduler_reachable.step) (rule scheduler_step.wake)
qed

theorem worker_never_stalls_witness:
  "length (sc_open woken_sample) \<le> 1 \<and> sc_open woken_sample \<noteq> [] \<and> prompt (wake_worker woken_sample)"
  using worker_never_stalls [OF woken_sample_reachable]
  by (auto simp: woken_sample_def scheduler_defs stopped_scheduler_def)

end
