(* ===== verification/Cursor.thy ===== *)
theory Cursor
  imports Bytes Json
begin

text \<open>
  packages/server/src/lib/cursor.ts: the opaque cursors of the listings, their validation and the
  page built from a query that asked for one row more than the page holds; and
  packages/server/src/lib/etag.ts: the entity tags of the administrative API.

  A sort value is \<open>JNull\<close>, a number or a string.
\<close>

subsection \<open>Dates as text\<close>

text \<open>\<open>Date.prototype.toISOString\<close>: the civil date of a day count, in the proleptic Gregorian calendar.\<close>

definition civil_date :: "int \<Rightarrow> int \<times> int \<times> int" where
  "civil_date days =
     (let z = days + 719468;
          doe = z mod 146097;
          yoe = (doe - doe div 1460 + doe div 36524 - doe div 146096) div 365;
          doy = doe - (365 * yoe + yoe div 4 - yoe div 100);
          mp = (5 * doy + 2) div 153;
          m = (if mp < 10 then mp + 3 else mp - 9)
      in (yoe + z div 146097 * 400 + (if m \<le> 2 then 1 else 0), m, doy - (153 * mp + 2) div 5 + 1))"

definition padded :: "nat \<Rightarrow> int \<Rightarrow> string" where
  "padded w n = (let ds = show_nat (nat n) in replicate (w - length ds) (CHR ''0'') @ ds)"

definition iso_year :: "int \<Rightarrow> string" where
  "iso_year y = (if 0 \<le> y \<and> y \<le> 9999 then padded 4 y
     else (if y < 0 then ''-'' else ''+'') @ padded 6 \<bar>y\<bar>)"

definition to_iso_string :: "time \<Rightarrow> string" where
  "to_iso_string t =
     (let (y, m, d) = civil_date (t div 86400000); ms = t mod 86400000
      in iso_year y @ ''-'' @ padded 2 m @ ''-'' @ padded 2 d @ ''T'' @ padded 2 (ms div 3600000) @ '':'' @
         padded 2 (ms div 60000 mod 60) @ '':'' @ padded 2 (ms div 1000 mod 60) @ ''.'' @
         padded 3 (ms mod 1000) @ ''Z'')"

lemma to_iso_string_samples:
  "to_iso_string 0 = ''1970-01-01T00:00:00.000Z''"
  "to_iso_string 1709210096007 = ''2024-02-29T12:34:56.007Z''"
  "to_iso_string (- 1) = ''1969-12-31T23:59:59.999Z''"
  by code_simp+

subsection \<open>Cursors\<close>

record cursor_payload =
  cp_sort :: json
  cp_id :: string

definition encode_cursor :: "json \<Rightarrow> string \<Rightarrow> string" where
  "encode_cursor sort_value i =
     base64url_encode (utf8_encode (json_stringify (JObj [(''s'', sort_value), (''i'', JStr i)])))"

definition sort_value_ok :: "json \<Rightarrow> bool" where
  "sort_value_ok j = (case j of JNull \<Rightarrow> True | JNum _ \<Rightarrow> True | JDec _ \<Rightarrow> True | JStr _ \<Rightarrow> True | _ \<Rightarrow> False)"

definition decode_cursor :: "string \<Rightarrow> cursor_payload option" where
  "decode_cursor cursor =
     (case json_parse (utf8_decode (base64url_decode cursor)) of
        Some (JObj fs) \<Rightarrow>
          (case (map_of fs ''s'', map_of fs ''i'') of
             (Some s, Some (JStr i)) \<Rightarrow>
               if i = [] \<or> \<not> sort_value_ok s then None else Some \<lparr>cp_sort = s, cp_id = i\<rparr>
           | _ \<Rightarrow> None)
      | _ \<Rightarrow> None)"

lemma decode_encode_cursor:
  assumes "json_ok s" and "sort_value_ok s" and "i \<noteq> []"
  shows "decode_cursor (encode_cursor s i) = Some \<lparr>cp_sort = s, cp_id = i\<rparr>"
proof -
  have "json_parse (json_stringify (JObj [(''s'', s), (''i'', JStr i)])) = Some (JObj [(''s'', s), (''i'', JStr i)])"
    using assms(1) by (intro json_roundtrip) simp
  then show ?thesis
    using assms(2,3) by (simp add: decode_cursor_def encode_cursor_def)
qed

lemma base64url_encode_Nil_iff: "base64url_encode bs = [] \<longleftrightarrow> bs = []"
proof
  assume "base64url_encode bs = []"
  then have "base64url_decode (base64url_encode bs) = base64url_decode []" by simp
  moreover have "base64url_decode [] = []" by (simp add: base64url_decode_def map_filter_simps)
  ultimately show "bs = []" by simp
qed (simp add: base64url_encode_def)

lemma encode_cursor_not_Nil [simp]: "encode_cursor s i \<noteq> []"
proof
  assume "encode_cursor s i = []"
  then have "utf8_encode (json_stringify (JObj [(''s'', s), (''i'', JStr i)])) = []"
    by (simp add: encode_cursor_def base64url_encode_Nil_iff)
  then have "utf8_decode (utf8_encode (json_stringify (JObj [(''s'', s), (''i'', JStr i)]))) = utf8_decode []"
    by simp
  then show False by simp
qed

text \<open>The cursor is made of characters a query string carries as they are.\<close>

lemma encode_cursor_chars: "c \<in> set (encode_cursor s i) \<Longrightarrow> c \<in> set base64url_alphabet"
  by (simp add: encode_cursor_def base64url_encode_chars)

subsection \<open>Pages\<close>

text \<open>
  The answers of the listings: \<open>CursorPaginatedResult\<close> has the cursors and \<open>hasMore\<close>,
  \<open>PaginatedResult\<close> the page numbers.
\<close>

record 'a listing =
  ls_data :: "'a list"
  ls_next_cursor :: "string option"
  ls_previous_cursor :: "string option"
  ls_has_more :: "bool option"
  ls_total :: "nat option"
  ls_page :: "nat option"
  ls_page_size :: "nat option"
  ls_total_pages :: "nat option"

definition build_cursor_result ::
    "'a list \<Rightarrow> nat \<Rightarrow> ('a \<Rightarrow> json) \<Rightarrow> ('a \<Rightarrow> string) \<Rightarrow> 'a listing" where
  "build_cursor_result rows limit sort_value row_id =
     (let has_more = length rows > limit;
          page = (if has_more then take limit rows else rows)
      in \<lparr>ls_data = page,
          ls_next_cursor = (if has_more \<and> page \<noteq> []
            then Some (encode_cursor (sort_value (last page)) (row_id (last page))) else None),
          ls_previous_cursor = (if page \<noteq> []
            then Some (encode_cursor (sort_value (hd page)) (row_id (hd page))) else None),
          ls_has_more = Some has_more, ls_total = None, ls_page = None, ls_page_size = None,
          ls_total_pages = None\<rparr>)"

text \<open>\<open>Math.ceil(total / pageSize)\<close>.\<close>

definition offset_result :: "'a list \<Rightarrow> nat \<Rightarrow> nat \<Rightarrow> nat \<Rightarrow> 'a listing" where
  "offset_result rows matching page page_size =
     \<lparr>ls_data = rows, ls_next_cursor = None, ls_previous_cursor = None, ls_has_more = None,
      ls_total = Some matching, ls_page = Some page, ls_page_size = Some page_size,
      ls_total_pages = Some ((matching + page_size - 1) div page_size)\<rparr>"

subsection \<open>Entity tags\<close>

text \<open>\<open>md5\<close> gives the hexadecimal digest.\<close>

definition generate_etag :: "(string \<Rightarrow> string) \<Rightarrow> string \<Rightarrow> string \<Rightarrow> time \<Rightarrow> string" where
  "generate_etag md5 entity_type i updated_at =
     ''W/'' @ [CHR 0x22] @ take 16 (md5 (entity_type @ '':'' @ i @ '':'' @ to_iso_string updated_at)) @ [CHR 0x22]"

text \<open>A lone quote stays: \<open>substring(1, 0)\<close> swaps its arguments.\<close>

definition extract_hash :: "string \<Rightarrow> string option" where
  "extract_hash etag =
     (let v = trim etag;
          v = (if take 2 v = ''W/'' then drop 2 v else v);
          v = (if length v > 1 \<and> hd v = CHR 0x22 \<and> last v = CHR 0x22 then butlast (tl v) else v)
      in if v = [] then None else Some v)"

definition matches_etag :: "string \<Rightarrow> string \<Rightarrow> bool" where
  "matches_etag header current =
     (if trim header = ''*'' then True
      else (case extract_hash current of
              None \<Rightarrow> False
            | Some h \<Rightarrow> list_ex (\<lambda>candidate. extract_hash (trim candidate) = Some h) (split_on CHR '','' (trim header))))"

text \<open>The answer \<open>False\<close> comes with a 409 response that carries the entity.\<close>

definition check_if_match ::
    "(string \<Rightarrow> string) \<Rightarrow> string \<Rightarrow> string \<Rightarrow> string \<Rightarrow> time \<Rightarrow> bool" where
  "check_if_match md5 header entity_type i updated_at =
     (header = [] \<or> matches_etag header (generate_etag md5 entity_type i updated_at))"

end
