(* ===== verification/Listings.thy ===== *)
theory Listings
  imports Organizations Applications UserService Cursor "HOL-Library.Product_Lexorder"
begin

text \<open>
  The listings of the administrative API: \<open>listOrganizations\<close>, \<open>listApplications\<close>, \<open>listUsers\<close> and their
  cursor variants in the repositories, the handlers that choose between them, and \<open>listAll\<close> of
  packages/sdk/src/pagination.

  A column of the whitelist has the value PostgreSQL orders and compares by (\<open>co_stored\<close>), the value
  the mapped object shows (\<open>co_shown\<close>), which goes into a cursor, and the conversion of a parameter
  to the type of the column (\<open>co_read\<close>, \<open>None\<close> when the statement fails). A \<open>timestamptz\<close> keeps
  microseconds; the driver's \<open>Date\<close> keeps milliseconds. \<open>lv_micros\<close> gives the rest, by row.
\<close>

subsection \<open>Values of sort columns\<close>

datatype sort_value = TextKey string | Micros int | NullKey

text \<open>\<open>ORDER BY ... ASC\<close> puts \<open>NULL\<close> last, \<open>DESC\<close> first.\<close>

fun sort_rank :: "sort_value \<Rightarrow> nat \<times> int \<times> string" where
  "sort_rank (TextKey s) = (0, 0, s)"
| "sort_rank (Micros t) = (1, t, [])"
| "sort_rank NullKey = (2, 0, [])"

lemma sort_rank_inj: "sort_rank a = sort_rank b \<Longrightarrow> a = b"
  by (cases a; cases b) auto

instantiation sort_value :: linorder
begin

definition less_eq_sort_value :: "sort_value \<Rightarrow> sort_value \<Rightarrow> bool" where
  "less_eq_sort_value a b = (sort_rank a \<le> sort_rank b)"

definition less_sort_value :: "sort_value \<Rightarrow> sort_value \<Rightarrow> bool" where
  "less_sort_value a b = (sort_rank a < sort_rank b)"

instance
  by standard (auto simp: less_eq_sort_value_def less_sort_value_def dest: sort_rank_inj intro: order_antisym)

end

datatype direction = Ascending | Descending

record 'r column =
  co_stored :: "'r \<Rightarrow> sort_value"
  co_shown :: "'r \<Rightarrow> json"
  co_read :: "string \<Rightarrow> sort_value option"

text \<open>
  What PostgreSQL supplies: the order of texts (as a key), the conversion of a text to \<open>timestamptz\<close>
  in microseconds and to a canonical \<open>uuid\<close>, and the sub-millisecond part of a timestamp (by column
  and row id).
\<close>

record listing_env =
  lv_collate :: "string \<Rightarrow> string"
  lv_timestamp :: "string \<Rightarrow> int option"
  lv_uuid :: "string \<Rightarrow> string option"
  lv_micros :: "string \<Rightarrow> string \<Rightarrow> int"

definition text_column :: "listing_env \<Rightarrow> ('r \<Rightarrow> string) \<Rightarrow> 'r column" where
  "text_column env get = \<lparr>co_stored = (\<lambda>r. TextKey (lv_collate env (get r))), co_shown = (\<lambda>r. JStr (get r)),
     co_read = (\<lambda>s. Some (TextKey (lv_collate env s)))\<rparr>"

definition nullable_text_column :: "listing_env \<Rightarrow> ('r \<Rightarrow> string option) \<Rightarrow> 'r column" where
  "nullable_text_column env get = \<lparr>
     co_stored = (\<lambda>r. case get r of None \<Rightarrow> NullKey | Some s \<Rightarrow> TextKey (lv_collate env s)),
     co_shown = (\<lambda>r. case get r of None \<Rightarrow> JNull | Some s \<Rightarrow> JStr s),
     co_read = (\<lambda>s. Some (TextKey (lv_collate env s)))\<rparr>"

text \<open>\<open>CITEXT\<close> compares without case.\<close>

definition citext_column :: "listing_env \<Rightarrow> ('r \<Rightarrow> string) \<Rightarrow> 'r column" where
  "citext_column env get = \<lparr>co_stored = (\<lambda>r. TextKey (lv_collate env (to_lower (get r)))),
     co_shown = (\<lambda>r. JStr (get r)), co_read = (\<lambda>s. Some (TextKey (lv_collate env (to_lower s))))\<rparr>"

definition time_column :: "listing_env \<Rightarrow> string \<Rightarrow> ('r \<Rightarrow> string) \<Rightarrow> ('r \<Rightarrow> time option) \<Rightarrow> 'r column" where
  "time_column env name row_id get = \<lparr>
     co_stored = (\<lambda>r. case get r of None \<Rightarrow> NullKey | Some t \<Rightarrow> Micros (t * 1000 + lv_micros env name (row_id r))),
     co_shown = (\<lambda>r. case get r of None \<Rightarrow> JNull | Some t \<Rightarrow> JStr (to_iso_string t)),
     co_read = (\<lambda>s. map_option Micros (lv_timestamp env s))\<rparr>"

subsection \<open>Search\<close>

text \<open>\<open>LIKE\<close>: a backslash makes the next character of the pattern literal.\<close>

fun like_match :: "string \<Rightarrow> string \<Rightarrow> bool" where
  "like_match [] s = (s = [])"
| "like_match (d # p) s =
     (if d = CHR ''%'' then like_match p s \<or> (case s of [] \<Rightarrow> False | c # s' \<Rightarrow> like_match (d # p) s')
      else if d = CHR ''_'' then (case s of [] \<Rightarrow> False | c # s' \<Rightarrow> like_match p s')
      else if d = CHR 0x5C
        then (case p of [] \<Rightarrow> False | q # p' \<Rightarrow>
               (case s of [] \<Rightarrow> False | c # s' \<Rightarrow> c = q \<and> like_match p' s'))
      else (case s of [] \<Rightarrow> False | c # s' \<Rightarrow> c = d \<and> like_match p s'))"

text \<open>\<open>column ILIKE '%search%'\<close>; the wildcards of the search text are not escaped.\<close>

definition ilike :: "string \<Rightarrow> string \<Rightarrow> bool" where
  "ilike search s = like_match (''%'' @ to_lower search @ ''%'') (to_lower s)"

definition ilike_null :: "string \<Rightarrow> string option \<Rightarrow> bool" where
  "ilike_null search v = (case v of None \<Rightarrow> False | Some s \<Rightarrow> ilike search s)"

definition searched :: "string option \<Rightarrow> (string \<Rightarrow> bool) \<Rightarrow> bool" where
  "searched search matches = (case search of None \<Rightarrow> True | Some s \<Rightarrow> s = [] \<or> matches s)"

definition filtered :: "'v option \<Rightarrow> 'v \<Rightarrow> bool" where
  "filtered wanted v = (case wanted of None \<Rightarrow> True | Some w \<Rightarrow> v = w)"

subsection \<open>Keyset and offset queries\<close>

definition beyond :: "direction \<Rightarrow> 'k::linorder \<Rightarrow> 'k \<Rightarrow> bool" where
  "beyond dir a b = (case dir of Ascending \<Rightarrow> b < a | Descending \<Rightarrow> a < b)"

text \<open>\<open>ORDER BY\<close> of a scan; rows with the same key keep the order of the scan.\<close>

definition ordered :: "direction \<Rightarrow> ('r \<Rightarrow> 'k::linorder) \<Rightarrow> 'r list \<Rightarrow> 'r list" where
  "ordered dir key rows =
     (case dir of Ascending \<Rightarrow> sort_key key rows | Descending \<Rightarrow> rev (sort_key key (rev rows)))"

definition parameter_text :: "json \<Rightarrow> string" where
  "parameter_text j = (case j of JStr s \<Rightarrow> s | JNum n \<Rightarrow> show_int n | JDec t \<Rightarrow> t | _ \<Rightarrow> [])"

definition invalid_input :: app_error where
  "invalid_input = JsError ''invalid input syntax''"

text \<open>The condition a cursor adds; a parameter that has not the type of its column fails the statement.\<close>

definition cursor_condition ::
    "listing_env \<Rightarrow> direction \<Rightarrow> 'r column \<Rightarrow> ('r \<Rightarrow> string) \<Rightarrow> string option \<Rightarrow> app_error + ('r \<Rightarrow> bool)" where
  "cursor_condition env dir col row_id cursor =
     (case cursor of
        None \<Rightarrow> Inr (\<lambda>_. True)
      | Some c \<Rightarrow>
          (case (if c = [] then None else decode_cursor c) of
             None \<Rightarrow> Inr (\<lambda>_. True)
           | Some p \<Rightarrow>
               (case lv_uuid env (cp_id p) of
                  None \<Rightarrow> Inl invalid_input
                | Some i \<Rightarrow>
                    if cp_sort p = JNull
                    then Inr (\<lambda>r. co_stored col r \<noteq> NullKey \<or> beyond dir (row_id r) i)
                    else (case co_read col (parameter_text (cp_sort p)) of
                            None \<Rightarrow> Inl invalid_input
                          | Some v \<Rightarrow> Inr (\<lambda>r. co_stored col r \<noteq> NullKey \<and>
                              beyond dir (co_stored col r, row_id r) (v, i))))))"

definition page_limit :: "int option \<Rightarrow> nat" where
  "page_limit limit = nat (min (max 1 (nullish limit 25)) 100)"

definition sort_direction :: "string option \<Rightarrow> direction" where
  "sort_direction order = (if order = Some ''asc'' then Ascending else Descending)"

definition keyset_page ::
    "listing_env \<Rightarrow> direction \<Rightarrow> 'r column \<Rightarrow> ('r \<Rightarrow> string) \<Rightarrow> ('r \<Rightarrow> bool) \<Rightarrow> string option \<Rightarrow> int option \<Rightarrow>
     'r list \<Rightarrow> app_error + 'r listing" where
  "keyset_page env dir col row_id wanted cursor limit rows =
     (case cursor_condition env dir col row_id cursor of
        Inl e \<Rightarrow> Inl e
      | Inr past \<Rightarrow>
          Inr (build_cursor_result
            (take (page_limit limit + 1)
              (ordered dir (\<lambda>r. (co_stored col r, row_id r)) (filter (\<lambda>r. past r \<and> wanted r) rows)))
            (page_limit limit) (co_shown col) row_id))"

text \<open>The offset queries have no tie-breaker: \<open>scan\<close> is the order in which the plan meets the rows.\<close>

definition offset_page ::
    "direction \<Rightarrow> 'r column \<Rightarrow> ('r \<Rightarrow> bool) \<Rightarrow> nat \<Rightarrow> nat \<Rightarrow> ('r list \<Rightarrow> 'r list) \<Rightarrow> 'r list \<Rightarrow> 'r listing" where
  "offset_page dir col wanted page page_size scan rows =
     (let hits = filter wanted rows
      in offset_result (take page_size (drop ((page - 1) * page_size) (ordered dir (co_stored col) (scan hits))))
           (length hits) page page_size)"


text \<open>
  The queries of the listings on the rows of a table, the handlers of \<open>GET /\<close> that choose between
  keyset and offset paging, and the client's \<open>listAll\<close>. Zod has already turned the numbers of the
  query string into integers; a number out of range is a 400.
\<close>

subsection \<open>Repository listings\<close>

text \<open>The options of the offset and of the cursor listings; \<open>lo_scope\<close> is the organization of a user listing.\<close>

record 'st list_options =
  lo_scope :: string
  lo_page :: nat
  lo_page_size :: nat
  lo_cursor :: "string option"
  lo_limit :: "int option"
  lo_status :: "'st option"
  lo_search :: "string option"
  lo_sort_by :: "string option"
  lo_sort_order :: "string option"

definition organization_columns :: "listing_env \<Rightarrow> (string \<times> organization_row column) list" where
  "organization_columns env = [(''name'', text_column env og_name),
     (''created_at'', time_column env ''created_at'' og_id (\<lambda>r. Some (og_created_at r)))]"

text \<open>\<open>ALLOWED_SORT_COLUMNS[sortBy ?? 'created_at'] ?? 'created_at'\<close>.\<close>

definition sort_column_name :: "(string \<times> 'r column) list \<Rightarrow> string option \<Rightarrow> string" where
  "sort_column_name columns sort_by =
     (let n = nullish sort_by ''created_at'' in if map_of columns n = None then ''created_at'' else n)"

definition sort_column :: "(string \<times> 'r column) list \<Rightarrow> string option \<Rightarrow> 'r column" where
  "sort_column columns sort_by = the (map_of columns (sort_column_name columns sort_by))"

definition organization_wanted :: "organization_status list_options \<Rightarrow> organization_row \<Rightarrow> bool" where
  "organization_wanted opts r = (filtered (lo_status opts) (og_status r) \<and>
     searched (lo_search opts) (\<lambda>s. ilike s (og_name r) \<or> ilike s (og_slug r)))"

definition list_organizations ::
    "listing_env \<Rightarrow> organization_status list_options \<Rightarrow> (organization_row list \<Rightarrow> organization_row list) \<Rightarrow>
     organization_row list \<Rightarrow> organization_row listing" where
  "list_organizations env opts scan rows =
     offset_page (sort_direction (lo_sort_order opts)) (sort_column (organization_columns env) (lo_sort_by opts))
       (organization_wanted opts) (lo_page opts) (lo_page_size opts) scan rows"

definition list_organizations_cursor ::
    "listing_env \<Rightarrow> organization_status list_options \<Rightarrow> organization_row list \<Rightarrow>
     app_error + organization_row listing" where
  "list_organizations_cursor env opts rows =
     keyset_page env (sort_direction (lo_sort_order opts)) (sort_column (organization_columns env) (lo_sort_by opts))
       og_id (organization_wanted opts) (lo_cursor opts) (lo_limit opts) rows"

definition application_columns :: "listing_env \<Rightarrow> (string \<times> application_row column) list" where
  "application_columns env = [(''name'', text_column env ap_name),
     (''created_at'', time_column env ''created_at'' ap_id (\<lambda>r. Some (ap_created_at r)))]"

definition application_wanted :: "record_status list_options \<Rightarrow> application_row \<Rightarrow> bool" where
  "application_wanted opts r = (filtered (lo_status opts) (ap_status r) \<and>
     searched (lo_search opts) (\<lambda>s. ilike s (ap_name r) \<or> ilike s (ap_slug r)))"

definition list_applications ::
    "listing_env \<Rightarrow> record_status list_options \<Rightarrow> (application_row list \<Rightarrow> application_row list) \<Rightarrow>
     application_row list \<Rightarrow> application_row listing" where
  "list_applications env opts scan rows =
     offset_page (sort_direction (lo_sort_order opts)) (sort_column (application_columns env) (lo_sort_by opts))
       (application_wanted opts) (lo_page opts) (lo_page_size opts) scan rows"

definition list_applications_cursor ::
    "listing_env \<Rightarrow> record_status list_options \<Rightarrow> application_row list \<Rightarrow> app_error + application_row listing" where
  "list_applications_cursor env opts rows =
     keyset_page env (sort_direction (lo_sort_order opts)) (sort_column (application_columns env) (lo_sort_by opts))
       ap_id (application_wanted opts) (lo_cursor opts) (lo_limit opts) rows"

definition user_columns :: "listing_env \<Rightarrow> (string \<times> user_row column) list" where
  "user_columns env = [(''email'', citext_column env ur_email),
     (''given_name'', nullable_text_column env (\<lambda>r. ur_profile r GivenName)),
     (''family_name'', nullable_text_column env (\<lambda>r. ur_profile r FamilyName)),
     (''created_at'', time_column env ''created_at'' ur_id (\<lambda>r. Some (ur_created_at r))),
     (''last_login_at'', time_column env ''last_login_at'' ur_id ur_last_login_at)]"

definition user_wanted :: "user_status list_options \<Rightarrow> user_row \<Rightarrow> bool" where
  "user_wanted opts r = (ur_organization_id r = lo_scope opts \<and> filtered (lo_status opts) (ur_status r) \<and>
     searched (lo_search opts) (\<lambda>s. ilike s (ur_email r) \<or> ilike_null s (ur_profile r GivenName) \<or>
       ilike_null s (ur_profile r FamilyName)))"

definition map_listing :: "('a \<Rightarrow> 'b) \<Rightarrow> 'a listing \<Rightarrow> 'b listing" where
  "map_listing f l = \<lparr>ls_data = map f (ls_data l), ls_next_cursor = ls_next_cursor l,
     ls_previous_cursor = ls_previous_cursor l, ls_has_more = ls_has_more l, ls_total = ls_total l,
     ls_page = ls_page l, ls_page_size = ls_page_size l, ls_total_pages = ls_total_pages l\<rparr>"

definition list_users ::
    "listing_env \<Rightarrow> user_status list_options \<Rightarrow> (user_row list \<Rightarrow> user_row list) \<Rightarrow> user_row list \<Rightarrow> user listing" where
  "list_users env opts scan rows = map_listing map_row_to_user
     (offset_page (sort_direction (lo_sort_order opts)) (sort_column (user_columns env) (lo_sort_by opts))
       (user_wanted opts) (lo_page opts) (lo_page_size opts) scan rows)"

text \<open>The user listing also counts the rows that match without the cursor.\<close>

definition list_users_cursor ::
    "listing_env \<Rightarrow> user_status list_options \<Rightarrow> user_row list \<Rightarrow> app_error + user listing" where
  "list_users_cursor env opts rows =
     map_sum id (\<lambda>l. map_listing map_row_to_user (l\<lparr>ls_total := Some (length (filter (user_wanted opts) rows))\<rparr>))
       (keyset_page env (sort_direction (lo_sort_order opts)) (sort_column (user_columns env) (lo_sort_by opts))
         ur_id (user_wanted opts) (lo_cursor opts) (lo_limit opts) rows)"

subsection \<open>Handlers\<close>

record 'st list_query =
  lq_page :: "int option"
  lq_page_size :: "int option"
  lq_cursor :: "string option"
  lq_limit :: "int option"
  lq_status :: "'st option"
  lq_search :: "string option"
  lq_sort_by :: "string option"
  lq_sort_order :: "string option"

definition within :: "int option \<Rightarrow> int \<Rightarrow> int option \<Rightarrow> bool" where
  "within n lo hi = (case n of None \<Rightarrow> True
     | Some x \<Rightarrow> lo \<le> x \<and> (case hi of None \<Rightarrow> True | Some h \<Rightarrow> x \<le> h))"

definition common_query_ok :: "string list \<Rightarrow> 'st list_query \<Rightarrow> bool" where
  "common_query_ok columns q =
     ((case lq_search q of None \<Rightarrow> True | Some s \<Rightarrow> length s \<le> 255) \<and>
      (case lq_sort_by q of None \<Rightarrow> True | Some c \<Rightarrow> c \<in> set columns) \<and>
      (case lq_sort_order q of None \<Rightarrow> True | Some s \<Rightarrow> s = ''asc'' \<or> s = ''desc''))"

definition cursor_query_ok :: "string list \<Rightarrow> 'st list_query \<Rightarrow> bool" where
  "cursor_query_ok columns q = (within (lq_limit q) 1 (Some 100) \<and> common_query_ok columns q)"

definition offset_query_ok :: "string list \<Rightarrow> 'st list_query \<Rightarrow> bool" where
  "offset_query_ok columns q =
     (within (lq_page q) 1 None \<and> within (lq_page_size q) 1 (Some 100) \<and> common_query_ok columns q)"

definition options_of_query :: "string \<Rightarrow> 'st list_query \<Rightarrow> 'st list_options" where
  "options_of_query scope q = \<lparr>lo_scope = scope, lo_page = nat (nullish (lq_page q) 1),
     lo_page_size = nat (nullish (lq_page_size q) 20), lo_cursor = lq_cursor q,
     lo_limit = Some (nullish (lq_limit q) 25), lo_status = lq_status q, lo_search = lq_search q,
     lo_sort_by = Some (nullish (lq_sort_by q) ''created_at''),
     lo_sort_order = Some (nullish (lq_sort_order q) ''desc'')\<rparr>"

text \<open>Keyset paging when \<open>cursor\<close> or \<open>limit\<close> is present.\<close>

definition list_route ::
    "string list \<Rightarrow> string \<Rightarrow> ('st list_options \<Rightarrow> app_error + 'a listing) \<Rightarrow> ('st list_options \<Rightarrow> 'a listing) \<Rightarrow>
     'st list_query \<Rightarrow> app_error + 'a listing" where
  "list_route columns scope by_cursor by_page q =
     (if lq_cursor q \<noteq> None \<or> lq_limit q \<noteq> None
      then if cursor_query_ok columns q then by_cursor (options_of_query scope q) else Inl (HttpError 400)
      else if offset_query_ok columns q then Inr (by_page (options_of_query scope q)) else Inl (HttpError 400))"

definition list_organizations_route where
  "list_organizations_route env scan q rows = list_route [''name'', ''created_at''] []
     (\<lambda>opts. list_organizations_cursor env opts rows) (\<lambda>opts. list_organizations env opts scan rows) q"

definition list_applications_route where
  "list_applications_route env scan q rows = list_route [''name'', ''created_at''] []
     (\<lambda>opts. list_applications_cursor env opts rows) (\<lambda>opts. list_applications env opts scan rows) q"

definition list_users_route where
  "list_users_route env scan org q rows =
     list_route [''email'', ''given_name'', ''family_name'', ''created_at'', ''last_login_at''] org
       (\<lambda>opts. list_users_cursor env opts rows) (\<lambda>opts. list_users env opts scan rows) q"

subsection \<open>\<open>listAll\<close> of the client\<close>

text \<open>\<open>while (hasMore && nextCursor)\<close>.\<close>

definition next_page :: "'a listing \<Rightarrow> string option" where
  "next_page p = (if ls_has_more p = Some True
     then (case ls_next_cursor p of Some c \<Rightarrow> if c = [] then None else Some c | None \<Rightarrow> None) else None)"

partial_function (option) more_cursor_pages ::
    "('st list_query \<Rightarrow> ('s, 'a listing) op) \<Rightarrow> 'st list_query \<Rightarrow> string \<Rightarrow> 'a list \<Rightarrow> 's \<Rightarrow>
     ((app_error + 'a list) \<times> 's) option" where
  "more_cursor_pages fetch base c acc s =
     (case fetch (base\<lparr>lq_cursor := Some c\<rparr>) s of
        (Inl e, s') \<Rightarrow> Some (Inl e, s')
      | (Inr p, s') \<Rightarrow>
          (case next_page p of
             None \<Rightarrow> Some (Inr (acc @ ls_data p), s')
           | Some c' \<Rightarrow> more_cursor_pages fetch base c' (acc @ ls_data p) s'))"

fun more_offset_pages ::
    "('st list_query \<Rightarrow> ('s, 'a listing) op) \<Rightarrow> 'st list_query \<Rightarrow> nat list \<Rightarrow> 'a list \<Rightarrow> ('s, 'a list) op" where
  "more_offset_pages fetch base [] acc = return_op acc"
| "more_offset_pages fetch base (page # pages) acc =
     andthen (fetch (base\<lparr>lq_page := Some (int page)\<rparr>)) (\<lambda>p.
     more_offset_pages fetch base pages (acc @ ls_data p))"

definition list_all_pages ::
    "('st list_query \<Rightarrow> ('s, 'a listing) op) \<Rightarrow> 'st list_query \<Rightarrow> 's \<Rightarrow> ((app_error + 'a list) \<times> 's) option" where
  "list_all_pages fetch base s =
     (case fetch (base\<lparr>lq_page := Some 1\<rparr>) s of
        (Inl e, s') \<Rightarrow> Some (Inl e, s')
      | (Inr p, s') \<Rightarrow>
          if ls_has_more p \<noteq> None
          then (case next_page p of
                  None \<Rightarrow> Some (Inr (ls_data p), s')
                | Some c \<Rightarrow> more_cursor_pages fetch base c (ls_data p) s')
          else (case ls_total_pages p of
                  Some n \<Rightarrow> Some (more_offset_pages fetch base [2 ..< Suc n] (ls_data p) s')
                | None \<Rightarrow> Some (Inr (ls_data p), s')))"

end
