(* ===== verification/ListingProperties.thy ===== *)
theory ListingProperties
  imports Listings
begin

text \<open>
  The contract between a paged endpoint and the client that collects all pages, and its proof for the
  keyset pages of the repositories. The tables may change between two requests: \<open>serve\<close> answers each
  request from the next state of a list, and the last state stays.
\<close>

definition serve :: "('t \<Rightarrow> 'i \<Rightarrow> app_error + 'b) \<Rightarrow> 'i \<Rightarrow> ('t list, 'b) op" where
  "serve answer i ts = (answer (hd ts) i, if tl ts = [] then ts else tl ts)"

definition served :: "'t list \<Rightarrow> 't list" where
  "served ts = (if tl ts = [] then ts else tl ts)"

lemma serve_apply: "serve answer i ts = (answer (hd ts) i, served ts)"
  by (simp add: serve_def served_def)

lemma served_props:
  assumes "ts \<noteq> []"
  shows "served ts \<noteq> []" and "set (served ts) \<subseteq> set ts" and "hd ts \<in> set ts"
    and "last (served ts) = last ts"
    and "served ts = ts \<Longrightarrow> ts = [last ts]" and "served ts \<noteq> ts \<Longrightarrow> length (served ts) < length ts"
  using assms by (cases ts; auto simp: served_def split: if_splits)+

subsection \<open>The contract\<close>

text \<open>
  \<open>remains q t c p\<close>: the cursor \<open>c\<close> stands for the position \<open>p\<close>; \<open>past q p x\<close>: the entry \<open>x\<close> comes after
  it; \<open>listed q t\<close>: the entries the query lists in the state \<open>t\<close>; \<open>before q\<close>: their order.
\<close>

locale paged_endpoint =
  fixes page_of :: "'q \<Rightarrow> 't \<Rightarrow> string option \<Rightarrow> app_error + 'a listing"
    and good :: "'q \<Rightarrow> 't \<Rightarrow> bool"
    and at_cursor :: "'q \<Rightarrow> string option \<Rightarrow> 'p \<Rightarrow> bool"
    and past :: "'q \<Rightarrow> 'p \<Rightarrow> 'a \<Rightarrow> bool"
    and listed :: "'q \<Rightarrow> 't \<Rightarrow> 'a set"
    and before :: "'q \<Rightarrow> 'a \<Rightarrow> 'a \<Rightarrow> bool"
  assumes listed_finite: "good q t \<Longrightarrow> finite (listed q t)"
    and before_irrefl: "\<not> before q x x"
    and page_answered: "good q t \<Longrightarrow> at_cursor q c p \<Longrightarrow> \<exists>l. page_of q t c = Inr l"
    and page_more: "good q t \<Longrightarrow> at_cursor q c p \<Longrightarrow> page_of q t c = Inr l \<Longrightarrow> ls_has_more l \<noteq> None"
    and page_sorted: "good q t \<Longrightarrow> at_cursor q c p \<Longrightarrow> page_of q t c = Inr l \<Longrightarrow> sorted_wrt (before q) (ls_data l)"
    and page_sound: "good q t \<Longrightarrow> at_cursor q c p \<Longrightarrow> page_of q t c = Inr l \<Longrightarrow> x \<in> set (ls_data l) \<Longrightarrow>
      x \<in> listed q t \<and> past q p x"
    and page_last: "good q t \<Longrightarrow> at_cursor q c p \<Longrightarrow> page_of q t c = Inr l \<Longrightarrow> next_page l = None \<Longrightarrow>
      x \<in> listed q t \<Longrightarrow> past q p x \<Longrightarrow> x \<in> set (ls_data l)"
    and page_next: "good q t \<Longrightarrow> at_cursor q c p \<Longrightarrow> page_of q t c = Inr l \<Longrightarrow> next_page l = Some c' \<Longrightarrow>
      ls_data l \<noteq> [] \<and> (\<exists>p'. at_cursor q (Some c') p' \<and>
        (\<forall>x \<in> listed q t. past q p x \<longrightarrow> x \<in> set (ls_data l) \<or> past q p' x) \<and>
        (\<forall>x. past q p' x \<longrightarrow> past q p x \<and> (\<forall>y \<in> set (ls_data l). before q y x)))"
begin

definition left_over :: "'q \<Rightarrow> 't list \<Rightarrow> 'p \<Rightarrow> nat" where
  "left_over q ts p = card {x \<in> listed q (last ts). past q p x}"

text \<open>Every page of the last state uses up entries.\<close>

lemma page_consumes:
  assumes "good q t" and "at_cursor q c p" and "page_of q t c = Inr l" and "ls_data l \<noteq> []"
    and "\<forall>x. past q p' x \<longrightarrow> past q p x \<and> (\<forall>y \<in> set (ls_data l). before q y x)"
  shows "card {x \<in> listed q t. past q p' x} < card {x \<in> listed q t. past q p x}"
proof (rule psubset_card_mono)
  show "finite {x \<in> listed q t. past q p x}" using listed_finite [OF assms(1)] by simp
  have "hd (ls_data l) \<in> set (ls_data l)" using assms(4) by simp
  then have "hd (ls_data l) \<in> {x \<in> listed q t. past q p x}" "\<not> past q p' (hd (ls_data l))"
    using page_sound [OF assms(1-3)] assms(5) before_irrefl by blast+
  then show "{x \<in> listed q t. past q p' x} \<subset> {x \<in> listed q t. past q p x}"
    using assms(5) by blast
qed

text \<open>What the pages from a position on contribute.\<close>

definition collected :: "'q \<Rightarrow> 't list \<Rightarrow> 'p \<Rightarrow> 'a list \<Rightarrow> bool" where
  "collected q ts p xs \<longleftrightarrow> sorted_wrt (before q) xs \<and>
     (\<forall>x \<in> set xs. past q p x \<and> (\<exists>t \<in> set ts. x \<in> listed q t)) \<and>
     (\<forall>x. (\<forall>t \<in> set ts. x \<in> listed q t) \<and> past q p x \<longrightarrow> x \<in> set xs)"

lemma last_page_collected:
  assumes "good q (hd ts)" and "ts \<noteq> []" and "at_cursor q c p" and "page_of q (hd ts) c = Inr l"
    and "next_page l = None"
  shows "collected q ts p (ls_data l)"
  unfolding collected_def
  using page_sorted [OF assms(1,3,4)] page_sound [OF assms(1,3,4)] page_last [OF assms(1,3,4,5)] assms(2)
  by (metis list.set_sel(1))

lemma page_then_collected:
  assumes "good q (hd ts)" and "ts \<noteq> []" and "at_cursor q c p" and "page_of q (hd ts) c = Inr l"
    and between: "\<forall>x \<in> listed q (hd ts). past q p x \<longrightarrow> x \<in> set (ls_data l) \<or> past q p' x"
    and beyond: "\<forall>x. past q p' x \<longrightarrow> past q p x \<and> (\<forall>y \<in> set (ls_data l). before q y x)"
    and rest: "collected q (served ts) p' xs"
  shows "collected q ts p (ls_data l @ xs)"
proof -
  have sub: "set (served ts) \<subseteq> set ts" and hd: "hd ts \<in> set ts"
    using served_props [OF assms(2)] by blast+
  have "sorted_wrt (before q) (ls_data l @ xs)"
    using page_sorted [OF assms(1,3,4)] rest beyond unfolding collected_def sorted_wrt_append by blast
  moreover have "\<forall>x \<in> set (ls_data l @ xs). past q p x \<and> (\<exists>t \<in> set ts. x \<in> listed q t)"
    using page_sound [OF assms(1,3,4)] rest beyond sub hd unfolding collected_def by (metis Un_iff set_append subsetD)
  moreover have "\<forall>x. (\<forall>t \<in> set ts. x \<in> listed q t) \<and> past q p x \<longrightarrow> x \<in> set (ls_data l @ xs)"
    using rest between sub hd unfolding collected_def by (metis Un_iff set_append subsetD)
  ultimately show ?thesis by (simp add: collected_def)
qed

text \<open>The loop of the client ends and collects what remains.\<close>

lemma cursor_pages_collect:
  assumes "\<And>t c. t \<in> set ts \<Longrightarrow> answer t (base\<lparr>lq_cursor := Some c\<rparr>) = page_of q t (Some c)"
    and "\<forall>t \<in> set ts. good q t" and "ts \<noteq> []" and "at_cursor q (Some c) p"
  shows "\<exists>xs ts'. more_cursor_pages (serve answer) base c acc ts = Some (Inr (acc @ xs), ts') \<and> collected q ts p xs"
  using assms
proof (induction "(length ts, left_over q ts p)" arbitrary: ts c p acc rule: wf_induct_rule [OF wf_lex_prod [OF wf_less wf_less]])
  case 1
  note IH = "1.hyps" and ans = "1.prems"(1) and ok = "1.prems"(2) and ne = "1.prems"(3) and at = "1.prems"(4)
  have hd: "hd ts \<in> set ts" and good: "good q (hd ts)" using ne ok by simp_all
  obtain l where l: "page_of q (hd ts) (Some c) = Inr l" using page_answered [OF good at] by blast
  have step: "more_cursor_pages (serve answer) base c acc ts =
      (case next_page l of None \<Rightarrow> Some (Inr (acc @ ls_data l), served ts)
       | Some c' \<Rightarrow> more_cursor_pages (serve answer) base c' (acc @ ls_data l) (served ts))"
    by (subst more_cursor_pages.simps) (simp add: serve_apply ans [OF hd] l split: option.splits)
  show ?case
  proof (cases "next_page l")
    case None
    then show ?thesis using step last_page_collected [OF good ne at l] by auto
  next
    case (Some c')
    obtain p' where p': "at_cursor q (Some c') p'"
        "\<forall>x \<in> listed q (hd ts). past q p x \<longrightarrow> x \<in> set (ls_data l) \<or> past q p' x"
        "\<forall>x. past q p' x \<longrightarrow> past q p x \<and> (\<forall>y \<in> set (ls_data l). before q y x)"
      and ne': "ls_data l \<noteq> []"
      using page_next [OF good at l Some] by blast
    have "length (served ts) < length ts \<or> (served ts = ts \<and> left_over q ts p' < left_over q ts p)"
    proof (cases "served ts = ts")
      case True
      then have "hd ts = last ts" using served_props(5) [OF ne] by (metis list.sel(1))
      then show ?thesis using True page_consumes [OF good at l ne' p'(3)] by (simp add: left_over_def)
    qed (use served_props(6) [OF ne] in blast)
    then have "((length (served ts), left_over q (served ts) p'), (length ts, left_over q ts p)) \<in> {(x, y). x < y} <*lex*> {(x, y). x < y}"
      by auto
    from IH [OF this _ _ served_props(1) [OF ne] p'(1), of "acc @ ls_data l"]
    obtain xs ts' where "more_cursor_pages (serve answer) base c' (acc @ ls_data l) (served ts) =
        Some (Inr ((acc @ ls_data l) @ xs), ts')" "collected q (served ts) p' xs"
      using ans ok served_props(2) [OF ne] by blast
    then show ?thesis using step Some page_then_collected [OF good ne at l p'(2,3)] by auto
  qed
qed

text \<open>\<open>listAll\<close> ends; it collects in order, without repetition, entries that were listed, and all that stayed.\<close>

lemma list_all_collects:
  assumes "\<And>t c. t \<in> set ts \<Longrightarrow> answer t (base\<lparr>lq_cursor := Some c\<rparr>) = page_of q t (Some c)"
    and "\<And>t. t \<in> set ts \<Longrightarrow> answer t (base\<lparr>lq_page := Some 1\<rparr>) = page_of q t None"
    and "\<forall>t \<in> set ts. good q t" and "ts \<noteq> []" and "at_cursor q None p"
  shows "\<exists>xs ts'. list_all_pages (serve answer) base ts = Some (Inr xs, ts') \<and> collected q ts p xs"
proof -
  have hd: "hd ts \<in> set ts" and good: "good q (hd ts)" using assms(3,4) by simp_all
  obtain l where l: "page_of q (hd ts) None = Inr l" using page_answered [OF good assms(5)] by blast
  have more: "ls_has_more l \<noteq> None" using page_more [OF good assms(5) l] .
  have step: "list_all_pages (serve answer) base ts =
      (case next_page l of None \<Rightarrow> Some (Inr (ls_data l), served ts)
       | Some c' \<Rightarrow> more_cursor_pages (serve answer) base c' (ls_data l) (served ts))"
    unfolding list_all_pages_def serve_apply assms(2) [OF hd] l using more by simp
  show ?thesis
  proof (cases "next_page l")
    case None
    then show ?thesis using step last_page_collected [OF good assms(4,5) l] by auto
  next
    case (Some c')
    obtain p' where p': "at_cursor q (Some c') p'"
        "\<forall>x \<in> listed q (hd ts). past q p x \<longrightarrow> x \<in> set (ls_data l) \<or> past q p' x"
        "\<forall>x. past q p' x \<longrightarrow> past q p x \<and> (\<forall>y \<in> set (ls_data l). before q y x)"
      using page_next [OF good assms(5) l Some] by blast
    have sub: "set (served ts) \<subseteq> set ts" using served_props(2) [OF assms(4)] .
    obtain xs ts' where "more_cursor_pages (serve answer) base c' (ls_data l) (served ts) =
        Some (Inr (ls_data l @ xs), ts')" "collected q (served ts) p' xs"
      using cursor_pages_collect [OF _ _ served_props(1) [OF assms(4)] p'(1), of answer base "ls_data l"]
        assms(1,3) sub by blast
    then show ?thesis using step Some page_then_collected [OF good assms(4,5) l p'(2,3)] by auto
  qed
qed

end


text \<open>
  The keyset queries of the repositories keep the contract of a paged endpoint, as long as the cursor
  of each row leads back to the sort value of the row (\<open>cursor_exact\<close>); what \<open>listAll\<close> then returns.
\<close>

record 'r keyset_query =
  kq_env :: listing_env
  kq_direction :: direction
  kq_column :: "'r column"
  kq_row_id :: "'r \<Rightarrow> string"
  kq_wanted :: "'r \<Rightarrow> bool"
  kq_limit :: "int option"

definition keyset_fetch :: "'r keyset_query \<Rightarrow> 'r list \<Rightarrow> string option \<Rightarrow> app_error + 'r listing" where
  "keyset_fetch q t c =
     keyset_page (kq_env q) (kq_direction q) (kq_column q) (kq_row_id q) (kq_wanted q) c (kq_limit q) t"

definition row_key :: "'r column \<Rightarrow> ('r \<Rightarrow> string) \<Rightarrow> 'r \<Rightarrow> sort_value \<times> string" where
  "row_key col row_id r = (co_stored col r, row_id r)"

definition query_key :: "'r keyset_query \<Rightarrow> 'r \<Rightarrow> sort_value \<times> string" where
  "query_key q = row_key (kq_column q) (kq_row_id q)"

text \<open>The cursor of the row, read back by PostgreSQL, is the key of the row.\<close>

definition cursor_exact :: "listing_env \<Rightarrow> 'r column \<Rightarrow> ('r \<Rightarrow> string) \<Rightarrow> 'r \<Rightarrow> bool" where
  "cursor_exact env col row_id r =
     (row_id r \<noteq> [] \<and> lv_uuid env (row_id r) = Some (row_id r) \<and> co_stored col r \<noteq> NullKey \<and>
      co_shown col r \<noteq> JNull \<and> json_ok (co_shown col r) \<and> sort_value_ok (co_shown col r) \<and>
      co_read col (parameter_text (co_shown col r)) = Some (co_stored col r))"

definition keyset_good :: "'r keyset_query \<Rightarrow> 'r list \<Rightarrow> bool" where
  "keyset_good q t = (unique_on (kq_row_id q) t \<and> (\<forall>r \<in> set t. cursor_exact (kq_env q) (kq_column q) (kq_row_id q) r))"

definition keyset_at :: "'r keyset_query \<Rightarrow> string option \<Rightarrow> (sort_value \<times> string) option \<Rightarrow> bool" where
  "keyset_at q c p = (case c of None \<Rightarrow> p = None
     | Some s \<Rightarrow> (\<exists>r. cursor_exact (kq_env q) (kq_column q) (kq_row_id q) r \<and>
         s = encode_cursor (co_shown (kq_column q) r) (kq_row_id q r) \<and> p = Some (query_key q r)))"

definition keyset_past :: "'r keyset_query \<Rightarrow> (sort_value \<times> string) option \<Rightarrow> 'r \<Rightarrow> bool" where
  "keyset_past q p r = (case p of None \<Rightarrow> True | Some k \<Rightarrow> beyond (kq_direction q) (query_key q r) k)"

definition keyset_listed :: "'r keyset_query \<Rightarrow> 'r list \<Rightarrow> 'r set" where
  "keyset_listed q t = {r \<in> set t. kq_wanted q r}"

definition keyset_before :: "'r keyset_query \<Rightarrow> 'r \<Rightarrow> 'r \<Rightarrow> bool" where
  "keyset_before q x y = beyond (kq_direction q) (query_key q y) (query_key q x)"

subsection \<open>Ordered rows\<close>

lemma beyond_irrefl [simp]: "\<not> beyond dir a a"
  by (simp add: beyond_def split: direction.split)

lemma beyond_trans: "beyond dir a b \<Longrightarrow> beyond dir b c \<Longrightarrow> beyond dir a c"
  by (auto simp: beyond_def split: direction.splits)

lemma beyond_linear: "a \<noteq> b \<Longrightarrow> beyond dir a b \<or> beyond dir b a"
  by (auto simp: beyond_def split: direction.splits)

lemma set_ordered [simp]: "set (ordered dir key rows) = set rows"
  by (simp add: ordered_def split: direction.split)

lemma length_ordered [simp]: "length (ordered dir key rows) = length rows"
  by (simp add: ordered_def split: direction.split)

lemma sorted_strict:
  assumes "sorted (map key xs)" and "distinct (map key xs)"
  shows "sorted_wrt (\<lambda>x y. key x < key y) xs"
  using assms strict_sorted_iff [of "map key xs"] by (simp add: sorted_wrt_map)

lemma ordered_sorted:
  assumes "distinct (map key rows)"
  shows "sorted_wrt (\<lambda>x y. beyond dir (key y) (key x)) (ordered dir key rows)"
proof (cases dir)
  case Ascending
  have "distinct (map key (sort_key key rows))"
    using assms by (metis distinct_map distinct_sort set_sort)
  then show ?thesis
    using Ascending sorted_strict [of key "sort_key key rows"] by (simp add: ordered_def beyond_def)
next
  case Descending
  have "distinct (map key (sort_key key (rev rows)))"
    using assms by (metis distinct_map distinct_rev distinct_sort set_rev set_sort)
  then show ?thesis
    using Descending sorted_strict [of key "sort_key key (rev rows)"]
    by (simp add: ordered_def beyond_def sorted_wrt_rev)
qed

lemma unique_on_filter: "unique_on f t \<Longrightarrow> unique_on f (filter P t)"
  by (simp add: unique_on_def distinct_map_filter)

lemma unique_key: "unique_on (kq_row_id q) t \<Longrightarrow> distinct (map (query_key q) t)"
  unfolding unique_on_def query_key_def row_key_def
  by (induction t) auto

subsection \<open>The page law\<close>

lemma cursor_condition_exact:
  assumes "cursor_exact env col row_id r"
  shows "cursor_condition env dir col row_id (Some (encode_cursor (co_shown col r) (row_id r))) =
    Inr (\<lambda>x. co_stored col x \<noteq> NullKey \<and> beyond dir (row_key col row_id x) (row_key col row_id r))"
  using assms by (simp add: cursor_condition_def cursor_exact_def decode_encode_cursor row_key_def)

definition remaining_rows :: "'r keyset_query \<Rightarrow> 'r list \<Rightarrow> (sort_value \<times> string) option \<Rightarrow> 'r list" where
  "remaining_rows q t p = ordered (kq_direction q) (query_key q) (filter (\<lambda>r. keyset_past q p r \<and> kq_wanted q r) t)"

lemma keyset_fetch_eq:
  assumes "keyset_good q t" and "keyset_at q c p"
  shows "keyset_fetch q t c = Inr (build_cursor_result
    (take (page_limit (kq_limit q) + 1) (remaining_rows q t p)) (page_limit (kq_limit q))
    (co_shown (kq_column q)) (kq_row_id q))"
proof -
  obtain past where past: "cursor_condition (kq_env q) (kq_direction q) (kq_column q) (kq_row_id q) c = Inr past"
      "\<forall>r \<in> set t. past r = keyset_past q p r"
  proof (cases c)
    case None
    then have "p = None" using assms(2) by (simp add: keyset_at_def)
    then show thesis using that [of "\<lambda>_. True"] None by (simp add: cursor_condition_def keyset_past_def)
  next
    case (Some s)
    then obtain r where r: "cursor_exact (kq_env q) (kq_column q) (kq_row_id q) r"
        "s = encode_cursor (co_shown (kq_column q) r) (kq_row_id q r)" "p = Some (query_key q r)"
      using assms(2) by (auto simp: keyset_at_def)
    have "\<forall>x \<in> set t. co_stored (kq_column q) x \<noteq> NullKey"
      using assms(1) by (simp add: keyset_good_def cursor_exact_def)
    then show thesis
      using that [OF cursor_condition_exact [OF r(1), of "kq_direction q", folded r(2) Some]] r(3)
      by (simp add: keyset_past_def query_key_def)
  qed
  then have "filter (\<lambda>r. past r \<and> kq_wanted q r) t = filter (\<lambda>r. keyset_past q p r \<and> kq_wanted q r) t"
    by (intro filter_cong) auto
  then show ?thesis
    by (simp add: keyset_fetch_def keyset_page_def past(1) remaining_rows_def query_key_def [abs_def] row_key_def [abs_def])
qed

lemma page_limit_pos [simp]: "0 < page_limit l"
  by (simp add: page_limit_def)

text \<open>The page is a piece of the remaining rows; there is another page exactly when it is a proper piece.\<close>

lemma keyset_fetch_page:
  assumes "keyset_good q t" and "keyset_at q c p" and "keyset_fetch q t c = Inr l"
  shows "ls_data l = take (page_limit (kq_limit q)) (remaining_rows q t p)"
    and "ls_has_more l = Some (page_limit (kq_limit q) < length (remaining_rows q t p))"
    and "next_page l = (if page_limit (kq_limit q) < length (remaining_rows q t p)
      then Some (encode_cursor (co_shown (kq_column q) (last (ls_data l))) (kq_row_id q (last (ls_data l)))) else None)"
  using assms(3) page_limit_pos [of "kq_limit q"] unfolding keyset_fetch_eq [OF assms(1,2)]
  by (auto simp del: page_limit_pos simp: build_cursor_result_def Let_def next_page_def min_def split: if_splits)

lemma remaining_sorted:
  assumes "keyset_good q t"
  shows "sorted_wrt (keyset_before q) (remaining_rows q t p)"
  unfolding remaining_rows_def keyset_before_def [abs_def]
  by (rule ordered_sorted [OF unique_key [OF unique_on_filter]])
    (use assms in \<open>simp add: keyset_good_def\<close>)

lemma set_remaining [simp]: "set (remaining_rows q t p) = {r \<in> set t. keyset_past q p r \<and> kq_wanted q r}"
  by (simp add: remaining_rows_def)

lemma last_take_before:
  assumes "sorted_wrt R xs" and "0 < n" and "n < length xs" and "x \<in> set (drop n xs)"
  shows "R (last (take n xs)) x"
proof -
  have "sorted_wrt R (take n xs @ drop n xs)" using assms(1) by simp
  moreover have "last (take n xs) \<in> set (take n xs)" using assms(2,3) by (intro last_in_set) auto
  ultimately show ?thesis using assms(4) unfolding sorted_wrt_append by blast
qed

lemma before_last_take:
  assumes "sorted_wrt R xs" and "xs \<noteq> []" and "y \<in> set xs"
  shows "y = last xs \<or> R y (last xs)"
  using assms
proof -
  have "sorted_wrt R (butlast xs @ [last xs])" using assms(1,2) by simp
  moreover have "y \<in> set (butlast xs @ [last xs])" using assms(2,3) by simp
  ultimately show ?thesis unfolding sorted_wrt_append by auto
qed

lemma keyset_next_page:
  assumes good: "keyset_good q t" and at: "keyset_at q c p" and l: "keyset_fetch q t c = Inr l"
    and c': "next_page l = Some c'"
  shows "ls_data l \<noteq> [] \<and> (\<exists>p'. keyset_at q (Some c') p' \<and>
    (\<forall>x \<in> keyset_listed q t. keyset_past q p x \<longrightarrow> x \<in> set (ls_data l) \<or> keyset_past q p' x) \<and>
    (\<forall>x. keyset_past q p' x \<longrightarrow> keyset_past q p x \<and> (\<forall>y \<in> set (ls_data l). keyset_before q y x)))"
proof -
  let ?n = "page_limit (kq_limit q)" and ?xs = "remaining_rows q t p"
  note page = keyset_fetch_page [OF good at l]
  have more: "?n < length ?xs" using c' page(3) by (simp split: if_splits)
  have ne: "ls_data l \<noteq> []" using more page(1) by (metis length_0_conv not_less_zero page_limit_pos take_eq_Nil2 less_irrefl)
  let ?r = "last (ls_data l)"
  have data: "set (ls_data l) \<subseteq> set ?xs" using page(1) by (simp only: set_take_subset)
  have r: "?r \<in> set ?xs" using data last_in_set [OF ne] by blast
  have exact: "cursor_exact (kq_env q) (kq_column q) (kq_row_id q) ?r" using r good by (simp add: keyset_good_def)
  have sorted: "sorted_wrt (keyset_before q) ?xs" by (rule remaining_sorted [OF good])
  have sorted_data: "sorted_wrt (keyset_before q) (ls_data l)" using sorted page(1) by (simp add: sorted_wrt_take)
  have "keyset_at q (Some c') (Some (query_key q ?r))"
    unfolding keyset_at_def using exact c' page(3) more by auto
  moreover have "\<forall>x \<in> keyset_listed q t. keyset_past q p x \<longrightarrow> x \<in> set (ls_data l) \<or> keyset_past q (Some (query_key q ?r)) x"
  proof (intro ballI impI)
    fix x assume "x \<in> keyset_listed q t" "keyset_past q p x"
    then have "x \<in> set (take ?n ?xs @ drop ?n ?xs)" by (simp add: keyset_listed_def)
    then show "x \<in> set (ls_data l) \<or> keyset_past q (Some (query_key q ?r)) x"
      using last_take_before [OF sorted page_limit_pos more, of x]
      unfolding keyset_past_def keyset_before_def set_append page(1) [symmetric] by auto
  qed
  moreover have "\<forall>x. keyset_past q (Some (query_key q ?r)) x \<longrightarrow>
      keyset_past q p x \<and> (\<forall>y \<in> set (ls_data l). keyset_before q y x)"
  proof (intro allI impI conjI ballI)
    fix x assume x: "keyset_past q (Some (query_key q ?r)) x"
    have "keyset_past q p ?r" using r by simp
    then show "keyset_past q p x" using x by (auto simp: keyset_past_def intro: beyond_trans split: option.splits)
    fix y assume "y \<in> set (ls_data l)"
    from before_last_take [OF sorted_data ne this] x
    show "keyset_before q y x" by (auto simp: keyset_past_def keyset_before_def intro: beyond_trans)
  qed
  ultimately show ?thesis using ne by blast
qed

interpretation keyset: paged_endpoint keyset_fetch keyset_good keyset_at keyset_past keyset_listed keyset_before
proof
  fix q :: "'r keyset_query" and t c p and l :: "'r listing" and x c'
  show "keyset_good q t \<Longrightarrow> finite (keyset_listed q t)" by (simp add: keyset_listed_def)
  show "\<not> keyset_before q x x" by (simp add: keyset_before_def)
  show "keyset_good q t \<Longrightarrow> keyset_at q c p \<Longrightarrow> \<exists>l. keyset_fetch q t c = Inr l"
    using keyset_fetch_eq by blast
  assume *: "keyset_good q t" "keyset_at q c p" "keyset_fetch q t c = Inr l"
  note page = keyset_fetch_page [OF *]
  show "ls_has_more l \<noteq> None" using page(2) by simp
  show "sorted_wrt (keyset_before q) (ls_data l)"
    unfolding page(1) by (rule sorted_wrt_take [OF remaining_sorted [OF *(1)]])
  show "x \<in> set (ls_data l) \<Longrightarrow> x \<in> keyset_listed q t \<and> keyset_past q p x"
    unfolding page(1) using set_take_subset [of _ "remaining_rows q t p"] by (fastforce simp: keyset_listed_def)
  show "next_page l = None \<Longrightarrow> x \<in> keyset_listed q t \<Longrightarrow> keyset_past q p x \<Longrightarrow> x \<in> set (ls_data l)"
    using page(1,3) by (auto simp: keyset_listed_def split: if_splits)
  show "next_page l = Some c' \<Longrightarrow> ls_data l \<noteq> [] \<and> (\<exists>p'. keyset_at q (Some c') p' \<and>
      (\<forall>x \<in> keyset_listed q t. keyset_past q p x \<longrightarrow> x \<in> set (ls_data l) \<or> keyset_past q p' x) \<and>
      (\<forall>x. keyset_past q p' x \<longrightarrow> keyset_past q p x \<and> (\<forall>y \<in> set (ls_data l). keyset_before q y x)))"
    by (rule keyset_next_page [OF *])
qed

end
