(* ===== verification/ListingTheorems.thy ===== *)
theory ListingTheorems
  imports ListingProperties
begin


lemma sort_direction_default [simp]: "sort_direction (Some (nullish x ''desc'')) = sort_direction x"
  by (cases x) (simp_all add: sort_direction_def)

lemma sort_column_default [simp]: "sort_column cols (Some (nullish x ''created_at'')) = sort_column cols x"
  by (cases x) (simp_all add: sort_column_def sort_column_name_def)

lemma organization_wanted_cursor [simp]:
  "organization_wanted (options_of_query s (base\<lparr>lq_cursor := c\<rparr>)) = organization_wanted (options_of_query s base)"
  "organization_wanted (options_of_query s (base\<lparr>lq_page := p\<rparr>)) = organization_wanted (options_of_query s base)"
  by (simp_all add: organization_wanted_def [abs_def] options_of_query_def)

lemma cursor_query_ok_updates [simp]:
  "cursor_query_ok cols (base\<lparr>lq_cursor := c\<rparr>) = cursor_query_ok cols base"
  "cursor_query_ok cols (base\<lparr>lq_page := p\<rparr>) = cursor_query_ok cols base"
  by (simp_all add: cursor_query_ok_def common_query_ok_def)


text \<open>Which columns lead back exactly: every name, and a timestamp without microseconds.\<close>

lemma cursor_exact_text:
  "cursor_exact env (text_column env get) row_id r \<longleftrightarrow> row_id r \<noteq> [] \<and> lv_uuid env (row_id r) = Some (row_id r)"
  by (simp add: cursor_exact_def text_column_def sort_value_ok_def parameter_text_def)



subsection \<open>Timestamps finer than the cursor\<close>



definition sample_query :: "string \<Rightarrow> organization_status list_query" where
  "sample_query order = \<lparr>lq_page = None, lq_page_size = None, lq_cursor = None, lq_limit = Some 1, lq_status = None,
     lq_search = None, lq_sort_by = None, lq_sort_order = Some order\<rparr>"

lemma sample_column [simp]:
  "sort_column (organization_columns env) (lq_sort_by (sample_query order)) =
     time_column env ''created_at'' og_id (\<lambda>r. Some (og_created_at r))"
  by (simp add: sort_column_def sort_column_name_def organization_columns_def sample_query_def)



text \<open>
  A \<open>created_at\<close> with microseconds, as \<open>NOW()\<close> gives it, is cut to milliseconds in the cursor, so the
  cursor of a row lies before the row: ascending, the next page starts with the row itself; descending,
  it leaves out the other rows of that millisecond.
\<close>

lemma truncated_cursor:
  fixes env :: listing_env and name :: string and get :: "'r \<Rightarrow> time" and row_id :: "'r \<Rightarrow> string"
  defines "col \<equiv> time_column env name row_id (\<lambda>r. Some (get r))"
  assumes "row_id r \<noteq> []" and "lv_uuid env (row_id r) = Some (row_id r)"
    and "lv_timestamp env (to_iso_string (get r)) = Some (get r * 1000)"
  obtains past where
    "cursor_condition env dir col row_id (Some (encode_cursor (co_shown col r) (row_id r))) = Inr past"
    "\<And>x. past x = beyond dir (Micros (get x * 1000 + lv_micros env name (row_id x)), row_id x) (Micros (get r * 1000), row_id r)"
proof (rule that)
  show "cursor_condition env dir col row_id (Some (encode_cursor (co_shown col r) (row_id r))) =
      Inr (\<lambda>x. co_stored col x \<noteq> NullKey \<and> beyond dir (co_stored col x, row_id x) (Micros (get r * 1000), row_id r))"
    using assms(2-4)
    by (simp add: col_def cursor_condition_def decode_encode_cursor sort_value_ok_def parameter_text_def time_column_def)
qed (simp add: col_def time_column_def)

lemma truncated_cursor_effect:
  assumes "0 < us"
  shows "beyond Ascending (Micros (t * 1000 + us), a) (Micros (t * 1000), b)"
    and "\<not> beyond Descending (Micros (t * 1000 + us), a) (Micros (t * 1000), b)"
  using assms by (simp_all add: beyond_def less_sort_value_def less_eq_sort_value_def)

text \<open>So with one row a page, ascending, the same page comes again and again: \<open>listAll\<close> does not end.\<close>

lemma page_naming_itself_never_ends:
  fixes fetch :: "'st list_query \<Rightarrow> ('s, 'a listing) op"
  assumes page: "fetch (base\<lparr>lq_cursor := Some c\<rparr>) s = (Inr p, s)" and self: "next_page p = Some c"
  shows "more_cursor_pages fetch base c acc s = None"
proof (rule ccontr)
  assume "more_cursor_pages fetch base c acc s \<noteq> None"
  then obtain y where y: "more_cursor_pages fetch base c acc s = Some y" by blast
  have "fetch = fetch \<longrightarrow> base = base \<longrightarrow> c = c \<longrightarrow> s = s \<longrightarrow> False"
  proof (rule more_cursor_pages.raw_induct [where P = "\<lambda>f b c' acc' s' y. f = fetch \<longrightarrow> b = base \<longrightarrow> c' = c \<longrightarrow> s' = s \<longrightarrow> False", OF _ y])
    fix rec :: "('st list_query \<Rightarrow> ('s, 'a listing) op) \<Rightarrow> 'st list_query \<Rightarrow> string \<Rightarrow> 'a list \<Rightarrow> 's \<Rightarrow> ((app_error + 'a list) \<times> 's) option"
      and f b c' acc' s' r
    assume IH: "\<And>f b c' acc' s' y. rec f b c' acc' s' = Some y \<Longrightarrow> f = fetch \<longrightarrow> b = base \<longrightarrow> c' = c \<longrightarrow> s' = s \<longrightarrow> False"
      and body: "(case f (b\<lparr>lq_cursor := Some c'\<rparr>) s' of (Inl e, s'') \<Rightarrow> Some (Inl e, s'')
        | (Inr p, s'') \<Rightarrow> (case next_page p of None \<Rightarrow> Some (Inr (acc' @ ls_data p), s'')
            | Some c'' \<Rightarrow> rec f b c'' (acc' @ ls_data p) s'')) = Some r"
    show "f = fetch \<longrightarrow> b = base \<longrightarrow> c' = c \<longrightarrow> s' = s \<longrightarrow> False"
    proof (intro impI)
      assume "f = fetch" "b = base" "c' = c" "s' = s"
      then have "rec fetch base c (acc' @ ls_data p) s = Some r" using body page self by simp
      then show False using IH by blast
    qed
  qed
  then show False by simp
qed

end
