(* ===== verification/ClientValidators.thy ===== *)
theory ClientValidators
  imports Prelude Database LoginMethods
begin

text \<open>
  packages/server/src/clients/validators.ts: redirect URIs, allowed origins and the protocol
  configuration of a client. \<open>new URL\<close> of the platform is a parameter (\<open>None\<close> when it throws).
\<close>

record web_url =
  wu_protocol :: string
  wu_username :: string
  wu_password :: string
  wu_hostname :: string
  wu_origin :: string
  wu_pathname :: string
  wu_search :: string
  wu_hash :: string

type_synonym url_parser = "string \<Rightarrow> web_url option"

definition default_max_redirect_uris :: nat where
  "default_max_redirect_uris = 10"

subsection \<open>Redirect URIs\<close>

text \<open>\<open>/^[a-z][a-z0-9+.-]*:/\<close>.\<close>

definition scheme_char :: "char \<Rightarrow> bool" where
  "scheme_char c = (is_lower c \<or> is_digit c \<or> c \<in> set ''+.-'')"

definition custom_scheme :: "string \<Rightarrow> bool" where
  "custom_scheme uri =
     (case uri of [] \<Rightarrow> False
      | c # rest \<Rightarrow> is_lower c \<and> (case dropWhile scheme_char rest of [] \<Rightarrow> False | d # _ \<Rightarrow> d = CHR '':''))"

definition starts_with :: "string \<Rightarrow> string \<Rightarrow> bool" where
  "starts_with s uri = (take (length s) uri = s)"

text \<open>\<open>Some\<close> is the error text.\<close>

definition validate_redirect_uri :: "url_parser \<Rightarrow> string \<Rightarrow> bool \<Rightarrow> string option" where
  "validate_redirect_uri parse uri production =
     (if uri = [] \<or> trim uri = [] then Some ''Redirect URI cannot be empty''
      else (case parse uri of
              None \<Rightarrow>
                if custom_scheme uri \<and> \<not> starts_with ''http'' uri
                then (if CHR ''#'' \<in> set uri then Some ''Redirect URI must not contain a fragment (#)'' else None)
                else Some (''Invalid URI: '' @ uri)
            | Some url \<Rightarrow>
                if wu_hash url \<noteq> [] then Some ''Redirect URI must not contain a fragment (#)''
                else if CHR ''*'' \<in> set (wu_pathname url) \<or> CHR ''*'' \<in> set (wu_search url)
                then Some ''Redirect URI must not contain wildcards (*)''
                else if production \<and> wu_protocol url \<noteq> ''https:'' \<and>
                  wu_hostname url \<noteq> ''localhost'' \<and> wu_hostname url \<noteq> ''127.0.0.1''
                then Some ''Redirect URI must use HTTPS in production (except localhost)''
                else None))"

definition validate_redirect_uris :: "url_parser \<Rightarrow> string list \<Rightarrow> bool \<Rightarrow> nat \<Rightarrow> string list" where
  "validate_redirect_uris parse uris production maximum =
     (if uris = [] then [''At least one redirect URI is required'']
      else if length uris > maximum
      then [''Maximum '' @ show_nat maximum @ '' redirect URIs allowed, got '' @ show_nat (length uris)]
      else List.map_filter (\<lambda>uri. validate_redirect_uri parse uri production) uris)"

definition uris_valid :: "url_parser \<Rightarrow> string list \<Rightarrow> bool" where
  "uris_valid parse uris = (validate_redirect_uris parse uris False default_max_redirect_uris = [])"

definition contains_control_characters :: "string \<Rightarrow> bool" where
  "contains_control_characters s = list_ex (\<lambda>c. (of_char c :: nat) < 32 \<or> (of_char c :: nat) = 127) s"

definition validate_allowed_origin :: "url_parser \<Rightarrow> string \<Rightarrow> bool" where
  "validate_allowed_origin parse origin =
     (if contains_control_characters origin \<or> CHR ''*'' \<in> set origin then False
      else (case parse origin of
              None \<Rightarrow> False
            | Some url \<Rightarrow> (wu_protocol url = ''https:'' \<or> wu_protocol url = ''http:'') \<and>
                wu_username url = [] \<and> wu_password url = [] \<and> wu_pathname url = ''/'' \<and>
                wu_search url = [] \<and> wu_hash url = [] \<and> wu_origin url = origin))"

subsection \<open>Protocol configuration\<close>

record client_protocol =
  pc_client_type :: client_type
  pc_redirect_uris :: "string list"
  pc_grant_types :: "string list"
  pc_response_types :: "string list"
  pc_token_endpoint_auth_method :: string
  pc_require_pkce :: bool
  pc_allowed_origins :: "string list"
  pc_post_logout_redirect_uris :: "string list"

definition supported_grants :: "string list" where
  "supported_grants = [''authorization_code'', ''refresh_token'', ''client_credentials'']"

definition redirect_uris_ok :: "url_parser \<Rightarrow> string list \<Rightarrow> bool" where
  "redirect_uris_ok parse uris =
     (\<not> (length uris < 1 \<or> length uris > default_max_redirect_uris \<or> \<not> uris_valid parse uris \<or>
         list_ex contains_control_characters uris \<or> \<not> distinct uris))"

definition post_logout_uris_ok :: "url_parser \<Rightarrow> string list \<Rightarrow> bool" where
  "post_logout_uris_ok parse uris =
     (\<not> (length uris > default_max_redirect_uris \<or>
         list_ex (\<lambda>uri. contains_control_characters uri \<or> \<not> uris_valid parse [uri]) uris \<or> \<not> distinct uris))"

definition allowed_origins_ok :: "url_parser \<Rightarrow> string list \<Rightarrow> bool" where
  "allowed_origins_ok parse origins =
     (\<not> (length origins > default_max_redirect_uris \<or>
         list_ex (\<lambda>origin. \<not> validate_allowed_origin parse origin) origins \<or> \<not> distinct origins))"

definition grant_types_ok :: "string list \<Rightarrow> bool" where
  "grant_types_ok grants = (\<not> (length grants < 1 \<or> list_ex (\<lambda>g. g \<notin> set supported_grants) grants))"

text \<open>The list of failures; the configuration is valid when it is empty.\<close>

definition validate_client_protocol_compatibility :: "url_parser \<Rightarrow> client_protocol \<Rightarrow> string list" where
  "validate_client_protocol_compatibility parse c =
     (if redirect_uris_ok parse (pc_redirect_uris c) then []
      else [''redirectUris must contain 1 to 10 safe redirect URIs'']) @
     (if post_logout_uris_ok parse (pc_post_logout_redirect_uris c) then []
      else [''postLogoutRedirectUris must contain safe redirect URIs'']) @
     (if allowed_origins_ok parse (pc_allowed_origins c) then []
      else [''allowedOrigins must contain exact HTTP or HTTPS origins'']) @
     (if grant_types_ok (pc_grant_types c) then [] else [''grantTypes contains an unsupported value'']) @
     (if pc_response_types c = [''code''] then [] else [''responseTypes must contain only code'']) @
     (if pc_client_type c = Public
      then (if pc_token_endpoint_auth_method c = ''none'' then []
            else [''public clients cannot authenticate with a secret'']) @
           (if pc_require_pkce c then [] else [''public clients require PKCE'']) @
           (if ''client_credentials'' \<in> set (pc_grant_types c)
            then [''public clients cannot use client_credentials''] else [])
      else if pc_token_endpoint_auth_method c = ''none''
      then [''confidential clients require token endpoint authentication''] else [])"

lemma validate_client_protocol_compatibility_iff:
  "validate_client_protocol_compatibility parse c = [] \<longleftrightarrow>
     redirect_uris_ok parse (pc_redirect_uris c) \<and> post_logout_uris_ok parse (pc_post_logout_redirect_uris c) \<and>
     allowed_origins_ok parse (pc_allowed_origins c) \<and> grant_types_ok (pc_grant_types c) \<and>
     pc_response_types c = [''code''] \<and>
     (if pc_client_type c = Public
      then pc_token_endpoint_auth_method c = ''none'' \<and> pc_require_pkce c \<and>
        ''client_credentials'' \<notin> set (pc_grant_types c)
      else pc_token_endpoint_auth_method c \<noteq> ''none'')"
  by (simp add: validate_client_protocol_compatibility_def)

subsection \<open>Defaults\<close>

definition get_default_grant_types :: "client_type \<Rightarrow> application_type \<Rightarrow> string list" where
  "get_default_grant_types ct at =
     (if ct = Confidential \<and> at = WebApp
      then [''authorization_code'', ''refresh_token'', ''client_credentials'']
      else [''authorization_code'', ''refresh_token''])"

definition get_default_token_endpoint_auth_method :: "client_type \<Rightarrow> string" where
  "get_default_token_endpoint_auth_method ct =
     (if ct = Confidential then ''client_secret_basic'' else ''none'')"

definition get_default_response_types :: "string list" where
  "get_default_response_types = [''code'']"

definition get_default_scope :: string where
  "get_default_scope = ''openid profile email''"

end
