(* ===== verification/ClientSecrets.thy ===== *)
theory ClientSecrets
  imports Applications RateLimiter Cursor
begin

text \<open>
  The secrets of confidential clients: packages/server/src/clients/crypto.ts, secret-repository.ts,
  secret-service.ts. Argon2id, SHA-256 and random bytes are parameters; a verification may fail with
  an error (\<open>None\<close>).
\<close>

record secret_env =
  se_service :: service_env
  se_argon2_hash :: "string \<Rightarrow> string"
  se_argon2_verify :: "string \<Rightarrow> string \<Rightarrow> bool option"
  se_sha256 :: "string \<Rightarrow> string"
  se_random :: "nat \<Rightarrow> string"

subsection \<open>Cryptography\<close>

definition generate_client_id :: "secret_env \<Rightarrow> string" where
  "generate_client_id env = base64url_encode (se_random env 32)"

definition generate_secret :: "secret_env \<Rightarrow> string" where
  "generate_secret env = base64url_encode (se_random env 48)"

definition sha256_secret :: "secret_env \<Rightarrow> string \<Rightarrow> string" where
  "sha256_secret env plaintext = se_sha256 env (utf8_encode plaintext)"

definition verify_secret_hash :: "secret_env \<Rightarrow> string \<Rightarrow> string \<Rightarrow> ('s, bool) op" where
  "verify_secret_hash env hash plaintext =
     (case se_argon2_verify env hash plaintext of
        None \<Rightarrow> throw_op (JsError ''argon2'') | Some b \<Rightarrow> return_op b)"

subsection \<open>Repository\<close>

text \<open>\<open>ClientSecret\<close>: the row without its hashes.\<close>

record client_secret =
  ct_id :: string
  ct_client_id :: string
  ct_label :: "string option"
  ct_expires_at :: "time option"
  ct_status :: secret_status
  ct_last_used_at :: "time option"
  ct_created_at :: time

definition map_row_to_client_secret :: "client_secret_row \<Rightarrow> client_secret" where
  "map_row_to_client_secret row = \<lparr>ct_id = cs_id row, ct_client_id = cs_client_id row, ct_label = cs_label row,
     ct_expires_at = cs_expires_at row, ct_status = cs_status row, ct_last_used_at = cs_last_used_at row,
     ct_created_at = cs_created_at row\<rparr>"

record insert_secret_data =
  is_client_id :: string
  is_secret_hash :: string
  is_secret_sha256 :: "string option"
  is_label :: "string option"
  is_expires_at :: "time option"

text \<open>\<open>status = 'active' AND (expires_at IS NULL OR expires_at > NOW())\<close>.\<close>

definition secret_active :: "time \<Rightarrow> client_secret_row \<Rightarrow> bool" where
  "secret_active now s = (cs_status s = SecretActive \<and>
     (case cs_expires_at s of None \<Rightarrow> True | Some t \<Rightarrow> t > now))"

definition active_secret_of :: "time \<Rightarrow> string \<Rightarrow> client_secret_row \<Rightarrow> bool" where
  "active_secret_of now client s = (cs_client_id s = client \<and> secret_active now s)"

definition count_active_secrets :: "time \<Rightarrow> string \<Rightarrow> db \<Rightarrow> nat" where
  "count_active_secrets now client d = row_count (active_secret_of now client) (db_client_secrets d)"

definition inserted_secret :: "service_env \<Rightarrow> insert_secret_data \<Rightarrow> client_secret_row" where
  "inserted_secret env data = \<lparr>cs_id = sv_new_id env, cs_client_id = is_client_id data,
     cs_secret_hash = is_secret_hash data, cs_secret_sha256 = is_secret_sha256 data, cs_label = is_label data,
     cs_expires_at = is_expires_at data, cs_status = SecretActive, cs_last_used_at = None,
     cs_created_at = sv_now env\<rparr>"

definition insert_secret_row :: "service_env \<Rightarrow> insert_secret_data \<Rightarrow> (db, client_secret) op" where
  "insert_secret_row env data d =
     (if row_exists (\<lambda>s. cs_id s = sv_new_id env) (db_client_secrets d) then (Inl UniqueViolation, d)
      else (let row = inserted_secret env data
            in (Inr (map_row_to_client_secret row), d\<lparr>db_client_secrets := db_client_secrets d @ [row]\<rparr>)))"

definition insert_secret :: "service_env \<Rightarrow> insert_secret_data \<Rightarrow> (flow, client_secret) op" where
  "insert_secret env data = run_database_transaction
     (andthen (query (select (\<lambda>d. find_row (\<lambda>c. cl_id c = is_client_id data) (db_clients d)))) (\<lambda>parent.
      andthen (unless_throw (map_option cl_client_type parent = Some Confidential)
        (ClientNotFoundError (is_client_id data))) (\<lambda>_.
      andthen (query (select (count_active_secrets (sv_now env) (is_client_id data)))) (\<lambda>active.
      andthen (unless_throw (active < 10) (ClientValidationError ''Client secret active limit reached'')) (\<lambda>_.
      query (insert_secret_row env data))))))"

text \<open>\<open>ORDER BY created_at DESC\<close>; equal times come in the order of the scan.\<close>

definition newest_first :: "client_secret_row list \<Rightarrow> client_secret_row list" where
  "newest_first rows = rev (sort_key cs_created_at (rev rows))"

definition list_secrets_by_client :: "string \<Rightarrow> db \<Rightarrow> client_secret list" where
  "list_secrets_by_client client d =
     map map_row_to_client_secret (newest_first (filter (\<lambda>s. cs_client_id s = client) (db_client_secrets d)))"

definition find_secret_by_id :: "string \<Rightarrow> string \<Rightarrow> db \<Rightarrow> client_secret option" where
  "find_secret_by_id client i d =
     map_option map_row_to_client_secret (find_row (\<lambda>s. cs_client_id s = client \<and> cs_id s = i) (db_client_secrets d))"

definition get_active_secret_hashes :: "time \<Rightarrow> string \<Rightarrow> db \<Rightarrow> (string \<times> string) list" where
  "get_active_secret_hashes now client d =
     map (\<lambda>s. (cs_id s, cs_secret_hash s)) (newest_first (filter (active_secret_of now client) (db_client_secrets d)))"

definition revoke_secret :: "string \<Rightarrow> string \<Rightarrow> db \<Rightarrow> client_secret option \<times> db" where
  "revoke_secret client i d =
     (find_secret_by_id client i d,
      d\<lparr>db_client_secrets := delete_where (\<lambda>s. cs_client_id s = client \<and> cs_id s = i) (db_client_secrets d)\<rparr>)"

definition update_last_used_at :: "time \<Rightarrow> string \<Rightarrow> db \<Rightarrow> db" where
  "update_last_used_at now i d = d\<lparr>db_client_secrets :=
     update_where (\<lambda>s. cs_id s = i) (\<lambda>s. s\<lparr>cs_last_used_at := Some now\<rparr>) (db_client_secrets d)\<rparr>"

definition cleanup_due :: "time \<Rightarrow> int \<Rightarrow> client_secret_row \<Rightarrow> bool" where
  "cleanup_due now retention_days s = (cs_status s = SecretRevoked \<or>
     (case cs_expires_at s of None \<Rightarrow> False | Some t \<Rightarrow> t < now - retention_days * 86400000))"

definition cleanup_expired_secrets :: "time \<Rightarrow> int option \<Rightarrow> db \<Rightarrow> nat \<times> db" where
  "cleanup_expired_secrets now retention_days d =
     (let due = cleanup_due now (nullish retention_days 30)
      in (row_count due (db_client_secrets d), d\<lparr>db_client_secrets := delete_where due (db_client_secrets d)\<rparr>))"

definition get_latest_active_sha256 :: "time \<Rightarrow> string \<Rightarrow> db \<Rightarrow> string option" where
  "get_latest_active_sha256 now client d =
     (case newest_first (filter (\<lambda>s. active_secret_of now client s \<and> cs_secret_sha256 s \<noteq> None) (db_client_secrets d)) of
        [] \<Rightarrow> None | s # _ \<Rightarrow> cs_secret_sha256 s)"

definition find_active_secret_id_by_sha256 :: "time \<Rightarrow> string \<Rightarrow> string \<Rightarrow> db \<Rightarrow> string option" where
  "find_active_secret_id_by_sha256 now client sha d =
     map_option cs_id (find_row (\<lambda>s. active_secret_of now client s \<and> cs_secret_sha256 s = Some sha) (db_client_secrets d))"

definition get_active_legacy_secret_hashes :: "time \<Rightarrow> string \<Rightarrow> db \<Rightarrow> (string \<times> string) list" where
  "get_active_legacy_secret_hashes now client d =
     map (\<lambda>s. (cs_id s, cs_secret_hash s))
       (take 11 (newest_first (filter (\<lambda>s. active_secret_of now client s \<and> cs_secret_sha256 s = None) (db_client_secrets d))))"

subsection \<open>Service\<close>

record create_secret_input =
  sc_label :: "string option"
  sc_expires_at :: "time option"

record secret_with_plaintext =
  sp_secret :: client_secret
  sp_plaintext :: string

definition nullable_json :: "('a \<Rightarrow> json) \<Rightarrow> 'a option \<Rightarrow> json" where
  "nullable_json f v = (case v of None \<Rightarrow> JNull | Some x \<Rightarrow> f x)"

definition generate_and_store ::
    "secret_env \<Rightarrow> string \<Rightarrow> create_secret_input \<Rightarrow> string option \<Rightarrow>
     (flow, secret_with_plaintext) op" where
  "generate_and_store env client input actor_id =
     (let plaintext = generate_secret env
      in andthen (insert_secret (se_service env) \<lparr>is_client_id = client,
           is_secret_hash = se_argon2_hash env plaintext, is_secret_sha256 = Some (sha256_secret env plaintext),
           is_label = sc_label input, is_expires_at = sc_expires_at input\<rparr>) (\<lambda>secret.
         andthen (write_audit_log ((blank_entry ''client.secret.generated'' ''admin'')
           \<lparr>ae_actor_id := actor_id, ae_metadata := Some (JObj [(''clientId'', JStr client),
              (''secretId'', JStr (ct_id secret)), (''label'', nullable_json JStr (ct_label secret)),
              (''expiresAt'', nullable_json (\<lambda>t. JStr (to_iso_string t)) (ct_expires_at secret))])\<rparr>)) (\<lambda>_.
         return_op \<lparr>sp_secret = secret, sp_plaintext = plaintext\<rparr>)))"

fun try_secrets ::
    "secret_env \<Rightarrow> string \<Rightarrow> string \<Rightarrow> nat \<Rightarrow> (string \<times> string) list \<Rightarrow> (flow, bool) op" where
  "try_secrets env client plaintext n [] =
     andthen (write_audit_log ((blank_entry ''client.secret.failed'' ''security'')
       \<lparr>ae_metadata := Some (JObj [(''clientId'', JStr client), (''activeSecretCount'', JNum (int n))])\<rparr>)) (\<lambda>_.
     return_op False)"
| "try_secrets env client plaintext n ((i, hash) # secrets) =
     andthen (verify_secret_hash env hash plaintext) (\<lambda>matches.
     if matches
     then andthen (query (execute (update_last_used_at (sv_now (se_service env)) i))) (\<lambda>_.
          andthen (write_audit_log ((blank_entry ''client.secret.verified'' ''authentication'')
            \<lparr>ae_metadata := Some (JObj [(''clientId'', JStr client), (''secretId'', JStr i)])\<rparr>)) (\<lambda>_.
          return_op True))
     else try_secrets env client plaintext n secrets)"

text \<open>Any error answers \<open>false\<close>.\<close>

definition verify_secret :: "secret_env \<Rightarrow> string \<Rightarrow> string \<Rightarrow> (flow, bool) op" where
  "verify_secret env client plaintext =
     catch_op
       (andthen (query (select (get_active_secret_hashes (sv_now (se_service env)) client))) (\<lambda>secrets.
        if secrets = [] then return_op False
        else try_secrets env client plaintext (length secrets) secrets))
       (\<lambda>_. return_op False)"

definition revoke_client_secret :: "string \<Rightarrow> string \<Rightarrow> string option \<Rightarrow> (flow, unit) op" where
  "revoke_client_secret client secret_id actor_id =
     andthen (query (select (find_secret_by_id client secret_id))) (\<lambda>existing.
     andthen (unless_throw (map_option ct_client_id existing = Some client) (ClientNotFoundError secret_id)) (\<lambda>_.
     andthen (query (returning (revoke_secret client secret_id))) (\<lambda>secret.
     case secret of
       None \<Rightarrow> throw_op (ClientNotFoundError secret_id)
     | Some s \<Rightarrow> write_audit_log ((blank_entry ''client.secret.deleted'' ''admin'')
         \<lparr>ae_actor_id := actor_id, ae_metadata := Some (JObj [(''clientId'', JStr (ct_client_id s)),
            (''secretId'', JStr (ct_id s)), (''label'', nullable_json JStr (ct_label s))])\<rparr>))))"

definition list_by_client :: "string \<Rightarrow> (flow, client_secret list) op" where
  "list_by_client client = query (select (list_secrets_by_client client))"

definition cleanup_expired :: "service_env \<Rightarrow> int option \<Rightarrow> (flow, nat) op" where
  "cleanup_expired env retention_days = query (returning (cleanup_expired_secrets (sv_now env) retention_days))"

end
