(* ===== verification/Clients.thy ===== *)
theory Clients
  imports ClientValidators ClientSecrets Organizations Applications Listings
begin

text \<open>
  The OIDC clients: packages/server/src/clients/repository.ts, cache.ts and service.ts.
  \<open>mapRowToClient\<close> renames columns and the cache restores both dates, so a row and its \<open>Client\<close> are
  one record. The environment adds the URL parser to the one of the secrets.
\<close>

record client_env =
  ce_secret :: secret_env
  ce_org :: org_env
  ce_parse_url :: url_parser

abbreviation ce_service :: "client_env \<Rightarrow> service_env" where
  "ce_service env \<equiv> se_service (ce_secret env)"

abbreviation ce_now :: "client_env \<Rightarrow> time" where
  "ce_now env \<equiv> sv_now (ce_service env)"

subsection \<open>Cache\<close>

definition client_cache_ttl :: int where
  "client_cache_ttl = 300"

definition client_cid_key :: "string \<Rightarrow> string" where
  "client_cid_key cid = ''client:cid:'' @ cid"

definition client_id_key :: "string \<Rightarrow> string" where
  "client_id_key i = ''client:id:'' @ i"

definition deserialize_client :: "redis_value \<Rightarrow> client_row option" where
  "deserialize_client v = (case v of JsonClient c \<Rightarrow> Some c | _ \<Rightarrow> None)"

definition cached_client :: "time \<Rightarrow> string \<Rightarrow> store \<Rightarrow> client_row option" where
  "cached_client now key st =
     (if st_redis_up st
      then (case redis_live now (st_redis st) key of None \<Rightarrow> None | Some v \<Rightarrow> deserialize_client v)
      else None)"

definition get_cached_client_by_client_id :: "time \<Rightarrow> string \<Rightarrow> store \<Rightarrow> client_row option" where
  "get_cached_client_by_client_id now cid = cached_client now (client_cid_key cid)"

definition get_cached_client_by_id :: "time \<Rightarrow> string \<Rightarrow> store \<Rightarrow> client_row option" where
  "get_cached_client_by_id now i = cached_client now (client_id_key i)"

definition cache_client :: "time \<Rightarrow> client_row \<Rightarrow> (flow, unit) op" where
  "cache_client now c = after_database_commit (best_effort_redis (\<lambda>r.
     redis_set_ex now (client_id_key (cl_id c)) (JsonClient c) client_cache_ttl
       (redis_set_ex now (client_cid_key (cl_client_id c)) (JsonClient c) client_cache_ttl r)))"

definition invalidate_client_cache :: "string \<Rightarrow> string \<Rightarrow> (flow, unit) op" where
  "invalidate_client_cache cid i = after_database_commit (best_effort_redis (\<lambda>r.
     redis_del_all [client_cid_key cid, client_id_key i] r))"

subsection \<open>Repository\<close>

record insert_client_data =
  il_organization_id :: string
  il_application_id :: string
  il_client_id :: string
  il_client_name :: string
  il_client_type :: client_type
  il_application_type :: application_type
  il_redirect_uris :: "string list"
  il_post_logout_redirect_uris :: "string list"
  il_grant_types :: "string list"
  il_response_types :: "string list"
  il_scope :: string
  il_token_endpoint_auth_method :: string
  il_allowed_origins :: "string list"
  il_require_pkce :: bool
  il_require_consent :: "bool option"
  il_login_methods :: "login_method list option option"

definition inserted_client :: "service_env \<Rightarrow> insert_client_data \<Rightarrow> client_row" where
  "inserted_client env data = \<lparr>cl_id = sv_new_id env, cl_client_id = il_client_id data,
     cl_organization_id = il_organization_id data, cl_application_id = il_application_id data,
     cl_client_name = il_client_name data, cl_client_type = il_client_type data,
     cl_application_type = il_application_type data, cl_redirect_uris = il_redirect_uris data,
     cl_post_logout_redirect_uris = il_post_logout_redirect_uris data, cl_grant_types = il_grant_types data,
     cl_response_types = il_response_types data, cl_scope = il_scope data,
     cl_token_endpoint_auth_method = il_token_endpoint_auth_method data,
     cl_allowed_origins = il_allowed_origins data, cl_require_pkce = il_require_pkce data,
     cl_require_consent = nullish (il_require_consent data) False,
     cl_login_methods = nullish (il_login_methods data) None, cl_status = ClientActive,
     cl_created_at = sv_now env, cl_updated_at = sv_now env\<rparr>"

definition insert_client :: "service_env \<Rightarrow> insert_client_data \<Rightarrow> (db, client_row) op" where
  "insert_client env data d =
     (if row_exists (\<lambda>c. cl_id c = sv_new_id env \<or> cl_client_id c = il_client_id data) (db_clients d)
      then (Inl UniqueViolation, d)
      else if \<not> row_exists (\<lambda>o'. og_id o' = il_organization_id data) (db_organizations d) \<or>
              \<not> row_exists (\<lambda>a. ap_id a = il_application_id data) (db_applications d)
      then (Inl ForeignKeyViolation, d)
      else (let row = inserted_client env data
            in (Inr row, d\<lparr>db_clients := db_clients d @ [row]\<rparr>)))"

definition find_client_by_id :: "string \<Rightarrow> db \<Rightarrow> client_row option" where
  "find_client_by_id i d = find_row (\<lambda>c. cl_id c = i) (db_clients d)"

definition find_client_by_client_id :: "string \<Rightarrow> db \<Rightarrow> client_row option" where
  "find_client_by_client_id cid d = find_row (\<lambda>c. cl_client_id c = cid) (db_clients d)"

record update_client_data =
  ul_client_name :: "string option"
  ul_redirect_uris :: "string list option"
  ul_post_logout_redirect_uris :: "string list option"
  ul_grant_types :: "string list option"
  ul_response_types :: "string list option"
  ul_scope :: "string option"
  ul_token_endpoint_auth_method :: "string option"
  ul_allowed_origins :: "string list option"
  ul_require_pkce :: "bool option"
  ul_require_consent :: "bool option"
  ul_status :: "client_status option"
  ul_login_methods :: "login_method list option option"

definition no_client_update :: update_client_data where
  "no_client_update = \<lparr>ul_client_name = None, ul_redirect_uris = None, ul_post_logout_redirect_uris = None,
     ul_grant_types = None, ul_response_types = None, ul_scope = None, ul_token_endpoint_auth_method = None,
     ul_allowed_origins = None, ul_require_pkce = None, ul_require_consent = None, ul_status = None,
     ul_login_methods = None\<rparr>"

definition apply_client_update :: "time \<Rightarrow> update_client_data \<Rightarrow> client_row \<Rightarrow> client_row" where
  "apply_client_update now u c = c\<lparr>
     cl_client_name := nullish (ul_client_name u) (cl_client_name c),
     cl_redirect_uris := nullish (ul_redirect_uris u) (cl_redirect_uris c),
     cl_post_logout_redirect_uris := nullish (ul_post_logout_redirect_uris u) (cl_post_logout_redirect_uris c),
     cl_grant_types := nullish (ul_grant_types u) (cl_grant_types c),
     cl_response_types := nullish (ul_response_types u) (cl_response_types c),
     cl_scope := nullish (ul_scope u) (cl_scope c),
     cl_token_endpoint_auth_method := nullish (ul_token_endpoint_auth_method u) (cl_token_endpoint_auth_method c),
     cl_allowed_origins := nullish (ul_allowed_origins u) (cl_allowed_origins c),
     cl_require_pkce := nullish (ul_require_pkce u) (cl_require_pkce c),
     cl_require_consent := nullish (ul_require_consent u) (cl_require_consent c),
     cl_status := nullish (ul_status u) (cl_status c),
     cl_login_methods := nullish (ul_login_methods u) (cl_login_methods c),
     cl_updated_at := max now (cl_updated_at c + 1)\<rparr>"

definition repo_update_client :: "time \<Rightarrow> string \<Rightarrow> update_client_data \<Rightarrow> (db, client_row) op" where
  "repo_update_client now i u d =
     (if u = no_client_update then (Inl (JsError ''No fields to update''), d)
      else (case find_client_by_id i d of
              None \<Rightarrow> (Inl (JsError ''Client not found''), d)
            | Some c \<Rightarrow>
                (Inr (apply_client_update now u c), d\<lparr>db_clients :=
                   update_where (\<lambda>x. cl_id x = i) (apply_client_update now u) (db_clients d)\<rparr>)))"

definition count_clients_by_org :: "string \<Rightarrow> db \<Rightarrow> nat" where
  "count_clients_by_org org d = row_count (\<lambda>c. cl_organization_id c = org) (db_clients d)"

definition count_clients_by_app :: "string \<Rightarrow> db \<Rightarrow> nat" where
  "count_clients_by_app app d = row_count (\<lambda>c. cl_application_id c = app) (db_clients d)"

record client_deletion_capture =
  dc_client :: client_row
  dc_client_ids :: "string list"
  dc_public_client_ids :: "string list"
  dc_grant_ids :: "string list"

definition capture_client_for_deletion :: "string \<Rightarrow> db \<Rightarrow> client_deletion_capture option" where
  "capture_client_for_deletion i d =
     map_option (\<lambda>c. \<lparr>dc_client = c, dc_client_ids = [cl_id c], dc_public_client_ids = [cl_client_id c],
         dc_grant_ids = sort (map pl_id (filter (\<lambda>p. pl_type p = ''Grant'' \<and> pl_client_id p = Some (cl_client_id c))
           (db_oidc_payloads d)))\<rparr>)
       (find_client_by_id i d)"

definition delete_captured_client :: "string \<Rightarrow> db \<Rightarrow> db" where
  "delete_captured_client i = delete_clients_cascade (\<lambda>c. cl_id c = i)"

definition delete_client_repo :: "string \<Rightarrow> (db, client_deletion_capture option) op" where
  "delete_client_repo i d =
     (case capture_client_for_deletion i d of
        None \<Rightarrow> (Inr None, d) | Some c \<Rightarrow> (Inr (Some c), delete_captured_client i d))"

subsection \<open>Listings\<close>

definition client_columns :: "listing_env \<Rightarrow> (string \<times> client_row column) list" where
  "client_columns env = [(''client_name'', text_column env cl_client_name),
     (''created_at'', time_column env ''created_at'' cl_id (\<lambda>r. Some (cl_created_at r)))]"

definition truthy_filter :: "string option \<Rightarrow> string \<Rightarrow> bool" where
  "truthy_filter wanted v = (\<not> truthy wanted \<or> wanted = Some v)"

definition client_wanted ::
    "string option \<Rightarrow> string option \<Rightarrow> client_status list_options \<Rightarrow> client_row \<Rightarrow> bool" where
  "client_wanted org app opts r = (truthy_filter org (cl_organization_id r) \<and>
     truthy_filter app (cl_application_id r) \<and> filtered (lo_status opts) (cl_status r) \<and>
     searched (lo_search opts) (\<lambda>s. ilike s (cl_client_name r)))"

definition list_clients ::
    "listing_env \<Rightarrow> string option \<Rightarrow> string option \<Rightarrow> client_status list_options \<Rightarrow>
     (client_row list \<Rightarrow> client_row list) \<Rightarrow> client_row list \<Rightarrow> client_row listing" where
  "list_clients env org app opts scan rows =
     offset_page (sort_direction (lo_sort_order opts)) (sort_column (client_columns env) (lo_sort_by opts))
       (client_wanted org app opts) (lo_page opts) (lo_page_size opts) scan rows"

definition list_clients_cursor ::
    "listing_env \<Rightarrow> string option \<Rightarrow> string option \<Rightarrow> client_status list_options \<Rightarrow> client_row list \<Rightarrow>
     app_error + client_row listing" where
  "list_clients_cursor env org app opts rows =
     keyset_page env (sort_direction (lo_sort_order opts)) (sort_column (client_columns env) (lo_sort_by opts))
       cl_id (client_wanted org app opts) (lo_cursor opts) (lo_limit opts) rows"

subsection \<open>Validation\<close>

definition validate_client_login_methods ::
    "string list option option \<Rightarrow> app_error + login_method list option option" where
  "validate_client_login_methods ms =
     (case ms of
        None \<Rightarrow> Inr None
      | Some None \<Rightarrow> Inr (Some None)
      | Some (Some []) \<Rightarrow> Inl (ClientValidationError ''loginMethods: must be a non-empty array, null, or omitted'')
      | Some (Some xs) \<Rightarrow>
          (case List.find (\<lambda>m. map_of login_methods m = None) xs of
             Some m \<Rightarrow> Inl (ClientValidationError (''loginMethods: invalid method \"'' @ m @ ''\"''))
           | None \<Rightarrow> Inr (Some (Some (normalize_login_methods (map (\<lambda>m. the (map_of login_methods m)) xs))))))"

definition semicolon_join :: "string list \<Rightarrow> string" where
  "semicolon_join es = concat (case es of [] \<Rightarrow> [] | e # rest \<Rightarrow> e # map (\<lambda>x. ''; '' @ x) rest)"

definition require_compatible_protocol :: "url_parser \<Rightarrow> client_protocol \<Rightarrow> app_error + unit" where
  "require_compatible_protocol parse c =
     (if pc_token_endpoint_auth_method c \<notin> {''client_secret_basic'', ''client_secret_post'', ''none''}
      then Inl (ClientValidationError ''Unsupported token endpoint authentication method'')
      else (let errors = validate_client_protocol_compatibility parse c
            in if errors = [] then Inr () else Inl (ClientValidationError (semicolon_join errors))))"

definition require_redirect_uris :: "url_parser \<Rightarrow> string list \<Rightarrow> app_error + unit" where
  "require_redirect_uris parse uris =
     (let errors = validate_redirect_uris parse uris False default_max_redirect_uris
      in if errors = [] then Inr ()
         else Inl (ClientValidationError (''Invalid redirect URIs: '' @ semicolon_join errors)))"

subsection \<open>Create\<close>

record create_client_input =
  cc_organization_id :: string
  cc_application_id :: string
  cc_client_name :: string
  cc_client_type :: client_type
  cc_application_type :: application_type
  cc_redirect_uris :: "string list"
  cc_post_logout_redirect_uris :: "string list option"
  cc_grant_types :: "string list option"
  cc_response_types :: "string list option"
  cc_scope :: "string option"
  cc_token_endpoint_auth_method :: "string option"
  cc_allowed_origins :: "string list option"
  cc_require_pkce :: "bool option"
  cc_require_consent :: "bool option"
  cc_login_methods :: "string list option option"

definition protocol_of_input :: "create_client_input \<Rightarrow> client_protocol" where
  "protocol_of_input i = \<lparr>pc_client_type = cc_client_type i, pc_redirect_uris = cc_redirect_uris i,
     pc_grant_types = nullish (cc_grant_types i) (get_default_grant_types (cc_client_type i) (cc_application_type i)),
     pc_response_types = nullish (cc_response_types i) get_default_response_types,
     pc_token_endpoint_auth_method = nullish (cc_token_endpoint_auth_method i)
       (get_default_token_endpoint_auth_method (cc_client_type i)),
     pc_require_pkce = nullish (cc_require_pkce i) True,
     pc_allowed_origins = nullish (cc_allowed_origins i) [],
     pc_post_logout_redirect_uris = nullish (cc_post_logout_redirect_uris i) []\<rparr>"

definition client_data_of ::
    "client_env \<Rightarrow> create_client_input \<Rightarrow> login_method list option option \<Rightarrow> insert_client_data" where
  "client_data_of env i methods = (let p = protocol_of_input i in
     \<lparr>il_organization_id = cc_organization_id i, il_application_id = cc_application_id i,
      il_client_id = generate_client_id (ce_secret env), il_client_name = cc_client_name i,
      il_client_type = cc_client_type i, il_application_type = cc_application_type i,
      il_redirect_uris = cc_redirect_uris i, il_post_logout_redirect_uris = pc_post_logout_redirect_uris p,
      il_grant_types = pc_grant_types p, il_response_types = pc_response_types p,
      il_scope = nullish (cc_scope i) get_default_scope,
      il_token_endpoint_auth_method = pc_token_endpoint_auth_method p,
      il_allowed_origins = pc_allowed_origins p, il_require_pkce = pc_require_pkce p,
      il_require_consent = Some (nullish (cc_require_consent i) False), il_login_methods = methods\<rparr>)"

definition client_type_name :: "client_type \<Rightarrow> string" where
  "client_type_name t = (case t of Confidential \<Rightarrow> ''confidential'' | Public \<Rightarrow> ''public'')"

definition application_type_name :: "application_type \<Rightarrow> string" where
  "application_type_name t = (case t of WebApp \<Rightarrow> ''web'' | NativeApp \<Rightarrow> ''native'' | SpaApp \<Rightarrow> ''spa'')"

definition login_method_name :: "login_method \<Rightarrow> string" where
  "login_method_name m = (case m of Password \<Rightarrow> ''password'' | MagicLink \<Rightarrow> ''magic_link'')"

definition login_methods_json :: "login_method list option \<Rightarrow> json" where
  "login_methods_json ms = (case ms of None \<Rightarrow> JNull | Some xs \<Rightarrow> JArr (map (\<lambda>m. JStr (login_method_name m)) xs))"

definition client_event :: "string \<Rightarrow> string \<Rightarrow> string option \<Rightarrow> (string \<times> json) list \<Rightarrow> audit_entry" where
  "client_event org event actor_id metadata = (blank_entry event ''admin'')
     \<lparr>ae_organization_id := Some org, ae_actor_id := actor_id, ae_metadata := Some (JObj metadata)\<rparr>"

definition require_client_parents :: "client_env \<Rightarrow> create_client_input \<Rightarrow> (flow, unit) op" where
  "require_client_parents env i =
     andthen (get_organization_by_id (ce_org env) (cc_organization_id i)) (\<lambda>org.
     andthen (unless_throw (org \<noteq> None) (ClientValidationError ''Organization not found'')) (\<lambda>_.
     andthen (unless_throw (map_option og_status org = Some OrgActive)
       (ClientValidationError ''Organization is not active'')) (\<lambda>_.
     andthen (get_application_by_id (ce_service env) (cc_application_id i)) (\<lambda>app.
     andthen (unless_throw (app \<noteq> None) (ClientValidationError ''Application not found'')) (\<lambda>_.
     unless_throw (map_option ap_status app = Some RecordActive)
       (ClientValidationError ''Application is not active''))))))"

definition create_client :: "client_env \<Rightarrow> create_client_input \<Rightarrow> string option \<Rightarrow> (flow, client_row) op" where
  "create_client env i actor_id =
     andthen (require_client_parents env i) (\<lambda>_.
     andthen (lift_result (require_redirect_uris (ce_parse_url env) (cc_redirect_uris i))) (\<lambda>_.
     andthen (lift_result (require_compatible_protocol (ce_parse_url env) (protocol_of_input i))) (\<lambda>_.
     andthen (lift_result (validate_client_login_methods (cc_login_methods i))) (\<lambda>methods.
     andthen (query (insert_client (ce_service env) (client_data_of env i methods))) (\<lambda>c.
     andthen (cache_client (ce_now env) c) (\<lambda>_.
     andthen (write_audit_log (client_event (cc_organization_id i) ''client.created'' actor_id
       [(''clientDbId'', JStr (cl_id c)), (''clientId'', JStr (cl_client_id c)),
        (''clientName'', JStr (cl_client_name c)), (''clientType'', JStr (client_type_name (cl_client_type c))),
        (''applicationType'', JStr (application_type_name (cl_application_type c))),
        (''applicationId'', JStr (cc_application_id i)), (''loginMethods'', login_methods_json (cl_login_methods c))]))
       (\<lambda>_. return_op c)))))))"

subsection \<open>Read\<close>

definition read_client ::
    "time \<Rightarrow> (store \<Rightarrow> client_row option) \<Rightarrow> (db \<Rightarrow> client_row option) \<Rightarrow> (flow, client_row option) op" where
  "read_client now cached lookup f =
     (case cached (fl_store f) of
        Some c \<Rightarrow> (Inr (Some c), f)
      | None \<Rightarrow>
          (case lookup (flow_db f) of
             None \<Rightarrow> (Inr None, f)
           | Some c \<Rightarrow> andthen (cache_client now c) (\<lambda>_. return_op (Some c)) f))"

definition get_client_by_id :: "time \<Rightarrow> string \<Rightarrow> (flow, client_row option) op" where
  "get_client_by_id now i = read_client now (get_cached_client_by_id now i) (find_client_by_id i)"

definition get_client_by_client_id :: "time \<Rightarrow> string \<Rightarrow> (flow, client_row option) op" where
  "get_client_by_client_id now cid =
     read_client now (get_cached_client_by_client_id now cid) (find_client_by_client_id cid)"

subsection \<open>Update\<close>

record update_client_input =
  uc_client_name :: "string option"
  uc_redirect_uris :: "string list option"
  uc_post_logout_redirect_uris :: "string list option"
  uc_grant_types :: "string list option"
  uc_response_types :: "string list option"
  uc_scope :: "string option"
  uc_token_endpoint_auth_method :: "string option"
  uc_allowed_origins :: "string list option"
  uc_require_pkce :: "bool option"
  uc_require_consent :: "bool option"
  uc_login_methods :: "string list option option"

definition changes_protocol :: "update_client_input \<Rightarrow> bool" where
  "changes_protocol i = (uc_redirect_uris i \<noteq> None \<or> uc_post_logout_redirect_uris i \<noteq> None \<or>
     uc_grant_types i \<noteq> None \<or> uc_response_types i \<noteq> None \<or> uc_token_endpoint_auth_method i \<noteq> None \<or>
     uc_allowed_origins i \<noteq> None \<or> uc_require_pkce i \<noteq> None)"

definition merged_protocol :: "update_client_input \<Rightarrow> client_row \<Rightarrow> client_protocol" where
  "merged_protocol i c = \<lparr>pc_client_type = cl_client_type c,
     pc_redirect_uris = nullish (uc_redirect_uris i) (cl_redirect_uris c),
     pc_grant_types = nullish (uc_grant_types i) (cl_grant_types c),
     pc_response_types = nullish (uc_response_types i) (cl_response_types c),
     pc_token_endpoint_auth_method = nullish (uc_token_endpoint_auth_method i) (cl_token_endpoint_auth_method c),
     pc_require_pkce = nullish (uc_require_pkce i) (cl_require_pkce c),
     pc_allowed_origins = nullish (uc_allowed_origins i) (cl_allowed_origins c),
     pc_post_logout_redirect_uris = nullish (uc_post_logout_redirect_uris i) (cl_post_logout_redirect_uris c)\<rparr>"

definition client_update_data ::
    "update_client_input \<Rightarrow> login_method list option option \<Rightarrow> update_client_data" where
  "client_update_data i methods = \<lparr>ul_client_name = uc_client_name i, ul_redirect_uris = uc_redirect_uris i,
     ul_post_logout_redirect_uris = uc_post_logout_redirect_uris i, ul_grant_types = uc_grant_types i,
     ul_response_types = uc_response_types i, ul_scope = uc_scope i,
     ul_token_endpoint_auth_method = uc_token_endpoint_auth_method i, ul_allowed_origins = uc_allowed_origins i,
     ul_require_pkce = uc_require_pkce i, ul_require_consent = uc_require_consent i, ul_status = None,
     ul_login_methods = methods\<rparr>"

definition client_update_keys :: "update_client_data \<Rightarrow> string list" where
  "client_update_keys u =
     (if ul_client_name u = None then [] else [''clientName'']) @
     (if ul_redirect_uris u = None then [] else [''redirectUris'']) @
     (if ul_post_logout_redirect_uris u = None then [] else [''postLogoutRedirectUris'']) @
     (if ul_grant_types u = None then [] else [''grantTypes'']) @
     (if ul_response_types u = None then [] else [''responseTypes'']) @
     (if ul_scope u = None then [] else [''scope'']) @
     (if ul_token_endpoint_auth_method u = None then [] else [''tokenEndpointAuthMethod'']) @
     (if ul_allowed_origins u = None then [] else [''allowedOrigins'']) @
     (if ul_require_pkce u = None then [] else [''requirePkce'']) @
     (if ul_require_consent u = None then [] else [''requireConsent'']) @
     (if ul_login_methods u = None then [] else [''loginMethods''])"

definition check_protocol_change :: "client_env \<Rightarrow> string \<Rightarrow> update_client_input \<Rightarrow> (flow, unit) op" where
  "check_protocol_change env i input =
     (if changes_protocol input
      then andthen (get_client_by_id (ce_now env) i) (\<lambda>existing.
        case existing of
          None \<Rightarrow> throw_op (ClientNotFoundError i)
        | Some c \<Rightarrow> lift_result (require_compatible_protocol (ce_parse_url env) (merged_protocol input c)))
      else return_op ())"

text \<open>The previous override, read before the update for the audit row.\<close>

definition previous_login_methods ::
    "client_env \<Rightarrow> string \<Rightarrow> update_client_input \<Rightarrow> (flow, login_method list option option) op" where
  "previous_login_methods env i input =
     (if uc_login_methods input = None then return_op None
      else andthen (get_client_by_id (ce_now env) i) (\<lambda>existing.
        return_op (map_option cl_login_methods existing)))"

definition client_update_event ::
    "client_row \<Rightarrow> update_client_data \<Rightarrow> login_method list option option \<Rightarrow> string option \<Rightarrow> audit_entry" where
  "client_update_event c u previous actor_id = client_event (cl_organization_id c) ''client.updated'' actor_id
     ([(''clientDbId'', JStr (cl_id c)), (''clientId'', JStr (cl_client_id c)),
       (''fields'', JArr (map JStr (client_update_keys u)))] @
      (case previous of None \<Rightarrow> []
       | Some p \<Rightarrow> [(''previousLoginMethods'', login_methods_json p),
                    (''newLoginMethods'', login_methods_json (cl_login_methods c))]))"

definition client_not_found :: "string \<Rightarrow> app_error \<Rightarrow> (flow, 'a) op" where
  "client_not_found i e = throw_op (if e = JsError ''Client not found'' then ClientNotFoundError i else e)"

definition update_client ::
    "client_env \<Rightarrow> string \<Rightarrow> update_client_input \<Rightarrow> string option \<Rightarrow> (flow, client_row) op" where
  "update_client env i input actor_id =
     andthen (case uc_redirect_uris input of
        Some uris \<Rightarrow> lift_result (require_redirect_uris (ce_parse_url env) uris) | None \<Rightarrow> return_op ()) (\<lambda>_.
     andthen (check_protocol_change env i input) (\<lambda>_.
     andthen (lift_result (validate_client_login_methods (uc_login_methods input))) (\<lambda>methods.
     andthen (previous_login_methods env i input) (\<lambda>previous.
     let u = client_update_data input methods
     in andthen (catch_op (query (repo_update_client (ce_now env) i u)) (client_not_found i)) (\<lambda>c.
        andthen (invalidate_client_cache (cl_client_id c) (cl_id c)) (\<lambda>_.
        andthen (cache_client (ce_now env) c) (\<lambda>_.
        andthen (write_audit_log (client_update_event c u previous actor_id)) (\<lambda>_.
        return_op c))))))))"

subsection \<open>Status\<close>

definition client_status_name :: "client_status \<Rightarrow> string" where
  "client_status_name s = (case s of ClientActive \<Rightarrow> ''active'' | ClientInactive \<Rightarrow> ''inactive'')"

definition load_client_for_status_change :: "string \<Rightarrow> (flow, client_row) op" where
  "load_client_for_status_change i =
     andthen (query (select (find_client_by_id i))) (\<lambda>c.
       case c of None \<Rightarrow> throw_op (ClientNotFoundError i) | Some x \<Rightarrow> return_op x)"

definition change_client_status ::
    "time \<Rightarrow> client_status \<Rightarrow> client_status \<Rightarrow> string \<Rightarrow> string \<Rightarrow> string \<Rightarrow> string option \<Rightarrow> (flow, unit) op" where
  "change_client_status now expected target verb event i actor_id =
     andthen (load_client_for_status_change i) (\<lambda>c.
     andthen (unless_throw (cl_status c = expected) (ClientValidationError
       (''Cannot '' @ verb @ '' client from status: '' @ client_status_name (cl_status c)))) (\<lambda>_.
     andthen (query (repo_update_client now i (no_client_update\<lparr>ul_status := Some target\<rparr>))) (\<lambda>_.
     andthen (invalidate_client_cache (cl_client_id c) (cl_id c)) (\<lambda>_.
     write_audit_log (client_event (cl_organization_id c) event actor_id
       [(''clientDbId'', JStr (cl_id c)), (''clientId'', JStr (cl_client_id c))])))))"

definition deactivate_client :: "time \<Rightarrow> string \<Rightarrow> string option \<Rightarrow> (flow, unit) op" where
  "deactivate_client now = change_client_status now ClientActive ClientInactive ''deactivate'' ''client.deactivated''"

definition activate_client :: "time \<Rightarrow> string \<Rightarrow> string option \<Rightarrow> (flow, unit) op" where
  "activate_client now = change_client_status now ClientInactive ClientActive ''activate'' ''client.activated''"

subsection \<open>The provider's view\<close>

record oidc_client_metadata =
  om_client_id :: string
  om_client_name :: string
  om_application_type :: application_type
  om_redirect_uris :: "string list"
  om_post_logout_redirect_uris :: "string list"
  om_grant_types :: "string list"
  om_response_types :: "string list"
  om_scope :: string
  om_token_endpoint_auth_method :: string
  om_id_token_signed_response_alg :: string
  om_allowed_origins :: "string list"
  om_client_type :: client_type
  om_require_pkce :: bool
  om_login_methods :: "login_method list option"
  om_application_id :: string
  om_organization_id :: string
  om_require_consent :: bool
  om_client_secret :: "string option"

definition oidc_metadata :: "client_row \<Rightarrow> string option \<Rightarrow> oidc_client_metadata" where
  "oidc_metadata c secret = \<lparr>om_client_id = cl_client_id c, om_client_name = cl_client_name c,
     om_application_type = cl_application_type c, om_redirect_uris = cl_redirect_uris c,
     om_post_logout_redirect_uris = cl_post_logout_redirect_uris c, om_grant_types = cl_grant_types c,
     om_response_types = cl_response_types c, om_scope = cl_scope c,
     om_token_endpoint_auth_method =
       (if cl_client_type c = Public then ''none'' else cl_token_endpoint_auth_method c),
     om_id_token_signed_response_alg = ''ES256'', om_allowed_origins = cl_allowed_origins c,
     om_client_type = cl_client_type c, om_require_pkce = cl_require_pkce c,
     om_login_methods = cl_login_methods c, om_application_id = cl_application_id c,
     om_organization_id = cl_organization_id c, om_require_consent = cl_require_consent c,
     om_client_secret = secret\<rparr>"

definition find_for_oidc :: "time \<Rightarrow> string \<Rightarrow> (flow, oidc_client_metadata option) op" where
  "find_for_oidc now cid =
     andthen (query (select (find_client_by_client_id cid))) (\<lambda>client.
       case client of
         None \<Rightarrow> return_op None
       | Some c \<Rightarrow>
           if cl_status c \<noteq> ClientActive then return_op None
           else if cl_client_type c = Confidential
           then andthen (query (select (get_latest_active_sha256 now (cl_id c)))) (\<lambda>sha.
             return_op (Some (oidc_metadata c (if truthy sha then sha else None))))
           else return_op (Some (oidc_metadata c None)))"

definition verify_client_secret :: "client_env \<Rightarrow> string \<Rightarrow> string \<Rightarrow> (flow, bool) op" where
  "verify_client_secret env cid plaintext =
     andthen (get_client_by_client_id (ce_now env) cid) (\<lambda>client.
       case client of
         None \<Rightarrow> return_op False
       | Some c \<Rightarrow>
           if cl_status c \<noteq> ClientActive \<or> cl_client_type c = Public then return_op False
           else verify_secret (ce_secret env) (cl_id c) plaintext)"

subsection \<open>Delete\<close>

text \<open>\<open>DELETE ... WHERE id = ANY(grants) OR grant_id = ANY(grants) OR payload->>'clientId' = ANY(public ids)\<close>.\<close>

definition delete_client_payloads :: "client_deletion_capture \<Rightarrow> db \<Rightarrow> db" where
  "delete_client_payloads c d = d\<lparr>db_oidc_payloads := delete_where
     (\<lambda>p. pl_id p \<in> set (dc_grant_ids c) \<or> opt_in (pl_grant_id p) (dc_grant_ids c) \<or>
       opt_in (pl_client_id p) (dc_public_client_ids c)) (db_oidc_payloads d)\<rparr>"

definition client_cleanup_descriptor :: "string \<Rightarrow> client_deletion_capture \<Rightarrow> deletion_cleanup_descriptor" where
  "client_cleanup_descriptor i c = \<lparr>dd_resource = RClient, dd_target_id = i, dd_target_slug = None,
     dd_parent_id = Some (cl_application_id (dc_client c)), dd_user_ids = [], dd_client_ids = dc_client_ids c,
     dd_public_client_ids = dc_public_client_ids c, dd_grant_ids = dc_grant_ids c, dd_role_ids = [],
     dd_permission_ids = [], dd_claim_ids = [], dd_application_ids = [cl_application_id (dc_client c)]\<rparr>"

definition delete_client ::
    "service_env \<Rightarrow> string \<Rightarrow> string option \<Rightarrow> (flow, client_deletion_capture) op" where
  "delete_client env i actor_id =
     andthen (require_transaction ''Client deletion requires an active database transaction'') (\<lambda>_.
     andthen (query (select (capture_client_for_deletion i))) (\<lambda>capture.
       case capture of
         None \<Rightarrow> throw_op (ClientNotFoundError i)
       | Some c \<Rightarrow>
           andthen (query (execute (delete_client_payloads c))) (\<lambda>_.
           andthen (write_audit_log_in_transaction (client_event (cl_organization_id (dc_client c))
             ''client.deleted'' actor_id [(''clientDbId'', JStr (cl_id (dc_client c))),
               (''clientId'', JStr (cl_client_id (dc_client c))),
               (''applicationId'', JStr (cl_application_id (dc_client c))),
               (''status'', JStr (client_status_name (cl_status (dc_client c))))])) (\<lambda>_.
           andthen (query (execute (delete_captured_client i))) (\<lambda>_.
           andthen (register_deletion_cleanup (sv_now env) (client_cleanup_descriptor i c)) (\<lambda>_.
           return_op c))))))"

end
