(* ===== verification/ClientSecretBridge.thy ===== *)
theory ClientSecretBridge
  imports Clients
begin

text \<open>
  packages/server/src/middleware/client-secret-hash.ts: the credential a client presents at the token
  endpoint is checked against its active secrets and replaced by the digest the provider knows.

  A request carries the \<open>Authorization\<close> header and, when the body is a record, its two fields.
  \<open>br_busy\<close> is the process flag \<open>legacyBatchActive\<close> as this request reads it.
\<close>

record token_request =
  tq_authorization :: "string option"
  tq_body :: "(json option \<times> json option) option"

record bridge_env =
  br_client :: client_env
  br_busy :: bool

definition max_client_id_length :: nat where
  "max_client_id_length = 255"

definition max_secret_length :: nat where
  "max_secret_length = 512"

definition busy_retry_seconds :: int where
  "busy_retry_seconds = 1"

definition token_rate_limit :: rate_limit_config where
  "token_rate_limit = \<lparr>rc_max = 30, rc_window_seconds = 300\<rparr>"

subsection \<open>Credentials\<close>

text \<open>Standard base64 with padding; the decoder is the one of base64url.\<close>

definition base64_encode :: "string \<Rightarrow> string" where
  "base64_encode bs =
     (let s = map (\<lambda>c. if c = CHR ''-'' then CHR ''+'' else if c = CHR ''_'' then CHR ''/'' else c) (base64url_encode bs)
      in s @ replicate ((4 - length s mod 4) mod 4) (CHR ''=''))"

datatype credential_method = SecretBasic | SecretPost

definition method_name :: "credential_method \<Rightarrow> string" where
  "method_name m = (case m of SecretBasic \<Rightarrow> ''client_secret_basic'' | SecretPost \<Rightarrow> ''client_secret_post'')"

record credential =
  pc_client_id :: string
  pc_plaintext :: string
  pc_method :: credential_method

definition basic_credential :: "token_request \<Rightarrow> credential option" where
  "basic_credential req =
     (case tq_authorization req of
        None \<Rightarrow> None
      | Some a \<Rightarrow>
          if take 6 a \<noteq> ''Basic '' then None
          else (let decoded = utf8_decode (base64url_decode (drop 6 a));
                    cid = takeWhile (\<lambda>c. c \<noteq> CHR '':'') decoded;
                    rest = dropWhile (\<lambda>c. c \<noteq> CHR '':'') decoded;
                    plaintext = tl rest
                in if rest = [] \<or> length cid < 1 \<or> length cid > max_client_id_length \<or>
                      length plaintext < 1 \<or> length plaintext > max_secret_length then None
                   else Some \<lparr>pc_client_id = cid, pc_plaintext = plaintext, pc_method = SecretBasic\<rparr>))"

definition post_credential :: "token_request \<Rightarrow> credential option" where
  "post_credential req =
     (case tq_body req of
        Some (Some (JStr cid), Some (JStr plaintext)) \<Rightarrow>
          if length cid < 1 \<or> length cid > max_client_id_length \<or> length plaintext < 1 \<or>
            length plaintext > max_secret_length then None
          else Some \<lparr>pc_client_id = cid, pc_plaintext = plaintext, pc_method = SecretPost\<rparr>
      | _ \<Rightarrow> None)"

definition replace_credential :: "credential \<Rightarrow> string \<Rightarrow> token_request \<Rightarrow> token_request" where
  "replace_credential c canonical req =
     (case pc_method c of
        SecretBasic \<Rightarrow> req\<lparr>tq_authorization :=
          Some (''Basic '' @ base64_encode (utf8_encode (pc_client_id c @ '':'' @ canonical)))\<rparr>
      | SecretPost \<Rightarrow> req\<lparr>tq_body := map_option (\<lambda>(cid, _). (cid, Some (JStr canonical))) (tq_body req)\<rparr>)"

definition presented_credential :: "token_request \<Rightarrow> credential option" where
  "presented_credential req =
     (case (basic_credential req, post_credential req) of
        (Some _, Some _) \<Rightarrow> None
      | (Some b, None) \<Rightarrow> Some b
      | (None, p) \<Rightarrow> p)"

subsection \<open>The bridge\<close>

text \<open>The request continues to the provider, or the answer is 429 with \<open>Retry-After\<close>.\<close>

datatype bridge_outcome = ToProvider token_request | Denied int

definition bridge_client_ok :: "string \<Rightarrow> credential \<Rightarrow> client_row option \<Rightarrow> bool" where
  "bridge_client_ok tenant c client =
     (case client of None \<Rightarrow> False
      | Some r \<Rightarrow> cl_organization_id r = tenant \<and> cl_client_type r = Confidential \<and> cl_status r = ClientActive \<and>
          cl_token_endpoint_auth_method r = method_name (pc_method c))"

fun legacy_match :: "secret_env \<Rightarrow> string \<Rightarrow> (string \<times> string) list \<Rightarrow> (flow, bool) op" where
  "legacy_match env plaintext [] = return_op False"
| "legacy_match env plaintext ((i, hash) # rest) =
     andthen (verify_secret_hash env hash plaintext) (\<lambda>m.
     if m then return_op True else legacy_match env plaintext rest)"

definition check_legacy ::
    "bridge_env \<Rightarrow> string \<Rightarrow> credential \<Rightarrow> client_row \<Rightarrow> string \<Rightarrow> token_request \<Rightarrow>
     (flow, bridge_outcome) op" where
  "check_legacy env tenant c r canonical req =
     (let se = ce_secret (br_client env); now = ce_now (br_client env)
      in andthen (query (select (get_active_legacy_secret_hashes now (cl_id r)))) (\<lambda>legacy.
         if length legacy = 0 \<or> length legacy > 10 then return_op (ToProvider req)
         else if br_busy env then return_op (Denied busy_retry_seconds)
         else andthen (on_store (check_rate_limit_strict now
             (''ratelimit:client-secret-legacy:'' @ tenant @ '':'' @ cl_id r) token_rate_limit)) (\<lambda>limit.
           if \<not> rr_allowed limit then return_op (Denied (rr_retry_after limit))
           else andthen (legacy_match se (pc_plaintext c) legacy) (\<lambda>m.
             return_op (ToProvider (if m then replace_credential c canonical req else req))))))"

definition check_credential ::
    "bridge_env \<Rightarrow> string \<Rightarrow> credential \<Rightarrow> token_request \<Rightarrow> (flow, bridge_outcome) op" where
  "check_credential env tenant c req =
     (let now = ce_now (br_client env)
      in andthen (get_client_by_client_id now (pc_client_id c)) (\<lambda>client.
         if \<not> bridge_client_ok tenant c client then return_op (ToProvider req)
         else (let r = the client
               in andthen (query (select (get_latest_active_sha256 now (cl_id r)))) (\<lambda>canonical.
                  case canonical of
                    None \<Rightarrow> return_op (ToProvider req)
                  | Some digest \<Rightarrow>
                      andthen (query (select (find_active_secret_id_by_sha256 now (cl_id r)
                        (sha256_secret (ce_secret (br_client env)) (pc_plaintext c))))) (\<lambda>modern.
                      if modern \<noteq> None then return_op (ToProvider (replace_credential c digest req))
                      else check_legacy env tenant c r digest req)))))"

text \<open>Any error leaves the credential as it was.\<close>

definition client_secret_hash ::
    "bridge_env \<Rightarrow> string option \<Rightarrow> token_request \<Rightarrow> (flow, bridge_outcome) op" where
  "client_secret_hash env tenant req =
     (case (presented_credential req, if truthy tenant then tenant else None) of
        (Some c, Some t) \<Rightarrow> catch_op (check_credential env t c req) (\<lambda>_. return_op (ToProvider req))
      | _ \<Rightarrow> return_op (ToProvider req))"

end
