(* ===== verification/ClientProperties.thy ===== *)
theory ClientProperties
  imports ClientSecretBridge ControlPlaneProperties
begin

text \<open>
  The protocol configuration of every stored client stays compatible with its type, whatever calls of
  the client service run and whatever old copies the cache serves to the validation of an update: a
  type is never updated, and each relation of the validator joins one field with the type.

  \<open>T\<close> gives the type each client identifier stands for.
\<close>

definition row_protocol :: "client_row \<Rightarrow> client_protocol" where
  "row_protocol c = \<lparr>pc_client_type = cl_client_type c, pc_redirect_uris = cl_redirect_uris c,
     pc_grant_types = cl_grant_types c, pc_response_types = cl_response_types c,
     pc_token_endpoint_auth_method = cl_token_endpoint_auth_method c, pc_require_pkce = cl_require_pkce c,
     pc_allowed_origins = cl_allowed_origins c, pc_post_logout_redirect_uris = cl_post_logout_redirect_uris c\<rparr>"

definition protocol_ok :: "url_parser \<Rightarrow> client_protocol \<Rightarrow> bool" where
  "protocol_ok parse c \<longleftrightarrow> require_compatible_protocol parse c = Inr ()"

definition clients_ok :: "url_parser \<Rightarrow> (string \<Rightarrow> client_type) \<Rightarrow> db \<Rightarrow> bool" where
  "clients_ok parse T d \<longleftrightarrow>
     (\<forall>c \<in> set (db_clients d). cl_client_type c = T (cl_id c) \<and> protocol_ok parse (row_protocol c))"

definition client_cache_ok :: "(string \<Rightarrow> client_type) \<Rightarrow> redis \<Rightarrow> bool" where
  "client_cache_ok T r \<longleftrightarrow> (\<forall>now i c. redis_live now r (client_id_key i) = Some (JsonClient c) \<longrightarrow> cl_client_type c = T i)"

abbreviation client_inv :: "url_parser \<Rightarrow> (string \<Rightarrow> client_type) \<Rightarrow> flow \<Rightarrow> bool" where
  "client_inv parse T \<equiv> store_inv (clients_ok parse T) (client_cache_ok T)"

interpretation clients: store_invariant "clients_ok parse T" "client_cache_ok T" for parse T
proof unfold_locales
  show "\<And>r d. clients_ok parse T (insert_audit_row r d) = clients_ok parse T d"
    by (simp add: clients_ok_def insert_audit_row_def)
  show "\<And>r r'. client_cache_ok T r \<Longrightarrow> redis_shrinks r' r \<Longrightarrow> client_cache_ok T r'"
    unfolding client_cache_ok_def redis_shrinks_def by blast
qed

subsection \<open>The validator\<close>

lemma protocol_ok_iff:
  "protocol_ok parse c \<longleftrightarrow>
     pc_token_endpoint_auth_method c \<in> {''client_secret_basic'', ''client_secret_post'', ''none''} \<and>
     validate_client_protocol_compatibility parse c = []"
  by (auto simp: protocol_ok_def require_compatible_protocol_def Let_def)

text \<open>Fields validated with any configuration of the same type may be mixed.\<close>

definition grants_fit :: "client_type \<Rightarrow> string list \<Rightarrow> bool" where
  "grants_fit t gs = (grant_types_ok gs \<and> (t = Public \<longrightarrow> ''client_credentials'' \<notin> set gs))"

definition auth_method_fits :: "client_type \<Rightarrow> string \<Rightarrow> bool" where
  "auth_method_fits t a = (a \<in> {''client_secret_basic'', ''client_secret_post'', ''none''} \<and>
     (if t = Public then a = ''none'' else a \<noteq> ''none''))"

lemma protocol_ok_fields:
  "protocol_ok parse c \<longleftrightarrow>
     redirect_uris_ok parse (pc_redirect_uris c) \<and> post_logout_uris_ok parse (pc_post_logout_redirect_uris c) \<and>
     allowed_origins_ok parse (pc_allowed_origins c) \<and> grants_fit (pc_client_type c) (pc_grant_types c) \<and>
     pc_response_types c = [''code''] \<and>
     auth_method_fits (pc_client_type c) (pc_token_endpoint_auth_method c) \<and>
     (pc_client_type c = Public \<longrightarrow> pc_require_pkce c)"
  by (auto simp: protocol_ok_iff validate_client_protocol_compatibility_iff grants_fit_def auth_method_fits_def)

lemma nullish_mixed: "P (nullish x a) \<Longrightarrow> P b \<Longrightarrow> P (nullish x b)"
  by (cases x) auto

lemma protocol_ok_merge:
  assumes "protocol_ok parse (merged_protocol input cached)" and "protocol_ok parse (row_protocol c)"
    and "cl_client_type cached = cl_client_type c"
  shows "protocol_ok parse (row_protocol (apply_client_update now (client_update_data input methods) c))"
  using assms unfolding protocol_ok_fields
  by (simp add: row_protocol_def merged_protocol_def apply_client_update_def client_update_data_def)
    (blast intro: nullish_mixed [of "redirect_uris_ok parse"] nullish_mixed [of "post_logout_uris_ok parse"]
      nullish_mixed [of "allowed_origins_ok parse"] nullish_mixed [of "grants_fit (cl_client_type c)"]
      nullish_mixed [of "\<lambda>ts. ts = [''code'']"] nullish_mixed [of "auth_method_fits (cl_client_type c)"]
      nullish_mixed [of "\<lambda>b. b"])

lemma protocol_ok_unchanged:
  assumes "\<not> changes_protocol input"
  shows "row_protocol (apply_client_update now (client_update_data input methods) c) = row_protocol c"
  using assms by (simp add: row_protocol_def apply_client_update_def client_update_data_def changes_protocol_def)

lemma row_protocol_inserted: "row_protocol (inserted_client env (client_data_of e i methods)) = protocol_of_input i"
  by (simp add: row_protocol_def inserted_client_def client_data_of_def Let_def protocol_of_input_def)

lemma apply_client_update_fixed [simp]:
  "cl_id (apply_client_update now u c) = cl_id c" "cl_client_type (apply_client_update now u c) = cl_client_type c"
  by (simp_all add: apply_client_update_def)

subsection \<open>The cache\<close>

lemma client_keys_distinct [simp]:
  "client_id_key i \<noteq> client_cid_key s" "client_cid_key s \<noteq> client_id_key i"
  "client_id_key i \<noteq> org_id_key s" "client_id_key i \<noteq> org_slug_key s"
  "client_id_key i \<noteq> app_id_key s" "client_id_key i \<noteq> app_slug_key s"
  "org_id_key s \<noteq> client_id_key i" "org_slug_key s \<noteq> client_id_key i"
  "app_id_key s \<noteq> client_id_key i" "app_slug_key s \<noteq> client_id_key i"
  "client_id_key i = client_id_key j \<longleftrightarrow> i = j"
  by (simp_all add: client_id_key_def client_cid_key_def org_id_key_def org_slug_key_def app_id_key_def app_slug_key_def)

lemma client_cache_set_other:
  "(\<And>i. k \<noteq> client_id_key i) \<Longrightarrow> client_cache_ok T r \<Longrightarrow> client_cache_ok T (redis_set_ex now k v ttl r)"
  unfolding client_cache_ok_def by (metis redis_live_set_other)

lemma client_cache_set:
  assumes "cl_client_type c = T (cl_id c)" and "client_cache_ok T r"
  shows "client_cache_ok T (redis_set_ex now (client_id_key (cl_id c)) (JsonClient c) ttl r)"
  unfolding client_cache_ok_def
proof (intro allI impI)
  fix t i x
  assume "redis_live t (redis_set_ex now (client_id_key (cl_id c)) (JsonClient c) ttl r) (client_id_key i) = Some (JsonClient x)"
  then show "cl_client_type x = T i"
    using assms unfolding client_cache_ok_def
    by (cases "i = cl_id c") (auto split: if_splits)
qed

lemma keeps_cache_client:
  "cl_client_type c = T (cl_id c) \<Longrightarrow> preserves (client_inv parse T) (cache_client now c)"
  unfolding cache_client_def
  by (rule clients.keeps_store_redis) (intro client_cache_set client_cache_set_other; simp)

lemma keeps_invalidate_client [intro]: "preserves (client_inv parse T) (invalidate_client_cache cid i)"
  unfolding invalidate_client_cache_def by (rule clients.keeps_store_shrink) (rule redis_shrinks_del_all)

lemma keeps_cache_organization [intro]: "preserves (client_inv parse T) (cache_organization now x)"
  unfolding cache_organization_def
  by (rule clients.keeps_store_redis) (intro client_cache_set_other; simp)

lemma keeps_cache_app [intro]: "preserves (client_inv parse T) (cache_application now x)"
  unfolding cache_application_def
  by (rule clients.keeps_store_redis) (intro client_cache_set_other; simp)

text \<open>A cache-first read keeps the invariant when caching what it found keeps it.\<close>

lemma keeps_cached_read:
  assumes "\<And>x. preserves I (cache x)"
  shows "preserves I (\<lambda>f. case cached (fl_store f) of Some a \<Rightarrow> (Inr (Some a), f)
    | None \<Rightarrow> (case lookup (flow_db f) of None \<Rightarrow> (Inr None, f)
        | Some a \<Rightarrow> andthen (cache a) (\<lambda>_. return_op (Some a)) f))"
proof (rule preservesI)
  fix f
  assume "I f"
  moreover have "preserves I (andthen (cache a) (\<lambda>_. return_op (Some a)))" for a
    using assms by auto
  ultimately show "I (snd (case cached (fl_store f) of Some a \<Rightarrow> (Inr (Some a), f)
    | None \<Rightarrow> (case lookup (flow_db f) of None \<Rightarrow> (Inr None, f)
        | Some a \<Rightarrow> andthen (cache a) (\<lambda>_. return_op (Some a)) f)))"
    by (auto split: option.split dest: preservesD)
qed

lemma keeps_reads:
  "preserves (client_inv parse T) (read_through now cached lookup)"
  "preserves (client_inv parse T) (read_application now cached' lookup')"
  unfolding read_through_def [abs_def] read_application_def [abs_def]
  by (rule keeps_cached_read, blast)+

lemma keeps_get_parents [intro]:
  "preserves (client_inv parse T) (get_organization_by_id oenv i)"
  "preserves (client_inv parse T) (get_application_by_id senv j)"
  by (simp_all add: get_organization_by_id_def get_application_by_id_def keeps_reads)

lemma find_client_idD: "find_client_by_id i d = Some c \<Longrightarrow> c \<in> set (db_clients d) \<and> cl_id c = i"
  by (auto simp: find_client_by_id_def dest: find_row_SomeD)

lemma find_client_cidD: "find_client_by_client_id cid d = Some c \<Longrightarrow> c \<in> set (db_clients d)"
  by (auto simp: find_client_by_client_id_def dest: find_row_SomeD)

lemma keeps_read_client:
  assumes "\<And>d c. lookup d = Some c \<Longrightarrow> c \<in> set (db_clients d)"
  shows "preserves (client_inv parse T) (read_client now cached lookup)"
proof (rule preservesI)
  fix f
  assume inv: "client_inv parse T f"
  show "client_inv parse T (snd (read_client now cached lookup f))"
  proof (cases "cached (fl_store f)")
    case None
    show ?thesis
    proof (cases "lookup (flow_db f)")
      case (Some c)
      have "cl_client_type c = T (cl_id c)"
        using store_inv_db [OF inv] assms [OF Some] by (simp add: clients_ok_def)
      then have "preserves (client_inv parse T) (andthen (cache_client now c) (\<lambda>_. return_op (Some c)))"
        by (auto intro: keeps_cache_client)
      with inv None Some show ?thesis by (simp add: read_client_def preservesD)
    qed (simp add: read_client_def None inv)
  qed (simp add: read_client_def inv)
qed

lemma keeps_get_client [intro]:
  "preserves (client_inv parse T) (get_client_by_id now i)"
  "preserves (client_inv parse T) (get_client_by_client_id now cid)"
  unfolding get_client_by_id_def get_client_by_client_id_def
  by (rule keeps_read_client; auto dest: find_client_idD find_client_cidD)+

text \<open>Whatever copy the validation of an update gets, it has the type of the row.\<close>

lemma get_client_type:
  assumes "client_inv parse T f" and "get_client_by_id now i f = (Inr (Some c), f')"
  shows "cl_client_type c = T i"
proof (cases "get_cached_client_by_id now i (fl_store f)")
  case (Some x)
  then have "redis_live now (flow_redis f) (client_id_key i) = Some (JsonClient x)"
    by (auto simp: get_cached_client_by_id_def cached_client_def deserialize_client_def
        split: if_splits option.splits redis_value.splits)
  moreover have "x = c" using assms(2) Some by (simp add: get_client_by_id_def read_client_def)
  ultimately show ?thesis using store_inv_redis [OF assms(1)] by (auto simp: client_cache_ok_def)
next
  case None
  then have "find_client_by_id i (flow_db f) = Some c"
    using assms(2)
    by (auto simp: get_client_by_id_def read_client_def andthen_def split: option.splits prod.splits sum.splits)
  then show ?thesis using store_inv_db [OF assms(1)] find_client_idD by (fastforce simp: clients_ok_def)
qed

subsection \<open>Statements\<close>

lemma insert_client_ok:
  assumes "clients_ok parse T d" and "T (sv_new_id env) = il_client_type data"
    and "protocol_ok parse (row_protocol (inserted_client env data))"
  shows "clients_ok parse T (snd (insert_client env data d))"
  using assms by (auto simp: insert_client_def clients_ok_def Let_def inserted_client_def)

lemma insert_client_result:
  "fst (insert_client env data d) = Inr c \<Longrightarrow> c = inserted_client env data"
  by (auto simp: insert_client_def Let_def split: if_splits)

lemma update_client_ok:
  assumes "clients_ok parse T d"
    and "\<And>c. cl_client_type c = T i \<Longrightarrow> protocol_ok parse (row_protocol c) \<Longrightarrow>
      protocol_ok parse (row_protocol (apply_client_update now u c))"
  shows "clients_ok parse T (snd (repo_update_client now i u d))"
  using assms by (auto simp: repo_update_client_def clients_ok_def set_update_where split: option.split)

lemma update_client_result:
  assumes "clients_ok parse T d" and "fst (repo_update_client now i u d) = Inr c"
  shows "cl_client_type c = T (cl_id c)"
  using assms by (auto simp: repo_update_client_def clients_ok_def dest!: find_client_idD split: if_splits option.splits)

lemma status_update_protocol:
  "row_protocol (apply_client_update now (no_client_update\<lparr>ul_status := s\<rparr>) c) = row_protocol c"
  by (simp add: row_protocol_def apply_client_update_def no_client_update_def)

lemma clients_ok_filter:
  "clients_ok parse T d \<Longrightarrow> set (db_clients d') \<subseteq> set (db_clients d) \<Longrightarrow> clients_ok parse T d'"
  by (auto simp: clients_ok_def)


text \<open>Sequences of calls of the client and secret services, and what holds after any of them.\<close>

datatype client_call =
    CallCreateClient create_client_input
  | CallUpdateClient string update_client_input
  | CallDeactivateClient string
  | CallActivateClient string
  | CallDeleteClient string
  | CallGetClient string
  | CallGetClientByClientId string
  | CallVerifyClientSecret string string
  | CallGenerateSecret string create_secret_input
  | CallRevokeSecret string string
  | CallCleanupSecrets "int option"
  | CallSecretBridge bool "string option" token_request

definition client_call_op :: "client_env \<Rightarrow> string option \<Rightarrow> client_call \<Rightarrow> (flow, unit) op" where
  "client_call_op env actor c =
     (let done_op = (\<lambda>_. return_op ())
      in case c of
           CallCreateClient i \<Rightarrow> andthen (create_client env i actor) done_op
         | CallUpdateClient i u \<Rightarrow> andthen (update_client env i u actor) done_op
         | CallDeactivateClient i \<Rightarrow> deactivate_client (ce_now env) i actor
         | CallActivateClient i \<Rightarrow> activate_client (ce_now env) i actor
         | CallDeleteClient i \<Rightarrow> andthen (delete_client (ce_service env) i actor) (\<lambda>_. return_op ())
         | CallGetClient i \<Rightarrow> andthen (get_client_by_id (ce_now env) i) (\<lambda>_. return_op ())
         | CallGetClientByClientId cid \<Rightarrow> andthen (get_client_by_client_id (ce_now env) cid) (\<lambda>_. return_op ())
         | CallVerifyClientSecret cid p \<Rightarrow> andthen (verify_client_secret env cid p) (\<lambda>_. return_op ())
         | CallGenerateSecret i input \<Rightarrow> andthen (generate_and_store (ce_secret env) i input actor) (\<lambda>_. return_op ())
         | CallRevokeSecret i s \<Rightarrow> revoke_client_secret i s actor
         | CallCleanupSecrets days \<Rightarrow> andthen (cleanup_expired (ce_service env) days) (\<lambda>_. return_op ())
         | CallSecretBridge busy tenant req \<Rightarrow>
             andthen (client_secret_hash \<lparr>br_client = env, br_busy = busy\<rparr> tenant req) (\<lambda>_. return_op ()))"

text \<open>A call runs in the request transaction of an administrator, or on its own.\<close>

definition run_client_call :: "client_env \<times> bool \<times> string option \<times> client_call \<Rightarrow> flow \<Rightarrow> flow" where
  "run_client_call = (\<lambda>(env, transactional, actor, c) f.
     snd ((if transactional then run_database_transaction (client_call_op env actor c)
           else client_call_op env actor c) f))"

definition run_client_calls :: "(client_env \<times> bool \<times> string option \<times> client_call) list \<Rightarrow> flow \<Rightarrow> flow" where
  "run_client_calls calls f = fold run_client_call calls f"

subsection \<open>The invariant of the configurations\<close>

text \<open>The calls use one URL parser, and a creation gives its identifier the type of its input.\<close>

definition typed_call :: "url_parser \<Rightarrow> (string \<Rightarrow> client_type) \<Rightarrow> client_env \<times> bool \<times> string option \<times> client_call \<Rightarrow> bool" where
  "typed_call parse T = (\<lambda>(env, transactional, actor, c). ce_parse_url env = parse \<and>
     (case c of CallCreateClient i \<Rightarrow> T (sv_new_id (ce_service env)) = cc_client_type i | _ \<Rightarrow> True))"

lemmas client_keeps = clients.keeps_store_select clients.keeps_store_audit clients.keeps_store_audit_row
  clients.keeps_store_deletion clients.keeps_store_transaction keeps_get_client keeps_get_parents
  keeps_invalidate_client

lemma keeps_lift_result [intro]: "preserves I (lift_result r)"
  by (simp add: lift_result_def preserves_sum preserves_throw preserves_return split: sum.split)

lemma keeps_lift_then:
  "(\<And>a. r = Inr a \<Longrightarrow> preserves I (g a)) \<Longrightarrow> preserves I (andthen (lift_result r) g)"
  by (cases r) (auto simp: lift_result_def)

lemma create_client_keeps:
  assumes "ce_parse_url env = parse" and "T (sv_new_id (ce_service env)) = cc_client_type i"
  shows "preserves (client_inv parse T) (create_client env i actor)"
  unfolding create_client_def
proof (rule preserves_andthen, goal_cases)
  case 1
  show "preserves (client_inv parse T) (require_client_parents env i)"
    unfolding require_client_parents_def by (intro preserves_intros client_keeps)
next
  case 2
  show ?case
  proof (rule keeps_lift_then, rule keeps_lift_then, rule keeps_lift_then)
  fix u v methods
  assume ok: "require_compatible_protocol (ce_parse_url env) (protocol_of_input i) = Inr u"
  let ?row = "inserted_client (ce_service env) (client_data_of env i methods)"
  have row: "protocol_ok parse (row_protocol ?row)" "cl_client_type ?row = T (cl_id ?row)"
    using ok assms by (simp add: protocol_ok_def row_protocol_inserted, simp add: inserted_client_def client_data_of_def Let_def)
  show "preserves (client_inv parse T)
    (andthen (query (insert_client (ce_service env) (client_data_of env i methods))) (\<lambda>c.
     andthen (cache_client (ce_now env) c) (\<lambda>_.
     andthen (write_audit_log (client_event (cc_organization_id i) ''client.created'' actor
       [(''clientDbId'', JStr (cl_id c)), (''clientId'', JStr (cl_client_id c)),
        (''clientName'', JStr (cl_client_name c)), (''clientType'', JStr (client_type_name (cl_client_type c))),
        (''applicationType'', JStr (application_type_name (cl_application_type c))),
        (''applicationId'', JStr (cc_application_id i)), (''loginMethods'', login_methods_json (cl_login_methods c))]))
       (\<lambda>_. return_op c))))"
  proof (rule keeps_query_result)
    fix d assume "clients_ok parse T d"
    then show "clients_ok parse T (snd (insert_client (ce_service env) (client_data_of env i methods) d))"
      using row assms(2) by (intro insert_client_ok) (simp_all add: client_data_of_def Let_def)
  next
    fix c d assume "fst (insert_client (ce_service env) (client_data_of env i methods) d) = Inr c"
    then have "cl_client_type c = T (cl_id c)" using insert_client_result row(2) by blast
    then show "preserves (client_inv parse T) (andthen (cache_client (ce_now env) c) (\<lambda>_.
     andthen (write_audit_log (client_event (cc_organization_id i) ''client.created'' actor
       [(''clientDbId'', JStr (cl_id c)), (''clientId'', JStr (cl_client_id c)),
        (''clientName'', JStr (cl_client_name c)), (''clientType'', JStr (client_type_name (cl_client_type c))),
        (''applicationType'', JStr (application_type_name (cl_application_type c))),
        (''applicationId'', JStr (cc_application_id i)), (''loginMethods'', login_methods_json (cl_login_methods c))]))
       (\<lambda>_. return_op c)))"
      by (intro preserves_andthen keeps_cache_client clients.keeps_store_audit preserves_return)
  qed
  qed
qed

text \<open>What the check before an update establishes: the update keeps the configuration of the row valid.\<close>

lemma check_protocol_change_keeps:
  assumes "ce_parse_url env = parse" and "client_inv parse T f"
    and "check_protocol_change env i input f = (Inr (), f')"
    and "cl_client_type c = T i" and "protocol_ok parse (row_protocol c)"
  shows "protocol_ok parse (row_protocol (apply_client_update now (client_update_data input methods) c))"
proof (cases "changes_protocol input")
  case False
  then show ?thesis using assms(5) by (simp add: protocol_ok_unchanged)
next
  case True
  then obtain x f'' where x: "get_client_by_id (ce_now env) i f = (Inr (Some x), f'')"
      "require_compatible_protocol parse (merged_protocol input x) = Inr ()"
    using assms(1,3)
    by (auto simp: check_protocol_change_def andthen_def lift_result_def
        split: prod.splits sum.splits option.splits)
  then show ?thesis
    using get_client_type [OF assms(2) x(1)] assms(4,5) protocol_ok_merge by (auto simp: protocol_ok_def)
qed

lemma check_protocol_keeps: "preserves (client_inv parse T) (check_protocol_change env i input)"
  unfolding check_protocol_change_def by (intro preserves_intros client_keeps keeps_lift_result)

lemma preserves_after:
  assumes "preserves I m"
    and "\<And>f a f'. I f \<Longrightarrow> m f = (Inr a, f') \<Longrightarrow> preserves I (g a)"
  shows "preserves I (andthen m g)"
proof (rule preservesI)
  fix f assume I: "I f"
  then have "I (snd (m f))" using assms(1) by (rule preservesD [rotated])
  then show "I (snd (andthen m g f))"
    using assms(2) [OF I] by (cases "m f") (auto simp: andthen_def dest: preservesD split: sum.splits)
qed

lemma update_client_keeps:
  assumes "ce_parse_url env = parse"
  shows "preserves (client_inv parse T) (update_client env i input actor)"
  unfolding update_client_def Let_def
proof (rule preserves_andthen)
  show "preserves (client_inv parse T) (case uc_redirect_uris input of
      None \<Rightarrow> return_op () | Some uris \<Rightarrow> lift_result (require_redirect_uris (ce_parse_url env) uris))"
    by (intro preserves_intros keeps_lift_result)
next
  fix u
  show "preserves (client_inv parse T)
    (andthen (check_protocol_change env i input) (\<lambda>_.
     andthen (lift_result (validate_client_login_methods (uc_login_methods input))) (\<lambda>methods.
     andthen (previous_login_methods env i input) (\<lambda>previous.
     andthen (catch_op (query (repo_update_client (ce_now env) i (client_update_data input methods))) (client_not_found i)) (\<lambda>c.
     andthen (invalidate_client_cache (cl_client_id c) (cl_id c)) (\<lambda>_.
     andthen (cache_client (ce_now env) c) (\<lambda>_.
     andthen (write_audit_log (client_update_event c (client_update_data input methods) previous actor)) (\<lambda>_.
     return_op c))))))))"
  proof (rule preserves_after [OF check_protocol_keeps], rule keeps_lift_then, rule preserves_andthen)
    show "preserves (client_inv parse T) (previous_login_methods env i input)"
      unfolding previous_login_methods_def by (intro preserves_intros client_keeps)
  next
    fix f u f' methods previous
    assume f: "client_inv parse T f" "check_protocol_change env i input f = (Inr u, f')"
    show "preserves (client_inv parse T)
      (andthen (catch_op (query (repo_update_client (ce_now env) i (client_update_data input methods))) (client_not_found i)) (\<lambda>c.
       andthen (invalidate_client_cache (cl_client_id c) (cl_id c)) (\<lambda>_.
       andthen (cache_client (ce_now env) c) (\<lambda>_.
       andthen (write_audit_log (client_update_event c (client_update_data input methods) previous actor)) (\<lambda>_.
       return_op c)))))"
      unfolding client_not_found_def
    proof (rule keeps_catch_result)
      fix d assume "clients_ok parse T d"
      then show "clients_ok parse T (snd (repo_update_client (ce_now env) i (client_update_data input methods) d))"
        using check_protocol_change_keeps [OF assms f(1)] f(2) by (intro update_client_ok) auto
    next
      fix c d
      assume "clients_ok parse T d"
        "fst (repo_update_client (ce_now env) i (client_update_data input methods) d) = Inr c"
      then have "cl_client_type c = T (cl_id c)" by (rule update_client_result)
      then show "preserves (client_inv parse T)
        (andthen (invalidate_client_cache (cl_client_id c) (cl_id c)) (\<lambda>_.
         andthen (cache_client (ce_now env) c) (\<lambda>_.
         andthen (write_audit_log (client_update_event c (client_update_data input methods) previous actor)) (\<lambda>_.
         return_op c))))"
        by (intro preserves_andthen keeps_cache_client keeps_invalidate_client clients.keeps_store_audit preserves_return)
    qed
  qed
qed

lemma change_client_status_keeps:
  "preserves (client_inv parse T) (change_client_status now expected target verb event i actor)"
  unfolding change_client_status_def load_client_for_status_change_def
  by (intro preserves_intros client_keeps clients.keeps_store_query update_client_ok; simp add: status_update_protocol)

lemma delete_client_keeps: "preserves (client_inv parse T) (delete_client env i actor)"
  unfolding delete_client_def
  by (intro preserves_intros client_keeps clients.keeps_store_execute;
      erule clients_ok_filter;
      auto simp: delete_client_payloads_def delete_captured_client_def delete_clients_cascade_def Let_def)

subsection \<open>The secrets leave the clients alone\<close>

lemma keeps_secret_query:
  "(\<And>d. db_clients (snd (m d)) = db_clients d) \<Longrightarrow> preserves (client_inv parse T) (query m)"
  by (rule clients.keeps_store_query) (simp add: clients_ok_def)

lemma insert_secret_keeps: "preserves (client_inv parse T) (insert_secret env data)"
  unfolding insert_secret_def
  by (intro preserves_intros client_keeps keeps_secret_query) (simp add: insert_secret_row_def Let_def)

lemma try_secrets_keeps: "preserves (client_inv parse T) (try_secrets env client p n secrets)"
  by (induction env client p n secrets rule: try_secrets.induct)
    (auto simp: verify_secret_hash_def update_last_used_at_def simp del: preserves_return
      intro!: preserves_intros client_keeps keeps_secret_query)

lemma legacy_match_keeps: "preserves (client_inv parse T) (legacy_match env p secrets)"
proof (induction env p secrets rule: legacy_match.induct)
  case (2 env p i hash rest)
  then show ?case
    unfolding legacy_match.simps verify_secret_hash_def by (intro preserves_intros) auto
qed (simp only: legacy_match.simps preserves_return)

lemma secret_ops_keep:
  "preserves (client_inv parse T) (generate_and_store senv i input actor)"
  "preserves (client_inv parse T) (verify_secret senv i p)"
  "preserves (client_inv parse T) (revoke_client_secret i s actor)"
  "preserves (client_inv parse T) (cleanup_expired env days)"
  unfolding generate_and_store_def verify_secret_def revoke_client_secret_def cleanup_expired_def Let_def
  by (intro preserves_intros client_keeps insert_secret_keeps try_secrets_keeps keeps_secret_query;
      simp add: revoke_secret_def cleanup_expired_secrets_def Let_def)+

lemma verify_client_secret_keeps: "preserves (client_inv parse T) (verify_client_secret env cid p)"
  unfolding verify_client_secret_def by (intro preserves_intros client_keeps secret_ops_keep)

lemma on_store_keeps: "preserves (store_ok D R) m \<Longrightarrow> preserves (store_inv D R) (on_store m)"
  by (rule preservesI) (auto simp: store_inv_def dest: preservesD)

lemma counter_commands_keep:
  assumes "\<And>i. key \<noteq> client_id_key i" and "client_cache_ok T r"
  shows "client_cache_ok T (snd (redis_incr now key r))" and "client_cache_ok T (redis_expire now key n r)"
proof -
  have "redis_live t (snd (redis_incr now key r)) (client_id_key i) = redis_live t r (client_id_key i)" for t i
    using assms(1) [of i] by (auto simp: redis_incr_def redis_live_def update_conv split: option.split redis_value.split)
  then show "client_cache_ok T (snd (redis_incr now key r))" using assms(2) by (simp add: client_cache_ok_def)
  have "redis_live t (redis_expire now key n r) (client_id_key i) = redis_live t r (client_id_key i)" for t i
    using assms(1) [of i] by (auto simp: redis_expire_def redis_live_def redis_del_def update_conv delete_conv split: option.split)
  then show "client_cache_ok T (redis_expire now key n r)" using assms(2) by (simp add: client_cache_ok_def)
qed

lemma redis_command_keeps:
  assumes "\<And>r. R r \<Longrightarrow> R (snd (c r))"
  shows "preserves (store_ok D R) (redis_try c)"
proof (rule preservesI)
  fix st assume ok: "store_ok D R st"
  obtain a r where c: "c (st_redis st) = (a, r)" by (cases "c (st_redis st)")
  then have "st_redis_up st \<Longrightarrow> R r" using assms [of "st_redis st"] ok by (simp add: store_ok_def)
  with ok c show "store_ok D R (snd (redis_try c st))" by (simp add: redis_try_def store_ok_def)
qed

lemma redis_do_keeps:
  assumes "\<And>r. R r \<Longrightarrow> R (snd (c r))"
  shows "preserves (store_ok D R) (redis_do c)"
proof (rule preservesI)
  fix st assume ok: "store_ok D R st"
  obtain a r where c: "c (st_redis st) = (a, r)" by (cases "c (st_redis st)")
  then have "st_redis_up st \<Longrightarrow> R r" using assms [of "st_redis st"] ok by (simp add: store_ok_def)
  with ok c show "store_ok D R (snd (redis_do c st))" by (simp add: redis_do_def store_ok_def)
qed

lemmas redis_commands_keep = redis_command_keeps redis_do_keeps

lemma rate_limit_keeps:
  assumes "\<And>i. key \<noteq> client_id_key i"
  shows "preserves (store_ok D (client_cache_ok T)) (execute_rate_limit now key config)"
  unfolding execute_rate_limit_def
  by (intro preserves_intros redis_commands_keep; simp add: counter_commands_keep [OF assms])

lemma client_secret_hash_keeps: "preserves (client_inv parse T) (client_secret_hash benv tenant req)"
proof -
  have rate: "preserves (client_inv parse T) (on_store (check_rate_limit_strict now
      (''ratelimit:client-secret-legacy:'' @ t @ '':'' @ i) token_rate_limit))" for now t i
    unfolding check_rate_limit_strict_def
    by (intro on_store_keeps rate_limit_keeps) (simp add: client_id_key_def)
  have "preserves (client_inv parse T) (check_legacy benv t c r canonical req)" for t c r canonical
    unfolding check_legacy_def Let_def
    by (intro preserves_intros client_keeps rate legacy_match_keeps)
  then have "preserves (client_inv parse T) (check_credential benv t c req)" for t c
    unfolding check_credential_def Let_def
    by (intro preserves_intros client_keeps)
  then show ?thesis
    unfolding client_secret_hash_def
    by (intro preserves_intros)
qed

lemma client_call_keeps:
  assumes "typed_call parse T (env, transactional, actor, c)"
  shows "preserves (client_inv parse T) (client_call_op env actor c)"
  using assms
  by (cases c) (auto simp: client_call_op_def typed_call_def deactivate_client_def activate_client_def simp del: preserves_return
    intro!: preserves_andthen create_client_keeps update_client_keeps change_client_status_keeps delete_client_keeps
      verify_client_secret_keeps secret_ops_keep client_secret_hash_keeps intro: preserves_return)

lemma run_client_calls_keep:
  "\<forall>c \<in> set calls. typed_call parse T c \<Longrightarrow> client_inv parse T f \<Longrightarrow> client_inv parse T (run_client_calls calls f)"
proof (induction calls arbitrary: f)
  case (Cons c calls)
  obtain env tx actor call where c: "c = (env, tx, actor, call)" by (cases c)
  have op: "preserves (client_inv parse T) (client_call_op env actor call)"
    using Cons.prems(1) c by (intro client_call_keeps) auto
  have "client_inv parse T (run_client_call c f)"
    using Cons.prems(2) c preservesD [OF op] preservesD [OF clients.keeps_store_transaction [OF op]]
    by (simp add: run_client_call_def)
  then show ?case using Cons by (simp add: run_client_calls_def)
qed (simp add: run_client_calls_def)

end
