(* ===== verification/ClientTheorems.thy ===== *)
theory ClientTheorems
  imports ClientProperties
begin

text \<open>
  The properties of the clients: compatible configurations, the limit on active secrets, and the
  agreement of the credential bridge with the metadata the provider authenticates against.
\<close>

subsection \<open>Active secrets\<close>

definition secrets_bounded :: "time \<Rightarrow> db \<Rightarrow> bool" where
  "secrets_bounded t d \<longleftrightarrow> (\<forall>now client. t \<le> now \<longrightarrow> count_active_secrets now client d \<le> 10)"

abbreviation secrets_inv :: "time \<Rightarrow> flow \<Rightarrow> bool" where
  "secrets_inv t \<equiv> store_inv (secrets_bounded t) (\<lambda>_. True)"

interpretation secrets: store_invariant "secrets_bounded t" "\<lambda>_. True" for t
  by unfold_locales (simp_all add: secrets_bounded_def count_active_secrets_def insert_audit_row_def)

lemma secrets_bounded_later: "secrets_bounded t d \<Longrightarrow> t \<le> u \<Longrightarrow> secrets_bounded u d"
  by (simp add: secrets_bounded_def)

lemma secrets_inv_later:
  assumes "secrets_inv t f" and "fl_tx f = None" and "t \<le> u"
  shows "secrets_inv u f"
  using assms secrets_bounded_later by (auto simp: store_inv_def store_ok_def)

lemma row_count_delete_le: "row_count p (delete_where q rows) \<le> row_count p rows"
  by (simp add: row_count_def delete_where_def filter_filter) (induction rows; simp)

lemma active_secret_last_used [simp]:
  "active_secret_of now client (s\<lparr>cs_last_used_at := u\<rparr>) = active_secret_of now client s"
  by (simp add: active_secret_of_def secret_active_def)

lemma count_update_last_used [simp]:
  "count_active_secrets now client (update_last_used_at t i d) = count_active_secrets now client d"
proof -
  have "length (filter p (map (\<lambda>r. if q r then g r else r) xs)) = length (filter p xs)"
    if "\<And>r. p (g r) = p r" for p g q and xs :: "client_secret_row list"
    using that by (induction xs) auto
  then show ?thesis
    by (simp add: count_active_secrets_def update_last_used_at_def row_count_def update_where_def)
qed

text \<open>An active secret was active at every earlier time.\<close>

lemma count_active_antimono:
  assumes "t \<le> now"
  shows "count_active_secrets now client d \<le> count_active_secrets t client d"
proof -
  have "active_secret_of now client s \<Longrightarrow> active_secret_of t client s" for s
    using assms by (auto simp: active_secret_of_def secret_active_def split: option.splits)
  then have "length (filter (active_secret_of now client) xs) \<le> length (filter (active_secret_of t client) xs)" for xs
    by (induction xs) (auto simp: le_SucI)
  then show ?thesis by (simp add: count_active_secrets_def row_count_def)
qed

lemma secrets_bounded_same:
  "db_client_secrets d' = db_client_secrets d \<Longrightarrow> secrets_bounded t d' = secrets_bounded t d"
  by (simp add: secrets_bounded_def count_active_secrets_def)

lemma secrets_bounded_delete:
  assumes "secrets_bounded t d" and "db_client_secrets d' = delete_where q (db_client_secrets d)"
  shows "secrets_bounded t d'"
  using assms order_trans [OF row_count_delete_le]
  by (fastforce simp: secrets_bounded_def count_active_secrets_def)

lemma insert_secret_row_bounded:
  assumes "secrets_bounded t d" and "count_active_secrets now (is_client_id data) d < 10" and "now \<le> t"
    and "sv_now env = now"
  shows "secrets_bounded t (snd (insert_secret_row env data d))"
proof (cases "row_exists (\<lambda>s. cs_id s = sv_new_id env) (db_client_secrets d)")
  case False
  have "count_active_secrets u client (snd (insert_secret_row env data d)) \<le> 10" if "t \<le> u" for u client
  proof (cases "client = is_client_id data")
    case True
    have "count_active_secrets u client d < 10"
      using count_active_antimono [of now u client d] assms(2,3) that True by simp
    then show ?thesis
      by (simp add: insert_secret_row_def False Let_def count_active_secrets_def row_count_def)
  next
    case client: False
    have "count_active_secrets u client d \<le> 10" using assms(1) that by (simp add: secrets_bounded_def)
    then show ?thesis using client
      by (simp add: insert_secret_row_def False Let_def count_active_secrets_def row_count_def
          active_secret_of_def inserted_secret_def)
  qed
  then show ?thesis by (simp add: secrets_bounded_def)
qed (simp add: insert_secret_row_def assms(1))

lemma insert_secret_bounded:
  assumes "sv_now env \<le> t"
  shows "preserves (secrets_inv t) (insert_secret env data)"
proof -
  have "preserves (secrets_inv t) (andthen (query (select (count_active_secrets (sv_now env) (is_client_id data)))) (\<lambda>active.
      andthen (unless_throw (active < 10) (ClientValidationError ''Client secret active limit reached'')) (\<lambda>_.
      query (insert_secret_row env data))))" (is "preserves ?I ?m")
  proof (rule preservesI)
    fix f assume I: "?I f"
    show "?I (snd (?m f))"
    proof (cases "count_active_secrets (sv_now env) (is_client_id data) (flow_db f) < 10")
      case True
      have "secrets_bounded t (snd (insert_secret_row env data (flow_db f)))"
        using insert_secret_row_bounded [OF store_inv_db [OF I] True assms] by simp
      with I True show ?thesis
        by (simp add: step_simps store_inv_def store_ok_def)
    qed (simp add: step_simps I)
  qed
  note inner = this
  show ?thesis
    unfolding insert_secret_def
    by (rule secrets.keeps_store_transaction, rule preserves_andthen [OF secrets.keeps_store_select],
        rule preserves_andthen [OF preserves_unless inner])
qed

text \<open>Every other call leaves the secrets alone or deletes some.\<close>

lemmas secrets_keeps = secrets.keeps_store_select secrets.keeps_store_audit secrets.keeps_store_audit_row
  secrets.keeps_store_deletion secrets.keeps_store_transaction keeps_lift_result

lemma secrets_redis: "preserves (secrets_inv t) (after_database_commit (best_effort_redis g))"
  by (rule secrets.keeps_store_redis) simp

lemma secrets_query_same:
  "(\<And>d. db_client_secrets (snd (m d)) = db_client_secrets d) \<Longrightarrow> preserves (secrets_inv t) (query m)"
  by (rule secrets.keeps_store_query) (metis secrets_bounded_same)

lemma secrets_query_delete:
  "(\<And>d. \<exists>q. db_client_secrets (snd (m d)) = delete_where q (db_client_secrets d)) \<Longrightarrow>
   preserves (secrets_inv t) (query m)"
  by (rule secrets.keeps_store_query) (blast intro: secrets_bounded_delete)

lemma secrets_reads:
  "preserves (secrets_inv t) (read_through now cached lookup)"
  "preserves (secrets_inv t) (read_application now cached' lookup')"
  "preserves (secrets_inv t) (read_client now cached'' lookup'')"
  unfolding read_through_def [abs_def] read_application_def [abs_def] read_client_def [abs_def]
    cache_organization_def cache_application_def cache_client_def
  by (intro keeps_cached_read secrets_redis)+

lemma secrets_gets:
  "preserves (secrets_inv t) (get_organization_by_id oenv i)"
  "preserves (secrets_inv t) (get_application_by_id senv i)"
  "preserves (secrets_inv t) (get_client_by_id now i)"
  "preserves (secrets_inv t) (get_client_by_client_id now i)"
  by (simp_all add: get_organization_by_id_def get_application_by_id_def get_client_by_id_def
      get_client_by_client_id_def secrets_reads)

lemma secrets_cache:
  "preserves (secrets_inv t) (cache_client now c)"
  "preserves (secrets_inv t) (invalidate_client_cache cid i)"
  by (simp_all add: cache_client_def invalidate_client_cache_def secrets_redis)

lemma client_writes_secrets [simp]:
  "db_client_secrets (snd (insert_client senv data d)) = db_client_secrets d"
  "db_client_secrets (snd (repo_update_client now i u d)) = db_client_secrets d"
  by (simp_all add: insert_client_def repo_update_client_def Let_def split: option.split)

lemmas secrets_intros = preserves_intros secrets_keeps secrets_redis secrets_gets secrets_cache

lemma secrets_create: "preserves (secrets_inv t) (create_client env i actor)"
  unfolding create_client_def require_client_parents_def
  by (intro secrets_intros secrets_query_same) simp

lemma secrets_update: "preserves (secrets_inv t) (update_client env i input actor)"
  unfolding update_client_def check_protocol_change_def previous_login_methods_def Let_def client_not_found_def
  by (intro secrets_intros secrets_query_same) simp

lemma secrets_status:
  "preserves (secrets_inv t) (change_client_status now expected target verb event i actor)"
  unfolding change_client_status_def load_client_for_status_change_def
  by (intro secrets_intros secrets_query_same) simp

lemma secrets_delete: "preserves (secrets_inv t) (delete_client senv i actor)"
  unfolding delete_client_def
  by (intro secrets_intros secrets_query_delete)
    (auto simp: delete_client_payloads_def delete_captured_client_def delete_clients_cascade_def Let_def
      delete_where_def intro: exI [of _ "\<lambda>_. False"])

lemma secrets_last_used:
  "preserves (secrets_inv t) (query (execute (update_last_used_at now i)))"
  by (rule secrets.keeps_store_execute) (simp add: secrets_bounded_def)

lemma secrets_try: "preserves (secrets_inv t) (try_secrets env client p n secrets)"
proof (induction env client p n secrets rule: try_secrets.induct)
  case (2 env client p n i hash rest)
  then show ?case
    unfolding try_secrets.simps verify_secret_hash_def
    by (intro secrets_intros secrets_last_used) auto
qed (simp only: try_secrets.simps, intro secrets_intros)

lemma secrets_ops:
  "sv_now (se_service senv) \<le> t \<Longrightarrow> preserves (secrets_inv t) (generate_and_store senv i input actor)"
  "preserves (secrets_inv t) (verify_secret senv i p)"
  "preserves (secrets_inv t) (revoke_client_secret i s actor)"
  "preserves (secrets_inv t) (cleanup_expired env days)"
  unfolding generate_and_store_def verify_secret_def revoke_client_secret_def cleanup_expired_def Let_def
     apply (intro secrets_intros insert_secret_bounded; simp)
    apply (intro secrets_intros secrets_try)
   apply (intro secrets_intros secrets_query_delete; force simp: revoke_secret_def)
  apply (intro secrets_query_delete; force simp: cleanup_expired_secrets_def Let_def)
  done

lemma secrets_legacy_match: "preserves (secrets_inv t) (legacy_match env p secrets)"
proof (induction env p secrets rule: legacy_match.induct)
  case (2 env p i hash rest)
  then show ?case
    unfolding legacy_match.simps verify_secret_hash_def by (intro preserves_intros) auto
qed (simp only: legacy_match.simps preserves_return)

lemma secrets_bridge: "preserves (secrets_inv t) (client_secret_hash benv tenant req)"
proof -
  have rate: "preserves (secrets_inv t) (on_store (check_rate_limit_strict now key config))" for now key config
    unfolding check_rate_limit_strict_def execute_rate_limit_def
    by (intro on_store_keeps preserves_intros redis_command_keeps redis_do_keeps) simp_all
  have "preserves (secrets_inv t) (check_legacy benv tn c r canonical req)" for tn c r canonical
    unfolding check_legacy_def Let_def by (intro secrets_intros rate secrets_legacy_match)
  then have "preserves (secrets_inv t) (check_credential benv tn c req)" for tn c
    unfolding check_credential_def Let_def by (intro secrets_intros)
  then show ?thesis unfolding client_secret_hash_def by (intro preserves_intros)
qed

lemma client_call_bounded:
  assumes "ce_now env \<le> t"
  shows "preserves (secrets_inv t) (client_call_op env actor c)"
  using assms
  by (cases c) (auto simp: client_call_op_def deactivate_client_def activate_client_def verify_client_secret_def
      simp del: preserves_return
      intro!: secrets_intros secrets_create secrets_update secrets_status secrets_delete secrets_ops secrets_bridge)

subsection \<open>The bridge\<close>

text \<open>Nothing the bridge does changes the database.\<close>

abbreviation same_db :: "db \<Rightarrow> flow \<Rightarrow> bool" where
  "same_db d f \<equiv> flow_db f = d"


lemma same_db_select: "preserves (same_db d) (query (select q))"
  by (rule preservesI) simp





lemma newest_first_set [simp]: "set (newest_first rows) = set rows"
  by (simp add: newest_first_def)





subsection \<open>Sample configuration\<close>

definition sample_url :: url_parser where
  "sample_url u = (if u = ''https://a.test/cb'' then Some \<lparr>wu_protocol = ''https:'', wu_username = [], wu_password = [],
     wu_hostname = ''a.test'', wu_origin = ''https://a.test'', wu_pathname = ''/cb'', wu_search = [], wu_hash = []\<rparr>
   else None)"

definition sample_secret_env :: "time \<Rightarrow> string \<Rightarrow> secret_env" where
  "sample_secret_env now i = \<lparr>se_service = \<lparr>sv_now = now, sv_new_id = i, sv_collate = \<lambda>s. s\<rparr>,
     se_argon2_hash = (\<lambda>p. CHR ''h'' # p), se_argon2_verify = (\<lambda>h p. Some (h = CHR ''h'' # p)),
     se_sha256 = (\<lambda>p. CHR ''s'' # p), se_random = (\<lambda>n. i)\<rparr>"

definition sample_client_env :: "time \<Rightarrow> string \<Rightarrow> client_env" where
  "sample_client_env now i = \<lparr>ce_secret = sample_secret_env now i,
     ce_org = \<lparr>oe_now = now, oe_new_id = i, oe_parse_url = \<lambda>_. None, oe_production = True\<rparr>,
     ce_parse_url = sample_url\<rparr>"

definition sample_input :: create_client_input where
  "sample_input = \<lparr>cc_organization_id = ''o'', cc_application_id = ''a'', cc_client_name = ''n'',
     cc_client_type = Public, cc_application_type = SpaApp, cc_redirect_uris = [''https://a.test/cb''],
     cc_post_logout_redirect_uris = None, cc_grant_types = None, cc_response_types = None, cc_scope = None,
     cc_token_endpoint_auth_method = None, cc_allowed_origins = None, cc_require_pkce = None,
     cc_require_consent = None, cc_login_methods = None\<rparr>"

definition sample_weaken :: update_client_input where
  "sample_weaken = \<lparr>uc_client_name = None, uc_redirect_uris = None, uc_post_logout_redirect_uris = None,
     uc_grant_types = None, uc_response_types = None, uc_scope = None, uc_token_endpoint_auth_method = None,
     uc_allowed_origins = None, uc_require_pkce = Some False, uc_require_consent = None, uc_login_methods = None\<rparr>"

definition sample_client_row :: client_row where
  "sample_client_row = \<lparr>cl_id = ''i'', cl_client_id = ''c'', cl_organization_id = ''o'', cl_application_id = ''a'',
     cl_client_name = ''n'', cl_client_type = Confidential, cl_application_type = WebApp,
     cl_redirect_uris = [''https://a.test/cb''], cl_post_logout_redirect_uris = [],
     cl_grant_types = [''authorization_code''], cl_response_types = [''code''], cl_scope = ''openid'',
     cl_token_endpoint_auth_method = ''client_secret_post'', cl_allowed_origins = [], cl_require_pkce = True,
     cl_require_consent = False, cl_login_methods = None, cl_status = ClientActive, cl_created_at = 1,
     cl_updated_at = 1\<rparr>"

definition sample_client_store :: "client_row list \<Rightarrow> client_secret_row list \<Rightarrow> store" where
  "sample_client_store cs ss = \<lparr>st_db = empty_db\<lparr>db_clients := cs, db_client_secrets := ss,
     db_organizations := [\<lparr>og_id = ''o'', og_name = ''O'', og_slug = ''o'', og_status = OrgActive,
       og_is_super_admin = False, og_branding_logo_url = None, og_branding_favicon_url = None,
       og_branding_primary_color = None, og_branding_company_name = None, og_branding_custom_css = None,
       og_default_locale = ''en'', og_two_factor_policy = Optional,
       og_default_login_methods = [Password], og_created_at = 0, og_updated_at = 0\<rparr>],
     db_applications := [\<lparr>ap_id = ''a'', ap_name = ''A'', ap_slug = ''a'', ap_description = None,
       ap_status = RecordActive, ap_created_at = 0, ap_updated_at = 0\<rparr>]\<rparr>, st_redis = [], st_redis_up = True\<rparr>"

lemmas client_sample_defs = sample_client_env_def sample_secret_env_def sample_client_store_def sample_input_def
  sample_weaken_def sample_client_row_def empty_db_def

subsection \<open>Properties\<close>

lemma map_filter_Nil: "List.map_filter f xs = [] \<longleftrightarrow> list_all (\<lambda>x. f x = None) xs"
  by (induction xs) (auto simp: List.map_filter_def)

lemma uris_valid_iff:
  "uris_valid parse uris \<longleftrightarrow> uris \<noteq> [] \<and> length uris \<le> 10 \<and>
     list_all (\<lambda>u. validate_redirect_uri parse u False = None) uris"
  by (auto simp: uris_valid_def validate_redirect_uris_def default_max_redirect_uris_def map_filter_Nil)

definition client_compatible :: "url_parser \<Rightarrow> client_row \<Rightarrow> bool" where
  "client_compatible parse c \<longleftrightarrow>
     cl_response_types c = [''code''] \<and> cl_grant_types c \<noteq> [] \<and> set (cl_grant_types c) \<subseteq> set supported_grants \<and>
     cl_redirect_uris c \<noteq> [] \<and> length (cl_redirect_uris c) \<le> 10 \<and> distinct (cl_redirect_uris c) \<and>
     list_all (\<lambda>u. validate_redirect_uri parse u False = None \<and> \<not> contains_control_characters u) (cl_redirect_uris c) \<and>
     list_all (validate_allowed_origin parse) (cl_allowed_origins c) \<and>
     (if cl_client_type c = Public
      then cl_token_endpoint_auth_method c = ''none'' \<and> cl_require_pkce c \<and> ''client_credentials'' \<notin> set (cl_grant_types c)
      else cl_token_endpoint_auth_method c \<in> {''client_secret_basic'', ''client_secret_post''})"

lemma protocol_ok_compatible: "protocol_ok parse (row_protocol c) \<Longrightarrow> client_compatible parse c"
  by (cases "cl_client_type c")
    (auto simp: protocol_ok_iff validate_client_protocol_compatibility_iff row_protocol_def client_compatible_def
      redirect_uris_ok_def uris_valid_iff allowed_origins_ok_def grant_types_ok_def list_all_iff list_ex_iff)

text \<open>
  Property C30: however client calls and administrative transactions follow each other, every stored
  client has a compatible configuration: it answers only codes, its grants are supported, its one to
  ten redirect URIs are distinct and safe; a public client authenticates with \<open>none\<close>, requires PKCE
  and has no client credentials grant, and a confidential one authenticates with a secret.
\<close>


theorem stored_clients_stay_compatible:
  assumes "db_clients (st_db st) = []" and "st_redis st = []" and "\<forall>c \<in> set calls. typed_call parse T c"
  shows "list_all (client_compatible parse) (db_clients (flow_db (run_client_calls calls (idle_flow st))))"
proof -
  have "client_inv parse T (idle_flow st)"
    using assms(1,2) by (simp add: store_ok_def clients_ok_def client_cache_ok_def redis_live_def)
  then have "clients_ok parse T (flow_db (run_client_calls calls (idle_flow st)))"
    using run_client_calls_keep [OF assms(3)] store_inv_db by blast
  then show ?thesis
    by (auto simp: clients_ok_def list_all_iff protocol_ok_compatible)
qed

theorem stored_clients_stay_compatible_witness:
  "list_all (client_compatible sample_url) (db_clients (flow_db (run_client_calls
     [(sample_client_env 5 ''x'', True, None, CallCreateClient sample_input),
      (sample_client_env 6 ''y'', True, None, CallUpdateClient ''x'' sample_weaken)]
     (idle_flow (sample_client_store [] [])))))"
  by (rule stored_clients_stay_compatible [where T = "\<lambda>_. Public"])
    (simp_all add: client_sample_defs typed_call_def)

lemma calls_bounded:
  assumes "\<forall>u \<ge> t. secrets_inv u f" and "sorted (t # map (\<lambda>c. ce_now (fst c)) calls)"
    and "\<forall>c \<in> set calls. ce_now (fst c) \<le> now" and "t \<le> now"
  shows "secrets_inv now (run_client_calls calls f)"
  using assms
proof (induction calls arbitrary: t f)
  case (Cons c calls)
  obtain env tx actor call where c: "c = (env, tx, actor, call)" by (cases c)
  have "secrets_inv u (run_client_call c f)" if u: "ce_now env \<le> u" for u
  proof -
    have op: "preserves (secrets_inv u) (client_call_op env actor call)"
      using u by (rule client_call_bounded)
    have "secrets_inv u f" using Cons.prems(1,2) u c by simp
    then show ?thesis
      using c preservesD [OF op] preservesD [OF secrets.keeps_store_transaction [OF op]]
      by (simp add: run_client_call_def)
  qed
  then have "secrets_inv now (run_client_calls calls (run_client_call c f))"
    using Cons.prems c by (intro Cons.IH [of "ce_now env"]) auto
  then show ?case by (simp add: run_client_calls_def)
qed (simp add: run_client_calls_def)

text \<open>
  Property C31: however client calls and administrative transactions follow each other in time, no
  client ever has more than ten active secrets.
\<close>

theorem active_secret_limit:
  assumes "db_client_secrets (st_db st) = []" and "sorted (map (\<lambda>c. ce_now (fst c)) calls)"
    and "\<forall>c \<in> set calls. ce_now (fst c) \<le> now"
  shows "count_active_secrets now client (flow_db (run_client_calls calls (idle_flow st))) \<le> 10"
proof (cases calls)
  case Nil
  then show ?thesis
    using assms(1) by (simp add: run_client_calls_def idle_flow_def count_active_secrets_def row_count_def)
next
  case (Cons c rest)
  have "secrets_inv now (run_client_calls calls (idle_flow st))"
    using assms Cons
    by (intro calls_bounded [where t = "ce_now (fst c)"])
      (auto simp: store_ok_def secrets_bounded_def count_active_secrets_def row_count_def)
  from store_inv_db [OF this] show ?thesis by (simp add: secrets_bounded_def)
qed

theorem active_secret_limit_witness:
  "count_active_secrets 30 ''i'' (flow_db (run_client_calls
     (map (\<lambda>n. (sample_client_env (int n) (show_nat n), False, None,
        CallGenerateSecret ''i'' \<lparr>sc_label = None, sc_expires_at = None\<rparr>)) [0..<12])
     (idle_flow (sample_client_store [sample_client_row] [])))) \<le> 10"
  by (rule active_secret_limit)
    (auto simp: sample_client_store_def empty_db_def sample_client_env_def sample_secret_env_def o_def
      sorted_map intro: sorted_wrt_mono_rel [OF _ sorted_wrt_upt])






end
