(* ===== verification/CustomClaims.thy ===== *)
theory CustomClaims
  imports UserRoles Applications UserLogin UserService Organizations
begin

text \<open>
  Custom claims: packages/server/src/custom-claims/validators.ts, repository.ts, cache.ts and service.ts.
  A definition belongs to an application and a value to a user; a row and its mapped object are one
  record. The creation and update times of a value are not kept, no code reads them.
\<close>

subsection \<open>Validation\<close>

definition reserved_claim_names :: "string list" where
  "reserved_claim_names = [''sub'', ''iss'', ''aud'', ''exp'', ''iat'', ''nbf'', ''jti'', ''nonce'', ''at_hash'', ''c_hash'',
     ''name'', ''given_name'', ''family_name'', ''middle_name'', ''nickname'',
     ''preferred_username'', ''profile'', ''picture'', ''website'',
     ''email'', ''email_verified'', ''gender'', ''birthdate'', ''zoneinfo'', ''locale'',
     ''phone_number'', ''phone_number_verified'', ''address'', ''updated_at'',
     ''roles'', ''permissions'', ''org_id'', ''org_slug'']"

definition is_reserved_claim_name :: "string \<Rightarrow> bool" where
  "is_reserved_claim_name name = (name \<in> set reserved_claim_names)"

text \<open>\<open>/^[a-z][a-z0-9_]{0,99}$/\<close>.\<close>

definition claim_name_regex :: "string \<Rightarrow> bool" where
  "claim_name_regex name =
     (case name of [] \<Rightarrow> False
      | c # rest \<Rightarrow> is_lower c \<and> length rest \<le> 99 \<and>
          list_all (\<lambda>x. is_lower x \<or> is_digit x \<or> x = CHR ''_'') rest)"

text \<open>\<open>Some\<close> is the reason of the refusal.\<close>

definition validate_claim_name :: "string \<Rightarrow> string option" where
  "validate_claim_name name =
     (if name = [] then Some ''Claim name must not be empty''
      else if length name > 100 then Some ''Claim name must not exceed 100 characters''
      else if \<not> claim_name_regex name
      then Some ''Claim name must start with a lowercase letter and contain only lowercase letters, digits, and underscores''
      else if is_reserved_claim_name name then Some (''Claim name '' @ [CHR 0x27] @ name @ [CHR 0x27] @ '' is reserved'')
      else None)"

definition claim_type_name :: "claim_type \<Rightarrow> string" where
  "claim_type_name t = (case t of ClaimString \<Rightarrow> ''string'' | ClaimNumber \<Rightarrow> ''number''
     | ClaimBoolean \<Rightarrow> ''boolean'' | ClaimJson \<Rightarrow> ''json'')"

definition js_typeof :: "json \<Rightarrow> string" where
  "js_typeof v = (case v of JBool _ \<Rightarrow> ''boolean'' | JNum _ \<Rightarrow> ''number'' | JDec _ \<Rightarrow> ''number''
     | JStr _ \<Rightarrow> ''string'' | _ \<Rightarrow> ''object'')"

text \<open>Values come from JSON, so numbers are finite; \<open>None\<close> is \<open>undefined\<close>.\<close>

definition validate_claim_value :: "claim_type \<Rightarrow> json option \<Rightarrow> string option" where
  "validate_claim_value t value =
     (case value of
        None \<Rightarrow> Some (''Expected '' @ claim_type_name t @ '' value, got null/undefined'')
      | Some JNull \<Rightarrow> Some (''Expected '' @ claim_type_name t @ '' value, got null/undefined'')
      | Some v \<Rightarrow>
          (case t of
             ClaimString \<Rightarrow> if js_typeof v = ''string'' then None else Some (''Expected string, got '' @ js_typeof v)
           | ClaimNumber \<Rightarrow> if js_typeof v = ''number'' then None else Some (''Expected number, got '' @ js_typeof v)
           | ClaimBoolean \<Rightarrow> if js_typeof v = ''boolean'' then None else Some (''Expected boolean, got '' @ js_typeof v)
           | ClaimJson \<Rightarrow> if js_typeof v = ''object'' then None else Some (''Expected JSON object/array, got '' @ js_typeof v)))"

subsection \<open>Repository: definitions\<close>

record create_claim_input =
  ci_application_id :: string
  ci_claim_name :: string
  ci_claim_type :: claim_type
  ci_description :: "string option"
  ci_include_in_id_token :: "bool option"
  ci_include_in_access_token :: "bool option"
  ci_include_in_userinfo :: "bool option"

definition inserted_definition :: "service_env \<Rightarrow> create_claim_input \<Rightarrow> claim_definition_row" where
  "inserted_definition env i = \<lparr>cd_id = sv_new_id env, cd_application_id = ci_application_id i,
     cd_claim_name = ci_claim_name i, cd_claim_type = ci_claim_type i, cd_description = ci_description i,
     cd_include_in_id_token = nullish (ci_include_in_id_token i) False,
     cd_include_in_access_token = nullish (ci_include_in_access_token i) True,
     cd_include_in_userinfo = nullish (ci_include_in_userinfo i) True,
     cd_created_at = sv_now env, cd_updated_at = sv_now env\<rparr>"

definition insert_definition :: "service_env \<Rightarrow> create_claim_input \<Rightarrow> (db, claim_definition_row) op" where
  "insert_definition env i d =
     (if row_exists (\<lambda>c. cd_id c = sv_new_id env \<or>
          cd_application_id c = ci_application_id i \<and> cd_claim_name c = ci_claim_name i) (db_claim_definitions d)
      then (Inl UniqueViolation, d)
      else if \<not> row_exists (\<lambda>a. ap_id a = ci_application_id i) (db_applications d)
      then (Inl ForeignKeyViolation, d)
      else (let row = inserted_definition env i
            in (Inr row, d\<lparr>db_claim_definitions := db_claim_definitions d @ [row]\<rparr>)))"

definition find_definition_by_id :: "string \<Rightarrow> db \<Rightarrow> claim_definition_row option" where
  "find_definition_by_id i d = find_row (\<lambda>c. cd_id c = i) (db_claim_definitions d)"

definition find_definition_by_name :: "string \<Rightarrow> string \<Rightarrow> db \<Rightarrow> claim_definition_row option" where
  "find_definition_by_name app name d =
     find_row (\<lambda>c. cd_application_id c = app \<and> cd_claim_name c = name) (db_claim_definitions d)"

record update_claim_input =
  ui_description :: "string option option"
  ui_include_in_id_token :: "bool option"
  ui_include_in_access_token :: "bool option"
  ui_include_in_userinfo :: "bool option"

definition apply_definition_update ::
    "time \<Rightarrow> update_claim_input \<Rightarrow> claim_definition_row \<Rightarrow> claim_definition_row" where
  "apply_definition_update now u c = c\<lparr>
     cd_description := nullish (ui_description u) (cd_description c),
     cd_include_in_id_token := nullish (ui_include_in_id_token u) (cd_include_in_id_token c),
     cd_include_in_access_token := nullish (ui_include_in_access_token u) (cd_include_in_access_token c),
     cd_include_in_userinfo := nullish (ui_include_in_userinfo u) (cd_include_in_userinfo c),
     cd_updated_at := now\<rparr>"

definition repo_update_definition ::
    "time \<Rightarrow> string \<Rightarrow> update_claim_input \<Rightarrow> (db, claim_definition_row) op" where
  "repo_update_definition now i u d =
     (if ui_description u = None \<and> ui_include_in_id_token u = None \<and> ui_include_in_access_token u = None \<and>
         ui_include_in_userinfo u = None
      then (Inl (JsError ''No fields to update''), d)
      else (case find_definition_by_id i d of
              None \<Rightarrow> (Inl (JsError ''Claim definition not found''), d)
            | Some c \<Rightarrow> (Inr (apply_definition_update now u c), d\<lparr>db_claim_definitions :=
                update_where (\<lambda>x. cd_id x = i) (apply_definition_update now u) (db_claim_definitions d)\<rparr>)))"

record claim_deletion_capture =
  qc_definition :: claim_definition_row
  qc_user_ids :: "string list"
  qc_grant_ids :: "string list"

definition capture_definition_for_deletion :: "string \<Rightarrow> string \<Rightarrow> db \<Rightarrow> claim_deletion_capture option" where
  "capture_definition_for_deletion app i d =
     map_option (\<lambda>c.
       (let users = remdups (map cv_user_id (filter (\<lambda>v. cv_claim_id v = i) (db_claim_values d)));
            clients = map cl_client_id (filter (\<lambda>x. cl_application_id x = app) (db_clients d))
        in \<lparr>qc_definition = c, qc_user_ids = sort users,
            qc_grant_ids = sort (map pl_id (filter (\<lambda>p. pl_type p = ''Grant'' \<and>
              opt_in (pl_account_id p) users \<and> opt_in (pl_client_id p) clients) (db_oidc_payloads d)))\<rparr>))
       (find_row (\<lambda>c. cd_application_id c = app \<and> cd_id c = i) (db_claim_definitions d))"

text \<open>The values of the definition go with it (\<open>ON DELETE CASCADE\<close>).\<close>

definition delete_captured_definition :: "string \<Rightarrow> string \<Rightarrow> db \<Rightarrow> db" where
  "delete_captured_definition app i d =
     delete_claims_cascade (map cd_id (filter (\<lambda>c. cd_application_id c = app \<and> cd_id c = i) (db_claim_definitions d))) d"

definition delete_definition_repo :: "string \<Rightarrow> string \<Rightarrow> (db, claim_deletion_capture option) op" where
  "delete_definition_repo app i d =
     (case capture_definition_for_deletion app i d of
        None \<Rightarrow> (Inr None, d) | Some c \<Rightarrow> (Inr (Some c), delete_captured_definition app i d))"

definition list_definitions_by_application :: "service_env \<Rightarrow> string \<Rightarrow> db \<Rightarrow> claim_definition_row list" where
  "list_definitions_by_application env app d =
     sort_key (\<lambda>c. sv_collate env (cd_claim_name c)) (filter (\<lambda>c. cd_application_id c = app) (db_claim_definitions d))"

definition claim_name_exists :: "string \<Rightarrow> string \<Rightarrow> string option \<Rightarrow> db \<Rightarrow> bool" where
  "claim_name_exists app name exclude d =
     row_exists (\<lambda>c. cd_application_id c = app \<and> cd_claim_name c = name \<and>
       (truthy exclude \<longrightarrow> Some (cd_id c) \<noteq> exclude)) (db_claim_definitions d)"

subsection \<open>Repository: values\<close>

definition upsert_value :: "string \<Rightarrow> string \<Rightarrow> string \<Rightarrow> json \<Rightarrow> (db, claim_value_row) op" where
  "upsert_value new_id uid claim v d =
     (case find_row (\<lambda>c. cv_user_id c = uid \<and> cv_claim_id c = claim) (db_claim_values d) of
        Some old \<Rightarrow> (Inr (old\<lparr>cv_value := v\<rparr>), d\<lparr>db_claim_values :=
          update_where (\<lambda>c. cv_user_id c = uid \<and> cv_claim_id c = claim) (\<lambda>c. c\<lparr>cv_value := v\<rparr>) (db_claim_values d)\<rparr>)
      | None \<Rightarrow>
          if \<not> row_exists (\<lambda>u. ur_id u = uid) (db_users d) \<or> find_definition_by_id claim d = None
          then (Inl ForeignKeyViolation, d)
          else (let row = \<lparr>cv_id = new_id, cv_user_id = uid, cv_claim_id = claim, cv_value = v\<rparr>
                in (Inr row, d\<lparr>db_claim_values := db_claim_values d @ [row]\<rparr>)))"

definition find_value :: "string \<Rightarrow> string \<Rightarrow> db \<Rightarrow> claim_value_row option" where
  "find_value uid claim d = find_row (\<lambda>c. cv_user_id c = uid \<and> cv_claim_id c = claim) (db_claim_values d)"

definition delete_value_repo :: "string \<Rightarrow> string \<Rightarrow> db \<Rightarrow> bool \<times> db" where
  "delete_value_repo uid claim d =
     (row_exists (\<lambda>c. cv_user_id c = uid \<and> cv_claim_id c = claim) (db_claim_values d),
      d\<lparr>db_claim_values := delete_where (\<lambda>c. cv_user_id c = uid \<and> cv_claim_id c = claim) (db_claim_values d)\<rparr>)"

text \<open>\<open>JOIN ... ON d.id = v.claim_id\<close>.\<close>

definition joined_rows :: "db \<Rightarrow> (claim_definition_row \<times> claim_value_row) list" where
  "joined_rows d = concat (map (\<lambda>v. map (\<lambda>c. (c, v))
     (filter (\<lambda>c. cd_id c = cv_claim_id v) (db_claim_definitions d))) (db_claim_values d))"

definition repo_get_values_for_user ::
    "service_env \<Rightarrow> string \<Rightarrow> db \<Rightarrow> (claim_definition_row \<times> claim_value_row) list" where
  "repo_get_values_for_user env uid d = sort_key (\<lambda>(c, v). sv_collate env (cd_claim_name c))
     (filter (\<lambda>(c, v). cv_user_id v = uid) (joined_rows d))"

definition get_values_for_user_by_app ::
    "service_env \<Rightarrow> string \<Rightarrow> string \<Rightarrow> db \<Rightarrow> (claim_definition_row \<times> claim_value_row) list" where
  "get_values_for_user_by_app env uid app d = sort_key (\<lambda>(c, v). sv_collate env (cd_claim_name c))
     (filter (\<lambda>(c, v). cv_user_id v = uid \<and> cd_application_id c = app) (joined_rows d))"

subsection \<open>Cache\<close>

definition definitions_cache_ttl :: int where
  "definitions_cache_ttl = 300"

definition definitions_key :: "string \<Rightarrow> string" where
  "definitions_key app = ''claims:defs:'' @ app"

definition deserialize_definitions :: "redis_value \<Rightarrow> claim_definition_row list option" where
  "deserialize_definitions v = (case v of JsonClaims cs \<Rightarrow> Some cs | _ \<Rightarrow> None)"

definition get_cached_definitions :: "time \<Rightarrow> string \<Rightarrow> store \<Rightarrow> claim_definition_row list option" where
  "get_cached_definitions now app st =
     (if st_redis_up st
      then (case redis_live now (st_redis st) (definitions_key app) of
              None \<Rightarrow> None | Some v \<Rightarrow> deserialize_definitions v)
      else None)"

definition set_cached_definitions :: "time \<Rightarrow> string \<Rightarrow> claim_definition_row list \<Rightarrow> (flow, unit) op" where
  "set_cached_definitions now app cs = after_database_commit (best_effort_redis
     (redis_set_ex now (definitions_key app) (JsonClaims cs) definitions_cache_ttl))"

definition invalidate_definitions_cache :: "string \<Rightarrow> (flow, unit) op" where
  "invalidate_definitions_cache app = after_database_commit (best_effort_redis (redis_del_all [definitions_key app]))"

subsection \<open>Service: definitions\<close>

definition claim_event :: "string \<Rightarrow> (string \<times> json) list \<Rightarrow> audit_entry" where
  "claim_event event metadata = (blank_entry event ''admin'')\<lparr>ae_metadata := Some (JObj metadata)\<rparr>"

definition create_definition :: "service_env \<Rightarrow> create_claim_input \<Rightarrow> (flow, claim_definition_row) op" where
  "create_definition env i =
     (case validate_claim_name (ci_claim_name i) of
        Some reason \<Rightarrow> throw_op (ClaimValidationError reason)
      | None \<Rightarrow>
          andthen (query (select (claim_name_exists (ci_application_id i) (ci_claim_name i) None))) (\<lambda>exists.
          andthen (unless_throw (\<not> exists) (ClaimValidationError (''Claim name '' @ [CHR 0x27] @ ci_claim_name i @
            [CHR 0x27] @ '' already exists for this application''))) (\<lambda>_.
          andthen (query (insert_definition env i)) (\<lambda>c.
          andthen (invalidate_definitions_cache (ci_application_id i)) (\<lambda>_.
          andthen (write_audit_log (claim_event ''claim.defined''
            [(''definitionId'', JStr (cd_id c)), (''applicationId'', JStr (cd_application_id c)),
             (''claimName'', JStr (cd_claim_name c)), (''claimType'', JStr (claim_type_name (cd_claim_type c)))])) (\<lambda>_.
          return_op c))))))"

definition definition_changes :: "update_claim_input \<Rightarrow> json" where
  "definition_changes u = JObj (
     (case ui_description u of None \<Rightarrow> [] | Some None \<Rightarrow> [(''description'', JNull)]
      | Some (Some s) \<Rightarrow> [(''description'', JStr s)]) @
     (case ui_include_in_id_token u of None \<Rightarrow> [] | Some b \<Rightarrow> [(''includeInIdToken'', JBool b)]) @
     (case ui_include_in_access_token u of None \<Rightarrow> [] | Some b \<Rightarrow> [(''includeInAccessToken'', JBool b)]) @
     (case ui_include_in_userinfo u of None \<Rightarrow> [] | Some b \<Rightarrow> [(''includeInUserinfo'', JBool b)]))"

definition update_claim_definition ::
    "service_env \<Rightarrow> string \<Rightarrow> update_claim_input \<Rightarrow> (flow, claim_definition_row) op" where
  "update_claim_definition env i u =
     andthen (query (select (find_definition_by_id i))) (\<lambda>existing.
       case existing of
         None \<Rightarrow> throw_op (ClaimNotFoundError i)
       | Some old \<Rightarrow>
           andthen (query (repo_update_definition (sv_now env) i u)) (\<lambda>c.
           andthen (invalidate_definitions_cache (cd_application_id old)) (\<lambda>_.
           andthen (write_audit_log (claim_event ''claim.updated''
             [(''definitionId'', JStr i), (''applicationId'', JStr (cd_application_id old)),
              (''claimName'', JStr (cd_claim_name old)), (''changes'', definition_changes u)])) (\<lambda>_.
           return_op c))))"

definition claim_cleanup_descriptor :: "string \<Rightarrow> string \<Rightarrow> claim_deletion_capture \<Rightarrow> deletion_cleanup_descriptor" where
  "claim_cleanup_descriptor app i c = \<lparr>dd_resource = RClaim, dd_target_id = i, dd_target_slug = None,
     dd_parent_id = Some app, dd_user_ids = qc_user_ids c, dd_client_ids = [], dd_public_client_ids = [],
     dd_grant_ids = qc_grant_ids c, dd_role_ids = [], dd_permission_ids = [], dd_claim_ids = [i],
     dd_application_ids = [app]\<rparr>"

definition delete_claim_definition ::
    "service_env \<Rightarrow> string \<Rightarrow> string \<Rightarrow> string option \<Rightarrow> (flow, claim_deletion_capture) op" where
  "delete_claim_definition env app i actor_id =
     andthen (require_transaction ''Claim deletion requires an active database transaction'') (\<lambda>_.
     andthen (query (select (capture_definition_for_deletion app i))) (\<lambda>capture.
       case capture of
         None \<Rightarrow> throw_op (ClaimNotFoundError i)
       | Some c \<Rightarrow>
           andthen (query (execute (revoke_sessions_of (sv_now env) (qc_user_ids c)))) (\<lambda>_.
           andthen (query (execute (delete_payloads_of (qc_grant_ids c) (qc_user_ids c)))) (\<lambda>_.
           andthen (write_audit_log_in_transaction ((claim_event ''claim.deleted''
             [(''applicationId'', JStr app), (''definitionId'', JStr i),
              (''claimName'', JStr (cd_claim_name (qc_definition c))),
              (''claimType'', JStr (claim_type_name (cd_claim_type (qc_definition c))))])\<lparr>ae_actor_id := actor_id\<rparr>)) (\<lambda>_.
           andthen (query (execute (delete_captured_definition app i))) (\<lambda>_.
           andthen (register_deletion_cleanup (sv_now env) (claim_cleanup_descriptor app i c)) (\<lambda>_.
           return_op c)))))))"

text \<open>Cache-first.\<close>

definition list_definitions :: "service_env \<Rightarrow> string \<Rightarrow> (flow, claim_definition_row list) op" where
  "list_definitions env app f =
     (case get_cached_definitions (sv_now env) app (fl_store f) of
        Some cs \<Rightarrow> (Inr cs, f)
      | None \<Rightarrow> andthen (query (select (list_definitions_by_application env app))) (\<lambda>cs.
          andthen (set_cached_definitions (sv_now env) app cs) (\<lambda>_. return_op cs)) f)"

subsection \<open>Service: values\<close>

definition set_value :: "service_env \<Rightarrow> string \<Rightarrow> string \<Rightarrow> json option \<Rightarrow> (flow, claim_value_row) op" where
  "set_value env uid claim value =
     andthen (query (select (find_definition_by_id claim))) (\<lambda>existing.
       case existing of
         None \<Rightarrow> throw_op (ClaimNotFoundError claim)
       | Some c \<Rightarrow>
           (case (validate_claim_value (cd_claim_type c) value, value) of
              (Some reason, _) \<Rightarrow> throw_op (ClaimValidationError reason)
            | (None, v) \<Rightarrow>
                andthen (query (upsert_value (sv_new_id env) uid claim (nullish v JNull))) (\<lambda>r.
                andthen (write_audit_log ((claim_event ''claim.value.set''
                  [(''definitionId'', JStr claim), (''claimName'', JStr (cd_claim_name c))])\<lparr>ae_user_id := Some uid\<rparr>)) (\<lambda>_.
                return_op r))))"

definition get_value :: "string \<Rightarrow> string \<Rightarrow> (flow, claim_value_row option) op" where
  "get_value uid claim = query (select (find_value uid claim))"

definition delete_value :: "string \<Rightarrow> string \<Rightarrow> (flow, unit) op" where
  "delete_value uid claim =
     andthen (query (returning (delete_value_repo uid claim))) (\<lambda>deleted.
     andthen (unless_throw deleted (ClaimNotFoundError (''value for user '' @ uid @ '', claim '' @ claim))) (\<lambda>_.
     write_audit_log ((claim_event ''claim.value.deleted'' [(''definitionId'', JStr claim)])\<lparr>ae_user_id := Some uid\<rparr>)))"

definition get_values_for_user ::
    "service_env \<Rightarrow> string \<Rightarrow> (flow, (claim_definition_row \<times> claim_value_row) list) op" where
  "get_values_for_user env uid = query (select (repo_get_values_for_user env uid))"

subsection \<open>Token claims\<close>

datatype token_type = IdToken | AccessToken | Userinfo

definition is_claim_included :: "claim_definition_row \<Rightarrow> token_type \<Rightarrow> bool" where
  "is_claim_included c t = (case t of IdToken \<Rightarrow> cd_include_in_id_token c
     | AccessToken \<Rightarrow> cd_include_in_access_token c | Userinfo \<Rightarrow> cd_include_in_userinfo c)"

text \<open>\<open>AList.update\<close> is the assignment of a property: in place, or at the end.\<close>

definition build_custom_claims ::
    "service_env \<Rightarrow> string \<Rightarrow> string \<Rightarrow> token_type \<Rightarrow> (flow, (string \<times> json) list) op" where
  "build_custom_claims env uid app t =
     andthen (query (select (get_values_for_user_by_app env uid app))) (\<lambda>rows.
     return_op (fold (\<lambda>(c, v) result. if is_claim_included c t
       then AList.update (cd_claim_name c) (cv_value v) result else result) rows []))"


text \<open>
  What a token says of an account: packages/server/src/users/claims.ts and oidc/account-finder.ts.
  An object is a list of properties in the order of their creation. The check for the UUID form (zod)
  is a parameter.
\<close>

type_synonym object = "(string \<times> json) list"

subsection \<open>Standard claims\<close>

definition text_or_null :: "string option \<Rightarrow> json" where
  "text_or_null s = (case s of None \<Rightarrow> JNull | Some x \<Rightarrow> JStr x)"

definition has_address :: "user \<Rightarrow> bool" where
  "has_address u = (truthy (u_profile u AddressStreet) \<or> truthy (u_profile u AddressLocality) \<or>
     truthy (u_profile u AddressRegion) \<or> truthy (u_profile u AddressPostalCode) \<or> truthy (u_profile u AddressCountry))"

definition display_name :: "user \<Rightarrow> object" where
  "display_name u =
     (let parts = concat (map (\<lambda>f. case u_profile u f of None \<Rightarrow> [] | Some s \<Rightarrow> if s = [] then [] else [s])
        [GivenName, MiddleName, FamilyName])
      in if parts = [] then [] else [(''name'', JStr (join_with CHR '' '' parts))])"

definition profile_claims :: "user \<Rightarrow> time \<Rightarrow> object" where
  "profile_claims u updated_at = display_name u @
     [(''given_name'', text_or_null (u_profile u GivenName)), (''family_name'', text_or_null (u_profile u FamilyName)),
      (''middle_name'', text_or_null (u_profile u MiddleName)), (''nickname'', text_or_null (u_profile u Nickname)),
      (''preferred_username'', text_or_null (u_profile u PreferredUsername)),
      (''profile'', text_or_null (u_profile u ProfileUrl)), (''picture'', text_or_null (u_profile u PictureUrl)),
      (''website'', text_or_null (u_profile u WebsiteUrl)), (''gender'', text_or_null (u_profile u Gender)),
      (''birthdate'', text_or_null (u_profile u Birthdate)), (''zoneinfo'', text_or_null (u_profile u Zoneinfo)),
      (''locale'', text_or_null (u_profile u Locale)), (''updated_at'', JNum (updated_at div 1000))]"

definition address_claim :: "user \<Rightarrow> json" where
  "address_claim u = JObj [(''street_address'', text_or_null (u_profile u AddressStreet)),
     (''locality'', text_or_null (u_profile u AddressLocality)), (''region'', text_or_null (u_profile u AddressRegion)),
     (''postal_code'', text_or_null (u_profile u AddressPostalCode)), (''country'', text_or_null (u_profile u AddressCountry))]"

definition build_user_claims :: "user \<Rightarrow> string list \<Rightarrow> app_error + object" where
  "build_user_claims u scopes =
     (case (if ''profile'' \<in> set scopes then map_sum id (profile_claims u) (get_time (u_updated_at u)) else Inr []) of
        Inl e \<Rightarrow> Inl e
      | Inr profile \<Rightarrow> Inr ([(''sub'', JStr (u_id u))] @ profile @
          (if ''email'' \<in> set scopes
           then [(''email'', JStr (u_email u)), (''email_verified'', JBool (u_email_verified u))] else []) @
          (if ''phone'' \<in> set scopes
           then [(''phone_number'', text_or_null (u_profile u PhoneNumber)),
                 (''phone_number_verified'', JBool (u_phone_number_verified u))] else []) @
          (if ''address'' \<in> set scopes \<and> has_address u then [(''address'', address_claim u)] else [])))"

subsection \<open>Accounts of the provider\<close>

text \<open>\<open>ctx.oidc.client['urn:porta:internal_application_id']\<close>.\<close>

definition resolve_application_id :: "(string \<Rightarrow> bool) \<Rightarrow> json option \<Rightarrow> string option" where
  "resolve_application_id is_uuid ctx =
     (case Option.bind (Option.bind (Option.bind ctx (json_get ''oidc'')) (json_get ''client''))
        (json_get ''urn:porta:internal_application_id'') of
        Some (JStr s) \<Rightarrow> if is_uuid s then Some s else None
      | _ \<Rightarrow> None)"

definition map_use_to_token_type :: "string \<Rightarrow> token_type" where
  "map_use_to_token_type use = (if use = ''id_token'' then IdToken else if use = ''userinfo'' then Userinfo else AccessToken)"

text \<open>Spreading an object into another assigns its properties one after the other.\<close>

definition spread :: "object \<Rightarrow> object \<Rightarrow> object" where
  "spread source target = fold (\<lambda>(k, v). AList.update k v) source target"

definition account_claims ::
    "service_env \<Rightarrow> (string \<Rightarrow> bool) \<Rightarrow> json option \<Rightarrow> user \<Rightarrow> string \<Rightarrow> string \<Rightarrow> (flow, object) op" where
  "account_claims env is_uuid ctx u use scope =
     andthen (lift_result (build_user_claims u (if scope = [] then [] else split_on CHR '' '' scope))) (\<lambda>standard.
     case resolve_application_id is_uuid ctx of
       None \<Rightarrow> return_op (spread [(''roles'', JArr []), (''permissions'', JArr [])] standard)
     | Some app \<Rightarrow>
         andthen (build_role_claims env (u_id u) app) (\<lambda>roles.
         andthen (build_permission_claims env (u_id u) app) (\<lambda>permissions.
         andthen (build_custom_claims env (u_id u) app (map_use_to_token_type use)) (\<lambda>custom.
         return_op (spread custom (spread [(''roles'', JArr (map JStr roles)),
           (''permissions'', JArr (map JStr permissions))] standard))))))"

text \<open>An account is the user it was found as; a failed lookup is no account.\<close>

definition find_account :: "string \<Rightarrow> (flow, user option) op" where
  "find_account sub = catch_op (find_user_for_oidc sub) (\<lambda>_. return_op None)"

end
