(* ===== verification/ClaimProperties.thy ===== *)
theory ClaimProperties
  imports CustomClaims FlowInvariants
begin

text \<open>
  The claims of a token: whatever custom claims administrators define and set, the standard claims and
  the roles keep their values, and each custom claim has the type and the inclusion of its definition.
\<close>

datatype claim_call =
    CallCreateClaim create_claim_input
  | CallUpdateClaim string update_claim_input
  | CallDeleteClaim string string
  | CallListClaims string
  | CallSetValue string string "json option"
  | CallDeleteValue string string

definition claim_call_op :: "service_env \<Rightarrow> string option \<Rightarrow> claim_call \<Rightarrow> (flow, unit) op" where
  "claim_call_op env actor c =
     (case c of
        CallCreateClaim i \<Rightarrow> andthen (create_definition env i) (\<lambda>_. return_op ())
      | CallUpdateClaim i u \<Rightarrow> andthen (update_claim_definition env i u) (\<lambda>_. return_op ())
      | CallDeleteClaim app i \<Rightarrow> andthen (delete_claim_definition env app i actor) (\<lambda>_. return_op ())
      | CallListClaims app \<Rightarrow> andthen (list_definitions env app) (\<lambda>_. return_op ())
      | CallSetValue uid i v \<Rightarrow> andthen (set_value env uid i v) (\<lambda>_. return_op ())
      | CallDeleteValue uid i \<Rightarrow> delete_value uid i)"

definition run_claim_call :: "service_env \<times> bool \<times> string option \<times> claim_call \<Rightarrow> flow \<Rightarrow> flow" where
  "run_claim_call = (\<lambda>(env, transactional, actor, c) f.
     snd ((if transactional then run_database_transaction (claim_call_op env actor c)
           else claim_call_op env actor c) f))"

subsection \<open>The tables\<close>

definition value_fits :: "claim_definition_row \<Rightarrow> json \<Rightarrow> bool" where
  "value_fits c v \<longleftrightarrow> validate_claim_value (cd_claim_type c) (Some v) = None"

definition claims_ok :: "db \<Rightarrow> bool" where
  "claims_ok d \<longleftrightarrow>
     distinct (map cd_id (db_claim_definitions d)) \<and>
     (\<forall>c \<in> set (db_claim_definitions d). validate_claim_name (cd_claim_name c) = None) \<and>
     (\<forall>v \<in> set (db_claim_values d). cv_claim_id v \<in> cd_id ` set (db_claim_definitions d)) \<and>
     (\<forall>v \<in> set (db_claim_values d). \<forall>c \<in> set (db_claim_definitions d).
        cd_id c = cv_claim_id v \<longrightarrow> value_fits c (cv_value v))"

interpretation claim_tables: db_invariant claims_ok
  by unfold_locales (simp add: claims_ok_def insert_audit_row_def)

lemma claims_ok_same:
  "db_claim_definitions d' = db_claim_definitions d \<Longrightarrow> db_claim_values d' = db_claim_values d \<Longrightarrow>
   claims_ok d \<Longrightarrow> claims_ok d'"
  by (simp add: claims_ok_def)

lemma insert_definition_ok:
  assumes "validate_claim_name (ci_claim_name i) = None" and "claims_ok d"
  shows "claims_ok (snd (insert_definition env i d))"
proof (cases "row_exists (\<lambda>c. cd_id c = sv_new_id env \<or>
    cd_application_id c = ci_application_id i \<and> cd_claim_name c = ci_claim_name i) (db_claim_definitions d)")
  case False
  then have fresh: "sv_new_id env \<notin> cd_id ` set (db_claim_definitions d)"
    by (auto simp: row_exists_def list_ex_iff)
  with assms have "claims_ok (d\<lparr>db_claim_definitions := db_claim_definitions d @ [inserted_definition env i]\<rparr>)"
    unfolding claims_ok_def inserted_definition_def by (simp, metis)
  with assms show ?thesis by (simp add: insert_definition_def Let_def)
qed (simp add: insert_definition_def assms)

lemma definition_update_fixed [simp]:
  "cd_id (apply_definition_update now u c) = cd_id c"
  "cd_claim_name (apply_definition_update now u c) = cd_claim_name c"
  "value_fits (apply_definition_update now u c) = value_fits c"
  by (simp_all add: apply_definition_update_def value_fits_def fun_eq_iff)

lemma update_definition_ok: "claims_ok d \<Longrightarrow> claims_ok (snd (repo_update_definition now i u d))"
proof -
  assume ok: "claims_ok d"
  let ?up = "update_where (\<lambda>x. cd_id x = i) (apply_definition_update now u) (db_claim_definitions d)"
  have ids: "map cd_id ?up = map cd_id (db_claim_definitions d)"
    by (simp add: update_where_def)
  then have "cd_id ` set ?up = cd_id ` set (db_claim_definitions d)"
    by (metis list.set_map)
  then have "claims_ok (d\<lparr>db_claim_definitions := ?up\<rparr>)"
    using ok ids unfolding claims_ok_def by (auto simp: set_update_where)
  with ok show ?thesis by (simp add: repo_update_definition_def split: option.split)
qed

lemma delete_definition_ok: "claims_ok d \<Longrightarrow> claims_ok (delete_captured_definition app i d)"
  by (auto simp: claims_ok_def delete_captured_definition_def delete_claims_cascade_def delete_where_def
      distinct_map_filter)

lemma upsert_value_ok:
  assumes "claims_ok d" and "find_definition_by_id claim d = Some c" and "value_fits c v"
  shows "claims_ok (snd (upsert_value new_id uid claim v d))"
proof -
  have c: "c \<in> set (db_claim_definitions d)" "cd_id c = claim"
    using assms(2) find_row_SomeD by (fastforce simp: find_definition_by_id_def)+
  have fits: "value_fits x v" if "x \<in> set (db_claim_definitions d)" "cd_id x = claim" for x
    using assms(1,3) c that by (auto simp: claims_ok_def dest: eq_key_imp_eq_value distinct_map [THEN iffD1] inj_onD)
  show ?thesis
    using assms(1) c fits
    by (auto simp: upsert_value_def claims_ok_def set_update_where Let_def split: option.split)
qed

lemma delete_value_ok: "claims_ok d \<Longrightarrow> claims_ok (snd (delete_value_repo uid claim d))"
  by (auto simp: delete_value_repo_def claims_ok_def delete_where_def)

lemma other_tables_ok:
  "claims_ok d \<Longrightarrow> claims_ok (revoke_sessions_of now us d)"
  "claims_ok d \<Longrightarrow> claims_ok (delete_payloads_of gs us d)"
  by (auto simp: revoke_sessions_of_def delete_payloads_of_def intro: claims_ok_same)

lemma claim_call_keeps: "preserves (flow_inv claims_ok) (claim_call_op env actor c)"
proof -
  have create: "preserves (flow_inv claims_ok) (create_definition env i)" for i
    unfolding create_definition_def invalidate_definitions_cache_def
    by (cases "validate_claim_name (ci_claim_name i)")
      (auto intro!: preserves_intros claim_tables.keeps insert_definition_ok simp del: preserves_return)
  have update: "preserves (flow_inv claims_ok) (update_claim_definition env i u)" for i u
    unfolding update_claim_definition_def invalidate_definitions_cache_def
    by (intro preserves_intros claim_tables.keeps update_definition_ok) simp_all
  have delete: "preserves (flow_inv claims_ok) (delete_claim_definition env app i actor)" for app i
    unfolding delete_claim_definition_def
    by (intro preserves_intros claim_tables.keeps) (simp_all add: other_tables_ok delete_definition_ok)
  have list: "preserves (flow_inv claims_ok) (list_definitions env app)" for app
  proof (rule preservesI)
    fix f assume f: "flow_inv claims_ok f"
    have read: "preserves (flow_inv claims_ok) (andthen (query (select (list_definitions_by_application env app)))
        (\<lambda>cs. andthen (set_cached_definitions (sv_now env) app cs) (\<lambda>_. return_op cs)))"
      unfolding set_cached_definitions_def by (intro preserves_intros claim_tables.keeps) simp_all
    show "flow_inv claims_ok (snd (list_definitions env app f))"
      using preservesD [OF read f] f by (simp add: list_definitions_def split: option.split)
  qed
  have "preserves (flow_inv claims_ok) (set_value env uid i v)" for uid i v
  proof (rule preservesI)
    fix f assume f: "flow_inv claims_ok f"
    show "flow_inv claims_ok (snd (set_value env uid i v f))"
    proof (cases "find_definition_by_id i (flow_db f)")
      case (Some c)
      show ?thesis
      proof (cases "validate_claim_value (cd_claim_type c) v")
        case None
        then obtain w where w: "v = Some w" "value_fits c w"
          by (cases v) (auto simp: validate_claim_value_def value_fits_def)
        have ok: "claims_ok (snd (upsert_value (sv_new_id env) uid i w (flow_db f)))"
          using flow_inv_db [OF f] Some w(2) by (rule upsert_value_ok)
        then have "flow_inv claims_ok (snd (query (upsert_value (sv_new_id env) uid i w) f))"
          using f by (simp add: flow_inv_def)
        then have "flow_inv claims_ok (snd (andthen (query (upsert_value (sv_new_id env) uid i w)) (\<lambda>r.
            andthen (write_audit_log e) (\<lambda>_. return_op r)) f))" for e
          using preservesD [OF claim_tables.keeps_write_audit_log [of e]]
          by (auto simp: andthen_def split: prod.split sum.split) (metis snd_conv)+
        then show ?thesis using Some None w by (simp add: set_value_def step_select)
      qed (simp add: set_value_def step_select Some f)
    qed (simp add: set_value_def step_select f)
  qed
  moreover have "preserves (flow_inv claims_ok) (delete_value uid i)" for uid i
    unfolding delete_value_def by (intro preserves_intros claim_tables.keeps) (simp add: delete_value_ok)
  ultimately show ?thesis
    using create update delete list
    by (cases c) (auto simp: claim_call_op_def simp del: preserves_return intro!: preserves_andthen intro: preserves_return)
qed

lemma run_claim_calls_keep: "flow_inv claims_ok f \<Longrightarrow> flow_inv claims_ok (fold run_claim_call calls f)"
proof (induction calls arbitrary: f)
  case (Cons c calls)
  obtain env tx actor call where c: "c = (env, tx, actor, call)" by (cases c)
  have "flow_inv claims_ok (run_claim_call c f)"
    using Cons.prems c preservesD [OF claim_call_keeps] preservesD [OF claim_tables.keeps_transaction [OF claim_call_keeps]]
    by (simp add: run_claim_call_def)
  with Cons.IH show ?case by simp
qed simp

subsection \<open>Objects\<close>

lemma set_alist_update: "set (AList.update k v xs) \<subseteq> insert (k, v) (set xs)"
  by (induction xs) auto

lemma spread_Nil [simp]: "spread [] t = t"
  by (simp add: spread_def)

lemma map_of_spread:
  "map_of (spread s t) k = (case map_of (rev s) k of None \<Rightarrow> map_of t k | Some v \<Rightarrow> Some v)"
proof (induction s arbitrary: t)
  case (Cons kv s)
  have "spread (kv # s) t = spread s (AList.update (fst kv) (snd kv) t)"
    by (cases kv) (simp add: spread_def)
  then show ?case using Cons
    by (cases kv) (auto simp: update_conv map_add_def split: option.split)
qed simp

lemma spread_other: "k \<notin> fst ` set s \<Longrightarrow> map_of (spread s t) k = map_of t k"
proof -
  assume "k \<notin> fst ` set s"
  then have "map_of (rev s) k = None" by (simp add: map_of_eq_None_iff)
  then show ?thesis by (simp add: map_of_spread)
qed

lemma spread_new: "map_of (spread s t) k = Some v \<Longrightarrow> map_of t k = None \<Longrightarrow> (k, v) \<in> set s"
  by (auto simp: map_of_spread dest: map_of_SomeD split: option.splits)

text \<open>The custom claims of a token.\<close>

definition custom_object :: "token_type \<Rightarrow> (claim_definition_row \<times> claim_value_row) list \<Rightarrow> object" where
  "custom_object t rows = fold (\<lambda>(c, v) result. if is_claim_included c t
     then AList.update (cd_claim_name c) (cv_value v) result else result) rows []"

lemma custom_object_member:
  assumes "(k, x) \<in> set (custom_object t rows)"
  shows "\<exists>(c, v) \<in> set rows. is_claim_included c t \<and> k = cd_claim_name c \<and> x = cv_value v"
proof -
  have "(k, x) \<in> set acc \<or> (\<exists>(c, v) \<in> set rows. is_claim_included c t \<and> k = cd_claim_name c \<and> x = cv_value v)"
    if "(k, x) \<in> set (fold (\<lambda>(c, v) result. if is_claim_included c t
     then AList.update (cd_claim_name c) (cv_value v) result else result) rows acc)" for acc
    using that
  proof (induction rows arbitrary: acc)
    case (Cons r rows)
    then show ?case using set_alist_update [of "cd_claim_name (fst r)" "cv_value (snd r)" acc]
      by (cases r) (fastforce split: if_splits)
  qed simp
  from this [of "[]"] assms show ?thesis unfolding custom_object_def by simp
qed

lemma user_app_rows:
  "(c, v) \<in> set (get_values_for_user_by_app env uid app d) \<longleftrightarrow>
     c \<in> set (db_claim_definitions d) \<and> v \<in> set (db_claim_values d) \<and> cd_id c = cv_claim_id v \<and>
     cv_user_id v = uid \<and> cd_application_id c = app"
  by (auto simp: get_values_for_user_by_app_def joined_rows_def)

text \<open>The object without custom claims.\<close>

definition base_claims :: "service_env \<Rightarrow> string option \<Rightarrow> user \<Rightarrow> object \<Rightarrow> db \<Rightarrow> object" where
  "base_claims env app u standard d = spread
     [(''roles'', JArr (case app of None \<Rightarrow> [] | Some a \<Rightarrow> map JStr (js_set (map ro_slug (repo_get_roles_for_user env (u_id u) (Some a) d))))),
      (''permissions'', JArr (case app of None \<Rightarrow> [] | Some a \<Rightarrow>
         map JStr (js_set (map pm_slug (repo_get_permissions_for_user env (u_id u) (Some a) d)))))] standard"

lemma account_claims_result:
  assumes "account_claims env is_uuid ctx u use scope f = (Inr claims, f')"
  obtains standard where
    "build_user_claims u (if scope = [] then [] else split_on CHR '' '' scope) = Inr standard"
    "claims = spread (case resolve_application_id is_uuid ctx of None \<Rightarrow> []
       | Some app \<Rightarrow> custom_object (map_use_to_token_type use) (get_values_for_user_by_app env (u_id u) app (flow_db f)))
       (base_claims env (resolve_application_id is_uuid ctx) u standard (flow_db f))"
proof (cases "build_user_claims u (if scope = [] then [] else split_on CHR '' '' scope)")
  case (Inl e)
  then show ?thesis using assms by (simp add: account_claims_def lift_result_def andthen_def)
next
  case (Inr standard)
  have "claims = spread (case resolve_application_id is_uuid ctx of None \<Rightarrow> []
       | Some app \<Rightarrow> custom_object (map_use_to_token_type use) (get_values_for_user_by_app env (u_id u) app (flow_db f)))
       (base_claims env (resolve_application_id is_uuid ctx) u standard (flow_db f))"
  proof (cases "resolve_application_id is_uuid ctx")
    case None
    then show ?thesis using assms Inr
      by (simp add: account_claims_def lift_result_def base_claims_def)
  next
    case (Some app)
    then show ?thesis using assms Inr
      by (auto simp: account_claims_def lift_result_def base_claims_def build_role_claims_def
          build_permission_claims_def build_custom_claims_def step_simps custom_object_def andthen_def)
  qed
  with Inr show ?thesis by (rule that)
qed

lemma reserved_not_custom:
  assumes "claims_ok d" and "is_reserved_claim_name k"
  shows "k \<notin> fst ` set (custom_object t (get_values_for_user_by_app env uid app d))"
proof
  assume "k \<in> fst ` set (custom_object t (get_values_for_user_by_app env uid app d))"
  then obtain c where "c \<in> set (db_claim_definitions d)" "k = cd_claim_name c"
    by (auto dest!: custom_object_member simp: user_app_rows)
  with assms show False by (auto simp: claims_ok_def validate_claim_name_def split: if_splits)
qed

lemma standard_keys_reserved:
  assumes "build_user_claims u scopes = Inr standard" and "\<not> is_reserved_claim_name k"
  shows "map_of (base_claims env app u standard d) k = None"
proof -
  have "k \<notin> {''roles'', ''permissions'', ''sub'', ''name'', ''given_name'', ''family_name'', ''middle_name'',
      ''nickname'', ''preferred_username'', ''profile'', ''picture'', ''website'', ''gender'', ''birthdate'',
      ''zoneinfo'', ''locale'', ''updated_at'', ''email'', ''email_verified'', ''phone_number'',
      ''phone_number_verified'', ''address''}"
    using assms(2) by (auto simp: is_reserved_claim_name_def reserved_claim_names_def)
  moreover have "fst ` set standard \<subseteq> {''sub'', ''name'', ''given_name'', ''family_name'', ''middle_name'',
      ''nickname'', ''preferred_username'', ''profile'', ''picture'', ''website'', ''gender'', ''birthdate'',
      ''zoneinfo'', ''locale'', ''updated_at'', ''email'', ''email_verified'', ''phone_number'',
      ''phone_number_verified'', ''address''}"
    using assms(1) by (cases "get_time (u_updated_at u)")
      (auto simp: build_user_claims_def profile_claims_def display_name_def Let_def split: if_splits)
  ultimately show ?thesis
    unfolding base_claims_def by (subst spread_other) (auto simp: map_of_eq_None_iff)
qed

text \<open>
  Property C33: after any calls of the custom claim service, the claims of an account are the standard
  claims of the stored user, the roles and the permissions under their reserved names, whatever was
  defined and set; and every other claim is a value of this user for a claim the client's application
  defines, includes in this kind of token, and whose type the value has.
\<close>

theorem token_claims_authoritative:
  assumes "db_claim_definitions (st_db st) = []" and "db_claim_values (st_db st) = []"
    and "account_claims env is_uuid ctx u use scope (fold run_claim_call calls (idle_flow st)) = (Inr claims, f')"
  shows "\<exists>standard. build_user_claims u (if scope = [] then [] else split_on CHR '' '' scope) = Inr standard \<and>
    (if is_reserved_claim_name k
     then map_of claims k = map_of (base_claims env (resolve_application_id is_uuid ctx) u standard
       (flow_db (fold run_claim_call calls (idle_flow st)))) k
     else case map_of claims k of None \<Rightarrow> True
       | Some x \<Rightarrow> \<exists>c v. c \<in> set (db_claim_definitions (flow_db (fold run_claim_call calls (idle_flow st)))) \<and>
           v \<in> set (db_claim_values (flow_db (fold run_claim_call calls (idle_flow st)))) \<and>
           cd_claim_name c = k \<and> Some (cd_application_id c) = resolve_application_id is_uuid ctx \<and>
           is_claim_included c (map_use_to_token_type use) \<and> cv_claim_id v = cd_id c \<and> cv_user_id v = u_id u \<and>
           cv_value v = x \<and> validate_claim_value (cd_claim_type c) (Some x) = None)"
proof -
  let ?f = "fold run_claim_call calls (idle_flow st)"
  have "flow_inv claims_ok (idle_flow st)" using assms(1,2) by (simp add: claims_ok_def)
  from flow_inv_db [OF run_claim_calls_keep [OF this]] have ok: "claims_ok (flow_db ?f)" .
  obtain standard where standard: "build_user_claims u (if scope = [] then [] else split_on CHR '' '' scope) = Inr standard"
    and claims: "claims = spread (case resolve_application_id is_uuid ctx of None \<Rightarrow> []
       | Some app \<Rightarrow> custom_object (map_use_to_token_type use) (get_values_for_user_by_app env (u_id u) app (flow_db ?f)))
       (base_claims env (resolve_application_id is_uuid ctx) u standard (flow_db ?f))"
    using assms(3) by (rule account_claims_result)
  show ?thesis
  proof (rule exI [of _ standard], rule conjI [OF standard])
    show "if is_reserved_claim_name k
     then map_of claims k = map_of (base_claims env (resolve_application_id is_uuid ctx) u standard (flow_db ?f)) k
     else case map_of claims k of None \<Rightarrow> True
       | Some x \<Rightarrow> \<exists>c v. c \<in> set (db_claim_definitions (flow_db ?f)) \<and>
           v \<in> set (db_claim_values (flow_db ?f)) \<and>
           cd_claim_name c = k \<and> Some (cd_application_id c) = resolve_application_id is_uuid ctx \<and>
           is_claim_included c (map_use_to_token_type use) \<and> cv_claim_id v = cd_id c \<and> cv_user_id v = u_id u \<and>
           cv_value v = x \<and> validate_claim_value (cd_claim_type c) (Some x) = None"
    proof (cases "is_reserved_claim_name k")
      case True
      then show ?thesis
        using spread_other reserved_not_custom [OF ok] claims by (auto split: option.split)
    next
      case False
      note base = standard_keys_reserved [OF standard False]
      show ?thesis
      proof (cases "map_of claims k")
        case (Some x)
        then obtain app where app: "resolve_application_id is_uuid ctx = Some app"
          and "(k, x) \<in> set (custom_object (map_use_to_token_type use) (get_values_for_user_by_app env (u_id u) app (flow_db ?f)))"
          using claims base spread_new by (cases "resolve_application_id is_uuid ctx") auto
        then obtain c v where row: "(c, v) \<in> set (get_values_for_user_by_app env (u_id u) app (flow_db ?f))"
          "is_claim_included c (map_use_to_token_type use)" "k = cd_claim_name c" "x = cv_value v"
          by (auto dest: custom_object_member)
        then have "validate_claim_value (cd_claim_type c) (Some x) = None"
          using ok by (auto simp: user_app_rows claims_ok_def value_fits_def)
        with False Some row app show ?thesis by (auto simp: user_app_rows intro!: exI [of _ c] exI [of _ v])
      qed (simp add: False)
    qed
  qed
qed

subsection \<open>Sample\<close>

definition sample_service :: "string \<Rightarrow> service_env" where
  "sample_service i = \<lparr>sv_now = 5, sv_new_id = i, sv_collate = \<lambda>s. s\<rparr>"

definition sample_claim :: "string \<Rightarrow> create_claim_input" where
  "sample_claim name = \<lparr>ci_application_id = ''a'', ci_claim_name = name, ci_claim_type = ClaimString,
     ci_description = None, ci_include_in_id_token = Some True, ci_include_in_access_token = None,
     ci_include_in_userinfo = None\<rparr>"

definition sample_account_row :: user_row where
  "sample_account_row = \<lparr>ur_id = ''u'', ur_organization_id = ''o'', ur_email = ''x@y'', ur_email_verified = True,
     ur_password_hash = None, ur_password_changed_at = None, ur_profile = \<lambda>_. None,
     ur_phone_number_verified = False, ur_two_factor_enabled = False, ur_two_factor_method = None,
     ur_status = Active, ur_locked_at = None, ur_locked_reason = None, ur_last_login_at = None,
     ur_login_count = 0, ur_failed_login_count = 0, ur_last_failed_login_at = None, ur_created_at = 1, ur_updated_at = 1\<rparr>"

definition sample_claim_store :: store where
  "sample_claim_store = \<lparr>st_db = empty_db\<lparr>db_users := [sample_account_row],
     db_applications := [\<lparr>ap_id = ''a'', ap_name = ''A'', ap_slug = ''a'', ap_description = None,
       ap_status = RecordActive, ap_created_at = 0, ap_updated_at = 0\<rparr>]\<rparr>, st_redis = [], st_redis_up = True\<rparr>"

definition sample_claim_calls :: "(service_env \<times> bool \<times> string option \<times> claim_call) list" where
  "sample_claim_calls = [(sample_service ''c1'', True, None, CallCreateClaim (sample_claim ''email'')),
     (sample_service ''c2'', True, None, CallCreateClaim (sample_claim ''team'')),
     (sample_service ''v2'', True, None, CallSetValue ''u'' ''c2'' (Some (JStr ''blue'')))]"

definition sample_account :: user where
  "sample_account = map_row_to_user sample_account_row"

definition sample_client_context :: json where
  "sample_client_context = JObj [(''oidc'', JObj [(''client'', JObj [(''urn:porta:internal_application_id'', JStr ''a'')])])]"

lemma sample_names: "validate_claim_name ''email'' = Some (''Claim name '' @ [CHR 0x27] @ ''email'' @ [CHR 0x27] @ '' is reserved'')"
    "validate_claim_name ''team'' = None"
  by code_simp+

lemma sample_claims:
  "fst (account_claims (sample_service ''x'') (\<lambda>_. True) (Some sample_client_context) sample_account ''id_token'' ''openid email''
     (fold run_claim_call sample_claim_calls (idle_flow sample_claim_store))) =
   Inr [(''sub'', JStr ''u''), (''email'', JStr ''x@y''), (''email_verified'', JBool True), (''roles'', JArr []),
     (''permissions'', JArr []), (''team'', JStr ''blue'')]"
  by (simp add: sample_claim_calls_def sample_claim_store_def sample_claim_def sample_service_def sample_account_def
      sample_account_row_def sample_client_context_def empty_db_def idle_flow_def run_claim_call_def claim_call_op_def
      create_definition_def set_value_def sample_names run_database_transaction_def andthen_def
      claim_name_exists_def insert_definition_def row_exists_def inserted_definition_def Let_def
      invalidate_definitions_cache_def after_database_commit_def write_audit_log_def normalize_actor_def claim_event_def
      blank_entry_def find_definition_by_id_def find_row_def validate_claim_value_def js_typeof_def upsert_value_def
      insert_audit_row_def account_claims_def map_row_to_user_def build_user_claims_def lift_result_def
      resolve_application_id_def json_get_def build_role_claims_def build_permission_claims_def
      repo_get_roles_for_user_def repo_get_permissions_for_user_def build_custom_claims_def js_set_def
      get_values_for_user_by_app_def joined_rows_def map_use_to_token_type_def is_claim_included_def spread_def)

theorem token_claims_authoritative_witness:
  "\<exists>c v. c \<in> set (db_claim_definitions (flow_db (fold run_claim_call sample_claim_calls (idle_flow sample_claim_store)))) \<and>
     v \<in> set (db_claim_values (flow_db (fold run_claim_call sample_claim_calls (idle_flow sample_claim_store)))) \<and>
     cd_claim_name c = ''team'' \<and> cv_value v = JStr ''blue''"
proof -
  let ?f = "fold run_claim_call sample_claim_calls (idle_flow sample_claim_store)"
  let ?m = "account_claims (sample_service ''x'') (\<lambda>_. True) (Some sample_client_context) sample_account ''id_token'' ''openid email''"
  let ?claims = "[(''sub'', JStr ''u''), (''email'', JStr ''x@y''), (''email_verified'', JBool True), (''roles'', JArr []),
     (''permissions'', JArr []), (''team'', JStr ''blue'')]"
  have run: "?m ?f = (Inr ?claims, snd (?m ?f))" using sample_claims by (metis prod.collapse)
  have "db_claim_definitions (st_db sample_claim_store) = []" "db_claim_values (st_db sample_claim_store) = []"
    by (simp_all add: sample_claim_store_def empty_db_def)
  from token_claims_authoritative [OF this run, of "''team''"] show ?thesis
    by (auto simp: is_reserved_claim_name_def reserved_claim_names_def)
qed

end
