(* ===== verification/OidcAdapters.thy ===== *)
theory OidcAdapters
  imports UserLogin Listings Clients RateLimiter
begin

text \<open>
  packages/server/src/lib/session-tracking.ts: the rows of \<open>admin_sessions\<close>, which decide whether a
  session of the provider still has authority. A row is also the tracked session.
\<close>

record session_tracking_input =
  si_session_id :: string
  si_user_id :: "string option"
  si_client_id :: "string option"
  si_organization_id :: "string option"
  si_grant_id :: "string option"
  si_ip_address :: "string option"
  si_user_agent :: "string option"
  si_expires_at :: time

text \<open>\<open>INSERT ... ON CONFLICT (session_id) DO UPDATE\<close>: a revocation survives.\<close>

definition inserted_session :: "time \<Rightarrow> string \<Rightarrow> session_tracking_input \<Rightarrow> session_row" where
  "inserted_session now public_id i = \<lparr>se_session_id = si_session_id i, se_public_id = public_id,
     se_user_id = si_user_id i, se_client_id = si_client_id i, se_organization_id = si_organization_id i,
     se_grant_id = si_grant_id i, se_ip_address = si_ip_address i, se_user_agent = si_user_agent i,
     se_created_at = now, se_expires_at = si_expires_at i, se_last_activity_at = now, se_revoked_at = None\<rparr>"

definition coalesce :: "'a option \<Rightarrow> 'a option \<Rightarrow> 'a option" where
  "coalesce a b = (case a of None \<Rightarrow> b | Some x \<Rightarrow> Some x)"

definition refreshed_session :: "time \<Rightarrow> session_tracking_input \<Rightarrow> session_row \<Rightarrow> session_row" where
  "refreshed_session now i s = s\<lparr>se_user_id := coalesce (si_user_id i) (se_user_id s),
     se_client_id := coalesce (si_client_id i) (se_client_id s),
     se_organization_id := coalesce (si_organization_id i) (se_organization_id s),
     se_grant_id := coalesce (si_grant_id i) (se_grant_id s),
     se_expires_at := si_expires_at i, se_last_activity_at := now\<rparr>"

text \<open>The foreign keys, and \<open>CHECK (expires_at > created_at)\<close>.\<close>

definition session_keys_ok :: "session_tracking_input \<Rightarrow> db \<Rightarrow> bool" where
  "session_keys_ok i d =
     ((case si_user_id i of None \<Rightarrow> True | Some u \<Rightarrow> row_exists (\<lambda>r. ur_id r = u) (db_users d)) \<and>
      (case si_client_id i of None \<Rightarrow> True | Some c \<Rightarrow> row_exists (\<lambda>r. cl_id r = c) (db_clients d)) \<and>
      (case si_organization_id i of None \<Rightarrow> True | Some x \<Rightarrow> row_exists (\<lambda>r. og_id r = x) (db_organizations d)))"

definition upsert_session :: "time \<Rightarrow> string \<Rightarrow> session_tracking_input \<Rightarrow> (db, unit) op" where
  "upsert_session now public_id i d =
     (if \<not> session_keys_ok i d then (Inl ForeignKeyViolation, d)
      else (case find_row (\<lambda>s. se_session_id s = si_session_id i) (db_admin_sessions d) of
              Some s \<Rightarrow>
                if si_expires_at i \<le> se_created_at s then (Inl (JsError ''admin_sessions_not_expired''), d)
                else (Inr (), d\<lparr>db_admin_sessions := update_where (\<lambda>s. se_session_id s = si_session_id i)
                  (refreshed_session now i) (db_admin_sessions d)\<rparr>)
            | None \<Rightarrow>
                if si_expires_at i \<le> now then (Inl (JsError ''admin_sessions_not_expired''), d)
                else (Inr (), d\<lparr>db_admin_sessions := db_admin_sessions d @ [inserted_session now public_id i]\<rparr>)))"

definition revoke_where :: "time \<Rightarrow> (session_row \<Rightarrow> bool) \<Rightarrow> db \<Rightarrow> db" where
  "revoke_where now P d = d\<lparr>db_admin_sessions := update_where (\<lambda>s. P s \<and> se_revoked_at s = None)
     (\<lambda>s. s\<lparr>se_revoked_at := Some now\<rparr>) (db_admin_sessions d)\<rparr>"

definition revoke_session :: "time \<Rightarrow> string \<Rightarrow> db \<Rightarrow> db" where
  "revoke_session now i = revoke_where now (\<lambda>s. se_session_id s = i)"

definition revoke_session_by_public_id :: "time \<Rightarrow> string \<Rightarrow> db \<Rightarrow> string option \<times> db" where
  "revoke_session_by_public_id now i d =
     (map_option se_session_id (find_row (\<lambda>s. se_public_id s = i \<and> se_revoked_at s = None) (db_admin_sessions d)),
      revoke_where now (\<lambda>s. se_public_id s = i) d)"

definition revoke_user_sessions :: "time \<Rightarrow> string \<Rightarrow> db \<Rightarrow> nat \<times> db" where
  "revoke_user_sessions now uid d =
     (row_count (\<lambda>s. se_user_id s = Some uid \<and> se_revoked_at s = None) (db_admin_sessions d),
      revoke_where now (\<lambda>s. se_user_id s = Some uid) d)"

definition get_session :: "string \<Rightarrow> db \<Rightarrow> session_row option" where
  "get_session i d = find_row (\<lambda>s. se_session_id s = i) (db_admin_sessions d)"

definition get_session_by_public_id :: "string \<Rightarrow> db \<Rightarrow> session_row option" where
  "get_session_by_public_id i d = find_row (\<lambda>s. se_public_id s = i) (db_admin_sessions d)"

subsection \<open>Listing\<close>

record list_sessions_options =
  ls_user_id :: "string option"
  ls_organization_id :: "string option"
  ls_client_id :: "string option"
  ls_active_only :: "bool option"
  ls_page :: "int option"
  ls_page_size :: "int option"

record session_page =
  sl_data :: "session_row list"
  sl_total :: nat
  sl_page :: int
  sl_page_size :: int

definition session_wanted :: "time \<Rightarrow> list_sessions_options \<Rightarrow> session_row \<Rightarrow> bool" where
  "session_wanted now opts s =
     ((truthy (ls_user_id opts) \<longrightarrow> se_user_id s = ls_user_id opts) \<and>
      (truthy (ls_organization_id opts) \<longrightarrow> se_organization_id s = ls_organization_id opts) \<and>
      (truthy (ls_client_id opts) \<longrightarrow> se_client_id s = ls_client_id opts) \<and>
      (ls_active_only opts \<noteq> Some False \<longrightarrow> se_revoked_at s = None \<and> se_expires_at s > now))"

text \<open>Newest activity first; equal times come in the order \<open>scan\<close> leaves them.\<close>

definition list_sessions ::
    "time \<Rightarrow> (session_row list \<Rightarrow> session_row list) \<Rightarrow> list_sessions_options \<Rightarrow> db \<Rightarrow> session_page" where
  "list_sessions now scan opts d =
     (let page = max (nullish (ls_page opts) 1) 1;
          page_size = min (max (nullish (ls_page_size opts) 20) 1) 100;
          rows = filter (session_wanted now opts) (db_admin_sessions d)
      in \<lparr>sl_data = take (nat page_size) (drop (nat ((page - 1) * page_size))
            (rev (sort_key se_last_activity_at (rev (scan rows))))),
          sl_total = length rows, sl_page = page, sl_page_size = page_size\<rparr>)"

text \<open>A failing statement counts as nothing removed.\<close>

definition purge_expired_sessions :: "time \<Rightarrow> db \<Rightarrow> nat \<times> db" where
  "purge_expired_sessions now d =
     (let due = (\<lambda>s. se_expires_at s < now - 7 * 86400000)
      in (row_count due (db_admin_sessions d), d\<lparr>db_admin_sessions := delete_where due (db_admin_sessions d)\<rparr>))"


text \<open>
  The storage of the provider: packages/server/src/oidc/postgres-adapter.ts, redis-adapter.ts and
  adapter-factory.ts. An adapter belongs to a model name; a payload is an object. A lifetime of 0
  stands for none. The times and the public identifier of a new row come with the call.
\<close>

type_synonym payload = "(string \<times> json) list"

record adapter_env =
  av_now :: time
  av_public_id :: string

text \<open>A string property, and a property that counts as true.\<close>

definition string_property :: "string \<Rightarrow> payload \<Rightarrow> string option" where
  "string_property k p = (case map_of p k of Some (JStr s) \<Rightarrow> Some s | _ \<Rightarrow> None)"

definition set_property :: "string \<Rightarrow> payload \<Rightarrow> string option" where
  "set_property k p = (case string_property k p of None \<Rightarrow> None | Some s \<Rightarrow> if s = [] then None else Some s)"

subsection \<open>PostgreSQL\<close>

definition payload_row_of :: "adapter_env \<Rightarrow> string \<Rightarrow> string \<Rightarrow> payload \<Rightarrow> int \<Rightarrow> payload_row" where
  "payload_row_of env name i p expires_in = \<lparr>pl_id = i, pl_type = name,
     pl_account_id = string_property ''accountId'' p, pl_client_id = string_property ''clientId'' p,
     pl_grant_id = string_property ''grantId'' p, pl_user_code = string_property ''userCode'' p,
     pl_uid = string_property ''uid'' p, pl_payload = p,
     pl_expires_at = (if expires_in = 0 then None else Some (av_now env + expires_in * 1000)), pl_consumed_at = None\<rparr>"

text \<open>The update keeps \<open>consumed_at\<close>.\<close>

definition pg_upsert :: "adapter_env \<Rightarrow> string \<Rightarrow> string \<Rightarrow> payload \<Rightarrow> int \<Rightarrow> db \<Rightarrow> db" where
  "pg_upsert env name i p expires_in d =
     (let row = payload_row_of env name i p expires_in; this_row = (\<lambda>r. pl_id r = i \<and> pl_type r = name)
      in d\<lparr>db_oidc_payloads :=
           if row_exists this_row (db_oidc_payloads d)
           then update_where this_row (\<lambda>r. row\<lparr>pl_consumed_at := pl_consumed_at r\<rparr>) (db_oidc_payloads d)
           else db_oidc_payloads d @ [row]\<rparr>)"

definition payload_live :: "time \<Rightarrow> payload_row \<Rightarrow> bool" where
  "payload_live now r = (case pl_expires_at r of None \<Rightarrow> True | Some t \<Rightarrow> t > now)"

definition with_consumed :: "payload_row \<Rightarrow> payload" where
  "with_consumed r = (case pl_consumed_at r of None \<Rightarrow> pl_payload r
     | Some t \<Rightarrow> AList.update ''consumed'' (JNum (t div 1000)) (pl_payload r))"

definition pg_find_where :: "time \<Rightarrow> string \<Rightarrow> (payload_row \<Rightarrow> bool) \<Rightarrow> db \<Rightarrow> payload option" where
  "pg_find_where now name P d =
     map_option with_consumed (find_row (\<lambda>r. P r \<and> pl_type r = name \<and> payload_live now r) (db_oidc_payloads d))"

definition pg_find :: "time \<Rightarrow> string \<Rightarrow> string \<Rightarrow> db \<Rightarrow> payload option" where
  "pg_find now name i = pg_find_where now name (\<lambda>r. pl_id r = i)"

definition pg_find_by_user_code :: "time \<Rightarrow> string \<Rightarrow> string \<Rightarrow> db \<Rightarrow> payload option" where
  "pg_find_by_user_code now name code = pg_find_where now name (\<lambda>r. pl_user_code r = Some code)"

definition pg_find_by_uid :: "time \<Rightarrow> string \<Rightarrow> string \<Rightarrow> db \<Rightarrow> payload option" where
  "pg_find_by_uid now name u = pg_find_where now name (\<lambda>r. pl_uid r = Some u)"

definition consumable :: "time \<Rightarrow> string \<Rightarrow> string \<Rightarrow> payload_row \<Rightarrow> bool" where
  "consumable now name i r = (pl_id r = i \<and> pl_type r = name \<and> pl_consumed_at r = None \<and> payload_live now r)"

definition pg_consume :: "time \<Rightarrow> string \<Rightarrow> string \<Rightarrow> (db, unit) op" where
  "pg_consume now name i d =
     (let d' = d\<lparr>db_oidc_payloads := update_where (consumable now name i)
        (\<lambda>r. r\<lparr>pl_consumed_at := Some now\<rparr>) (db_oidc_payloads d)\<rparr>
      in (if row_count (consumable now name i) (db_oidc_payloads d) \<noteq> 1 then Inl InvalidGrant else Inr (), d'))"

definition pg_destroy :: "string \<Rightarrow> string \<Rightarrow> db \<Rightarrow> db" where
  "pg_destroy name i d = d\<lparr>db_oidc_payloads := delete_where (\<lambda>r. pl_id r = i \<and> pl_type r = name) (db_oidc_payloads d)\<rparr>"

definition pg_revoke_by_grant_id :: "string \<Rightarrow> string \<Rightarrow> db \<Rightarrow> db" where
  "pg_revoke_by_grant_id name g d =
     d\<lparr>db_oidc_payloads := delete_where (\<lambda>r. pl_grant_id r = Some g \<and> pl_type r = name) (db_oidc_payloads d)\<rparr>"

definition revoke_grants_by_ids :: "string list \<Rightarrow> db \<Rightarrow> db" where
  "revoke_grants_by_ids gs d =
     (if gs = [] then d
      else d\<lparr>db_oidc_payloads := delete_where (\<lambda>r. opt_in (pl_grant_id r) gs) (db_oidc_payloads d)\<rparr>)"

definition purge_expired :: "time \<Rightarrow> db \<Rightarrow> db" where
  "purge_expired now d = d\<lparr>db_oidc_payloads := delete_where
     (\<lambda>r. case pl_expires_at r of None \<Rightarrow> False | Some t \<Rightarrow> t < now) (db_oidc_payloads d)\<rparr>"

subsection \<open>Redis commands\<close>

text \<open>\<open>SET key value [EX seconds]\<close> and \<open>SADD\<close>; \<open>False\<close> is an error reply. A lifetime must be positive.\<close>

definition redis_set :: "time \<Rightarrow> string \<Rightarrow> redis_value \<Rightarrow> int \<Rightarrow> redis \<Rightarrow> bool \<times> redis" where
  "redis_set now k v ttl r =
     (if ttl < 0 then (False, r)
      else if ttl = 0 then (True, AList.update k (v, None) r)
      else (True, redis_set_ex now k v ttl r))"

definition redis_sadd :: "time \<Rightarrow> string \<Rightarrow> string \<Rightarrow> redis \<Rightarrow> bool \<times> redis" where
  "redis_sadd now k m r =
     (case redis_live now r k of
        None \<Rightarrow> (True, AList.update k (Members [m], None) r)
      | Some (Members ms) \<Rightarrow>
          (True, AList.update k (Members (if m \<in> set ms then ms else ms @ [m]), snd (the (map_of r k))) r)
      | _ \<Rightarrow> (False, r))"

definition redis_smembers :: "time \<Rightarrow> string \<Rightarrow> redis \<Rightarrow> (app_error + string list) \<times> redis" where
  "redis_smembers now k r =
     (case redis_live now r k of
        None \<Rightarrow> (Inr [], r) | Some (Members ms) \<Rightarrow> (Inr ms, r) | _ \<Rightarrow> (Inl (JsError ''WRONGTYPE''), r))"

text \<open>A pipeline runs its commands in order; the replies tell which of them failed.\<close>

definition run_pipeline :: "(redis \<Rightarrow> bool \<times> redis) list \<Rightarrow> redis \<Rightarrow> bool \<times> redis" where
  "run_pipeline cs r = fold (\<lambda>c (ok, r). case c r of (ok', r') \<Rightarrow> (ok \<and> ok', r')) cs (True, r)"

subsection \<open>The Redis adapter\<close>

definition main_key :: "string \<Rightarrow> string \<Rightarrow> string" where
  "main_key name i = ''oidc:'' @ name @ '':'' @ i"

definition uid_key :: "string \<Rightarrow> string \<Rightarrow> string" where
  "uid_key name u = ''oidc:'' @ name @ '':uid:'' @ u"

definition user_code_key :: "string \<Rightarrow> string \<Rightarrow> string" where
  "user_code_key name c = ''oidc:'' @ name @ '':user_code:'' @ c"

definition grant_key :: "string \<Rightarrow> string \<Rightarrow> string" where
  "grant_key name g = ''oidc:'' @ name @ '':grant:'' @ g"

definition upsert_commands ::
    "time \<Rightarrow> string \<Rightarrow> string \<Rightarrow> payload \<Rightarrow> int \<Rightarrow> (redis \<Rightarrow> bool \<times> redis) list" where
  "upsert_commands now name i p expires_in =
     [redis_set now (main_key name i) (JsonValue (JObj p)) expires_in] @
     (case set_property ''uid'' p of None \<Rightarrow> []
      | Some u \<Rightarrow> [redis_set now (uid_key name u) (Text i) expires_in]) @
     (case set_property ''userCode'' p of None \<Rightarrow> []
      | Some c \<Rightarrow> [redis_set now (user_code_key name c) (Text i) expires_in]) @
     (case set_property ''grantId'' p of None \<Rightarrow> []
      | Some g \<Rightarrow> [redis_sadd now (grant_key name g) i] @
          (if expires_in = 0 then [] else [\<lambda>r. (True, redis_expire now (grant_key name g) expires_in r)]))"

definition session_input_of :: "adapter_env \<Rightarrow> string \<Rightarrow> payload \<Rightarrow> int \<Rightarrow> session_tracking_input" where
  "session_input_of env i p expires_in = \<lparr>si_session_id = i, si_user_id = string_property ''accountId'' p,
     si_client_id = None, si_organization_id = string_property ''orgId'' p,
     si_grant_id = string_property ''grantId'' p, si_ip_address = None, si_user_agent = None,
     si_expires_at = av_now env + expires_in * 1000\<rparr>"

definition redis_upsert :: "adapter_env \<Rightarrow> string \<Rightarrow> string \<Rightarrow> payload \<Rightarrow> int \<Rightarrow> (flow, unit) op" where
  "redis_upsert env name i p expires_in =
     andthen (if name = ''Session''
              then query (upsert_session (av_now env) (av_public_id env) (session_input_of env i p expires_in))
              else return_op ()) (\<lambda>_.
     andthen (on_store (redis_do (run_pipeline (upsert_commands (av_now env) name i p expires_in)))) (\<lambda>ok.
     unless_throw ok (JsError ''Redis pipeline execution failed'')))"

definition redis_get :: "time \<Rightarrow> string \<Rightarrow> (flow, redis_value option) op" where
  "redis_get now k = on_store (redis_do (\<lambda>r. (redis_live now r k, r)))"

text \<open>Bytes that are no JSON object are no payload.\<close>

definition stored_payload :: "redis_value \<Rightarrow> payload option" where
  "stored_payload v = (case v of JsonValue (JObj p) \<Rightarrow> Some p | _ \<Rightarrow> None)"

definition session_live :: "time \<Rightarrow> session_row option \<Rightarrow> bool" where
  "session_live now s = (case s of None \<Rightarrow> False | Some s \<Rightarrow> se_revoked_at s = None \<and> se_expires_at s > now)"

definition redis_find :: "time \<Rightarrow> string \<Rightarrow> string \<Rightarrow> (flow, payload option) op" where
  "redis_find now name i =
     andthen (redis_get now (main_key name i)) (\<lambda>data.
       case data of
         None \<Rightarrow> return_op None
       | Some v \<Rightarrow>
           if name = ''Session''
           then andthen (query (select (get_session i))) (\<lambda>tracking.
             return_op (if session_live now tracking then stored_payload v else None))
           else return_op (stored_payload v))"

definition redis_find_indexed :: "time \<Rightarrow> string \<Rightarrow> string \<Rightarrow> (flow, payload option) op" where
  "redis_find_indexed now name key =
     andthen (redis_get now key) (\<lambda>data.
       case data of Some (Text i) \<Rightarrow> if i = [] then return_op None else redis_find now name i | _ \<Rightarrow> return_op None)"

definition redis_find_by_user_code :: "time \<Rightarrow> string \<Rightarrow> string \<Rightarrow> (flow, payload option) op" where
  "redis_find_by_user_code now name c = redis_find_indexed now name (user_code_key name c)"

definition redis_find_by_uid :: "time \<Rightarrow> string \<Rightarrow> string \<Rightarrow> (flow, payload option) op" where
  "redis_find_by_uid now name u = redis_find_indexed now name (uid_key name u)"

text \<open>
  The Lua script. \<open>cjson\<close> has one kind of table, so it writes an empty array back as an empty object.
\<close>

fun cjson_roundtrip :: "json \<Rightarrow> json" where
  "cjson_roundtrip (JArr vs) = (if vs = [] then JObj [] else JArr (map cjson_roundtrip vs))"
| "cjson_roundtrip (JObj fs) = JObj (map (\<lambda>(k, v). (k, cjson_roundtrip v)) fs)"
| "cjson_roundtrip v = v"

definition consume_unconsumed :: "time \<Rightarrow> string \<Rightarrow> int \<Rightarrow> redis \<Rightarrow> (app_error + nat) \<times> redis" where
  "consume_unconsumed now k seconds r =
     (case redis_live now r k of
        None \<Rightarrow> (Inr 0, r)
      | Some (JsonValue (JObj p)) \<Rightarrow>
          if map_of p ''consumed'' \<noteq> None then (Inr 0, r)
          else (Inr 1, AList.update k
            (JsonValue (JObj (map (\<lambda>(f, v). (f, cjson_roundtrip v)) p @ [(''consumed'', JNum seconds)])), snd (the (map_of r k))) r)
      | _ \<Rightarrow> (Inl (JsError ''ERR script''), r))"

definition redis_consume :: "time \<Rightarrow> string \<Rightarrow> string \<Rightarrow> (flow, unit) op" where
  "redis_consume now name i =
     andthen (on_store (redis_try (consume_unconsumed now (main_key name i) (now div 1000)))) (\<lambda>n.
     unless_throw (n = 1) InvalidGrant)"

definition keys_of_payload :: "string \<Rightarrow> string \<Rightarrow> redis_value option \<Rightarrow> string list" where
  "keys_of_payload name i data =
     main_key name i #
     (case Option.bind data stored_payload of
        None \<Rightarrow> []
      | Some p \<Rightarrow> (case set_property ''uid'' p of None \<Rightarrow> [] | Some u \<Rightarrow> [uid_key name u]) @
          (case set_property ''userCode'' p of None \<Rightarrow> [] | Some c \<Rightarrow> [user_code_key name c]))"

definition redis_delete :: "string list \<Rightarrow> (flow, unit) op" where
  "redis_delete ks = on_store (redis_do (\<lambda>r. ((), redis_del_all ks r)))"

definition redis_destroy :: "time \<Rightarrow> string \<Rightarrow> string \<Rightarrow> (flow, unit) op" where
  "redis_destroy now name i =
     andthen (redis_get now (main_key name i)) (\<lambda>data.
     andthen (if name = ''Session'' then query (execute (revoke_session now i)) else return_op ()) (\<lambda>_.
     redis_delete (keys_of_payload name i data)))"

fun destroy_all :: "time \<Rightarrow> string \<Rightarrow> string list \<Rightarrow> (flow, unit) op" where
  "destroy_all now name [] = return_op ()"
| "destroy_all now name (i # rest) = andthen (redis_destroy now name i) (\<lambda>_. destroy_all now name rest)"

definition redis_members :: "time \<Rightarrow> string \<Rightarrow> (flow, string list) op" where
  "redis_members now k = on_store (redis_try (redis_smembers now k))"

definition redis_revoke_by_grant_id :: "time \<Rightarrow> string \<Rightarrow> string \<Rightarrow> (flow, unit) op" where
  "redis_revoke_by_grant_id now name g =
     andthen (redis_members now (grant_key name g)) (\<lambda>members.
     andthen (destroy_all now name members) (\<lambda>_.
     redis_delete [grant_key name g]))"

fun grant_members :: "time \<Rightarrow> (string \<times> string) list \<Rightarrow> (flow, string list) op" where
  "grant_members now [] = return_op []"
| "grant_members now ((name, g) # rest) =
     andthen (redis_members now (grant_key name g)) (\<lambda>members.
     andthen (grant_members now rest) (\<lambda>ks.
     return_op ((grant_key name g # map (main_key name) members) @ ks)))"

definition cleanup_redis_grants :: "time \<Rightarrow> string list \<Rightarrow> (flow, unit) op" where
  "cleanup_redis_grants now gs =
     (if gs = [] then return_op ()
      else catch_op
        (andthen (grant_members now (List.product redis_oidc_models gs)) redis_delete)
        (\<lambda>_. return_op ()))"

subsection \<open>Live authority\<close>

record authority_references =
  au_client_ids :: "string list"
  au_user_ids :: "string list"
  au_grant_ids :: "string list"

definition add_string_reference :: "json option \<Rightarrow> string list" where
  "add_string_reference v = (case v of Some (JStr s) \<Rightarrow> if s = [] then [] else [s] | _ \<Rightarrow> [])"

definition collect_authority_references :: "payload \<Rightarrow> authority_references" where
  "collect_authority_references p =
     (let auths = (case map_of p ''authorizations'' of Some (JObj fs) \<Rightarrow> fs | _ \<Rightarrow> [])
      in \<lparr>au_client_ids = add_string_reference (map_of p ''clientId'') @
            concat (map (\<lambda>(cid, _). add_string_reference (Some (JStr cid))) auths),
          au_user_ids = add_string_reference (map_of p ''accountId''),
          au_grant_ids = add_string_reference (map_of p ''grantId'') @
            concat (map (\<lambda>(_, a). add_string_reference (json_get ''grantId'' a)) auths)\<rparr>)"

definition has_live_authority :: "time \<Rightarrow> payload \<Rightarrow> db \<Rightarrow> bool" where
  "has_live_authority now p d =
     (let refs = collect_authority_references p
      in list_all (\<lambda>c. row_exists (\<lambda>r. cl_client_id r = c \<and> cl_status r = ClientActive) (db_clients d)) (au_client_ids refs) \<and>
         list_all (\<lambda>u. row_exists (\<lambda>r. ur_id r = u \<and> ur_status r = Active) (db_users d)) (au_user_ids refs) \<and>
         list_all (\<lambda>g. row_exists (\<lambda>r. pl_id r = g \<and> pl_type r = ''Grant'' \<and> payload_live now r) (db_oidc_payloads d))
           (au_grant_ids refs))"

subsection \<open>The adapter of the provider\<close>

definition is_redis_model :: "string \<Rightarrow> bool" where
  "is_redis_model name = (name \<in> set redis_oidc_models)"

definition with_authority :: "time \<Rightarrow> (flow, payload option) op \<Rightarrow> (flow, payload option) op" where
  "with_authority now m =
     andthen m (\<lambda>found.
       case found of
         None \<Rightarrow> return_op None
       | Some p \<Rightarrow> andthen (query (select (has_live_authority now p))) (\<lambda>live.
           return_op (if live then Some p else None)))"

definition adapter_upsert :: "adapter_env \<Rightarrow> string \<Rightarrow> string \<Rightarrow> payload \<Rightarrow> int \<Rightarrow> (flow, unit) op" where
  "adapter_upsert env name i p expires_in =
     (if is_redis_model name then redis_upsert env name i p expires_in
      else query (execute (pg_upsert env name i p expires_in)))"

datatype found = FoundClient oidc_client_metadata | FoundPayload payload

definition delegate_find :: "time \<Rightarrow> string \<Rightarrow> string \<Rightarrow> (flow, payload option) op" where
  "delegate_find now name i =
     (if is_redis_model name then redis_find now name i else query (select (pg_find now name i)))"

definition adapter_find :: "time \<Rightarrow> string \<Rightarrow> string \<Rightarrow> (flow, found option) op" where
  "adapter_find now name i =
     (if name = ''Client'' then andthen (find_for_oidc now i) (\<lambda>c. return_op (map_option FoundClient c))
      else andthen (with_authority now (delegate_find now name i)) (\<lambda>p. return_op (map_option FoundPayload p)))"

definition adapter_find_by_user_code :: "time \<Rightarrow> string \<Rightarrow> string \<Rightarrow> (flow, payload option) op" where
  "adapter_find_by_user_code now name c = with_authority now
     (if is_redis_model name then redis_find_by_user_code now name c
      else query (select (pg_find_by_user_code now name c)))"

definition adapter_find_by_uid :: "time \<Rightarrow> string \<Rightarrow> string \<Rightarrow> (flow, payload option) op" where
  "adapter_find_by_uid now name u = with_authority now
     (if is_redis_model name then redis_find_by_uid now name u else query (select (pg_find_by_uid now name u)))"

definition adapter_consume :: "time \<Rightarrow> string \<Rightarrow> string \<Rightarrow> (flow, unit) op" where
  "adapter_consume now name i =
     (if is_redis_model name then redis_consume now name i else query (pg_consume now name i))"

definition session_grants :: "payload option \<Rightarrow> string list" where
  "session_grants session =
     (case session of
        None \<Rightarrow> []
      | Some p \<Rightarrow> (case map_of p ''authorizations'' of
          Some (JObj auths) \<Rightarrow> concat (map (\<lambda>(_, a). add_string_reference (json_get ''grantId'' a)) auths)
        | _ \<Rightarrow> []))"

text \<open>The cascade of a logout; its failure never keeps the session.\<close>

definition destroy_cascade :: "time \<Rightarrow> string \<Rightarrow> string \<Rightarrow> (flow, unit) op" where
  "destroy_cascade now name i =
     (if name \<noteq> ''Session'' then return_op ()
      else catch_op
        (andthen (delegate_find now name i) (\<lambda>session.
           let gs = session_grants session
           in if gs = [] then return_op ()
              else andthen (query (execute (revoke_grants_by_ids gs))) (\<lambda>_. cleanup_redis_grants now gs)))
        (\<lambda>_. return_op ()))"

definition adapter_destroy :: "time \<Rightarrow> string \<Rightarrow> string \<Rightarrow> (flow, unit) op" where
  "adapter_destroy now name i =
     andthen (destroy_cascade now name i) (\<lambda>_.
     if is_redis_model name then redis_destroy now name i else query (execute (pg_destroy name i)))"

definition adapter_revoke_by_grant_id :: "time \<Rightarrow> string \<Rightarrow> string \<Rightarrow> (flow, unit) op" where
  "adapter_revoke_by_grant_id now name g =
     (if is_redis_model name then redis_revoke_by_grant_id now name g
      else query (execute (pg_revoke_by_grant_id name g)))"

end
