(* ===== verification/AdapterProperties.thy ===== *)
theory AdapterProperties
  imports OidcAdapters ClientProperties SingleUse
begin

text \<open>
  The provider's storage under any interleaving of its calls: a session that was logged out or revoked
  never comes back, and an artifact is consumed at most once.
\<close>

datatype adapter_call =
    AUpsert string string payload int
  | AFind string string
  | AFindByUserCode string string
  | AFindByUid string string
  | AConsume string string
  | ADestroy string string
  | ARevokeByGrantId string string
  | APurgeExpired
  | ARevokeSessionByPublicId string
  | ARevokeUserSessions string
  | ARedisUp bool

definition adapter_call_op :: "adapter_env \<Rightarrow> adapter_call \<Rightarrow> (flow, unit) op" where
  "adapter_call_op env c =
     (let now = av_now env
      in case c of
           AUpsert name i p e \<Rightarrow> adapter_upsert env name i p e
         | AFind name i \<Rightarrow> andthen (adapter_find now name i) (\<lambda>_. return_op ())
         | AFindByUserCode name u \<Rightarrow> andthen (adapter_find_by_user_code now name u) (\<lambda>_. return_op ())
         | AFindByUid name u \<Rightarrow> andthen (adapter_find_by_uid now name u) (\<lambda>_. return_op ())
         | AConsume name i \<Rightarrow> adapter_consume now name i
         | ADestroy name i \<Rightarrow> adapter_destroy now name i
         | ARevokeByGrantId name g \<Rightarrow> adapter_revoke_by_grant_id now name g
         | APurgeExpired \<Rightarrow> query (execute (purge_expired now))
         | ARevokeSessionByPublicId i \<Rightarrow> andthen (query (returning (revoke_session_by_public_id now i))) (\<lambda>_. return_op ())
         | ARevokeUserSessions u \<Rightarrow> andthen (query (returning (revoke_user_sessions now u))) (\<lambda>_. return_op ())
         | ARedisUp b \<Rightarrow> on_store (\<lambda>st. (Inr (), st\<lparr>st_redis_up := b\<rparr>)))"

definition run_adapter_call :: "adapter_env \<times> adapter_call \<Rightarrow> flow \<Rightarrow> flow" where
  "run_adapter_call = (\<lambda>(env, c) f. snd (adapter_call_op env c f))"

subsection \<open>Predicates of the two stores\<close>

abbreviation stores :: "(db \<Rightarrow> bool) \<Rightarrow> (redis \<Rightarrow> bool) \<Rightarrow> flow \<Rightarrow> bool" where
  "stores D R f \<equiv> store_ok D R (fl_store f)"

lemma stores_query: "(\<And>d. D d \<Longrightarrow> D (snd (m d))) \<Longrightarrow> preserves (stores D R) (query m)"
  by (rule preservesI) (simp add: store_ok_def with_db_def)

lemma stores_on_store: "preserves (store_ok D R) m \<Longrightarrow> preserves (stores D R) (on_store m)"
  by (rule preservesI) (auto dest: preservesD)

lemma stores_select: "preserves (stores D R) (query (select q))"
  by (rule stores_query) simp

lemma stores_execute: "(\<And>d. D d \<Longrightarrow> D (u d)) \<Longrightarrow> preserves (stores D R) (query (execute u))"
  by (rule stores_query) simp

lemma stores_returning: "(\<And>d. D d \<Longrightarrow> D (snd (u d))) \<Longrightarrow> preserves (stores D R) (query (returning u))"
  by (rule stores_query) simp

lemma stores_redis:
  "(\<And>r. R r \<Longrightarrow> R (snd (c r))) \<Longrightarrow> preserves (stores D R) (on_store (redis_do c))"
  "(\<And>r. R r \<Longrightarrow> R (snd (c' r))) \<Longrightarrow> preserves (stores D R) (on_store (redis_try c'))"
  by (intro stores_on_store redis_do_keeps redis_command_keeps; simp)+

text \<open>
  What the calls ask of a predicate on the two stores. Reads and the cascade of a logout only delete
  payloads and keys (\<open>cascade_predicate\<close>); the other calls need a law for each of their statements and
  commands (\<open>adapter_predicate\<close>). The laws are proved per predicate; every call then keeps it.
\<close>

locale cascade_predicate =
  fixes D :: "db \<Rightarrow> bool" and R :: "redis \<Rightarrow> bool"
  assumes payload_delete_keeps:
      "D d \<Longrightarrow> D (d\<lparr>db_oidc_payloads := delete_where Q (db_oidc_payloads d)\<rparr>)"
    and del_keeps: "R r \<Longrightarrow> R (redis_del k r)"
begin

lemma del_all_keeps: "R r \<Longrightarrow> R (redis_del_all ks r)"
  by (induction ks arbitrary: r) (simp_all add: redis_del_all_def del_keeps)

lemma smembers_keeps: "R r \<Longrightarrow> R (snd (redis_smembers now k r))"
  by (simp add: redis_smembers_def split: option.split redis_value.split)

lemma redis_get_keeps: "preserves (stores D R) (redis_get now k)"
  unfolding redis_get_def by (rule stores_redis) simp

lemma redis_find_keeps: "preserves (stores D R) (redis_find now name i)"
  unfolding redis_find_def by (intro preserves_intros redis_get_keeps stores_select)

lemma redis_find_indexed_keeps: "preserves (stores D R) (redis_find_indexed now name k)"
proof -
  have "preserves (stores D R) (case data of Some (Text i) \<Rightarrow> if i = [] then return_op None else redis_find now name i
      | _ \<Rightarrow> return_op None)" for data
    by (auto intro: redis_find_keeps split: option.split redis_value.split)
  then show ?thesis unfolding redis_find_indexed_def by (intro preserves_andthen redis_get_keeps)
qed

lemma redis_delete_keeps: "preserves (stores D R) (redis_delete ks)"
  unfolding redis_delete_def by (rule stores_redis) (simp add: del_all_keeps)

lemma redis_members_keeps: "preserves (stores D R) (redis_members now k)"
  unfolding redis_members_def by (intro stores_redis smembers_keeps)

lemma grant_members_keeps: "preserves (stores D R) (grant_members now ks)"
proof (induction now ks rule: grant_members.induct)
  case (2 now name g rest)
  then show ?case unfolding grant_members.simps by (intro preserves_andthen redis_members_keeps preserves_return)
qed (simp only: grant_members.simps preserves_return)

lemma cleanup_grants_keeps: "preserves (stores D R) (cleanup_redis_grants now gs)"
  unfolding cleanup_redis_grants_def
  by (intro preserves_intros grant_members_keeps redis_delete_keeps)

lemma delegate_find_keeps: "preserves (stores D R) (delegate_find now name i)"
  unfolding delegate_find_def by (intro preserves_intros redis_find_keeps stores_select)

lemma revoke_grants_keeps: "D d \<Longrightarrow> D (revoke_grants_by_ids gs d)"
  by (simp add: revoke_grants_by_ids_def payload_delete_keeps)

lemma destroy_cascade_keeps: "preserves (stores D R) (destroy_cascade now name i)"
  unfolding destroy_cascade_def Let_def
  by (intro preserves_intros delegate_find_keeps cleanup_grants_keeps stores_execute revoke_grants_keeps)

lemma with_authority_keeps: "preserves (stores D R) m \<Longrightarrow> preserves (stores D R) (with_authority now m)"
  unfolding with_authority_def by (intro preserves_intros stores_select)

lemma find_for_oidc_keeps: "preserves (stores D R) (find_for_oidc now i)"
  unfolding find_for_oidc_def by (intro preserves_intros stores_select)

lemma adapter_finds_keep:
  "preserves (stores D R) (adapter_find now name i)"
  "preserves (stores D R) (adapter_find_by_user_code now name i)"
  "preserves (stores D R) (adapter_find_by_uid now name i)"
  unfolding adapter_find_def adapter_find_by_user_code_def adapter_find_by_uid_def
    redis_find_by_user_code_def redis_find_by_uid_def
  by (intro preserves_intros with_authority_keeps delegate_find_keeps find_for_oidc_keeps
      redis_find_indexed_keeps stores_select)+

end

locale adapter_predicate = cascade_predicate D R for D :: "db \<Rightarrow> bool" and R :: "redis \<Rightarrow> bool" +
  fixes allowed :: "string \<Rightarrow> string \<Rightarrow> bool"
  assumes upsert_session_keeps: "D d \<Longrightarrow> D (snd (upsert_session now public_id input d))"
    and revoke_keeps: "D d \<Longrightarrow> D (revoke_where now S d)"
    and pg_upsert_keeps: "allowed name i \<Longrightarrow> \<not> is_redis_model name \<Longrightarrow> D d \<Longrightarrow> D (pg_upsert env name i pl e d)"
    and pg_consume_keeps: "D d \<Longrightarrow> D (snd (pg_consume now name i d))"
    and set_keeps: "allowed name i \<Longrightarrow> is_redis_model name \<Longrightarrow> R r \<Longrightarrow>
      R (snd (redis_set now (main_key name i) (JsonValue (JObj pl)) e r))"
    and index_keeps: "R r \<Longrightarrow> R (snd (redis_set now k (Text t) e r))"
    and sadd_keeps: "R r \<Longrightarrow> R (snd (redis_sadd now k m r))"
    and expire_keeps: "R r \<Longrightarrow> R (redis_expire now k n r)"
    and consume_keeps: "R r \<Longrightarrow> R (snd (consume_unconsumed now k n r))"
begin

lemma pipeline_keeps:
  "(\<And>c r. c \<in> set cs \<Longrightarrow> R r \<Longrightarrow> R (snd (c r))) \<Longrightarrow> R r \<Longrightarrow> R (snd (run_pipeline cs r))"
proof -
  have "(\<And>c r. c \<in> set cs \<Longrightarrow> R r \<Longrightarrow> R (snd (c r))) \<Longrightarrow> R r \<Longrightarrow>
      R (snd (fold (\<lambda>c (ok, r). case c r of (ok', r') \<Rightarrow> (ok \<and> ok', r')) cs (b, r)))" for b
  proof (induction cs arbitrary: b r)
    case (Cons c cs)
    have "R (snd (c r))" using Cons.prems by simp
    then show ?case using Cons by (cases "c r") auto
  qed simp
  then show "(\<And>c r. c \<in> set cs \<Longrightarrow> R r \<Longrightarrow> R (snd (c r))) \<Longrightarrow> R r \<Longrightarrow> R (snd (run_pipeline cs r))"
    by (simp add: run_pipeline_def)
qed

lemma upsert_commands_keep:
  assumes "allowed name i" and "is_redis_model name" and "R r"
  shows "R (snd (run_pipeline (upsert_commands now name i pl e) r))"
  by (rule pipeline_keeps [OF _ assms(3)])
    (auto simp: upsert_commands_def set_keeps [OF assms(1,2)] index_keeps sadd_keeps expire_keeps
      split: option.splits if_splits)

lemma redis_upsert_keeps:
  "allowed name i \<Longrightarrow> is_redis_model name \<Longrightarrow> preserves (stores D R) (redis_upsert env name i pl e)"
  unfolding redis_upsert_def
  by (intro preserves_intros stores_query stores_redis upsert_session_keeps upsert_commands_keep)

lemma redis_destroy_keeps: "preserves (stores D R) (redis_destroy now name i)"
  unfolding redis_destroy_def revoke_session_def
  by (intro preserves_intros redis_get_keeps redis_delete_keeps stores_execute revoke_keeps)

lemma destroy_all_keeps: "preserves (stores D R) (destroy_all now name ids)"
proof (induction now name ids rule: destroy_all.induct)
  case (2 now name i rest)
  then show ?case unfolding destroy_all.simps by (intro preserves_andthen redis_destroy_keeps)
qed (simp only: destroy_all.simps preserves_return)

lemma adapter_destroy_keeps: "preserves (stores D R) (adapter_destroy now name i)"
  unfolding adapter_destroy_def pg_destroy_def
  by (intro preserves_intros destroy_cascade_keeps redis_destroy_keeps stores_execute payload_delete_keeps)

lemma adapter_consume_keeps: "preserves (stores D R) (adapter_consume now name i)"
  unfolding adapter_consume_def redis_consume_def
  by (intro preserves_intros stores_redis stores_query consume_keeps pg_consume_keeps)

lemma revoke_by_grant_keeps: "preserves (stores D R) (adapter_revoke_by_grant_id now name g)"
  unfolding adapter_revoke_by_grant_id_def redis_revoke_by_grant_id_def pg_revoke_by_grant_id_def
  by (intro preserves_intros redis_members_keeps destroy_all_keeps redis_delete_keeps stores_execute payload_delete_keeps)

lemma adapter_upsert_keeps: "allowed name i \<Longrightarrow> preserves (stores D R) (adapter_upsert env name i pl e)"
  unfolding adapter_upsert_def
  by (cases "is_redis_model name") (auto intro: redis_upsert_keeps stores_execute pg_upsert_keeps)

lemma adapter_call_keeps:
  assumes "\<And>name i pl e. c = AUpsert name i pl e \<Longrightarrow> allowed name i"
  shows "preserves (stores D R) (adapter_call_op env c)"
proof (cases c)
  case (ARedisUp b)
  then show ?thesis
    by (simp add: adapter_call_op_def) (intro stores_on_store preservesI, simp add: store_ok_def)
next
  case APurgeExpired
  then show ?thesis
    by (simp add: adapter_call_op_def) (intro stores_execute, simp add: purge_expired_def payload_delete_keeps)
next
  case (ARevokeSessionByPublicId i)
  then show ?thesis
    by (simp add: adapter_call_op_def)
      (intro preserves_intros stores_returning, simp add: revoke_session_by_public_id_def revoke_keeps)
next
  case (ARevokeUserSessions u)
  then show ?thesis
    by (simp add: adapter_call_op_def)
      (intro preserves_intros stores_returning, simp add: revoke_user_sessions_def revoke_keeps)
qed (use assms in \<open>auto simp: adapter_call_op_def simp del: preserves_return intro!: preserves_andthen
      adapter_upsert_keeps adapter_finds_keep adapter_consume_keeps adapter_destroy_keeps revoke_by_grant_keeps
      intro: preserves_return\<close>)

lemma run_call_keeps:
  assumes "\<And>name i pl e. snd c = AUpsert name i pl e \<Longrightarrow> allowed name i" and "stores D R f"
  shows "stores D R (run_adapter_call c f)"
  using preservesD [OF adapter_call_keeps assms(2)] assms(1) by (cases c) (simp add: run_adapter_call_def)

lemma run_calls_keep:
  "(\<And>c name i pl e. c \<in> set calls \<Longrightarrow> snd c = AUpsert name i pl e \<Longrightarrow> allowed name i) \<Longrightarrow> stores D R f \<Longrightarrow>
   stores D R (fold run_adapter_call calls f)"
proof (induction calls arbitrary: f)
  case (Cons c calls)
  have "stores D R (run_adapter_call c f)"
    by (rule run_call_keeps [OF _ Cons.prems(2)]) (rule Cons.prems(1) [of c], simp_all)
  then show ?case using Cons.IH Cons.prems(1) by (simp add: list.set_intros(2)) (metis list.set_intros(2))
qed simp

end

subsection \<open>Revoked sessions\<close>





lemma refreshed_session_fixed [simp]:
  "se_session_id (refreshed_session now x s) = se_session_id s"
  "se_revoked_at (refreshed_session now x s) = se_revoked_at s"
  by (simp_all add: refreshed_session_def)





lemma session_model [simp]: "is_redis_model ''Session''"
  by (simp add: is_redis_model_def redis_oidc_models_def)











subsection \<open>Single use\<close>

text \<open>An artifact can still be consumed: \<open>consumed\<close> is unset where its model is stored.\<close>

definition unconsumed :: "string \<times> string \<Rightarrow> flow \<Rightarrow> bool" where
  "unconsumed k f \<longleftrightarrow>
     (if is_redis_model (fst k)
      then (case map_of (flow_redis f) (main_key (fst k) (snd k)) of
              Some (JsonValue (JObj p), _) \<Rightarrow> map_of p ''consumed'' = None | _ \<Rightarrow> False)
      else (\<exists>r \<in> set (db_oidc_payloads (flow_db f)). pl_type r = fst k \<and> pl_id r = snd k \<and> pl_consumed_at r = None))"

definition payload_keys_ok :: "db \<Rightarrow> bool" where
  "payload_keys_ok d \<longleftrightarrow> distinct (map (\<lambda>r. (pl_type r, pl_id r)) (db_oidc_payloads d))"

definition reissues :: "adapter_env \<times> adapter_call \<Rightarrow> string \<times> string \<Rightarrow> bool" where
  "reissues c k \<longleftrightarrow> (case snd c of AUpsert name i p e \<Rightarrow> (name, i) = k | _ \<Rightarrow> False)"

definition consumes :: "adapter_env \<times> adapter_call \<Rightarrow> string \<times> string \<Rightarrow> flow \<Rightarrow> bool" where
  "consumes c k f \<longleftrightarrow> (case snd c of AConsume name i \<Rightarrow>
     (name, i) = k \<and> fst (adapter_consume (av_now (fst c)) name i f) = Inr () | _ \<Rightarrow> False)"

lemma payload_keys_upsert: "payload_keys_ok d \<Longrightarrow> payload_keys_ok (pg_upsert env name i pl e d)"
proof -
  assume ok: "payload_keys_ok d"
  let ?P = "\<lambda>r. pl_id r = i \<and> pl_type r = name"
  let ?u = "\<lambda>r. (payload_row_of env name i pl e)\<lparr>pl_consumed_at := pl_consumed_at r\<rparr>"
  have "map (\<lambda>r. (pl_type r, pl_id r)) (update_where ?P ?u (db_oidc_payloads d)) =
      map (\<lambda>r. (pl_type r, pl_id r)) (db_oidc_payloads d)"
    by (simp add: update_where_def payload_row_of_def)
  with ok show ?thesis
    by (auto simp: payload_keys_ok_def pg_upsert_def Let_def payload_row_of_def row_exists_def list_ex_iff image_iff)
qed

lemma payload_keys_consume: "payload_keys_ok d \<Longrightarrow> payload_keys_ok (snd (pg_consume now name i d))"
proof -
  assume ok: "payload_keys_ok d"
  have "map (\<lambda>r. (pl_type r, pl_id r)) (update_where (consumable now name i) (\<lambda>r. r\<lparr>pl_consumed_at := Some now\<rparr>)
      (db_oidc_payloads d)) = map (\<lambda>r. (pl_type r, pl_id r)) (db_oidc_payloads d)"
    by (simp add: update_where_def)
  with ok show ?thesis by (simp add: payload_keys_ok_def pg_consume_def Let_def)
qed

interpretation payload_keys: adapter_predicate payload_keys_ok "\<lambda>_. True" "\<lambda>_ _. True"
proof unfold_locales
  show "\<And>d Q. payload_keys_ok d \<Longrightarrow> payload_keys_ok (d\<lparr>db_oidc_payloads := delete_where Q (db_oidc_payloads d)\<rparr>)"
    by (simp add: payload_keys_ok_def delete_where_def distinct_map_filter)
  show "\<And>d now public_id input. payload_keys_ok d \<Longrightarrow> payload_keys_ok (snd (upsert_session now public_id input d))"
    by (simp add: payload_keys_ok_def upsert_session_def split: option.split)
  show "\<And>d now S. payload_keys_ok d \<Longrightarrow> payload_keys_ok (revoke_where now S d)"
    by (simp add: payload_keys_ok_def revoke_where_def)
qed (simp_all add: payload_keys_upsert payload_keys_consume)

text \<open>The two halves of a spent artifact.\<close>

definition row_spent :: "string \<Rightarrow> string \<Rightarrow> db \<Rightarrow> bool" where
  "row_spent name i d \<longleftrightarrow> is_redis_model name \<or>
     (\<forall>r \<in> set (db_oidc_payloads d). pl_type r = name \<and> pl_id r = i \<longrightarrow> pl_consumed_at r \<noteq> None)"

definition key_spent :: "string \<Rightarrow> string \<Rightarrow> redis \<Rightarrow> bool" where
  "key_spent name i r \<longleftrightarrow> is_redis_model name \<longrightarrow>
     (case map_of r (main_key name i) of Some (JsonValue (JObj p), _) \<Rightarrow> map_of p ''consumed'' \<noteq> None | _ \<Rightarrow> True)"

lemma unconsumed_iff: "unconsumed (name, i) f \<longleftrightarrow> \<not> stores (row_spent name i) (key_spent name i) f"
proof (cases "is_redis_model name")
  case True
  have "row_spent name i d" for d using True by (simp add: row_spent_def)
  moreover have "unconsumed (name, i) f = (\<not> key_spent name i (flow_redis f))"
    using True by (simp add: unconsumed_def key_spent_def split: option.split prod.split redis_value.split json.split)
  ultimately show ?thesis by (simp add: store_ok_def)
next
  case False
  have "key_spent name i r" for r using False by (simp add: key_spent_def)
  moreover have "unconsumed (name, i) f = (\<not> row_spent name i (flow_db f))"
    using False unfolding unconsumed_def row_spent_def by auto
  ultimately show ?thesis by (simp add: store_ok_def)
qed

lemma append_sep_eq:
  "c \<notin> set a \<Longrightarrow> c \<notin> set b \<Longrightarrow> a @ c # x = b @ c # y \<longleftrightarrow> a = b \<and> x = y"
proof (induction a arbitrary: b)
  case Nil
  then show ?case by (cases b) auto
next
  case (Cons z a)
  then show ?case by (cases b) auto
qed

lemma colon_free: "is_redis_model name \<Longrightarrow> CHR '':'' \<notin> set name"
  by (auto simp: is_redis_model_def redis_oidc_models_def)

lemma main_key_inject [simp]:
  "is_redis_model name \<Longrightarrow> is_redis_model name' \<Longrightarrow> main_key name i = main_key name' i' \<longleftrightarrow> name = name' \<and> i = i'"
  using colon_free [of name] colon_free [of name'] by (simp add: main_key_def append_sep_eq)

lemma key_spent_update:
  "key_spent name i r \<Longrightarrow> (k = main_key name i \<Longrightarrow> is_redis_model name \<Longrightarrow>
     (case v of JsonValue (JObj p) \<Rightarrow> map_of p ''consumed'' \<noteq> None | _ \<Rightarrow> True)) \<Longrightarrow>
   key_spent name i (AList.update k (v, t) r)"
  by (auto simp: key_spent_def update_conv split: redis_value.splits json.splits)

lemma key_spent_del: "key_spent name i r \<Longrightarrow> key_spent name i (redis_del k r)"
  by (auto simp: key_spent_def redis_del_def delete_conv)

lemma live_value: "redis_live now r k = Some v \<Longrightarrow> \<exists>t. map_of r k = Some (v, t)"
  by (auto simp: redis_live_def split: option.splits prod.splits if_splits)

lemma map_of_cjson [simp]:
  "map_of (map (\<lambda>(f, v). (f, cjson_roundtrip v)) p @ q) k =
     (case map_of p k of None \<Rightarrow> map_of q k | Some v \<Rightarrow> Some (cjson_roundtrip v))"
  by (induction p) auto

interpretation spent: adapter_predicate "row_spent name i" "key_spent name i" "\<lambda>n j. (n, j) \<noteq> (name, i)" for name i
proof unfold_locales
  show "\<And>d Q. row_spent name i d \<Longrightarrow>
      row_spent name i (d\<lparr>db_oidc_payloads := delete_where Q (db_oidc_payloads d)\<rparr>)"
    by (auto simp: row_spent_def delete_where_def)
  show "\<And>r k. key_spent name i r \<Longrightarrow> key_spent name i (redis_del k r)"
    by (rule key_spent_del)
  show "\<And>d now public_id input. row_spent name i d \<Longrightarrow> row_spent name i (snd (upsert_session now public_id input d))"
    by (simp add: row_spent_def upsert_session_def split: option.split)
  show "\<And>d now S. row_spent name i d \<Longrightarrow> row_spent name i (revoke_where now S d)"
    by (simp add: row_spent_def revoke_where_def)
  show "\<And>n j d env pl e. (n, j) \<noteq> (name, i) \<Longrightarrow> \<not> is_redis_model n \<Longrightarrow> row_spent name i d \<Longrightarrow>
      row_spent name i (pg_upsert env n j pl e d)"
    by (auto simp: row_spent_def pg_upsert_def Let_def set_update_where payload_row_of_def)
  show "\<And>d now n j. row_spent name i d \<Longrightarrow> row_spent name i (snd (pg_consume now n j d))"
    by (auto simp: row_spent_def pg_consume_def Let_def set_update_where)
  show "\<And>n j r now pl e. (n, j) \<noteq> (name, i) \<Longrightarrow> is_redis_model n \<Longrightarrow> key_spent name i r \<Longrightarrow>
      key_spent name i (snd (redis_set now (main_key n j) (JsonValue (JObj pl)) e r))"
    by (auto simp: redis_set_def redis_set_ex_def intro!: key_spent_update)
  show "\<And>r now k t e. key_spent name i r \<Longrightarrow> key_spent name i (snd (redis_set now k (Text t) e r))"
    by (auto simp: redis_set_def redis_set_ex_def intro!: key_spent_update)
  show "\<And>r now k m. key_spent name i r \<Longrightarrow> key_spent name i (snd (redis_sadd now k m r))"
    by (auto simp: redis_sadd_def intro!: key_spent_update split: option.split redis_value.split)
  show "\<And>r now k n. key_spent name i r \<Longrightarrow> key_spent name i (redis_expire now k n r)"
    by (auto simp: redis_expire_def key_spent_del intro!: key_spent_update split: option.split
        dest!: live_value) (auto simp: key_spent_def split: redis_value.splits json.splits)
  show "\<And>r now k n. key_spent name i r \<Longrightarrow> key_spent name i (snd (consume_unconsumed now k n r))"
    by (auto simp: consume_unconsumed_def intro!: key_spent_update split: option.split redis_value.split json.split)
qed

lemma consume_succeeds:
  assumes "fst (adapter_consume now name i f) = Inr ()" and "payload_keys_ok (flow_db f)"
  shows "unconsumed (name, i) f \<and> \<not> unconsumed (name, i) (snd (adapter_consume now name i f))"
proof (cases "is_redis_model name")
  case True
  then have "fst (redis_consume now name i f) = Inr ()" using assms(1) by (simp add: adapter_consume_def)
  then obtain p where up: "st_redis_up (fl_store f)"
      and p: "redis_live now (flow_redis f) (main_key name i) = Some (JsonValue (JObj p))" "map_of p ''consumed'' = None"
    by (auto simp: redis_consume_def redis_try_def consume_unconsumed_def andthen_def unless_throw_def
        split: if_splits option.splits redis_value.splits json.splits)
  obtain t where t: "map_of (flow_redis f) (main_key name i) = Some (JsonValue (JObj p), t)" using live_value [OF p(1)] by blast
  have "flow_redis (snd (redis_consume now name i f)) = AList.update (main_key name i)
      (JsonValue (JObj (map (\<lambda>(f, v). (f, cjson_roundtrip v)) p @ [(''consumed'', JNum (now div 1000))])), t) (flow_redis f)"
    using up p t by (simp add: redis_consume_def redis_try_def consume_unconsumed_def andthen_def unless_throw_def)
  then show ?thesis
    using True p(2) t by (simp add: unconsumed_def adapter_consume_def update_conv)
next
  case False
  let ?c = "consumable now name i"
  have one: "row_count ?c (db_oidc_payloads (flow_db f)) = 1"
    using assms(1) False by (auto simp: adapter_consume_def pg_consume_def Let_def split: if_splits)
  then obtain r where r: "r \<in> set (db_oidc_payloads (flow_db f))" "?c r"
    by (force simp: row_count_def dest: arg_cong [where f = length] intro: ccontr)
  have only: "x = r" if "x \<in> set (db_oidc_payloads (flow_db f))" "pl_type x = name" "pl_id x = i" for x
    using assms(2) r that
    by (auto simp: payload_keys_ok_def consumable_def distinct_map dest!: inj_onD [of _ _ x r])
  have "\<not> (\<exists>x \<in> set (update_where ?c (\<lambda>r. r\<lparr>pl_consumed_at := Some now\<rparr>) (db_oidc_payloads (flow_db f))).
      pl_type x = name \<and> pl_id x = i \<and> pl_consumed_at x = None)"
    using only r(2) by (auto simp: set_update_where)
  then show ?thesis
    using False r by (auto simp: unconsumed_def adapter_consume_def pg_consume_def Let_def consumable_def)
qed

interpretation artifacts: single_use "stores payload_keys_ok (\<lambda>_. True)" unconsumed run_adapter_call reissues consumes
proof unfold_locales
  show "stores payload_keys_ok (\<lambda>_. True) f \<Longrightarrow> stores payload_keys_ok (\<lambda>_. True) (run_adapter_call c f)" for f c
    by (rule payload_keys.run_call_keeps) simp_all
  show "stores payload_keys_ok (\<lambda>_. True) f \<Longrightarrow> consumes c k f \<Longrightarrow> unconsumed k f" for f c k
    using consume_succeeds by (auto simp: consumes_def store_ok_def split: adapter_call.splits)
  show "stores payload_keys_ok (\<lambda>_. True) f \<Longrightarrow> consumes c k f \<Longrightarrow> \<not> unconsumed k (run_adapter_call c f)" for f c k
    using consume_succeeds
    by (cases c) (auto simp: consumes_def store_ok_def run_adapter_call_def adapter_call_op_def split: adapter_call.splits)
  show "stores payload_keys_ok (\<lambda>_. True) f \<Longrightarrow> \<not> unconsumed k f \<Longrightarrow> \<not> reissues c k \<Longrightarrow>
      \<not> unconsumed k (run_adapter_call c f)" for f c k
  proof -
    assume spent: "\<not> unconsumed k f" "\<not> reissues c k"
    obtain name i where k: "k = (name, i)" by (cases k)
    have "stores (row_spent name i) (key_spent name i) (run_adapter_call c f)"
      using spent k by (intro spent.run_call_keeps) (auto simp: unconsumed_iff reissues_def)
    then show "\<not> unconsumed k (run_adapter_call c f)" by (simp add: k unconsumed_iff)
  qed
qed

text \<open>
  Property C35: however the provider's calls interleave, with Redis failing and coming back, an artifact
  (an authorization code, a pushed request, a refresh token) that is not stored anew is consumed at
  most once.
\<close>

theorem artifact_consumed_once:
  assumes "payload_keys_ok (st_db st)" and "\<forall>c \<in> set calls. \<not> reissues c (name, i)"
  shows "uses_won run_adapter_call consumes (name, i) calls (idle_flow st) \<le> 1"
  using assms by (intro artifacts.at_most_one_win) (simp_all add: store_ok_def idle_flow_def)

text \<open>The second of two requests with the code fails.\<close>

definition code_store :: store where
  "code_store = \<lparr>st_db = empty_db,
     st_redis = [(main_key ''AuthorizationCode'' ''c'', JsonValue (JObj [(''grantId'', JStr ''g'')]), Some 1000)],
     st_redis_up = True\<rparr>"

definition code_calls :: "(adapter_env \<times> adapter_call) list" where
  "code_calls = [(\<lparr>av_now = 5, av_public_id = ''p''\<rparr>, AConsume ''AuthorizationCode'' ''c''),
     (\<lparr>av_now = 6, av_public_id = ''p''\<rparr>, AConsume ''AuthorizationCode'' ''c'')]"

lemma first_consume: "consumes (hd code_calls) (''AuthorizationCode'', ''c'') (idle_flow code_store)"
  by code_simp

theorem artifact_consumed_once_witness:
  "uses_won run_adapter_call consumes (''AuthorizationCode'', ''c'') code_calls (idle_flow code_store) = 1"
proof -
  have "uses_won run_adapter_call consumes (''AuthorizationCode'', ''c'') code_calls (idle_flow code_store) \<le> 1"
    by (rule artifact_consumed_once) (simp_all add: code_store_def empty_db_def payload_keys_ok_def code_calls_def reissues_def)
  moreover have "uses_won run_adapter_call consumes (''AuthorizationCode'', ''c'') code_calls (idle_flow code_store) \<ge> 1"
    using first_consume by (simp add: code_calls_def)
  ultimately show ?thesis by simp
qed

end
