(* ===== verification/RequestLimits.thy ===== *)
theory RequestLimits
  imports ClientSecretBridge AuditLog
begin

text \<open>
  What runs in front of a request of packages/server/src/middleware: the counters of
  token-rate-limiter.ts, admin-rate-limiter.ts, tenant-invite-rate-limiter.ts and
  tenant-user-rate-limiter.ts, and the session reset of prompt-login-reset.ts.

  A middleware either forwards the request, with the headers it has put on the response and what it
  stored for the handlers behind it, or replies itself. Log lines are left out.
\<close>

datatype 'a guarded =
    Forward "(string \<times> string) list" 'a
  | Reply nat "(string \<times> string) list" json

record http_request =
  hr_method :: string
  hr_path :: string
  hr_ip :: string
  hr_origin :: "string option"
  hr_authorization :: "string option"
  hr_cookie :: "string option"
  hr_body :: "json option"

definition rate_limit_headers :: "rate_limit_config \<Rightarrow> rate_limit_result \<Rightarrow> (string \<times> string) list" where
  "rate_limit_headers config result =
     [(''X-RateLimit-Limit'', show_int (rc_max config)),
      (''X-RateLimit-Remaining'', show_int (rr_remaining result))]"

subsection \<open>The token and introspection endpoints\<close>

text \<open>\<open>/^\\/[a-z0-9][a-z0-9-]*\<close> followed by a fixed end.\<close>

definition slug_path :: "string \<Rightarrow> string \<Rightarrow> bool" where
  "slug_path ending path =
     (case path of
        [] \<Rightarrow> False
      | c # rest \<Rightarrow>
          (let slug = takeWhile (\<lambda>x. is_lower x \<or> is_digit x \<or> x = CHR ''-'') rest
           in c = CHR ''/'' \<and> slug \<noteq> [] \<and> hd slug \<noteq> CHR ''-'' \<and> drop (length slug) rest = ending))"

definition token_path_regex :: "string \<Rightarrow> bool" where
  "token_path_regex = slug_path ''/token''"

definition introspection_path_regex :: "string \<Rightarrow> bool" where
  "introspection_path_regex = slug_path ''/token/introspection''"

definition max_client_key_length :: nat where
  "max_client_key_length = 255"

definition client_key_ok :: "string \<Rightarrow> bool" where
  "client_key_ok s = (length s > 0 \<and> length s \<le> max_client_key_length)"

definition basic_client_key :: "string option \<Rightarrow> string option" where
  "basic_client_key authorization =
     (case authorization of
        None \<Rightarrow> None
      | Some a \<Rightarrow>
          if length a > 6 \<and> to_lower (take 6 a) = ''basic ''
          then (let decoded = utf8_decode (base64url_decode (drop 6 a));
                    cid = (if CHR '':'' \<in> set decoded then takeWhile (\<lambda>c. c \<noteq> CHR '':'') decoded else [])
                in if client_key_ok cid then Some cid else None)
          else None)"

definition body_client_key :: "json option \<Rightarrow> string option" where
  "body_client_key body =
     (case body of
        None \<Rightarrow> None
      | Some b \<Rightarrow> (case json_get ''client_id'' b of
                     Some (JStr s) \<Rightarrow> if client_key_ok s then Some s else None
                   | _ \<Rightarrow> None))"

definition presented_client_id :: "http_request \<Rightarrow> string" where
  "presented_client_id req =
     (case body_client_key (hr_body req) of
        Some s \<Rightarrow> s
      | None \<Rightarrow> nullish (basic_client_key (hr_authorization req)) ''unknown'')"

definition token_ip_rate_limit :: rate_limit_config where
  "token_ip_rate_limit = \<lparr>rc_max = 300, rc_window_seconds = 300\<rparr>"

definition introspection_rate_limit :: rate_limit_config where
  "introspection_rate_limit = \<lparr>rc_max = 100, rc_window_seconds = 60\<rparr>"

definition introspection_ip_rate_limit :: rate_limit_config where
  "introspection_ip_rate_limit = \<lparr>rc_max = 600, rc_window_seconds = 60\<rparr>"

definition deny_rate_limited ::
    "http_request \<Rightarrow> (string \<times> string) list \<Rightarrow> int \<Rightarrow> string \<Rightarrow> 'a guarded" where
  "deny_rate_limited req headers retry_after description =
     Reply 429
       (headers @
        (case hr_origin req of
           None \<Rightarrow> []
         | Some origin \<Rightarrow> [(''Access-Control-Allow-Origin'', origin), (''Vary'', ''Origin'')]) @
        [(''Retry-After'', show_int retry_after)])
       (JObj [(''error'', JStr ''rate_limit_exceeded''), (''error_description'', JStr description),
              (''retry_after'', JNum retry_after)])"

text \<open>
  The shape of both endpoints: the aggregate counter of the address, then the counter of the address
  and the presented client.
\<close>

definition endpoint_rate_limiter ::
    "(string \<Rightarrow> bool) \<Rightarrow> string \<Rightarrow> rate_limit_config \<Rightarrow> rate_limit_config \<Rightarrow> string \<Rightarrow> time \<Rightarrow> http_request \<Rightarrow>
     (store, unit guarded) op" where
  "endpoint_rate_limiter path_ok family aggregate_config config description now req =
     (if hr_method req \<noteq> ''POST'' \<or> \<not> path_ok (hr_path req) then return_op (Forward [] ())
      else
        andthen (check_rate_limit now (''ratelimit:'' @ family @ '':ip:'' @ hr_ip req) aggregate_config) (\<lambda>aggregate.
        if \<not> rr_allowed aggregate
        then return_op (deny_rate_limited req [] (rr_retry_after aggregate) description)
        else
          andthen (check_rate_limit now
              (''ratelimit:'' @ family @ '':'' @ hr_ip req @ '':'' @ presented_client_id req) config) (\<lambda>result.
          return_op
            (if \<not> rr_allowed result
             then deny_rate_limited req (rate_limit_headers config result) (rr_retry_after result) description
             else Forward (rate_limit_headers config result) ()))))"

definition token_rate_limiter :: "time \<Rightarrow> http_request \<Rightarrow> (store, unit guarded) op" where
  "token_rate_limiter =
     endpoint_rate_limiter token_path_regex ''token'' token_ip_rate_limit token_rate_limit
       ''Too many token requests. Please try again later.''"

definition introspection_rate_limiter :: "time \<Rightarrow> http_request \<Rightarrow> (store, unit guarded) op" where
  "introspection_rate_limiter =
     endpoint_rate_limiter introspection_path_regex ''introspect'' introspection_ip_rate_limit
       introspection_rate_limit ''Too many introspection requests. Please try again later.''"

subsection \<open>Administrative writes\<close>

definition too_many_requests :: "(string \<times> string) list \<Rightarrow> int \<Rightarrow> string \<Rightarrow> 'a guarded" where
  "too_many_requests headers retry_after message =
     Reply 429 (headers @ [(''Retry-After'', show_int retry_after)])
       (JObj [(''error'', JStr ''Too Many Requests''), (''message'', JStr message),
              (''retry_after'', JNum retry_after)])"

definition admin_path_prefix :: string where
  "admin_path_prefix = ''/api/admin/''"

definition admin_write_methods :: "string list" where
  "admin_write_methods = [''POST'', ''PUT'', ''PATCH'', ''DELETE'']"

definition admin_rate_limit :: rate_limit_config where
  "admin_rate_limit = \<lparr>rc_max = 60, rc_window_seconds = 60\<rparr>"

definition admin_rate_limiter :: "time \<Rightarrow> http_request \<Rightarrow> (store, unit guarded) op" where
  "admin_rate_limiter now req =
     (if \<not> starts_with admin_path_prefix (hr_path req) \<or> hr_method req \<notin> set admin_write_methods
      then return_op (Forward [] ())
      else
        andthen (check_rate_limit now (''ratelimit:admin:'' @ hr_ip req) admin_rate_limit) (\<lambda>result.
        return_op
          (if \<not> rr_allowed result
           then too_many_requests (rate_limit_headers admin_rate_limit result) (rr_retry_after result)
             ''Admin API rate limit exceeded. Please try again later.''
           else Forward (rate_limit_headers admin_rate_limit result) ())))"

subsection \<open>Tenant actors\<close>

record service_actor =
  sa_client_id :: string
  sa_client_name :: string
  sa_application_id :: string
  sa_organization_id :: string
  sa_display_name :: string

record user_actor =
  ua_user_id :: string
  ua_application_id :: string
  ua_organization_id :: string
  ua_display_name :: string
  ua_permissions :: "string list"

datatype tenant_actor = TenantService service_actor | TenantUser user_actor

definition tenant_invite_rate_limit :: rate_limit_config where
  "tenant_invite_rate_limit = \<lparr>rc_max = 30, rc_window_seconds = 3600\<rparr>"

definition tenant_user_write_rate_limit :: rate_limit_config where
  "tenant_user_write_rate_limit = \<lparr>rc_max = 300, rc_window_seconds = 3600\<rparr>"

definition tenant_user_delete_rate_limit :: rate_limit_config where
  "tenant_user_delete_rate_limit = \<lparr>rc_max = 60, rc_window_seconds = 3600\<rparr>"

definition tenant_invite_key :: "tenant_actor \<Rightarrow> string" where
  "tenant_invite_key actor =
     (case actor of
        TenantUser u \<Rightarrow> ''ratelimit:tenant-invite:user:'' @ ua_organization_id u @ '':'' @ ua_user_id u
      | TenantService s \<Rightarrow> ''ratelimit:tenant-invite:client:'' @ sa_organization_id s @ '':'' @ sa_client_id s)"

datatype user_bucket = WriteBucket | DeleteBucket

definition bucket_name :: "user_bucket \<Rightarrow> string" where
  "bucket_name b = (case b of WriteBucket \<Rightarrow> ''write'' | DeleteBucket \<Rightarrow> ''delete'')"

definition tenant_user_key :: "user_bucket \<Rightarrow> tenant_actor \<Rightarrow> string" where
  "tenant_user_key b actor = ''ratelimit:tenant-user:'' @ bucket_name b @ '':'' @
     (case actor of
        TenantService s \<Rightarrow> sa_organization_id s @ '':'' @ sa_client_id s
      | TenantUser u \<Rightarrow> ua_organization_id u @ '':user:'' @ ua_user_id u)"

definition counted :: "rate_limit_config \<Rightarrow> string \<Rightarrow> rate_limit_result \<Rightarrow> unit guarded" where
  "counted config message result =
     (if \<not> rr_allowed result
      then too_many_requests (rate_limit_headers config result) (rr_retry_after result) message
      else Forward (rate_limit_headers config result) ())"

definition tenant_invite_rate_limiter :: "time \<Rightarrow> tenant_actor option \<Rightarrow> (store, unit guarded) op" where
  "tenant_invite_rate_limiter now actor =
     (case actor of
        None \<Rightarrow> return_op (Forward [] ())
      | Some a \<Rightarrow>
          andthen (check_rate_limit now (tenant_invite_key a) tenant_invite_rate_limit) (\<lambda>result.
          return_op (counted tenant_invite_rate_limit
            ''Invitation rate limit exceeded. Please try again later.'' result)))"

text \<open>Deletes fail closed: without a counter the answer is 503.\<close>

definition create_limiter ::
    "user_bucket \<Rightarrow> rate_limit_config \<Rightarrow> time \<Rightarrow> tenant_actor option \<Rightarrow> (store, unit guarded) op" where
  "create_limiter b config now actor =
     (case actor of
        None \<Rightarrow> return_op (Forward [] ())
      | Some a \<Rightarrow>
          (let decide = (\<lambda>result. return_op (counted config
                 ''Tenant user rate limit exceeded. Please try again later.'' result))
           in if b = DeleteBucket
              then catch_op (andthen (check_rate_limit_strict now (tenant_user_key b a) config) decide)
                     (\<lambda>_. return_op (Reply 503 [] (JObj [(''error'', JStr ''Service Unavailable'')])))
              else andthen (check_rate_limit now (tenant_user_key b a) config) decide))"

definition tenant_user_write_rate_limiter :: "time \<Rightarrow> tenant_actor option \<Rightarrow> (store, unit guarded) op" where
  "tenant_user_write_rate_limiter = create_limiter WriteBucket tenant_user_write_rate_limit"

definition tenant_user_delete_rate_limiter :: "time \<Rightarrow> tenant_actor option \<Rightarrow> (store, unit guarded) op" where
  "tenant_user_delete_rate_limiter = create_limiter DeleteBucket tenant_user_delete_rate_limit"

subsection \<open>Forced re-authentication\<close>

definition prompt_has_login :: "string option \<Rightarrow> bool" where
  "prompt_has_login prompt =
     (truthy prompt \<and> ''login'' \<in> set (filter (\<lambda>v. v \<noteq> []) (split_on (CHR '' '') (the prompt))))"

definition is_initial_authorize :: "string \<Rightarrow> string \<Rightarrow> bool" where
  "is_initial_authorize verb path =
     (if verb \<noteq> ''GET'' \<and> verb \<noteq> ''POST'' then False
      else (case path of
              [] \<Rightarrow> False
            | c # rest \<Rightarrow>
                (let segment = takeWhile (\<lambda>x. x \<noteq> CHR ''/'') rest; ending = dropWhile (\<lambda>x. x \<noteq> CHR ''/'') rest
                 in c = CHR ''/'' \<and> segment \<noteq> [] \<and> (ending = ''/auth'' \<or> ending = ''/auth/''))))"

text \<open>The value of a query parameter; a repeated parameter is an array.\<close>

datatype query_parameter = OneValue string | ManyValues "string list"

definition prompt_value :: "query_parameter option \<Rightarrow> string option" where
  "prompt_value prompt =
     map_option (\<lambda>q. case q of
        OneValue s \<Rightarrow> s
      | ManyValues vs \<Rightarrow> concat (case vs of [] \<Rightarrow> [] | v # rest \<Rightarrow> v # List.map (\<lambda>x. CHR '' '' # x) rest)) prompt"

definition cookie_name_of :: "string \<Rightarrow> string" where
  "cookie_name_of pair = trim (takeWhile (\<lambda>c. c \<noteq> CHR ''='') pair)"

definition session_cookie :: "string \<Rightarrow> string \<Rightarrow> bool" where
  "session_cookie cookie pair =
     (cookie_name_of pair = cookie \<or> starts_with (cookie @ ''.'') (cookie_name_of pair))"

definition kept_cookies :: "string \<Rightarrow> string \<Rightarrow> string list" where
  "kept_cookies cookie header =
     filter (\<lambda>pair. pair \<noteq> [] \<and> \<not> session_cookie cookie pair)
       (List.map trim (split_on (CHR '';'') header))"

definition strip_session_cookies_from_request :: "string \<Rightarrow> http_request \<Rightarrow> http_request" where
  "strip_session_cookies_from_request cookie req =
     (if \<not> truthy (hr_cookie req) then req
      else (let kept = kept_cookies cookie (the (hr_cookie req))
            in req\<lparr>hr_cookie := (if length kept = 0 then None else Some (semicolon_join kept))\<rparr>))"

text \<open>The two cookies the browser is told to drop, by name.\<close>

definition clear_session_cookies :: "string \<Rightarrow> string list" where
  "clear_session_cookies cookie = [cookie, cookie @ ''.sig'']"

definition session_reset_event :: "http_request \<Rightarrow> audit_entry" where
  "session_reset_event req =
     (blank_entry ''auth.prompt_login.session_reset'' ''authentication'')
       \<lparr>ae_description := Some ''Session cookies cleared on prompt=login (forced re-authentication)'',
        ae_ip_address := Some (hr_ip req)\<rparr>"

definition prompt_login_reset ::
    "string \<Rightarrow> query_parameter option \<Rightarrow> http_request \<Rightarrow> (flow, http_request \<times> string list) op" where
  "prompt_login_reset cookie prompt req =
     (if \<not> is_initial_authorize (hr_method req) (hr_path req) then return_op (req, [])
      else if \<not> prompt_has_login (prompt_value prompt) then return_op (req, [])
      else andthen (write_audit_log (session_reset_event req)) (\<lambda>_.
           return_op (strip_session_cookies_from_request cookie req, clear_session_cookies cookie)))"

end
