(* ===== verification/TenantGuards.thy ===== *)
theory TenantGuards
  imports RequestLimits AdminAuth
begin

text \<open>
  The middleware of packages/server/src/middleware that ties a request to its organization:
  require-existing-organization.ts, require-user-organization.ts,
  oidc-client-tenant.ts, oidc-preflight-cors.ts and tenant-user-auth.ts.

  The provider's token models are parameters: a lookup fails, knows no such token, or gives the
  token's fields. zod's UUID test and the URL parser are parameters too. The security decisions and
  protocol observations these files record beside their answer are left out, as is the name of the
  decision point a denial is filed under. \<open>ctx.throw\<close> is an \<open>HttpError\<close>.
\<close>

subsection \<open>The organization of a request\<close>

definition organization_not_found :: "'a guarded" where
  "organization_not_found = Reply 404 [] (JObj [(''error'', JStr ''Organization not found'')])"

definition require_existing_organization ::
    "org_env \<Rightarrow> (string \<Rightarrow> bool) \<Rightarrow> string \<Rightarrow> (flow, unit guarded) op" where
  "require_existing_organization env is_uuid org_id =
     andthen (if is_uuid org_id then get_organization_by_id env org_id else return_op None) (\<lambda>org.
     return_op (if org = None then organization_not_found else Forward [] ()))"

definition user_not_found :: "'a guarded" where
  "user_not_found = Reply 404 [] (JObj [(''error'', JStr ''User not found'')])"

definition require_user_organization ::
    "(string \<Rightarrow> bool) \<Rightarrow> string \<Rightarrow> string \<Rightarrow> (flow, unit guarded) op" where
  "require_user_organization is_uuid org_id user_id =
     (if \<not> (is_uuid org_id \<and> is_uuid user_id) then return_op user_not_found
      else andthen (query (select (find_user_by_id user_id))) (\<lambda>u.
           return_op (case u of
               None \<Rightarrow> user_not_found
             | Some r \<Rightarrow> if u_organization_id r \<noteq> org_id then user_not_found else Forward [] ())))"

subsection \<open>The client of a request\<close>

definition max_client_identifier :: nat where
  "max_client_identifier = 255"

definition max_basic_header_length :: nat where
  "max_basic_header_length = 4096"

definition max_bearer_header_length :: nat where
  "max_bearer_header_length = 8192"

definition bounded_client_id :: "json option \<Rightarrow> string option" where
  "bounded_client_id v =
     (case v of
        Some (JStr s) \<Rightarrow> if length s = 0 \<or> length s > max_client_identifier then None else Some s
      | _ \<Rightarrow> None)"

definition basic_client_id :: "string option \<Rightarrow> string option" where
  "basic_client_id authorization =
     (case authorization of
        None \<Rightarrow> None
      | Some a \<Rightarrow>
          if \<not> starts_with ''Basic '' a \<or> length a > max_basic_header_length then None
          else (let decoded = utf8_decode (base64url_decode (drop 6 a))
                in if CHR '':'' \<notin> set decoded then None
                   else bounded_client_id (Some (JStr (takeWhile (\<lambda>c. c \<noteq> CHR '':'') decoded)))))"

definition body_field :: "string \<Rightarrow> json option \<Rightarrow> json option" where
  "body_field k body = (case body of Some (JObj fs) \<Rightarrow> map_of fs k | _ \<Rightarrow> None)"

definition body_client_id :: "json option \<Rightarrow> string option" where
  "body_client_id body = bounded_client_id (body_field ''client_id'' body)"

text \<open>\<open>/^Bearer ([^\\s]+)$/i\<close>.\<close>

definition userinfo_bearer :: "string option \<Rightarrow> string option" where
  "userinfo_bearer authorization =
     (case authorization of
        None \<Rightarrow> None
      | Some a \<Rightarrow>
          if length a > max_bearer_header_length then None
          else if to_lower (take 7 a) = ''bearer '' \<and> drop 7 a \<noteq> [] \<and> list_all (\<lambda>c. \<not> is_space c) (drop 7 a)
          then Some (drop 7 a) else None)"

definition form_access_token :: "json option \<Rightarrow> string option" where
  "form_access_token body =
     (case body_field ''access_token'' body of
        Some (JStr t) \<Rightarrow> if length t > 0 \<and> length t \<le> max_bearer_header_length then Some t else None
      | _ \<Rightarrow> None)"

definition is_userinfo_request :: "http_request \<Rightarrow> string option \<Rightarrow> bool" where
  "is_userinfo_request req slug =
     (if hr_method req \<noteq> ''GET'' \<and> hr_method req \<noteq> ''POST'' then False
      else if \<not> truthy slug then False
      else (let relative = drop (length (the slug) + 1) (hr_path req)
            in relative = ''/me'' \<or> relative = ''/userinfo''))"

definition userinfo_token :: "http_request \<Rightarrow> string option" where
  "userinfo_token req =
     (let header_token = userinfo_bearer (hr_authorization req);
          body_token = (if hr_method req = ''POST'' then form_access_token (hr_body req) else None)
      in if header_token \<noteq> None \<and> body_token \<noteq> None then None
         else case header_token of Some t \<Rightarrow> Some t | None \<Rightarrow> body_token)"

text \<open>Query, body and Basic identifiers, each once, in that order.\<close>

definition presented_clients :: "json option \<Rightarrow> http_request \<Rightarrow> string list" where
  "presented_clients query_client req =
     js_set (List.map_filter id [bounded_client_id query_client, body_client_id (hr_body req),
       basic_client_id (hr_authorization req)])"

fun check_presented :: "time \<Rightarrow> string \<Rightarrow> string list \<Rightarrow> (flow, unit) op" where
  "check_presented now org [] = return_op ()"
| "check_presented now org (cid # rest) =
     andthen (get_client_by_client_id now cid) (\<lambda>client.
     case client of
       None \<Rightarrow> throw_op (HttpError 404)
     | Some c \<Rightarrow>
         (if cl_organization_id c \<noteq> org then throw_op (HttpError 404) else check_presented now org rest))"

definition reject_userinfo_token :: "'a guarded" where
  "reject_userinfo_token =
     Reply 401 [(''WWW-Authenticate'', ''Bearer error=\"invalid_token\"'')]
       (JObj [(''error'', JStr ''invalid_token'')])"

text \<open>\<open>AccessToken.find\<close> as UserInfo uses it: no token, or the token's \<open>clientId\<close>.\<close>

type_synonym opaque_lookup = "string \<Rightarrow> app_error + json option option"

definition check_userinfo_client ::
    "time \<Rightarrow> string \<Rightarrow> json option \<Rightarrow> (flow, unit guarded) op" where
  "check_userinfo_client now org client_id =
     andthen (case bounded_client_id client_id of
                None \<Rightarrow> return_op None
              | Some cid \<Rightarrow> get_client_by_client_id now cid) (\<lambda>client.
     return_op
       (case client of
          None \<Rightarrow> reject_userinfo_token
        | Some c \<Rightarrow>
            if cl_status c \<noteq> ClientActive \<or> cl_organization_id c \<noteq> org then reject_userinfo_token
            else Forward [] ()))"

definition oidc_client_tenant_binding ::
    "time \<Rightarrow> opaque_lookup \<Rightarrow> string option \<Rightarrow> string option \<Rightarrow> json option \<Rightarrow> http_request \<Rightarrow>
     (flow, unit guarded) op" where
  "oidc_client_tenant_binding now find_token org slug query_client req =
     (if \<not> truthy org then throw_op (HttpError 500)
      else
        andthen (check_presented now (the org) (presented_clients query_client req)) (\<lambda>_.
        if \<not> is_userinfo_request req slug then return_op (Forward [] ())
        else (case userinfo_token req of
                None \<Rightarrow> return_op (Forward [] ())
              | Some t \<Rightarrow>
                  (case find_token t of
                     Inl e \<Rightarrow> throw_op e
                   | Inr None \<Rightarrow> return_op (Forward [] ())
                   | Inr (Some client_id) \<Rightarrow> check_userinfo_client now (the org) client_id))))"

subsection \<open>Cross-origin requests\<close>

definition open_cors_paths :: "string list" where
  "open_cors_paths = [''/jwks'', ''/.well-known/openid-configuration'',
     ''/.well-known/oauth-authorization-server'']"

definition is_open_cors_path :: "string \<Rightarrow> string \<Rightarrow> bool" where
  "is_open_cors_path full_path slug = (drop (length slug + 1) full_path \<in> set open_cors_paths)"

definition is_origin_allowed :: "url_parser \<Rightarrow> string \<Rightarrow> client_row \<Rightarrow> bool" where
  "is_origin_allowed parse origin c =
     (origin \<in> set (cl_allowed_origins c) \<or>
      list_ex (\<lambda>uri. case parse uri of
          None \<Rightarrow> False
        | Some u \<Rightarrow> wu_origin u \<noteq> ''null'' \<and> wu_origin u = origin) (cl_redirect_uris c))"

definition set_cors_headers :: "string \<Rightarrow> (string \<times> string) list" where
  "set_cors_headers origin = [(''Access-Control-Allow-Origin'', origin), (''Vary'', ''Origin'')]"

definition set_preflight_headers :: "(string \<times> string) list" where
  "set_preflight_headers =
     [(''Access-Control-Allow-Methods'', ''GET, POST, OPTIONS''),
      (''Access-Control-Allow-Headers'', ''Authorization, Content-Type, DPoP''),
      (''Access-Control-Max-Age'', ''3600'')]"

text \<open>
  \<open>/^Bearer\\s+(\\S+)$/i\<close>, then \<open>payload->>'clientId'\<close> of the live row: the text of a
  JSON value, no text for \<open>null\<close>.
\<close>

definition cors_bearer :: "string \<Rightarrow> string option" where
  "cors_bearer header =
     (let token = dropWhile is_space (drop 6 header)
      in if to_lower (take 6 header) = ''bearer'' \<and> drop 6 header \<noteq> [] \<and> is_space (hd (drop 6 header)) \<and>
            token \<noteq> [] \<and> list_all (\<lambda>c. \<not> is_space c) token
         then Some token else None)"

definition payload_text :: "json option \<Rightarrow> string option" where
  "payload_text v =
     (case v of None \<Rightarrow> None | Some JNull \<Rightarrow> None | Some (JStr s) \<Rightarrow> Some s | Some j \<Rightarrow> Some (json_stringify j))"

definition token_client_row :: "time \<Rightarrow> string \<Rightarrow> payload_row \<Rightarrow> bool" where
  "token_client_row now token r =
     (pl_id r = token \<and> pl_type r = ''AccessToken'' \<and>
      (case pl_expires_at r of None \<Rightarrow> True | Some t \<Rightarrow> t > now))"

definition resolve_client_id_from_bearer_token :: "time \<Rightarrow> string option \<Rightarrow> db \<Rightarrow> string option" where
  "resolve_client_id_from_bearer_token now header d =
     (if \<not> truthy header then None
      else (case cors_bearer (the header) of
              None \<Rightarrow> None
            | Some token \<Rightarrow>
                (case find_row (token_client_row now token) (db_oidc_payloads d) of
                   None \<Rightarrow> None
                 | Some r \<Rightarrow>
                     (case payload_text (map_of (pl_payload r) ''clientId'') of
                        None \<Rightarrow> None
                      | Some cid \<Rightarrow> if length cid > 0 then Some cid else None))))"

definition cors_client_id :: "time \<Rightarrow> http_request \<Rightarrow> (flow, string option) op" where
  "cors_client_id now req =
     (case body_field ''client_id'' (hr_body req) of
        Some (JStr cid) \<Rightarrow>
          (if length cid > 0 then return_op (Some cid)
           else query (select (resolve_client_id_from_bearer_token now (hr_authorization req))))
      | _ \<Rightarrow> query (select (resolve_client_id_from_bearer_token now (hr_authorization req))))"

definition oidc_preflight_cors ::
    "url_parser \<Rightarrow> bool \<Rightarrow> time \<Rightarrow> string \<Rightarrow> http_request \<Rightarrow> (flow, unit guarded) op" where
  "oidc_preflight_cors parse development now slug req =
     (if \<not> truthy (hr_origin req) then return_op (Forward [] ())
      else let origin = the (hr_origin req)
      in if hr_method req = ''OPTIONS''
         then return_op (Reply 204 (set_cors_headers origin @ set_preflight_headers) JNull)
         else if is_open_cors_path (hr_path req) slug then return_op (Forward (set_cors_headers origin) ())
         else if development then return_op (Forward (set_cors_headers origin) ())
         else
           andthen (cors_client_id now req) (\<lambda>client_id.
           case client_id of
             None \<Rightarrow> return_op (Forward [] ())
           | Some cid \<Rightarrow>
               andthen (catch_op (get_client_by_client_id now cid) (\<lambda>_. return_op None)) (\<lambda>client.
               return_op (Forward
                 (case client of
                    None \<Rightarrow> []
                  | Some c \<Rightarrow> if is_origin_allowed parse origin c then set_cors_headers origin else []) ()))))"

subsection \<open>The actor of a tenant request\<close>

record service_token =
  st_client_id :: "string option"
  st_scopes :: "string list"

record user_token =
  ut_account_id :: "string option"
  ut_client_id :: "string option"
  ut_scopes :: "string list"

record tenant_token_provider =
  tp_client_credentials :: "string \<Rightarrow> app_error + service_token option"
  tp_access_token :: "string \<Rightarrow> app_error + user_token option"

datatype tenant_actor_kind = ServiceKind | UserKind

record tenant_auth_options =
  to_provider :: "tenant_token_provider option"
  to_allowed_actor_kinds :: "tenant_actor_kind list"
  to_required_scope :: string
  to_required_permission :: "string option"

definition tenant_display_name :: "string option \<Rightarrow> string option \<Rightarrow> string \<Rightarrow> string" where
  "tenant_display_name given family fallback =
     (let parts = map the (filter truthy [given, family]);
          name = concat (case parts of [] \<Rightarrow> [] | p # rest \<Rightarrow> p # List.map (\<lambda>x. CHR '' '' # x) rest)
      in if length name > 0 then name else fallback)"

definition load_admin_application_id :: "service_env \<Rightarrow> (flow, string option) op" where
  "load_admin_application_id env =
     andthen (get_application_by_slug env ''porta-admin'') (\<lambda>a. return_op (map_option ap_id a))"

definition load_super_admin_organization_id :: "(flow, string option) op" where
  "load_super_admin_organization_id =
     andthen (query (select find_super_admin_organization)) (\<lambda>o'. return_op (map_option og_id o'))"

definition is_tenant_boundary :: "service_env \<Rightarrow> string \<Rightarrow> string \<Rightarrow> (flow, bool) op" where
  "is_tenant_boundary env org app =
     andthen (load_admin_application_id env) (\<lambda>admin_app.
     andthen load_super_admin_organization_id (\<lambda>super_org.
     return_op
       (if \<not> truthy admin_app \<or> \<not> truthy super_org then False
        else app \<noteq> the admin_app \<and> org \<noteq> the super_org)))"

definition forbidden :: "'a guarded" where
  "forbidden = Reply 403 [] (JObj [(''error'', JStr ''Forbidden''),
     (''message'', JStr ''The requested operation is not permitted'')])"

definition invalid_token :: "'a guarded" where
  "invalid_token = Reply 401 [] (JObj [(''error'', JStr ''Invalid token''),
     (''message'', JStr ''Token validation failed'')])"

definition authentication_required :: "'a guarded" where
  "authentication_required = Reply 401 [] (JObj [(''error'', JStr ''Authentication required''),
     (''message'', JStr ''Missing or invalid Authorization header'')])"

definition service_client_ok :: "string \<Rightarrow> string \<Rightarrow> client_row option \<Rightarrow> bool" where
  "service_client_ok org scope client =
     (case client of
        None \<Rightarrow> False
      | Some c \<Rightarrow> cl_status c = ClientActive \<and> cl_client_type c = Confidential \<and>
          cl_organization_id c = org \<and> scope \<in> set (split_on (CHR '' '') (cl_scope c)))"

definition authorize_service ::
    "service_env \<Rightarrow> string \<Rightarrow> service_token \<Rightarrow> string \<Rightarrow> (flow, service_actor guarded) op" where
  "authorize_service env org token scope =
     (if \<not> truthy (st_client_id token) \<or> scope \<notin> set (st_scopes token) then return_op forbidden
      else
        andthen (get_client_by_client_id (sv_now env) (the (st_client_id token))) (\<lambda>client.
        if \<not> service_client_ok org scope client then return_op forbidden
        else let c = the client in
          andthen (is_tenant_boundary env org (cl_application_id c)) (\<lambda>inside.
          return_op
            (if \<not> inside then forbidden
             else Forward [] \<lparr>sa_client_id = cl_client_id c, sa_client_name = cl_client_name c,
                    sa_application_id = cl_application_id c, sa_organization_id = org,
                    sa_display_name = cl_client_name c\<rparr>))))"

definition user_client_ok :: "string \<Rightarrow> client_row option \<Rightarrow> bool" where
  "user_client_ok org client =
     (case client of
        None \<Rightarrow> False
      | Some c \<Rightarrow> cl_status c = ClientActive \<and> cl_organization_id c = org)"

definition authorize_user ::
    "service_env \<Rightarrow> string \<Rightarrow> user_token \<Rightarrow> string \<Rightarrow> (flow, user_actor guarded) op" where
  "authorize_user env org token permission =
     (if \<not> truthy (ut_account_id token) \<or> \<not> truthy (ut_client_id token) then return_op invalid_token
      else
        andthen (get_client_by_client_id (sv_now env) (the (ut_client_id token))) (\<lambda>client.
        if \<not> user_client_ok org client then return_op forbidden
        else let c = the client in
          andthen (is_tenant_boundary env org (cl_application_id c)) (\<lambda>inside.
          if \<not> inside then return_op forbidden
          else
            andthen (find_user_for_oidc (the (ut_account_id token))) (\<lambda>found.
            case found of
              None \<Rightarrow> return_op forbidden
            | Some u \<Rightarrow>
                (if u_organization_id u \<noteq> org then return_op forbidden
                 else
                   andthen (build_permission_claims env (u_id u) (cl_application_id c)) (\<lambda>permissions.
                   return_op
                     (if permission \<notin> set permissions then forbidden
                      else Forward [] \<lparr>ua_user_id = u_id u, ua_application_id = cl_application_id c,
                             ua_organization_id = org,
                             ua_display_name = tenant_display_name (u_profile u GivenName)
                               (u_profile u FamilyName) (u_email u),
                             ua_permissions = permissions\<rparr>)))))))"

definition as_actor :: "('a \<Rightarrow> tenant_actor) \<Rightarrow> 'a guarded \<Rightarrow> tenant_actor guarded" where
  "as_actor k g = (case g of Forward hs a \<Rightarrow> Forward hs (k a) | Reply s hs b \<Rightarrow> Reply s hs b)"

text \<open>A lookup that throws counts as no token.\<close>

definition found_token :: "app_error + 'a option \<Rightarrow> 'a option" where
  "found_token r = (case r of Inl _ \<Rightarrow> None | Inr t \<Rightarrow> t)"

definition require_tenant_actor_auth ::
    "service_env \<Rightarrow> tenant_auth_options \<Rightarrow> string option \<Rightarrow> string \<Rightarrow> (flow, tenant_actor guarded) op" where
  "require_tenant_actor_auth env options org_param header =
     (let scope = to_required_scope options;
          permission = nullish (to_required_permission options) scope
      in case to_provider options of
           None \<Rightarrow> return_op (Reply 500 [] (JObj [(''error'', JStr ''Server configuration error'')]))
         | Some provider \<Rightarrow>
             (if \<not> truthy org_param then return_op forbidden
              else if \<not> starts_with ''Bearer '' header then return_op authentication_required
              else let org = the org_param; token = drop 7 header
              in if length token = 0 then return_op invalid_token
                 else case found_token (tp_client_credentials provider token) of
                        Some st \<Rightarrow>
                          (if ServiceKind \<notin> set (to_allowed_actor_kinds options) then return_op forbidden
                           else andthen (authorize_service env org st scope)
                                  (\<lambda>g. return_op (as_actor TenantService g)))
                      | None \<Rightarrow>
                          (case found_token (tp_access_token provider token) of
                             Some ut \<Rightarrow>
                               (if UserKind \<notin> set (to_allowed_actor_kinds options) then return_op forbidden
                                else andthen (authorize_user env org ut permission)
                                       (\<lambda>g. return_op (as_actor TenantUser g)))
                           | None \<Rightarrow> return_op invalid_token)))"

end
