(* ===== verification/SecurityDecisions.thy ===== *)
theory SecurityDecisions
  imports TenantGuards
begin

text \<open>
  packages/server/src/security: decision-event.ts (the schema of a terminal security decision and its
  protected references), decision-context.ts (what a request records and its single emission) and
  transport-decision.ts (parser failures before a request exists); with them
  middleware/error-handler.ts, which turns a thrown error into a response and its decision.

  SHA-256, HMAC and HKDF are parameters (\<open>node:crypto\<close>), and so are zod's UUID and date-time tests.
  Closed vocabularies are datatypes, so the enumeration checks of the schema are types here.
\<close>

subsection \<open>The event\<close>

datatype decision_reason =
    Allowed | AuthenticationRequired | AuthenticationRejected | MembershipRequired | PermissionRequired
  | ResourceNotFound | MalformedBody | BodyTooLarge | SchemaInvalid | HandlerFailed
  | TransportParseFailed | MethodNotAllowed | RouteNotFound

datatype reference_domain = ActorDomain | TenantDomain | ResourceDomain | SourceDomain

datatype decision_surface = AdminApi | PublicAuth | TenantApi | TransportSurface

datatype decision_method = MGet | MHead | MPost | MPut | MDelete | MPatch | MUnknown

datatype decision_outcome = Allow | Deny | Error

datatype decision_point =
    AtTransport | AtValidation | AtAuthentication | AtMembership | AtPermission | AtResource | AtHandler

record decision_detail =
  dd_resource_type :: "string option"
  dd_permissions :: "string list option"
  dd_validation_schema_id :: "string option"
  dd_issue_count :: "int option"

record security_decision_event =
  ev_occurred_at :: string
  ev_request_id :: string
  ev_surface :: decision_surface
  ev_method :: decision_method
  ev_route_template :: string
  ev_status_code :: int
  ev_outcome :: decision_outcome
  ev_decision_point :: decision_point
  ev_reason_code :: decision_reason
  ev_reference_key_id :: "string option"
  ev_references :: "reference_domain \<Rightarrow> string option"
  ev_detail :: "decision_detail option"

definition reference_domains :: "reference_domain list" where
  "reference_domains = [ActorDomain, TenantDomain, ResourceDomain, SourceDomain]"

definition domain_name :: "reference_domain \<Rightarrow> string" where
  "domain_name d = (case d of ActorDomain \<Rightarrow> ''actor'' | TenantDomain \<Rightarrow> ''tenant''
     | ResourceDomain \<Rightarrow> ''resource'' | SourceDomain \<Rightarrow> ''source'')"

text \<open>\<open>/^[a-z][set]{0,n}$/\<close>.\<close>

definition label_ok :: "string \<Rightarrow> nat \<Rightarrow> string \<Rightarrow> bool" where
  "label_ok extra n s =
     (case s of [] \<Rightarrow> False
      | c # rest \<Rightarrow> is_lower c \<and> length rest \<le> n \<and>
          list_all (\<lambda>x. is_lower x \<or> is_digit x \<or> x \<in> set extra) rest)"

definition opt_ok :: "('a \<Rightarrow> bool) \<Rightarrow> 'a option \<Rightarrow> bool" where
  "opt_ok P v = (case v of None \<Rightarrow> True | Some x \<Rightarrow> P x)"

definition detail_ok :: "decision_detail \<Rightarrow> bool" where
  "detail_ok d =
     (opt_ok (label_ok ''-'' 63) (dd_resource_type d) \<and>
      opt_ok (\<lambda>ps. list_all (label_ok '':*_-'' 149) ps \<and> length ps \<le> 16) (dd_permissions d) \<and>
      opt_ok (label_ok ''.-'' 63) (dd_validation_schema_id d) \<and>
      opt_ok (\<lambda>n. 1 \<le> n \<and> n \<le> 100) (dd_issue_count d))"

text \<open>\<open>/^\\/[A-Za-z0-9:_/*.-]+$/\<close> without \<open>..\<close> and \<open>//\<close>.\<close>

definition route_char :: "char \<Rightarrow> bool" where
  "route_char c = (is_upper c \<or> is_lower c \<or> is_digit c \<or> c \<in> set '':_/*.-'')"

fun repeats :: "char \<Rightarrow> string \<Rightarrow> bool" where
  "repeats c (x # y # rest) = ((x = c \<and> y = c) \<or> repeats c (y # rest))"
| "repeats c _ = False"

definition route_template_ok :: "string \<Rightarrow> bool" where
  "route_template_ok s =
     ((case s of [] \<Rightarrow> False | c # rest \<Rightarrow> c = CHR ''/'' \<and> rest \<noteq> [] \<and> list_all route_char rest) \<and>
      \<not> repeats (CHR ''.'') s \<and> \<not> repeats (CHR ''/'') s)"

definition hex_digit :: "char \<Rightarrow> bool" where
  "hex_digit c = (is_digit c \<or> c \<in> set ''abcdef'')"

definition prefixed_hex :: "string \<Rightarrow> nat \<Rightarrow> string \<Rightarrow> bool" where
  "prefixed_hex label n s =
     (starts_with label s \<and> length s = length label + n \<and> list_all hex_digit (drop (length label) s))"

definition reference_ok :: "string \<Rightarrow> bool" where
  "reference_ok = prefixed_hex ''hmac-sha256:'' 64"

definition key_id_ok :: "string \<Rightarrow> bool" where
  "key_id_ok = prefixed_hex ''sha256:'' 16"

definition expected_outcome :: "int \<Rightarrow> decision_outcome" where
  "expected_outcome status = (if status \<ge> 500 then Error else if status \<ge> 400 then Deny else Allow)"

definition required_decision_point :: "decision_reason \<Rightarrow> decision_point" where
  "required_decision_point r =
     (case r of
        Allowed \<Rightarrow> AtHandler
      | AuthenticationRequired \<Rightarrow> AtAuthentication
      | AuthenticationRejected \<Rightarrow> AtAuthentication
      | MembershipRequired \<Rightarrow> AtMembership
      | PermissionRequired \<Rightarrow> AtPermission
      | ResourceNotFound \<Rightarrow> AtResource
      | RouteNotFound \<Rightarrow> AtResource
      | MalformedBody \<Rightarrow> AtValidation
      | BodyTooLarge \<Rightarrow> AtValidation
      | SchemaInvalid \<Rightarrow> AtValidation
      | MethodNotAllowed \<Rightarrow> AtValidation
      | HandlerFailed \<Rightarrow> AtHandler
      | TransportParseFailed \<Rightarrow> AtTransport)"

text \<open>The refinement between the fields.\<close>

definition decision_consistent :: "security_decision_event \<Rightarrow> bool" where
  "decision_consistent e =
     (list_ex (\<lambda>d. ev_references e d \<noteq> None) reference_domains = (ev_reference_key_id e \<noteq> None) \<and>
      ev_outcome e = expected_outcome (ev_status_code e) \<and>
      (ev_reason_code e = Allowed) = (ev_outcome e = Allow) \<and>
      (ev_reason_code e = HandlerFailed) = (ev_outcome e = Error) \<and>
      ev_decision_point e = required_decision_point (ev_reason_code e))"

record decision_schema =
  ds_uuid :: "string \<Rightarrow> bool"
  ds_datetime :: "string \<Rightarrow> bool"

definition event_ok :: "decision_schema \<Rightarrow> security_decision_event \<Rightarrow> bool" where
  "event_ok sch e =
     (ds_datetime sch (ev_occurred_at e) \<and> ds_uuid sch (ev_request_id e) \<and>
      length (ev_route_template e) \<ge> 1 \<and> length (ev_route_template e) \<le> 180 \<and>
      route_template_ok (ev_route_template e) \<and>
      100 \<le> ev_status_code e \<and> ev_status_code e \<le> 599 \<and>
      opt_ok key_id_ok (ev_reference_key_id e) \<and>
      list_all (\<lambda>d. opt_ok reference_ok (ev_references e d)) reference_domains \<and>
      opt_ok detail_ok (ev_detail e) \<and> decision_consistent e)"

definition create_security_decision_event ::
    "decision_schema \<Rightarrow> security_decision_event \<Rightarrow> app_error + security_decision_event" where
  "create_security_decision_event sch e =
     (if event_ok sch e then Inr e else Inl (JsError ''Invalid security decision event''))"

subsection \<open>Protected references\<close>

text \<open>\<open>hc_hkdf source info\<close> derives 32 bytes under the fixed salt; digests are hexadecimal text.\<close>

record hash_env =
  hc_hkdf :: "string \<Rightarrow> string \<Rightarrow> string"
  hc_hmac :: "string \<Rightarrow> string \<Rightarrow> string"
  hc_sha256 :: "string \<Rightarrow> string"

definition key_ring_ok :: "string list \<Rightarrow> bool" where
  "key_ring_ok keys = (\<not> (length keys = 0 \<or> list_ex (\<lambda>k. length k < 16) keys))"

definition derive_id :: "hash_env \<Rightarrow> string \<Rightarrow> string" where
  "derive_id h source =
     ''sha256:'' @ take 16 (hc_sha256 h (hc_hkdf h (utf8_encode source) ''porta/security-decision/v1/key-id''))"

definition derive_material :: "hash_env \<Rightarrow> string \<Rightarrow> reference_domain \<Rightarrow> string" where
  "derive_material h source d =
     hc_hkdf h (utf8_encode source) (''porta/security-decision/v1/'' @ domain_name d)"

definition active_key_id :: "hash_env \<Rightarrow> string list \<Rightarrow> string" where
  "active_key_id h keys = derive_id h (hd keys)"

definition protect :: "hash_env \<Rightarrow> string list \<Rightarrow> reference_domain \<Rightarrow> string \<Rightarrow> app_error + string" where
  "protect h keys d raw =
     (if length raw = 0 \<or> length raw > 512
      then Inl (JsError ''Protected-reference input is outside the accepted bound'')
      else Inr (''hmac-sha256:'' @ hc_hmac h (derive_material h (hd keys) d) raw))"

fun verify_reference ::
    "hash_env \<Rightarrow> string list \<Rightarrow> reference_domain \<Rightarrow> string \<Rightarrow> string \<Rightarrow> string \<Rightarrow> bool" where
  "verify_reference h [] d raw reference key_id = False"
| "verify_reference h (k # keys) d raw reference key_id =
     (if \<not> reference_ok reference then False
      else if derive_id h k \<noteq> key_id then verify_reference h keys d raw reference key_id
      else hc_hmac h (derive_material h k d) raw = drop (length ''hmac-sha256:'') reference)"

subsection \<open>The decision of a request\<close>

record decision_fact =
  df_decision_point :: decision_point
  df_reason_code :: decision_reason
  df_outcome :: "decision_outcome option"
  df_detail :: "decision_detail option"

record decision_state =
  dc_request_id :: string
  dc_fact :: "decision_fact option"
  dc_identifiers :: "reference_domain \<Rightarrow> string option"
  dc_emitted :: bool

text \<open>One request's state beside the process counter of sink failures.\<close>

record decision_process =
  dp_request :: "decision_state option"
  dp_sink_failures :: int

definition initialize_security_decision :: "string \<Rightarrow> decision_process \<Rightarrow> decision_process" where
  "initialize_security_decision request_id p =
     p\<lparr>dp_request := Some \<lparr>dc_request_id = request_id, dc_fact = None, dc_identifiers = (\<lambda>_. None),
       dc_emitted = False\<rparr>\<rparr>"

definition record_security_decision :: "decision_fact \<Rightarrow> decision_process \<Rightarrow> decision_process" where
  "record_security_decision decided p =
     (case dp_request p of
        None \<Rightarrow> p
      | Some s \<Rightarrow> if dc_emitted s then p else p\<lparr>dp_request := Some (s\<lparr>dc_fact := Some decided\<rparr>)\<rparr>)"

definition record_security_reference ::
    "reference_domain \<Rightarrow> string \<Rightarrow> decision_process \<Rightarrow> decision_process" where
  "record_security_reference d raw p =
     (case dp_request p of
        None \<Rightarrow> p
      | Some s \<Rightarrow>
          if dc_emitted s \<or> length raw = 0 \<or> length raw > 512 then p
          else p\<lparr>dp_request := Some (s\<lparr>dc_identifiers := (dc_identifiers s)(d := Some raw)\<rparr>)\<rparr>)"

fun contains_text :: "string \<Rightarrow> string \<Rightarrow> bool" where
  "contains_text p [] = (p = [])"
| "contains_text p (c # s) = (starts_with p (c # s) \<or> contains_text p s)"

definition normalized_route_template :: "string option \<Rightarrow> string \<Rightarrow> string" where
  "normalized_route_template matched path =
     (case matched of
        Some m \<Rightarrow> if route_template_ok m then m
                   else if starts_with ''/api/admin'' path then ''/api/admin/unmatched''
                   else if starts_with ''/api/organizations'' path then ''/api/organizations/:orgId/users/unmatched''
                   else if contains_text ''/auth/'' path then ''/:organization/auth/unmatched''
                   else ''/unmatched''
      | None \<Rightarrow> if starts_with ''/api/admin'' path then ''/api/admin/unmatched''
                 else if starts_with ''/api/organizations'' path then ''/api/organizations/:orgId/users/unmatched''
                 else if contains_text ''/auth/'' path then ''/:organization/auth/unmatched''
                 else ''/unmatched'')"

definition max_safe_integer :: int where
  "max_safe_integer = 9007199254740991"

definition record_security_decision_sink_failure :: "decision_process \<Rightarrow> decision_process" where
  "record_security_decision_sink_failure p =
     p\<lparr>dp_sink_failures := min max_safe_integer (dp_sink_failures p + 1)\<rparr>"

definition surface_of_path :: "string \<Rightarrow> decision_surface option" where
  "surface_of_path path =
     (if starts_with ''/api/admin'' path then Some AdminApi
      else if starts_with ''/api/organizations'' path then Some TenantApi
      else if contains_text ''/auth/'' path then Some PublicAuth else None)"

definition outcome_for_status :: "int \<Rightarrow> decision_outcome" where
  "outcome_for_status status = (if status \<ge> 500 then Error else if status \<ge> 400 then Deny else Allow)"

definition plain_fact :: "decision_point \<Rightarrow> decision_reason \<Rightarrow> decision_outcome \<Rightarrow> decision_fact" where
  "plain_fact p r o' = \<lparr>df_decision_point = p, df_reason_code = r, df_outcome = Some o', df_detail = None\<rparr>"

definition fallback_decision_fact :: "int \<Rightarrow> decision_fact" where
  "fallback_decision_fact status =
     (if status = 401 then plain_fact AtAuthentication AuthenticationRequired Deny
      else if status = 403 then plain_fact AtPermission PermissionRequired Deny
      else if status = 404 then plain_fact AtResource RouteNotFound Deny
      else if status = 405 then plain_fact AtValidation MethodNotAllowed Deny
      else if status \<ge> 400 \<and> status < 500 then plain_fact AtValidation SchemaInvalid Deny
      else if status \<ge> 500 then plain_fact AtHandler HandlerFailed Error
      else plain_fact AtHandler Allowed Allow)"

definition normalize_method :: "string \<Rightarrow> decision_method" where
  "normalize_method m =
     (if m = ''GET'' then MGet else if m = ''HEAD'' then MHead else if m = ''POST'' then MPost
      else if m = ''PUT'' then MPut else if m = ''DELETE'' then MDelete else if m = ''PATCH'' then MPatch
      else MUnknown)"

text \<open>What finalization reads of the request and of the process.\<close>

record finalization =
  fz_schema :: decision_schema
  fz_hash :: hash_env
  fz_cookie_keys :: "string list"
  fz_now :: string
  fz_method :: string
  fz_path :: string
  fz_matched_route :: "string option"
  fz_status :: int

fun protect_all ::
    "hash_env \<Rightarrow> string list \<Rightarrow> (reference_domain \<Rightarrow> string option) \<Rightarrow> reference_domain list \<Rightarrow>
     app_error + (reference_domain \<Rightarrow> string option)" where
  "protect_all h keys ids [] = Inr (\<lambda>_. None)"
| "protect_all h keys ids (d # ds) =
     (case ids d of
        None \<Rightarrow> protect_all h keys ids ds
      | Some raw \<Rightarrow>
          (case protect h keys d raw of
             Inl e \<Rightarrow> Inl e
           | Inr v \<Rightarrow>
               (case protect_all h keys ids ds of Inl e \<Rightarrow> Inl e | Inr m \<Rightarrow> Inr (m(d := Some v)))))"

text \<open>No reference, no key identifier.\<close>

definition protected_references ::
    "hash_env \<Rightarrow> string list \<Rightarrow> (reference_domain \<Rightarrow> string option) \<Rightarrow>
     app_error + (string option \<times> (reference_domain \<Rightarrow> string option))" where
  "protected_references h keys ids =
     (if \<not> list_ex (\<lambda>d. ids d \<noteq> None) reference_domains then Inr (None, \<lambda>_. None)
      else if \<not> key_ring_ok keys then Inl (JsError ''A valid protected-reference key ring is required'')
      else (case protect_all h keys ids reference_domains of
              Inl e \<Rightarrow> Inl e
            | Inr m \<Rightarrow> Inr (Some (active_key_id h keys), m)))"

definition terminal_event ::
    "finalization \<Rightarrow> decision_surface \<Rightarrow> decision_state \<Rightarrow> decision_fact \<Rightarrow>
     string option \<times> (reference_domain \<Rightarrow> string option) \<Rightarrow> security_decision_event" where
  "terminal_event z surface s decided refs =
     \<lparr>ev_occurred_at = fz_now z, ev_request_id = dc_request_id s, ev_surface = surface,
      ev_method = normalize_method (fz_method z),
      ev_route_template = normalized_route_template (fz_matched_route z) (fz_path z),
      ev_status_code = fz_status z,
      ev_outcome = nullish (df_outcome decided) (outcome_for_status (fz_status z)),
      ev_decision_point = df_decision_point decided, ev_reason_code = df_reason_code decided,
      ev_reference_key_id = fst refs, ev_references = snd refs, ev_detail = df_detail decided\<rparr>"

text \<open>The sink answers whether it took the event; a failure is only counted.\<close>

definition finalize_security_decision ::
    "finalization \<Rightarrow> (security_decision_event \<Rightarrow> bool) \<Rightarrow>
     (decision_process, security_decision_event option) op" where
  "finalize_security_decision z sink p =
     (case dp_request p of
        None \<Rightarrow> (Inr None, p)
      | Some s \<Rightarrow>
          if dc_emitted s then (Inr None, p)
          else (let p1 = p\<lparr>dp_request := Some (s\<lparr>dc_emitted := True\<rparr>)\<rparr>
                in case surface_of_path (fz_path z) of
                     None \<Rightarrow> (Inr None, p1)
                   | Some surface \<Rightarrow>
                       (case protected_references (fz_hash z) (fz_cookie_keys z) (dc_identifiers s) of
                          Inl e \<Rightarrow> (Inl e, p1)
                        | Inr refs \<Rightarrow>
                            (case create_security_decision_event (fz_schema z)
                                (terminal_event z surface s
                                  (nullish (dc_fact s) (fallback_decision_fact (fz_status z))) refs) of
                               Inl e \<Rightarrow> (Inl e, p1)
                             | Inr event \<Rightarrow>
                                 (Inr (Some event),
                                  if sink event then p1 else record_security_decision_sink_failure p1)))))"

subsection \<open>Failures before a request\<close>

datatype socket_action = Ignored | EndedWith400 | Destroyed

definition transport_event :: "string \<Rightarrow> string \<Rightarrow> security_decision_event" where
  "transport_event now request_id =
     \<lparr>ev_occurred_at = now, ev_request_id = request_id, ev_surface = TransportSurface,
      ev_method = MUnknown, ev_route_template = ''/transport'', ev_status_code = 400, ev_outcome = Deny,
      ev_decision_point = AtTransport, ev_reason_code = TransportParseFailed,
      ev_reference_key_id = None, ev_references = (\<lambda>_. None), ev_detail = None\<rparr>"

text \<open>\<open>handled\<close> is the set of sockets already answered.\<close>

definition on_client_error ::
    "decision_schema \<Rightarrow> string \<Rightarrow> string \<Rightarrow> (security_decision_event \<Rightarrow> bool) \<Rightarrow> bool \<Rightarrow> nat \<Rightarrow>
     (nat set \<times> decision_process, socket_action) op" where
  "on_client_error sch now request_id sink usable socket s =
     (let (handled, p) = s
      in if socket \<in> handled then (Inr Ignored, s)
         else case create_security_decision_event sch (transport_event now request_id) of
                Inl e \<Rightarrow> (Inl e, (insert socket handled, p))
              | Inr event \<Rightarrow>
                  (Inr (if usable then EndedWith400 else Destroyed),
                   (insert socket handled,
                    if sink event then p else record_security_decision_sink_failure p)))"

subsection \<open>The error handler\<close>

definition public_error_message :: "int \<Rightarrow> string" where
  "public_error_message status =
     (if status = 400 then ''Bad Request'' else if status = 401 then ''Unauthorized''
      else if status = 403 then ''Forbidden'' else if status = 404 then ''Not Found''
      else if status = 405 then ''Method Not Allowed'' else if status = 413 then ''Payload Too Large''
      else if status < 500 then ''Request Rejected'' else ''Internal Server Error'')"

definition error_status :: "int option \<Rightarrow> int" where
  "error_status s = (case s of None \<Rightarrow> 500 | Some n \<Rightarrow> if n = 0 then 500 else n)"

definition error_fact :: "int \<Rightarrow> decision_fact" where
  "error_fact status =
     (if status = 401 then plain_fact AtAuthentication AuthenticationRequired Deny
      else if status = 403 then plain_fact AtPermission PermissionRequired Deny
      else if status = 413 then plain_fact AtValidation BodyTooLarge Deny
      else if status = 400 then plain_fact AtValidation MalformedBody Deny
      else if status = 404 then plain_fact AtResource ResourceNotFound Deny
      else if status = 405 then plain_fact AtValidation MethodNotAllowed Deny
      else if status < 500 then plain_fact AtValidation SchemaInvalid Deny
      else plain_fact AtHandler HandlerFailed Error)"

text \<open>The response of a thrown error whose \<open>status\<close> is given, and the decision it records.\<close>

definition error_handler :: "int option \<Rightarrow> decision_process \<Rightarrow> (int \<times> json) \<times> decision_process" where
  "error_handler thrown p =
     (let status = error_status thrown
      in ((status, JObj [(''error'', JStr (public_error_message status)), (''status'', JNum status)]),
          record_security_decision (error_fact status) p))"

end
