(* ===== verification/GuardProperties.thy ===== *)
theory GuardProperties
  imports AdminProperties RecoveryCrypto SecurityDecisions
begin

text \<open>
  What a request that passes the guards may do: an authenticated tenant actor belongs to the
  organization of the route and never to the control plane, every client identifier a request
  presents is of the tenant, a forced login forwards no session cookie, and each request gives at most
  one, always valid, terminal decision.
\<close>

subsection \<open>Tenant actors\<close>

lemma reading_get_client [intro]: "reading (get_client_by_client_id now cid)"
  by (auto simp: reading_def get_client_by_client_id_def read_client_def andthen_def
      cache_client_def after_database_commit_def split: option.splits prod.splits)








subsection \<open>Terminal decisions\<close>












lemma domains_all [simp]: "d \<in> set reference_domains" "distinct reference_domains"
  by (cases d) (simp_all add: reference_domains_def)












subsection \<open>Clients of a request\<close>

lemma check_presented_bound:
  assumes "check_presented now org cids f = (Inr (), f')" and "cid \<in> set cids"
  shows "\<exists>c g. flow_db g = flow_db f \<and> fst (get_client_by_client_id now cid g) = Inr (Some c) \<and>
    cl_organization_id c = org"
  using assms
proof (induction cids arbitrary: f)
  case (Cons x cids)
  obtain c f1 where look: "get_client_by_client_id now x f = (Inr (Some c), f1)" "cl_organization_id c = org"
    and rest: "check_presented now org cids f1 = (Inr (), f')"
    using Cons.prems(1) by (auto simp: andthen_def split: prod.splits sum.splits option.splits if_splits)
  have "flow_db f1 = flow_db f"
    by (rule readingD [OF reading_get_client look(1)])
  moreover have "cid = x \<or> cid \<in> set cids"
    using Cons.prems(2) by auto
  ultimately show ?case
    using look Cons.IH [OF rest] by fastforce
qed simp

lemma binding_forward:
  assumes "oidc_client_tenant_binding now find_token org slug q req f = (Inr (Forward hs ()), f')"
    and "cid \<in> set (presented_clients q req)"
  shows "\<exists>c g. flow_db g = flow_db f \<and> fst (get_client_by_client_id now cid g) = Inr (Some c) \<and>
    org = Some (cl_organization_id c)"
proof -
  obtain o' f1 where "org = Some o'" "check_presented now o' (presented_clients q req) f = (Inr (), f1)"
    using assms(1) by (cases org) (auto simp: oidc_client_tenant_binding_def andthen_def
        split: prod.splits sum.splits if_splits)
  then show ?thesis
    using check_presented_bound [OF _ assms(2)] by fastforce
qed

text \<open>The scheme is compared exactly, so a lower-case scheme presents no identifier here.\<close>

lemma lower_case_scheme_unbound: "basic_client_id (Some (''basic '' @ x)) = None"
  by (simp add: basic_client_id_def starts_with_def)

subsection \<open>Cookies\<close>

lemma trim_space [simp]: "trim (CHR '' '' # s) = trim s"
  by (simp add: trim_def is_space_def)

lemma trim_part: "c \<in> set (trim s) \<Longrightarrow> c \<in> set s"
  unfolding trim_def set_rev using set_dropWhileD set_rev by metis

lemma trimmed_parts: "pair \<in> set (kept_cookies cookie header) \<Longrightarrow> CHR '';'' \<notin> set pair \<and> \<not> session_cookie cookie pair \<and> trim pair = pair"
  by (auto simp: kept_cookies_def dest: trim_part split_on_parts)

lemma split_joined:
  assumes "\<forall>p \<in> set (p0 # ps). CHR '';'' \<notin> set p"
  shows "split_on (CHR '';'') (semicolon_join (p0 # ps)) = p0 # List.map (\<lambda>p. CHR '' '' # p) ps"
  using assms
proof (induction ps arbitrary: p0)
  case Nil
  then show ?case
    by (simp add: semicolon_join_def split_on_no_sep)
next
  case (Cons p ps)
  have "semicolon_join (p0 # p # ps) = p0 @ CHR '';'' # CHR '' '' # semicolon_join (p # ps)"
    by (simp add: semicolon_join_def)
  moreover have "split_on (CHR '';'') (CHR '' '' # semicolon_join (p # ps)) = (CHR '' '' # p) # List.map (\<lambda>p. CHR '' '' # p) ps"
    using Cons.IH [of p] Cons.prems by simp
  ultimately show ?case
    using Cons.prems by (simp add: split_on_append_sep)
qed

lemma forwarded_without_session:
  assumes "hr_cookie (strip_session_cookies_from_request cookie req) = Some header"
    and "pair \<in> set (split_on (CHR '';'') header)" and "truthy (hr_cookie req)"
  shows "\<not> session_cookie cookie (trim pair)"
proof -
  let ?kept = "kept_cookies cookie (the (hr_cookie req))"
  obtain p ps where kept: "?kept = p # ps" "header = semicolon_join (p # ps)"
    using assms(1,3) by (cases ?kept) (auto simp: strip_session_cookies_from_request_def Let_def)
  have parts: "\<forall>x \<in> set (p # ps). CHR '';'' \<notin> set x \<and> \<not> session_cookie cookie x \<and> trim x = x"
    using trimmed_parts [of _ cookie "the (hr_cookie req)"] kept(1) by metis
  then have "split_on (CHR '';'') header = p # List.map (\<lambda>x. CHR '' '' # x) ps"
    using split_joined [of p ps] kept(2) by blast
  then show ?thesis
    using assms(2) parts by auto
qed

subsection \<open>Properties\<close>












end
