(* ===== verification/Images.thy ===== *)
theory Images
  imports Transaction Bytes
begin

text \<open>
  packages/server/src/lib/image-validator.ts and branding-assets.ts: what an uploaded logo or favicon
  has to be, how an SVG is sanitised, and the table that keeps the result.

  The regular expressions of the sanitiser are written as matchers that return what follows a match at
  the start of a text; each is deterministic once its first character matched, so that the leftmost
  match of \<open>replace\<close> is the first position where the matcher succeeds.
\<close>

subsection \<open>Signatures\<close>

definition image_size_limit :: "asset_type \<Rightarrow> nat" where
  "image_size_limit t = (case t of LogoAsset \<Rightarrow> 2 * 1024 * 1024 | FaviconAsset \<Rightarrow> 512 * 1024)"

record signature_segment =
  sg_offset :: nat
  sg_bytes :: "nat list"

definition segment :: "nat \<Rightarrow> nat list \<Rightarrow> signature_segment" where
  "segment offset bytes = \<lparr>sg_offset = offset, sg_bytes = bytes\<rparr>"

definition magic_signatures :: "(string \<times> signature_segment list) list" where
  "magic_signatures =
     [(''image/png'', [segment 0 [0x89, 0x50, 0x4e, 0x47, 0x0d, 0x0a, 0x1a, 0x0a]]),
      (''image/jpeg'', [segment 0 [0xff, 0xd8]]),
      (''image/webp'', [segment 0 [0x52, 0x49, 0x46, 0x46], segment 8 [0x57, 0x45, 0x42, 0x50]]),
      (''image/x-icon'', [segment 0 [0x00, 0x00, 0x01, 0x00]]),
      (''image/vnd.microsoft.icon'', [segment 0 [0x00, 0x00, 0x01, 0x00]])]"

definition allowed_image_types :: "string list" where
  "allowed_image_types = [''image/png'', ''image/jpeg'', ''image/svg+xml'', ''image/webp'',
     ''image/x-icon'', ''image/vnd.microsoft.icon'']"

text \<open>A byte past the end of the buffer is \<open>undefined\<close> and equals nothing.\<close>

definition byte_at :: "string \<Rightarrow> nat \<Rightarrow> nat option" where
  "byte_at buffer i = (if i < length buffer then Some (of_char (buffer ! i)) else None)"

definition matches_signature :: "string \<Rightarrow> signature_segment list \<Rightarrow> bool" where
  "matches_signature buffer segments =
     list_all (\<lambda>s. list_all (\<lambda>(i, b). byte_at buffer (sg_offset s + i) = Some b)
       (zip [0 ..< length (sg_bytes s)] (sg_bytes s))) segments"

definition detect_content_type :: "string \<Rightarrow> string option" where
  "detect_content_type buffer =
     map_option fst (find_row (\<lambda>(_, segments). matches_signature buffer segments) magic_signatures)"

datatype image_validation =
    InvalidImage string
  | ValidImage string string bool

definition required_length :: "signature_segment list \<Rightarrow> nat" where
  "required_length segments = foldr max (map (\<lambda>s. sg_offset s + length (sg_bytes s)) segments) 0"

definition validate_magic_bytes :: "string \<Rightarrow> string \<Rightarrow> image_validation" where
  "validate_magic_bytes buffer content_type =
     (case map_of magic_signatures content_type of
        None \<Rightarrow> ValidImage content_type buffer False
      | Some segments \<Rightarrow>
          if length buffer < required_length segments
          then InvalidImage (''File too small to be a valid '' @ content_type @ '' image'')
          else if \<not> matches_signature buffer segments
          then InvalidImage (''File content does not match declared type '' @ content_type @
            (case detect_content_type buffer of None \<Rightarrow> [] | Some t \<Rightarrow> ''. Detected: '' @ t))
          else ValidImage content_type buffer False)"

subsection \<open>Sanitising an SVG\<close>

definition word_char :: "char \<Rightarrow> bool" where
  "word_char c = (is_upper c \<or> is_lower c \<or> is_digit c \<or> c = CHR ''_'')"

text \<open>A literal of lower-case letters under the flag \<open>i\<close>.\<close>

definition literal :: "string \<Rightarrow> string \<Rightarrow> string option" where
  "literal l s = (if to_lower (take (length l) s) = l then Some (drop (length l) s) else None)"

text \<open>What follows the first occurrence: the lazy \<open>[\\s\\S]*?\<close> before a literal.\<close>

fun after_first :: "string \<Rightarrow> string \<Rightarrow> string option" where
  "after_first l [] = literal l []"
| "after_first l (c # s) = (case literal l (c # s) of Some rest \<Rightarrow> Some rest | None \<Rightarrow> after_first l s)"

definition script_open :: "string \<Rightarrow> string option" where
  "script_open s =
     (case literal ''<script'' s of
        Some (c # rest) \<Rightarrow> if is_space c \<or> c = CHR ''>'' then Some rest else None
      | _ \<Rightarrow> None)"

text \<open>A script element with its end tag, else one that is closed by itself.\<close>

definition dangerous_element :: "string \<Rightarrow> string option" where
  "dangerous_element s =
     (case script_open s of
        None \<Rightarrow> None
      | Some rest \<Rightarrow>
          (case after_first ''</script>'' rest of
             Some t \<Rightarrow> Some t
           | None \<Rightarrow> after_first ''/>'' rest))"

definition some_spaces :: "string \<Rightarrow> string option" where
  "some_spaces s = (case s of c # _ \<Rightarrow> if is_space c then Some (dropWhile is_space s) else None | [] \<Rightarrow> None)"

definition equals_sign :: "string \<Rightarrow> string option" where
  "equals_sign s =
     (case dropWhile is_space s of
        c # rest \<Rightarrow> if c = CHR ''='' then Some (dropWhile is_space rest) else None
      | [] \<Rightarrow> None)"

text \<open>A quoted value, or the characters up to a space or \<open>>\<close>.\<close>

definition quoted :: "char \<Rightarrow> string \<Rightarrow> string option" where
  "quoted q s =
     (case s of
        c # rest \<Rightarrow>
          if c = q then (case dropWhile (\<lambda>x. x \<noteq> q) rest of _ # t \<Rightarrow> Some t | [] \<Rightarrow> None) else None
      | [] \<Rightarrow> None)"

definition attribute_value :: "string \<Rightarrow> string" where
  "attribute_value s =
     (case quoted (CHR 0x22) s of
        Some t \<Rightarrow> t
      | None \<Rightarrow>
          (case quoted (CHR 0x27) s of
             Some t \<Rightarrow> t
           | None \<Rightarrow> dropWhile (\<lambda>x. \<not> is_space x \<and> x \<noteq> CHR ''>'') s))"

definition event_handler :: "string \<Rightarrow> string option" where
  "event_handler s =
     Option.bind (some_spaces s) (\<lambda>s1.
     Option.bind (literal ''on'' s1) (\<lambda>s2.
     if takeWhile word_char s2 = [] then None
     else map_option attribute_value (equals_sign (dropWhile word_char s2))))"

definition quote_char :: "char \<Rightarrow> bool" where
  "quote_char c = (c = CHR 0x22 \<or> c = CHR 0x27)"

text \<open>\<open>href\<close> or \<open>xlink:href\<close> whose quoted value starts with a scheme; the quotes need not match.\<close>

definition href_with :: "string \<Rightarrow> string \<Rightarrow> string option" where
  "href_with scheme s =
     Option.bind (some_spaces s) (\<lambda>s1.
     Option.bind (case literal ''href'' s1 of Some t \<Rightarrow> Some t | None \<Rightarrow> literal ''xlink:href'' s1) (\<lambda>s2.
     Option.bind (equals_sign s2) (\<lambda>s3.
     case s3 of
       q # s4 \<Rightarrow>
         if \<not> quote_char q then None
         else Option.bind (literal scheme s4) (\<lambda>s5.
           case dropWhile (\<lambda>x. \<not> quote_char x) s5 of _ # t \<Rightarrow> Some t | [] \<Rightarrow> None)
     | [] \<Rightarrow> None)))"

text \<open>
  \<open>replace\<close> with the flag \<open>g\<close>: every match, from left to right, is left out. The first argument is the
  number of characters to go, which is enough as each step uses one.
\<close>

fun remove_matches :: "nat \<Rightarrow> (string \<Rightarrow> string option) \<Rightarrow> string \<Rightarrow> string" where
  "remove_matches 0 m s = s"
| "remove_matches (Suc n) m [] = []"
| "remove_matches (Suc n) m (c # s) =
     (case m (c # s) of
        Some rest \<Rightarrow> remove_matches n m rest
      | None \<Rightarrow> c # remove_matches n m s)"

definition strip_matches :: "(string \<Rightarrow> string option) \<Rightarrow> string \<Rightarrow> string" where
  "strip_matches m s = remove_matches (length s) m s"

fun has_match :: "(string \<Rightarrow> string option) \<Rightarrow> string \<Rightarrow> bool" where
  "has_match m [] = False"
| "has_match m (c # s) = (m (c # s) \<noteq> None \<or> has_match m s)"

definition svg_rules :: "(string \<Rightarrow> string option) list" where
  "svg_rules = [dangerous_element, event_handler, href_with ''javascript:'', href_with ''data:text/html'']"

definition apply_rule :: "(string \<Rightarrow> string option) \<Rightarrow> string \<times> bool \<Rightarrow> string \<times> bool" where
  "apply_rule m st = (if has_match m (fst st) then (strip_matches m (fst st), True) else st)"

definition svg_element :: "string \<Rightarrow> string option" where
  "svg_element s =
     (case literal ''<svg'' s of
        Some (c # rest) \<Rightarrow> if is_space c \<or> c = CHR ''>'' then Some rest else None
      | _ \<Rightarrow> None)"

definition validate_and_sanitize_svg :: "string \<Rightarrow> image_validation" where
  "validate_and_sanitize_svg buffer =
     (let content = utf8_decode buffer
      in if \<not> has_match svg_element content
         then InvalidImage ''File does not appear to be a valid SVG (no <svg> element found)''
         else (let (sanitized, was) = fold apply_rule svg_rules (content, False)
               in ValidImage ''image/svg+xml'' (utf8_encode sanitized) was))"

definition format_bytes :: "nat \<Rightarrow> string" where
  "format_bytes n =
     (if n \<ge> 1024 * 1024 then show_nat ((n + 512 * 1024) div (1024 * 1024)) @ '' MB''
      else if n \<ge> 1024 then show_nat ((n + 512) div 1024) @ '' KB''
      else show_nat n @ '' bytes'')"

definition asset_type_name :: "asset_type \<Rightarrow> string" where
  "asset_type_name t = (case t of LogoAsset \<Rightarrow> ''logo'' | FaviconAsset \<Rightarrow> ''favicon'')"

definition validate_image :: "string \<Rightarrow> string \<Rightarrow> asset_type \<Rightarrow> image_validation" where
  "validate_image buffer content_type t =
     (if content_type \<notin> set allowed_image_types
      then InvalidImage (''Unsupported content type: '' @ content_type @ ''. Allowed: '' @
        concat (case allowed_image_types of [] \<Rightarrow> [] | x # xs \<Rightarrow> x # map (\<lambda>y. '', '' @ y) xs))
      else if length buffer = 0 then InvalidImage ''Image data cannot be empty''
      else if length buffer > image_size_limit t
      then InvalidImage (''File too large: '' @ show_nat (length buffer) @ '' bytes. Maximum for '' @
        asset_type_name t @ '': '' @ show_nat (image_size_limit t) @ '' bytes ('' @
        format_bytes (image_size_limit t) @ '')'')
      else if content_type = ''image/svg+xml'' then validate_and_sanitize_svg buffer
      else validate_magic_bytes buffer content_type)"

subsection \<open>The table\<close>

text \<open>The size check of migration 027; the identifier of a new row and the clock are arguments.\<close>

definition asset_size_ok :: "asset_type \<Rightarrow> nat \<Rightarrow> bool" where
  "asset_size_ok t n = (n > 0 \<and> n \<le> image_size_limit t)"

definition asset_key :: "string \<Rightarrow> asset_type \<Rightarrow> branding_asset_row \<Rightarrow> bool" where
  "asset_key org t r = (ba_organization_id r = org \<and> ba_asset_type r = t)"

definition upsert_asset ::
    "time \<Rightarrow> string \<Rightarrow> string \<Rightarrow> asset_type \<Rightarrow> string \<Rightarrow> string \<Rightarrow> (db, branding_asset_row) op" where
  "upsert_asset now new_id org t content_type bytes d =
     (if \<not> asset_size_ok t (length bytes) then (Inl (JsError ''branding_assets_valid_size''), d)
      else
        (case find_row (asset_key org t) (db_branding_assets d) of
           Some r \<Rightarrow>
             (let r' = r\<lparr>ba_content_type := content_type, ba_data := bytes, ba_file_size := length bytes,
                ba_updated_at := now\<rparr>
              in (Inr r', d\<lparr>db_branding_assets := update_where (asset_key org t) (\<lambda>_. r') (db_branding_assets d)\<rparr>))
         | None \<Rightarrow>
             (if \<not> row_exists (\<lambda>o'. og_id o' = org) (db_organizations d) then (Inl ForeignKeyViolation, d)
              else (let r = \<lparr>ba_id = new_id, ba_organization_id = org, ba_asset_type = t,
                      ba_content_type = content_type, ba_file_size = length bytes, ba_data = bytes,
                      ba_created_at = now, ba_updated_at = now\<rparr>
                    in (Inr r, d\<lparr>db_branding_assets := db_branding_assets d @ [r]\<rparr>)))))"

definition upload_asset ::
    "time \<Rightarrow> string \<Rightarrow> string \<Rightarrow> asset_type \<Rightarrow> string \<Rightarrow> string \<Rightarrow> (db, branding_asset_row) op" where
  "upload_asset now new_id org t content_type bytes =
     (case validate_image bytes content_type t of
        InvalidImage e \<Rightarrow> throw_op (BrandingAssetValidationError e)
      | ValidImage _ valid_bytes _ \<Rightarrow> upsert_asset now new_id org t content_type valid_bytes)"

definition get_asset :: "string \<Rightarrow> asset_type \<Rightarrow> db \<Rightarrow> branding_asset_row option" where
  "get_asset org t d = find_row (asset_key org t) (db_branding_assets d)"

text \<open>\<open>ORDER BY asset_type\<close>: a favicon before a logo.\<close>

definition list_assets :: "string \<Rightarrow> db \<Rightarrow> branding_asset_row list" where
  "list_assets org d =
     (let rows = filter (\<lambda>r. ba_organization_id r = org) (db_branding_assets d)
      in filter (\<lambda>r. ba_asset_type r = FaviconAsset) rows @ filter (\<lambda>r. ba_asset_type r = LogoAsset) rows)"

definition delete_asset :: "string \<Rightarrow> asset_type \<Rightarrow> (db, bool) op" where
  "delete_asset org t d =
     (Inr (row_exists (asset_key org t) (db_branding_assets d)),
      d\<lparr>db_branding_assets := delete_where (asset_key org t) (db_branding_assets d)\<rparr>)"

subsection \<open>What an upload stores\<close>

text \<open>
  One pass of the sanitiser can leave a script element: removing the inner one joins the outer one.
\<close>

lemma script_survives_sanitising:
  "validate_and_sanitize_svg ''<svg ><scr<script></script>ipt>x</script></svg>'' =
     ValidImage ''image/svg+xml'' ''<svg ><script>x</script></svg>'' True"
  by code_simp

lemma accepted_image:
  assumes "validate_image bytes content_type t = ValidImage ty bytes' was"
  shows "content_type \<in> set allowed_image_types \<and> bytes \<noteq> [] \<and> length bytes \<le> image_size_limit t \<and>
    (content_type \<noteq> ''image/svg+xml'' \<longrightarrow> bytes' = bytes \<and>
       (\<forall>segments. map_of magic_signatures content_type = Some segments \<longrightarrow> matches_signature bytes segments))"
  using assms by (auto simp: validate_image_def validate_magic_bytes_def split: if_splits option.splits)

end
