(* ===== verification/Portability.thy ===== *)
theory Portability
  imports Clients ClientSecretBridge CustomClaims Images "HOL-Library.Product_Lexorder"
begin

text \<open>
  Selective import of a portability manifest: packages/server/src/portability/types.ts, schema.ts (its
  rules across fields and those of the fields Porta defines itself) and plan-support.ts.

  A manifest refers to records by natural keys: slugs, e-mail addresses and client identifiers, never
  database identifiers.
\<close>

subsection \<open>Manifests\<close>

datatype portability_category = CatOrganizations | CatAuthorization | CatUsers | CatClients

datatype portability_scope = OrganizationScope string | EnvironmentScope

record application_selection =
  as_all_applications :: bool
  as_application_slugs :: "string list"

record portable_asset =
  pa_media_type :: string
  pa_content_base64 :: string

record portable_organization =
  xo_slug :: string
  xo_name :: string
  xo_status :: organization_status
  xo_default_locale :: string
  xo_default_login_methods :: "login_method list"
  xo_two_factor_policy :: two_factor_policy
  xo_logo_url :: "string option"
  xo_favicon_url :: "string option"
  xo_primary_color :: "string option"
  xo_company_name :: "string option"
  xo_custom_css :: "string option"
  xo_logo_asset :: "portable_asset option"
  xo_favicon_asset :: "portable_asset option"

record portable_application =
  xa_slug :: string
  xa_name :: string
  xa_description :: "string option"
  xa_status :: record_status

record portable_module =
  xm_application_slug :: string
  xm_slug :: string
  xm_name :: string
  xm_description :: "string option"
  xm_status :: record_status

record portable_role =
  xr_application_slug :: string
  xr_slug :: string
  xr_name :: string
  xr_description :: "string option"

record portable_permission =
  xp_application_slug :: string
  xp_slug :: string
  xp_module_slug :: "string option"
  xp_name :: string
  xp_description :: "string option"

record portable_claim =
  xc_application_slug :: string
  xc_claim_name :: string
  xc_claim_type :: claim_type
  xc_description :: "string option"
  xc_include_in_id_token :: bool
  xc_include_in_access_token :: bool
  xc_include_in_userinfo :: bool

record portable_mapping =
  xg_application_slug :: string
  xg_role_slug :: string
  xg_permission_slugs :: "string list"

text \<open>The status of a portable user is \<open>active\<close> or \<open>inactive\<close>.\<close>

record portable_user =
  xu_organization_slug :: string
  xu_email :: string
  xu_email_verified :: bool
  xu_profile :: "profile_field \<Rightarrow> string option"
  xu_phone_number_verified :: bool
  xu_inactive :: bool

record portable_assignment =
  xs_organization_slug :: string
  xs_email :: string
  xs_application_slug :: string
  xs_role_slug :: string

record portable_claim_value =
  xv_organization_slug :: string
  xv_email :: string
  xv_application_slug :: string
  xv_claim_name :: string
  xv_value :: json

record portable_client =
  xl_client_id :: string
  xl_organization_slug :: string
  xl_application_slug :: string
  xl_name :: string
  xl_client_type :: client_type
  xl_application_type :: application_type
  xl_status :: client_status
  xl_grant_types :: "string list"
  xl_response_types :: "string list"
  xl_scope :: string
  xl_login_methods :: "login_method list option"
  xl_token_endpoint_auth_method :: string
  xl_redirect_uris :: "string list"
  xl_post_logout_redirect_uris :: "string list"
  xl_allowed_origins :: "string list"
  xl_require_pkce :: bool
  xl_require_consent :: bool

record manifest =
  mf_exported_at :: string
  mf_scope :: portability_scope
  mf_categories :: "portability_category list"
  mf_selection :: application_selection
  mf_organizations :: "portable_organization list"
  mf_applications :: "portable_application list"
  mf_modules :: "portable_module list"
  mf_roles :: "portable_role list"
  mf_permissions :: "portable_permission list"
  mf_claims :: "portable_claim list"
  mf_mappings :: "portable_mapping list"
  mf_users :: "portable_user list"
  mf_assignments :: "portable_assignment list"
  mf_claim_values :: "portable_claim_value list"
  mf_clients :: "portable_client list"

datatype import_mode = DryRun | KeepExisting | UpdateExisting

datatype entity_type =
    EOrganizations | EApplications | EModules | ERoles | EPermissions | EClaims | EMappings
  | EUsers | EUserRoles | EUserClaims | EClients

datatype import_action = ActCreated | ActUpdated | ActSkipped | ActRejected

datatype import_error =
    InvalidRecord | DuplicateNaturalKey | MissingDependency | AmbiguousDependency
  | IncompatibleRecord | CrossScopeReference | ControlPlaneRecord | ClientIdCollision

type_synonym natural_key = "(string \<times> string) list"

record result_item =
  ri_entity_type :: entity_type
  ri_action :: import_action
  ri_natural_key :: natural_key
  ri_credential_will_be_generated :: bool

record result_error =
  re_entity_type :: entity_type
  re_natural_key :: natural_key
  re_code :: import_error

type_synonym import_summary = "entity_type \<Rightarrow> import_action \<Rightarrow> nat"

record import_credential =
  ic_client_id :: string
  ic_label :: string
  ic_secret :: string
  ic_expires_at :: time

record import_result =
  pr_mode :: import_mode
  pr_summary :: import_summary
  pr_items :: "result_item list"
  pr_errors :: "result_error list"
  pr_credentials :: "import_credential list"

record portability_actor =
  at_user_id :: string
  at_control_plane_organization_id :: string

subsection \<open>Support\<close>

definition entity_order :: "entity_type list" where
  "entity_order = [EOrganizations, EApplications, EModules, ERoles, EPermissions, EClaims, EMappings,
     EUsers, EUserRoles, EUserClaims, EClients]"

fun entity_rank :: "entity_type list \<Rightarrow> entity_type \<Rightarrow> nat" where
  "entity_rank [] e = 0"
| "entity_rank (x # xs) e = (if x = e then 0 else Suc (entity_rank xs e))"

record plan_accumulator =
  pk_items :: "result_item list"
  pk_errors :: "result_error list"
  pk_summary :: import_summary

definition empty_summary :: import_summary where
  "empty_summary = (\<lambda>_ _. 0)"

definition empty_plan :: plan_accumulator where
  "empty_plan = \<lparr>pk_items = [], pk_errors = [], pk_summary = empty_summary\<rparr>"

fun unit_join :: "string list \<Rightarrow> string" where
  "unit_join [] = []"
| "unit_join [p] = p"
| "unit_join (p # ps) = p @ CHR 0x1F # unit_join ps"

definition portability_key :: "string list \<Rightarrow> string" where
  "portability_key = unit_join"

definition normalized_slug :: "string \<Rightarrow> string" where
  "normalized_slug v = to_lower (trim v)"

definition normalized_rbac :: "string \<Rightarrow> string" where
  "normalized_rbac v = trim v"

definition normalized_email :: "string \<Rightarrow> string" where
  "normalized_email v = to_lower (trim v)"

definition same_json :: "json \<Rightarrow> json \<Rightarrow> bool" where
  "same_json l r = (json_stringify l = json_stringify r)"

text \<open>A \<open>Map\<close> from keys to rows, in the order in which the keys first occur.\<close>

fun insert_group :: "string \<Rightarrow> 'a \<Rightarrow> (string \<times> 'a list) list \<Rightarrow> (string \<times> 'a list) list" where
  "insert_group k r [] = [(k, [r])]"
| "insert_group k r ((k', rs) # g) = (if k' = k then (k', rs @ [r]) # g else (k', rs) # insert_group k r g)"

definition group_by_key :: "('a \<Rightarrow> string) \<Rightarrow> 'a list \<Rightarrow> (string \<times> 'a list) list" where
  "group_by_key sel rows = fold (\<lambda>r g. insert_group (sel r) r g) rows []"

definition matches_of :: "(string \<times> 'a list) list \<Rightarrow> string \<Rightarrow> 'a list" where
  "matches_of grouped k = nullish (map_of grouped k) []"

datatype dependency_state = Resolved | Missing | Ambiguous

definition dependency_state_of :: "'a list \<Rightarrow> dependency_state" where
  "dependency_state_of matches =
     (if length matches = 0 then Missing else if length matches = 1 then Resolved else Ambiguous)"

definition add_item ::
    "entity_type \<Rightarrow> import_action \<Rightarrow> natural_key \<Rightarrow> bool \<Rightarrow> plan_accumulator \<Rightarrow> plan_accumulator" where
  "add_item e a k credential acc =
     acc\<lparr>pk_summary := (pk_summary acc)(e := (pk_summary acc e)(a := pk_summary acc e a + 1)),
         pk_items := pk_items acc @ [\<lparr>ri_entity_type = e, ri_action = a, ri_natural_key = k,
           ri_credential_will_be_generated = credential\<rparr>]\<rparr>"

definition add_error ::
    "bool \<Rightarrow> entity_type \<Rightarrow> natural_key \<Rightarrow> import_error \<Rightarrow> plan_accumulator \<Rightarrow> plan_accumulator" where
  "add_error count_rejected e k code acc =
     acc\<lparr>pk_summary := (if count_rejected
           then (pk_summary acc)(e := (pk_summary acc e)(ActRejected := pk_summary acc e ActRejected + 1))
           else pk_summary acc),
         pk_errors := (if length (pk_errors acc) < 100
           then pk_errors acc @ [\<lparr>re_entity_type = e, re_natural_key = k, re_code = code\<rparr>]
           else pk_errors acc)\<rparr>"

definition application_is_selected :: "manifest \<Rightarrow> string \<Rightarrow> bool" where
  "application_is_selected m slug =
     (as_all_applications (mf_selection m) \<or>
      list_ex (\<lambda>s. normalized_slug s = normalized_slug slug) (as_application_slugs (mf_selection m)))"

definition control_plane_slug :: string where
  "control_plane_slug = ''porta-admin''"

definition root_scope_error :: "organization_row list \<Rightarrow> string \<Rightarrow> bool \<Rightarrow> import_error option" where
  "root_scope_error matches selected in_manifest =
     (if selected = control_plane_slug \<or> (matches \<noteq> [] \<and> og_is_super_admin (hd matches)) then Some ControlPlaneRecord
      else if length matches > 1 then Some AmbiguousDependency
      else if matches = [] \<and> \<not> in_manifest then Some MissingDependency
      else None)"

definition validate_root_scope ::
    "manifest \<Rightarrow> (string \<Rightarrow> organization_row list) \<Rightarrow> string list \<Rightarrow> plan_accumulator \<Rightarrow> plan_accumulator" where
  "validate_root_scope m organizations manifest_organizations acc =
     (let acc1 =
        (case mf_scope m of
           EnvironmentScope \<Rightarrow> acc
         | OrganizationScope slug \<Rightarrow>
             (let selected = normalized_slug slug
              in case root_scope_error (organizations selected) selected (selected \<in> set manifest_organizations) of
                   None \<Rightarrow> acc
                 | Some code \<Rightarrow> add_error False EOrganizations [(''slug'', selected)] code acc))
      in if list_ex (\<lambda>s. normalized_slug s = control_plane_slug) (as_application_slugs (mf_selection m))
         then add_error False EApplications [(''slug'', control_plane_slug)] ControlPlaneRecord acc1
         else acc1)"

definition record_action :: "import_mode \<Rightarrow> bool \<Rightarrow> bool \<Rightarrow> import_action" where
  "record_action mode exists same =
     (if \<not> exists then ActCreated
      else if mode = KeepExisting \<or> same then ActSkipped
      else ActUpdated)"

text \<open>\<open>compareOutcomes\<close> orders by the entity group and then by the joined natural key.\<close>

definition outcome_order :: "entity_type \<Rightarrow> natural_key \<Rightarrow> nat \<times> string" where
  "outcome_order e k = (entity_rank entity_order e, unit_join (map snd k))"

definition record_identity :: "entity_type \<Rightarrow> natural_key \<Rightarrow> entity_type \<times> string" where
  "record_identity e k = (e, unit_join (map snd k))"

subsection \<open>Natural keys\<close>

definition organization_key :: "portable_organization \<Rightarrow> natural_key" where
  "organization_key r = [(''slug'', xo_slug r)]"

definition application_key :: "portable_application \<Rightarrow> natural_key" where
  "application_key r = [(''slug'', xa_slug r)]"

definition module_key :: "portable_module \<Rightarrow> natural_key" where
  "module_key r = [(''application_slug'', xm_application_slug r), (''slug'', xm_slug r)]"

definition role_key :: "portable_role \<Rightarrow> natural_key" where
  "role_key r = [(''application_slug'', xr_application_slug r), (''slug'', xr_slug r)]"

definition permission_key :: "portable_permission \<Rightarrow> natural_key" where
  "permission_key r = [(''application_slug'', xp_application_slug r), (''slug'', xp_slug r)]"

definition claim_key :: "portable_claim \<Rightarrow> natural_key" where
  "claim_key r = [(''application_slug'', xc_application_slug r), (''claim_name'', xc_claim_name r)]"

definition mapping_key :: "portable_mapping \<Rightarrow> natural_key" where
  "mapping_key r = [(''application_slug'', xg_application_slug r), (''role_slug'', xg_role_slug r)]"

definition user_key :: "portable_user \<Rightarrow> natural_key" where
  "user_key r = [(''organization_slug'', xu_organization_slug r), (''email'', xu_email r)]"

definition assignment_key :: "portable_assignment \<Rightarrow> natural_key" where
  "assignment_key r = [(''organization_slug'', xs_organization_slug r), (''email'', xs_email r),
     (''application_slug'', xs_application_slug r), (''role_slug'', xs_role_slug r)]"

definition claim_value_key :: "portable_claim_value \<Rightarrow> natural_key" where
  "claim_value_key r = [(''organization_slug'', xv_organization_slug r), (''email'', xv_email r),
     (''application_slug'', xv_application_slug r), (''claim_name'', xv_claim_name r)]"

definition client_key :: "portable_client \<Rightarrow> natural_key" where
  "client_key r = [(''client_id'', xl_client_id r)]"

text \<open>The key of a user that a message must not repeat.\<close>

definition redacted :: "natural_key \<Rightarrow> natural_key" where
  "redacted k = map (\<lambda>(f, v). (f, if f = ''email'' then ''[redacted]'' else v)) k"

definition manifest_natural_keys :: "manifest \<Rightarrow> entity_type \<Rightarrow> natural_key list" where
  "manifest_natural_keys m e =
     (case e of
        EOrganizations \<Rightarrow> map organization_key (mf_organizations m)
      | EApplications \<Rightarrow> map application_key (mf_applications m)
      | EModules \<Rightarrow> map module_key (mf_modules m)
      | ERoles \<Rightarrow> map role_key (mf_roles m)
      | EPermissions \<Rightarrow> map permission_key (mf_permissions m)
      | EClaims \<Rightarrow> map claim_key (mf_claims m)
      | EMappings \<Rightarrow> map mapping_key (mf_mappings m)
      | EUsers \<Rightarrow> map user_key (mf_users m)
      | EUserRoles \<Rightarrow> map assignment_key (mf_assignments m)
      | EUserClaims \<Rightarrow> map claim_value_key (mf_claim_values m)
      | EClients \<Rightarrow> map client_key (mf_clients m))"

definition duplicate_keys :: "manifest \<Rightarrow> entity_type \<Rightarrow> natural_key list" where
  "duplicate_keys m e =
     concat (map (\<lambda>(_, ks). if length ks < 2 then [] else ks)
       (group_by_key (\<lambda>k. unit_join (map snd k)) (manifest_natural_keys m e)))"

definition reject_duplicates :: "manifest \<Rightarrow> plan_accumulator \<Rightarrow> plan_accumulator \<times> (entity_type \<times> string) list" where
  "reject_duplicates m acc =
     fold (\<lambda>e st. fold (\<lambda>k (a, ids). (add_error True e k DuplicateNaturalKey a, record_identity e k # ids))
       (duplicate_keys m e) st) entity_order (acc, [])"

subsection \<open>Equal values\<close>

definition all_profile_fields :: "profile_field list" where
  "all_profile_fields = [GivenName, FamilyName, MiddleName, Nickname, PreferredUsername, ProfileUrl,
     PictureUrl, WebsiteUrl, Gender, Birthdate, Zoneinfo, Locale, PhoneNumber, AddressStreet,
     AddressLocality, AddressRegion, AddressPostalCode, AddressCountry]"

definition asset_matches :: "portable_asset option \<Rightarrow> branding_asset_row option \<Rightarrow> bool" where
  "asset_matches source destination =
     (case source of
        None \<Rightarrow> destination = None
      | Some a \<Rightarrow>
          (case destination of
             None \<Rightarrow> False
           | Some r \<Rightarrow> ba_content_type r = pa_media_type a \<and> base64_encode (ba_data r) = pa_content_base64 a))"

definition organization_matches ::
    "portable_organization \<Rightarrow> organization_row \<Rightarrow> (asset_type \<Rightarrow> branding_asset_row option) \<Rightarrow> bool" where
  "organization_matches s d assets =
     (xo_name s = og_name d \<and> xo_status s = og_status d \<and> xo_default_locale s = og_default_locale d \<and>
      xo_default_login_methods s = og_default_login_methods d \<and>
      xo_two_factor_policy s = og_two_factor_policy d \<and> xo_logo_url s = og_branding_logo_url d \<and>
      xo_favicon_url s = og_branding_favicon_url d \<and> xo_primary_color s = og_branding_primary_color d \<and>
      xo_company_name s = og_branding_company_name d \<and> xo_custom_css s = og_branding_custom_css d \<and>
      asset_matches (xo_logo_asset s) (assets LogoAsset) \<and>
      asset_matches (xo_favicon_asset s) (assets FaviconAsset))"

text \<open>The destination's slug is compared as stored, its address normalised.\<close>

definition user_matches :: "portable_user \<Rightarrow> string \<Rightarrow> user_row \<Rightarrow> bool" where
  "user_matches s org_slug d =
     (xu_organization_slug s = org_slug \<and> xu_email s = normalized_email (ur_email d) \<and>
      xu_email_verified s = ur_email_verified d \<and>
      list_all (\<lambda>p. xu_profile s p = ur_profile d p) all_profile_fields \<and>
      xu_phone_number_verified s = ur_phone_number_verified d \<and> xu_inactive s = (ur_status d = Inactive))"

definition client_mutable_values_match :: "portable_client \<Rightarrow> client_row \<Rightarrow> bool" where
  "client_mutable_values_match s d =
     (xl_name s = cl_client_name d \<and> xl_status s = cl_status d \<and> xl_grant_types s = cl_grant_types d \<and>
      xl_response_types s = cl_response_types d \<and> xl_scope s = cl_scope d \<and>
      xl_login_methods s = cl_login_methods d \<and>
      xl_token_endpoint_auth_method s = cl_token_endpoint_auth_method d \<and>
      xl_redirect_uris s = cl_redirect_uris d \<and>
      xl_post_logout_redirect_uris s = cl_post_logout_redirect_uris d \<and>
      xl_allowed_origins s = cl_allowed_origins d \<and> xl_require_pkce s = cl_require_pkce d \<and>
      xl_require_consent s = cl_require_consent d)"

definition parent_error :: "bool \<Rightarrow> 'a list \<Rightarrow> import_error option" where
  "parent_error manifest_has_parent matches =
     (if manifest_has_parent then None
      else (case dependency_state_of matches of
              Resolved \<Rightarrow> None
            | Ambiguous \<Rightarrow> Some AmbiguousDependency
            | Missing \<Rightarrow> Some MissingDependency))"

end
