(* ===== verification/PortabilityPlan.thy ===== *)
theory PortabilityPlan
  imports Portability
begin

text \<open>
  packages/server/src/portability/plan.ts, the snapshot of import-repository.ts and the rules of
  schema.ts: what an import would do, decided record by record against one snapshot of the database.

  Every loop of the planner reads only the manifest, the snapshot and the set of duplicates, so each is
  a decision about one record, and the plan collects the decisions in order.
\<close>

subsection \<open>The schema\<close>

definition collection_category :: "entity_type \<Rightarrow> portability_category" where
  "collection_category e =
     (case e of
        EOrganizations \<Rightarrow> CatOrganizations
      | EApplications \<Rightarrow> CatAuthorization | EModules \<Rightarrow> CatAuthorization | ERoles \<Rightarrow> CatAuthorization
      | EPermissions \<Rightarrow> CatAuthorization | EClaims \<Rightarrow> CatAuthorization | EMappings \<Rightarrow> CatAuthorization
      | EUsers \<Rightarrow> CatUsers | EUserRoles \<Rightarrow> CatUsers | EUserClaims \<Rightarrow> CatUsers
      | EClients \<Rightarrow> CatClients)"

definition valid_selection :: "portability_category list \<Rightarrow> application_selection \<Rightarrow> bool" where
  "valid_selection categories sel =
     (let selects_application_data = list_ex (\<lambda>c. c \<noteq> CatOrganizations) categories;
          all = as_all_applications sel; explicit = as_application_slugs sel \<noteq> []
      in if selects_application_data then all \<noteq> explicit else \<not> all \<and> \<not> explicit)"

definition collections_selected :: "manifest \<Rightarrow> bool" where
  "collections_selected m =
     list_all (\<lambda>e. collection_category e \<in> set (mf_categories m) \<or> manifest_natural_keys m e = []) entity_order"

definition text_length :: "nat \<Rightarrow> nat \<Rightarrow> string \<Rightarrow> bool" where
  "text_length lo hi s = (lo \<le> length s \<and> length s \<le> hi)"

definition optional_text :: "(string \<Rightarrow> bool) \<Rightarrow> string option \<Rightarrow> bool" where
  "optional_text P s = (case s of None \<Rightarrow> True | Some v \<Rightarrow> P v)"

definition organization_slug_ok :: "string \<Rightarrow> bool" where
  "organization_slug_ok s = (validate_slug s = None)"

definition application_slug_ok :: "string \<Rightarrow> bool" where
  "application_slug_ok s = (validate_application_slug s = None)"

definition hex_color :: "string \<Rightarrow> bool" where
  "hex_color s =
     (length s = 7 \<and> hd s = CHR ''#'' \<and>
      list_all (\<lambda>c. is_digit c \<or> c \<in> set ''abcdefABCDEF'') (tl s))"

text \<open>Canonical base64: it decodes and encodes back to itself.\<close>

definition decode_canonical_base64 :: "string \<Rightarrow> string option" where
  "decode_canonical_base64 v =
     (let bytes = base64url_decode v
      in if length v = 0 \<or> length v mod 4 \<noteq> 0 \<or> base64_encode bytes \<noteq> v then None else Some bytes)"

definition asset_schema :: "asset_type \<Rightarrow> portable_asset \<Rightarrow> portable_asset option" where
  "asset_schema t a =
     (if pa_media_type a = [] then None
      else (case decode_canonical_base64 (pa_content_base64 a) of
              None \<Rightarrow> None
            | Some bytes \<Rightarrow>
                (case validate_image bytes (pa_media_type a) t of
                   InvalidImage _ \<Rightarrow> None
                 | ValidImage _ valid_bytes _ \<Rightarrow> Some (a\<lparr>pa_content_base64 := base64_encode valid_bytes\<rparr>))))"

definition optional_asset :: "asset_type \<Rightarrow> portable_asset option \<Rightarrow> portable_asset option option" where
  "optional_asset t a = (case a of None \<Rightarrow> Some None | Some x \<Rightarrow> map_option Some (asset_schema t x))"

definition optional_url :: "org_env \<Rightarrow> string option \<Rightarrow> string option option" where
  "optional_url env u =
     (case u of
        None \<Rightarrow> Some None
      | Some v \<Rightarrow> (case validate_branding_image_url env v of Inl _ \<Rightarrow> None | Inr n \<Rightarrow> Some (Some n)))"

definition organization_schema :: "org_env \<Rightarrow> portable_organization \<Rightarrow> portable_organization option" where
  "organization_schema env r =
     (if organization_slug_ok (xo_slug r) \<and> text_length 1 255 (xo_name r) \<and>
         text_length 2 10 (xo_default_locale r) \<and> xo_default_login_methods r \<noteq> [] \<and>
         distinct (xo_default_login_methods r) \<and> optional_text hex_color (xo_primary_color r) \<and>
         optional_text (text_length 0 255) (xo_company_name r) \<and>
         optional_text (text_length 0 10000) (xo_custom_css r)
      then Option.bind (optional_url env (xo_logo_url r)) (\<lambda>logo.
           Option.bind (optional_url env (xo_favicon_url r)) (\<lambda>favicon.
           Option.bind (optional_asset LogoAsset (xo_logo_asset r)) (\<lambda>logo_asset.
           Option.bind (optional_asset FaviconAsset (xo_favicon_asset r)) (\<lambda>favicon_asset.
           Some (r\<lparr>xo_logo_url := logo, xo_favicon_url := favicon, xo_logo_asset := logo_asset,
             xo_favicon_asset := favicon_asset\<rparr>)))))
      else None)"

definition application_schema :: "portable_application \<Rightarrow> bool" where
  "application_schema r = (application_slug_ok (xa_slug r) \<and> text_length 1 255 (xa_name r) \<and>
     optional_text (text_length 0 2000) (xa_description r))"

definition module_schema :: "portable_module \<Rightarrow> bool" where
  "module_schema r = (application_slug_ok (xm_application_slug r) \<and> application_slug_ok (xm_slug r) \<and>
     text_length 1 255 (xm_name r) \<and> optional_text (text_length 0 2000) (xm_description r))"

text \<open>A slug of a role or permission is trimmed, then checked.\<close>

definition role_slug_schema :: "string \<Rightarrow> string option" where
  "role_slug_schema s =
     (let n = normalize_rbac_slug s in if validate_role_slug n then Some n else None)"

definition permission_slug_schema :: "string \<Rightarrow> string option" where
  "permission_slug_schema s =
     (let n = normalize_rbac_slug s in if validate_permission_slug n then Some n else None)"

definition role_schema :: "portable_role \<Rightarrow> portable_role option" where
  "role_schema r =
     (if application_slug_ok (xr_application_slug r) \<and> text_length 1 255 (xr_name r) \<and>
         optional_text (text_length 0 1000) (xr_description r)
      then map_option (\<lambda>s. r\<lparr>xr_slug := s\<rparr>) (role_slug_schema (xr_slug r))
      else None)"

definition permission_schema :: "portable_permission \<Rightarrow> portable_permission option" where
  "permission_schema r =
     (if application_slug_ok (xp_application_slug r) \<and> optional_text application_slug_ok (xp_module_slug r) \<and>
         text_length 1 255 (xp_name r) \<and> optional_text (text_length 0 1000) (xp_description r)
      then map_option (\<lambda>s. r\<lparr>xp_slug := s\<rparr>) (permission_slug_schema (xp_slug r))
      else None)"

definition claim_schema :: "portable_claim \<Rightarrow> bool" where
  "claim_schema r = (application_slug_ok (xc_application_slug r) \<and> validate_claim_name (xc_claim_name r) = None \<and>
     optional_text (text_length 0 1000) (xc_description r))"

fun all_schema :: "('a \<Rightarrow> 'b option) \<Rightarrow> 'a list \<Rightarrow> 'b list option" where
  "all_schema f [] = Some []"
| "all_schema f (x # xs) =
     Option.bind (f x) (\<lambda>y. Option.bind (all_schema f xs) (\<lambda>ys. Some (y # ys)))"

definition mapping_schema :: "portable_mapping \<Rightarrow> portable_mapping option" where
  "mapping_schema r =
     (if \<not> application_slug_ok (xg_application_slug r) then None
      else Option.bind (role_slug_schema (xg_role_slug r)) (\<lambda>role.
           Option.bind (all_schema permission_slug_schema (xg_permission_slugs r)) (\<lambda>ps.
           if ps \<noteq> [] \<and> distinct ps \<and> sorted ps
           then Some (r\<lparr>xg_role_slug := role, xg_permission_slugs := ps\<rparr>) else None)))"

text \<open>The e-mail and URL tests are zod's.\<close>

record manifest_env =
  mn_org :: org_env
  mn_email :: "string \<Rightarrow> bool"
  mn_url :: "string \<Rightarrow> bool"
  mn_datetime :: "string \<Rightarrow> bool"
  mn_client_url :: url_parser

definition email_schema :: "manifest_env \<Rightarrow> string \<Rightarrow> string option" where
  "email_schema env v =
     (let n = to_lower (trim v) in if mn_email env n \<and> length n \<le> 255 then Some n else None)"

definition iso_date :: "string \<Rightarrow> bool" where
  "iso_date s =
     (length s = 10 \<and> s ! 4 = CHR ''-'' \<and> s ! 7 = CHR ''-'' \<and>
      list_all (\<lambda>i. is_digit (s ! i)) [0, 1, 2, 3, 5, 6, 8, 9])"

definition profile_field_ok :: "manifest_env \<Rightarrow> profile_field \<Rightarrow> string \<Rightarrow> bool" where
  "profile_field_ok env p v =
     (case p of
        ProfileUrl \<Rightarrow> mn_url env v | PictureUrl \<Rightarrow> mn_url env v | WebsiteUrl \<Rightarrow> mn_url env v
      | Gender \<Rightarrow> length v \<le> 50 | Birthdate \<Rightarrow> iso_date v | Zoneinfo \<Rightarrow> length v \<le> 50
      | Locale \<Rightarrow> length v \<le> 10 | PhoneNumber \<Rightarrow> length v \<le> 50 | AddressStreet \<Rightarrow> True
      | AddressPostalCode \<Rightarrow> length v \<le> 20 | AddressCountry \<Rightarrow> length v = 2
      | _ \<Rightarrow> length v \<le> 255)"

definition user_schema :: "manifest_env \<Rightarrow> portable_user \<Rightarrow> portable_user option" where
  "user_schema env r =
     (if organization_slug_ok (xu_organization_slug r) \<and>
         list_all (\<lambda>p. optional_text (profile_field_ok env p) (xu_profile r p)) all_profile_fields
      then map_option (\<lambda>e. r\<lparr>xu_email := e\<rparr>) (email_schema env (xu_email r))
      else None)"

definition assignment_schema :: "manifest_env \<Rightarrow> portable_assignment \<Rightarrow> portable_assignment option" where
  "assignment_schema env r =
     (if \<not> (organization_slug_ok (xs_organization_slug r) \<and> application_slug_ok (xs_application_slug r)) then None
      else Option.bind (email_schema env (xs_email r)) (\<lambda>e.
           Option.bind (role_slug_schema (xs_role_slug r)) (\<lambda>s.
           Some (r\<lparr>xs_email := e, xs_role_slug := s\<rparr>))))"

definition claim_value_schema :: "manifest_env \<Rightarrow> portable_claim_value \<Rightarrow> portable_claim_value option" where
  "claim_value_schema env r =
     (if organization_slug_ok (xv_organization_slug r) \<and> application_slug_ok (xv_application_slug r) \<and>
         validate_claim_name (xv_claim_name r) = None
      then map_option (\<lambda>e. r\<lparr>xv_email := e\<rparr>) (email_schema env (xv_email r))
      else None)"

definition client_protocol_of :: "portable_client \<Rightarrow> client_protocol" where
  "client_protocol_of r = \<lparr>pc_client_type = xl_client_type r, pc_redirect_uris = xl_redirect_uris r,
     pc_grant_types = xl_grant_types r, pc_response_types = xl_response_types r,
     pc_token_endpoint_auth_method = xl_token_endpoint_auth_method r, pc_require_pkce = xl_require_pkce r,
     pc_allowed_origins = xl_allowed_origins r,
     pc_post_logout_redirect_uris = xl_post_logout_redirect_uris r\<rparr>"

definition optional_methods_ok :: "login_method list option \<Rightarrow> bool" where
  "optional_methods_ok ms = (case ms of None \<Rightarrow> True | Some xs \<Rightarrow> xs \<noteq> [] \<and> distinct xs)"

definition portable_client_ok :: "manifest_env \<Rightarrow> portable_client \<Rightarrow> bool" where
  "portable_client_ok env r =
     (text_length 1 255 (xl_client_id r) \<and> organization_slug_ok (xl_organization_slug r) \<and>
      application_slug_ok (xl_application_slug r) \<and> text_length 1 255 (xl_name r) \<and>
      xl_grant_types r \<noteq> [] \<and>
      set (xl_grant_types r) \<subseteq> {''authorization_code'', ''refresh_token'', ''client_credentials''} \<and>
      distinct (xl_grant_types r) \<and> xl_response_types r = [''code''] \<and>
      optional_methods_ok (xl_login_methods r) \<and>
      xl_token_endpoint_auth_method r \<in> {''client_secret_basic'', ''client_secret_post'', ''none''} \<and>
      list_all (mn_url env) (xl_redirect_uris r) \<and> 1 \<le> length (xl_redirect_uris r) \<and> length (xl_redirect_uris r) \<le> 10 \<and>
      distinct (xl_redirect_uris r) \<and> list_all (mn_url env) (xl_post_logout_redirect_uris r) \<and>
      length (xl_post_logout_redirect_uris r) \<le> 10 \<and> distinct (xl_post_logout_redirect_uris r) \<and>
      list_all (mn_url env) (xl_allowed_origins r) \<and> length (xl_allowed_origins r) \<le> 10 \<and>
      distinct (xl_allowed_origins r) \<and>
      validate_client_protocol_compatibility (mn_client_url env) (client_protocol_of r) = [])"

definition frame_schema :: "manifest_env \<Rightarrow> manifest \<Rightarrow> bool" where
  "frame_schema env m =
     (mn_datetime env (mf_exported_at m) \<and>
      (case mf_scope m of OrganizationScope s \<Rightarrow> organization_slug_ok s | EnvironmentScope \<Rightarrow> True) \<and>
      mf_categories m \<noteq> [] \<and> distinct (mf_categories m) \<and>
      list_all application_slug_ok (as_application_slugs (mf_selection m)) \<and>
      distinct (as_application_slugs (mf_selection m)) \<and>
      valid_selection (mf_categories m) (mf_selection m) \<and> collections_selected m)"

definition parse_manifest :: "manifest_env \<Rightarrow> manifest \<Rightarrow> manifest option" where
  "parse_manifest env m =
     (if frame_schema env m \<and> list_all application_schema (mf_applications m) \<and>
         list_all module_schema (mf_modules m) \<and> list_all claim_schema (mf_claims m) \<and>
         list_all (portable_client_ok env) (mf_clients m)
      then Option.bind (all_schema (organization_schema (mn_org env)) (mf_organizations m)) (\<lambda>os.
           Option.bind (all_schema role_schema (mf_roles m)) (\<lambda>rs.
           Option.bind (all_schema permission_schema (mf_permissions m)) (\<lambda>ps.
           Option.bind (all_schema mapping_schema (mf_mappings m)) (\<lambda>gs.
           Option.bind (all_schema (user_schema env) (mf_users m)) (\<lambda>us.
           Option.bind (all_schema (assignment_schema env) (mf_assignments m)) (\<lambda>ss.
           Option.bind (all_schema (claim_value_schema env) (mf_claim_values m)) (\<lambda>vs.
           Some (m\<lparr>mf_organizations := os, mf_roles := rs, mf_permissions := ps, mf_mappings := gs,
             mf_users := us, mf_assignments := ss, mf_claim_values := vs\<rparr>))))))))
      else None)"

subsection \<open>The snapshot\<close>

text \<open>Rows come with the slugs of their parents; role permissions as single edges.\<close>

record import_snapshot =
  sn_organizations :: "organization_row list"
  sn_assets :: "(string \<times> branding_asset_row) list"
  sn_applications :: "application_row list"
  sn_modules :: "(string \<times> module_row) list"
  sn_roles :: "(string \<times> role_row) list"
  sn_permissions :: "(string \<times> string option \<times> permission_row) list"
  sn_claims :: "(string \<times> claim_definition_row) list"
  sn_role_permissions :: "(string \<times> string \<times> string) list"
  sn_users :: "(string \<times> user_row) list"
  sn_user_roles :: "(string \<times> string \<times> string \<times> string) list"
  sn_claim_values :: "(string \<times> string \<times> string \<times> string \<times> json) list"
  sn_clients :: "(string \<times> string \<times> client_row) list"

text \<open>\<open>BTRIM\<close> removes spaces only.\<close>

definition btrim :: "string \<Rightarrow> string" where
  "btrim s = rev (dropWhile (\<lambda>c. c = CHR '' '') (rev (dropWhile (\<lambda>c. c = CHR '' '') s)))"

definition sql_slug :: "string \<Rightarrow> string" where
  "sql_slug s = to_lower (btrim s)"

definition organization_filter :: "manifest \<Rightarrow> organization_row \<Rightarrow> bool" where
  "organization_filter m o' =
     (case mf_scope m of
        OrganizationScope slug \<Rightarrow> sql_slug (og_slug o') = to_lower (trim slug)
      | EnvironmentScope \<Rightarrow> \<not> og_is_super_admin o')"

definition application_filter :: "manifest \<Rightarrow> application_row \<Rightarrow> bool" where
  "application_filter m a =
     (if as_all_applications (mf_selection m) then sql_slug (ap_slug a) \<noteq> control_plane_slug
      else sql_slug (ap_slug a) \<in> set (map (\<lambda>s. to_lower (trim s)) (as_application_slugs (mf_selection m))))"

definition selected_organizations :: "manifest \<Rightarrow> db \<Rightarrow> organization_row list" where
  "selected_organizations m d = filter (organization_filter m) (db_organizations d)"

definition selected_applications :: "manifest \<Rightarrow> db \<Rightarrow> application_row list" where
  "selected_applications m d = filter (application_filter m) (db_applications d)"

definition has_category :: "manifest \<Rightarrow> portability_category \<Rightarrow> bool" where
  "has_category m c = (c \<in> set (mf_categories m))"

definition module_slug_of :: "db \<Rightarrow> string option \<Rightarrow> string option" where
  "module_slug_of d i =
     (case i of None \<Rightarrow> None | Some x \<Rightarrow> map_option mo_slug (find_row (\<lambda>m. mo_id m = x) (db_modules d)))"

definition read_import_snapshot :: "manifest \<Rightarrow> db \<Rightarrow> import_snapshot" where
  "read_import_snapshot m d =
     (let orgs = selected_organizations m d; apps = selected_applications m d;
          authorization = has_category m CatAuthorization; users = has_category m CatUsers; clients = has_category m CatClients
      in \<lparr>sn_organizations = orgs,
          sn_assets = (if has_category m CatOrganizations
            then [(og_slug o', b). b \<leftarrow> db_branding_assets d, o' \<leftarrow> orgs, og_id o' = ba_organization_id b] else []),
          sn_applications = (if authorization \<or> users \<or> clients then apps else []),
          sn_modules = (if authorization
            then [(ap_slug a, x). x \<leftarrow> db_modules d, a \<leftarrow> apps, ap_id a = mo_application_id x] else []),
          sn_roles = (if authorization \<or> users
            then [(ap_slug a, x). x \<leftarrow> db_roles d, a \<leftarrow> apps, ap_id a = ro_application_id x] else []),
          sn_permissions = (if authorization
            then [(ap_slug a, module_slug_of d (pm_module_id x), x). x \<leftarrow> db_permissions d, a \<leftarrow> apps,
              ap_id a = pm_application_id x] else []),
          sn_claims = (if authorization \<or> mf_claim_values m \<noteq> []
            then [(ap_slug a, x). x \<leftarrow> db_claim_definitions d, a \<leftarrow> apps, ap_id a = cd_application_id x] else []),
          sn_role_permissions = (if authorization
            then [(ap_slug a, ro_slug r, pm_slug p). l \<leftarrow> db_role_permissions d, r \<leftarrow> db_roles d, ro_id r = rl_role_id l,
              p \<leftarrow> db_permissions d, pm_id p = rl_permission_id l, a \<leftarrow> apps, ap_id a = ro_application_id r,
              pm_application_id p = ro_application_id r] else []),
          sn_users = (if users
            then [(og_slug o', x). x \<leftarrow> db_users d, o' \<leftarrow> orgs, og_id o' = ur_organization_id x] else []),
          sn_user_roles = (if users
            then [(og_slug o', ur_email u, ap_slug a, ro_slug r). l \<leftarrow> db_user_roles d, u \<leftarrow> db_users d,
              ur_id u = ul_user_id l, o' \<leftarrow> orgs, og_id o' = ur_organization_id u, r \<leftarrow> db_roles d,
              ro_id r = ul_role_id l, a \<leftarrow> apps, ap_id a = ro_application_id r] else []),
          sn_claim_values = (if users
            then [(og_slug o', ur_email u, ap_slug a, cd_claim_name c, cv_value v). v \<leftarrow> db_claim_values d,
              u \<leftarrow> db_users d, ur_id u = cv_user_id v, o' \<leftarrow> orgs, og_id o' = ur_organization_id u,
              c \<leftarrow> db_claim_definitions d, cd_id c = cv_claim_id v, a \<leftarrow> apps, ap_id a = cd_application_id c] else []),
          sn_clients = (if clients
            then [(og_slug o', ap_slug a, c). c \<leftarrow> db_clients d, cl_client_id c \<in> set (map xl_client_id (mf_clients m)),
              o' \<leftarrow> db_organizations d, og_id o' = cl_organization_id c, a \<leftarrow> db_applications d,
              ap_id a = cl_application_id c] else [])\<rparr>)"

subsection \<open>Looking records up\<close>

definition organizations_at :: "import_snapshot \<Rightarrow> string \<Rightarrow> organization_row list" where
  "organizations_at sn = matches_of (group_by_key (\<lambda>r. normalized_slug (og_slug r)) (sn_organizations sn))"

definition assets_at :: "import_snapshot \<Rightarrow> string \<Rightarrow> (string \<times> branding_asset_row) list" where
  "assets_at sn = matches_of (group_by_key (\<lambda>(s, _). normalized_slug s) (sn_assets sn))"

definition applications_at :: "import_snapshot \<Rightarrow> string \<Rightarrow> application_row list" where
  "applications_at sn = matches_of (group_by_key (\<lambda>r. normalized_slug (ap_slug r)) (sn_applications sn))"

definition modules_at :: "import_snapshot \<Rightarrow> string \<Rightarrow> (string \<times> module_row) list" where
  "modules_at sn = matches_of (group_by_key
     (\<lambda>(a, r). portability_key [normalized_slug a, normalized_slug (mo_slug r)]) (sn_modules sn))"

definition roles_at :: "import_snapshot \<Rightarrow> string \<Rightarrow> (string \<times> role_row) list" where
  "roles_at sn = matches_of (group_by_key
     (\<lambda>(a, r). portability_key [normalized_slug a, normalized_rbac (ro_slug r)]) (sn_roles sn))"

definition permissions_at :: "import_snapshot \<Rightarrow> string \<Rightarrow> (string \<times> string option \<times> permission_row) list" where
  "permissions_at sn = matches_of (group_by_key
     (\<lambda>(a, _, r). portability_key [normalized_slug a, normalized_rbac (pm_slug r)]) (sn_permissions sn))"

definition claims_at :: "import_snapshot \<Rightarrow> string \<Rightarrow> (string \<times> claim_definition_row) list" where
  "claims_at sn = matches_of (group_by_key
     (\<lambda>(a, r). portability_key [normalized_slug a, cd_claim_name r]) (sn_claims sn))"

definition users_at :: "import_snapshot \<Rightarrow> string \<Rightarrow> (string \<times> user_row) list" where
  "users_at sn = matches_of (group_by_key
     (\<lambda>(o', r). portability_key [normalized_slug o', normalized_email (ur_email r)]) (sn_users sn))"

definition claim_values_at ::
    "import_snapshot \<Rightarrow> string \<Rightarrow> (string \<times> string \<times> string \<times> string \<times> json) list" where
  "claim_values_at sn = matches_of (group_by_key
     (\<lambda>(o', e, a, c, _). portability_key [normalized_slug o', normalized_email e, normalized_slug a, c])
     (sn_claim_values sn))"

definition clients_at :: "import_snapshot \<Rightarrow> string \<Rightarrow> (string \<times> string \<times> client_row) list" where
  "clients_at sn = matches_of (group_by_key (\<lambda>(_, _, c). cl_client_id c) (sn_clients sn))"

definition manifest_organizations :: "manifest \<Rightarrow> string list" where
  "manifest_organizations m = map (\<lambda>r. normalized_slug (xo_slug r)) (mf_organizations m)"

definition manifest_applications :: "manifest \<Rightarrow> string list" where
  "manifest_applications m = map (\<lambda>r. normalized_slug (xa_slug r)) (mf_applications m)"

definition manifest_modules :: "manifest \<Rightarrow> string list" where
  "manifest_modules m =
     map (\<lambda>r. portability_key [normalized_slug (xm_application_slug r), normalized_slug (xm_slug r)]) (mf_modules m)"

definition manifest_roles :: "manifest \<Rightarrow> string list" where
  "manifest_roles m =
     map (\<lambda>r. portability_key [normalized_slug (xr_application_slug r), normalized_rbac (xr_slug r)]) (mf_roles m)"

definition manifest_permissions :: "manifest \<Rightarrow> string list" where
  "manifest_permissions m =
     map (\<lambda>r. portability_key [normalized_slug (xp_application_slug r), normalized_rbac (xp_slug r)]) (mf_permissions m)"

definition manifest_claims :: "manifest \<Rightarrow> string list" where
  "manifest_claims m =
     map (\<lambda>r. portability_key [normalized_slug (xc_application_slug r), xc_claim_name r]) (mf_claims m)"

definition manifest_users :: "manifest \<Rightarrow> string list" where
  "manifest_users m =
     map (\<lambda>r. portability_key [normalized_slug (xu_organization_slug r), normalized_email (xu_email r)]) (mf_users m)"

definition selected_organization :: "manifest \<Rightarrow> string option" where
  "selected_organization m =
     (case mf_scope m of OrganizationScope slug \<Rightarrow> Some (normalized_slug slug) | EnvironmentScope \<Rightarrow> None)"

definition outside_scope :: "manifest \<Rightarrow> string \<Rightarrow> bool" where
  "outside_scope m k = (selected_organization m \<noteq> None \<and> selected_organization m \<noteq> Some k)"

subsection \<open>Decisions\<close>

datatype plan_decision =
    AlreadyRejected
  | Refuse natural_key import_error
  | Accept import_action natural_key bool

definition applied :: "entity_type \<Rightarrow> plan_decision \<Rightarrow> plan_accumulator \<Rightarrow> plan_accumulator" where
  "applied e dec acc =
     (case dec of
        AlreadyRejected \<Rightarrow> acc
      | Refuse k code \<Rightarrow> add_error True e k code acc
      | Accept a k credential \<Rightarrow> add_item e a k credential acc)"

text \<open>One match decides; more than one is ambiguous.\<close>

definition decide_match ::
    "import_mode \<Rightarrow> natural_key \<Rightarrow> 'a list \<Rightarrow> ('a \<Rightarrow> bool) \<Rightarrow> plan_decision" where
  "decide_match mode k matches same =
     (if length matches > 1 then Refuse k AmbiguousDependency
      else (case matches of
              [] \<Rightarrow> Accept (record_action mode False False) k False
            | d # _ \<Rightarrow> Accept (record_action mode True (same d)) k False))"

definition decide_organization :: "import_mode \<Rightarrow> manifest \<Rightarrow> import_snapshot \<Rightarrow> portable_organization \<Rightarrow> plan_decision" where
  "decide_organization mode m sn r =
     (let k = organization_key r; slug = normalized_slug (xo_slug r); matches = organizations_at sn slug
      in if outside_scope m slug then Refuse k CrossScopeReference
         else if xo_slug r = control_plane_slug then Refuse k ControlPlaneRecord
         else if length matches > 1 then Refuse k AmbiguousDependency
         else if matches \<noteq> [] \<and> og_is_super_admin (hd matches) then Refuse k ControlPlaneRecord
         else decide_match mode k matches (\<lambda>d. organization_matches r d
           (\<lambda>t. map_of (rev (map (\<lambda>(_, b). (ba_asset_type b, b)) (assets_at sn slug))) t)))"

definition decide_application :: "import_mode \<Rightarrow> manifest \<Rightarrow> import_snapshot \<Rightarrow> portable_application \<Rightarrow> plan_decision" where
  "decide_application mode m sn r =
     (let k = application_key r
      in if \<not> application_is_selected m (xa_slug r) then Refuse k CrossScopeReference
         else if xa_slug r = control_plane_slug then Refuse k ControlPlaneRecord
         else decide_match mode k (applications_at sn (normalized_slug (xa_slug r)))
           (\<lambda>d. xa_name r = ap_name d \<and> xa_description r = ap_description d \<and> xa_status r = ap_status d))"

text \<open>The application of a child record: selected, not Porta's own, and known.\<close>

definition application_error :: "manifest \<Rightarrow> import_snapshot \<Rightarrow> string \<Rightarrow> import_error option" where
  "application_error m sn slug =
     (let app = normalized_slug slug
      in if \<not> application_is_selected m slug then Some CrossScopeReference
         else if app = control_plane_slug then Some ControlPlaneRecord
         else parent_error (app \<in> set (manifest_applications m)) (applications_at sn app))"

definition decide_module :: "import_mode \<Rightarrow> manifest \<Rightarrow> import_snapshot \<Rightarrow> portable_module \<Rightarrow> plan_decision" where
  "decide_module mode m sn r =
     (let k = module_key r
      in case application_error m sn (xm_application_slug r) of
           Some e \<Rightarrow> Refuse k e
         | None \<Rightarrow>
             decide_match mode k
               (modules_at sn (portability_key [normalized_slug (xm_application_slug r), normalized_slug (xm_slug r)]))
               (\<lambda>(_, d). xm_name r = mo_name d \<and> xm_description r = mo_description d \<and> xm_status r = mo_status d))"

definition decide_role :: "import_mode \<Rightarrow> manifest \<Rightarrow> import_snapshot \<Rightarrow> portable_role \<Rightarrow> plan_decision" where
  "decide_role mode m sn r =
     (let k = role_key r
      in case application_error m sn (xr_application_slug r) of
           Some e \<Rightarrow> Refuse k e
         | None \<Rightarrow>
             decide_match mode k
               (roles_at sn (portability_key [normalized_slug (xr_application_slug r), normalized_rbac (xr_slug r)]))
               (\<lambda>(_, d). xr_name r = ro_name d \<and> xr_description r = ro_description d))"

definition module_error :: "manifest \<Rightarrow> import_snapshot \<Rightarrow> portable_permission \<Rightarrow> import_error option" where
  "module_error m sn r =
     (case xp_module_slug r of
        None \<Rightarrow> None
      | Some slug \<Rightarrow>
          (let mk = portability_key [normalized_slug (xp_application_slug r), normalized_slug slug]
           in parent_error (mk \<in> set (manifest_modules m)) (modules_at sn mk)))"

definition decide_permission :: "import_mode \<Rightarrow> manifest \<Rightarrow> import_snapshot \<Rightarrow> portable_permission \<Rightarrow> plan_decision" where
  "decide_permission mode m sn r =
     (let k = permission_key r;
          matches = permissions_at sn
            (portability_key [normalized_slug (xp_application_slug r), normalized_rbac (xp_slug r)])
      in case application_error m sn (xp_application_slug r) of
           Some e \<Rightarrow> Refuse k e
         | None \<Rightarrow>
             (case module_error m sn r of
                Some e \<Rightarrow> Refuse k e
              | None \<Rightarrow>
                  (if length matches = 1 \<and>
                      normalized_slug (nullish (fst (snd (hd matches))) []) \<noteq> normalized_slug (nullish (xp_module_slug r) [])
                   then Refuse k IncompatibleRecord
                   else decide_match mode k matches
                     (\<lambda>(_, _, d). xp_name r = pm_name d \<and> xp_description r = pm_description d))))"

definition decide_claim :: "import_mode \<Rightarrow> manifest \<Rightarrow> import_snapshot \<Rightarrow> portable_claim \<Rightarrow> plan_decision" where
  "decide_claim mode m sn r =
     (let k = claim_key r;
          matches = claims_at sn (portability_key [normalized_slug (xc_application_slug r), xc_claim_name r])
      in case application_error m sn (xc_application_slug r) of
           Some e \<Rightarrow> Refuse k e
         | None \<Rightarrow>
             (if length matches = 1 \<and> cd_claim_type (snd (hd matches)) \<noteq> xc_claim_type r
              then Refuse k IncompatibleRecord
              else decide_match mode k matches
                (\<lambda>(_, d). xc_description r = cd_description d \<and>
                   xc_include_in_id_token r = cd_include_in_id_token d \<and>
                   xc_include_in_access_token r = cd_include_in_access_token d \<and>
                   xc_include_in_userinfo r = cd_include_in_userinfo d)))"

subsection \<open>Decisions on relations\<close>

definition permission_elsewhere :: "manifest \<Rightarrow> import_snapshot \<Rightarrow> string \<Rightarrow> bool" where
  "permission_elsewhere m sn slug =
     (list_ex (\<lambda>r. normalized_rbac (xp_slug r) = normalized_rbac slug) (mf_permissions m) \<or>
      list_ex (\<lambda>(_, _, r). normalized_rbac (pm_slug r) = normalized_rbac slug) (sn_permissions sn))"

definition elsewhere_error :: "bool \<Rightarrow> import_error" where
  "elsewhere_error e = (if e then CrossScopeReference else MissingDependency)"

fun mapped_permissions_error :: "manifest \<Rightarrow> import_snapshot \<Rightarrow> string \<Rightarrow> string list \<Rightarrow> import_error option" where
  "mapped_permissions_error m sn app [] = None"
| "mapped_permissions_error m sn app (slug # rest) =
     (let pk = portability_key [app, normalized_rbac slug]
      in if pk \<in> set (manifest_permissions m) \<or> dependency_state_of (permissions_at sn pk) = Resolved
         then mapped_permissions_error m sn app rest
         else Some (elsewhere_error (permission_elsewhere m sn slug)))"

definition mapping_error :: "manifest \<Rightarrow> import_snapshot \<Rightarrow> portable_mapping \<Rightarrow> import_error option" where
  "mapping_error m sn r =
     (let app = normalized_slug (xg_application_slug r); rk = portability_key [app, normalized_rbac (xg_role_slug r)]
      in if app = control_plane_slug then Some ControlPlaneRecord
         else (case parent_error (rk \<in> set (manifest_roles m)) (roles_at sn rk) of
                 Some e \<Rightarrow> Some e
               | None \<Rightarrow> mapped_permissions_error m sn app (xg_permission_slugs r)))"

definition role_permission_edges :: "import_snapshot \<Rightarrow> string list" where
  "role_permission_edges sn =
     map (\<lambda>(a, r, p). portability_key [normalized_slug a, normalized_rbac r, normalized_rbac p]) (sn_role_permissions sn)"

definition decide_mapping :: "import_mode \<Rightarrow> manifest \<Rightarrow> import_snapshot \<Rightarrow> portable_mapping \<Rightarrow> plan_decision" where
  "decide_mapping mode m sn r =
     (let k = mapping_key r; app = normalized_slug (xg_application_slug r);
          existing = length (filter (\<lambda>p. portability_key [app, normalized_rbac (xg_role_slug r), normalized_rbac p]
            \<in> set (role_permission_edges sn)) (xg_permission_slugs r))
      in if \<not> application_is_selected m (xg_application_slug r) then Refuse k CrossScopeReference
         else (case mapping_error m sn r of
                 Some e \<Rightarrow> Refuse k e
               | None \<Rightarrow> Accept (if existing = length (xg_permission_slugs r) then ActSkipped
                   else if existing = 0 then ActCreated else ActUpdated) k False))"

definition decide_user :: "import_mode \<Rightarrow> manifest \<Rightarrow> import_snapshot \<Rightarrow> portable_user \<Rightarrow> plan_decision" where
  "decide_user mode m sn r =
     (let k = user_key r; org = normalized_slug (xu_organization_slug r)
      in if outside_scope m org then Refuse (redacted k) CrossScopeReference
         else if org = control_plane_slug then Refuse k ControlPlaneRecord
         else (case parent_error (org \<in> set (manifest_organizations m)) (organizations_at sn org) of
                 Some e \<Rightarrow> Refuse k e
               | None \<Rightarrow>
                   decide_match mode k (users_at sn (portability_key [org, normalized_email (xu_email r)]))
                     (\<lambda>(slug, d). user_matches r slug d)))"

definition user_elsewhere :: "manifest \<Rightarrow> import_snapshot \<Rightarrow> string \<Rightarrow> bool" where
  "user_elsewhere m sn email =
     (list_ex (\<lambda>r. normalized_email (xu_email r) = normalized_email email) (mf_users m) \<or>
      list_ex (\<lambda>(_, r). normalized_email (ur_email r) = normalized_email email) (sn_users sn))"

definition role_elsewhere :: "manifest \<Rightarrow> import_snapshot \<Rightarrow> string \<Rightarrow> bool" where
  "role_elsewhere m sn slug =
     (list_ex (\<lambda>r. normalized_rbac (xr_slug r) = normalized_rbac slug) (mf_roles m) \<or>
      list_ex (\<lambda>(_, r). normalized_rbac (ro_slug r) = normalized_rbac slug) (sn_roles sn))"

definition claim_elsewhere :: "manifest \<Rightarrow> import_snapshot \<Rightarrow> string \<Rightarrow> bool" where
  "claim_elsewhere m sn name =
     (list_ex (\<lambda>r. xc_claim_name r = name) (mf_claims m) \<or> list_ex (\<lambda>(_, r). cd_claim_name r = name) (sn_claims sn))"

text \<open>The application and the organization a relation names.\<close>

definition relation_scope_error :: "manifest \<Rightarrow> string \<Rightarrow> string \<Rightarrow> import_error option" where
  "relation_scope_error m org_slug app_slug =
     (let org = normalized_slug org_slug; app = normalized_slug app_slug
      in if \<not> application_is_selected m app_slug then Some CrossScopeReference
         else if outside_scope m org then Some CrossScopeReference
         else if org = control_plane_slug \<or> app = control_plane_slug then Some ControlPlaneRecord
         else None)"

definition unknown :: "string list \<Rightarrow> string \<Rightarrow> 'a list \<Rightarrow> bool" where
  "unknown in_manifest k matches = (k \<notin> set in_manifest \<and> dependency_state_of matches \<noteq> Resolved)"

definition assignment_error :: "manifest \<Rightarrow> import_snapshot \<Rightarrow> portable_assignment \<Rightarrow> import_error option" where
  "assignment_error m sn r =
     (let uk = portability_key [normalized_slug (xs_organization_slug r), normalized_email (xs_email r)];
          rk = portability_key [normalized_slug (xs_application_slug r), normalized_rbac (xs_role_slug r)]
      in case relation_scope_error m (xs_organization_slug r) (xs_application_slug r) of
           Some e \<Rightarrow> Some e
         | None \<Rightarrow>
             (if unknown (manifest_users m) uk (users_at sn uk)
              then Some (elsewhere_error (user_elsewhere m sn (xs_email r)))
              else if unknown (manifest_roles m) rk (roles_at sn rk)
              then Some (elsewhere_error (role_elsewhere m sn (xs_role_slug r)))
              else None))"

definition refuse_relation :: "natural_key \<Rightarrow> import_error \<Rightarrow> plan_decision" where
  "refuse_relation k e = Refuse (if e = CrossScopeReference then redacted k else k) e"

definition user_role_edges :: "import_snapshot \<Rightarrow> string list" where
  "user_role_edges sn =
     map (\<lambda>(o', e, a, r). portability_key [normalized_slug o', normalized_email e, normalized_slug a, normalized_rbac r])
       (sn_user_roles sn)"

definition decide_assignment :: "import_mode \<Rightarrow> manifest \<Rightarrow> import_snapshot \<Rightarrow> portable_assignment \<Rightarrow> plan_decision" where
  "decide_assignment mode m sn r =
     (let k = assignment_key r
      in case assignment_error m sn r of
           Some e \<Rightarrow> refuse_relation k e
         | None \<Rightarrow>
             Accept (if portability_key [normalized_slug (xs_organization_slug r), normalized_email (xs_email r),
                   normalized_slug (xs_application_slug r), normalized_rbac (xs_role_slug r)] \<in> set (user_role_edges sn)
                then ActSkipped else ActCreated) k False)"

definition claim_type_of :: "manifest \<Rightarrow> import_snapshot \<Rightarrow> portable_claim_value \<Rightarrow> claim_type option" where
  "claim_type_of m sn r =
     (let app = normalized_slug (xv_application_slug r)
      in case find_row (\<lambda>c. normalized_slug (xc_application_slug c) = app \<and> xc_claim_name c = xv_claim_name r) (mf_claims m) of
           Some c \<Rightarrow> Some (xc_claim_type c)
         | None \<Rightarrow>
             (case claims_at sn (portability_key [app, xv_claim_name r]) of
                [] \<Rightarrow> None
              | (_, d) # _ \<Rightarrow> Some (cd_claim_type d)))"

definition claim_value_error :: "manifest \<Rightarrow> import_snapshot \<Rightarrow> portable_claim_value \<Rightarrow> import_error option" where
  "claim_value_error m sn r =
     (let uk = portability_key [normalized_slug (xv_organization_slug r), normalized_email (xv_email r)];
          ck = portability_key [normalized_slug (xv_application_slug r), xv_claim_name r]
      in case relation_scope_error m (xv_organization_slug r) (xv_application_slug r) of
           Some e \<Rightarrow> Some e
         | None \<Rightarrow>
             (if unknown (manifest_users m) uk (users_at sn uk) then Some MissingDependency
              else if unknown (manifest_claims m) ck (claims_at sn ck)
              then Some (elsewhere_error (claim_elsewhere m sn (xv_claim_name r)))
              else (case claim_type_of m sn r of
                      None \<Rightarrow> Some InvalidRecord
                    | Some t \<Rightarrow> if validate_claim_value t (Some (xv_value r)) \<noteq> None then Some InvalidRecord else None)))"

definition decide_claim_value :: "import_mode \<Rightarrow> manifest \<Rightarrow> import_snapshot \<Rightarrow> portable_claim_value \<Rightarrow> plan_decision" where
  "decide_claim_value mode m sn r =
     (let k = claim_value_key r
      in case claim_value_error m sn r of
           Some e \<Rightarrow> refuse_relation k e
         | None \<Rightarrow>
             decide_match mode k
               (claim_values_at sn (portability_key [normalized_slug (xv_organization_slug r), normalized_email (xv_email r),
                  normalized_slug (xv_application_slug r), xv_claim_name r]))
               (\<lambda>(_, _, _, _, v). same_json (xv_value r) v))"

definition client_parents_error :: "manifest \<Rightarrow> import_snapshot \<Rightarrow> portable_client \<Rightarrow> import_error option" where
  "client_parents_error m sn r =
     (let org = normalized_slug (xl_organization_slug r); app = normalized_slug (xl_application_slug r)
      in case parent_error (org \<in> set (manifest_organizations m)) (organizations_at sn org) of
           Some e \<Rightarrow> Some e
         | None \<Rightarrow> parent_error (app \<in> set (manifest_applications m)) (applications_at sn app))"

definition decide_client :: "import_mode \<Rightarrow> manifest \<Rightarrow> import_snapshot \<Rightarrow> portable_client \<Rightarrow> plan_decision" where
  "decide_client mode m sn r =
     (let k = client_key r; org = normalized_slug (xl_organization_slug r); app = normalized_slug (xl_application_slug r);
          matches = clients_at sn (xl_client_id r)
      in if \<not> application_is_selected m (xl_application_slug r) then Refuse k CrossScopeReference
         else if outside_scope m org then Refuse k CrossScopeReference
         else if org = control_plane_slug \<or> app = control_plane_slug then Refuse k ControlPlaneRecord
         else if length matches > 1 then Refuse k AmbiguousDependency
         else (case matches of
                 [] \<Rightarrow>
                   (case client_parents_error m sn r of
                      Some e \<Rightarrow> Refuse k e
                    | None \<Rightarrow> Accept ActCreated k (xl_client_type r = Confidential))
               | (org_slug, app_slug, d) # _ \<Rightarrow>
                   (if normalized_slug org_slug \<noteq> org \<or> normalized_slug app_slug \<noteq> app then Refuse k ClientIdCollision
                    else if cl_client_type d \<noteq> xl_client_type r \<or> cl_application_type d \<noteq> xl_application_type r
                    then Refuse k IncompatibleRecord
                    else Accept (record_action mode True (client_mutable_values_match r d)) k False)))"

subsection \<open>The plan\<close>

definition unless_duplicate ::
    "(entity_type \<times> string) list \<Rightarrow> entity_type \<Rightarrow> ('r \<Rightarrow> natural_key) \<Rightarrow> ('r \<Rightarrow> plan_decision) \<Rightarrow> 'r \<Rightarrow> plan_decision" where
  "unless_duplicate dups e key decide r =
     (if record_identity e (key r) \<in> set dups then AlreadyRejected else decide r)"

definition plan_records ::
    "(entity_type \<times> string) list \<Rightarrow> entity_type \<Rightarrow> ('r \<Rightarrow> natural_key) \<Rightarrow> ('r \<Rightarrow> plan_decision) \<Rightarrow> 'r list \<Rightarrow>
     plan_accumulator \<Rightarrow> plan_accumulator" where
  "plan_records dups e key decide rs acc = fold (\<lambda>r. applied e (unless_duplicate dups e key decide r)) rs acc"

definition plan_accumulated :: "import_mode \<Rightarrow> manifest \<Rightarrow> import_snapshot \<Rightarrow> plan_accumulator" where
  "plan_accumulated mode m sn =
     (let (acc0, dups) = reject_duplicates m empty_plan;
          acc1 = validate_root_scope m (organizations_at sn) (manifest_organizations m) acc0;
          acc2 = plan_records dups EOrganizations organization_key (decide_organization mode m sn) (mf_organizations m) acc1;
          acc3 = plan_records dups EApplications application_key (decide_application mode m sn) (mf_applications m) acc2;
          acc4 = plan_records dups EModules module_key (decide_module mode m sn) (mf_modules m) acc3;
          acc5 = plan_records dups ERoles role_key (decide_role mode m sn) (mf_roles m) acc4;
          acc6 = plan_records dups EPermissions permission_key (decide_permission mode m sn) (mf_permissions m) acc5;
          acc7 = plan_records dups EClaims claim_key (decide_claim mode m sn) (mf_claims m) acc6;
          acc8 = plan_records dups EMappings mapping_key (decide_mapping mode m sn) (mf_mappings m) acc7;
          acc9 = plan_records dups EUsers user_key (decide_user mode m sn) (mf_users m) acc8;
          acc10 = plan_records dups EUserRoles assignment_key (decide_assignment mode m sn) (mf_assignments m) acc9;
          acc11 = plan_records dups EUserClaims claim_value_key (decide_claim_value mode m sn) (mf_claim_values m) acc10
      in plan_records dups EClients client_key (decide_client mode m sn) (mf_clients m) acc11)"

definition sorted_items :: "result_item list \<Rightarrow> result_item list" where
  "sorted_items = sort_key (\<lambda>i. outcome_order (ri_entity_type i) (ri_natural_key i))"

definition sorted_errors :: "result_error list \<Rightarrow> result_error list" where
  "sorted_errors = sort_key (\<lambda>i. outcome_order (re_entity_type i) (re_natural_key i))"

definition plan_result :: "import_mode \<Rightarrow> plan_accumulator \<Rightarrow> import_result" where
  "plan_result mode acc = \<lparr>pr_mode = mode, pr_summary = pk_summary acc,
     pr_items = (if length (pk_errors acc) > 0 then [] else sorted_items (pk_items acc)),
     pr_errors = sorted_errors (pk_errors acc), pr_credentials = []\<rparr>"

text \<open>The result schema: the fields of a natural key, the bound on errors.\<close>

definition natural_key_fields :: "entity_type \<Rightarrow> string list" where
  "natural_key_fields e =
     (case e of
        EOrganizations \<Rightarrow> [''slug''] | EApplications \<Rightarrow> [''slug'']
      | EModules \<Rightarrow> [''application_slug'', ''slug''] | ERoles \<Rightarrow> [''application_slug'', ''slug'']
      | EPermissions \<Rightarrow> [''application_slug'', ''slug''] | EClaims \<Rightarrow> [''application_slug'', ''claim_name'']
      | EMappings \<Rightarrow> [''application_slug'', ''role_slug''] | EUsers \<Rightarrow> [''organization_slug'', ''email'']
      | EUserRoles \<Rightarrow> [''organization_slug'', ''email'', ''application_slug'', ''role_slug'']
      | EUserClaims \<Rightarrow> [''organization_slug'', ''email'', ''application_slug'', ''claim_name'']
      | EClients \<Rightarrow> [''client_id''])"

definition natural_key_ok :: "entity_type \<Rightarrow> natural_key \<Rightarrow> bool" where
  "natural_key_ok e k = (sort (map fst k) = sort (natural_key_fields e))"

definition result_ok :: "import_result \<Rightarrow> bool" where
  "result_ok r =
     (list_all (\<lambda>i. natural_key_ok (ri_entity_type i) (ri_natural_key i)) (pr_items r) \<and>
      list_all (\<lambda>i. natural_key_ok (re_entity_type i) (re_natural_key i)) (pr_errors r) \<and>
      length (pr_errors r) \<le> 100 \<and> (pr_mode r = DryRun \<longrightarrow> pr_credentials r = []))"

record resolved_plan =
  rp_manifest :: manifest
  rp_snapshot :: import_snapshot
  rp_result :: import_result

definition build_resolved_plan :: "manifest_env \<Rightarrow> import_mode \<Rightarrow> manifest \<Rightarrow> (flow, resolved_plan) op" where
  "build_resolved_plan env mode input =
     (case parse_manifest env input of
        None \<Rightarrow> throw_op (JsError ''Invalid manifest'')
      | Some m \<Rightarrow>
          andthen (query (select (read_import_snapshot m))) (\<lambda>sn.
          let result = plan_result mode (plan_accumulated mode m sn)
          in if result_ok result
             then return_op \<lparr>rp_manifest = m, rp_snapshot = sn, rp_result = result\<rparr>
             else throw_op (JsError ''Invalid result'')))"

definition build_portability_plan :: "manifest_env \<Rightarrow> import_mode \<Rightarrow> manifest \<Rightarrow> (flow, import_result) op" where
  "build_portability_plan env mode input =
     run_database_transaction (andthen (build_resolved_plan env mode input) (\<lambda>p. return_op (rp_result p)))"

end
