(* ===== verification/PortabilityImport.thy ===== *)
theory PortabilityImport
  imports PortabilityPlan AdminPermissions
begin

text \<open>
  Applying a manifest: the writers of packages/server/src/portability/import-repository.ts and
  import-user-client-writers.ts, apply.ts, cleanup.ts and authorization.ts.

  Random identifiers and secrets are functions of the record they are made for: every record of an
  accepted manifest has a natural key of its own, so any sequence of random values is such a function.
\<close>

record import_env =
  ie_manifest :: manifest_env
  ie_now :: time
  ie_new_id :: "entity_type \<Rightarrow> natural_key \<Rightarrow> string"
  ie_secret :: "string \<Rightarrow> string"
  ie_secret_id :: "string \<Rightarrow> string"
  ie_argon2_hash :: "string \<Rightarrow> string"
  ie_sha256_hex :: "string \<Rightarrow> string"
  ie_digest :: "manifest \<Rightarrow> string"

subsection \<open>Writers\<close>

definition new_organization_row :: "time \<Rightarrow> string \<Rightarrow> portable_organization \<Rightarrow> organization_row" where
  "new_organization_row now i r = \<lparr>og_id = i, og_name = xo_name r, og_slug = xo_slug r, og_status = xo_status r,
     og_is_super_admin = False, og_branding_logo_url = xo_logo_url r, og_branding_favicon_url = xo_favicon_url r,
     og_branding_primary_color = xo_primary_color r, og_branding_company_name = xo_company_name r,
     og_branding_custom_css = xo_custom_css r, og_default_locale = xo_default_locale r,
     og_two_factor_policy = xo_two_factor_policy r, og_default_login_methods = xo_default_login_methods r,
     og_created_at = now, og_updated_at = now\<rparr>"

definition updated_organization_row :: "time \<Rightarrow> portable_organization \<Rightarrow> organization_row \<Rightarrow> organization_row" where
  "updated_organization_row now r o' = o'\<lparr>og_name := xo_name r, og_status := xo_status r,
     og_default_locale := xo_default_locale r, og_default_login_methods := xo_default_login_methods r,
     og_two_factor_policy := xo_two_factor_policy r, og_branding_logo_url := xo_logo_url r,
     og_branding_favicon_url := xo_favicon_url r, og_branding_primary_color := xo_primary_color r,
     og_branding_company_name := xo_company_name r, og_branding_custom_css := xo_custom_css r,
     og_updated_at := now\<rparr>"

definition insert_portable_organization :: "time \<Rightarrow> string \<Rightarrow> portable_organization \<Rightarrow> (db, unit) op" where
  "insert_portable_organization now i r d =
     (if row_exists (\<lambda>o'. og_id o' = i \<or> og_slug o' = xo_slug r) (db_organizations d) then (Inl UniqueViolation, d)
      else (Inr (), d\<lparr>db_organizations := db_organizations d @ [new_organization_row now i r]\<rparr>))"

text \<open>
  The statement that stores an embedded image names the column \<open>file_name\<close>, which no migration
  creates: PostgreSQL refuses it.
\<close>

definition write_asset_statement :: "portable_asset \<Rightarrow> (flow, unit) op" where
  "write_asset_statement a =
     throw_op (JsError ''column file_name of relation branding_assets does not exist'')"

definition write_asset_slot ::
    "string \<Rightarrow> asset_type list \<Rightarrow> asset_type \<Rightarrow> portable_asset option \<Rightarrow> (flow, unit) op" where
  "write_asset_slot org present t a =
     (case a of
        None \<Rightarrow>
          if t \<notin> set present then return_op ()
          else query (execute (\<lambda>d. d\<lparr>db_branding_assets := delete_where (asset_key org t) (db_branding_assets d)\<rparr>))
      | Some x \<Rightarrow> write_asset_statement x)"

definition write_organization ::
    "import_env \<Rightarrow> portable_organization \<Rightarrow> string option \<Rightarrow> asset_type list \<Rightarrow> (flow, string) op" where
  "write_organization env r destination present =
     (let i = nullish destination (ie_new_id env EOrganizations (organization_key r))
      in andthen
           (query (case destination of
              None \<Rightarrow> insert_portable_organization (ie_now env) i r
            | Some j \<Rightarrow> execute (\<lambda>d. d\<lparr>db_organizations := update_where (\<lambda>o'. og_id o' = j)
                (updated_organization_row (ie_now env) r) (db_organizations d)\<rparr>))) (\<lambda>_.
         andthen (write_asset_slot i present LogoAsset (xo_logo_asset r)) (\<lambda>_.
         andthen (write_asset_slot i present FaviconAsset (xo_favicon_asset r)) (\<lambda>_.
         return_op i))))"

definition write_application ::
    "import_env \<Rightarrow> portable_application \<Rightarrow> string option \<Rightarrow> (flow, string) op" where
  "write_application env r destination =
     (let i = nullish destination (ie_new_id env EApplications (application_key r)); now = ie_now env
      in andthen
           (query (case destination of
              None \<Rightarrow> (\<lambda>d.
                if row_exists (\<lambda>a. ap_id a = i \<or> ap_slug a = xa_slug r) (db_applications d) then (Inl UniqueViolation, d)
                else (Inr (), d\<lparr>db_applications := db_applications d @ [\<lparr>ap_id = i, ap_name = xa_name r,
                  ap_slug = xa_slug r, ap_description = xa_description r, ap_status = xa_status r,
                  ap_created_at = now, ap_updated_at = now\<rparr>]\<rparr>))
            | Some j \<Rightarrow> execute (\<lambda>d. d\<lparr>db_applications := update_where (\<lambda>a. ap_id a = j)
                (\<lambda>a. a\<lparr>ap_name := xa_name r, ap_description := xa_description r, ap_status := xa_status r,
                   ap_updated_at := now\<rparr>) (db_applications d)\<rparr>))) (\<lambda>_.
         return_op i))"

definition write_module ::
    "import_env \<Rightarrow> portable_module \<Rightarrow> string \<Rightarrow> string option \<Rightarrow> (flow, string) op" where
  "write_module env r app destination =
     (let i = nullish destination (ie_new_id env EModules (module_key r)); now = ie_now env
      in andthen
           (query (case destination of
              None \<Rightarrow> (\<lambda>d.
                if row_exists (\<lambda>m. mo_id m = i \<or> mo_application_id m = app \<and> mo_slug m = xm_slug r) (db_modules d)
                then (Inl UniqueViolation, d)
                else if \<not> row_exists (\<lambda>a. ap_id a = app) (db_applications d) then (Inl ForeignKeyViolation, d)
                else (Inr (), d\<lparr>db_modules := db_modules d @ [\<lparr>mo_id = i, mo_application_id = app,
                  mo_name = xm_name r, mo_slug = xm_slug r, mo_description = xm_description r,
                  mo_status = xm_status r, mo_created_at = now, mo_updated_at = now\<rparr>]\<rparr>))
            | Some j \<Rightarrow> execute (\<lambda>d. d\<lparr>db_modules := update_where (\<lambda>m. mo_id m = j)
                (\<lambda>m. m\<lparr>mo_name := xm_name r, mo_description := xm_description r, mo_status := xm_status r,
                   mo_updated_at := now\<rparr>) (db_modules d)\<rparr>))) (\<lambda>_.
         return_op i))"

definition write_role ::
    "import_env \<Rightarrow> portable_role \<Rightarrow> string \<Rightarrow> string option \<Rightarrow> (flow, string) op" where
  "write_role env r app destination =
     (let i = nullish destination (ie_new_id env ERoles (role_key r)); now = ie_now env
      in andthen
           (query (case destination of
              None \<Rightarrow> (\<lambda>d.
                if row_exists (\<lambda>x. ro_id x = i \<or> ro_application_id x = app \<and> ro_slug x = xr_slug r) (db_roles d)
                then (Inl UniqueViolation, d)
                else if \<not> row_exists (\<lambda>a. ap_id a = app) (db_applications d) then (Inl ForeignKeyViolation, d)
                else (Inr (), d\<lparr>db_roles := db_roles d @ [\<lparr>ro_id = i, ro_application_id = app,
                  ro_name = xr_name r, ro_slug = xr_slug r, ro_description = xr_description r,
                  ro_created_at = now, ro_updated_at = now\<rparr>]\<rparr>))
            | Some j \<Rightarrow> execute (\<lambda>d. d\<lparr>db_roles := update_where (\<lambda>x. ro_id x = j)
                (\<lambda>x. x\<lparr>ro_name := xr_name r, ro_description := xr_description r, ro_updated_at := now\<rparr>)
                (db_roles d)\<rparr>))) (\<lambda>_.
         return_op i))"

definition write_permission ::
    "import_env \<Rightarrow> portable_permission \<Rightarrow> string \<Rightarrow> string option \<Rightarrow> string option \<Rightarrow> (flow, string) op" where
  "write_permission env r app module_id destination =
     (let i = nullish destination (ie_new_id env EPermissions (permission_key r)); now = ie_now env
      in andthen
           (query (case destination of
              None \<Rightarrow> (\<lambda>d.
                if row_exists (\<lambda>x. pm_id x = i \<or> pm_application_id x = app \<and> pm_slug x = xp_slug r) (db_permissions d)
                then (Inl UniqueViolation, d)
                else if \<not> row_exists (\<lambda>a. ap_id a = app) (db_applications d) \<or>
                  (case module_id of None \<Rightarrow> False | Some m \<Rightarrow> \<not> row_exists (\<lambda>x. mo_id x = m) (db_modules d))
                then (Inl ForeignKeyViolation, d)
                else (Inr (), d\<lparr>db_permissions := db_permissions d @ [\<lparr>pm_id = i, pm_application_id = app,
                  pm_module_id = module_id, pm_name = xp_name r, pm_slug = xp_slug r,
                  pm_description = xp_description r, pm_created_at = now\<rparr>]\<rparr>))
            | Some j \<Rightarrow> execute (\<lambda>d. d\<lparr>db_permissions := update_where (\<lambda>x. pm_id x = j)
                (\<lambda>x. x\<lparr>pm_name := xp_name r, pm_description := xp_description r\<rparr>) (db_permissions d)\<rparr>))) (\<lambda>_.
         return_op i))"

definition write_claim ::
    "import_env \<Rightarrow> portable_claim \<Rightarrow> string \<Rightarrow> string option \<Rightarrow> (flow, string) op" where
  "write_claim env r app destination =
     (let i = nullish destination (ie_new_id env EClaims (claim_key r)); now = ie_now env
      in andthen
           (query (case destination of
              None \<Rightarrow> (\<lambda>d.
                if row_exists (\<lambda>c. cd_id c = i \<or> cd_application_id c = app \<and> cd_claim_name c = xc_claim_name r)
                     (db_claim_definitions d)
                then (Inl UniqueViolation, d)
                else if \<not> row_exists (\<lambda>a. ap_id a = app) (db_applications d) then (Inl ForeignKeyViolation, d)
                else (Inr (), d\<lparr>db_claim_definitions := db_claim_definitions d @ [\<lparr>cd_id = i, cd_application_id = app,
                  cd_claim_name = xc_claim_name r, cd_claim_type = xc_claim_type r, cd_description = xc_description r,
                  cd_include_in_id_token = xc_include_in_id_token r,
                  cd_include_in_access_token = xc_include_in_access_token r,
                  cd_include_in_userinfo = xc_include_in_userinfo r, cd_created_at = now, cd_updated_at = now\<rparr>]\<rparr>))
            | Some j \<Rightarrow> execute (\<lambda>d. d\<lparr>db_claim_definitions := update_where (\<lambda>c. cd_id c = j)
                (\<lambda>c. c\<lparr>cd_description := xc_description r, cd_include_in_id_token := xc_include_in_id_token r,
                   cd_include_in_access_token := xc_include_in_access_token r,
                   cd_include_in_userinfo := xc_include_in_userinfo r, cd_updated_at := now\<rparr>)
                (db_claim_definitions d)\<rparr>))) (\<lambda>_.
         return_op i))"

definition add_role_permission :: "string \<Rightarrow> string \<Rightarrow> (db, unit) op" where
  "add_role_permission role p d =
     (if row_exists (\<lambda>l. rl_role_id l = role \<and> rl_permission_id l = p) (db_role_permissions d) then (Inr (), d)
      else if \<not> row_exists (\<lambda>x. ro_id x = role) (db_roles d) \<or> \<not> row_exists (\<lambda>x. pm_id x = p) (db_permissions d)
      then (Inl ForeignKeyViolation, d)
      else (Inr (), d\<lparr>db_role_permissions := db_role_permissions d @ [\<lparr>rl_role_id = role, rl_permission_id = p\<rparr>]\<rparr>))"

fun write_role_permissions :: "string \<Rightarrow> string list \<Rightarrow> (flow, unit) op" where
  "write_role_permissions role [] = return_op ()"
| "write_role_permissions role (p # ps) =
     andthen (query (add_role_permission role p)) (\<lambda>_. write_role_permissions role ps)"

definition new_user_row :: "time \<Rightarrow> string \<Rightarrow> string \<Rightarrow> portable_user \<Rightarrow> user_row" where
  "new_user_row now i org r = \<lparr>ur_id = i, ur_organization_id = org, ur_email = xu_email r,
     ur_email_verified = xu_email_verified r, ur_password_hash = None, ur_password_changed_at = None,
     ur_profile = xu_profile r, ur_phone_number_verified = xu_phone_number_verified r,
     ur_two_factor_enabled = False, ur_two_factor_method = None,
     ur_status = (if xu_inactive r then Inactive else Active), ur_locked_at = None, ur_locked_reason = None,
     ur_last_login_at = None, ur_login_count = 0, ur_failed_login_count = 0, ur_last_failed_login_at = None,
     ur_created_at = now, ur_updated_at = now\<rparr>"

text \<open>A locked account stays locked when the manifest says active.\<close>

definition updated_user_row :: "time \<Rightarrow> portable_user \<Rightarrow> user_row \<Rightarrow> user_row" where
  "updated_user_row now r u = u\<lparr>ur_email_verified := xu_email_verified r, ur_profile := xu_profile r,
     ur_phone_number_verified := xu_phone_number_verified r,
     ur_status := (if ur_status u = Locked \<and> \<not> xu_inactive r then Locked
                   else if xu_inactive r then Inactive else Active),
     ur_updated_at := now\<rparr>"

definition write_user ::
    "import_env \<Rightarrow> portable_user \<Rightarrow> string \<Rightarrow> string option \<Rightarrow> (flow, string) op" where
  "write_user env r org destination =
     (let i = nullish destination (ie_new_id env EUsers (user_key r)); now = ie_now env
      in andthen
           (query (case destination of
              None \<Rightarrow> (\<lambda>d.
                if row_exists (\<lambda>u. ur_id u = i) (db_users d) \<or> row_exists (same_login org (xu_email r)) (db_users d)
                then (Inl UniqueViolation, d)
                else if \<not> row_exists (\<lambda>o'. og_id o' = org) (db_organizations d) then (Inl ForeignKeyViolation, d)
                else (Inr (), d\<lparr>db_users := db_users d @ [new_user_row now i org r]\<rparr>))
            | Some j \<Rightarrow> execute (\<lambda>d. d\<lparr>db_users := update_where (\<lambda>u. ur_id u = j)
                (updated_user_row now r) (db_users d)\<rparr>))) (\<lambda>_.
         return_op i))"

definition write_user_role :: "string \<Rightarrow> string \<Rightarrow> (db, unit) op" where
  "write_user_role u role d =
     (if row_exists (\<lambda>l. ul_user_id l = u \<and> ul_role_id l = role) (db_user_roles d) then (Inr (), d)
      else if \<not> row_exists (\<lambda>x. ur_id x = u) (db_users d) \<or> \<not> row_exists (\<lambda>x. ro_id x = role) (db_roles d)
      then (Inl ForeignKeyViolation, d)
      else (Inr (), d\<lparr>db_user_roles := db_user_roles d @ [\<lparr>ul_user_id = u, ul_role_id = role, ul_assigned_by = None\<rparr>]\<rparr>))"

definition write_claim_value :: "import_env \<Rightarrow> portable_claim_value \<Rightarrow> string \<Rightarrow> string \<Rightarrow> (flow, unit) op" where
  "write_claim_value env r u claim =
     andthen (query (upsert_value (ie_new_id env EUserClaims (claim_value_key r)) u claim (xv_value r))) (\<lambda>_.
     return_op ())"

subsection \<open>Clients and their first secret\<close>

text \<open>\<open>Date.UTC\<close> of a date: the day count that \<open>civil_date\<close> reads.\<close>

definition days_of_civil :: "int \<Rightarrow> int \<Rightarrow> int \<Rightarrow> int" where
  "days_of_civil y m d =
     (let y' = (if m \<le> 2 then y - 1 else y); era = y' div 400; yoe = y' - era * 400;
          doy = (153 * ((m + 9) mod 12) + 2) div 5 + d - 1;
          doe = yoe * 365 + yoe div 4 - yoe div 100 + doy
      in era * 146097 + doe - 719468)"

definition last_day_of_month :: "int \<Rightarrow> int \<Rightarrow> int" where
  "last_day_of_month y m =
     (if m = 12 then days_of_civil (y + 1) 1 1 else days_of_civil y (m + 1) 1) - days_of_civil y m 1"

text \<open>Six months later, on the last day of the month when it is shorter, at the same time of day.\<close>

definition imported_secret_expiry :: "time \<Rightarrow> time" where
  "imported_secret_expiry now =
     (let (y, m, d) = civil_date (now div 86400000);
          target = (m - 1) + 6; target_year = y + target div 12; target_month = target mod 12 + 1
      in days_of_civil target_year target_month (min d (last_day_of_month target_year target_month)) * 86400000 +
         now mod 86400000)"

definition new_client_row :: "time \<Rightarrow> string \<Rightarrow> string \<Rightarrow> string \<Rightarrow> portable_client \<Rightarrow> client_row" where
  "new_client_row now i org app r = \<lparr>cl_id = i, cl_client_id = xl_client_id r, cl_organization_id = org,
     cl_application_id = app, cl_client_name = xl_name r, cl_client_type = xl_client_type r,
     cl_application_type = xl_application_type r, cl_redirect_uris = xl_redirect_uris r,
     cl_post_logout_redirect_uris = xl_post_logout_redirect_uris r, cl_grant_types = xl_grant_types r,
     cl_response_types = xl_response_types r, cl_scope = xl_scope r,
     cl_token_endpoint_auth_method = xl_token_endpoint_auth_method r, cl_allowed_origins = xl_allowed_origins r,
     cl_require_pkce = xl_require_pkce r, cl_require_consent = xl_require_consent r,
     cl_login_methods = xl_login_methods r, cl_status = xl_status r, cl_created_at = now, cl_updated_at = now\<rparr>"

definition updated_client_row :: "time \<Rightarrow> portable_client \<Rightarrow> client_row \<Rightarrow> client_row" where
  "updated_client_row now r c = c\<lparr>cl_client_name := xl_name r, cl_status := xl_status r,
     cl_grant_types := xl_grant_types r, cl_response_types := xl_response_types r, cl_scope := xl_scope r,
     cl_login_methods := xl_login_methods r, cl_token_endpoint_auth_method := xl_token_endpoint_auth_method r,
     cl_redirect_uris := xl_redirect_uris r, cl_post_logout_redirect_uris := xl_post_logout_redirect_uris r,
     cl_allowed_origins := xl_allowed_origins r, cl_require_pkce := xl_require_pkce r,
     cl_require_consent := xl_require_consent r, cl_updated_at := now\<rparr>"

definition insert_imported_secret :: "import_env \<Rightarrow> portable_client \<Rightarrow> string \<Rightarrow> (db, unit) op" where
  "insert_imported_secret env r client d =
     (let secret = ie_secret env (xl_client_id r)
      in if row_exists (\<lambda>s. cs_id s = ie_secret_id env (xl_client_id r)) (db_client_secrets d) then (Inl UniqueViolation, d)
         else (Inr (), d\<lparr>db_client_secrets := db_client_secrets d @ [\<lparr>cs_id = ie_secret_id env (xl_client_id r),
           cs_client_id = client, cs_secret_hash = ie_argon2_hash env secret,
           cs_secret_sha256 = Some (ie_sha256_hex env secret), cs_label = Some ''Imported'',
           cs_expires_at = Some (imported_secret_expiry (ie_now env)), cs_status = SecretActive,
           cs_last_used_at = None, cs_created_at = ie_now env\<rparr>]\<rparr>))"

definition imported_credential :: "import_env \<Rightarrow> portable_client \<Rightarrow> import_credential" where
  "imported_credential env r = \<lparr>ic_client_id = xl_client_id r, ic_label = ''Imported'',
     ic_secret = ie_secret env (xl_client_id r), ic_expires_at = imported_secret_expiry (ie_now env)\<rparr>"

definition write_client ::
    "import_env \<Rightarrow> portable_client \<Rightarrow> string \<Rightarrow> string \<Rightarrow> string option \<Rightarrow>
     (flow, string \<times> import_credential option) op" where
  "write_client env r org app destination =
     (let i = nullish destination (ie_new_id env EClients (client_key r)); now = ie_now env
      in andthen
           (query (case destination of
              None \<Rightarrow> (\<lambda>d.
                if row_exists (\<lambda>c. cl_id c = i \<or> cl_client_id c = xl_client_id r) (db_clients d)
                then (Inl UniqueViolation, d)
                else if \<not> row_exists (\<lambda>o'. og_id o' = org) (db_organizations d) \<or>
                  \<not> row_exists (\<lambda>a. ap_id a = app) (db_applications d)
                then (Inl ForeignKeyViolation, d)
                else (Inr (), d\<lparr>db_clients := db_clients d @ [new_client_row now i org app r]\<rparr>))
            | Some j \<Rightarrow> execute (\<lambda>d. d\<lparr>db_clients := update_where (\<lambda>c. cl_id c = j)
                (updated_client_row now r) (db_clients d)\<rparr>))) (\<lambda>_.
         if destination \<noteq> None \<or> xl_client_type r \<noteq> Confidential then return_op (i, None)
         else andthen (query (insert_imported_secret env r i)) (\<lambda>_.
              return_op (i, Some (imported_credential env r)))))"


text \<open>
  packages/server/src/portability/apply.ts, cleanup.ts and authorization.ts: one transaction plans
  again, refuses a plan with errors, writes the records in dependency order, registers the cache
  invalidations and writes the audit row.
\<close>

subsection \<open>Resolved identifiers\<close>

record write_ids =
  wi_organizations :: "string \<Rightarrow> string option"
  wi_applications :: "string \<Rightarrow> string option"
  wi_modules :: "string \<Rightarrow> string option"
  wi_roles :: "string \<Rightarrow> string option"
  wi_permissions :: "string \<Rightarrow> string option"
  wi_claims :: "string \<Rightarrow> string option"
  wi_users :: "string \<Rightarrow> string option"
  wi_clients :: "string \<Rightarrow> string option"

text \<open>\<open>new Map(entries)\<close>: a later entry replaces an earlier one.\<close>

definition entries_map :: "(string \<times> 'b) list \<Rightarrow> string \<Rightarrow> 'b option" where
  "entries_map es = map_of (rev es)"

definition snapshot_ids :: "import_snapshot \<Rightarrow> write_ids" where
  "snapshot_ids sn = \<lparr>
     wi_organizations = entries_map (map (\<lambda>r. (normalized_slug (og_slug r), og_id r)) (sn_organizations sn)),
     wi_applications = entries_map (map (\<lambda>r. (normalized_slug (ap_slug r), ap_id r)) (sn_applications sn)),
     wi_modules = entries_map (map (\<lambda>(a, r).
       (portability_key [normalized_slug a, normalized_slug (mo_slug r)], mo_id r)) (sn_modules sn)),
     wi_roles = entries_map (map (\<lambda>(a, r).
       (portability_key [normalized_slug a, normalized_rbac (ro_slug r)], ro_id r)) (sn_roles sn)),
     wi_permissions = entries_map (map (\<lambda>(a, _, r).
       (portability_key [normalized_slug a, normalized_rbac (pm_slug r)], pm_id r)) (sn_permissions sn)),
     wi_claims = entries_map (map (\<lambda>(a, r).
       (portability_key [normalized_slug a, cd_claim_name r], cd_id r)) (sn_claims sn)),
     wi_users = entries_map (map (\<lambda>(o', r).
       (portability_key [normalized_slug o', normalized_email (ur_email r)], ur_id r)) (sn_users sn)),
     wi_clients = entries_map (map (\<lambda>(_, _, c). (cl_client_id c, cl_id c)) (sn_clients sn))\<rparr>"

definition planned_action :: "resolved_plan \<Rightarrow> entity_type \<Rightarrow> natural_key \<Rightarrow> import_action option" where
  "planned_action plan e k =
     map_option ri_action (find_row (\<lambda>i. ri_entity_type i = e \<and> ri_natural_key i = k) (pr_items (rp_result plan)))"

text \<open>A record whose action is \<open>skipped\<close> is passed over; one without an action is an error.\<close>

definition planned ::
    "resolved_plan \<Rightarrow> entity_type \<Rightarrow> natural_key \<Rightarrow> 'a \<Rightarrow> (flow, 'a) op \<Rightarrow> (flow, 'a) op" where
  "planned plan e k a work =
     (case planned_action plan e k of
        None \<Rightarrow> throw_op (JsError ''Portability plan is missing a write action'')
      | Some act \<Rightarrow> if act = ActSkipped then return_op a else work)"

fun write_records :: "('r \<Rightarrow> 'a \<Rightarrow> (flow, 'a) op) \<Rightarrow> 'r list \<Rightarrow> 'a \<Rightarrow> (flow, 'a) op" where
  "write_records write [] a = return_op a"
| "write_records write (r # rs) a = andthen (write r a) (\<lambda>a'. write_records write rs a')"

definition require_id :: "string option \<Rightarrow> string \<Rightarrow> (string \<Rightarrow> (flow, 'a) op) \<Rightarrow> (flow, 'a) op" where
  "require_id i message work = (case i of None \<Rightarrow> throw_op (JsError message) | Some x \<Rightarrow> work x)"

subsection \<open>Organizations, applications and authorization\<close>

definition present_assets :: "import_snapshot \<Rightarrow> string \<Rightarrow> asset_type list" where
  "present_assets sn k = map (\<lambda>(_, b). ba_asset_type b) (filter (\<lambda>(s, _). normalized_slug s = k) (sn_assets sn))"

definition apply_organization :: "import_env \<Rightarrow> resolved_plan \<Rightarrow> portable_organization \<Rightarrow> write_ids \<Rightarrow> (flow, write_ids) op" where
  "apply_organization env plan r ids =
     (let k = normalized_slug (xo_slug r)
      in planned plan EOrganizations (organization_key r) ids
           (andthen (write_organization env r (wi_organizations ids k) (present_assets (rp_snapshot plan) k)) (\<lambda>i.
            return_op (ids\<lparr>wi_organizations := (wi_organizations ids)(k := Some i)\<rparr>))))"

definition apply_application :: "import_env \<Rightarrow> resolved_plan \<Rightarrow> portable_application \<Rightarrow> write_ids \<Rightarrow> (flow, write_ids) op" where
  "apply_application env plan r ids =
     (let k = normalized_slug (xa_slug r)
      in planned plan EApplications (application_key r) ids
           (andthen (write_application env r (wi_applications ids k)) (\<lambda>i.
            return_op (ids\<lparr>wi_applications := (wi_applications ids)(k := Some i)\<rparr>))))"

definition apply_module :: "import_env \<Rightarrow> resolved_plan \<Rightarrow> portable_module \<Rightarrow> write_ids \<Rightarrow> (flow, write_ids) op" where
  "apply_module env plan r ids =
     (let ak = normalized_slug (xm_application_slug r); k = portability_key [ak, normalized_slug (xm_slug r)]
      in planned plan EModules (module_key r) ids
           (require_id (wi_applications ids ak) ''Resolved application is missing'' (\<lambda>app.
            andthen (write_module env r app (wi_modules ids k)) (\<lambda>i.
            return_op (ids\<lparr>wi_modules := (wi_modules ids)(k := Some i)\<rparr>)))))"

definition apply_role :: "import_env \<Rightarrow> resolved_plan \<Rightarrow> portable_role \<Rightarrow> write_ids \<Rightarrow> (flow, write_ids) op" where
  "apply_role env plan r ids =
     (let ak = normalized_slug (xr_application_slug r); k = portability_key [ak, normalized_rbac (xr_slug r)]
      in planned plan ERoles (role_key r) ids
           (require_id (wi_applications ids ak) ''Resolved application is missing'' (\<lambda>app.
            andthen (write_role env r app (wi_roles ids k)) (\<lambda>i.
            return_op (ids\<lparr>wi_roles := (wi_roles ids)(k := Some i)\<rparr>)))))"

definition apply_permission :: "import_env \<Rightarrow> resolved_plan \<Rightarrow> portable_permission \<Rightarrow> write_ids \<Rightarrow> (flow, write_ids) op" where
  "apply_permission env plan r ids =
     (let ak = normalized_slug (xp_application_slug r); k = portability_key [ak, normalized_rbac (xp_slug r)];
          module_id = (case xp_module_slug r of None \<Rightarrow> None
            | Some s \<Rightarrow> wi_modules ids (portability_key [ak, normalized_slug s]))
      in planned plan EPermissions (permission_key r) ids
           (require_id (wi_applications ids ak) ''Resolved application is missing'' (\<lambda>app.
            andthen (unless_throw (\<not> (xp_module_slug r \<noteq> None \<and> module_id = None))
              (JsError ''Resolved application module is missing'')) (\<lambda>_.
            andthen (write_permission env r app module_id (wi_permissions ids k)) (\<lambda>i.
            return_op (ids\<lparr>wi_permissions := (wi_permissions ids)(k := Some i)\<rparr>))))))"

text \<open>The destination of a claim definition is looked up in the snapshot.\<close>

definition apply_claim :: "import_env \<Rightarrow> resolved_plan \<Rightarrow> portable_claim \<Rightarrow> write_ids \<Rightarrow> (flow, write_ids) op" where
  "apply_claim env plan r ids =
     (let ak = normalized_slug (xc_application_slug r); k = portability_key [ak, xc_claim_name r];
          existing = map_option (\<lambda>(_, c). cd_id c) (find_row
            (\<lambda>(a, c). portability_key [normalized_slug a, cd_claim_name c] = k) (sn_claims (rp_snapshot plan)))
      in planned plan EClaims (claim_key r) ids
           (require_id (wi_applications ids ak) ''Resolved application is missing'' (\<lambda>app.
            andthen (write_claim env r app existing) (\<lambda>i.
            return_op (ids\<lparr>wi_claims := (wi_claims ids)(k := Some i)\<rparr>)))))"

fun mapped_ids :: "(string \<Rightarrow> string option) \<Rightarrow> string \<Rightarrow> string list \<Rightarrow> string list option" where
  "mapped_ids permissions ak [] = Some []"
| "mapped_ids permissions ak (slug # rest) =
     (case (permissions (portability_key [ak, normalized_rbac slug]), mapped_ids permissions ak rest) of
        (Some i, Some js) \<Rightarrow> Some (i # js)
      | _ \<Rightarrow> None)"

definition apply_mapping :: "resolved_plan \<Rightarrow> portable_mapping \<Rightarrow> write_ids \<Rightarrow> (flow, write_ids) op" where
  "apply_mapping plan r ids =
     (let ak = normalized_slug (xg_application_slug r)
      in planned plan EMappings (mapping_key r) ids
           (require_id (wi_roles ids (portability_key [ak, normalized_rbac (xg_role_slug r)])) ''Resolved role is missing'' (\<lambda>role.
            case mapped_ids (wi_permissions ids) ak (xg_permission_slugs r) of
              None \<Rightarrow> throw_op (JsError ''Resolved permission is missing'')
            | Some ps \<Rightarrow> andthen (write_role_permissions role ps) (\<lambda>_. return_op ids))))"

definition apply_authorization_records :: "import_env \<Rightarrow> resolved_plan \<Rightarrow> (flow, write_ids) op" where
  "apply_authorization_records env plan =
     (let m = rp_manifest plan
      in andthen (write_records (apply_organization env plan) (mf_organizations m) (snapshot_ids (rp_snapshot plan))) (\<lambda>ids.
         andthen (write_records (apply_application env plan) (mf_applications m) ids) (\<lambda>ids.
         andthen (write_records (apply_module env plan) (mf_modules m) ids) (\<lambda>ids.
         andthen (write_records (apply_role env plan) (mf_roles m) ids) (\<lambda>ids.
         andthen (write_records (apply_permission env plan) (mf_permissions m) ids) (\<lambda>ids.
         andthen (write_records (apply_claim env plan) (mf_claims m) ids) (\<lambda>ids.
         write_records (apply_mapping plan) (mf_mappings m) ids)))))))"

subsection \<open>Users and clients\<close>

definition apply_user :: "import_env \<Rightarrow> resolved_plan \<Rightarrow> portable_user \<Rightarrow> write_ids \<Rightarrow> (flow, write_ids) op" where
  "apply_user env plan r ids =
     (let org = normalized_slug (xu_organization_slug r); k = portability_key [org, normalized_email (xu_email r)]
      in planned plan EUsers (user_key r) ids
           (require_id (wi_organizations ids org) ''Resolved organization is missing'' (\<lambda>organization.
            andthen (write_user env r organization (wi_users ids k)) (\<lambda>i.
            return_op (ids\<lparr>wi_users := (wi_users ids)(k := Some i)\<rparr>)))))"

definition apply_assignment :: "resolved_plan \<Rightarrow> portable_assignment \<Rightarrow> write_ids \<Rightarrow> (flow, write_ids) op" where
  "apply_assignment plan r ids =
     planned plan EUserRoles (assignment_key r) ids
       (require_id (wi_users ids (portability_key [normalized_slug (xs_organization_slug r), normalized_email (xs_email r)]))
          ''Resolved assignment parent is missing'' (\<lambda>u.
        require_id (wi_roles ids (portability_key [normalized_slug (xs_application_slug r), normalized_rbac (xs_role_slug r)]))
          ''Resolved assignment parent is missing'' (\<lambda>role.
        andthen (query (write_user_role u role)) (\<lambda>_. return_op ids))))"

definition apply_claim_value :: "import_env \<Rightarrow> resolved_plan \<Rightarrow> portable_claim_value \<Rightarrow> write_ids \<Rightarrow> (flow, write_ids) op" where
  "apply_claim_value env plan r ids =
     planned plan EUserClaims (claim_value_key r) ids
       (require_id (wi_users ids (portability_key [normalized_slug (xv_organization_slug r), normalized_email (xv_email r)]))
          ''Resolved claim-value parent is missing'' (\<lambda>u.
        require_id (wi_claims ids (portability_key [normalized_slug (xv_application_slug r), xv_claim_name r]))
          ''Resolved claim-value parent is missing'' (\<lambda>claim.
        andthen (write_claim_value env r u claim) (\<lambda>_. return_op ids))))"

definition apply_client ::
    "import_env \<Rightarrow> resolved_plan \<Rightarrow> portable_client \<Rightarrow> write_ids \<times> import_credential list \<Rightarrow>
     (flow, write_ids \<times> import_credential list) op" where
  "apply_client env plan r st =
     (let ids = fst st
      in planned plan EClients (client_key r) st
           (require_id (wi_organizations ids (normalized_slug (xl_organization_slug r))) ''Resolved client parent is missing'' (\<lambda>org.
            require_id (wi_applications ids (normalized_slug (xl_application_slug r))) ''Resolved client parent is missing'' (\<lambda>app.
            andthen (write_client env r org app (wi_clients ids (xl_client_id r))) (\<lambda>written.
            return_op (ids\<lparr>wi_clients := (wi_clients ids)(xl_client_id r := Some (fst written))\<rparr>,
              snd st @ (case snd written of None \<Rightarrow> [] | Some c \<Rightarrow> [c])))))))"

definition apply_user_and_client_records ::
    "import_env \<Rightarrow> resolved_plan \<Rightarrow> write_ids \<Rightarrow> (flow, write_ids \<times> import_result) op" where
  "apply_user_and_client_records env plan ids =
     (let m = rp_manifest plan
      in andthen (write_records (apply_user env plan) (mf_users m) ids) (\<lambda>ids.
         andthen (write_records (apply_assignment plan) (mf_assignments m) ids) (\<lambda>ids.
         andthen (write_records (apply_claim_value env plan) (mf_claim_values m) ids) (\<lambda>ids.
         andthen (write_records (apply_client env plan) (mf_clients m) (ids, [])) (\<lambda>(ids, credentials).
         return_op (ids, (rp_result plan)\<lparr>pr_credentials := credentials\<rparr>))))))"

subsection \<open>Cleanup\<close>

definition changed :: "resolved_plan \<Rightarrow> entity_type \<Rightarrow> natural_key \<Rightarrow> bool" where
  "changed plan e k = list_ex (\<lambda>i. ri_entity_type i = e \<and> ri_natural_key i = k \<and> ri_action i \<noteq> ActSkipped)
     (pr_items (rp_result plan))"

fun each :: "('r \<Rightarrow> (flow, unit) op) \<Rightarrow> 'r list \<Rightarrow> (flow, unit) op" where
  "each f [] = return_op ()"
| "each f (r # rs) = andthen (f r) (\<lambda>_. each f rs)"

definition when_known :: "string option \<Rightarrow> (string \<Rightarrow> (flow, unit) op) \<Rightarrow> (flow, unit) op" where
  "when_known i work = (case i of None \<Rightarrow> return_op () | Some x \<Rightarrow> work x)"

definition if_changed :: "resolved_plan \<Rightarrow> entity_type \<Rightarrow> natural_key \<Rightarrow> (flow, unit) op \<Rightarrow> (flow, unit) op" where
  "if_changed plan e k work = (if changed plan e k then work else return_op ())"

definition reassigned_users :: "resolved_plan \<Rightarrow> write_ids \<Rightarrow> string list" where
  "reassigned_users plan ids =
     List.map_filter (\<lambda>r. if changed plan EUserRoles (assignment_key r)
         then wi_users ids (portability_key [normalized_slug (xs_organization_slug r), normalized_email (xs_email r)]) else None)
       (mf_assignments (rp_manifest plan))"

text \<open>Users of a changed role, as far as the snapshot holds their assignments.\<close>

definition remapped_users :: "resolved_plan \<Rightarrow> write_ids \<Rightarrow> string list" where
  "remapped_users plan ids =
     concat (map (\<lambda>r. if \<not> changed plan EMappings (mapping_key r) then []
         else List.map_filter (\<lambda>(o', e, a, s).
                if normalized_slug a \<noteq> normalized_slug (xg_application_slug r) \<or>
                   normalized_rbac s \<noteq> normalized_rbac (xg_role_slug r) then None
                else wi_users ids (portability_key [normalized_slug o', normalized_email e]))
              (sn_user_roles (rp_snapshot plan)))
       (mf_mappings (rp_manifest plan)))"

definition register_cache_invalidation :: "resolved_plan \<Rightarrow> write_ids \<Rightarrow> (flow, unit) op" where
  "register_cache_invalidation plan ids =
     (let m = rp_manifest plan
      in andthen (each (\<lambda>r. if_changed plan EOrganizations (organization_key r)
             (when_known (wi_organizations ids (normalized_slug (xo_slug r))) (invalidate_organization_cache (xo_slug r))))
           (mf_organizations m)) (\<lambda>_.
         andthen (each (\<lambda>r. if_changed plan EApplications (application_key r)
             (when_known (wi_applications ids (normalized_slug (xa_slug r))) (invalidate_application_cache (xa_slug r))))
           (mf_applications m)) (\<lambda>_.
         andthen (each (\<lambda>r. if_changed plan ERoles (role_key r)
             (when_known (wi_roles ids (portability_key [normalized_slug (xr_application_slug r), normalized_rbac (xr_slug r)]))
                invalidate_role_cache)) (mf_roles m)) (\<lambda>_.
         andthen (each (\<lambda>r. if_changed plan EClaims (claim_key r)
             (when_known (wi_applications ids (normalized_slug (xc_application_slug r))) invalidate_definitions_cache))
           (mf_claims m)) (\<lambda>_.
         andthen (each (\<lambda>r. if_changed plan EUsers (user_key r)
             (when_known (wi_users ids (portability_key [normalized_slug (xu_organization_slug r), normalized_email (xu_email r)]))
                invalidate_user_cache)) (mf_users m)) (\<lambda>_.
         andthen (each invalidate_user_rbac_cache (sort (js_set (reassigned_users plan ids @ remapped_users plan ids)))) (\<lambda>_.
         each (\<lambda>r. if_changed plan EClients (client_key r)
             (when_known (wi_clients ids (xl_client_id r)) (invalidate_client_cache (xl_client_id r)))) (mf_clients m))))))))"

definition deactivated_user_ids :: "resolved_plan \<Rightarrow> write_ids \<Rightarrow> string list" where
  "deactivated_user_ids plan ids =
     (let destination = entries_map (map (\<lambda>(o', r).
            (portability_key [normalized_slug o', normalized_email (ur_email r)], r)) (sn_users (rp_snapshot plan)))
      in sort (js_set (List.map_filter (\<lambda>r.
           let k = portability_key [normalized_slug (xu_organization_slug r), normalized_email (xu_email r)]
           in if \<not> xu_inactive r then None
              else case destination k of
                     None \<Rightarrow> None
                   | Some d \<Rightarrow> if ur_status d = Inactive then None else wi_users ids k)
           (mf_users (rp_manifest plan)))))"

text \<open>The authority of deactivated users is revoked in a transaction of its own, after the commit.\<close>

definition revoke_deactivated :: "time \<Rightarrow> string list \<Rightarrow> effect" where
  "revoke_deactivated now user_ids st =
     (case run_database_transaction
         (andthen (revoke_affected_authority_in_transaction now user_ids) (\<lambda>revoked.
          register_authority_cleanup now \<lparr>ad_user_ids = user_ids, ad_grant_ids = ra_grant_ids revoked,
            ad_role_ids = [], ad_revoke_oidc_state = True\<rparr>)) (idle_flow st) of
        (r, f) \<Rightarrow> (r, fl_store f))"

definition register_portability_cleanup :: "time \<Rightarrow> resolved_plan \<Rightarrow> write_ids \<Rightarrow> (flow, unit) op" where
  "register_portability_cleanup now plan ids =
     andthen (register_cache_invalidation plan ids) (\<lambda>_.
     let user_ids = deactivated_user_ids plan ids
     in if length user_ids = 0 then return_op ()
        else after_database_commit (revoke_deactivated now user_ids))"

subsection \<open>The import\<close>

definition entity_name :: "entity_type \<Rightarrow> string" where
  "entity_name e =
     (case e of
        EOrganizations \<Rightarrow> ''organizations'' | EApplications \<Rightarrow> ''applications''
      | EModules \<Rightarrow> ''application_modules'' | ERoles \<Rightarrow> ''roles'' | EPermissions \<Rightarrow> ''permissions''
      | EClaims \<Rightarrow> ''claim_definitions'' | EMappings \<Rightarrow> ''role_permission_mappings'' | EUsers \<Rightarrow> ''users''
      | EUserRoles \<Rightarrow> ''user_role_assignments'' | EUserClaims \<Rightarrow> ''user_claim_values'' | EClients \<Rightarrow> ''clients'')"

definition category_name :: "portability_category \<Rightarrow> string" where
  "category_name c =
     (case c of
        CatOrganizations \<Rightarrow> ''organizations'' | CatAuthorization \<Rightarrow> ''applications_authorization''
      | CatUsers \<Rightarrow> ''users_assignments'' | CatClients \<Rightarrow> ''oidc_clients'')"

definition mode_name :: "import_mode \<Rightarrow> string" where
  "mode_name mode = (case mode of DryRun \<Rightarrow> ''dry-run'' | KeepExisting \<Rightarrow> ''keep-existing''
     | UpdateExisting \<Rightarrow> ''update-existing'')"

definition summary_json :: "import_summary \<Rightarrow> json" where
  "summary_json s = JObj (map (\<lambda>e. (entity_name e, JObj
     [(''created'', JNum (int (s e ActCreated))), (''updated'', JNum (int (s e ActUpdated))),
      (''skipped'', JNum (int (s e ActSkipped))), (''rejected'', JNum (int (s e ActRejected)))])) entity_order)"

definition import_event :: "import_env \<Rightarrow> import_mode \<Rightarrow> portability_actor \<Rightarrow> resolved_plan \<Rightarrow> string \<Rightarrow> audit_entry" where
  "import_event env mode actor plan org =
     (blank_entry ''admin.import'' ''admin'')\<lparr>ae_organization_id := Some org,
        ae_actor_id := Some (at_user_id actor),
        ae_metadata := Some (JObj
          [(''manifest_version'', JStr ''1.0''), (''sha256_digest'', JStr (ie_digest env (rp_manifest plan))),
           (''mode'', JStr (mode_name mode)),
           (''categories'', JArr (map (\<lambda>c. JStr (category_name c)) (mf_categories (rp_manifest plan)))),
           (''record_counts'', summary_json (pr_summary (rp_result plan)))])\<rparr>"

definition audit_organization :: "portability_actor \<Rightarrow> manifest \<Rightarrow> write_ids \<Rightarrow> string option" where
  "audit_organization actor m ids =
     (case mf_scope m of
        OrganizationScope slug \<Rightarrow> wi_organizations ids (normalized_slug slug)
      | EnvironmentScope \<Rightarrow> Some (at_control_plane_organization_id actor))"

definition import_work ::
    "import_env \<Rightarrow> import_mode \<Rightarrow> portability_actor \<Rightarrow> manifest \<Rightarrow> (flow, import_result) op" where
  "import_work env mode actor input =
     andthen (build_resolved_plan (ie_manifest env) mode input) (\<lambda>plan.
     andthen (unless_throw (length (pr_errors (rp_result plan)) = 0) (PortabilityError 409 ''import_plan_rejected'')) (\<lambda>_.
     andthen (apply_authorization_records env plan) (\<lambda>ids.
     andthen (apply_user_and_client_records env plan ids) (\<lambda>(ids, result).
     andthen (register_portability_cleanup (ie_now env) plan ids) (\<lambda>_.
     require_id (audit_organization actor (rp_manifest plan) ids)
       ''Resolved import organization is unavailable for audit ownership'' (\<lambda>org.
     andthen (write_audit_log_in_transaction (import_event env mode actor plan org)) (\<lambda>_.
     return_op result)))))))"

definition apply_portability_manifest ::
    "import_env \<Rightarrow> import_mode \<Rightarrow> portability_actor \<Rightarrow> manifest \<Rightarrow> (flow, import_result) op" where
  "apply_portability_manifest env mode actor input =
     catch_op (run_database_transaction (import_work env mode actor input))
       (\<lambda>e. throw_op (case e of PortabilityError s c \<Rightarrow> e | _ \<Rightarrow> PortabilityError 503 ''import_execution_failed''))"

subsection \<open>Authorization\<close>

datatype portability_operation = ExportOperation | ImportOperation

definition category_permissions :: "portability_category \<Rightarrow> portability_operation \<Rightarrow> string list" where
  "category_permissions c operation = map admin_permission
     (case (c, operation) of
        (CatOrganizations, ExportOperation) \<Rightarrow> [''ORG_READ'']
      | (CatOrganizations, ImportOperation) \<Rightarrow> [''ORG_CREATE'', ''ORG_UPDATE'', ''ORG_SUSPEND'']
      | (CatAuthorization, ExportOperation) \<Rightarrow> [''APP_READ'', ''ROLE_READ'', ''PERMISSION_READ'', ''CLAIM_READ'']
      | (CatAuthorization, ImportOperation) \<Rightarrow> [''APP_CREATE'', ''APP_UPDATE'', ''ROLE_CREATE'', ''ROLE_UPDATE'',
          ''PERMISSION_CREATE'', ''PERMISSION_UPDATE'', ''CLAIM_CREATE'', ''CLAIM_UPDATE'']
      | (CatUsers, ExportOperation) \<Rightarrow> [''USER_READ'', ''ROLE_READ'', ''CLAIM_READ'']
      | (CatUsers, ImportOperation) \<Rightarrow> [''USER_CREATE'', ''USER_UPDATE'', ''USER_LIFECYCLE'', ''ROLE_ASSIGN'', ''CLAIM_UPDATE'']
      | (CatClients, ExportOperation) \<Rightarrow> [''CLIENT_READ'', ''APP_READ'']
      | (CatClients, ImportOperation) \<Rightarrow> [''CLIENT_CREATE'', ''CLIENT_UPDATE''])"

definition required_portability_permissions :: "portability_operation \<Rightarrow> portability_category list \<Rightarrow> string list" where
  "required_portability_permissions operation categories =
     js_set (admin_permission (if operation = ExportOperation then ''EXPORT_READ'' else ''IMPORT_WRITE'') #
       concat (map (\<lambda>c. category_permissions c operation) categories))"

text \<open>\<open>None\<close> for the categories is a request that did not parse.\<close>

definition require_portability_authorization ::
    "portability_operation \<Rightarrow> portability_category list option \<Rightarrow> bool \<Rightarrow> admin_user option \<Rightarrow> admin_user gate" where
  "require_portability_authorization operation categories environment_scope admin =
     (case categories of
        None \<Rightarrow> Answer 400
      | Some cs \<Rightarrow>
          (case require_permission (required_portability_permissions operation cs) admin of
             Answer s \<Rightarrow> Answer s
           | Proceed a \<Rightarrow>
               (if environment_scope \<and> super_admin_role_slug \<notin> set (au_roles a) then Answer 403 else Proceed a)))"

end
