(* ===== verification/PortabilityProperties.thy ===== *)
theory PortabilityProperties
  imports PortabilityImport "HOL-Library.Multiset"
begin

text \<open>
  What an import promises. First the plan: a plan without errors accepts every record of the manifest
  once and accounts for it. Then the writes: an import under the scope of one organization, or with a
  selection of applications, leaves everything outside of them as it was, and Porta's own control plane
  whatever the scope.
\<close>

subsection \<open>Decisions\<close>

lemma decide_match_accepts:
  "decide_match mode k matches same = Accept a k' c \<Longrightarrow> k' = k \<and> a \<noteq> ActRejected"
  by (auto simp: decide_match_def record_action_def split: if_splits list.splits)

lemma decide_match_not_already [simp]: "decide_match mode k matches same \<noteq> AlreadyRejected"
  by (simp add: decide_match_def split: list.splits)

text \<open>A decider answers for the key of its record, and never leaves it to someone else.\<close>

definition decides :: "('r \<Rightarrow> natural_key) \<Rightarrow> ('r \<Rightarrow> plan_decision) \<Rightarrow> bool" where
  "decides key decide =
     (\<forall>r. decide r \<noteq> AlreadyRejected \<and>
          (\<forall>a k c. decide r = Accept a k c \<longrightarrow> k = key r \<and> a \<noteq> ActRejected))"

lemma decidesI:
  assumes "\<And>r. decide r \<noteq> AlreadyRejected"
    and "\<And>r a k c. decide r = Accept a k c \<Longrightarrow> k = key r \<and> a \<noteq> ActRejected"
  shows "decides key decide"
  using assms by (simp add: decides_def)

lemmas decide_splits = if_splits option.splits list.splits prod.splits

lemma organization_decides: "decides organization_key (decide_organization mode m sn)"
  by (rule decidesI)
    (auto simp: decide_organization_def Let_def dest: decide_match_accepts split: decide_splits)

lemma application_decides: "decides application_key (decide_application mode m sn)"
  by (rule decidesI)
    (auto simp: decide_application_def Let_def dest: decide_match_accepts split: decide_splits)

lemma module_decides: "decides module_key (decide_module mode m sn)"
  by (rule decidesI)
    (auto simp: decide_module_def Let_def dest: decide_match_accepts split: decide_splits)

lemma role_decides: "decides role_key (decide_role mode m sn)"
  by (rule decidesI)
    (auto simp: decide_role_def Let_def dest: decide_match_accepts split: decide_splits)

lemma permission_decides: "decides permission_key (decide_permission mode m sn)"
  by (rule decidesI)
    (auto simp: decide_permission_def Let_def dest: decide_match_accepts split: decide_splits)

lemma claim_decides: "decides claim_key (decide_claim mode m sn)"
  by (rule decidesI)
    (auto simp: decide_claim_def Let_def dest: decide_match_accepts split: decide_splits)

lemma mapping_decides: "decides mapping_key (decide_mapping mode m sn)"
  by (rule decidesI) (auto simp: decide_mapping_def Let_def split: decide_splits)

lemma user_decides: "decides user_key (decide_user mode m sn)"
  by (rule decidesI)
    (auto simp: decide_user_def Let_def dest: decide_match_accepts split: decide_splits)

lemma assignment_decides: "decides assignment_key (decide_assignment mode m sn)"
  by (rule decidesI) (auto simp: decide_assignment_def refuse_relation_def Let_def split: decide_splits)

lemma claim_value_decides: "decides claim_value_key (decide_claim_value mode m sn)"
  by (rule decidesI)
    (auto simp: decide_claim_value_def refuse_relation_def Let_def dest: decide_match_accepts split: decide_splits)

lemma client_decides: "decides client_key (decide_client mode m sn)"
  by (rule decidesI)
    (auto simp: decide_client_def record_action_def Let_def split: decide_splits)

subsection \<open>A plan without errors\<close>

lemma add_error_errors [simp]: "pk_errors (add_error b e k code acc) \<noteq> []"
  by (simp add: add_error_def) auto

lemma applied_errors:
  "pk_errors (applied e dec acc) = [] \<longleftrightarrow> pk_errors acc = [] \<and> (\<forall>k code. dec \<noteq> Refuse k code)"
  by (cases dec) (auto simp: applied_def add_item_def)

lemma plan_records_errors:
  "pk_errors (plan_records dups e key decide rs acc) = [] \<longleftrightarrow>
   pk_errors acc = [] \<and> list_all (\<lambda>r. \<forall>k code. unless_duplicate dups e key decide r \<noteq> Refuse k code) rs"
  by (induction rs arbitrary: acc) (auto simp: plan_records_def applied_errors)

definition tally :: "plan_accumulator \<Rightarrow> entity_type \<Rightarrow> import_action \<Rightarrow> nat" where
  "tally acc e a = length (filter (\<lambda>i. ri_entity_type i = e \<and> ri_action i = a) (pk_items acc))"

definition accounted :: "plan_accumulator \<Rightarrow> bool" where
  "accounted acc = (pk_summary acc = tally acc \<and> list_all (\<lambda>i. ri_action i \<noteq> ActRejected) (pk_items acc))"

definition item_keys :: "result_item list \<Rightarrow> (entity_type \<times> natural_key) list" where
  "item_keys = map (\<lambda>i. (ri_entity_type i, ri_natural_key i))"

lemma add_item_accounted:
  assumes "accounted acc" and "a \<noteq> ActRejected"
  shows "accounted (add_item e a k c acc)"
  using assms by (auto simp: accounted_def add_item_def tally_def fun_eq_iff)

lemma plan_records_accounts:
  assumes "pk_errors (plan_records [] e key decide rs acc) = []" and "decides key decide" and "accounted acc"
  shows "accounted (plan_records [] e key decide rs acc) \<and>
    item_keys (pk_items (plan_records [] e key decide rs acc)) =
      item_keys (pk_items acc) @ map (\<lambda>r. (e, key r)) rs"
  using assms
proof (induction rs arbitrary: acc)
  case Nil
  then show ?case by (simp add: plan_records_def)
next
  case (Cons r rs)
  have rest: "plan_records [] e key decide (r # rs) acc =
      plan_records [] e key decide rs (applied e (decide r) acc)"
    by (simp add: plan_records_def unless_duplicate_def)
  have "\<forall>k code. decide r \<noteq> Refuse k code"
    using Cons.prems(1) by (simp add: plan_records_errors unless_duplicate_def)
  then obtain a k c where dec: "decide r = Accept a k c"
    using Cons.prems(2) by (cases "decide r") (auto simp: decides_def)
  have k: "k = key r" "a \<noteq> ActRejected"
    using Cons.prems(2) dec by (auto simp: decides_def)
  have step: "applied e (decide r) acc = add_item e a (key r) c acc"
    by (simp add: applied_def dec k)
  have "accounted (add_item e a (key r) c acc)"
    using Cons.prems(3) k(2) by (rule add_item_accounted)
  with Cons.IH [of "add_item e a (key r) c acc"] Cons.prems(1,2) show ?case
    unfolding rest step by (simp add: item_keys_def add_item_def)
qed

lemma reject_none:
  assumes "pk_errors (fst (reject_duplicates m empty_plan)) = []"
  shows "reject_duplicates m empty_plan = (empty_plan, [])"
proof -
  define reject where "reject e = (\<lambda>k (a, ids). (add_error True e k DuplicateNaturalKey a, record_identity e k # ids))"
    for e :: entity_type
  have inner: "fold (reject e) ks st = st \<or> pk_errors (fst (fold (reject e) ks st)) \<noteq> []"
    for e ks and st :: "plan_accumulator \<times> (entity_type \<times> string) list"
  proof (induction ks rule: rev_induct)
    case (snoc k ks)
    then show ?case by (auto simp: reject_def split: prod.splits)
  qed simp
  have outer: "pk_errors (fst (fold (\<lambda>e. fold (reject e) (duplicate_keys m e)) es st)) = [] \<longrightarrow>
      fold (\<lambda>e. fold (reject e) (duplicate_keys m e)) es st = st"
    for es and st :: "plan_accumulator \<times> (entity_type \<times> string) list"
  proof (induction es rule: rev_induct)
    case (snoc e es)
    let ?st = "fold (\<lambda>e. fold (reject e) (duplicate_keys m e)) es st"
    show ?case
      using inner [of e "duplicate_keys m e" ?st] snoc by auto
  qed simp
  have "reject_duplicates m empty_plan =
      fold (\<lambda>e. fold (reject e) (duplicate_keys m e)) entity_order (empty_plan, [])"
    by (simp add: reject_duplicates_def reject_def)
  with outer [of entity_order "(empty_plan, [])"] assms show ?thesis by simp
qed

text \<open>What an empty list of errors says of the records.\<close>

definition accepts :: "('r \<Rightarrow> plan_decision) \<Rightarrow> 'r list \<Rightarrow> bool" where
  "accepts decide rs = list_all (\<lambda>r. \<forall>k code. decide r \<noteq> Refuse k code) rs"

definition accepted_manifest :: "import_mode \<Rightarrow> manifest \<Rightarrow> import_snapshot \<Rightarrow> bool" where
  "accepted_manifest mode m sn =
     (accepts (decide_organization mode m sn) (mf_organizations m) \<and>
      accepts (decide_application mode m sn) (mf_applications m) \<and>
      accepts (decide_module mode m sn) (mf_modules m) \<and>
      accepts (decide_role mode m sn) (mf_roles m) \<and>
      accepts (decide_permission mode m sn) (mf_permissions m) \<and>
      accepts (decide_claim mode m sn) (mf_claims m) \<and>
      accepts (decide_mapping mode m sn) (mf_mappings m) \<and>
      accepts (decide_user mode m sn) (mf_users m) \<and>
      accepts (decide_assignment mode m sn) (mf_assignments m) \<and>
      accepts (decide_claim_value mode m sn) (mf_claim_values m) \<and>
      accepts (decide_client mode m sn) (mf_clients m))"

definition manifest_items :: "manifest \<Rightarrow> (entity_type \<times> natural_key) list" where
  "manifest_items m = concat (map (\<lambda>e. map (Pair e) (manifest_natural_keys m e)) entity_order)"

definition stage :: "plan_accumulator \<Rightarrow> (entity_type \<times> natural_key) list \<Rightarrow> bool" where
  "stage acc ks = (accounted acc \<and> pk_errors acc = [] \<and> item_keys (pk_items acc) = ks)"

lemma stage_step:
  assumes "decides key decide" and "accepts decide rs" and "stage acc ks"
  shows "stage (plan_records [] e key decide rs acc) (ks @ map (Pair e) (map key rs))"
proof -
  have errors: "pk_errors (plan_records [] e key decide rs acc) = []"
    using assms(2,3) by (simp add: plan_records_errors unless_duplicate_def accepts_def stage_def)
  with plan_records_accounts [OF errors assms(1)] assms(3) show ?thesis
    by (simp add: stage_def)
qed

lemma root_scope_keeps:
  "pk_errors (validate_root_scope m orgs slugs acc) = [] \<Longrightarrow> validate_root_scope m orgs slugs acc = acc"
  by (auto simp: validate_root_scope_def Let_def split: if_splits option.splits portability_scope.splits)

lemma root_scope_errors:
  "pk_errors (validate_root_scope m orgs slugs acc) = [] \<Longrightarrow> pk_errors acc = []"
  using root_scope_keeps by metis

lemma plan_without_errors:
  assumes "pk_errors (plan_accumulated mode m sn) = []"
  shows "accepted_manifest mode m sn" and "stage (plan_accumulated mode m sn) (manifest_items m)"
proof -
  obtain acc0 dups where dup: "reject_duplicates m empty_plan = (acc0, dups)"
    by (cases "reject_duplicates m empty_plan") auto
  let ?root = "validate_root_scope m (organizations_at sn) (manifest_organizations m)"
  note errors = assms [unfolded plan_accumulated_def Let_def dup prod.case plan_records_errors]
  then have root: "pk_errors (?root acc0) = []" by blast
  then have "pk_errors acc0 = []" by (rule root_scope_errors)
  with dup reject_none [of m] have none: "acc0 = empty_plan" "dups = []" by auto
  have root': "?root empty_plan = empty_plan"
    using root none root_scope_keeps by blast
  show accepted: "accepted_manifest mode m sn"
    using errors unfolding none unless_duplicate_def accepted_manifest_def accepts_def by simp
  have start: "stage empty_plan []"
    by (simp add: stage_def accounted_def empty_plan_def tally_def empty_summary_def item_keys_def fun_eq_iff)
  note acc = accepted [unfolded accepted_manifest_def]
  have whole: "plan_accumulated mode m sn =
     plan_records [] EClients client_key (decide_client mode m sn) (mf_clients m)
      (plan_records [] EUserClaims claim_value_key (decide_claim_value mode m sn) (mf_claim_values m)
      (plan_records [] EUserRoles assignment_key (decide_assignment mode m sn) (mf_assignments m)
      (plan_records [] EUsers user_key (decide_user mode m sn) (mf_users m)
      (plan_records [] EMappings mapping_key (decide_mapping mode m sn) (mf_mappings m)
      (plan_records [] EClaims claim_key (decide_claim mode m sn) (mf_claims m)
      (plan_records [] EPermissions permission_key (decide_permission mode m sn) (mf_permissions m)
      (plan_records [] ERoles role_key (decide_role mode m sn) (mf_roles m)
      (plan_records [] EModules module_key (decide_module mode m sn) (mf_modules m)
      (plan_records [] EApplications application_key (decide_application mode m sn) (mf_applications m)
      (plan_records [] EOrganizations organization_key (decide_organization mode m sn) (mf_organizations m)
        empty_plan))))))))))"
    unfolding plan_accumulated_def Let_def dup prod.case none root' ..
  have "stage (plan_accumulated mode m sn) (((((((((((([]
      @ map (Pair EOrganizations) (map organization_key (mf_organizations m)))
      @ map (Pair EApplications) (map application_key (mf_applications m)))
      @ map (Pair EModules) (map module_key (mf_modules m)))
      @ map (Pair ERoles) (map role_key (mf_roles m)))
      @ map (Pair EPermissions) (map permission_key (mf_permissions m)))
      @ map (Pair EClaims) (map claim_key (mf_claims m)))
      @ map (Pair EMappings) (map mapping_key (mf_mappings m)))
      @ map (Pair EUsers) (map user_key (mf_users m)))
      @ map (Pair EUserRoles) (map assignment_key (mf_assignments m)))
      @ map (Pair EUserClaims) (map claim_value_key (mf_claim_values m)))
      @ map (Pair EClients) (map client_key (mf_clients m))))"
    unfolding whole
    using acc start
    by (intro stage_step organization_decides application_decides module_decides role_decides
        permission_decides claim_decides mapping_decides user_decides assignment_decides
        claim_value_decides client_decides) blast+
  then show "stage (plan_accumulated mode m sn) (manifest_items m)"
    by (simp add: manifest_items_def entity_order_def manifest_natural_keys_def)
qed

lemma sorted_items_mset: "mset (sorted_items xs) = mset xs"
  by (simp add: sorted_items_def)

lemma resolved_plan_parts:
  assumes "build_resolved_plan env mode input f = (Inr plan, f')"
  obtains m where "parse_manifest env input = Some m" and "rp_manifest plan = m"
    and "rp_snapshot plan = read_import_snapshot m (flow_db f)"
    and "rp_result plan = plan_result mode (plan_accumulated mode m (rp_snapshot plan))"
    and "result_ok (rp_result plan)" and "f' = f"
proof (cases "parse_manifest env input")
  case None
  with assms show ?thesis by (simp add: build_resolved_plan_def throw_op_def)
next
  case (Some m)
  let ?sn = "read_import_snapshot m (flow_db f)"
  let ?result = "plan_result mode (plan_accumulated mode m ?sn)"
  let ?plan = "\<lparr>rp_manifest = m, rp_snapshot = ?sn, rp_result = ?result\<rparr>"
  have run: "build_resolved_plan env mode input f =
      (if result_ok ?result then (Inr ?plan, f) else (Inl (JsError ''Invalid result''), f))"
    by (simp add: build_resolved_plan_def Some step_select Let_def return_op_def throw_op_def)
  have ok: "result_ok ?result"
    using assms run by (cases "result_ok ?result") simp_all
  with run have "build_resolved_plan env mode input f = (Inr ?plan, f)" by simp
  from trans [OF this [symmetric] assms] have eqs: "?plan = plan" "f = f'"
    by (auto simp del: import_snapshot.simps)
  show ?thesis
    using ok Some eqs by (intro that [of m]) auto
qed

lemma build_plan_flow: "snd (build_resolved_plan env mode input f) = f"
  by (simp add: build_resolved_plan_def step_select Let_def return_op_def throw_op_def split: option.split)

lemma plan_result_errors:
  "pr_errors (plan_result mode acc) = [] \<longleftrightarrow> pk_errors acc = []"
  by (simp add: plan_result_def sorted_errors_def) (metis length_0_conv length_sort)

text \<open>
  Property C39: a plan without errors accounts for the manifest: its items are the records of the
  manifest, each once and under its own natural key, in dependency order; none of them is rejected; and
  the summary counts, for every kind of record and every action, exactly the items with that action.
\<close>

theorem plan_accounts_for_manifest:
  assumes "build_resolved_plan env mode input f = (Inr plan, f')" and "pr_errors (rp_result plan) = []"
  shows "mset (item_keys (pr_items (rp_result plan))) = mset (manifest_items (rp_manifest plan)) \<and>
    sorted (map (\<lambda>i. outcome_order (ri_entity_type i) (ri_natural_key i)) (pr_items (rp_result plan))) \<and>
    list_all (\<lambda>i. ri_action i \<noteq> ActRejected) (pr_items (rp_result plan)) \<and>
    (\<forall>e a. pr_summary (rp_result plan) e a =
       length (filter (\<lambda>i. ri_entity_type i = e \<and> ri_action i = a) (pr_items (rp_result plan))))"
proof -
  obtain m where result: "rp_result plan = plan_result mode (plan_accumulated mode m (rp_snapshot plan))"
      and m: "rp_manifest plan = m"
    using assms(1) by (rule resolved_plan_parts) blast
  let ?acc = "plan_accumulated mode m (rp_snapshot plan)"
  have none: "pk_errors ?acc = []"
    using assms(2) by (simp add: result plan_result_errors)
  note whole = plan_without_errors(2) [OF none, unfolded stage_def accounted_def]
  have items: "pr_items (rp_result plan) = sorted_items (pk_items ?acc)"
    and summary: "pr_summary (rp_result plan) = tally ?acc"
    using whole by (simp_all add: result plan_result_def none)
  have keys: "mset (item_keys (sorted_items (pk_items ?acc))) = mset (item_keys (pk_items ?acc))"
    by (simp add: item_keys_def sorted_items_mset)
  have count: "length (filter P (sorted_items (pk_items ?acc))) = length (filter P (pk_items ?acc))" for P
    by (metis mset_filter size_mset sorted_items_mset)
  have "list_all (\<lambda>i. ri_action i \<noteq> ActRejected) (sorted_items (pk_items ?acc))"
    using whole by (simp add: list_all_iff sorted_items_def)
  moreover have "sorted (map (\<lambda>i. outcome_order (ri_entity_type i) (ri_natural_key i)) (sorted_items (pk_items ?acc)))"
    by (simp add: sorted_items_def)
  ultimately show ?thesis
    using whole by (simp add: items summary keys count tally_def m)
qed

subsection \<open>A small import\<close>

definition import_organization_row :: "string \<Rightarrow> string \<Rightarrow> bool \<Rightarrow> organization_row" where
  "import_organization_row i slug super = \<lparr>og_id = i, og_name = ''Org'', og_slug = slug, og_status = OrgActive,
     og_is_super_admin = super, og_branding_logo_url = None, og_branding_favicon_url = None,
     og_branding_primary_color = None, og_branding_company_name = None, og_branding_custom_css = None,
     og_default_locale = ''en'', og_two_factor_policy = Optional, og_default_login_methods = [Password],
     og_created_at = 0, og_updated_at = 0\<rparr>"

definition import_user :: "string \<Rightarrow> string \<Rightarrow> portable_user" where
  "import_user slug email = \<lparr>xu_organization_slug = slug, xu_email = email, xu_email_verified = False,
     xu_profile = (\<lambda>_. None), xu_phone_number_verified = False, xu_inactive = False\<rparr>"

definition import_store :: store where
  "import_store = \<lparr>st_db = empty_db\<lparr>db_organizations := [import_organization_row ''o0'' ''porta-admin'' True,
       import_organization_row ''o1'' ''abc'' False],
     db_users := [new_user_row 0 ''u0'' ''o0'' (import_user ''porta-admin'' ''r@p'')]\<rparr>,
     st_redis = [], st_redis_up = True\<rparr>"

definition users_manifest :: "portable_user list \<Rightarrow> manifest" where
  "users_manifest us = \<lparr>mf_exported_at = [], mf_scope = OrganizationScope ''abc'', mf_categories = [CatUsers],
     mf_selection = \<lparr>as_all_applications = True, as_application_slugs = []\<rparr>, mf_organizations = [],
     mf_applications = [], mf_modules = [], mf_roles = [], mf_permissions = [], mf_claims = [], mf_mappings = [],
     mf_users = us, mf_assignments = [], mf_claim_values = [], mf_clients = []\<rparr>"

definition sample_manifest_env :: manifest_env where
  "sample_manifest_env = \<lparr>mn_org = \<lparr>oe_now = 0, oe_new_id = ''x'', oe_parse_url = (\<lambda>_. None), oe_production = True\<rparr>,
     mn_email = (\<lambda>_. True), mn_url = (\<lambda>_. True), mn_datetime = (\<lambda>_. True), mn_client_url = (\<lambda>_. None)\<rparr>"

definition sample_import_env :: import_env where
  "sample_import_env = \<lparr>ie_manifest = sample_manifest_env, ie_now = 1000,
     ie_new_id = (\<lambda>e k. ''n'' @ concat (map snd k)), ie_secret = (\<lambda>c. c), ie_secret_id = (\<lambda>c. c),
     ie_argon2_hash = (\<lambda>s. s), ie_sha256_hex = (\<lambda>s. s), ie_digest = (\<lambda>m. ''digest'')\<rparr>"

text \<open>The plan of one user of the scope.\<close>

definition sample_plan :: "app_error + resolved_plan" where
  "sample_plan = fst (build_resolved_plan sample_manifest_env UpdateExisting
     (users_manifest [import_user ''abc'' ''A@b'']) (idle_flow import_store))"

lemma sample_plan_runs:
  "case sample_plan of Inl _ \<Rightarrow> False
   | Inr plan \<Rightarrow> length (pr_errors (rp_result plan)) = 0 \<and> pr_summary (rp_result plan) EUsers ActCreated = 1"
  by code_simp

theorem plan_accounts_for_manifest_witness:
  "\<exists>plan. sample_plan = Inr plan \<and> pr_summary (rp_result plan) EUsers ActCreated = 1 \<and>
     mset (item_keys (pr_items (rp_result plan))) = mset (manifest_items (rp_manifest plan))"
proof -
  obtain plan where plan: "sample_plan = Inr plan" and ok: "length (pr_errors (rp_result plan)) = 0"
      "pr_summary (rp_result plan) EUsers ActCreated = 1"
    using sample_plan_runs by (auto split: sum.splits)
  let ?run = "build_resolved_plan sample_manifest_env UpdateExisting
     (users_manifest [import_user ''abc'' ''A@b'']) (idle_flow import_store)"
  have "?run = (Inr plan, idle_flow import_store)"
    using plan build_plan_flow by (metis sample_plan_def prod.collapse)
  with plan_accounts_for_manifest [of _ _ _ _ plan] ok plan show ?thesis by blast
qed

end
