(* ===== verification/PortabilityConfinement.thy ===== *)
theory PortabilityConfinement
  imports PortabilityProperties FlowInvariants Slugs
begin

text \<open>
  The rows an import may not touch: those of closed organizations and applications. An organization is
  closed when it is Porta's own or lies outside the scope; an application, when it is Porta's own or was
  not selected. \<open>obeys\<close> is the contract of one writer: it keeps an invariant of the flow, and what it
  returns satisfies a predicate.
\<close>

subsection \<open>Contracts of operations\<close>

definition obeys :: "('s \<Rightarrow> bool) \<Rightarrow> ('s, 'a) op \<Rightarrow> ('a \<Rightarrow> bool) \<Rightarrow> bool" where
  "obeys I m Q = (\<forall>s. I s \<longrightarrow> I (snd (m s)) \<and> (\<forall>a. fst (m s) = Inr a \<longrightarrow> Q a))"

lemma obeysI:
  "(\<And>s. I s \<Longrightarrow> I (snd (m s))) \<Longrightarrow> (\<And>s a. I s \<Longrightarrow> fst (m s) = Inr a \<Longrightarrow> Q a) \<Longrightarrow> obeys I m Q"
  by (simp add: obeys_def)






lemma obeys_keeps: "obeys I m Q \<Longrightarrow> preserves I m"
  by (simp add: obeys_def preserves_def)

lemma obeys_weaken: "obeys I m Q \<Longrightarrow> (\<And>a. Q a \<Longrightarrow> R a) \<Longrightarrow> obeys I m R"
  by (simp add: obeys_def)





subsection \<open>Closed rows\<close>

definition organization_closed :: "manifest \<Rightarrow> string \<Rightarrow> bool" where
  "organization_closed m k = (k = control_plane_slug \<or> outside_scope m k)"

definition application_closed :: "manifest \<Rightarrow> string \<Rightarrow> bool" where
  "application_closed m k = (k = control_plane_slug \<or> \<not> (as_all_applications (mf_selection m) \<or>
     list_ex (\<lambda>s. normalized_slug s = k) (as_application_slugs (mf_selection m))))"

definition closed_organization_rows :: "manifest \<Rightarrow> db \<Rightarrow> organization_row list" where
  "closed_organization_rows m d = filter (\<lambda>r. organization_closed m (normalized_slug (og_slug r))) (db_organizations d)"

definition closed_application_rows :: "manifest \<Rightarrow> db \<Rightarrow> application_row list" where
  "closed_application_rows m d = filter (\<lambda>r. application_closed m (normalized_slug (ap_slug r))) (db_applications d)"

definition users_of :: "string list \<Rightarrow> db \<Rightarrow> user_row list" where
  "users_of orgs d = filter (\<lambda>u. ur_organization_id u \<in> set orgs) (db_users d)"

definition clients_of :: "string list \<Rightarrow> db \<Rightarrow> client_row list" where
  "clients_of orgs d = filter (\<lambda>c. cl_organization_id c \<in> set orgs) (db_clients d)"

definition roles_of :: "string list \<Rightarrow> db \<Rightarrow> role_row list" where
  "roles_of apps d = filter (\<lambda>r. ro_application_id r \<in> set apps) (db_roles d)"

definition grants_of_roles :: "string list \<Rightarrow> db \<Rightarrow> role_permission_row list" where
  "grants_of_roles roles d = filter (\<lambda>l. rl_role_id l \<in> set roles) (db_role_permissions d)"

definition assignments_of :: "string list \<Rightarrow> string list \<Rightarrow> db \<Rightarrow> user_role_row list" where
  "assignments_of users roles d = filter (\<lambda>l. ul_user_id l \<in> set users \<or> ul_role_id l \<in> set roles) (db_user_roles d)"

text \<open>The identifiers of the closed rows of a database.\<close>

record closed_ids =
  co_organizations :: "string list"
  co_applications :: "string list"
  co_users :: "string list"
  co_clients :: "string list"
  co_roles :: "string list"

definition closed_ids_of :: "manifest \<Rightarrow> db \<Rightarrow> closed_ids" where
  "closed_ids_of m d =
     (let orgs = map og_id (closed_organization_rows m d); apps = map ap_id (closed_application_rows m d)
      in \<lparr>co_organizations = orgs, co_applications = apps, co_users = map ur_id (users_of orgs d),
          co_clients = map cl_id (clients_of orgs d), co_roles = map ro_id (roles_of apps d)\<rparr>)"

definition same_closed_rows :: "manifest \<Rightarrow> db \<Rightarrow> db \<Rightarrow> bool" where
  "same_closed_rows m d0 d =
     (let c = closed_ids_of m d0
      in closed_organization_rows m d = closed_organization_rows m d0 \<and>
         closed_application_rows m d = closed_application_rows m d0 \<and>
         users_of (co_organizations c) d = users_of (co_organizations c) d0 \<and>
         clients_of (co_organizations c) d = clients_of (co_organizations c) d0 \<and>
         roles_of (co_applications c) d = roles_of (co_applications c) d0 \<and>
         grants_of_roles (co_roles c) d = grants_of_roles (co_roles c) d0 \<and>
         assignments_of (co_users c) (co_roles c) d = assignments_of (co_users c) (co_roles c) d0)"


lemma same_closed_refl [simp]: "same_closed_rows m d d"
  by (simp add: same_closed_rows_def Let_def)



















subsection \<open>The resolved identifiers\<close>










subsection \<open>Slugs of a parsed manifest\<close>









subsection \<open>Writers\<close>















subsection \<open>Accepted records are open\<close>











subsection \<open>One record after the other\<close>

















subsection \<open>The whole import\<close>





subsection \<open>Cleanup and the transaction\<close>














lemma import_is_atomic:
  assumes "outside_tx f" and "apply_portability_manifest env mode actor input f = (Inl e, f')"
  shows "flow_db f' = flow_db f \<and> (\<exists>s c. e = PortabilityError s c)"
proof -
  obtain r g where run: "run_database_transaction (import_work env mode actor input) f = (r, g)"
    by (cases "run_database_transaction (import_work env mode actor input) f") auto
  with assms(2) obtain e0 where e0: "r = Inl e0" and f': "f' = g"
      and e: "e = (case e0 of PortabilityError s c \<Rightarrow> e0 | _ \<Rightarrow> PortabilityError 503 ''import_execution_failed'')"
    by (cases r) (auto simp: apply_portability_manifest_def catch_op_def throw_op_def)
  have "flow_db g = flow_db f"
    using run e0 tx.rollback [OF assms(1)] by blast
  moreover have "\<exists>s c. e = PortabilityError s c"
    using e by (cases e0) auto
  ultimately show ?thesis by (simp add: f')
qed





end
