(* ===== verification/BulkOperations.thy ===== *)
theory BulkOperations
  imports Organizations UserRepository
begin

text \<open>
  packages/server/src/lib/bulk-operations.ts: ordered bulk changes of the status of organizations
  and users. The request is validated as a whole; then each item has a transaction of its own with the
  lock of the row, the transition, the update and the audit row. A domain rejection ends the item, a
  failing statement ends the request. The statement that fails is a parameter for each item
  (\<open>item_statement\<close>): the commit may also take effect and lose its answer.
\<close>

subsection \<open>Requests and results\<close>

datatype bulk_entity = BulkOrganization | BulkUser

datatype bulk_action = BulkActivate | BulkSuspend | BulkDeactivate

datatype bulk_outcome = Succeeded | Failed | NotAttempted

datatype bulk_code = NotFoundOrNotAuthorized | InvalidTransition | CodeNotAttempted

text \<open>The two status columns.\<close>

datatype bulk_status = OfOrganization organization_status | OfUser user_status

record bulk_input =
  bi_entity_type :: bulk_entity
  bi_entity_ids :: "string list"
  bi_action :: bulk_action
  bi_reason :: "string option"
  bi_organization_id :: "string option"
  bi_actor_id :: "string option"

record bulk_item_result =
  br_id :: string
  br_success :: bool
  br_outcome :: bulk_outcome
  br_code :: "bulk_code option"
  br_error :: "string option"
  br_previous_status :: "bulk_status option"
  br_new_status :: "bulk_status option"

record bulk_operation_result =
  bo_total :: nat
  bo_succeeded :: nat
  bo_failed :: nat
  bo_results :: "bulk_item_result list"
  bo_correlation_id :: "string option"

record status_transition =
  st_from :: "bulk_status list"
  st_to :: bulk_status

definition organization_transitions :: "bulk_action \<Rightarrow> status_transition option" where
  "organization_transitions a =
     (case a of
        BulkActivate \<Rightarrow> Some \<lparr>st_from = [OfOrganization OrgSuspended], st_to = OfOrganization OrgActive\<rparr>
      | BulkSuspend \<Rightarrow> Some \<lparr>st_from = [OfOrganization OrgActive], st_to = OfOrganization OrgSuspended\<rparr>
      | BulkDeactivate \<Rightarrow> None)"

definition user_transitions :: "bulk_action \<Rightarrow> status_transition option" where
  "user_transitions a =
     (case a of
        BulkActivate \<Rightarrow> Some \<lparr>st_from = [OfUser Inactive], st_to = OfUser Active\<rparr>
      | BulkDeactivate \<Rightarrow> Some \<lparr>st_from = [OfUser Active], st_to = OfUser Inactive\<rparr>
      | BulkSuspend \<Rightarrow> None)"

definition maximum_items :: nat where
  "maximum_items = 100"

definition maximum_reason_characters :: nat where
  "maximum_reason_characters = 500"

definition entity_text :: "bulk_entity \<Rightarrow> string" where
  "entity_text e = (case e of BulkOrganization \<Rightarrow> ''organization'' | BulkUser \<Rightarrow> ''user'')"

definition action_text :: "bulk_action \<Rightarrow> string" where
  "action_text a = (case a of BulkActivate \<Rightarrow> ''activate'' | BulkSuspend \<Rightarrow> ''suspend''
     | BulkDeactivate \<Rightarrow> ''deactivate'')"

definition status_text :: "bulk_status \<Rightarrow> string" where
  "status_text s =
     (case s of OfOrganization OrgActive \<Rightarrow> ''active'' | OfOrganization OrgSuspended \<Rightarrow> ''suspended''
      | OfUser Active \<Rightarrow> ''active'' | OfUser Inactive \<Rightarrow> ''inactive'' | OfUser Locked \<Rightarrow> ''locked'')"

text \<open>\<open>Inr None\<close> is the early return of an empty request.\<close>

definition require_valid_input :: "bulk_input \<Rightarrow> app_error + status_transition option" where
  "require_valid_input inp =
     (if bi_entity_ids inp = [] then Inr None
      else if length (bi_entity_ids inp) > maximum_items
      then Inl (JsError ''Bulk operations are limited to 100 items at a time'')
      else if length (js_set (bi_entity_ids inp)) \<noteq> length (bi_entity_ids inp)
      then Inl (JsError ''Bulk operations require unique entity identifiers'')
      else if (case bi_reason inp of None \<Rightarrow> False | Some r \<Rightarrow> length r > maximum_reason_characters)
      then Inl (JsError ''Bulk operation reason is limited to 500 characters'')
      else if bi_entity_type inp = BulkUser \<and> \<not> truthy (bi_organization_id inp)
      then Inl (JsError ''Organization scope is required for user bulk operations'')
      else case (if bi_entity_type inp = BulkOrganization then organization_transitions
                 else user_transitions) (bi_action inp) of
             None \<Rightarrow> Inl (JsError (''Invalid action '' @ [CHR 0x27] @ action_text (bi_action inp) @
                        [CHR 0x27] @ '' for entity type '' @ [CHR 0x27] @
                        entity_text (bi_entity_type inp) @ [CHR 0x27]))
           | Some t \<Rightarrow> Inr (Some t))"

definition concealed_result :: "string \<Rightarrow> bulk_item_result" where
  "concealed_result i = \<lparr>br_id = i, br_success = False, br_outcome = Failed,
     br_code = Some NotFoundOrNotAuthorized, br_error = Some ''Entity not found or not authorized'',
     br_previous_status = None, br_new_status = None\<rparr>"

definition invalid_transition_result :: "string \<Rightarrow> bulk_status \<Rightarrow> bulk_item_result" where
  "invalid_transition_result i s = \<lparr>br_id = i, br_success = False, br_outcome = Failed,
     br_code = Some InvalidTransition, br_error = Some ''Status transition not allowed'',
     br_previous_status = Some s, br_new_status = None\<rparr>"

definition not_attempted_result :: "string \<Rightarrow> bulk_item_result" where
  "not_attempted_result i = \<lparr>br_id = i, br_success = False, br_outcome = NotAttempted,
     br_code = Some CodeNotAttempted, br_error = Some ''Operation not attempted'',
     br_previous_status = None, br_new_status = None\<rparr>"

definition succeeded_result :: "string \<Rightarrow> bulk_status \<Rightarrow> bulk_status \<Rightarrow> bulk_item_result" where
  "succeeded_result i s t = \<lparr>br_id = i, br_success = True, br_outcome = Succeeded, br_code = None,
     br_error = None, br_previous_status = Some s, br_new_status = Some t\<rparr>"

subsection \<open>Statements\<close>

definition bulk_scope :: "bulk_input \<Rightarrow> string \<Rightarrow> user_row \<Rightarrow> bool" where
  "bulk_scope inp i r \<longleftrightarrow> ur_id r = i \<and> Some (ur_organization_id r) = bi_organization_id inp"

definition current_status :: "bulk_input \<Rightarrow> string \<Rightarrow> db \<Rightarrow> bulk_status option" where
  "current_status inp i d =
     (case bi_entity_type inp of
        BulkUser \<Rightarrow> map_option (\<lambda>r. OfUser (ur_status r)) (find_row (bulk_scope inp i) (db_users d))
      | BulkOrganization \<Rightarrow>
          map_option (\<lambda>r. OfOrganization (og_status r)) (find_row (\<lambda>r. og_id r = i) (db_organizations d)))"

text \<open>The trigger of migration 031 sets \<open>updated_at\<close> on every update.\<close>

definition bulk_user_row :: "time \<Rightarrow> user_status \<Rightarrow> user_row \<Rightarrow> user_row" where
  "bulk_user_row now s r = touch_user now (r\<lparr>ur_status := s\<rparr>)"

definition bulk_organization_row :: "time \<Rightarrow> organization_status \<Rightarrow> organization_row \<Rightarrow> organization_row" where
  "bulk_organization_row now s r =
     r\<lparr>og_status := s, og_updated_at := max now (og_updated_at r + 1)\<rparr>"

definition update_status :: "time \<Rightarrow> bulk_input \<Rightarrow> string \<Rightarrow> bulk_status \<Rightarrow> db \<Rightarrow> db" where
  "update_status now inp i next_status d =
     (case next_status of
        OfUser s \<Rightarrow> d\<lparr>db_users := update_where (bulk_scope inp i) (bulk_user_row now s) (db_users d)\<rparr>
      | OfOrganization s \<Rightarrow> d\<lparr>db_organizations :=
          update_where (\<lambda>r. og_id r = i) (bulk_organization_row now s) (db_organizations d)\<rparr>)"

definition bulk_audit_entry :: "bulk_input \<Rightarrow> string \<Rightarrow> bulk_status \<Rightarrow> bulk_status \<Rightarrow> audit_entry" where
  "bulk_audit_entry inp i previous next_status =
     (blank_entry (''admin.bulk.'' @ entity_text (bi_entity_type inp) @ ''.status_changed'') ''admin'')
       \<lparr>ae_organization_id := (if bi_entity_type inp = BulkOrganization then Some i else bi_organization_id inp),
        ae_user_id := (if bi_entity_type inp = BulkUser then Some i else None),
        ae_actor_id := bi_actor_id inp,
        ae_metadata := Some (JObj [(''action'', JStr (action_text (bi_action inp))),
          (''previousStatus'', JStr (status_text previous)),
          (''newStatus'', JStr (status_text next_status))])\<rparr>"

subsection \<open>The transaction of one item\<close>

text \<open>The statements of an item in order; \<open>CommitAnswer\<close> is a commit that takes effect without an answer.\<close>

datatype item_statement = Connect | Begin | LockRow | UpdateRow | InsertAudit | Commit | CommitAnswer | Rollback

record item_tx =
  it_db :: db
  it_work :: db

definition item_run :: "item_statement option \<Rightarrow> item_statement \<Rightarrow> (db \<Rightarrow> db) \<Rightarrow> (item_tx, unit) op" where
  "item_run flt stmt g t =
     (if flt = Some stmt then (Inl (JsError ''dependency failure''), t)
      else (Inr (), t\<lparr>it_work := g (it_work t)\<rparr>))"

definition item_select :: "item_statement option \<Rightarrow> (db \<Rightarrow> 'a) \<Rightarrow> (item_tx, 'a) op" where
  "item_select flt g t =
     (if flt = Some LockRow then (Inl (JsError ''dependency failure''), t) else (Inr (g (it_work t)), t))"

definition item_commit :: "item_statement option \<Rightarrow> (item_tx, unit) op" where
  "item_commit flt t =
     (if flt = Some Commit then (Inl (JsError ''dependency failure''), t)
      else if flt = Some CommitAnswer then (Inl (JsError ''dependency failure''), t\<lparr>it_db := it_work t\<rparr>)
      else (Inr (), t\<lparr>it_db := it_work t\<rparr>))"

definition item_rollback :: "item_statement option \<Rightarrow> (item_tx, unit) op" where
  "item_rollback flt t =
     (if flt = Some Rollback then (Inl (JsError ''dependency failure''), t)
      else (Inr (), t\<lparr>it_work := it_db t\<rparr>))"

definition insert_bulk_audit ::
    "item_statement option \<Rightarrow> bulk_input \<Rightarrow> string \<Rightarrow> bulk_status \<Rightarrow> bulk_status \<Rightarrow> (item_tx, unit) op" where
  "insert_bulk_audit flt inp i previous next_status =
     (let e = bulk_audit_entry inp i previous next_status
      in case normalize_actor e of
           Inl err \<Rightarrow> throw_op err
         | Inr a \<Rightarrow> item_run flt InsertAudit (insert_audit_row (insert_values e a)))"

definition bulk_item ::
    "item_statement option \<Rightarrow> time \<Rightarrow> bulk_input \<Rightarrow> status_transition \<Rightarrow> string \<Rightarrow> (item_tx, bulk_item_result) op" where
  "bulk_item flt now inp tr i =
     andthen (item_run flt Connect id) (\<lambda>_.
     andthen (item_run flt Begin id) (\<lambda>_.
     andthen (item_select flt (current_status inp i)) (\<lambda>status.
       case status of
         None \<Rightarrow> andthen (item_rollback flt) (\<lambda>_. return_op (concealed_result i))
       | Some previous \<Rightarrow>
           if previous \<notin> set (st_from tr)
           then andthen (item_rollback flt) (\<lambda>_. return_op (invalid_transition_result i previous))
           else
             andthen (item_run flt UpdateRow (update_status now inp i (st_to tr))) (\<lambda>_.
             andthen (insert_bulk_audit flt inp i previous (st_to tr)) (\<lambda>_.
             andthen (item_commit flt) (\<lambda>_.
             return_op (succeeded_result i previous (st_to tr))))))))"

text \<open>The committed database after the item; the uncommitted work of a failed item is lost.\<close>

definition run_item ::
    "item_statement option \<Rightarrow> time \<Rightarrow> bulk_input \<Rightarrow> status_transition \<Rightarrow> string \<Rightarrow> (db, bulk_item_result) op" where
  "run_item flt now inp tr i d =
     (let (r, t) = bulk_item flt now inp tr i \<lparr>it_db = d, it_work = d\<rparr> in (r, it_db t))"

subsection \<open>The request\<close>

record bulk_env =
  bv_fault :: "nat \<Rightarrow> item_statement option"
  bv_now :: "nat \<Rightarrow> time"
  bv_uuid :: string

text \<open>The loop over the items from \<open>index\<close> on: the results, and whether a failure stopped it.\<close>

fun bulk_loop ::
    "bulk_env \<Rightarrow> bulk_input \<Rightarrow> status_transition \<Rightarrow> nat \<Rightarrow> string list \<Rightarrow> db \<Rightarrow>
     (bulk_item_result list \<times> bool) \<times> db" where
  "bulk_loop env inp tr index [] d = (([], False), d)"
| "bulk_loop env inp tr index (i # rest) d =
     (case run_item (bv_fault env index) (bv_now env index) inp tr i d of
        (Inl e, d') \<Rightarrow> ((map not_attempted_result (i # rest), True), d')
      | (Inr r, d') \<Rightarrow>
          (case bulk_loop env inp tr (Suc index) rest d' of ((rs, stop), d'') \<Rightarrow> ((r # rs, stop), d'')))"

definition bulk_status_change :: "bulk_env \<Rightarrow> bulk_input \<Rightarrow> (db, bulk_operation_result) op" where
  "bulk_status_change env inp d =
     (case require_valid_input inp of
        Inl e \<Rightarrow> (Inl e, d)
      | Inr None \<Rightarrow> (Inr \<lparr>bo_total = 0, bo_succeeded = 0, bo_failed = 0, bo_results = [],
                      bo_correlation_id = None\<rparr>, d)
      | Inr (Some tr) \<Rightarrow>
          (case bulk_loop env inp tr 0 (bi_entity_ids inp) d of
             ((results, stop), d') \<Rightarrow>
               (let succeeded = length [r \<leftarrow> results. br_outcome r = Succeeded];
                    n = length (bi_entity_ids inp)
                in (Inr \<lparr>bo_total = n, bo_succeeded = succeeded, bo_failed = n - succeeded,
                      bo_results = results,
                      bo_correlation_id = (if stop then Some (bv_uuid env) else None)\<rparr>, d'))))"

subsection \<open>The routes\<close>

text \<open>
  routes/bulk.ts: the two schemas and handlers behind authentication and permissions. \<open>is_uuid\<close> is the
  format check of the schema library; a body that does not parse is answered with 400.
\<close>

definition parse_bulk_ids :: "(string \<Rightarrow> bool) \<Rightarrow> json \<Rightarrow> string list option" where
  "parse_bulk_ids is_uuid body =
     (case json_get ''ids'' body of
        Some (JArr js) \<Rightarrow>
          (let ids = concat (map (\<lambda>j. case j of JStr s \<Rightarrow> [s] | _ \<Rightarrow> []) js)
           in if length ids = length js \<and> list_all is_uuid ids \<and> 1 \<le> length ids \<and> length ids \<le> 100 \<and>
                 length (js_set ids) = length ids
              then Some ids else None)
      | _ \<Rightarrow> None)"

definition parse_bulk_reason :: "json \<Rightarrow> string option option" where
  "parse_bulk_reason body =
     (case json_get ''reason'' body of
        None \<Rightarrow> Some None
      | Some (JStr r) \<Rightarrow> if length r \<le> 500 then Some (Some r) else None
      | Some _ \<Rightarrow> None)"

definition bulk_org_status_schema :: "(string \<Rightarrow> bool) \<Rightarrow> json \<Rightarrow> (string list \<times> bulk_action \<times> string option) option" where
  "bulk_org_status_schema is_uuid body =
     (case (parse_bulk_ids is_uuid body, json_get ''action'' body, parse_bulk_reason body) of
        (Some ids, Some (JStr a), Some reason) \<Rightarrow>
          if a = ''activate'' then Some (ids, BulkActivate, reason)
          else if a = ''suspend'' then Some (ids, BulkSuspend, reason) else None
      | _ \<Rightarrow> None)"

definition bulk_user_status_schema :: "(string \<Rightarrow> bool) \<Rightarrow> json \<Rightarrow> (string list \<times> bulk_action \<times> string) option" where
  "bulk_user_status_schema is_uuid body =
     (case (parse_bulk_ids is_uuid body, json_get ''action'' body, json_get ''organizationId'' body) of
        (Some ids, Some (JStr a), Some (JStr org)) \<Rightarrow>
          if \<not> is_uuid org then None
          else if a = ''activate'' then Some (ids, BulkActivate, org)
          else if a = ''deactivate'' then Some (ids, BulkDeactivate, org) else None
      | _ \<Rightarrow> None)"

datatype bulk_response = BulkInvalid nat | BulkAnswer bulk_operation_result

definition organizations_status_route ::
    "bulk_env \<Rightarrow> (string \<Rightarrow> bool) \<Rightarrow> string option \<Rightarrow> json \<Rightarrow> (db, bulk_response) op" where
  "organizations_status_route env is_uuid admin_user body =
     (case bulk_org_status_schema is_uuid body of
        None \<Rightarrow> return_op (BulkInvalid 400)
      | Some (ids, a, reason) \<Rightarrow>
          andthen (bulk_status_change env \<lparr>bi_entity_type = BulkOrganization, bi_entity_ids = ids,
            bi_action = a, bi_reason = reason, bi_organization_id = None, bi_actor_id = admin_user\<rparr>)
          (\<lambda>r. return_op (BulkAnswer r)))"

definition users_status_route ::
    "bulk_env \<Rightarrow> (string \<Rightarrow> bool) \<Rightarrow> string option \<Rightarrow> json \<Rightarrow> (db, bulk_response) op" where
  "users_status_route env is_uuid admin_user body =
     (case bulk_user_status_schema is_uuid body of
        None \<Rightarrow> return_op (BulkInvalid 400)
      | Some (ids, a, org) \<Rightarrow>
          andthen (bulk_status_change env \<lparr>bi_entity_type = BulkUser, bi_entity_ids = ids,
            bi_action = a, bi_reason = None, bi_organization_id = Some org, bi_actor_id = admin_user\<rparr>)
          (\<lambda>r. return_op (BulkAnswer r)))"

text \<open>The schemas are as strict as the service: a request that parses is processed, never thrown out.\<close>

lemma parse_bulk_ids_SomeD:
  "parse_bulk_ids is_uuid body = Some ids \<Longrightarrow> ids \<noteq> [] \<and> length ids \<le> 100 \<and> length (js_set ids) = length ids"
  by (auto simp: parse_bulk_ids_def Let_def split: option.splits json.splits if_splits)

lemma organizations_status_answers:
  "\<exists>r d'. organizations_status_route env is_uuid admin_user body d = (Inr r, d')"
  by (auto simp: organizations_status_route_def bulk_org_status_schema_def parse_bulk_reason_def andthen_def
      bulk_status_change_def require_valid_input_def maximum_items_def maximum_reason_characters_def
      organization_transitions_def Let_def dest!: parse_bulk_ids_SomeD
      split: option.splits json.splits if_splits prod.splits)

lemma users_status_answers:
  assumes "\<not> is_uuid []"
  shows "\<exists>r d'. users_status_route env is_uuid admin_user body d = (Inr r, d')"
  using assms
  by (auto simp: users_status_route_def bulk_user_status_schema_def andthen_def
      bulk_status_change_def require_valid_input_def maximum_items_def maximum_reason_characters_def
      user_transitions_def Let_def dest!: parse_bulk_ids_SomeD
      split: option.splits json.splits if_splits prod.splits)

subsection \<open>The contract of an item\<close>

definition bulk_audit_row :: "bulk_input \<Rightarrow> string \<Rightarrow> bulk_status \<Rightarrow> bulk_status \<Rightarrow> audit_row" where
  "bulk_audit_row inp i previous next_status =
     insert_values (bulk_audit_entry inp i previous next_status)
       \<lparr>na_actor_id = (if truthy (bi_actor_id inp) then bi_actor_id inp else None),
        na_actor_type = (if truthy (bi_actor_id inp) then ActorUser else ActorSystem),
        na_actor_client_id = None, na_actor_client_name = None\<rparr>"

text \<open>What an item reports and what it does, as functions of the database it finds.\<close>

definition item_report :: "bulk_input \<Rightarrow> status_transition \<Rightarrow> db \<Rightarrow> string \<Rightarrow> bulk_item_result" where
  "item_report inp tr d i =
     (case current_status inp i d of
        None \<Rightarrow> concealed_result i
      | Some s \<Rightarrow> if s \<in> set (st_from tr) then succeeded_result i s (st_to tr)
                 else invalid_transition_result i s)"

definition item_effect :: "time \<Rightarrow> bulk_input \<Rightarrow> status_transition \<Rightarrow> string \<Rightarrow> db \<Rightarrow> db" where
  "item_effect now inp tr i d =
     (case current_status inp i d of
        None \<Rightarrow> d
      | Some s \<Rightarrow> if s \<in> set (st_from tr)
                 then insert_audit_row (bulk_audit_row inp i s (st_to tr)) (update_status now inp i (st_to tr) d)
                 else d)"

lemma normalize_bulk_actor:
  "normalize_actor (bulk_audit_entry inp i s t) =
     Inr \<lparr>na_actor_id = (if truthy (bi_actor_id inp) then bi_actor_id inp else None),
          na_actor_type = (if truthy (bi_actor_id inp) then ActorUser else ActorSystem),
          na_actor_client_id = None, na_actor_client_name = None\<rparr>"
  by (simp add: normalize_actor_def bulk_audit_entry_def blank_entry_def nullish_def Let_def)

lemmas item_statements = item_run_def item_select_def item_commit_def item_rollback_def
  insert_bulk_audit_def normalize_bulk_actor

lemma run_item_returns:
  assumes "run_item flt now inp tr i d = (Inr r, d')"
  shows "r = item_report inp tr d i" and "d' = item_effect now inp tr i d" and "flt \<noteq> Some CommitAnswer \<or> d' = d"
proof -
  consider (missing) "current_status inp i d = None"
    | (refused) s where "current_status inp i d = Some s" "s \<notin> set (st_from tr)"
    | (changed) s where "current_status inp i d = Some s" "s \<in> set (st_from tr)"
    by (cases "current_status inp i d") auto
  then have "r = item_report inp tr d i \<and> d' = item_effect now inp tr i d \<and> (flt \<noteq> Some CommitAnswer \<or> d' = d)"
    by cases (use assms in \<open>auto simp: run_item_def bulk_item_def item_statements andthen_def Let_def
      item_report_def item_effect_def bulk_audit_row_def split: if_splits\<close>)
  then show "r = item_report inp tr d i" and "d' = item_effect now inp tr i d"
    and "flt \<noteq> Some CommitAnswer \<or> d' = d"
    by blast+
qed

lemma run_item_fails:
  assumes "run_item flt now inp tr i d = (Inl e, d')"
  shows "d' = d \<or> flt = Some CommitAnswer \<and> d' = item_effect now inp tr i d"
proof -
  consider (missing) "current_status inp i d = None"
    | (refused) s where "current_status inp i d = Some s" "s \<notin> set (st_from tr)"
    | (changed) s where "current_status inp i d = Some s" "s \<in> set (st_from tr)"
    by (cases "current_status inp i d") auto
  then show ?thesis
    by cases (use assms in \<open>auto simp: run_item_def bulk_item_def item_statements andthen_def Let_def
      item_effect_def bulk_audit_row_def split: if_splits\<close>)
qed

text \<open>The status column a transition belongs to.\<close>

definition transition_fits :: "bulk_input \<Rightarrow> status_transition \<Rightarrow> bool" where
  "transition_fits inp tr \<longleftrightarrow>
     (case bi_entity_type inp of BulkUser \<Rightarrow> (\<exists>s. st_to tr = OfUser s)
      | BulkOrganization \<Rightarrow> (\<exists>s. st_to tr = OfOrganization s))"

lemma js_set_same_length: "length (js_set xs) = length xs \<longleftrightarrow> distinct xs"
  using distinct_card [OF js_set_distinct [of xs]] card_distinct [of xs] distinct_card [of xs] by auto

lemma require_valid_input_Some:
  assumes "require_valid_input inp = Inr (Some tr)"
  shows "transition_fits inp tr" and "distinct (bi_entity_ids inp)" and "bi_entity_ids inp \<noteq> []"
    and "length (bi_entity_ids inp) \<le> 100"
    and "bi_entity_type inp = BulkUser \<Longrightarrow> truthy (bi_organization_id inp)"
proof -
  note * = assms [unfolded require_valid_input_def maximum_items_def]
  show "transition_fits inp tr"
    using * by (cases "bi_entity_type inp"; cases "bi_action inp")
      (auto simp: transition_fits_def organization_transitions_def user_transitions_def split: if_splits)
  show "distinct (bi_entity_ids inp)"
    using * by (auto simp: js_set_same_length split: if_splits)
  show "bi_entity_ids inp \<noteq> []" and "length (bi_entity_ids inp) \<le> 100"
    and "bi_entity_type inp = BulkUser \<Longrightarrow> truthy (bi_organization_id inp)"
    using * by (auto split: if_splits)
qed

lemma bulk_scope_status [simp]: "bulk_scope inp i (bulk_user_row now s r) = bulk_scope inp i r"
  by (simp add: bulk_scope_def bulk_user_row_def touch_user_def)

lemma bulk_organization_row_id [simp]: "og_id (bulk_organization_row now s r) = og_id r"
  by (simp add: bulk_organization_row_def)

lemma set_status_status [simp]:
  "ur_status (bulk_user_row now s r) = s" "og_status (bulk_organization_row now t q) = t"
  by (simp_all add: bulk_user_row_def bulk_organization_row_def touch_user_def)

lemma current_status_insert_audit [simp]:
  "current_status inp i (insert_audit_row row d) = current_status inp i d"
  by (cases "bi_entity_type inp") (simp_all add: current_status_def)

lemma find_row_map_unchanged:
  "(\<And>r. P (f r) = P r) \<Longrightarrow> (\<And>r. P r \<Longrightarrow> Q r) \<Longrightarrow>
   find_row P (update_where Q f t) = map_option f (find_row P t)"
  by (induction t) (auto simp: table_simps)

lemma find_row_update_disjoint:
  "(\<And>r. P (f r) = P r) \<Longrightarrow> (\<And>r. P r \<Longrightarrow> \<not> Q r) \<Longrightarrow> find_row P (update_where Q f t) = find_row P t"
  by (induction t) (auto simp: table_simps)

lemma bulk_scope_disjoint: "j \<noteq> i \<Longrightarrow> bulk_scope inp j r \<Longrightarrow> \<not> bulk_scope inp i r"
  by (auto simp: bulk_scope_def)

lemma current_status_update:
  assumes "transition_fits inp tr"
  shows "current_status inp j (update_status now inp i (st_to tr) d) =
     (if j = i then map_option (\<lambda>_. st_to tr) (current_status inp i d) else current_status inp j d)"
proof (cases "bi_entity_type inp")
  case BulkUser
  then show ?thesis
    using assms find_row_map_unchanged [of "bulk_scope inp i" "bulk_user_row now _" "bulk_scope inp i"]
      find_row_update_disjoint [of "bulk_scope inp j" "bulk_user_row now _" "bulk_scope inp i"]
    by (auto simp: transition_fits_def current_status_def update_status_def bulk_scope_disjoint
        option.map_comp comp_def)
next
  case BulkOrganization
  then show ?thesis
    using assms
    by (auto simp: transition_fits_def current_status_def update_status_def find_row_map_unchanged
        find_row_update_disjoint option.map_comp comp_def)
qed

lemma current_status_effect:
  assumes "transition_fits inp tr"
  shows "current_status inp j (item_effect now inp tr i d) =
     (if j = i \<and> br_success (item_report inp tr d i) then Some (st_to tr) else current_status inp j d)"
  using current_status_update [OF assms]
  by (auto simp: item_effect_def item_report_def succeeded_result_def invalid_transition_result_def
      concealed_result_def split: option.split)

lemma item_report_cong:
  "current_status inp i d = current_status inp i d' \<Longrightarrow> item_report inp tr d i = item_report inp tr d' i"
  by (simp add: item_report_def)

lemma item_report_fields [simp]:
  "br_id (item_report inp tr d i) = i"
  "br_success (item_report inp tr d i) = (br_outcome (item_report inp tr d i) = Succeeded)"
  "br_id (not_attempted_result i) = i"
  "\<not> br_success (not_attempted_result i)"
  "br_outcome (not_attempted_result i) = NotAttempted"
  by (auto simp: item_report_def succeeded_result_def invalid_transition_result_def
      concealed_result_def not_attempted_result_def split: option.split)

text \<open>The audit rows of the successful items of a list of results.\<close>

definition results_audit :: "bulk_input \<Rightarrow> bulk_item_result list \<Rightarrow> audit_row list" where
  "results_audit inp rs =
     [bulk_audit_row inp (br_id r) (the (br_previous_status r)) (the (br_new_status r)). r \<leftarrow> rs, br_success r]"

lemma results_audit_simps [simp]:
  "results_audit inp [] = []"
  "results_audit inp (r # rs) =
     (if br_success r then [bulk_audit_row inp (br_id r) (the (br_previous_status r)) (the (br_new_status r))] else [])
       @ results_audit inp rs"
  by (simp_all add: results_audit_def)

lemma results_audit_not_attempted [simp]: "results_audit inp (map not_attempted_result xs) = []"
  by (induction xs) simp_all

lemma item_effect_audit:
  "db_audit_log (item_effect now inp tr i d) = db_audit_log d @ results_audit inp [item_report inp tr d i]"
  by (auto simp: item_effect_def item_report_def succeeded_result_def invalid_transition_result_def
      concealed_result_def update_status_def split: option.split bulk_status.split)

subsection \<open>The contract of a request\<close>

lemma bulk_loop_exact:
  assumes "bulk_loop env inp tr index ids d = ((rs, stop), d')" and "transition_fits inp tr"
    and "distinct ids" and "\<And>n. bv_fault env n \<noteq> Some CommitAnswer"
  shows "\<exists>k \<le> length ids. rs = map (item_report inp tr d) (take k ids) @ map not_attempted_result (drop k ids)
           \<and> (stop \<longleftrightarrow> k < length ids)"
    and "current_status inp i d' =
      (if \<exists>r \<in> set rs. br_id r = i \<and> br_success r then Some (st_to tr) else current_status inp i d)"
    and "db_audit_log d' = db_audit_log d @ results_audit inp rs"
proof -
  have "(\<exists>k \<le> length ids. rs = map (item_report inp tr d) (take k ids) @ map not_attempted_result (drop k ids)
           \<and> (stop \<longleftrightarrow> k < length ids)) \<and>
    (\<forall>i. current_status inp i d' =
      (if \<exists>r \<in> set rs. br_id r = i \<and> br_success r then Some (st_to tr) else current_status inp i d)) \<and>
    db_audit_log d' = db_audit_log d @ results_audit inp rs"
    using assms(1,3)
  proof (induction ids arbitrary: index d rs stop)
    case Nil
    then show ?case by simp
  next
    case (Cons x xs)
    obtain q e where step: "run_item (bv_fault env index) (bv_now env index) inp tr x d = (q, e)"
      by (cases "run_item (bv_fault env index) (bv_now env index) inp tr x d")
    show ?case
    proof (cases q)
      case (Inl err)
      with step Cons.prems have "rs = map not_attempted_result (x # xs)" "stop" "d' = e" by auto
      moreover have "e = d"
        using run_item_fails [OF step [unfolded Inl]] assms(4) by blast
      ultimately show ?thesis
        by (intro conjI exI [of _ 0]) auto
    next
      case (Inr r)
      obtain rs' where rest: "bulk_loop env inp tr (Suc index) xs e = ((rs', stop), d')" and rs: "rs = r # rs'"
        using Cons.prems(1) step Inr by (auto split: prod.splits)
      have r: "r = item_report inp tr d x" and e: "e = item_effect (bv_now env index) inp tr x d"
        using run_item_returns [OF step [unfolded Inr]] by blast+
      have x: "x \<notin> set xs" and "distinct xs" using Cons.prems(2) by auto
      have same: "current_status inp i e = current_status inp i d" if "i \<noteq> x" for i
        using that by (simp add: e current_status_effect [OF assms(2)])
      have reports: "map (item_report inp tr e) (take k xs) = map (item_report inp tr d) (take k xs)" for k
        using x in_set_takeD by (intro map_cong item_report_cong same) fastforce+
      from Cons.IH [OF rest \<open>distinct xs\<close>]
      obtain k where k: "k \<le> length xs" "stop \<longleftrightarrow> k < length xs"
        "rs' = map (item_report inp tr e) (take k xs) @ map not_attempted_result (drop k xs)"
        and status: "\<And>i. current_status inp i d' =
          (if \<exists>r \<in> set rs'. br_id r = i \<and> br_success r then Some (st_to tr) else current_status inp i e)"
        and audit: "db_audit_log d' = db_audit_log e @ results_audit inp rs'"
        by blast
      have ids: "br_id s \<in> set xs" if "s \<in> set rs'" for s
        using that k(3) by (auto dest: in_set_takeD in_set_dropD)
      show ?thesis
      proof (intro conjI allI)
        show "\<exists>k \<le> length (x # xs). rs = map (item_report inp tr d) (take k (x # xs)) @
            map not_attempted_result (drop k (x # xs)) \<and> (stop \<longleftrightarrow> k < length (x # xs))"
          using k reports by (intro exI [of _ "Suc k"]) (simp add: rs r)
        show "current_status inp i d' =
          (if \<exists>r \<in> set rs. br_id r = i \<and> br_success r then Some (st_to tr) else current_status inp i d)" for i
          using status [of i] ids x current_status_effect [OF assms(2), of i "bv_now env index" x d]
          by (auto simp: rs r e)
        show "db_audit_log d' = db_audit_log d @ results_audit inp rs"
          using audit by (simp add: rs r e item_effect_audit)
      qed
    qed
  qed
  then show "\<exists>k \<le> length ids. rs = map (item_report inp tr d) (take k ids) @ map not_attempted_result (drop k ids)
           \<and> (stop \<longleftrightarrow> k < length ids)"
    and "current_status inp i d' =
      (if \<exists>r \<in> set rs. br_id r = i \<and> br_success r then Some (st_to tr) else current_status inp i d)"
    and "db_audit_log d' = db_audit_log d @ results_audit inp rs"
    by blast+
qed

subsection \<open>What a request can change\<close>

text \<open>
  A changed row is a row of the request and of its organization, its status made one transition of the
  table, and its \<open>updated_at\<close> grew. Nothing else of the row changed.
\<close>

definition user_transitioned :: "bulk_input \<Rightarrow> status_transition \<Rightarrow> string list \<Rightarrow> user_row \<Rightarrow> user_row \<Rightarrow> bool" where
  "user_transitioned inp tr ids u u' \<longleftrightarrow>
     ur_id u \<in> set ids \<and> Some (ur_organization_id u) = bi_organization_id inp \<and>
     OfUser (ur_status u) \<in> set (st_from tr) \<and> OfUser (ur_status u') = st_to tr \<and>
     ur_updated_at u < ur_updated_at u' \<and>
     u' = u\<lparr>ur_status := ur_status u', ur_updated_at := ur_updated_at u'\<rparr>"

lemma find_row_scope:
  "unique_on ur_id t \<Longrightarrow> u \<in> set t \<Longrightarrow> bulk_scope inp i u \<Longrightarrow> find_row (bulk_scope inp i) t = Some u"
  by (induction t) (auto simp: unique_on_def bulk_scope_def)

lemma item_effect_users:
  assumes "bi_entity_type inp = BulkUser" and "transition_fits inp tr" and "unique_on ur_id (db_users d)"
  shows "list_all2 (\<lambda>u u'. u' = u \<or> user_transitioned inp tr [i] u u') (db_users d) (db_users (item_effect now inp tr i d))"
    and "map ur_id (db_users (item_effect now inp tr i d)) = map ur_id (db_users d)"
    and "(item_effect now inp tr i d)\<lparr>db_users := U, db_audit_log := A\<rparr> = d\<lparr>db_users := U, db_audit_log := A\<rparr>"
proof -
  obtain s where to: "st_to tr = OfUser s" using assms(1,2) by (auto simp: transition_fits_def)
  have only: "u \<in> set (db_users d) \<Longrightarrow> bulk_scope inp i u \<Longrightarrow> find_row (bulk_scope inp i) (db_users d) = Some u" for u
    using find_row_scope [OF assms(3)] .
  show "list_all2 (\<lambda>u u'. u' = u \<or> user_transitioned inp tr [i] u u') (db_users d) (db_users (item_effect now inp tr i d))"
    using only assms(1)
    by (auto simp: item_effect_def current_status_def update_status_def to update_where_def
        list.rel_map list.rel_refl_strong user_transitioned_def bulk_scope_def bulk_user_row_def
        touch_user_def split: option.split intro!: list.rel_refl_strong)
  show "map ur_id (db_users (item_effect now inp tr i d)) = map ur_id (db_users d)"
    by (auto simp: item_effect_def update_status_def to update_where_def bulk_user_row_def
        touch_user_def split: option.split)
  show "(item_effect now inp tr i d)\<lparr>db_users := U, db_audit_log := A\<rparr> = d\<lparr>db_users := U, db_audit_log := A\<rparr>"
    by (auto simp: item_effect_def update_status_def to insert_audit_row_def split: option.split)
qed

lemma run_item_committed:
  assumes "run_item flt now inp tr i d = (q, d')"
  obtains "d' = d" | "d' = item_effect now inp tr i d"
  using assms run_item_returns(2) run_item_fails by (cases q) blast+

lemma run_item_users:
  assumes "run_item flt now inp tr i d = (q, d')" and "bi_entity_type inp = BulkUser"
    and "transition_fits inp tr" and "unique_on ur_id (db_users d)"
  shows "list_all2 (\<lambda>u u'. u' = u \<or> user_transitioned inp tr [i] u u') (db_users d) (db_users d')"
    and "unique_on ur_id (db_users d')" and "d'\<lparr>db_users := U, db_audit_log := A\<rparr> = d\<lparr>db_users := U, db_audit_log := A\<rparr>"
  by (rule run_item_committed [OF assms(1)];
      use item_effect_users [OF assms(2,3,4)] assms(4) in \<open>simp add: unique_on_def list.rel_refl\<close>)+

lemma bulk_loop_users:
  assumes "bulk_loop env inp tr index ids d = (q, d')" and "bi_entity_type inp = BulkUser"
    and "transition_fits inp tr" and "unique_on ur_id (db_users d)" and "distinct ids"
  shows "list_all2 (\<lambda>u u'. u' = u \<or> user_transitioned inp tr ids u u') (db_users d) (db_users d') \<and>
    d'\<lparr>db_users := U, db_audit_log := A\<rparr> = d\<lparr>db_users := U, db_audit_log := A\<rparr>"
  using assms(1,4,5)
proof (induction ids arbitrary: index d q)
  case Nil
  then show ?case by (simp add: list.rel_refl)
next
  case (Cons x xs)
  obtain p e where step: "run_item (bv_fault env index) (bv_now env index) inp tr x d = (p, e)"
    by (cases "run_item (bv_fault env index) (bv_now env index) inp tr x d")
  note one = run_item_users [OF step assms(2,3) Cons.prems(2)]
  have wide: "user_transitioned inp tr [x] u u' \<Longrightarrow> user_transitioned inp tr (x # xs) u u'" for u u'
    by (simp add: user_transitioned_def)
  show ?case
  proof (cases p)
    case (Inl err)
    with step Cons.prems(1) have "d' = e" by auto
    then show ?thesis
      using one(1,3) by (auto elim!: list_all2_mono intro: wide)
  next
    case (Inr r)
    obtain q' where "bulk_loop env inp tr (Suc index) xs e = (q', d')"
      using Cons.prems(1) step Inr by (auto split: prod.splits)
    from Cons.IH [OF this one(2)] Cons.prems(3)
    have rest: "list_all2 (\<lambda>u u'. u' = u \<or> user_transitioned inp tr xs u u') (db_users e) (db_users d')"
      and frame: "d'\<lparr>db_users := U, db_audit_log := A\<rparr> = e\<lparr>db_users := U, db_audit_log := A\<rparr>"
      by simp_all
    have "list_all2 (\<lambda>u u'. u' = u \<or> user_transitioned inp tr (x # xs) u u') (db_users d) (db_users d')"
    proof (rule list_all2_trans [OF _ one(1) rest])
      fix u v w
      assume "v = u \<or> user_transitioned inp tr [x] u v" and "w = v \<or> user_transitioned inp tr xs v w"
      moreover have "ur_id v = ur_id u" if "user_transitioned inp tr [x] u v"
        using that by (metis (no_types, lifting) user_row.select_convs(1) user_row.surjective
            user_row.update_convs(11,19) user_transitioned_def)
      ultimately show "w = u \<or> user_transitioned inp tr (x # xs) u w"
        using Cons.prems(3) by (auto simp: user_transitioned_def)
    qed
    then show ?thesis using frame one(3) by simp
  qed
qed

end
