(* ===== verification/BulkProperties.thy ===== *)
theory BulkProperties
  imports BulkOperations OrganizationProperties
begin


definition bulk_sample_input :: bulk_input where
  "bulk_sample_input = \<lparr>bi_entity_type = BulkOrganization, bi_entity_ids = [''o1'', ''o7'', ''o2''],
     bi_action = BulkSuspend, bi_reason = None, bi_organization_id = None, bi_actor_id = Some ''u1''\<rparr>"

definition bulk_sample_db :: db where
  "bulk_sample_db = empty_db\<lparr>db_organizations :=
     [sample_org ''o0'' ''porta-admin'' True, sample_org ''o1'' ''acme'' False, sample_org ''o2'' ''beta'' False]\<rparr>"

text \<open>The third item loses its connection: one organization is suspended, one unknown, one not attempted.\<close>

definition bulk_sample_env :: bulk_env where
  "bulk_sample_env = \<lparr>bv_fault = (\<lambda>n. if n = 2 then Some UpdateRow else None), bv_now = (\<lambda>_. 10),
     bv_uuid = ''c1''\<rparr>"



text \<open>
  A bulk change of users stays inside its organization, whatever statements fail and
  also when a commit takes effect without an answer. Every row either stays as it was or belongs to the
  request and its organization and made one transition of the table; no other table changes except
  the audit log, and a request that is not valid changes nothing.
\<close>

theorem bulk_users_confined:
  assumes "bi_entity_type inp = BulkUser" and "unique_on ur_id (db_users d)"
    and "d' = snd (bulk_status_change env inp d)"
  shows "list_all2 (\<lambda>u u'. u' = u \<or>
      (case require_valid_input inp of
         Inr (Some tr) \<Rightarrow> user_transitioned inp tr (bi_entity_ids inp) u u' | _ \<Rightarrow> False))
     (db_users d) (db_users d') \<and>
    d' = d\<lparr>db_users := db_users d', db_audit_log := db_audit_log d'\<rparr>"
proof (cases "\<exists>tr. require_valid_input inp = Inr (Some tr)")
  case True
  then obtain tr where tr: "require_valid_input inp = Inr (Some tr)" by blast
  obtain q where loop: "bulk_loop env inp tr 0 (bi_entity_ids inp) d = (q, d')"
    using assms(3) tr by (auto simp: bulk_status_change_def Let_def split: prod.splits)
  from bulk_loop_users [OF loop assms(1) require_valid_input_Some(1) [OF tr] assms(2)
      require_valid_input_Some(2) [OF tr], of "db_audit_log d'" "db_users d'"]
  show ?thesis by (simp add: tr)
next
  case False
  then have "d' = d"
    using assms(3) by (auto simp: bulk_status_change_def split: sum.splits option.splits)
  then show ?thesis by (simp add: list.rel_refl)
qed

definition bulk_user :: "string \<Rightarrow> string \<Rightarrow> user_row" where
  "bulk_user i org = \<lparr>ur_id = i, ur_organization_id = org, ur_email = i, ur_email_verified = True,
     ur_password_hash = None, ur_password_changed_at = None, ur_profile = (\<lambda>_. None),
     ur_phone_number_verified = False, ur_two_factor_enabled = False, ur_two_factor_method = None,
     ur_status = Active, ur_locked_at = None, ur_locked_reason = None, ur_last_login_at = None,
     ur_login_count = 0, ur_failed_login_count = 0, ur_last_failed_login_at = None,
     ur_created_at = 0, ur_updated_at = 0\<rparr>"

definition bulk_users_input :: bulk_input where
  "bulk_users_input = \<lparr>bi_entity_type = BulkUser, bi_entity_ids = [''u1'', ''u2''],
     bi_action = BulkDeactivate, bi_reason = None, bi_organization_id = Some ''o1'', bi_actor_id = None\<rparr>"

text \<open>A user of another organization is in the request and stays active.\<close>

theorem bulk_users_confined_witness:
  "map ur_status (db_users (snd (bulk_status_change bulk_sample_env bulk_users_input
     (empty_db\<lparr>db_users := [bulk_user ''u1'' ''o1'', bulk_user ''u2'' ''o2'']\<rparr>)))) = [Inactive, Active]"
proof -
  let ?d = "empty_db\<lparr>db_users := [bulk_user ''u1'' ''o1'', bulk_user ''u2'' ''o2'']\<rparr>"
  let ?users = "db_users (snd (bulk_status_change bulk_sample_env bulk_users_input ?d))"
  have valid: "require_valid_input bulk_users_input =
      Inr (Some \<lparr>st_from = [OfUser Active], st_to = OfUser Inactive\<rparr>)"
    by code_simp
  have "unique_on ur_id (db_users ?d)" by code_simp
  then have "list_all2 (\<lambda>u u'. u' = u \<or> user_transitioned bulk_users_input
      \<lparr>st_from = [OfUser Active], st_to = OfUser Inactive\<rparr> [''u1'', ''u2''] u u') (db_users ?d) ?users"
    using bulk_users_confined [of bulk_users_input ?d _ bulk_sample_env, OF _ _ refl]
    by (simp add: valid) (simp add: bulk_users_input_def)
  then obtain v w where vw: "?users = [v, w]"
    and "w = bulk_user ''u2'' ''o2'' \<or> user_transitioned bulk_users_input
      \<lparr>st_from = [OfUser Active], st_to = OfUser Inactive\<rparr> [''u1'', ''u2''] (bulk_user ''u2'' ''o2'') w"
    by (auto simp: list_all2_Cons1)
  then have "w = bulk_user ''u2'' ''o2''"
    by (simp add: user_transitioned_def bulk_users_input_def bulk_user_def)
  moreover have "map ur_status (take 1 ?users) = [Inactive]"
    by code_simp
  ultimately show ?thesis
    using vw by (simp add: bulk_user_def)
qed

subsection \<open>What a bulk change does not take care of\<close>

text \<open>
  \<open>suspendOrganization\<close> refuses the super-admin organization and drops the cached tenant; the bulk
  change of the same organizations does neither.
\<close>

definition suspend_both :: bulk_input where
  "suspend_both = \<lparr>bi_entity_type = BulkOrganization, bi_entity_ids = [''o0'', ''o1''],
     bi_action = BulkSuspend, bi_reason = None, bi_organization_id = None, bi_actor_id = Some ''u1''\<rparr>"

definition bulk_suspended_flow :: flow where
  "bulk_suspended_flow =
     (let f = snd (tenant_resolver 5 (Some ''acme'') (idle_flow org_sample_store))
      in with_db (snd (bulk_status_change bulk_sample_env suspend_both (flow_db f))) f)"

lemma bulk_suspends_control_plane:
  "map (\<lambda>r. (og_is_super_admin r, og_status r)) (db_organizations (flow_db bulk_suspended_flow)) =
     [(True, OrgSuspended), (False, OrgSuspended)]"
  by code_simp

lemma bulk_suspension_leaves_cached_tenant:
  "(case fst (tenant_resolver 11 (Some ''acme'') bulk_suspended_flow) of
      Inr (Tenant o') \<Rightarrow> og_id o' = ''o1'' | _ \<Rightarrow> False)"
  by code_simp

text \<open>A commit that takes effect without an answer is reported as not attempted.\<close>

lemma committed_item_reported_as_not_attempted:
  "map_prod (map_sum (\<lambda>_. ()) (\<lambda>r. map br_outcome (bo_results r)))
     (\<lambda>d. map og_status (db_organizations d))
     (bulk_status_change (bulk_sample_env\<lparr>bv_fault := (\<lambda>n. if n = 0 then Some CommitAnswer else None)\<rparr>)
        bulk_sample_input bulk_sample_db) =
   (Inr [NotAttempted, NotAttempted, NotAttempted], [OrgActive, OrgSuspended, OrgActive])"
  by code_simp

end
