(* ===== verification/Spec2Isabelle.thy ===== *)
theory Spec2Isabelle
  imports UserProperties TokenProperties SystemConfig RateLimiter Slugs OrganizationProperties
    AdminProperties TwoFactorTheorems RecoveryTheorems RecoveryScheduler ListingTheorems
    ClientTheorems ClaimProperties AdapterProperties GuardProperties
    PortabilityConfinement BulkProperties
begin

text \<open>
  Porta, a multi-tenant OpenID Connect provider: the server package (\<open>src/packages/server/src\<close>).

  \<^bold>\<open>The program.\<close> Porta is a Node process over PostgreSQL and Redis. Services (users,
  organizations, applications, roles, two-factor, recovery) validate, call repository functions that
  each issue one or a few SQL statements, keep a cache-aside copy in Redis, and write an audit row.
  Administrative mutations run inside one transaction that the admin middleware opens
  (\<open>runDatabaseTransaction\<close>, lib/database.ts); effects on Redis and audit rows are deferred until after
  the commit (\<open>afterDatabaseCommit\<close>).

  \<^bold>\<open>State.\<close> \<open>Prelude\<close> and \<open>Database\<close> hold the tables of the migrations as lists of row records, the
  SQL statements as functions on them, the Redis store as an association list from keys to values
  with an expiry, and \<open>app_error\<close>, one constructor per \<open>Error\<close> class. An operation is a function from a
  state to an error or a result together with the next state. \<open>Transaction\<close> models lib/database.ts: a
  \<open>flow\<close> is what one asynchronous request sees (the database, the store, the open transaction and
  its deferred effects).

  \<^bold>\<open>Components\<close> (theory: files under \<open>src/packages/server/src\<close>).
  \<^item> \<open>Transaction\<close>, \<open>AuditLog\<close>, \<open>DeletionCleanup\<close>: lib/database.ts, audit-log.ts, deletion-cleanup.ts.
  \<^item> \<open>UserRepository\<close>, \<open>UserDeletion\<close>, \<open>UserService\<close>, \<open>UserLogin\<close>: users/.
  \<^item> \<open>TokenRepository\<close>, \<open>Invitations\<close>: auth/token-repository.ts, users/invitation*.ts, routes/invitation.ts.
  \<^item> \<open>SystemConfig\<close>, \<open>RateLimiter\<close>, \<open>Slugs\<close>, \<open>LoginMethods\<close>: lib/system-config*.ts, auth/rate-limiter.ts,
    the slug modules, clients/resolve-login-methods.ts.
  \<^item> \<open>Organizations\<close>: organizations/ and middleware/tenant-resolver.ts.
  \<^item> \<open>Applications\<close>, \<open>RbacRepository\<close>, \<open>RbacService\<close>, \<open>UserRoles\<close>,
    \<open>AdminPermissions\<close>, \<open>AdminAuth\<close>: applications/, rbac/, the admin middleware.
  \<^item> \<open>TwoFactor\<close>: two-factor/.
  \<^item> \<open>RecoveryJobs\<close>, \<open>RecoveryCrypto\<close> over \<open>Json\<close> and \<open>Bytes\<close>: the durable recovery queue and the
    protection of its addresses; \<open>RecoveryWorker\<close>, \<open>RecoveryProcessor\<close>, \<open>RecoveryScheduler\<close>: the worker that
    empties the queue, what it does for one job, and when its cycles run. \<open>await\<close> lets each database
    call answer, be refused, or take effect and lose its answer (\<open>ww_script\<close>); the theorems quantify over
    the script. Six cycles for each job suffice to empty the queue: five charged attempts and the one
    that closes a job whose last lease ran out.
  \<^item> \<open>Translations\<close>, \<open>Email\<close>: auth/i18n.ts, auth/effective-branding.ts, the e-mail renderer and service.
  \<^item> \<open>Cursor\<close>, \<open>Listings\<close>: lib/cursor.ts, lib/etag.ts, the offset and keyset listings of
    the repositories with their handlers, and \<open>listAll\<close> of packages/sdk/src/pagination.
  \<^item> \<open>CustomClaims\<close>: custom-claims/, users/claims.ts and oidc/account-finder.ts.
  \<^item> \<open>OidcAdapters\<close>: lib/session-tracking.ts, the two storage adapters of the provider and
    their dispatch.
  \<^item> \<open>ClientValidators\<close>, \<open>ClientSecrets\<close>, \<open>Clients\<close>, \<open>ClientSecretBridge\<close>: clients/ and
    middleware/client-secret-hash.ts.
  \<^item> \<open>RequestLimits\<close>, \<open>TenantGuards\<close>, \<open>SecurityDecisions\<close>: the limiters, guards and error handler of middleware/
    and the terminal security decisions of security/.
  \<^item> \<open>Images\<close>: lib/image-validator.ts, lib/branding-assets.ts.
  \<^item> \<open>Portability\<close>, \<open>PortabilityPlan\<close>, \<open>PortabilityImport\<close>: the manifests of portability/,
    the plan of an import, its writers, and the transaction that applies it. The planner's loops read only
    the manifest, the snapshot and the duplicates, so each is a function from a record to a decision.
    \<open>PortabilityConfinement\<close> proves the contract of every writer (\<open>obeys\<close>) and from them that an import
    stays inside its scope.
  \<^item> \<open>BulkOperations\<close>: lib/bulk-operations.ts and routes/bulk.ts. Each item runs its own transaction and any
    of its statements may fail.

  \<^bold>\<open>Interfaces.\<close> \<open>transaction_boundary\<close> (interpreted as \<open>tx\<close> on \<open>run_database_transaction\<close>) states what
  the services rely on: commit or restore. \<open>db_invariant\<close> lifts an invariant of the database through
  flows (\<open>users\<close>, \<open>control\<close>, \<open>claim_tables\<close>); \<open>store_invariant\<close> adds a law about the cache (\<open>cp\<close>, \<open>clients\<close>, \<open>secrets\<close>). \<open>single_use\<close>
  bounds how often an artifact is accepted (\<open>tokens\<close>, \<open>totp\<close>) and a recovery job is settled
  (\<open>recovery\<close>) or an artifact of the provider is consumed (\<open>artifacts\<close>).
  \<open>adapter_predicate\<close>, which extends \<open>cascade_predicate\<close>, lists the statements and commands of the storage
  adapters that a predicate must survive (\<open>revoked\<close>, \<open>payload_keys\<close>, \<open>spent\<close>).
  \<open>paged_endpoint\<close> is what a client that collects all pages relies on; \<open>keyset\<close> interprets it on the
  keyset queries.

  \<^bold>\<open>Parameters.\<close> Clocks, random bytes, generated identifiers, hashing and encryption, the locale
  collation of \<open>ORDER BY\<close>, the OIDC provider and the mail transport are arguments, grouped in
  environment records per component.

  \<^bold>\<open>Not modelled.\<close> The HTTP routes and rendered pages over the modelled services (routes/), start-up,
  configuration and logging, the transport of mail and its template engine, the options of the OIDC
  provider, signing keys, history and statistics, magic-link sessions and CSRF tokens
  (auth/magic-link-session.ts, csrf.ts), the export half of portability/, and the other packages (of the SDK
  only the pagination is modelled, of the command-line client nothing): input and output over what is
  modelled, or options of libraries. SQL statements are atomic; two statements of concurrent requests
  interleave only where a theorem says so.
\<close>

end
